(* ===== verification/Prelude.thy ===== *)
theory Prelude
  imports Main "HOL-Library.AList" "HOL-Library.Sublist"
begin

text \<open>
  Shared vocabulary of the development: the JavaScript values and containers the runtime's
  TypeScript code is written over, and the generic lemmas on them.

  \<^item> A \<^verbatim>\<open>Map\<close> is an association list with distinct keys in insertion order, the order its
    iterators use: \<open>map_of\<close> is \<^verbatim>\<open>get\<close>, \<open>AList.update\<close> is \<^verbatim>\<open>set\<close> (an existing key keeps its
    place), \<open>AList.delete\<close> is \<^verbatim>\<open>delete\<close>. A \<^verbatim>\<open>Set\<close> is a distinct list in insertion order.
  \<^item> Strings are lists of code units, numbers are integers; a number that may be \<^verbatim>\<open>NaN\<close> or
    infinite is a value of \<open>jsnum\<close>. An optional field or an \<^verbatim>\<open>undefined\<close> result is an
    \<open>option\<close>, a thrown error the left value of a sum.
  \<^item> \<open>json\<close> is the type of plain JSON values (\<^verbatim>\<open>unknown\<close> in the source's signatures).
\<close>

named_theorems js_map \<open>what lookups return after a Map or Set is changed\<close>
named_theorems js_str \<open>splitting and joining strings\<close>

subsection \<open>Maps and sets with insertion order\<close>

type_synonym ('k, 'v) jsmap = "('k \<times> 'v) list"

abbreviation js_get :: "('k, 'v) jsmap \<Rightarrow> 'k \<Rightarrow> 'v option" where
  "js_get \<equiv> map_of"

abbreviation js_set :: "'k \<Rightarrow> 'v \<Rightarrow> ('k, 'v) jsmap \<Rightarrow> ('k, 'v) jsmap" where
  "js_set \<equiv> AList.update"

abbreviation js_delete :: "'k \<Rightarrow> ('k, 'v) jsmap \<Rightarrow> ('k, 'v) jsmap" where
  "js_delete \<equiv> AList.delete"

definition js_keys :: "('k, 'v) jsmap \<Rightarrow> 'k list" where
  "js_keys m = map fst m"

definition js_values :: "('k, 'v) jsmap \<Rightarrow> 'v list" where
  "js_values m = map snd m"

definition wf_jsmap :: "('k, 'v) jsmap \<Rightarrow> bool" where
  "wf_jsmap m = distinct (map fst m)"

definition set_add :: "'a \<Rightarrow> 'a list \<Rightarrow> 'a list" where
  "set_add x xs = (if x \<in> set xs then xs else xs @ [x])"

definition set_delete :: "'a \<Rightarrow> 'a list \<Rightarrow> 'a list" where
  "set_delete x xs = filter (\<lambda>y. y \<noteq> x) xs"

lemma js_get_set [js_map, simp]: "js_get (js_set k v m) k' = (if k' = k then Some v else js_get m k')"
  by (simp add: update_conv)

lemma js_get_delete [js_map, simp]: "js_get (js_delete k m) k' = (if k' = k then None else js_get m k')"
  by (simp add: delete_conv)

lemma wf_jsmap_Nil [simp]: "wf_jsmap []"
  by (simp add: wf_jsmap_def)

lemma wf_jsmap_set [intro, simp]: "wf_jsmap m \<Longrightarrow> wf_jsmap (js_set k v m)"
  by (simp add: wf_jsmap_def distinct_update)

lemma wf_jsmap_delete [intro, simp]: "wf_jsmap m \<Longrightarrow> wf_jsmap (js_delete k m)"
  by (simp add: wf_jsmap_def distinct_delete)

lemma wf_jsmap_filter [intro, simp]: "wf_jsmap m \<Longrightarrow> wf_jsmap (filter P m)"
  by (simp add: wf_jsmap_def distinct_map_filter)

lemma js_get_SomeD: "js_get m k = Some v \<Longrightarrow> (k, v) \<in> set m"
  by (rule map_of_SomeD)

lemma js_get_iff: "wf_jsmap m \<Longrightarrow> js_get m k = Some v \<longleftrightarrow> (k, v) \<in> set m"
  by (simp add: wf_jsmap_def)

lemma js_get_filter_key:
  "wf_jsmap m \<Longrightarrow>
   js_get (filter P m) k = (case js_get m k of None \<Rightarrow> None | Some v \<Rightarrow> if P (k, v) then Some v else None)"
proof (induction m)
  case (Cons p m)
  moreover obtain k' v' where "p = (k', v')"
    by (cases p)
  ultimately show ?case
    by (auto simp: wf_jsmap_def split: option.splits) force+
qed simp

lemma set_js_values: "wf_jsmap m \<Longrightarrow> v \<in> set (js_values m) \<longleftrightarrow> (\<exists>k. js_get m k = Some v)"
  by (force simp: js_values_def js_get_iff)

lemma set_js_keys [simp]: "k \<in> set (js_keys m) \<longleftrightarrow> js_get m k \<noteq> None"
  by (simp add: js_keys_def map_of_eq_None_iff)

lemma set_set_add [js_map, simp]: "set (set_add x xs) = insert x (set xs)"
  by (auto simp: set_add_def)

lemma distinct_set_add [intro, simp]: "distinct xs \<Longrightarrow> distinct (set_add x xs)"
  by (simp add: set_add_def)

lemma set_set_delete [js_map, simp]: "set (set_delete x xs) = set xs - {x}"
  by (auto simp: set_delete_def)

lemma distinct_set_delete [intro, simp]: "distinct xs \<Longrightarrow> distinct (set_delete x xs)"
  by (simp add: set_delete_def)

text \<open>The operator \<^verbatim>\<open>x ?? d\<close> on a value that may be undefined.\<close>

definition opt_or :: "'a option \<Rightarrow> 'a \<Rightarrow> 'a" where
  "opt_or x d = (case x of Some v \<Rightarrow> v | None \<Rightarrow> d)"

lemma opt_or_simps [simp]: "opt_or None d = d" "opt_or (Some v) d = v"
  by (simp_all add: opt_or_def)

subsection \<open>Numbers that may not be finite\<close>

datatype jsnum = Num int | NaN | PosInf | NegInf

fun is_finite :: "jsnum \<Rightarrow> bool" where
  "is_finite (Num n) = True"
| "is_finite _ = False"

text \<open>The comparison \<^verbatim>\<open>x <= 0\<close>: false for \<^verbatim>\<open>NaN\<close>.\<close>

fun le_zero :: "jsnum \<Rightarrow> bool" where
  "le_zero (Num n) = (n \<le> 0)"
| "le_zero NegInf = True"
| "le_zero _ = False"

subsection \<open>Splitting and joining strings\<close>

fun split_on :: "'a \<Rightarrow> 'a list \<Rightarrow> 'a list list" where
  "split_on c [] = [[]]"
| "split_on c (x # xs) =
     (if x = c then [] # split_on c xs
      else (case split_on c xs of [] \<Rightarrow> [[x]] | y # ys \<Rightarrow> (x # y) # ys))"

fun join_with :: "'a \<Rightarrow> 'a list list \<Rightarrow> 'a list" where
  "join_with c [] = []"
| "join_with c [p] = p"
| "join_with c (p # q # ps) = p @ c # join_with c (q # ps)"

lemma split_on_not_Nil [simp]: "split_on c xs \<noteq> []"
  by (cases xs) (auto split: list.splits)

lemma split_on_parts: "p \<in> set (split_on c xs) \<Longrightarrow> c \<notin> set p"
  by (induction xs arbitrary: p) (auto split: if_splits list.splits)

lemma join_split [js_str, simp]: "join_with c (split_on c xs) = xs"
proof (induction xs)
  case (Cons x xs)
  obtain y ys where "split_on c xs = y # ys"
    by (meson neq_Nil_conv split_on_not_Nil)
  with Cons.IH show ?case
    by (cases ys) auto
qed simp

lemma split_on_no_sep: "c \<notin> set xs \<Longrightarrow> split_on c xs = [xs]"
  by (induction xs) auto

lemma split_on_append_sep: "split_on c (xs @ c # ys) = split_on c xs @ split_on c ys"
  by (induction xs) (auto split: list.splits)

lemma split_join [js_str]:
  "ps \<noteq> [] \<Longrightarrow> (\<And>p. p \<in> set ps \<Longrightarrow> c \<notin> set p) \<Longrightarrow> split_on c (join_with c ps) = ps"
proof (induction c ps rule: join_with.induct)
  case (3 c p q ps)
  then show ?case
    by (simp add: split_on_append_sep split_on_no_sep)
qed (auto simp: split_on_no_sep)

lemma set_join_with: "p \<in> set ps \<Longrightarrow> set p \<subseteq> set (join_with c ps)"
  by (induction c ps rule: join_with.induct) auto

lemma set_split_on: "p \<in> set (split_on c xs) \<Longrightarrow> set p \<subseteq> set xs"
  using set_join_with [of p "split_on c xs" c] by simp

lemma join_with_eq_Nil: "join_with c ps = [] \<longleftrightarrow> ps = [] \<or> ps = [[]]"
  by (induction c ps rule: join_with.induct) auto

lemma join_with_snoc: "ps \<noteq> [] \<Longrightarrow> join_with c (ps @ [p]) = join_with c ps @ c # p"
proof (induction ps)
  case (Cons a ps)
  then show ?case by (cases ps) auto
qed simp

lemma join_with_append:
  "ps \<noteq> [] \<Longrightarrow> qs \<noteq> [] \<Longrightarrow> join_with c (ps @ qs) = join_with c ps @ c # join_with c qs"
proof (induction ps)
  case (Cons a ps)
  then show ?case
    by (cases ps; cases qs) auto
qed simp

lemma sep_inject [js_str]:
  "c \<notin> set xs \<Longrightarrow> c \<notin> set ys \<Longrightarrow> xs @ c # us = ys @ c # vs \<longleftrightarrow> xs = ys \<and> us = vs"
proof (induction xs arbitrary: ys)
  case Nil
  then show ?case by (cases ys) auto
next
  case (Cons x xs)
  then show ?case by (cases ys) auto
qed

subsection \<open>Decimal text of a number\<close>

fun show_nat :: "nat \<Rightarrow> string" where
  "show_nat n =
     (if n < 10 then [char_of (48 + n)] else show_nat (n div 10) @ [char_of (48 + n mod 10)])"

declare show_nat.simps [simp del]

lemma digit_char_inj: "m < 10 \<Longrightarrow> n < 10 \<Longrightarrow> (char_of (48 + m) :: char) = char_of (48 + n) \<Longrightarrow> m = (n :: nat)"
proof -
  assume a: "m < 10" "n < 10" "(char_of (48 + m) :: char) = char_of (48 + n)"
  then have "(of_char (char_of (48 + m) :: char) :: nat) = of_char (char_of (48 + n) :: char)"
    by simp
  with a show "m = n"
    by simp
qed

lemma show_nat_not_Nil [simp]: "show_nat n \<noteq> []"
  by (subst show_nat.simps) simp

lemma show_nat_inj: "show_nat m = show_nat n \<Longrightarrow> m = n"
proof (induction m arbitrary: n rule: show_nat.induct)
  case (1 m)
  have m: "show_nat m = (if m < 10 then [char_of (48 + m)] else show_nat (m div 10) @ [char_of (48 + m mod 10)])"
    and n: "show_nat n = (if n < 10 then [char_of (48 + n)] else show_nat (n div 10) @ [char_of (48 + n mod 10)])"
    by (simp_all only: show_nat.simps [of m] show_nat.simps [of n])
  show ?case
  proof (cases "m < 10 \<or> n < 10")
    case True
    with "1.prems" m n show ?thesis
      by (auto split: if_splits dest: digit_char_inj) (metis show_nat_not_Nil)+
  next
    case False
    with "1.prems" m n have "show_nat (m div 10) = show_nat (n div 10)"
      and "(char_of (48 + m mod 10) :: char) = char_of (48 + n mod 10)"
      by auto
    with False "1.IH" have "m div 10 = n div 10" and "m mod 10 = n mod 10"
      by (auto dest: digit_char_inj)
    then show ?thesis
      by (metis div_mult_mod_eq)
  qed
qed

lemma show_nat_inj_iff [simp]: "show_nat m = show_nat n \<longleftrightarrow> m = n"
  by (auto dest: show_nat_inj)

text \<open>\<^verbatim>\<open>toLowerCase\<close> on a letter of the ASCII range.\<close>

definition to_lower :: "char \<Rightarrow> char" where
  "to_lower c = (let n = of_char c :: nat in if 65 \<le> n \<and> n \<le> 90 then char_of (n + 32) else c)"

subsection \<open>JSON values\<close>

datatype json =
    JNull
  | JBool bool
  | JNum int
  | JStr string
  | JArr "json list"
  | JObj "(string \<times> json) list"

subsection \<open>Runs of operations\<close>

text \<open>
  A store is driven by a sequence of operations; what every operation keeps, every sequence
  keeps. The runs of all components are folds of a step function.
\<close>

definition run_ops :: "('s \<Rightarrow> 'op \<Rightarrow> 's) \<Rightarrow> 's \<Rightarrow> 'op list \<Rightarrow> 's" where
  "run_ops step s ops = foldl step s ops"

lemma run_ops_Nil [simp]: "run_ops step s [] = s"
  by (simp add: run_ops_def)

lemma run_ops_Cons [simp]: "run_ops step s (x # xs) = run_ops step (step s x) xs"
  by (simp add: run_ops_def)

lemma run_ops_append [simp]: "run_ops step s (xs @ ys) = run_ops step (run_ops step s xs) ys"
  by (simp add: run_ops_def)

lemma run_ops_invariant:
  "(\<And>s x. P s \<Longrightarrow> P (step s x)) \<Longrightarrow> P s \<Longrightarrow> P (run_ops step s xs)"
  by (induction xs arbitrary: s) auto

lemma run_ops_mono:
  fixes f :: "'s \<Rightarrow> 'a :: preorder"
  assumes "\<And>s x. P s \<Longrightarrow> P (step s x)" and "\<And>s x. P s \<Longrightarrow> f s \<le> f (step s x)" and "P s"
  shows "f s \<le> f (run_ops step s xs)"
  using assms(3)
proof (induction xs arbitrary: s)
  case (Cons x xs)
  from assms(2) Cons.prems have "f s \<le> f (step s x)" .
  also have "\<dots> \<le> f (run_ops step (step s x) xs)"
    using Cons.IH assms(1) Cons.prems by blast
  finally show ?case by simp
qed simp

end
