(* ===== verification/Leases.thy ===== *)
theory Leases
  imports Prelude
begin

text \<open>
  Leases with fencing tokens (\<^verbatim>\<open>src/src/control-plane/lease.ts\<close>): the records of the
  \<^verbatim>\<open>LeaseStore\<close> interface, its contract as the locale \<open>lease_provider\<close> with the fencing
  lemmas every provider gets, and the single-process \<^verbatim>\<open>InMemoryLeaseStore\<close>, which is an
  interpretation of it. No method of that class awaits, so each call is one atomic step and a
  concurrent execution is a sequence of calls.
\<close>

subsection \<open>Records of the interface\<close>

record LeaseRecord =
  l_resourceId :: string
  l_ownerId :: string
  l_fencingToken :: int
  l_acquiredAt :: int
  l_updatedAt :: int
  l_expiresAt :: int

record LeaseClaimResult =
  acquired :: bool
  claim_lease :: LeaseRecord

datatype lease_error =
    InvalidTtl jsnum
  | LeaseClaimLost string
  | LeaseDbError

text \<open>The calls a client can make, with the clock each one reads.\<close>

datatype lease_op =
    AcquireOp string string jsnum int
  | RenewOp string string int jsnum int
  | ReleaseOp string string int int

fun lease_step ::
  "('s \<Rightarrow> string \<Rightarrow> string \<Rightarrow> jsnum \<Rightarrow> int \<Rightarrow> lease_error + LeaseClaimResult \<times> 's) \<Rightarrow>
   ('s \<Rightarrow> string \<Rightarrow> string \<Rightarrow> int \<Rightarrow> jsnum \<Rightarrow> int \<Rightarrow> lease_error + LeaseRecord option \<times> 's) \<Rightarrow>
   ('s \<Rightarrow> string \<Rightarrow> string \<Rightarrow> int \<Rightarrow> int \<Rightarrow> bool \<times> 's) \<Rightarrow> 's \<Rightarrow> lease_op \<Rightarrow> 's" where
  "lease_step acq ren rel s (AcquireOp r ow ttl now) = (case acq s r ow ttl now of Inl e \<Rightarrow> s | Inr (_, s') \<Rightarrow> s')"
| "lease_step acq ren rel s (RenewOp r ow t ttl now) = (case ren s r ow t ttl now of Inl e \<Rightarrow> s | Inr (_, s') \<Rightarrow> s')"
| "lease_step acq ren rel s (ReleaseOp r ow t now) = snd (rel s r ow t now)"

subsection \<open>The in-memory store\<close>

record lease_store =
  leases :: "(string, LeaseRecord) jsmap"
  tokens :: "(string, int) jsmap"

definition empty_lease_store :: lease_store where
  "empty_lease_store = \<lparr>leases = [], tokens = []\<rparr>"

definition validateTtl :: "jsnum \<Rightarrow> lease_error option" where
  "validateTtl ttlMs = (if \<not> is_finite ttlMs \<or> le_zero ttlMs then Some (InvalidTtl ttlMs) else None)"

fun num_of :: "jsnum \<Rightarrow> int" where
  "num_of (Num n) = n"
| "num_of _ = 0"

definition acquireLease ::
  "lease_store \<Rightarrow> string \<Rightarrow> string \<Rightarrow> jsnum \<Rightarrow> int \<Rightarrow> lease_error + LeaseClaimResult \<times> lease_store" where
  "acquireLease s resourceId ownerId ttlMs now =
     (case validateTtl ttlMs of Some e \<Rightarrow> Inl e
      | None \<Rightarrow>
        (let existing = js_get (leases s) resourceId;
             fresh =
               (let fencingToken =
                      (case js_get (tokens s) resourceId of Some t \<Rightarrow> t
                       | None \<Rightarrow> (case existing of Some l \<Rightarrow> l_fencingToken l | None \<Rightarrow> 0)) + 1;
                    lease = \<lparr>l_resourceId = resourceId, l_ownerId = ownerId, l_fencingToken = fencingToken,
                             l_acquiredAt = now, l_updatedAt = now, l_expiresAt = now + num_of ttlMs\<rparr>
                in (\<lparr>acquired = True, claim_lease = lease\<rparr>,
                    s\<lparr>tokens := js_set resourceId fencingToken (tokens s),
                      leases := js_set resourceId lease (leases s)\<rparr>))
         in (case existing of
               Some l \<Rightarrow> if l_expiresAt l > now then Inr (\<lparr>acquired = False, claim_lease = l\<rparr>, s) else Inr fresh
             | None \<Rightarrow> Inr fresh)))"

definition holds_lease :: "LeaseRecord \<Rightarrow> string \<Rightarrow> int \<Rightarrow> int \<Rightarrow> bool" where
  "holds_lease l ownerId fencingToken now =
     (\<not> (l_ownerId l \<noteq> ownerId \<or> l_fencingToken l \<noteq> fencingToken \<or> l_expiresAt l \<le> now))"

definition renewLease ::
  "lease_store \<Rightarrow> string \<Rightarrow> string \<Rightarrow> int \<Rightarrow> jsnum \<Rightarrow> int \<Rightarrow> lease_error + LeaseRecord option \<times> lease_store" where
  "renewLease s resourceId ownerId fencingToken ttlMs now =
     (case validateTtl ttlMs of Some e \<Rightarrow> Inl e
      | None \<Rightarrow>
        (case js_get (leases s) resourceId of
           None \<Rightarrow> Inr (None, s)
         | Some l \<Rightarrow>
             if \<not> holds_lease l ownerId fencingToken now then Inr (None, s)
             else (let renewed = l\<lparr>l_updatedAt := now, l_expiresAt := now + num_of ttlMs\<rparr>
                   in Inr (Some renewed, s\<lparr>leases := js_set resourceId renewed (leases s)\<rparr>))))"

definition releaseLease :: "lease_store \<Rightarrow> string \<Rightarrow> string \<Rightarrow> int \<Rightarrow> bool \<times> lease_store" where
  "releaseLease s resourceId ownerId fencingToken =
     (case js_get (leases s) resourceId of
        None \<Rightarrow> (False, s)
      | Some l \<Rightarrow>
          if l_ownerId l \<noteq> ownerId \<or> l_fencingToken l \<noteq> fencingToken then (False, s)
          else (True, s\<lparr>leases := js_delete resourceId (leases s)\<rparr>))"

definition getLease :: "lease_store \<Rightarrow> string \<Rightarrow> LeaseRecord option" where
  "getLease s resourceId = js_get (leases s) resourceId"

definition validateLease :: "lease_store \<Rightarrow> string \<Rightarrow> string \<Rightarrow> int \<Rightarrow> int \<Rightarrow> LeaseRecord option" where
  "validateLease s resourceId ownerId fencingToken now =
     (case js_get (leases s) resourceId of
        None \<Rightarrow> None
      | Some l \<Rightarrow> if \<not> holds_lease l ownerId fencingToken now then None else Some l)"

text \<open>The highest token handed out for a resource, and the store's invariant.\<close>

definition issued :: "lease_store \<Rightarrow> string \<Rightarrow> int" where
  "issued s r = (case js_get (tokens s) r of Some t \<Rightarrow> t | None \<Rightarrow> 0)"

definition lease_inv :: "lease_store \<Rightarrow> bool" where
  "lease_inv s = (\<forall>r l. js_get (leases s) r = Some l \<longrightarrow>
     js_get (tokens s) r = Some (l_fencingToken l) \<and> l_resourceId l = r)"

subsection \<open>The contract of the interface\<close>

text \<open>
  What the runtime relies on from any \<^verbatim>\<open>LeaseStore\<close>: a successful acquire issues the next token
  and that claim validates until it expires; a refused acquire changes nothing; renewal and
  release never touch the token counter; only the newest token, held by the owner it was issued
  to, ever validates. \<open>hi\<close> is the highest token issued for a resource.
\<close>

locale lease_provider =
  fixes acq :: "'s \<Rightarrow> string \<Rightarrow> string \<Rightarrow> jsnum \<Rightarrow> int \<Rightarrow> lease_error + LeaseClaimResult \<times> 's"
    and ren :: "'s \<Rightarrow> string \<Rightarrow> string \<Rightarrow> int \<Rightarrow> jsnum \<Rightarrow> int \<Rightarrow> lease_error + LeaseRecord option \<times> 's"
    and rel :: "'s \<Rightarrow> string \<Rightarrow> string \<Rightarrow> int \<Rightarrow> int \<Rightarrow> bool \<times> 's"
    and val :: "'s \<Rightarrow> string \<Rightarrow> string \<Rightarrow> int \<Rightarrow> int \<Rightarrow> LeaseRecord option"
    and hi :: "'s \<Rightarrow> string \<Rightarrow> int"
    and inv :: "'s \<Rightarrow> bool"
  assumes acq_new: "inv s \<Longrightarrow> acq s r ow ttl now = Inr (c, s') \<Longrightarrow> acquired c \<Longrightarrow>
      inv s' \<and> hi s' = (hi s)(r := hi s r + 1) \<and> l_fencingToken (claim_lease c) = hi s r + 1"
    and acq_valid: "inv s \<Longrightarrow> acq s r ow ttl now = Inr (c, s') \<Longrightarrow> acquired c \<Longrightarrow>
      now' < l_expiresAt (claim_lease c) \<Longrightarrow>
      val s' r ow (l_fencingToken (claim_lease c)) now' = Some (claim_lease c)"
    and acq_refused: "inv s \<Longrightarrow> acq s r ow ttl now = Inr (c, s') \<Longrightarrow> \<not> acquired c \<Longrightarrow> s' = s"
    and acq_exclusive: "inv s \<Longrightarrow> val s r ow t now = Some l \<Longrightarrow>
      acq s r ow' ttl now = Inr (c, s') \<Longrightarrow> \<not> acquired c"
    and ren_keeps: "inv s \<Longrightarrow> ren s r ow t ttl now = Inr (x, s') \<Longrightarrow> inv s' \<and> hi s' = hi s"
    and rel_keeps: "inv s \<Longrightarrow> rel s r ow t now = (b, s') \<Longrightarrow> inv s' \<and> hi s' = hi s"
    and val_newest: "inv s \<Longrightarrow> val s r ow t now = Some l \<Longrightarrow> t = hi s r \<and> l_ownerId l = ow"
    and val_owner: "inv s \<Longrightarrow> val s r ow t now = Some l \<Longrightarrow> val s r ow' t now' = Some l' \<Longrightarrow> ow = ow'"
begin

lemma step_keeps: "inv s \<Longrightarrow> inv (lease_step acq ren rel s x) \<and> hi s r \<le> hi (lease_step acq ren rel s x) r"
proof (cases x)
  case (AcquireOp r' ow ttl now)
  assume "inv s"
  show ?thesis
  proof (cases "acq s r' ow ttl now")
    case (Inr p)
    obtain c s' where p: "p = (c, s')" by (cases p)
    show ?thesis
      using \<open>inv s\<close> AcquireOp Inr p acq_new [of s r' ow ttl now c s'] acq_refused [of s r' ow ttl now c s']
      by (cases "acquired c") auto
  qed (simp add: AcquireOp \<open>inv s\<close>)
next
  case (RenewOp r' ow t ttl now)
  assume "inv s"
  with RenewOp ren_keeps [of s r' ow t ttl now] show ?thesis
    by (cases "ren s r' ow t ttl now") auto
next
  case (ReleaseOp r' ow t now)
  assume "inv s"
  with ReleaseOp rel_keeps [of s r' ow t now] show ?thesis
    by (cases "rel s r' ow t now") auto
qed

lemma run_inv: "inv s \<Longrightarrow> inv (run_ops (lease_step acq ren rel) s ops)"
  by (rule run_ops_invariant) (auto dest: step_keeps)

lemma run_hi_mono: "inv s \<Longrightarrow> hi s r \<le> hi (run_ops (lease_step acq ren rel) s ops) r"
  by (rule run_ops_mono [where P = inv]) (auto dest: step_keeps)

text \<open>Fencing: once a newer generation has been granted, no older token ever validates again.\<close>

lemma stale_token_dead:
  assumes "inv s" and "acq s r ow ttl now = Inr (c, s')" and "acquired c"
    and "t < l_fencingToken (claim_lease c)"
  shows "val (run_ops (lease_step acq ren rel) s' ops) r ow' t now' = None"
proof (rule ccontr)
  let ?s = "run_ops (lease_step acq ren rel) s' ops"
  assume "val ?s r ow' t now' \<noteq> None"
  then obtain l where l: "val ?s r ow' t now' = Some l" by blast
  from assms acq_new have "inv s'" and "l_fencingToken (claim_lease c) = hi s' r"
    by (auto simp: fun_upd_def)
  moreover from \<open>inv s'\<close> have "inv ?s" and "hi s' r \<le> hi ?s r"
    by (rule run_inv, rule run_hi_mono)
  moreover from \<open>inv ?s\<close> l have "t = hi ?s r"
    by (auto dest: val_newest)
  ultimately show False
    using assms(4) by simp
qed

text \<open>Mutual exclusion: the proofs that validate in one state are one owner's one token.\<close>

lemma holder_unique:
  assumes "inv s" and "val s r ow t now = Some l" and "val s r ow' t' now' = Some l'"
  shows "ow = ow' \<and> t = t'"
proof -
  from assms val_newest have "t = t'" by metis
  with assms val_owner show ?thesis by blast
qed

text \<open>Two grants of one resource along a run carry different, increasing tokens.\<close>

lemma grants_increase:
  assumes "inv s" and "acq s r ow ttl now = Inr (c, s')" and "acquired c"
    and "acq (run_ops (lease_step acq ren rel) s' ops) r ow2 ttl2 now2 = Inr (c2, s2)" and "acquired c2"
  shows "l_fencingToken (claim_lease c) < l_fencingToken (claim_lease c2)"
proof -
  from assms(1-3) acq_new have s': "inv s'" "l_fencingToken (claim_lease c) = hi s' r"
    by (auto simp: fun_upd_def)
  with assms(4,5) acq_new run_inv
  have "l_fencingToken (claim_lease c2) = hi (run_ops (lease_step acq ren rel) s' ops) r + 1"
    by blast
  with s' run_hi_mono [of s' r ops] show ?thesis by simp
qed

end

subsection \<open>The in-memory store provides the contract\<close>

lemma lease_inv_empty [simp]: "lease_inv empty_lease_store"
  by (simp add: lease_inv_def empty_lease_store_def)

lemmas lease_op_defs = acquireLease_def renewLease_def releaseLease_def validateLease_def Let_def

lemma acquireLease_granted:
  assumes "lease_inv s" and "acquireLease s r ow ttl now = Inr (c, s')" and "acquired c"
  shows "claim_lease c = \<lparr>l_resourceId = r, l_ownerId = ow, l_fencingToken = issued s r + 1,
      l_acquiredAt = now, l_updatedAt = now, l_expiresAt = now + num_of ttl\<rparr>"
    and "s' = s\<lparr>tokens := js_set r (issued s r + 1) (tokens s), leases := js_set r (claim_lease c) (leases s)\<rparr>"
    and "0 < num_of ttl"
  using assms
  by (auto simp: lease_op_defs lease_inv_def issued_def validateTtl_def elim!: is_finite.elims
      split: option.splits if_splits)

interpretation mem_lease: lease_provider acquireLease renewLease
  "\<lambda>s r ow t now. releaseLease s r ow t" validateLease issued lease_inv
proof (unfold_locales, goal_cases)
  case (1 s r ow ttl now c s')
  from acquireLease_granted [OF this] show ?case
    using 1(1) by (auto simp: lease_inv_def issued_def fun_eq_iff)
next
  case (2 s r ow ttl now c s' now')
  from acquireLease_granted [OF 2(1-3)] 2(4) show ?case
    by (simp add: validateLease_def holds_lease_def)
next
  case (3 s r ow ttl now c s')
  then show ?case
    by (auto simp: lease_op_defs split: option.splits if_splits)
next
  case (4 s r ow t now l ow' ttl c s')
  then show ?case
    by (auto simp: lease_op_defs holds_lease_def split: option.splits if_splits)
next
  case (5 s r ow t ttl now x s')
  then show ?case
    by (auto simp: lease_op_defs lease_inv_def issued_def fun_eq_iff split: option.splits if_splits)
next
  case (6 s r ow t now b s')
  then show ?case
    by (auto simp: lease_op_defs lease_inv_def issued_def fun_eq_iff split: option.splits if_splits)
next
  case (7 s r ow t now l)
  then show ?case
    by (auto simp: lease_op_defs lease_inv_def issued_def holds_lease_def split: option.splits if_splits)
next
  case (8 s r ow t now l ow' now' l')
  then show ?case
    by (auto simp: lease_op_defs holds_lease_def split: option.splits if_splits)
qed

subsection \<open>Properties of the in-memory store\<close>

abbreviation mem_lease_run :: "lease_store \<Rightarrow> lease_op list \<Rightarrow> lease_store" where
  "mem_lease_run \<equiv> run_ops (lease_step acquireLease renewLease (\<lambda>s r ow t now. releaseLease s r ow t))"

lemma reachable_lease_inv: "lease_inv (mem_lease_run empty_lease_store ops)"
  by (rule mem_lease.run_inv) simp

lemma stale_refused:
  assumes "lease_inv s" and "t \<noteq> issued s r" and "validateTtl ttl = None"
  shows "renewLease s r ow t ttl now = Inr (None, s) \<and> releaseLease s r ow t = (False, s)"
  using assms by (auto simp: lease_inv_def issued_def renewLease_def releaseLease_def holds_lease_def split: option.splits)

lemma acquireLease_total: "validateTtl ttl = None \<Longrightarrow> \<exists>c s'. acquireLease s r ow ttl now = Inr (c, s')"
  by (cases "js_get (leases s) r") (simp_all add: acquireLease_def Let_def)

text \<open>
  C3: fencing. Once a lease has been granted, every older token of that resource is dead for ever:
  whatever calls follow, by any owner and at any time, it neither validates, nor renews, nor
  releases, and the last two leave the store untouched.
\<close>

theorem lease_fencing:
  assumes "acquireLease (mem_lease_run empty_lease_store before) r ow ttl now = Inr (c, s)" and "acquired c"
    and "t < l_fencingToken (claim_lease c)" and "validateTtl ttl' = None"
  shows "validateLease (mem_lease_run s after) r ow' t now' = None \<and>
    renewLease (mem_lease_run s after) r ow' t ttl' now' = Inr (None, mem_lease_run s after) \<and>
    releaseLease (mem_lease_run s after) r ow' t = (False, mem_lease_run s after)"
proof -
  note inv = reachable_lease_inv [of before]
  from acquireLease_granted [OF inv assms(1,2)] have new: "l_fencingToken (claim_lease c) = issued s r"
    by (simp add: issued_def)
  have "lease_inv s"
    using mem_lease.acq_new [OF inv assms(1,2)] by blast
  then have run: "lease_inv (mem_lease_run s after)" "issued s r \<le> issued (mem_lease_run s after) r"
    by (rule mem_lease.run_inv, rule mem_lease.run_hi_mono)
  with new assms(3) have "t \<noteq> issued (mem_lease_run s after) r" by simp
  with stale_refused [OF run(1) _ assms(4)] mem_lease.stale_token_dead [OF inv assms(1-3)] show ?thesis by blast
qed

text \<open>
  Mutual exclusion and progress. In every reachable state at most one owner and token validate
  for a resource; an acquire is granted exactly when nobody's claim validates at that moment, the
  grant then validates for its whole time to live, and a refusal changes nothing.
\<close>

theorem lease_exclusive:
  assumes "s = mem_lease_run empty_lease_store ops" and "validateTtl ttl = None"
  shows "(\<forall>ow t now l ow' t' now' l'.
      validateLease s r ow t now = Some l \<and> validateLease s r ow' t' now' = Some l' \<longrightarrow> ow = ow' \<and> t = t') \<and>
    (\<exists>c s'. acquireLease s r ow ttl now = Inr (c, s') \<and>
       (acquired c \<longleftrightarrow> (\<forall>ow' t'. validateLease s r ow' t' now = None)) \<and>
       (\<not> acquired c \<longrightarrow> s' = s) \<and>
       (acquired c \<longrightarrow> (\<forall>now'. now' < now + num_of ttl \<longrightarrow>
          validateLease s' r ow (l_fencingToken (claim_lease c)) now' = Some (claim_lease c))))"
proof (intro conjI)
  have inv: "lease_inv s"
    using assms(1) reachable_lease_inv by simp
  then show "\<forall>ow t now l ow' t' now' l'.
      validateLease s r ow t now = Some l \<and> validateLease s r ow' t' now' = Some l' \<longrightarrow> ow = ow' \<and> t = t'"
    using mem_lease.holder_unique by blast
  obtain c s' where acq: "acquireLease s r ow ttl now = Inr (c, s')"
    using acquireLease_total [OF assms(2)] by blast
  have iff: "acquired c \<longleftrightarrow> (\<forall>ow' t'. validateLease s r ow' t' now = None)"
  proof
    assume "acquired c"
    with acq mem_lease.acq_exclusive [OF inv] show "\<forall>ow' t'. validateLease s r ow' t' now = None"
      by (metis not_None_eq)
  next
    assume free: "\<forall>ow' t'. validateLease s r ow' t' now = None"
    have "l_expiresAt l \<le> now" if "js_get (leases s) r = Some l" for l
      using that free [THEN spec, THEN spec, of "l_ownerId l" "l_fencingToken l"]
      by (auto simp: validateLease_def holds_lease_def split: if_splits)
    with acq assms(2) show "acquired c"
      by (cases "js_get (leases s) r") (auto simp: acquireLease_def Let_def)
  qed
  moreover have "validateLease s' r ow (l_fencingToken (claim_lease c)) now' = Some (claim_lease c)"
    if "acquired c" "now' < now + num_of ttl" for now'
    using mem_lease.acq_valid [OF inv acq that(1)] acquireLease_granted [OF inv acq that(1)] that(2) by simp
  ultimately show "\<exists>c s'. acquireLease s r ow ttl now = Inr (c, s') \<and>
       (acquired c \<longleftrightarrow> (\<forall>ow' t'. validateLease s r ow' t' now = None)) \<and>
       (\<not> acquired c \<longrightarrow> s' = s) \<and>
       (acquired c \<longrightarrow> (\<forall>now'. now' < now + num_of ttl \<longrightarrow>
          validateLease s' r ow (l_fencingToken (claim_lease c)) now' = Some (claim_lease c)))"
    using acq mem_lease.acq_refused [OF inv acq] by blast
qed

theorem lease_fencing_witness:
  "let s = mem_lease_run empty_lease_store [AcquireOp ''r'' ''a'' (Num 10) 0, AcquireOp ''r'' ''b'' (Num 10) 10]
   in validateLease s ''r'' ''a'' 1 11 = None \<and> validateLease s ''r'' ''b'' 2 11 \<noteq> None"
proof -
  let ?before = "[AcquireOp ''r'' ''a'' (Num 10) 0]"
  let ?l = "\<lparr>l_resourceId = ''r'', l_ownerId = ''b'', l_fencingToken = 2, l_acquiredAt = 10, l_updatedAt = 10, l_expiresAt = 20\<rparr>"
  let ?s = "mem_lease_run empty_lease_store [AcquireOp ''r'' ''a'' (Num 10) 0, AcquireOp ''r'' ''b'' (Num 10) 10]"
  have a: "acquireLease (mem_lease_run empty_lease_store ?before) ''r'' ''b'' (Num 10) 10 = Inr (\<lparr>acquired = True, claim_lease = ?l\<rparr>, ?s)"
    by code_simp
  have ttl: "validateTtl (Num 10) = None" by code_simp
  have "validateLease ?s ''r'' ''b'' 2 11 \<noteq> None" by code_simp
  with lease_fencing [OF a _ _ ttl, of 1 "[]" "''a''" 11] show ?thesis by simp
qed

theorem lease_exclusive_witness:
  "\<exists>c s'. acquireLease (mem_lease_run empty_lease_store [AcquireOp ''r'' ''a'' (Num 10) 0]) ''r'' ''b'' (Num 5) 10 = Inr (c, s') \<and>
     acquired c \<and> validateLease s' ''r'' ''b'' (l_fencingToken (claim_lease c)) 14 = Some (claim_lease c)"
proof -
  have ttl: "validateTtl (Num 5) = None" by code_simp
  have "case acquireLease (mem_lease_run empty_lease_store [AcquireOp ''r'' ''a'' (Num 10) 0]) ''r'' ''b'' (Num 5) 10
      of Inr (c, _) \<Rightarrow> acquired c | Inl _ \<Rightarrow> False"
    by code_simp
  with lease_exclusive [OF refl ttl, where ops = "[AcquireOp ''r'' ''a'' (Num 10) 0]" and r = "''r''" and ow = "''b''" and now = 10]
  show ?thesis by auto
qed

end
