(* ===== verification/Mailbox.thy ===== *)
theory Mailbox
  imports Prelude
begin

text \<open>
  Agent mailboxes (\<^verbatim>\<open>src/src/control-plane/mailbox.ts\<close>): the envelope and cursor records, the
  in-memory \<^verbatim>\<open>MailboxStore\<close>, and the interface as the locale \<open>mailbox_provider\<close>. The client
  proved once inside it is the consumer protocol the store exists for: read behind the cursor,
  acknowledge the last envelope read, repeat.
\<close>

subsection \<open>Records\<close>

datatype message_role = Human | Agent | System

record AgentMessage =
  m_id :: string
  m_role :: message_role
  m_text :: string
  m_createdAt :: int
  m_metadata :: "(string, json) jsmap option"

record MailboxEnvelope =
  e_agentId :: string
  e_seq :: int
  e_message :: AgentMessage
  e_appendedAt :: int

record MailboxAppendResult =
  envelope :: MailboxEnvelope
  inserted :: bool

record MailboxCursor =
  k_agentId :: string
  k_consumerId :: string
  k_ackSeq :: int
  k_updatedAt :: int

subsection \<open>The in-memory store\<close>

record mailbox_store =
  messages :: "(string, MailboxEnvelope list) jsmap"
  cursors :: "(string, MailboxCursor) jsmap"

definition empty_mailbox_store :: mailbox_store where
  "empty_mailbox_store = \<lparr>messages = [], cursors = []\<rparr>"

definition cursorKey :: "string \<Rightarrow> string \<Rightarrow> string" where
  "cursorKey agentId consumerId = agentId @ [CHR 0x00] @ consumerId"

definition mailbox_items :: "mailbox_store \<Rightarrow> string \<Rightarrow> MailboxEnvelope list" where
  "mailbox_items s agentId = (case js_get (messages s) agentId of Some items \<Rightarrow> items | None \<Rightarrow> [])"

definition last_seq :: "MailboxEnvelope list \<Rightarrow> int" where
  "last_seq items = (if items = [] then 0 else e_seq (last items))"

definition appendMailbox :: "mailbox_store \<Rightarrow> string \<Rightarrow> AgentMessage \<Rightarrow> int \<Rightarrow> MailboxAppendResult \<times> mailbox_store" where
  "appendMailbox s agentId message now =
     (let items = mailbox_items s agentId
      in (case find (\<lambda>item. m_id (e_message item) = m_id message) items of
            Some existing \<Rightarrow> (\<lparr>envelope = existing, inserted = False\<rparr>, s)
          | None \<Rightarrow>
              (let env = \<lparr>e_agentId = agentId, e_seq = last_seq items + 1, e_message = message, e_appendedAt = now\<rparr>
               in (\<lparr>envelope = env, inserted = True\<rparr>,
                   s\<lparr>messages := js_set agentId (items @ [env]) (messages s)\<rparr>))))"

definition readMailbox :: "mailbox_store \<Rightarrow> string \<Rightarrow> int \<Rightarrow> int \<Rightarrow> MailboxEnvelope list" where
  "readMailbox s agentId afterSeq limit =
     take (nat (max 0 limit)) (filter (\<lambda>item. e_seq item > afterSeq) (mailbox_items s agentId))"

definition getMailboxCursor :: "mailbox_store \<Rightarrow> string \<Rightarrow> string \<Rightarrow> MailboxCursor option" where
  "getMailboxCursor s agentId consumerId = js_get (cursors s) (cursorKey agentId consumerId)"

definition ackMailbox :: "mailbox_store \<Rightarrow> string \<Rightarrow> string \<Rightarrow> int \<Rightarrow> int \<Rightarrow> MailboxCursor \<times> mailbox_store" where
  "ackMailbox s agentId consumerId throughSeq now =
     (let key = cursorKey agentId consumerId;
          old = (case js_get (cursors s) key of Some c \<Rightarrow> k_ackSeq c | None \<Rightarrow> 0);
          maxSeq = last_seq (mailbox_items s agentId);
          cursor = \<lparr>k_agentId = agentId, k_consumerId = consumerId,
                    k_ackSeq = max old (min throughSeq maxSeq), k_updatedAt = now\<rparr>
      in (cursor, s\<lparr>cursors := js_set key cursor (cursors s)\<rparr>))"

definition mailbox_inv :: "mailbox_store \<Rightarrow> bool" where
  "mailbox_inv s = (\<forall>a. sorted_wrt (<) (map e_seq (mailbox_items s a)) \<and>
     (\<forall>e \<in> set (mailbox_items s a). 0 < e_seq e \<and> e_agentId e = a) \<and>
     distinct (map (\<lambda>e. m_id (e_message e)) (mailbox_items s a)))"

subsection \<open>A consumer of the interface\<close>

text \<open>One round of a consumer, and several rounds with what they delivered.\<close>

definition consume_batch ::
  "('s \<Rightarrow> string \<Rightarrow> int \<Rightarrow> int \<Rightarrow> MailboxEnvelope list) \<Rightarrow>
   ('s \<Rightarrow> string \<Rightarrow> string \<Rightarrow> MailboxCursor option) \<Rightarrow>
   ('s \<Rightarrow> string \<Rightarrow> string \<Rightarrow> int \<Rightarrow> int \<Rightarrow> MailboxCursor \<times> 's) \<Rightarrow>
   string \<Rightarrow> string \<Rightarrow> int \<Rightarrow> int \<Rightarrow> 's \<Rightarrow> MailboxEnvelope list \<times> 's" where
  "consume_batch rd cur ack a c limit now s =
     (let after = (case cur s a c of Some k \<Rightarrow> k_ackSeq k | None \<Rightarrow> 0);
          batch = rd s a after limit
      in if batch = [] then ([], s) else (batch, snd (ack s a c (e_seq (last batch)) now)))"

fun consume_rounds ::
  "nat \<Rightarrow> ('s \<Rightarrow> string \<Rightarrow> int \<Rightarrow> int \<Rightarrow> MailboxEnvelope list) \<Rightarrow>
   ('s \<Rightarrow> string \<Rightarrow> string \<Rightarrow> MailboxCursor option) \<Rightarrow>
   ('s \<Rightarrow> string \<Rightarrow> string \<Rightarrow> int \<Rightarrow> int \<Rightarrow> MailboxCursor \<times> 's) \<Rightarrow>
   string \<Rightarrow> string \<Rightarrow> int \<Rightarrow> int \<Rightarrow> 's \<Rightarrow> MailboxEnvelope list \<times> 's" where
  "consume_rounds 0 rd cur ack a c limit now s = ([], s)"
| "consume_rounds (Suc n) rd cur ack a c limit now s =
     (let (batch, s1) = consume_batch rd cur ack a c limit now s;
          (rest, s2) = consume_rounds n rd cur ack a c limit now s1
      in (batch @ rest, s2))"

lemma filter_after_last:
  assumes "sorted_wrt (<) (map f xs)" and "ys = take n (filter (\<lambda>x. f x > (k :: int)) xs)" and "ys \<noteq> []"
  shows "filter (\<lambda>x. f x > f (last ys)) xs = drop n (filter (\<lambda>x. f x > k) xs)"
proof -
  let ?zs = "filter (\<lambda>x. f x > k) xs"
  have sorted: "sorted_wrt (<) (map f ?zs)"
    using assms(1) by (simp add: sorted_wrt_map sorted_wrt_filter)
  have split: "?zs = ys @ drop n ?zs"
    using assms(2) by simp
  have "last ys \<in> set ys"
    using assms(3) by simp
  moreover from this have "last ys \<in> set ?zs"
    using assms(2) by (metis in_set_takeD)
  ultimately have last: "last ys \<in> set ys" "f (last ys) > k"
    by auto
  have "filter (\<lambda>x. f x > f (last ys)) xs = filter (\<lambda>x. f x > f (last ys)) ?zs"
    using last by (auto simp: filter_filter intro!: filter_cong)
  also have "\<dots> = filter (\<lambda>x. f x > f (last ys)) ys @ filter (\<lambda>x. f x > f (last ys)) (drop n ?zs)"
    using split by (metis filter_append)
  also have "filter (\<lambda>x. f x > f (last ys)) ys = []"
  proof -
    from sorted split have "sorted_wrt (<) (map f ys)"
      by (metis map_append sorted_wrt_append)
    with assms(3) show ?thesis
      by (induction ys rule: rev_induct) (auto simp: sorted_wrt_append filter_empty_conv not_less intro: less_imp_le)
  qed
  also have "filter (\<lambda>x. f x > f (last ys)) (drop n ?zs) = drop n ?zs"
  proof -
    from sorted split have "sorted_wrt (<) (map f ys @ map f (drop n ?zs))"
      by (metis map_append)
    then have "\<forall>y \<in> set ys. \<forall>z \<in> set (drop n ?zs). f y < f z"
      by (simp add: sorted_wrt_append)
    with last show ?thesis by (simp add: filter_id_conv)
  qed
  finally show ?thesis by simp
qed

subsection \<open>The contract of the interface\<close>

locale mailbox_provider =
  fixes app :: "'s \<Rightarrow> string \<Rightarrow> AgentMessage \<Rightarrow> int \<Rightarrow> MailboxAppendResult \<times> 's"
    and rd :: "'s \<Rightarrow> string \<Rightarrow> int \<Rightarrow> int \<Rightarrow> MailboxEnvelope list"
    and cur :: "'s \<Rightarrow> string \<Rightarrow> string \<Rightarrow> MailboxCursor option"
    and ack :: "'s \<Rightarrow> string \<Rightarrow> string \<Rightarrow> int \<Rightarrow> int \<Rightarrow> MailboxCursor \<times> 's"
    and box :: "'s \<Rightarrow> string \<Rightarrow> MailboxEnvelope list"
    and inv :: "'s \<Rightarrow> bool"
  assumes box_sorted: "inv s \<Longrightarrow> sorted_wrt (<) (map e_seq (box s a))"
    and app_known: "inv s \<Longrightarrow> e \<in> set (box s a) \<Longrightarrow> m_id (e_message e) = m_id m \<Longrightarrow> app s a m now = (r, s') \<Longrightarrow>
      r = \<lparr>envelope = e, inserted = False\<rparr> \<and> inv s' \<and> box s' = box s \<and> cur s' = cur s"
    and app_fresh: "inv s \<Longrightarrow> m_id m \<notin> (\<lambda>e. m_id (e_message e)) ` set (box s a) \<Longrightarrow> app s a m now = (r, s') \<Longrightarrow>
      inserted r \<and> e_message (envelope r) = m \<and> box s' = (box s)(a := box s a @ [envelope r]) \<and> inv s'"
    and rd_spec: "inv s \<Longrightarrow> rd s a after limit = take (nat (max 0 limit)) (filter (\<lambda>e. e_seq e > after) (box s a))"
    and box_positive: "inv s \<Longrightarrow> e \<in> set (box s a) \<Longrightarrow> 0 < e_seq e"
    and ack_keeps: "inv s \<Longrightarrow> ack s a c through now = (k, s') \<Longrightarrow> inv s' \<and> box s' = box s \<and> cur s' a c = Some k"
    and ack_seq: "inv s \<Longrightarrow> 0 \<le> through \<Longrightarrow> ack s a c through now = (k, s') \<Longrightarrow>
      k_ackSeq k = max (case cur s a c of Some k0 \<Rightarrow> k_ackSeq k0 | None \<Rightarrow> 0) (min through (last_seq (box s a)))"
begin

abbreviation position :: "'s \<Rightarrow> string \<Rightarrow> string \<Rightarrow> int" where
  "position s a c \<equiv> (case cur s a c of Some k \<Rightarrow> k_ackSeq k | None \<Rightarrow> 0)"

lemma last_seq_ge: "inv s \<Longrightarrow> e \<in> set (box s a) \<Longrightarrow> e_seq e \<le> last_seq (box s a)"
  using box_sorted [of s a]
  by (cases "box s a" rule: rev_cases) (auto simp: last_seq_def sorted_wrt_append less_imp_le)

lemma consume_batch_spec:
  assumes "inv s" and "0 < limit" and "consume_batch rd cur ack a c limit now s = (batch, s')"
  shows "inv s' \<and> box s' = box s \<and>
    batch = take (nat limit) (filter (\<lambda>e. e_seq e > position s a c) (box s a)) \<and>
    filter (\<lambda>e. e_seq e > position s' a c) (box s a)
      = drop (nat limit) (filter (\<lambda>e. e_seq e > position s a c) (box s a))"
proof -
  let ?todo = "filter (\<lambda>e. e_seq e > position s a c) (box s a)"
  have batch: "batch = take (nat limit) ?todo"
    using assms by (auto simp: consume_batch_def rd_spec Let_def max_def split: if_splits)
  show ?thesis
  proof (cases "batch = []")
    case True
    with assms batch have "?todo = []" and "s' = s"
      by (auto simp: consume_batch_def Let_def split: if_splits)
    with assms(1) batch show ?thesis by simp
  next
    case False
    obtain k s1 where ack: "ack s a c (e_seq (last batch)) now = (k, s1)"
      by (cases "ack s a c (e_seq (last batch)) now")
    with assms batch False have s': "s' = s1"
      by (auto simp: consume_batch_def rd_spec Let_def max_def split: if_splits)
    have "last batch \<in> set ?todo"
      using False batch by (metis in_set_takeD last_in_set)
    then have seq: "e_seq (last batch) > position s a c" "e_seq (last batch) \<le> last_seq (box s a)"
      using assms(1) by (auto intro: last_seq_ge)
    have "0 \<le> e_seq (last batch)"
      using \<open>last batch \<in> set ?todo\<close> box_positive [OF assms(1)] by (auto intro: less_imp_le)
    from ack_keeps [OF assms(1) ack] ack_seq [OF assms(1) this ack] seq
    have pos: "position s1 a c = e_seq (last batch)" and keep: "inv s1" "box s1 = box s"
      by auto
    from filter_after_last [OF box_sorted [OF assms(1)] batch False]
    show ?thesis
      using keep pos batch s' by simp
  qed
qed

text \<open>
  Rounds of a consumer deliver the backlog behind its cursor in order, each envelope once, and
  enough rounds deliver all of it.
\<close>

lemma consume_rounds_spec:
  assumes "inv s" and "0 < limit" and "consume_rounds n rd cur ack a c limit now s = (out, s')"
  shows "out = take (n * nat limit) (filter (\<lambda>e. e_seq e > position s a c) (box s a))"
  using assms
proof (induction n arbitrary: s out s')
  case (Suc n)
  obtain batch s1 where b: "consume_batch rd cur ack a c limit now s = (batch, s1)"
    by (cases "consume_batch rd cur ack a c limit now s")
  obtain rest s2 where r: "consume_rounds n rd cur ack a c limit now s1 = (rest, s2)"
    by (cases "consume_rounds n rd cur ack a c limit now s1")
  from consume_batch_spec [OF Suc.prems(1,2) b] have s1: "inv s1" "box s1 = box s"
    and batch: "batch = take (nat limit) (filter (\<lambda>e. e_seq e > position s a c) (box s a))"
    and todo: "filter (\<lambda>e. e_seq e > position s1 a c) (box s a)
      = drop (nat limit) (filter (\<lambda>e. e_seq e > position s a c) (box s a))"
    by auto
  from Suc.IH [OF s1(1) Suc.prems(2) r]
  have "rest = take (n * nat limit) (drop (nat limit) (filter (\<lambda>e. e_seq e > position s a c) (box s a)))"
    using s1(2) todo by simp
  with Suc.prems(3) b r batch show ?case
    by (simp add: take_add)
qed simp

lemma consume_all:
  assumes "inv s" and "0 < limit" and "length (box s a) \<le> n"
  shows "fst (consume_rounds n rd cur ack a c limit now s) = filter (\<lambda>e. e_seq e > position s a c) (box s a)"
proof -
  obtain out s' where out: "consume_rounds n rd cur ack a c limit now s = (out, s')"
    by (cases "consume_rounds n rd cur ack a c limit now s")
  let ?todo = "filter (\<lambda>e. e_seq e > position s a c) (box s a)"
  have "length ?todo \<le> n"
    using assms(3) length_filter_le le_trans by blast
  also have "\<dots> \<le> n * nat limit"
    using assms(2) by (cases "nat limit") auto
  finally show ?thesis
    using consume_rounds_spec [OF assms(1,2) out] out by simp
qed

end

subsection \<open>The in-memory store provides the contract\<close>

lemma find_id_eq:
  assumes "distinct (map f xs)" and "x \<in> set xs" and "f x = k"
  shows "find (\<lambda>y. f y = k) xs = Some x"
  using assms by (induction xs) (auto simp: image_iff)

lemma mailbox_items_set [simp]:
  "mailbox_items (s\<lparr>messages := js_set a v (messages s)\<rparr>) b = (if b = a then v else mailbox_items s b)"
  by (simp add: mailbox_items_def)

lemma mailbox_items_cursors [simp]: "mailbox_items (s\<lparr>cursors := v\<rparr>) b = mailbox_items s b"
  by (simp add: mailbox_items_def)

lemma mailbox_inv_empty [simp]: "mailbox_inv empty_mailbox_store"
  by (simp add: mailbox_inv_def empty_mailbox_store_def mailbox_items_def)

lemma last_seq_bound:
  "mailbox_inv s \<Longrightarrow> e \<in> set (mailbox_items s a) \<Longrightarrow> e_seq e \<le> last_seq (mailbox_items s a)"
  by (cases "mailbox_items s a" rule: rev_cases)
    (auto simp: mailbox_inv_def last_seq_def sorted_wrt_append less_imp_le dest!: spec [of _ a])

lemma last_seq_nonneg: "mailbox_inv s \<Longrightarrow> 0 \<le> last_seq (mailbox_items s a)"
  by (cases "mailbox_items s a" rule: rev_cases)
    (auto simp: mailbox_inv_def last_seq_def less_imp_le dest!: spec [of _ a])

lemma appendMailbox_fresh:
  assumes "mailbox_inv s" and "m_id m \<notin> (\<lambda>e. m_id (e_message e)) ` set (mailbox_items s a)"
  shows "appendMailbox s a m now =
    (let env = \<lparr>e_agentId = a, e_seq = last_seq (mailbox_items s a) + 1, e_message = m, e_appendedAt = now\<rparr>
     in (\<lparr>envelope = env, inserted = True\<rparr>, s\<lparr>messages := js_set a (mailbox_items s a @ [env]) (messages s)\<rparr>))"
proof -
  have "find (\<lambda>item. m_id (e_message item) = m_id m) (mailbox_items s a) = None"
    using assms(2) by (force simp: find_None_iff)
  then show ?thesis
    by (simp add: appendMailbox_def Let_def)
qed

lemma mailbox_inv_append:
  assumes "mailbox_inv s" and "m_id m \<notin> (\<lambda>e. m_id (e_message e)) ` set (mailbox_items s a)"
  shows "mailbox_inv (snd (appendMailbox s a m now))"
proof -
  have "e \<in> set (mailbox_items s a) \<Longrightarrow> e_seq e < last_seq (mailbox_items s a) + 1" for e
    using last_seq_bound [OF assms(1)] by fastforce
  with assms(1,2) last_seq_nonneg [OF assms(1), of a] show ?thesis
    unfolding appendMailbox_fresh [OF assms]
    by (auto simp: mailbox_inv_def Let_def sorted_wrt_append)
qed

lemma appendMailbox_known:
  assumes "mailbox_inv s" and "e \<in> set (mailbox_items s a)" and "m_id (e_message e) = m_id m"
  shows "appendMailbox s a m now = (\<lparr>envelope = e, inserted = False\<rparr>, s)"
proof -
  have "find (\<lambda>item. m_id (e_message item) = m_id m) (mailbox_items s a) = Some e"
    using assms by (intro find_id_eq) (auto simp: mailbox_inv_def)
  then show ?thesis by (simp add: appendMailbox_def Let_def)
qed

lemma ackMailbox_seq:
  "ackMailbox s a c through now = (k, s') \<Longrightarrow>
   k_ackSeq k = max (case getMailboxCursor s a c of Some k0 \<Rightarrow> k_ackSeq k0 | None \<Rightarrow> 0) (min through (last_seq (mailbox_items s a)))"
  by (auto simp: ackMailbox_def getMailboxCursor_def Let_def)

interpretation mem_mailbox: mailbox_provider appendMailbox readMailbox getMailboxCursor ackMailbox
  mailbox_items mailbox_inv
proof (unfold_locales, goal_cases)
  case (1 s a)
  then show ?case by (simp add: mailbox_inv_def)
next
  case (2 s e a m now r s')
  with appendMailbox_known [OF 2(1-3), of now] show ?case by simp
next
  case (3 s m a now r s')
  with mailbox_inv_append [OF 3(1,2), of now] show ?case
    by (auto simp: appendMailbox_fresh Let_def fun_eq_iff)
next
  case (4 s a after limit)
  then show ?case by (simp add: readMailbox_def)
next
  case (5 s e a)
  then show ?case by (simp add: mailbox_inv_def)
next
  case (6 s a c through now k s')
  then show ?case
    by (auto simp: ackMailbox_def getMailboxCursor_def mailbox_inv_def Let_def fun_eq_iff)
next
  case (7 s through a c now k s')
  then show ?case
    by (simp add: ackMailbox_seq)
qed

subsection \<open>Properties of the in-memory store\<close>

datatype mailbox_op = AppendOp string AgentMessage int | AckOp string string int int

fun mailbox_step :: "mailbox_store \<Rightarrow> mailbox_op \<Rightarrow> mailbox_store" where
  "mailbox_step s (AppendOp a m now) = snd (appendMailbox s a m now)"
| "mailbox_step s (AckOp a c through now) = snd (ackMailbox s a c through now)"

abbreviation mailbox_run :: "mailbox_store \<Rightarrow> mailbox_op list \<Rightarrow> mailbox_store" where
  "mailbox_run \<equiv> run_ops mailbox_step"

lemma mailbox_step_keeps:
  assumes "mailbox_inv s"
  shows "mailbox_inv (mailbox_step s x) \<and> prefix (mailbox_items s a) (mailbox_items (mailbox_step s x) a)"
proof (cases x)
  case (AppendOp b m now)
  show ?thesis
  proof (cases "m_id m \<in> (\<lambda>e. m_id (e_message e)) ` set (mailbox_items s b)")
    case True
    then obtain e where "e \<in> set (mailbox_items s b)" "m_id (e_message e) = m_id m" by force
    from appendMailbox_known [OF assms this] assms AppendOp show ?thesis by simp
  next
    case False
    obtain r s' where "appendMailbox s b m now = (r, s')" by (cases "appendMailbox s b m now")
    with mem_mailbox.app_fresh [OF assms False this] AppendOp show ?thesis by simp
  qed
next
  case (AckOp b c through now)
  obtain k s' where "ackMailbox s b c through now = (k, s')" by (cases "ackMailbox s b c through now")
  with mem_mailbox.ack_keeps [OF assms this] AckOp show ?thesis by simp
qed

lemma mailbox_run_keeps:
  assumes "mailbox_inv s"
  shows "mailbox_inv (mailbox_run s ops) \<and> prefix (mailbox_items s a) (mailbox_items (mailbox_run s ops) a)"
  using assms
proof (induction ops arbitrary: s)
  case (Cons x ops)
  with mailbox_step_keeps [OF Cons.prems, of x a] show ?case
    by (auto intro: prefix_order.trans)
qed simp

text \<open>
  C4: delivery. From any reachable store, a consumer that reads behind its cursor and acknowledges
  what it read, in batches of any positive size, receives every envelope it has not acknowledged
  exactly once and in the order of their sequence numbers, after at most as many rounds as the
  mailbox has envelopes.
\<close>

theorem mailbox_delivery:
  assumes "s = mailbox_run empty_mailbox_store ops" and "0 < limit" and "length (mailbox_items s a) \<le> n"
  shows "fst (consume_rounds n readMailbox getMailboxCursor ackMailbox a c limit now s) =
      filter (\<lambda>e. e_seq e > (case getMailboxCursor s a c of Some k \<Rightarrow> k_ackSeq k | None \<Rightarrow> 0)) (mailbox_items s a) \<and>
    sorted_wrt (<) (map e_seq (mailbox_items s a)) \<and> distinct (map (\<lambda>e. m_id (e_message e)) (mailbox_items s a))"
proof -
  have inv: "mailbox_inv s"
    using assms(1) mailbox_run_keeps [OF mailbox_inv_empty] by simp
  from mem_mailbox.consume_all [OF inv assms(2,3)] inv show ?thesis
    by (simp add: mailbox_inv_def)
qed

text \<open>
  Appending is idempotent on the message id. After any further calls, appending a message with the
  same id again returns the envelope of the first append and leaves the store as it is.
\<close>

theorem append_idempotent:
  assumes "appendMailbox (mailbox_run empty_mailbox_store before) a m now = (r, s)" and "m_id m' = m_id m"
  shows "appendMailbox (mailbox_run s after) a m' now' =
    (\<lparr>envelope = envelope r, inserted = False\<rparr>, mailbox_run s after)"
proof -
  let ?s0 = "mailbox_run empty_mailbox_store before"
  have inv0: "mailbox_inv ?s0"
    using mailbox_run_keeps [OF mailbox_inv_empty] by blast
  have "envelope r \<in> set (mailbox_items s a) \<and> m_id (e_message (envelope r)) = m_id m \<and> mailbox_inv s"
  proof (cases "m_id m \<in> (\<lambda>e. m_id (e_message e)) ` set (mailbox_items ?s0 a)")
    case True
    then obtain e where e: "e \<in> set (mailbox_items ?s0 a)" "m_id (e_message e) = m_id m" by force
    from appendMailbox_known [OF inv0 e, of now] assms(1) have "r = \<lparr>envelope = e, inserted = False\<rparr>" "s = ?s0"
      by auto
    with inv0 e show ?thesis by simp
  next
    case False
    from mem_mailbox.app_fresh [OF inv0 False assms(1)] show ?thesis by simp
  qed
  then have e: "envelope r \<in> set (mailbox_items (mailbox_run s after) a)" "m_id (e_message (envelope r)) = m_id m'"
    and inv: "mailbox_inv (mailbox_run s after)"
    using mailbox_run_keeps [of s after a] assms(2) by (auto dest: set_mono_prefix)
  from appendMailbox_known [OF inv e] show ?thesis .
qed

text \<open>
  A cursor only moves forward, never past the newest envelope, and to exactly the acknowledged
  position between the two; another agent's or consumer's cursor is not touched, provided agent ids
  hold no NUL character, the separator of the cursor key.
\<close>

theorem ack_monotone:
  assumes "s = mailbox_run empty_mailbox_store ops" and "ackMailbox s a c through now = (k, s')"
    and "CHR 0x00 \<notin> set a" and "CHR 0x00 \<notin> set a'" and "(a', c') \<noteq> (a, c)"
  shows "getMailboxCursor s' a c = Some k \<and> getMailboxCursor s' a' c' = getMailboxCursor s a' c' \<and>
    (let old = (case getMailboxCursor s a c of Some k0 \<Rightarrow> k_ackSeq k0 | None \<Rightarrow> 0); newest = last_seq (mailbox_items s a)
     in old \<le> k_ackSeq k \<and> (old \<le> newest \<longrightarrow> k_ackSeq k \<le> newest) \<and>
        (old \<le> through \<and> through \<le> newest \<longrightarrow> k_ackSeq k = through))"
proof -
  have "mailbox_inv s"
    using assms(1) mailbox_run_keeps [OF mailbox_inv_empty] by simp
  note spec = mem_mailbox.ack_keeps [OF this assms(2)] ackMailbox_seq [OF assms(2)]
  have "cursorKey a' c' \<noteq> cursorKey a c"
    using assms(3-5) by (simp add: cursorKey_def sep_inject)
  then have "getMailboxCursor s' a' c' = getMailboxCursor s a' c'"
    using assms(2) by (auto simp: ackMailbox_def getMailboxCursor_def Let_def)
  moreover have "old \<le> max old (min through newest) \<and> (old \<le> newest \<longrightarrow> max old (min through newest) \<le> newest) \<and>
      (old \<le> through \<and> through \<le> newest \<longrightarrow> max old (min through newest) = through)" for old newest :: int
    by auto
  ultimately show ?thesis
    using spec by (simp only: Let_def) blast
qed

definition sample_message :: "string \<Rightarrow> AgentMessage" where
  "sample_message i = \<lparr>m_id = i, m_role = Human, m_text = ''hi'', m_createdAt = 0, m_metadata = None\<rparr>"

definition sample_mailbox_ops :: "mailbox_op list" where
  "sample_mailbox_ops = [AppendOp ''a'' (sample_message ''1'') 1, AppendOp ''a'' (sample_message ''2'') 2, AckOp ''a'' ''c'' 1 3]"

theorem mailbox_delivery_witness:
  "map e_seq (fst (consume_rounds 2 readMailbox getMailboxCursor ackMailbox ''a'' ''c'' 1 4
     (mailbox_run empty_mailbox_store sample_mailbox_ops))) = [2]"
proof -
  let ?s = "mailbox_run empty_mailbox_store sample_mailbox_ops"
  have n: "length (mailbox_items ?s ''a'') \<le> 2" by code_simp
  have "map e_seq (filter (\<lambda>e. e_seq e > (case getMailboxCursor ?s ''a'' ''c'' of Some k \<Rightarrow> k_ackSeq k | None \<Rightarrow> 0))
      (mailbox_items ?s ''a'')) = [2]"
    by code_simp
  with mailbox_delivery [OF refl _ n, where limit = 1 and c = "''c''" and now = 4] show ?thesis by simp
qed

theorem append_idempotent_witness:
  "inserted (fst (appendMailbox (mailbox_run empty_mailbox_store sample_mailbox_ops) ''a'' (sample_message ''3'') 5)) \<and>
   snd (appendMailbox (snd (appendMailbox (mailbox_run empty_mailbox_store sample_mailbox_ops) ''a'' (sample_message ''3'') 5))
      ''a'' (sample_message ''3'') 6) =
   snd (appendMailbox (mailbox_run empty_mailbox_store sample_mailbox_ops) ''a'' (sample_message ''3'') 5)"
proof -
  let ?p = "appendMailbox (mailbox_run empty_mailbox_store sample_mailbox_ops) ''a'' (sample_message ''3'') 5"
  have p: "?p = (fst ?p, snd ?p)" by simp
  have "inserted (fst ?p)" by code_simp
  with append_idempotent [OF p refl, where after = "[]" and now' = 6] show ?thesis by simp
qed

theorem ack_monotone_witness:
  "k_ackSeq (fst (ackMailbox (mailbox_run empty_mailbox_store sample_mailbox_ops) ''a'' ''c'' 2 9)) = 2"
proof -
  let ?s = "mailbox_run empty_mailbox_store sample_mailbox_ops"
  have p: "ackMailbox ?s ''a'' ''c'' 2 9 = (fst (ackMailbox ?s ''a'' ''c'' 2 9), snd (ackMailbox ?s ''a'' ''c'' 2 9))" by simp
  have "(case getMailboxCursor ?s ''a'' ''c'' of Some k0 \<Rightarrow> k_ackSeq k0 | None \<Rightarrow> 0) = 1" "last_seq (mailbox_items ?s ''a'') = 2"
    by code_simp+
  with ack_monotone [OF refl p, of "''b''" "''c''"] show ?thesis by (simp add: Let_def)
qed

end
