(* ===== verification/Runtime_State.thy ===== *)
theory Runtime_State
  imports Prelude
begin

text \<open>
  Durable receipts (\<^verbatim>\<open>src/src/durability/runtime-state.ts\<close>): command, effect, turn and checkpoint
  records, the two replacement guards, the single-process
  \<^verbatim>\<open>LocalRuntimeStateStore\<close> (\<^verbatim>\<open>local-runtime-state.ts\<close>) and the store whose effect receipts
  live in Temporal heartbeat details (\<^verbatim>\<open>integrations/temporal/src/receipt-store.ts\<close>). The
  effect-receipt part of \<^verbatim>\<open>RuntimeStateStore\<close> is the locale \<open>effect_receipts\<close>. The type
  parameters are the type of an effect's \<^verbatim>\<open>result\<close> and of a serialized workspace snapshot.
\<close>

subsection \<open>Records\<close>

datatype CommandStatus = CmdStarted | CmdCommitted | CmdFailed
datatype TurnStatus = TurnStarted | TurnCommitted | TurnRolledBack | TurnFailed
datatype EffectStatus = EffStarted | EffCommitted | EffFailed

record DurableCommandRecord =
  c_id :: string
  c_status :: CommandStatus
  c_startedAt :: int
  c_updatedAt :: int
  c_result :: "json option"
  c_error :: "string option"
  c_ownerId :: "string option"
  c_fencingToken :: "int option"
  c_leaseExpiresAt :: "int option"
  c_reconciliationRequired :: "bool option"

record 'r DurableEffectRecord =
  f_id :: string
  f_status :: EffectStatus
  f_kind :: string
  f_startedAt :: int
  f_updatedAt :: int
  f_result :: "'r option"
  f_error :: "string option"

record 'w DurableWorkspaceCheckpoint =
  w_workspaceId :: string
  w_snapshot :: 'w
  w_reason :: string
  w_createdAt :: int

record 'w DurableTurnRecord =
  t_id :: string
  t_agentId :: "string option"
  t_workspaceId :: string
  t_attemptId :: string
  t_status :: TurnStatus
  t_startedAt :: int
  t_updatedAt :: int
  t_base :: 'w
  t_semanticExposed :: bool
  t_bufferedOutputCount :: int
  t_stagedEffectIds :: "string list"
  t_error :: "string option"

record 'a ClaimResult =
  claimed :: bool
  claim_record :: 'a

subsection \<open>Replacement guards\<close>

definition canReplaceCommand :: "DurableCommandRecord option \<Rightarrow> DurableCommandRecord \<Rightarrow> bool" where
  "canReplaceCommand existing nxt =
     (case existing of
        None \<Rightarrow> True
      | Some e \<Rightarrow>
          (let oldFence = opt_or (c_fencingToken e) 0; newFence = opt_or (c_fencingToken nxt) 0
           in if newFence < oldFence then False
              else if c_status e = CmdCommitted \<and> c_status nxt \<noteq> CmdCommitted then False
              else True))"

definition canReplaceEffect :: "'r DurableEffectRecord option \<Rightarrow> 'r DurableEffectRecord \<Rightarrow> bool" where
  "canReplaceEffect existing nxt =
     (case existing of
        None \<Rightarrow> True
      | Some e \<Rightarrow>
          if f_status e = EffCommitted \<and> f_status nxt \<noteq> EffCommitted then False
          else if f_status e = EffFailed \<and> f_status nxt = EffStarted then False
          else True)"

subsection \<open>The single-process store\<close>

record ('r, 'w) local_state =
  commands :: "(string, DurableCommandRecord) jsmap"
  workspaces :: "(string, 'w DurableWorkspaceCheckpoint) jsmap"
  turns :: "(string, 'w DurableTurnRecord) jsmap"
  effects :: "(string, 'r DurableEffectRecord) jsmap"

definition empty_local_state :: "('r, 'w) local_state" where
  "empty_local_state = \<lparr>commands = [], workspaces = [], turns = [], effects = []\<rparr>"

definition putCommand :: "('r, 'w) local_state \<Rightarrow> DurableCommandRecord \<Rightarrow> ('r, 'w) local_state" where
  "putCommand s record =
     (if canReplaceCommand (js_get (commands s) (c_id record)) record
      then s\<lparr>commands := js_set (c_id record) record (commands s)\<rparr> else s)"

definition getCommand :: "('r, 'w) local_state \<Rightarrow> string \<Rightarrow> DurableCommandRecord option" where
  "getCommand s i = js_get (commands s) i"

definition claimCommand ::
  "('r, 'w) local_state \<Rightarrow> DurableCommandRecord \<Rightarrow> DurableCommandRecord ClaimResult \<times> ('r, 'w) local_state" where
  "claimCommand s record =
     (case js_get (commands s) (c_id record) of
        Some e \<Rightarrow>
          if c_status e = CmdCommitted \<or> c_status e = CmdStarted
          then (\<lparr>claimed = False, claim_record = e\<rparr>, s)
          else (\<lparr>claimed = True, claim_record = record\<rparr>, s\<lparr>commands := js_set (c_id record) record (commands s)\<rparr>)
      | None \<Rightarrow> (\<lparr>claimed = True, claim_record = record\<rparr>, s\<lparr>commands := js_set (c_id record) record (commands s)\<rparr>))"

definition putWorkspaceCheckpoint ::
  "('r, 'w) local_state \<Rightarrow> 'w DurableWorkspaceCheckpoint \<Rightarrow> ('r, 'w) local_state" where
  "putWorkspaceCheckpoint s c = s\<lparr>workspaces := js_set (w_workspaceId c) c (workspaces s)\<rparr>"

definition getWorkspaceCheckpoint :: "('r, 'w) local_state \<Rightarrow> string \<Rightarrow> 'w DurableWorkspaceCheckpoint option" where
  "getWorkspaceCheckpoint s i = js_get (workspaces s) i"

definition putTurn :: "('r, 'w) local_state \<Rightarrow> 'w DurableTurnRecord \<Rightarrow> ('r, 'w) local_state" where
  "putTurn s record = s\<lparr>turns := js_set (t_id record) record (turns s)\<rparr>"

definition getTurn :: "('r, 'w) local_state \<Rightarrow> string \<Rightarrow> 'w DurableTurnRecord option" where
  "getTurn s i = js_get (turns s) i"

definition listTurns :: "('r, 'w) local_state \<Rightarrow> TurnStatus option \<Rightarrow> 'w DurableTurnRecord list" where
  "listTurns s status =
     filter (\<lambda>v. case status of None \<Rightarrow> True | Some st \<Rightarrow> t_status v = st) (js_values (turns s))"

definition putEffect :: "('r, 'w) local_state \<Rightarrow> 'r DurableEffectRecord \<Rightarrow> ('r, 'w) local_state" where
  "putEffect s record =
     (if canReplaceEffect (js_get (effects s) (f_id record)) record
      then s\<lparr>effects := js_set (f_id record) record (effects s)\<rparr> else s)"

definition getEffect :: "('r, 'w) local_state \<Rightarrow> string \<Rightarrow> 'r DurableEffectRecord option" where
  "getEffect s i = js_get (effects s) i"

definition claimEffect ::
  "('r, 'w) local_state \<Rightarrow> 'r DurableEffectRecord \<Rightarrow> 'r DurableEffectRecord ClaimResult \<times> ('r, 'w) local_state" where
  "claimEffect s record =
     (case js_get (effects s) (f_id record) of
        Some e \<Rightarrow> (\<lparr>claimed = False, claim_record = e\<rparr>, s)
      | None \<Rightarrow> (\<lparr>claimed = True, claim_record = record\<rparr>, s\<lparr>effects := js_set (f_id record) record (effects s)\<rparr>))"

subsection \<open>Receipts in Temporal activity state\<close>

text \<open>
  \<^verbatim>\<open>TemporalActivityStateStore\<close>: its own effect map, the inner local store for everything else,
  and \<open>heartbeats\<close>, the details written so far (the injected \<^verbatim>\<open>write\<close>), newest first.
\<close>

record ('r, 'w) temporal_state =
  inner :: "('r, 'w) local_state"
  receipts :: "(string, 'r DurableEffectRecord) jsmap"
  heartbeats :: "'r DurableEffectRecord list list"

definition temporal_new :: "'r DurableEffectRecord list option \<Rightarrow> ('r, 'w) temporal_state" where
  "temporal_new seed =
     \<lparr>inner = empty_local_state,
      receipts = foldl (\<lambda>m r. js_set (f_id r) r m) [] (opt_or seed []),
      heartbeats = []\<rparr>"

definition temporal_snapshot :: "('r, 'w) temporal_state \<Rightarrow> 'r DurableEffectRecord list" where
  "temporal_snapshot s = js_values (receipts s)"

definition temporal_heartbeat :: "('r, 'w) temporal_state \<Rightarrow> ('r, 'w) temporal_state" where
  "temporal_heartbeat s = s\<lparr>heartbeats := temporal_snapshot s # heartbeats s\<rparr>"

definition temporal_putEffect :: "('r, 'w) temporal_state \<Rightarrow> 'r DurableEffectRecord \<Rightarrow> ('r, 'w) temporal_state" where
  "temporal_putEffect s record =
     (if \<not> canReplaceEffect (js_get (receipts s) (f_id record)) record then s
      else temporal_heartbeat (s\<lparr>receipts := js_set (f_id record) record (receipts s)\<rparr>))"

definition temporal_getEffect :: "('r, 'w) temporal_state \<Rightarrow> string \<Rightarrow> 'r DurableEffectRecord option" where
  "temporal_getEffect s i = js_get (receipts s) i"

definition temporal_claimEffect ::
  "('r, 'w) temporal_state \<Rightarrow> 'r DurableEffectRecord \<Rightarrow> 'r DurableEffectRecord ClaimResult \<times> ('r, 'w) temporal_state" where
  "temporal_claimEffect s record =
     (case js_get (receipts s) (f_id record) of
        Some e \<Rightarrow> (\<lparr>claimed = False, claim_record = e\<rparr>, s)
      | None \<Rightarrow> (\<lparr>claimed = True, claim_record = record\<rparr>,
                 temporal_heartbeat (s\<lparr>receipts := js_set (f_id record) record (receipts s)\<rparr>)))"

definition temporal_putCommand :: "('r, 'w) temporal_state \<Rightarrow> DurableCommandRecord \<Rightarrow> ('r, 'w) temporal_state" where
  "temporal_putCommand s record = s\<lparr>inner := putCommand (inner s) record\<rparr>"

definition temporal_getCommand :: "('r, 'w) temporal_state \<Rightarrow> string \<Rightarrow> DurableCommandRecord option" where
  "temporal_getCommand s i = getCommand (inner s) i"

definition temporal_claimCommand ::
  "('r, 'w) temporal_state \<Rightarrow> DurableCommandRecord \<Rightarrow> DurableCommandRecord ClaimResult \<times> ('r, 'w) temporal_state" where
  "temporal_claimCommand s record =
     (let (c, s') = claimCommand (inner s) record in (c, s\<lparr>inner := s'\<rparr>))"

definition temporal_putWorkspaceCheckpoint ::
  "('r, 'w) temporal_state \<Rightarrow> 'w DurableWorkspaceCheckpoint \<Rightarrow> ('r, 'w) temporal_state" where
  "temporal_putWorkspaceCheckpoint s c = s\<lparr>inner := putWorkspaceCheckpoint (inner s) c\<rparr>"

definition temporal_getWorkspaceCheckpoint ::
  "('r, 'w) temporal_state \<Rightarrow> string \<Rightarrow> 'w DurableWorkspaceCheckpoint option" where
  "temporal_getWorkspaceCheckpoint s i = getWorkspaceCheckpoint (inner s) i"

definition temporal_putTurn :: "('r, 'w) temporal_state \<Rightarrow> 'w DurableTurnRecord \<Rightarrow> ('r, 'w) temporal_state" where
  "temporal_putTurn s record = s\<lparr>inner := putTurn (inner s) record\<rparr>"

definition temporal_getTurn :: "('r, 'w) temporal_state \<Rightarrow> string \<Rightarrow> 'w DurableTurnRecord option" where
  "temporal_getTurn s i = getTurn (inner s) i"

definition temporal_listTurns :: "('r, 'w) temporal_state \<Rightarrow> TurnStatus option \<Rightarrow> 'w DurableTurnRecord list" where
  "temporal_listTurns s status = listTurns (inner s) status"

subsection \<open>The receipt contract\<close>

datatype 'r effect_op = PutOp "'r DurableEffectRecord" | ClaimOp "'r DurableEffectRecord"

fun effect_step ::
  "('s \<Rightarrow> 'r DurableEffectRecord \<Rightarrow> 's) \<Rightarrow>
   ('s \<Rightarrow> 'r DurableEffectRecord \<Rightarrow> 'r DurableEffectRecord ClaimResult \<times> 's) \<Rightarrow> 's \<Rightarrow> 'r effect_op \<Rightarrow> 's" where
  "effect_step pute claime s (PutOp r) = pute s r"
| "effect_step pute claime s (ClaimOp r) = snd (claime s r)"

text \<open>The order in which a receipt may move; a later status is never replaced by an earlier one.\<close>

fun status_rank :: "EffectStatus \<Rightarrow> nat" where
  "status_rank EffStarted = 0"
| "status_rank EffFailed = 1"
| "status_rank EffCommitted = 2"

definition receipt_rank :: "'r DurableEffectRecord option \<Rightarrow> nat" where
  "receipt_rank e = (case e of None \<Rightarrow> 0 | Some r \<Rightarrow> Suc (status_rank (f_status r)))"

lemma receipt_rank_replace: "canReplaceEffect e r \<Longrightarrow> receipt_rank e \<le> receipt_rank (Some r)"
proof (cases e)
  case (Some e')
  assume "canReplaceEffect e r"
  with Some show ?thesis
    by (cases "f_status e'"; cases "f_status r") (auto simp: canReplaceEffect_def receipt_rank_def)
qed (simp add: receipt_rank_def)

locale effect_receipts =
  fixes gete :: "'s \<Rightarrow> string \<Rightarrow> 'r DurableEffectRecord option"
    and pute :: "'s \<Rightarrow> 'r DurableEffectRecord \<Rightarrow> 's"
    and claime :: "'s \<Rightarrow> 'r DurableEffectRecord \<Rightarrow> 'r DurableEffectRecord ClaimResult \<times> 's"
  assumes get_put: "gete (pute s r) i =
      (if i = f_id r \<and> canReplaceEffect (gete s (f_id r)) r then Some r else gete s i)"
    and claim_absent: "gete s (f_id r) = None \<Longrightarrow>
      \<exists>s'. claime s r = (\<lparr>claimed = True, claim_record = r\<rparr>, s') \<and> (\<forall>i. gete s' i = (if i = f_id r then Some r else gete s i))"
    and claim_present: "gete s (f_id r) = Some e \<Longrightarrow> claime s r = (\<lparr>claimed = False, claim_record = e\<rparr>, s)"
begin

lemma get_claim:
  "gete (snd (claime s r)) i = (if i = f_id r \<and> gete s i = None then Some r else gete s i)"
proof (cases "gete s (f_id r)")
  case None
  from claim_absent [OF this] None show ?thesis by auto
next
  case (Some e)
  from claim_present [OF this] Some show ?thesis by auto
qed

lemma step_rank: "receipt_rank (gete s i) \<le> receipt_rank (gete (effect_step pute claime s x) i)"
proof (cases x)
  case (PutOp r)
  then show ?thesis
    by (auto simp: get_put intro: receipt_rank_replace)
next
  case (ClaimOp r)
  then show ?thesis
    by (auto simp: get_claim receipt_rank_def)
qed

lemma run_rank: "receipt_rank (gete s i) \<le> receipt_rank (gete (run_ops (effect_step pute claime) s ops) i)"
  by (rule run_ops_mono [where P = "\<lambda>_. True"]) (auto intro: step_rank)

lemma committed_stays:
  assumes "gete s i = Some e" and "f_status e = EffCommitted"
  shows "\<exists>e'. gete (run_ops (effect_step pute claime) s ops) i = Some e' \<and> f_status e' = EffCommitted"
proof -
  let ?r = "gete (run_ops (effect_step pute claime) s ops) i"
  from run_rank [of s i ops] assms have "3 \<le> receipt_rank ?r"
    by (simp add: receipt_rank_def)
  then show ?thesis
    by (cases ?r; cases "f_status (the ?r)") (auto simp: receipt_rank_def)
qed

text \<open>After a claim of an id, granted or not, no later claim of that id is granted.\<close>

lemma claim_taken:
  assumes "f_id r' = f_id r"
  shows "\<not> claimed (fst (claime (run_ops (effect_step pute claime) (snd (claime s r)) ops) r'))"
proof -
  let ?s = "run_ops (effect_step pute claime) (snd (claime s r)) ops"
  have "1 \<le> receipt_rank (gete (snd (claime s r)) (f_id r))"
    by (auto simp: get_claim receipt_rank_def split: option.splits)
  then have "1 \<le> receipt_rank (gete ?s (f_id r))"
    using run_rank le_trans by blast
  then obtain e where "gete ?s (f_id r) = Some e"
    by (auto simp: receipt_rank_def split: option.splits)
  with assms claim_present [of ?s r' e] show ?thesis by simp
qed

end

interpretation local_receipts: effect_receipts getEffect putEffect claimEffect
  by unfold_locales (auto simp: getEffect_def putEffect_def claimEffect_def)

interpretation temporal_receipts: effect_receipts temporal_getEffect temporal_putEffect temporal_claimEffect
  by unfold_locales
    (auto simp: temporal_getEffect_def temporal_putEffect_def temporal_claimEffect_def temporal_heartbeat_def)

subsection \<open>Properties\<close>

abbreviation local_effect_run :: "('r, 'w) local_state \<Rightarrow> 'r effect_op list \<Rightarrow> ('r, 'w) local_state" where
  "local_effect_run \<equiv> run_ops (effect_step putEffect claimEffect)"

abbreviation temporal_effect_run :: "('r, 'w) temporal_state \<Rightarrow> 'r effect_op list \<Rightarrow> ('r, 'w) temporal_state" where
  "temporal_effect_run \<equiv> run_ops (effect_step temporal_putEffect temporal_claimEffect)"

text \<open>
  Receipts only move forward, in the local and in the Temporal store: a committed effect stays
  committed, a failed one never becomes started again, and of all the claims of one effect id made
  along a run at most the first succeeds.
\<close>

theorem receipts_forward_only:
  "(\<forall>e. getEffect s i = Some e \<longrightarrow>
      (\<exists>e'. getEffect (local_effect_run s ops) i = Some e' \<and> status_rank (f_status e) \<le> status_rank (f_status e'))) \<and>
   (\<forall>e. temporal_getEffect t i = Some e \<longrightarrow>
      (\<exists>e'. temporal_getEffect (temporal_effect_run t ops) i = Some e' \<and> status_rank (f_status e) \<le> status_rank (f_status e'))) \<and>
   (f_id r' = f_id r \<longrightarrow>
      \<not> claimed (fst (claimEffect (local_effect_run (snd (claimEffect s r)) ops) r')) \<and>
      \<not> claimed (fst (temporal_claimEffect (temporal_effect_run (snd (temporal_claimEffect t r)) ops) r')))"
proof -
  have rank: "\<exists>e'. x = Some e' \<and> status_rank (f_status e) \<le> status_rank (f_status e')"
    if "receipt_rank (Some e) \<le> receipt_rank x" for e :: "'r DurableEffectRecord" and x
    using that by (auto simp: receipt_rank_def split: option.splits)
  have later: "\<not> claimed (fst (claimEffect (local_effect_run (snd (claimEffect s r)) ops) r'))
      \<and> \<not> claimed (fst (temporal_claimEffect (temporal_effect_run (snd (temporal_claimEffect t r)) ops) r'))"
    if "f_id r' = f_id r"
    using that local_receipts.claim_taken temporal_receipts.claim_taken by blast
  show ?thesis
    using rank local_receipts.run_rank [of s i ops] temporal_receipts.run_rank [of t i ops] later by (auto simp del: not_None_eq)
qed

theorem receipts_forward_only_witness:
  "\<exists>e. temporal_getEffect (temporal_effect_run (temporal_new None :: (unit, unit) temporal_state)
      (map PutOp [\<lparr>f_id = ''e'', f_status = EffCommitted, f_kind = ''k'', f_startedAt = 0, f_updatedAt = 1, f_result = None, f_error = None\<rparr>,
        \<lparr>f_id = ''e'', f_status = EffStarted, f_kind = ''k'', f_startedAt = 2, f_updatedAt = 2, f_result = None, f_error = None\<rparr>])) ''e''
     = Some e \<and> 2 \<le> status_rank (f_status e)"
proof -
  let ?c = "\<lparr>f_id = ''e'', f_status = EffCommitted, f_kind = ''k'', f_startedAt = 0, f_updatedAt = 1,
    f_result = None :: unit option, f_error = None\<rparr>"
  let ?d = "\<lparr>f_id = ''e'', f_status = EffStarted, f_kind = ''k'', f_startedAt = 2, f_updatedAt = 2,
    f_result = None :: unit option, f_error = None\<rparr>"
  let ?t = "temporal_putEffect (temporal_new None :: (unit, unit) temporal_state) ?c"
  have "temporal_getEffect ?t ''e'' = Some ?c"
    by (simp add: temporal_getEffect_def temporal_putEffect_def temporal_new_def temporal_heartbeat_def canReplaceEffect_def)
  with receipts_forward_only [where t = ?t and i = "''e''" and ops = "[PutOp ?d]"] show ?thesis by fastforce
qed

text \<open>
  The newest heartbeat holds the receipts as they are, and every receipt is stored under its own
  id: the invariant the recovery of an activity rests on.
\<close>

definition wf_receipts :: "(string, 'r DurableEffectRecord) jsmap \<Rightarrow> bool" where
  "wf_receipts m \<longleftrightarrow> wf_jsmap m \<and> (\<forall>i r. js_get m i = Some r \<longrightarrow> f_id r = i)"

definition temporal_inv :: "('r, 'w) temporal_state \<Rightarrow> bool" where
  "temporal_inv s \<longleftrightarrow> wf_receipts (receipts s) \<and> (heartbeats s \<noteq> [] \<longrightarrow> hd (heartbeats s) = temporal_snapshot s)"

lemma wf_receipts_set [simp]: "wf_receipts m \<Longrightarrow> wf_receipts (js_set (f_id r) r m)"
  by (simp add: wf_receipts_def)

lemma wf_receipts_seed: "wf_receipts m \<Longrightarrow> wf_receipts (foldl (\<lambda>m r. js_set (f_id r) r m) m rs)"
  by (induction rs arbitrary: m) simp_all

lemma wf_receipts_Nil [simp]: "wf_receipts []"
  by (simp add: wf_receipts_def)

lemma temporal_inv_new [simp]: "temporal_inv (temporal_new seed)"
  by (simp add: temporal_inv_def temporal_new_def wf_receipts_seed)

lemma temporal_inv_run: "temporal_inv s \<Longrightarrow> temporal_inv (temporal_effect_run s ops)"
proof (rule run_ops_invariant)
  fix s :: "('a, 'b) temporal_state" and x
  assume "temporal_inv s"
  then show "temporal_inv (effect_step temporal_putEffect temporal_claimEffect s x)"
    by (cases x) (auto simp: temporal_inv_def temporal_putEffect_def temporal_claimEffect_def temporal_heartbeat_def
        temporal_snapshot_def split: option.splits)
qed

lemma reseed_get:
  "distinct (map fst m) \<Longrightarrow> \<forall>(i, r) \<in> set m. f_id r = i \<Longrightarrow>
   js_get (foldl (\<lambda>m r. js_set (f_id r) r m) acc (map snd m)) = js_get acc ++ js_get m"
proof (induction m arbitrary: acc)
  case (Cons p m)
  obtain i r where p: "p = (i, r)" by (cases p)
  with Cons.prems have "js_get m i = None" by (simp add: map_of_eq_None_iff)
  with Cons p show ?case
    by (auto simp: fun_eq_iff map_add_def split: option.splits)
qed simp

text \<open>
  Recovery. An activity attempt restarted from the last heartbeat its predecessor wrote sees
  every receipt the predecessor had, so an effect it had claimed is not claimed a second time.
\<close>

theorem temporal_recovery:
  fixes t :: "('r, 'w) temporal_state"
  assumes "s = temporal_effect_run (temporal_new seed) ops" and "heartbeats s \<noteq> []"
    and "t = temporal_new (Some (hd (heartbeats s)))"
  shows "temporal_getEffect t i = temporal_getEffect s i \<and>
    (temporal_getEffect s (f_id r) \<noteq> None \<longrightarrow> \<not> claimed (fst (temporal_claimEffect t r)))"
proof -
  have inv: "temporal_inv s"
    using assms(1) by (simp add: temporal_inv_run)
  then have "\<forall>(i, r) \<in> set (receipts s). f_id r = i" "distinct (map fst (receipts s))"
    by (auto simp: temporal_inv_def wf_receipts_def wf_jsmap_def)
  from reseed_get [OF this(2,1), of "[]"] inv assms(2,3) have get: "temporal_getEffect t j = temporal_getEffect s j" for j
    by (simp add: temporal_getEffect_def temporal_new_def temporal_inv_def temporal_snapshot_def js_values_def)
  moreover have "\<not> claimed (fst (temporal_claimEffect t r))" if "temporal_getEffect s (f_id r) \<noteq> None"
    using that get [of "f_id r"] temporal_receipts.claim_present [of t r] by auto
  ultimately show ?thesis by blast
qed

definition sample_receipt :: "string \<Rightarrow> EffectStatus \<Rightarrow> unit DurableEffectRecord" where
  "sample_receipt i st =
     \<lparr>f_id = i, f_status = st, f_kind = ''k'', f_startedAt = 0, f_updatedAt = 0, f_result = None, f_error = None\<rparr>"

theorem temporal_recovery_witness:
  "let s = temporal_effect_run (temporal_new None :: (unit, unit) temporal_state) [ClaimOp (sample_receipt ''e'' EffStarted)]
   in \<not> claimed (fst (temporal_claimEffect (temporal_new (Some (hd (heartbeats s))) :: (unit, unit) temporal_state)
        (sample_receipt ''e'' EffStarted)))"
proof -
  let ?s = "temporal_effect_run (temporal_new None :: (unit, unit) temporal_state) [ClaimOp (sample_receipt ''e'' EffStarted)]"
  have "heartbeats ?s \<noteq> []" "temporal_getEffect ?s (f_id (sample_receipt ''e'' EffStarted)) \<noteq> None"
    by code_simp+
  with temporal_recovery [OF refl this(1) refl] show ?thesis by (auto simp: Let_def)
qed

text \<open>
  A stored command is never overwritten by a writer with an older fencing token, and a committed
  command only by another committed record: after any sequence of puts its fencing token is at least
  what it was and committed stays committed.
\<close>

theorem command_fence_monotone:
  assumes "getCommand s i = Some c"
  shows "\<exists>c'. getCommand (run_ops putCommand s rs) i = Some c' \<and> opt_or (c_fencingToken c) 0 \<le> opt_or (c_fencingToken c') 0 \<and>
    (c_status c = CmdCommitted \<longrightarrow> c_status c' = CmdCommitted)"
  using assms
proof (induction rs arbitrary: s c)
  case (Cons r rs)
  have "\<exists>c1. getCommand (putCommand s r) i = Some c1 \<and> opt_or (c_fencingToken c) 0 \<le> opt_or (c_fencingToken c1) 0 \<and>
      (c_status c = CmdCommitted \<longrightarrow> c_status c1 = CmdCommitted)"
    using Cons.prems by (auto simp: putCommand_def getCommand_def canReplaceCommand_def Let_def split: if_splits)
  with Cons.IH show ?case by (fastforce intro: order_trans)
qed simp

definition sample_command :: "int \<Rightarrow> CommandStatus \<Rightarrow> DurableCommandRecord" where
  "sample_command fence st =
     \<lparr>c_id = ''c'', c_status = st, c_startedAt = 0, c_updatedAt = 0, c_result = None, c_error = None, c_ownerId = None,
      c_fencingToken = Some fence, c_leaseExpiresAt = None, c_reconciliationRequired = None\<rparr>"

theorem command_fence_monotone_witness:
  "\<exists>c'. getCommand (run_ops putCommand (putCommand (empty_local_state :: (unit, unit) local_state) (sample_command 2 CmdCommitted))
      [sample_command 1 CmdCommitted, sample_command 3 CmdFailed]) ''c'' = Some c' \<and>
    2 \<le> opt_or (c_fencingToken c') 0 \<and> c_status c' = CmdCommitted"
proof -
  have "getCommand (putCommand (empty_local_state :: (unit, unit) local_state) (sample_command 2 CmdCommitted)) ''c''
      = Some (sample_command 2 CmdCommitted)"
    by code_simp
  from command_fence_monotone [OF this, of "[sample_command 1 CmdCommitted, sample_command 3 CmdFailed]"]
  show ?thesis by (simp add: sample_command_def)
qed

end
