(* ===== verification/Effects.thy ===== *)
theory Effects
  imports Prelude
begin

text \<open>
  The vocabulary of the execution layer: effects, their context and result
  (\<^verbatim>\<open>src/src/execution/types.ts\<close>), the execution policy (\<^verbatim>\<open>resource-class.ts\<close>), the shared
  workspace error codes (\<^verbatim>\<open>workspace-errors.ts\<close>) and the scored-rung rule
  (\<^verbatim>\<open>scored-rung.ts\<close>). File contents and texts are their UTF-8 bytes, so the text encoder and
  decoder are the identity on them.
\<close>

subsection \<open>Effects and results\<close>

record ProcessExec =
  px_command :: string
  px_cwd :: "string option"
  px_env :: "(string, string) jsmap option"
  px_timeoutMs :: "int option"
  px_resourceClass :: "string option"

datatype effect_body =
    WorkspaceRead string
  | WorkspaceWrite string string
  | WorkspaceReplace string string string
  | WorkspaceDelete string
  | WorkspaceSymlink string string
  | WorkspaceList "string option"
  | WorkspaceExport
  | ProcessExecEffect ProcessExec
  | WorkflowRun string json
  | HumanApproval string "json option"

record Effect =
  eff_id :: string
  eff_body :: effect_body

fun effect_kind :: "effect_body \<Rightarrow> string" where
  "effect_kind (WorkspaceRead _) = ''workspace.read''"
| "effect_kind (WorkspaceWrite _ _) = ''workspace.write''"
| "effect_kind (WorkspaceReplace _ _ _) = ''workspace.replace''"
| "effect_kind (WorkspaceDelete _) = ''workspace.delete''"
| "effect_kind (WorkspaceSymlink _ _) = ''workspace.symlink''"
| "effect_kind (WorkspaceList _) = ''workspace.list''"
| "effect_kind WorkspaceExport = ''workspace.export''"
| "effect_kind (ProcessExecEffect _) = ''process.exec''"
| "effect_kind (WorkflowRun _ _) = ''workflow.run''"
| "effect_kind (HumanApproval _ _) = ''human.approval''"

record ExecutionPolicy =
  ep_preferredClass :: "string option"
  ep_allowedClasses :: "string list option"
  ep_minFidelity :: "int option"
  ep_allowEscalation :: "bool option"
  ep_projectCellId :: "string option"

record EffectContext =
  ctx_agentId :: string
  ctx_taskId :: "string option"
  ctx_workspaceId :: string
  ctx_executionPolicy :: "ExecutionPolicy option"

record ArtifactRef =
  ar_digest :: string
  ar_size :: int
  ar_mediaType :: string
  ar_mechanism :: string
  ar_producedBy :: "string option"
  ar_producedFrom :: "string list option"

text \<open>What \<^verbatim>\<open>output\<close> carries: file bytes, a directory listing, a digest with a size, or JSON.\<close>

datatype effect_output =
    OutBytes string
  | OutNames "string list"
  | OutDigest string int
  | OutJson json

record EffectResult =
  r_ok :: bool
  r_output :: "effect_output option"
  r_error :: "string option"
  r_executor :: "string option"
  r_fidelity :: "int option"
  r_artifact :: "ArtifactRef option"

definition ok_result :: EffectResult where
  "ok_result = \<lparr>r_ok = True, r_output = None, r_error = None, r_executor = None, r_fidelity = None, r_artifact = None\<rparr>"

definition error_result :: "string \<Rightarrow> EffectResult" where
  "error_result e = \<lparr>r_ok = False, r_output = None, r_error = Some e, r_executor = None, r_fidelity = None, r_artifact = None\<rparr>"

lemma result_simps [simp]:
  "r_ok ok_result" "r_error ok_result = None" "\<not> r_ok (error_result e)" "r_error (error_result e) = Some e"
  by (simp_all add: ok_result_def error_result_def)

subsection \<open>Shared workspace errors\<close>

definition workspaceError :: "string \<Rightarrow> string \<Rightarrow> string" where
  "workspaceError code path = code @ '':'' @ path"

definition WORKSPACE_NOT_FOUND :: string where "WORKSPACE_NOT_FOUND = ''WORKSPACE_NOT_FOUND''"
definition WORKSPACE_NOT_DIRECTORY :: string where "WORKSPACE_NOT_DIRECTORY = ''WORKSPACE_NOT_DIRECTORY''"
definition WORKSPACE_IS_DIRECTORY :: string where "WORKSPACE_IS_DIRECTORY = ''WORKSPACE_IS_DIRECTORY''"
definition WORKSPACE_PATH_ESCAPES :: string where "WORKSPACE_PATH_ESCAPES = ''WORKSPACE_PATH_ESCAPES''"

definition ESCALATION_REQUIRED :: string where "ESCALATION_REQUIRED = ''ESCALATION_REQUIRED''"

subsection \<open>The scored-rung rule\<close>

definition scoredRungAllowed :: "bool option \<Rightarrow> bool \<Rightarrow> bool" where
  "scoredRungAllowed isolated scored = (\<not> scored \<or> isolated = Some True)"

end
