(* ===== verification/Broker.thy ===== *)
theory Broker
  imports Effects Runtime_State "HOL-Library.Product_Lexorder"
begin

text \<open>
  The execution broker (\<^verbatim>\<open>src/src/execution/broker.ts\<close>): one effect, executed under its
  \<^verbatim>\<open>effect.id\<close> as idempotency key. \<^verbatim>\<open>#execute\<close> is cut at its \<^verbatim>\<open>await\<close>s into the receipt lookup,
  the claim, and the candidate loop with its final receipt, so that brokers of several workers
  can interleave between them; \<open>broker_execute\<close> is their composition. Executors act on a world
  \<open>'w\<close> and may throw. The receipt store is any implementation of the interface.
\<close>

subsection \<open>Executors and stores\<close>

record 'w executor =
  x_id :: string
  x_fidelity :: int
  x_resourceClassId :: "string option"
  x_canExecute :: "Effect \<Rightarrow> EffectContext \<Rightarrow> 'w \<Rightarrow> string + bool"
  x_execute :: "Effect \<Rightarrow> EffectContext \<Rightarrow> 'w \<Rightarrow> (string + EffectResult) \<times> 'w"

record 's receipt_ops =
  ro_get :: "'s \<Rightarrow> string \<Rightarrow> EffectResult DurableEffectRecord option"
  ro_put :: "'s \<Rightarrow> EffectResult DurableEffectRecord \<Rightarrow> 's"
  ro_claim :: "('s \<Rightarrow> EffectResult DurableEffectRecord \<Rightarrow>
      EffectResult DurableEffectRecord ClaimResult \<times> 's) option"

subsection \<open>Lookup and claim\<close>

text \<open>The answer an existing receipt gives; a committed receipt without a result has no \<^verbatim>\<open>ok\<close> to read.\<close>

definition receipt_answer :: "string \<Rightarrow> EffectResult DurableEffectRecord \<Rightarrow> string + EffectResult" where
  "receipt_answer effectId record =
     (case f_status record of
        EffCommitted \<Rightarrow> (case f_result record of Some r \<Rightarrow> Inr r | None \<Rightarrow> Inl ''TypeError'')
      | EffFailed \<Rightarrow>
          (case f_result record of
             Some r \<Rightarrow> Inr r
           | None \<Rightarrow> Inr (error_result (opt_or (f_error record) (''EFFECT_PREVIOUSLY_FAILED:'' @ effectId))))
      | EffStarted \<Rightarrow> Inr (error_result (''EFFECT_OUTCOME_UNCERTAIN:'' @ effectId)))"

definition started_receipt :: "Effect \<Rightarrow> int \<Rightarrow> EffectResult DurableEffectRecord" where
  "started_receipt effect startedAt =
     \<lparr>f_id = eff_id effect, f_status = EffStarted, f_kind = effect_kind (eff_body effect),
      f_startedAt = startedAt, f_updatedAt = startedAt, f_result = None, f_error = None\<rparr>"

definition broker_lookup :: "'s receipt_ops option \<Rightarrow> Effect \<Rightarrow> 's \<Rightarrow> (string + EffectResult) option" where
  "broker_lookup state effect s =
     (case state of
        None \<Rightarrow> None
      | Some ops \<Rightarrow> map_option (receipt_answer (eff_id effect)) (ro_get ops s (eff_id effect)))"

definition broker_claim ::
  "'s receipt_ops option \<Rightarrow> Effect \<Rightarrow> int \<Rightarrow> 's \<Rightarrow> (string + EffectResult) option \<times> 's" where
  "broker_claim state effect startedAt s =
     (case state of
        None \<Rightarrow> (None, s)
      | Some ops \<Rightarrow>
          (case ro_claim ops of
             Some claim \<Rightarrow>
               (let (c, s') = claim s (started_receipt effect startedAt)
                in if claimed c then (None, s')
                   else (Some (receipt_answer (eff_id effect) (claim_record c)), s'))
           | None \<Rightarrow> (None, ro_put ops s (started_receipt effect startedAt))))"

subsection \<open>Choosing and running executors\<close>

definition broker_floor :: "EffectContext \<Rightarrow> int \<Rightarrow> int" where
  "broker_floor context minFidelity =
     max minFidelity (case ctx_executionPolicy context of None \<Rightarrow> 0 | Some p \<Rightarrow> opt_or (ep_minFidelity p) 0)"

definition broker_preferred :: "Effect \<Rightarrow> EffectContext \<Rightarrow> string option" where
  "broker_preferred effect context =
     (let policyPreferred = Option.bind (ctx_executionPolicy context) ep_preferredClass
      in (case eff_body effect of
            ProcessExecEffect p \<Rightarrow> (case px_resourceClass p of Some c \<Rightarrow> Some c | None \<Rightarrow> policyPreferred)
          | _ \<Rightarrow> policyPreferred))"

definition class_allowed :: "EffectContext \<Rightarrow> 'w executor \<Rightarrow> bool" where
  "class_allowed context x =
     (case Option.bind (ctx_executionPolicy context) ep_allowedClasses of
        None \<Rightarrow> True
      | Some allowed \<Rightarrow> (case x_resourceClassId x of None \<Rightarrow> True | Some c \<Rightarrow> c = [] \<or> c \<in> set allowed))"

definition preference_rank :: "string option \<Rightarrow> 'w executor \<Rightarrow> int" where
  "preference_rank preferred x =
     (case preferred of None \<Rightarrow> 1 | Some p \<Rightarrow> if p \<noteq> [] \<and> x_resourceClassId x = Some p then 0 else 1)"

definition broker_candidates :: "'w executor list \<Rightarrow> Effect \<Rightarrow> EffectContext \<Rightarrow> int \<Rightarrow> 'w executor list" where
  "broker_candidates executors effect context minFidelity =
     sort_key (\<lambda>x. (preference_rank (broker_preferred effect context) x, x_fidelity x))
       (filter (class_allowed context)
         (filter (\<lambda>x. x_fidelity x \<ge> broker_floor context minFidelity) executors))"

definition decorate :: "'w executor \<Rightarrow> EffectResult \<Rightarrow> EffectResult" where
  "decorate x result = result\<lparr>r_executor := Some (x_id x), r_fidelity := Some (x_fidelity x)\<rparr>"

definition no_escalation :: "EffectContext \<Rightarrow> bool" where
  "no_escalation context = (Option.bind (ctx_executionPolicy context) ep_allowEscalation = Some False)"

fun run_candidates ::
  "'w executor list \<Rightarrow> Effect \<Rightarrow> EffectContext \<Rightarrow> EffectResult \<Rightarrow> 'w \<Rightarrow> (string + EffectResult) \<times> 'w" where
  "run_candidates [] effect context final w = (Inr final, w)"
| "run_candidates (x # xs) effect context final w =
     (case x_canExecute x effect context w of
        Inl e \<Rightarrow> (Inl e, w)
      | Inr False \<Rightarrow> run_candidates xs effect context final w
      | Inr True \<Rightarrow>
          (case x_execute x effect context w of
             (Inl e, w') \<Rightarrow> (Inl e, w')
           | (Inr result, w') \<Rightarrow>
               (let final' = decorate x result
                in if r_ok result then (Inr final', w')
                   else if r_error result \<noteq> Some ESCALATION_REQUIRED then (Inr final', w')
                   else if no_escalation context then (Inr final', w')
                   else run_candidates xs effect context final' w')))"

definition final_receipt :: "Effect \<Rightarrow> int \<Rightarrow> int \<Rightarrow> string + EffectResult \<Rightarrow> EffectResult DurableEffectRecord" where
  "final_receipt effect startedAt now outcome =
     (let base = (started_receipt effect startedAt)\<lparr>f_updatedAt := now\<rparr>
      in (case outcome of
            Inr final \<Rightarrow>
              if r_ok final then base\<lparr>f_status := EffCommitted, f_result := Some final\<rparr>
              else base\<lparr>f_status := EffFailed, f_error := r_error final, f_result := Some final\<rparr>
          | Inl message \<Rightarrow> base\<lparr>f_error := Some (''uncertain:'' @ message)\<rparr>))"

definition broker_run ::
  "'w executor list \<Rightarrow> Effect \<Rightarrow> EffectContext \<Rightarrow> int \<Rightarrow> 'w \<Rightarrow> (string + EffectResult) \<times> 'w" where
  "broker_run executors effect context minFidelity w =
     run_candidates (broker_candidates executors effect context minFidelity) effect context
       (error_result ''No executor can satisfy effect'') w"

definition broker_finish ::
  "'s receipt_ops option \<Rightarrow> Effect \<Rightarrow> int \<Rightarrow> int \<Rightarrow> string + EffectResult \<Rightarrow> 's \<Rightarrow> 's" where
  "broker_finish state effect startedAt now outcome s =
     (case state of None \<Rightarrow> s | Some ops \<Rightarrow> ro_put ops s (final_receipt effect startedAt now outcome))"

definition broker_execute ::
  "'s receipt_ops option \<Rightarrow> 'w executor list \<Rightarrow> Effect \<Rightarrow> EffectContext \<Rightarrow> int \<Rightarrow> int \<Rightarrow> int \<Rightarrow>
   's \<times> 'w \<Rightarrow> (string + EffectResult) \<times> 's \<times> 'w" where
  "broker_execute state executors effect context minFidelity startedAt now sw =
     (let (s, w) = sw
      in (case broker_lookup state effect s of
            Some answer \<Rightarrow> (answer, s, w)
          | None \<Rightarrow>
              (case broker_claim state effect startedAt s of
                 (Some answer, s') \<Rightarrow> (answer, s', w)
               | (None, s') \<Rightarrow>
                   (let (outcome, w') = broker_run executors effect context minFidelity w
                    in (outcome, broker_finish state effect startedAt now outcome s', w')))))"

subsection \<open>Brokers of several workers on one store\<close>

text \<open>
  Each worker runs the same effect and is between two awaits. \<open>runs\<close> counts how often the
  candidate loop was entered, which is the only place an executor is called.
\<close>

datatype worker_phase = BeforeLookup | BeforeClaim | BeforeRun | BeforeFinish "string + EffectResult" | Answered "string + EffectResult"

record ('s, 'w) broker_system =
  bs_store :: 's
  bs_world :: 'w
  bs_phase :: "nat \<Rightarrow> worker_phase"
  bs_runs :: nat

inductive broker_step ::
  "'s receipt_ops \<Rightarrow> 'w executor list \<Rightarrow> Effect \<Rightarrow> EffectContext \<Rightarrow> int \<Rightarrow>
   ('s, 'w) broker_system \<Rightarrow> ('s, 'w) broker_system \<Rightarrow> bool"
  for ops executors effect ctx minFidelity where
  lookup_hit: "bs_phase b i = BeforeLookup \<Longrightarrow> broker_lookup (Some ops) effect (bs_store b) = Some answer \<Longrightarrow>
    broker_step ops executors effect ctx minFidelity b (b\<lparr>bs_phase := (bs_phase b)(i := Answered answer)\<rparr>)"
| lookup_miss: "bs_phase b i = BeforeLookup \<Longrightarrow> broker_lookup (Some ops) effect (bs_store b) = None \<Longrightarrow>
    broker_step ops executors effect ctx minFidelity b (b\<lparr>bs_phase := (bs_phase b)(i := BeforeClaim)\<rparr>)"
| claim_lost: "bs_phase b i = BeforeClaim \<Longrightarrow> broker_claim (Some ops) effect startedAt (bs_store b) = (Some answer, s') \<Longrightarrow>
    broker_step ops executors effect ctx minFidelity b
      (b\<lparr>bs_phase := (bs_phase b)(i := Answered answer), bs_store := s'\<rparr>)"
| claim_won: "bs_phase b i = BeforeClaim \<Longrightarrow> broker_claim (Some ops) effect startedAt (bs_store b) = (None, s') \<Longrightarrow>
    broker_step ops executors effect ctx minFidelity b
      (b\<lparr>bs_phase := (bs_phase b)(i := BeforeRun), bs_store := s'\<rparr>)"
| run: "bs_phase b i = BeforeRun \<Longrightarrow> broker_run executors effect ctx minFidelity (bs_world b) = (outcome, w') \<Longrightarrow>
    broker_step ops executors effect ctx minFidelity b
      (b\<lparr>bs_phase := (bs_phase b)(i := BeforeFinish outcome), bs_world := w', bs_runs := Suc (bs_runs b)\<rparr>)"
| finish: "bs_phase b i = BeforeFinish outcome \<Longrightarrow>
    broker_step ops executors effect ctx minFidelity b
      (b\<lparr>bs_phase := (bs_phase b)(i := Answered outcome),
         bs_store := broker_finish (Some ops) effect startedAt now outcome (bs_store b)\<rparr>)"
| other_store_op: "canReplaceEffect (ro_get ops (bs_store b) (f_id r)) r \<Longrightarrow>
    broker_step ops executors effect ctx minFidelity b (b\<lparr>bs_store := ro_put ops (bs_store b) r\<rparr>)"

definition broker_start :: "'s \<Rightarrow> 'w \<Rightarrow> ('s, 'w) broker_system" where
  "broker_start s w = \<lparr>bs_store = s, bs_world = w, bs_phase = (\<lambda>_. BeforeLookup), bs_runs = 0\<rparr>"

text \<open>
  The claim is a token: it is in the store from the first successful claim on, and at most one
  worker, until its run, owns it.
\<close>

definition broker_sys_inv :: "'s receipt_ops \<Rightarrow> Effect \<Rightarrow> ('s, 'w) broker_system \<Rightarrow> bool" where
  "broker_sys_inv ops effect b =
     ((bs_runs b \<le> 1) \<and>
      ((\<exists>i. bs_phase b i = BeforeRun) \<longrightarrow> bs_runs b = 0) \<and>
      (\<forall>i j. bs_phase b i = BeforeRun \<longrightarrow> bs_phase b j = BeforeRun \<longrightarrow> i = j) \<and>
      (bs_runs b \<noteq> 0 \<or> (\<exists>i. bs_phase b i = BeforeRun) \<longrightarrow> ro_get ops (bs_store b) (eff_id effect) \<noteq> None))"

subsection \<open>Lemmas\<close>

lemma broker_candidates_set:
  "x \<in> set (broker_candidates executors effect context minFidelity) \<longleftrightarrow>
   x \<in> set executors \<and> x_fidelity x \<ge> broker_floor context minFidelity \<and> class_allowed context x"
  by (auto simp: broker_candidates_def)

lemma run_candidates_executor:
  assumes "run_candidates xs effect context final w = (Inr res, w')"
  shows "res = final \<or> (\<exists>x \<in> set xs. r_executor res = Some (x_id x) \<and> r_fidelity res = Some (x_fidelity x))"
  using assms
proof (induction xs arbitrary: final w)
  case (Cons x xs)
  show ?case
  proof (cases "x_canExecute x effect context w")
    case (Inr b)
    then show ?thesis
      using Cons.prems Cons.IH [of final w]
        Cons.IH [of "decorate x result" w1 for result w1]
      by (cases b; cases "x_execute x effect context w")
        (fastforce simp: decorate_def Let_def split: sum.splits if_splits)+
  qed (use Cons.prems in simp)
qed simp

lemma final_receipt_id [simp]: "f_id (final_receipt effect startedAt now outcome) = eff_id effect"
  by (simp add: final_receipt_def started_receipt_def Let_def split: sum.splits)

lemma started_receipt_simps [simp]:
  "f_id (started_receipt effect startedAt) = eff_id effect"
  "f_status (started_receipt effect startedAt) = EffStarted"
  by (simp_all add: started_receipt_def)

text \<open>The receipt a finished run leaves behind answers a retry with the outcome of that run.\<close>

lemma receipt_answer_final:
  "receipt_answer (eff_id effect) (final_receipt effect startedAt now outcome) =
   (case outcome of Inr r \<Rightarrow> Inr r | Inl _ \<Rightarrow> Inr (error_result (''EFFECT_OUTCOME_UNCERTAIN:'' @ eff_id effect)))"
  by (auto simp: receipt_answer_def final_receipt_def started_receipt_def Let_def split: sum.splits)

lemma canReplace_started [simp]: "f_status e = EffStarted \<Longrightarrow> canReplaceEffect (Some e) r"
  by (simp add: canReplaceEffect_def)

text \<open>The broker relies on the receipt contract for receipts that carry effect results.\<close>

locale broker_store = effect_receipts gete pute claime
  for gete :: "'s \<Rightarrow> string \<Rightarrow> EffectResult DurableEffectRecord option"
    and pute :: "'s \<Rightarrow> EffectResult DurableEffectRecord \<Rightarrow> 's"
    and claime :: "'s \<Rightarrow> EffectResult DurableEffectRecord \<Rightarrow> EffectResult DurableEffectRecord ClaimResult \<times> 's"
begin

lemma broker_claim_fresh:
  fixes startedAt :: int
  assumes "gete s (eff_id effect) = None" and "ops = \<lparr>ro_get = gete, ro_put = pute, ro_claim = Some claime\<rparr>"
  shows "\<exists>s'. broker_claim (Some ops) effect startedAt s = (None, s') \<and>
     gete s' (eff_id effect) = Some (started_receipt effect startedAt)"
  using claim_absent [of s "started_receipt effect startedAt"] assms
  by (auto simp: broker_claim_def)

lemma broker_claim_taken:
  assumes "gete s (eff_id effect) = Some e" and "ops = \<lparr>ro_get = gete, ro_put = pute, ro_claim = Some claime\<rparr>"
  shows "broker_claim (Some ops) effect startedAt s = (Some (receipt_answer (eff_id effect) e), s)"
  using claim_present [of s "started_receipt effect startedAt" e] assms
  by (auto simp: broker_claim_def)

text \<open>
  Exactly-once from the caller's side: the first execution of an effect id runs the executors and
  leaves a receipt; every later one, whatever the executors and the world have become, answers
  from that receipt and touches neither store nor world.
\<close>

lemma broker_execute_replay:
  assumes ops: "ops = \<lparr>ro_get = gete, ro_put = pute, ro_claim = Some claime\<rparr>"
    and fresh: "gete s (eff_id effect) = None"
    and first: "broker_execute (Some ops) executors effect context minFidelity startedAt now (s, w) = (outcome, s1, w1)"
  shows "broker_execute (Some ops) executors' effect context' minFidelity' startedAt' now' (s1, w2) =
    ((case outcome of Inr r \<Rightarrow> Inr r | Inl _ \<Rightarrow> Inr (error_result (''EFFECT_OUTCOME_UNCERTAIN:'' @ eff_id effect))), s1, w2)"
proof -
  obtain s' where claim: "broker_claim (Some ops) effect startedAt s = (None, s')"
    and s': "gete s' (eff_id effect) = Some (started_receipt effect startedAt)"
    using broker_claim_fresh [OF fresh ops, of startedAt] by blast
  obtain w' where "broker_run executors effect context minFidelity w = (outcome, w')"
    and s1: "s1 = broker_finish (Some ops) effect startedAt now outcome s'"
    using first fresh ops claim
    by (auto simp: broker_execute_def broker_lookup_def Let_def split: prod.splits)
  have "gete s1 (eff_id effect) = Some (final_receipt effect startedAt now outcome)"
    unfolding s1 using s' ops by (simp add: broker_finish_def get_put)
  then show ?thesis
    using ops by (simp add: broker_execute_def broker_lookup_def receipt_answer_final)
qed

lemma broker_sys_inv_step:
  assumes ops: "ops = \<lparr>ro_get = gete, ro_put = pute, ro_claim = Some claime\<rparr>"
    and step: "broker_step ops executors effect context minFidelity b b'"
    and inv: "broker_sys_inv ops effect b"
  shows "broker_sys_inv ops effect b'"
  using step inv
proof cases
  case (lookup_hit i answer)
  with inv show ?thesis by (fastforce simp: broker_sys_inv_def)
next
  case (lookup_miss i)
  with inv show ?thesis by (fastforce simp: broker_sys_inv_def)
next
  case (claim_lost i startedAt answer s')
  then have "gete (bs_store b) (eff_id effect) \<noteq> None"
    using broker_claim_fresh [OF _ ops, of "bs_store b" effect startedAt] by auto
  then have "s' = bs_store b"
    using claim_lost broker_claim_taken [OF _ ops] by fastforce
  with claim_lost inv show ?thesis by (fastforce simp: broker_sys_inv_def)
next
  case (claim_won i startedAt s')
  then have none: "gete (bs_store b) (eff_id effect) = None"
    using broker_claim_taken [OF _ ops] by (cases "gete (bs_store b) (eff_id effect)") auto
  with claim_won broker_claim_fresh [OF none ops, of startedAt]
  have "gete s' (eff_id effect) \<noteq> None" by auto
  moreover from none inv ops have "bs_runs b = 0" and "\<forall>j. bs_phase b j \<noteq> BeforeRun"
    by (auto simp: broker_sys_inv_def)
  ultimately show ?thesis
    using claim_won ops by (auto simp: broker_sys_inv_def)
next
  case (run i outcome w')
  with inv have "bs_runs b = 0" and "\<forall>j. j \<noteq> i \<longrightarrow> bs_phase b j \<noteq> BeforeRun"
    by (auto simp: broker_sys_inv_def)
  with run inv show ?thesis by (auto simp: broker_sys_inv_def)
next
  case (finish i outcome startedAt now)
  have "gete (broker_finish (Some ops) effect startedAt now outcome (bs_store b)) (eff_id effect) \<noteq> None"
    if "gete (bs_store b) (eff_id effect) \<noteq> None"
    using that ops by (auto simp: broker_finish_def get_put)
  with finish inv ops show ?thesis
    by (auto simp: broker_sys_inv_def split: if_splits)
next
  case (other_store_op r)
  with inv ops show ?thesis
    by (auto simp: broker_sys_inv_def get_put)
qed

lemma broker_runs_at_most_once:
  assumes ops: "ops = \<lparr>ro_get = gete, ro_put = pute, ro_claim = Some claime\<rparr>"
    and reach: "(broker_step ops executors effect context minFidelity)\<^sup>*\<^sup>* (broker_start s w) b"
  shows "bs_runs b \<le> 1"
proof -
  have "broker_sys_inv ops effect b"
    using reach
  proof (induction rule: rtranclp_induct)
    case base
    show ?case by (simp add: broker_sys_inv_def broker_start_def)
  next
    case (step b b')
    then show ?case by (blast intro: broker_sys_inv_step [OF ops])
  qed
  then show ?thesis by (simp add: broker_sys_inv_def)
qed

end

text \<open>The stores the runtime gives its brokers.\<close>

definition local_ops :: "(EffectResult, 'w) local_state receipt_ops" where
  "local_ops = \<lparr>ro_get = getEffect, ro_put = putEffect, ro_claim = Some claimEffect\<rparr>"

definition temporal_ops :: "(EffectResult, 'w) temporal_state receipt_ops" where
  "temporal_ops = \<lparr>ro_get = temporal_getEffect, ro_put = temporal_putEffect, ro_claim = Some temporal_claimEffect\<rparr>"

interpretation local_broker: broker_store getEffect putEffect claimEffect
  by unfold_locales

interpretation temporal_broker: broker_store temporal_getEffect temporal_putEffect temporal_claimEffect
  by unfold_locales

subsection \<open>Properties\<close>

text \<open>
  C1: at most once. However the steps of any number of workers executing the same effect on one
  receipt store interleave, with other writers of the store in between, the executors are entered at
  most once; this holds for the local store and for the Temporal one.
\<close>

theorem effect_at_most_once:
  assumes "(broker_step local_ops executors effect ctx minFidelity)\<^sup>*\<^sup>* (broker_start s w) b"
    and "(broker_step temporal_ops executors effect ctx minFidelity)\<^sup>*\<^sup>* (broker_start s' w) b'"
  shows "bs_runs b \<le> 1 \<and> bs_runs b' \<le> 1"
  using local_broker.broker_runs_at_most_once [OF local_ops_def assms(1)]
    temporal_broker.broker_runs_at_most_once [OF temporal_ops_def assms(2)] by blast

text \<open>
  C2: replay. The first execution of an effect runs its executors; every later execution of the same
  effect id, with whatever executors, context and world it meets, returns the first outcome (an
  execution that threw is reported as uncertain) and changes neither the store nor the world.
\<close>

theorem effect_replayed:
  assumes "getEffect s (eff_id effect) = None"
    and "broker_execute (Some local_ops) executors effect ctx minFidelity startedAt now (s, w) = (outcome, s1, w1)"
    and "temporal_getEffect t (eff_id effect) = None"
    and "broker_execute (Some temporal_ops) executors effect ctx minFidelity startedAt now (t, w) = (outcome', t1, w1')"
  shows "broker_execute (Some local_ops) executors' effect ctx' minFidelity' startedAt' now' (s1, w2) =
      ((case outcome of Inr r \<Rightarrow> Inr r | Inl _ \<Rightarrow> Inr (error_result (''EFFECT_OUTCOME_UNCERTAIN:'' @ eff_id effect))), s1, w2) \<and>
    broker_execute (Some temporal_ops) executors' effect ctx' minFidelity' startedAt' now' (t1, w2) =
      ((case outcome' of Inr r \<Rightarrow> Inr r | Inl _ \<Rightarrow> Inr (error_result (''EFFECT_OUTCOME_UNCERTAIN:'' @ eff_id effect))), t1, w2)"
  by (rule conjI [OF local_broker.broker_execute_replay [OF local_ops_def assms(1,2)]
        temporal_broker.broker_execute_replay [OF temporal_ops_def assms(3,4)]])

text \<open>
  C7: policy. The result of running an effect comes from a registered executor whose fidelity reaches
  both the broker's and the policy's floor and whose resource class the policy allows, or no
  executor accepted the effect. Candidates are tried with the preferred class first and then by rising
  fidelity.
\<close>

theorem broker_respects_policy:
  assumes "broker_run executors effect ctx minFidelity w = (Inr res, w')"
  shows "(res = error_result ''No executor can satisfy effect'' \<or>
      (\<exists>x \<in> set executors. r_executor res = Some (x_id x) \<and> r_fidelity res = Some (x_fidelity x) \<and>
        minFidelity \<le> x_fidelity x \<and>
        (\<forall>p m. ctx_executionPolicy ctx = Some p \<and> ep_minFidelity p = Some m \<longrightarrow> m \<le> x_fidelity x) \<and>
        (\<forall>p allowed c. ctx_executionPolicy ctx = Some p \<and> ep_allowedClasses p = Some allowed \<and>
           x_resourceClassId x = Some c \<and> c \<noteq> [] \<longrightarrow> c \<in> set allowed))) \<and>
    sorted (map (\<lambda>x. (preference_rank (broker_preferred effect ctx) x, x_fidelity x)) (broker_candidates executors effect ctx minFidelity))"
proof -
  from run_candidates_executor [OF assms [unfolded broker_run_def]]
  consider "res = error_result ''No executor can satisfy effect''"
    | x where "x \<in> set (broker_candidates executors effect ctx minFidelity)"
        "r_executor res = Some (x_id x)" "r_fidelity res = Some (x_fidelity x)"
    by blast
  then show ?thesis
  proof cases
    case (2 x)
    then have "x \<in> set executors" "broker_floor ctx minFidelity \<le> x_fidelity x" "class_allowed ctx x"
      by (auto simp: broker_candidates_set)
    with 2 show ?thesis
      by (force simp: broker_floor_def class_allowed_def broker_candidates_def split: option.splits)
  qed (simp add: broker_candidates_def)
qed

subsection \<open>A concrete executor\<close>

definition sample_executor :: "nat executor" where
  "sample_executor =
     \<lparr>x_id = ''x'', x_fidelity = 2, x_resourceClassId = Some ''sandbox'', x_canExecute = (\<lambda>_ _ _. Inr True),
      x_execute = (\<lambda>_ _ n. (Inr ok_result, Suc n))\<rparr>"

definition sample_effect :: Effect where
  "sample_effect = \<lparr>eff_id = ''e1'', eff_body = WorkspaceDelete ''a''\<rparr>"

definition sample_ctx :: EffectContext where
  "sample_ctx =
     \<lparr>ctx_agentId = ''a'', ctx_taskId = None, ctx_workspaceId = ''w'',
      ctx_executionPolicy = Some \<lparr>ep_preferredClass = None, ep_allowedClasses = Some [''sandbox''], ep_minFidelity = Some 1,
        ep_allowEscalation = None, ep_projectCellId = None\<rparr>\<rparr>"

theorem effect_at_most_once_witness:
  "\<exists>b. (broker_step local_ops [sample_executor] sample_effect sample_ctx 0)\<^sup>*\<^sup>*
      (broker_start (empty_local_state :: (EffectResult, unit) local_state) 0) b \<and> bs_runs b \<le> 1 \<and> bs_phase b 0 = BeforeClaim"
proof -
  let ?b0 = "broker_start (empty_local_state :: (EffectResult, unit) local_state) (0 :: nat)"
  let ?t0 = "broker_start (temporal_new None :: (EffectResult, unit) temporal_state) (0 :: nat)"
  let ?b1 = "?b0\<lparr>bs_phase := (bs_phase ?b0)(0 := BeforeClaim)\<rparr>"
  have "broker_step local_ops [sample_executor] sample_effect sample_ctx 0 ?b0 ?b1"
    by (rule lookup_miss) (simp_all add: broker_start_def broker_lookup_def local_ops_def getEffect_def empty_local_state_def)
  then have reach: "(broker_step local_ops [sample_executor] sample_effect sample_ctx 0)\<^sup>*\<^sup>* ?b0 ?b1"
    by (rule r_into_rtranclp)
  with effect_at_most_once [OF reach, where s' = "temporal_new None :: (EffectResult, unit) temporal_state" and b' = ?t0] show ?thesis
    by (intro exI [of _ ?b1]) simp
qed

theorem effect_replayed_witness:
  "\<exists>s1 w1. broker_execute (Some local_ops) [sample_executor] sample_effect sample_ctx 0 1 2
       (empty_local_state :: (EffectResult, unit) local_state, 0) = (Inr (decorate sample_executor ok_result), s1, w1) \<and> w1 = 1 \<and>
     broker_execute (Some local_ops) [sample_executor] sample_effect sample_ctx 0 3 4 (s1, 7) =
       (Inr (decorate sample_executor ok_result), s1, 7)"
proof -
  let ?s = "empty_local_state :: (EffectResult, unit) local_state"
  let ?t = "temporal_new None :: (EffectResult, unit) temporal_state"
  let ?r = "broker_execute (Some local_ops) [sample_executor] sample_effect sample_ctx 0 1 2 (?s, 0)"
  let ?q = "broker_execute (Some temporal_ops) [sample_executor] sample_effect sample_ctx 0 1 2 (?t, 0)"
  have absent: "getEffect ?s (eff_id sample_effect) = None" "temporal_getEffect ?t (eff_id sample_effect) = None"
    by code_simp+
  have out: "fst ?r = Inr (decorate sample_executor ok_result)" "snd (snd ?r) = 1"
    by code_simp+
  have "?r = (fst ?r, fst (snd ?r), snd (snd ?r))" "?q = (fst ?q, fst (snd ?q), snd (snd ?q))"
    by simp_all
  from effect_replayed [OF absent(1) this(1) absent(2) this(2), of "[sample_executor]" sample_ctx 0 3 4 7] out
  show ?thesis
    by (intro exI [of _ "fst (snd ?r)"] exI [of _ "snd (snd ?r)"]) (simp add: prod_eq_iff)
qed

theorem broker_respects_policy_witness:
  "\<exists>x \<in> set [sample_executor]. r_executor (decorate sample_executor ok_result) = Some (x_id x) \<and> 1 \<le> x_fidelity x"
proof -
  have "broker_run [sample_executor] sample_effect sample_ctx 0 0 = (Inr (decorate sample_executor ok_result), 1)"
    by code_simp
  moreover have "decorate sample_executor ok_result \<noteq> error_result ''No executor can satisfy effect''"
    by code_simp
  ultimately show ?thesis
    using broker_respects_policy [of "[sample_executor]" sample_effect sample_ctx 0 0] by (force simp: sample_ctx_def)
qed

end
