(* ===== verification/Paths.thy ===== *)
theory Paths
  imports Effects
begin

text \<open>
  Workspace paths: \<^verbatim>\<open>normalizeRelative\<close> (\<^verbatim>\<open>src/src/workspace/source.ts\<close>), the containment check
  \<^verbatim>\<open>escapesWorkspace\<close> and \<^verbatim>\<open>ancestorPaths\<close> (\<^verbatim>\<open>src/src/execution/workspace-errors.ts\<close>) and
  symlink resolution (\<^verbatim>\<open>src/src/workspace/symlink-target.ts\<close>). The reference they are proved
  against is \<open>lex_resolve\<close>, which walks the components of a path and fails where a \<^verbatim>\<open>..\<close> would
  leave the root.
\<close>

subsection \<open>Components of a path\<close>

definition to_slashes :: "string \<Rightarrow> string" where
  "to_slashes path = map (\<lambda>c. if c = CHR 0x5C then CHR ''/'' else c) path"

definition raw_components :: "string \<Rightarrow> string list" where
  "raw_components path = split_on (CHR ''/'') (to_slashes path)"

definition skipped :: "string \<Rightarrow> bool" where
  "skipped raw = (raw = [] \<or> raw = ''.'')"

definition segments :: "string \<Rightarrow> string list" where
  "segments path = filter (\<lambda>part. \<not> skipped part) (raw_components path)"

definition join_path :: "string list \<Rightarrow> string" where
  "join_path parts = join_with (CHR ''/'') parts"

definition drive_letter :: "char \<Rightarrow> bool" where
  "drive_letter c = (c \<in> set ''ABCDEFGHIJKLMNOPQRSTUVWXYZabcdefghijklmnopqrstuvwxyz'')"

text \<open>\<^verbatim>\<open>startsWith("/")\<close> or a match of \<^verbatim>\<open>/^[A-Za-z]:[\\/]/\<close>.\<close>

fun isAbsoluteTarget :: "string \<Rightarrow> bool" where
  "isAbsoluteTarget (c # d # e # _) =
     (c = CHR ''/'' \<or> (drive_letter c \<and> d = CHR '':'' \<and> (e = CHR 0x5C \<or> e = CHR ''/'')))"
| "isAbsoluteTarget (c # _) = (c = CHR ''/'')"
| "isAbsoluteTarget [] = False"

subsection \<open>Normalization and containment\<close>

fun normalize_step :: "string list \<Rightarrow> string \<Rightarrow> string list" where
  "normalize_step parts raw =
     (if skipped raw then parts else if raw = ''..'' then butlast parts else parts @ [raw])"

definition normalizeRelative :: "string \<Rightarrow> string" where
  "normalizeRelative path = join_path (foldl normalize_step [] (raw_components path))"

fun escapes_loop :: "nat \<Rightarrow> string list \<Rightarrow> bool" where
  "escapes_loop depth [] = False"
| "escapes_loop depth (raw # rest) =
     (if skipped raw then escapes_loop depth rest
      else if raw = ''..'' then (if depth = 0 then True else escapes_loop (depth - 1) rest)
      else escapes_loop (depth + 1) rest)"

definition escapesWorkspace :: "string \<Rightarrow> bool" where
  "escapesWorkspace path = (if isAbsoluteTarget path then True else escapes_loop 0 (raw_components path))"

definition ancestorPaths :: "string \<Rightarrow> string list" where
  "ancestorPaths path =
     (let parts = segments path in map (\<lambda>i. join_path (take i parts)) [1..<length parts])"

subsection \<open>Symlink targets\<close>

fun resolve_link_loop :: "string list \<Rightarrow> string list \<Rightarrow> string list option" where
  "resolve_link_loop parts [] = Some parts"
| "resolve_link_loop parts (raw # rest) =
     (if skipped raw then resolve_link_loop parts rest
      else if raw = ''..'' then (if parts = [] then None else resolve_link_loop (butlast parts) rest)
      else resolve_link_loop (parts @ [raw]) rest)"

text \<open>\<^verbatim>\<open>{ escapes: true }\<close> is \<open>None\<close>, \<^verbatim>\<open>{ resolved, escapes: false }\<close> is \<open>Some resolved\<close>.\<close>

definition resolveLinkTarget :: "string \<Rightarrow> string \<Rightarrow> string option" where
  "resolveLinkTarget linkPath target =
     (if isAbsoluteTarget target then None
      else map_option join_path (resolve_link_loop (butlast (segments linkPath)) (raw_components target)))"

datatype SymlinkTargetResolution =
    Resolved string
  | Escapes string string
  | Cycle string
  | TooDeep string

function resolve_loop ::
  "(string \<Rightarrow> string option) \<Rightarrow> nat \<Rightarrow> string \<Rightarrow> string \<Rightarrow>
   string list \<Rightarrow> string list \<Rightarrow> string list \<Rightarrow> nat \<Rightarrow> SymlinkTargetResolution" where
  "resolve_loop readLink maxDepth linkPath target dir [] visited followed = Resolved (join_path dir)"
| "resolve_loop readLink maxDepth linkPath target dir (raw # pending) visited followed =
     (if skipped raw then resolve_loop readLink maxDepth linkPath target dir pending visited followed
      else if raw = ''..'' then
        (if dir = [] then Escapes linkPath target
         else resolve_loop readLink maxDepth linkPath target (butlast dir) pending visited followed)
      else
        (let candidate = join_path (dir @ [raw])
         in (case readLink candidate of
               None \<Rightarrow> resolve_loop readLink maxDepth linkPath target (dir @ [raw]) pending visited followed
             | Some linkTarget \<Rightarrow>
                 if candidate \<in> set visited then Cycle candidate
                 else if Suc followed > maxDepth then TooDeep candidate
                 else (case resolveLinkTarget candidate linkTarget of
                         None \<Rightarrow> Escapes candidate linkTarget
                       | Some resolved \<Rightarrow>
                           resolve_loop readLink maxDepth linkPath target [] (segments resolved @ pending)
                             (set_add candidate visited) (Suc followed)))))"
  by pat_completeness auto
termination
  by (relation "measures [\<lambda>(rl, maxDepth, lp, t, dir, pending, visited, followed). maxDepth - followed,
      \<lambda>(rl, maxDepth, lp, t, dir, pending, visited, followed). length pending]") auto

declare resolve_loop.simps(2) [simp del]

definition DEFAULT_MAX_DEPTH :: nat where "DEFAULT_MAX_DEPTH = 16"

definition resolveSymlinkTarget ::
  "string \<Rightarrow> string \<Rightarrow> (string \<Rightarrow> string option) \<Rightarrow> nat \<Rightarrow> SymlinkTargetResolution" where
  "resolveSymlinkTarget linkPath target readLink maxDepth =
     (if isAbsoluteTarget target then Escapes linkPath target
      else resolve_loop readLink maxDepth linkPath target
             (butlast (segments linkPath)) (raw_components target) [] 0)"

subsection \<open>The reference: walking components from the root\<close>

definition plain :: "string \<Rightarrow> bool" where
  "plain raw = (\<not> skipped raw \<and> raw \<noteq> ''..'' \<and> CHR ''/'' \<notin> set raw \<and> CHR 0x5C \<notin> set raw)"

abbreviation lex_resolve :: "string list \<Rightarrow> string list option" where
  "lex_resolve \<equiv> resolve_link_loop []"

lemma raw_components_chars:
  "p \<in> set (raw_components path) \<Longrightarrow> CHR ''/'' \<notin> set p \<and> CHR 0x5C \<notin> set p"
proof
  assume p: "p \<in> set (raw_components path)"
  show "CHR ''/'' \<notin> set p"
    using p unfolding raw_components_def by (rule split_on_parts)
  have "CHR 0x5C \<notin> set (to_slashes path)"
    by (auto simp: to_slashes_def)
  moreover have "set p \<subseteq> set (to_slashes path)"
    using p unfolding raw_components_def by (rule set_split_on)
  ultimately show "CHR 0x5C \<notin> set p" by auto
qed

lemma plain_component: "p \<in> set (raw_components path) \<Longrightarrow> \<not> skipped p \<Longrightarrow> p \<noteq> ''..'' \<Longrightarrow> plain p"
  using raw_components_chars [of p path] by (simp add: plain_def)

lemma to_slashes_id: "CHR 0x5C \<notin> set s \<Longrightarrow> to_slashes s = s"
  by (induction s) (auto simp: to_slashes_def)

lemma set_join_path: "set (join_path ps) \<subseteq> insert (CHR ''/'') (\<Union> (set ` set ps))"
  unfolding join_path_def by (induction "CHR ''/''" ps rule: join_with.induct) auto

lemma raw_components_join:
  assumes "\<forall>p \<in> set ps. plain p"
  shows "raw_components (join_path ps) = (if ps = [] then [[]] else ps)"
proof -
  have "CHR 0x5C \<notin> set (join_path ps)"
    using set_join_path [of ps] assms by (fastforce simp: plain_def)
  then have "raw_components (join_path ps) = split_on (CHR ''/'') (join_path ps)"
    by (simp add: raw_components_def to_slashes_id)
  with assms show ?thesis
    by (auto simp: join_path_def plain_def intro: split_join)
qed

lemma segments_join: "\<forall>p \<in> set ps. plain p \<Longrightarrow> segments (join_path ps) = ps"
  by (auto simp: segments_def raw_components_join plain_def skipped_def filter_id_conv)

lemma plain_join_inject:
  "\<forall>p \<in> set ps. plain p \<Longrightarrow> \<forall>p \<in> set qs. plain p \<Longrightarrow> join_path ps = join_path qs \<Longrightarrow> ps = qs"
  by (metis segments_join)

subsection \<open>Normalization is exact where it does not escape\<close>

lemma resolve_link_loop_foldl:
  "resolve_link_loop parts raws = Some qs \<Longrightarrow> foldl normalize_step parts raws = qs"
  by (induction parts raws rule: resolve_link_loop.induct) (auto split: if_splits)

lemma escapes_loop_iff: "escapes_loop (length parts) raws \<longleftrightarrow> resolve_link_loop parts raws = None"
  by (induction parts raws rule: resolve_link_loop.induct) (auto split: if_splits)

lemma foldl_normalize_plain:
  "\<forall>p \<in> set parts. plain p \<Longrightarrow> \<forall>r \<in> set raws. \<not> skipped r \<longrightarrow> r \<noteq> ''..'' \<longrightarrow> plain r \<Longrightarrow>
   \<forall>p \<in> set (foldl normalize_step parts raws). plain p"
proof (induction raws arbitrary: parts)
  case (Cons r raws)
  then have "\<forall>p \<in> set (normalize_step parts r). plain p"
    by (auto dest: in_set_butlastD)
  with Cons show ?case by simp
qed simp

lemma normalizeRelative_segments:
  "segments (normalizeRelative path) = foldl normalize_step [] (raw_components path)"
  "\<forall>p \<in> set (foldl normalize_step [] (raw_components path)). plain p"
proof -
  show "\<forall>p \<in> set (foldl normalize_step [] (raw_components path)). plain p"
    by (rule foldl_normalize_plain) (auto intro: plain_component)
  then show "segments (normalizeRelative path) = foldl normalize_step [] (raw_components path)"
    by (simp add: normalizeRelative_def segments_join)
qed

lemma normalize_plain_id: "\<forall>p \<in> set raws. plain p \<Longrightarrow> foldl normalize_step parts raws = parts @ raws"
  by (induction raws arbitrary: parts) (auto simp: plain_def)

lemma normalizeRelative_join: "\<forall>p \<in> set ps. plain p \<Longrightarrow> normalizeRelative (join_path ps) = join_path ps"
  by (auto simp: normalizeRelative_def raw_components_join normalize_plain_id skipped_def)

lemma normalizeRelative_idem [simp]: "normalizeRelative (normalizeRelative path) = normalizeRelative path"
proof -
  have "normalizeRelative path = join_path (foldl normalize_step [] (raw_components path))"
    by (simp add: normalizeRelative_def)
  then show ?thesis
    using normalizeRelative_join [OF normalizeRelative_segments(2), of path] by simp
qed

lemma normalizeRelative_exact:
  "escapesWorkspace path \<longleftrightarrow> isAbsoluteTarget path \<or> lex_resolve (raw_components path) = None"
  "\<not> escapesWorkspace path \<Longrightarrow> lex_resolve (raw_components path) = Some (segments (normalizeRelative path))"
proof -
  show iff: "escapesWorkspace path \<longleftrightarrow> isAbsoluteTarget path \<or> lex_resolve (raw_components path) = None"
    using escapes_loop_iff [of "[]" "raw_components path"] by (simp add: escapesWorkspace_def)
  assume "\<not> escapesWorkspace path"
  with iff obtain qs where "lex_resolve (raw_components path) = Some qs" by auto
  with resolve_link_loop_foldl show "lex_resolve (raw_components path) = Some (segments (normalizeRelative path))"
    by (fastforce simp: normalizeRelative_segments(1))
qed

subsection \<open>Resolved symlinks are contained and fully resolved\<close>

lemma resolve_link_loop_plain:
  "resolve_link_loop parts raws = Some qs \<Longrightarrow> \<forall>p \<in> set parts. plain p \<Longrightarrow>
   \<forall>r \<in> set raws. \<not> skipped r \<longrightarrow> r \<noteq> ''..'' \<longrightarrow> plain r \<Longrightarrow> \<forall>p \<in> set qs. plain p"
  by (induction parts raws rule: resolve_link_loop.induct) (auto split: if_splits dest: in_set_butlastD)

lemma segments_not_skipped: "p \<in> set (segments path) \<Longrightarrow> \<not> skipped p \<and> CHR ''/'' \<notin> set p \<and> CHR 0x5C \<notin> set p"
  using raw_components_chars by (auto simp: segments_def)

text \<open>
  The loop keeps a directory of plain components no prefix of which, beyond those of the directory
  \<open>base\<close> it started from, is a link.
\<close>

definition fresh_from :: "(string \<Rightarrow> string option) \<Rightarrow> string list \<Rightarrow> string list \<Rightarrow> bool" where
  "fresh_from readLink base dir = (\<forall>n. n \<le> length dir \<longrightarrow>
     prefix (take n dir) base \<or> readLink (join_path (take n dir)) = None)"

lemma fresh_from_butlast: "fresh_from readLink base dir \<Longrightarrow> fresh_from readLink base (butlast dir)"
  by (auto simp: fresh_from_def take_butlast butlast_conv_take min_def)

lemma fresh_from_snoc:
  "fresh_from readLink base dir \<Longrightarrow> readLink (join_path (dir @ [raw])) = None \<Longrightarrow> fresh_from readLink base (dir @ [raw])"
  by (auto simp: fresh_from_def le_Suc_eq)

lemma resolve_loop_fresh:
  assumes "resolve_loop readLink maxDepth linkPath target dir pending visited followed = Resolved res"
    and "\<forall>p \<in> set dir. plain p" and "fresh_from readLink base dir"
    and "\<forall>r \<in> set pending. \<not> skipped r \<longrightarrow> r \<noteq> ''..'' \<longrightarrow> plain r"
  shows "\<exists>qs. res = join_path qs \<and> (\<forall>p \<in> set qs. plain p) \<and> fresh_from readLink base qs"
  using assms
proof (induction readLink maxDepth linkPath target dir pending visited followed rule: resolve_loop.induct)
  case (2 readLink maxDepth linkPath target dir raw pending visited followed)
  let ?cand = "join_path (dir @ [raw])"
  consider "skipped raw" | "\<not> skipped raw" "raw = ''..''" | "\<not> skipped raw" "raw \<noteq> ''..''" "readLink ?cand = None"
    | lt where "\<not> skipped raw" "raw \<noteq> ''..''" "readLink ?cand = Some lt"
    by blast
  then show ?case
  proof cases
    case 1
    with "2.prems" "2.IH"(1) show ?thesis by (simp add: resolve_loop.simps(2))
  next
    case 2
    with "2.prems" have ne: "dir \<noteq> []"
      by (auto simp: resolve_loop.simps(2) split: if_splits)
    with 2 "2.prems" "2.IH"(2) show ?thesis
      by (auto simp: resolve_loop.simps(2) fresh_from_butlast dest: in_set_butlastD)
  next
    case 3
    with "2.prems" have "plain raw" by auto
    with 3 "2.prems" "2.IH"(3) show ?thesis
      by (auto simp: resolve_loop.simps(2) intro: fresh_from_snoc)
  next
    case (4 lt)
    with "2.prems"(1) obtain rs where ok: "?cand \<notin> set visited" "\<not> Suc followed > maxDepth"
      "resolveLinkTarget ?cand lt = Some rs"
      "resolve_loop readLink maxDepth linkPath target [] (segments rs @ pending) (set_add ?cand visited) (Suc followed)
        = Resolved res"
      by (auto simp: resolve_loop.simps(2) Let_def split: if_splits option.splits)
    have "\<forall>r \<in> set (segments rs @ pending). \<not> skipped r \<longrightarrow> r \<noteq> ''..'' \<longrightarrow> plain r"
      using "2.prems"(4) segments_not_skipped by (auto simp: plain_def)
    moreover have "fresh_from readLink base []"
      by (simp add: fresh_from_def)
    ultimately show ?thesis
      using ok 4 "2.IH"(4) by auto
  qed
qed auto

lemma segments_parent_plain:
  "\<not> escapesWorkspace p \<Longrightarrow> p = normalizeRelative q \<Longrightarrow> \<forall>x \<in> set (butlast (segments p)). plain x"
  using normalizeRelative_segments [of q] by (auto dest: in_set_butlastD)

subsection \<open>Directories above a path\<close>

lemma join_path_prefix_iff:
  assumes "\<forall>p \<in> set ks. plain p" and "\<forall>p \<in> set qs. plain p" and "ks \<noteq> []"
  shows "prefix (join_path ks @ ''/'') (join_path qs) \<longleftrightarrow> strict_prefix ks qs"
proof
  have split: "split_on (CHR ''/'') (join_path ps) = ps" if "ps \<noteq> []" "\<forall>p \<in> set ps. plain p" for ps
    unfolding join_path_def using that by (intro split_join) (auto simp: plain_def)
  assume "prefix (join_path ks @ ''/'') (join_path qs)"
  then obtain rest where rest: "join_path qs = join_path ks @ CHR ''/'' # rest"
    by (auto simp: prefix_def)
  then have "qs \<noteq> []" by (auto simp: join_path_def)
  with assms rest split [of qs] split [of ks] have "qs = ks @ split_on (CHR ''/'') rest"
    by (metis split_on_append_sep)
  then show "strict_prefix ks qs"
    by (metis append_self_conv prefixI prefix_order.dual_order.strict_iff_order split_on_not_Nil)
next
  assume "strict_prefix ks qs"
  then obtain r where "qs = ks @ r" "r \<noteq> []"
    by (auto simp: strict_prefix_def prefix_def)
  with assms(3) show "prefix (join_path ks @ ''/'') (join_path qs)"
    by (simp add: join_path_def join_with_append)
qed

lemma normalized_join: "normalizeRelative p = p \<Longrightarrow> p = join_path (segments p) \<and> (\<forall>x \<in> set (segments p). plain x)"
  using normalizeRelative_segments [of p] by (simp add: normalizeRelative_def)

lemma ancestorPaths_iff:
  assumes "normalizeRelative k = k" and "k \<noteq> []" and "normalizeRelative p = p"
  shows "k \<in> set (ancestorPaths p) \<longleftrightarrow> prefix (k @ ''/'') p"
proof -
  let ?ks = "segments k" and ?qs = "segments p"
  note k = normalized_join [OF assms(1)] and p = normalized_join [OF assms(3)]
  have ne: "?ks \<noteq> []"
    using k assms(2) by (auto simp: join_path_def)
  have plain_take: "\<forall>x \<in> set (take i ?qs). plain x" for i
    using p by (auto dest: in_set_takeD)
  have "k \<in> set (ancestorPaths p) \<longleftrightarrow> (\<exists>i. 1 \<le> i \<and> i < length ?qs \<and> join_path ?ks = join_path (take i ?qs))"
    using k by (auto simp: ancestorPaths_def Let_def image_iff)
  also have "\<dots> \<longleftrightarrow> (\<exists>i. 1 \<le> i \<and> i < length ?qs \<and> ?ks = take i ?qs)"
    using plain_join_inject [of ?ks] k plain_take by metis
  also have "\<dots> \<longleftrightarrow> strict_prefix ?ks ?qs"
  proof
    assume "\<exists>i. 1 \<le> i \<and> i < length ?qs \<and> ?ks = take i ?qs"
    then obtain i where "i < length ?qs" "?ks = take i ?qs" by blast
    then have "prefix ?ks ?qs" "length ?ks < length ?qs"
      by (auto simp: take_is_prefix)
    then show "strict_prefix ?ks ?qs"
      by (metis order_less_irrefl prefix_order.order_iff_strict)
  next
    assume s: "strict_prefix ?ks ?qs"
    then have "?ks = take (length ?ks) ?qs" "length ?ks < length ?qs"
      by (auto simp: strict_prefix_def prefix_def)
    with ne show "\<exists>i. 1 \<le> i \<and> i < length ?qs \<and> ?ks = take i ?qs"
      by (intro exI [of _ "length ?ks"]) (auto simp: Suc_le_eq)
  qed
  also have "\<dots> \<longleftrightarrow> prefix (k @ ''/'') p"
    using join_path_prefix_iff [of ?ks ?qs] k p ne by metis
  finally show ?thesis .
qed

end
