(* ===== verification/Workspace.thy ===== *)
theory Workspace
  imports Paths "HOL-Library.Char_ord" "HOL-Library.List_Lexorder"
begin

text \<open>
  The in-memory workspace (\<^verbatim>\<open>src/src/workspace/memory-workspace.ts\<close>, \<^verbatim>\<open>transaction.ts\<close>): an
  overlay of written files, created links, deleted paths and implicit directories over a
  read-only source tree. The source (\<^verbatim>\<open>TreeSource\<close>) is a record of the interface's functions; a
  failing \<^verbatim>\<open>readFile\<close> is the left value of a sum. Each method is one step: its awaits only wait
  for the source.
\<close>

subsection \<open>Source trees\<close>

datatype SourceKind = FileKind | DirectoryKind | SymlinkKind

record SourceInfo =
  si_path :: string
  si_kind :: SourceKind
  si_size :: int
  si_mtimeMs :: int
  si_objectId :: "string option"

datatype revision_kind = GitRevision | SnapshotRevision | UnknownRevision

record WorkspaceRevision =
  wr_kind :: revision_kind
  wr_remote :: "string option"
  wr_ref :: "string option"
  wr_commit :: "string option"

record TreeSource =
  ts_name :: string
  ts_revision :: "WorkspaceRevision option"
  ts_stat :: "string \<Rightarrow> SourceInfo option"
  ts_listDir :: "string \<Rightarrow> SourceInfo list"
  ts_readFile :: "string \<Rightarrow> string + string"

subsection \<open>The workspace state\<close>

record MemoryWorkspace =
  ws_id :: string
  ws_source :: "TreeSource option"
  ws_overlay :: "(string, string) jsmap"
  ws_links :: "(string, string) jsmap"
  ws_deleted :: "string list"
  ws_changed :: "string list"
  ws_dirs :: "string list"

definition new_workspace :: "string \<Rightarrow> TreeSource option \<Rightarrow> MemoryWorkspace" where
  "new_workspace i src =
     \<lparr>ws_id = i, ws_source = src, ws_overlay = [], ws_links = [], ws_deleted = [], ws_changed = [], ws_dirs = []\<rparr>"

datatype ws_error =
    CannotWriteRoot
  | CannotLinkRoot
  | CannotDeleteRoot
  | LinkEscapes string
  | ForeignSnapshot string string
  | TransactionClosed

definition under :: "string \<Rightarrow> string \<Rightarrow> bool" where
  "under p q = prefix (p @ ''/'') q"

definition isDeleted :: "MemoryWorkspace \<Rightarrow> string \<Rightarrow> bool" where
  "isDeleted ws p = (p \<in> set (ws_deleted ws) \<or> (\<exists>d \<in> set (ws_deleted ws). d \<noteq> [] \<and> under d p))"

subsection \<open>Reading\<close>

function readFromSource :: "TreeSource option \<Rightarrow> string \<Rightarrow> nat \<Rightarrow> string + string option" where
  "readFromSource src p depth =
     (if depth > 16 then Inr None
      else case src of
        None \<Rightarrow> Inr None
      | Some s \<Rightarrow>
          (case ts_stat s p of
             None \<Rightarrow> Inr None
           | Some info \<Rightarrow>
               (case si_kind info of
                  FileKind \<Rightarrow> map_sum id Some (ts_readFile s p)
                | SymlinkKind \<Rightarrow>
                    (case ts_readFile s p of
                       Inl e \<Rightarrow> Inl e
                     | Inr target \<Rightarrow>
                         (case resolveLinkTarget p target of
                            None \<Rightarrow> Inr None
                          | Some resolved \<Rightarrow> readFromSource src resolved (Suc depth)))
                | DirectoryKind \<Rightarrow> Inr None)))"
  by pat_completeness auto
termination
  by (relation "measure (\<lambda>(src, p, depth). 17 - depth)") auto

declare readFromSource.simps [simp del]

definition read_link :: "MemoryWorkspace \<Rightarrow> string \<Rightarrow> string option" where
  "read_link ws candidate = js_get (ws_links ws) (normalizeRelative candidate)"

text \<open>
  Following a link recurses into \<^verbatim>\<open>read\<close>. The resolved path is not a link unless it is an ancestor
  directory of the link, so the recursion ends.
\<close>

lemma resolved_not_link:
  assumes "resolveSymlinkTarget (normalizeRelative q) target (read_link ws) maxDepth = Resolved res"
  shows "normalizeRelative res = res \<and>
    (js_get (ws_links ws) res = None \<or> length (segments res) < length (segments (normalizeRelative q)) \<or> res = [])"
proof -
  let ?base = "butlast (segments (normalizeRelative q))"
  have plain: "\<forall>p \<in> set (segments (normalizeRelative q)). plain p"
    using normalizeRelative_segments [of q] by simp
  have "resolve_loop (read_link ws) maxDepth (normalizeRelative q) target ?base (raw_components target) [] 0 = Resolved res"
    using assms by (simp add: resolveSymlinkTarget_def split: if_splits)
  moreover have "\<forall>p \<in> set ?base. plain p"
    using plain by (auto dest: in_set_butlastD)
  moreover have "fresh_from (read_link ws) ?base ?base"
    by (simp add: fresh_from_def take_is_prefix)
  moreover have "\<forall>r \<in> set (raw_components target). \<not> skipped r \<longrightarrow> r \<noteq> ''..'' \<longrightarrow> plain r"
    by (blast intro: plain_component)
  ultimately obtain qs where qs: "res = join_path qs" "\<forall>p \<in> set qs. plain p" "fresh_from (read_link ws) ?base qs"
    by (blast dest: resolve_loop_fresh)
  have norm: "normalizeRelative res = res"
    using qs by (simp add: normalizeRelative_join)
  from qs(3) have "prefix qs ?base \<or> read_link ws res = None"
    by (auto simp: fresh_from_def qs(1) dest: spec [of _ "length qs"])
  moreover have "length qs < length (segments (normalizeRelative q)) \<or> res = []" if "prefix qs ?base"
  proof (cases "segments (normalizeRelative q) = []")
    case True
    with that qs(1) show ?thesis by (simp add: join_path_def)
  next
    case False
    then have "0 < length (segments (normalizeRelative q))" by simp
    moreover have "length qs \<le> length (segments (normalizeRelative q)) - 1"
      using prefix_length_le [OF that] by simp
    ultimately show ?thesis by linarith
  qed
  ultimately show ?thesis
    using norm qs by (auto simp: read_link_def segments_join)
qed

definition link_rank :: "MemoryWorkspace \<Rightarrow> string \<Rightarrow> nat" where
  "link_rank ws path =
     (let p = normalizeRelative path
      in if js_get (ws_links ws) p = None then 0 else if p = [] then 1 else Suc (Suc (length (segments p))))"

text \<open>
  A link stored at the root path itself would make the code recurse for ever; \<^verbatim>\<open>symlink\<close> refuses the
  root, so no operation creates one, and that case answers absent here.
\<close>

function ws_read :: "MemoryWorkspace \<Rightarrow> string \<Rightarrow> string + string option" where
  "ws_read ws path =
     (let p = normalizeRelative path
      in (case js_get (ws_overlay ws) p of
            Some over \<Rightarrow> Inr (Some over)
          | None \<Rightarrow>
              if isDeleted ws p then Inr None
              else (case js_get (ws_links ws) p of
                      Some link \<Rightarrow>
                        (case resolveSymlinkTarget p link (read_link ws) DEFAULT_MAX_DEPTH of
                           Resolved resolved \<Rightarrow>
                             if resolved = [] \<and> p = [] then Inr None else ws_read ws resolved
                         | _ \<Rightarrow> Inr None)
                    | None \<Rightarrow> if ws_source ws = None then Inr None else readFromSource (ws_source ws) p 0)))"
  by pat_completeness auto
termination
proof (relation "measure (\<lambda>(ws, path). link_rank ws path)", goal_cases)
  case (2 ws path p link resolved)
  from resolved_not_link [of path link ws DEFAULT_MAX_DEPTH resolved] 2
  have norm: "normalizeRelative resolved = resolved"
    and less: "js_get (ws_links ws) resolved = None \<or> length (segments resolved) < length (segments p) \<or> resolved = []"
    by auto
  have "link_rank ws resolved < link_rank ws path"
  proof (cases "js_get (ws_links ws) resolved = None")
    case True
    with norm 2 show ?thesis by (auto simp: link_rank_def Let_def)
  next
    case False
    with less have "resolved = [] \<or> length (segments resolved) < length (segments p)" by blast
    moreover have "resolved = [] \<Longrightarrow> p \<noteq> []" using 2 by blast
    moreover have "length (segments resolved) < length (segments p) \<Longrightarrow> p \<noteq> []"
      by (auto simp: segments_def raw_components_def to_slashes_def skipped_def)
    ultimately show ?thesis
      using False norm 2 by (auto simp: link_rank_def Let_def)
  qed
  then show ?case by simp
qed simp

declare ws_read.simps [simp del]

definition readText :: "MemoryWorkspace \<Rightarrow> string \<Rightarrow> string + string option" where
  "readText ws path = ws_read ws path"

datatype stat_kind = StatFile | StatDirectory | StatSymlink

fun stat_of_source :: "SourceKind \<Rightarrow> stat_kind" where
  "stat_of_source FileKind = StatFile"
| "stat_of_source DirectoryKind = StatDirectory"
| "stat_of_source SymlinkKind = StatSymlink"

definition ws_stat :: "MemoryWorkspace \<Rightarrow> string \<Rightarrow> stat_kind option" where
  "ws_stat ws path =
     (let p = normalizeRelative path
      in if p = [] then Some StatDirectory
         else if js_get (ws_overlay ws) p \<noteq> None then Some StatFile
         else if js_get (ws_links ws) p \<noteq> None then Some StatSymlink
         else if \<exists>key \<in> set (js_keys (ws_overlay ws)). under p key then Some StatDirectory
         else if p \<in> set (ws_dirs ws) then Some StatDirectory
         else if isDeleted ws p then None
         else (case ws_source ws of
                 None \<Rightarrow> None
               | Some s \<Rightarrow> map_option (\<lambda>info. stat_of_source (si_kind info)) (ts_stat s p)))"

subsection \<open>Mutation\<close>

definition parent_dirs :: "string \<Rightarrow> string list" where
  "parent_dirs p = (let parts = split_on (CHR ''/'') p in map (\<lambda>i. join_path (take i parts)) [1..<length parts])"

definition ws_write :: "MemoryWorkspace \<Rightarrow> string \<Rightarrow> string \<Rightarrow> ws_error + MemoryWorkspace" where
  "ws_write ws path content =
     (let p = normalizeRelative path
      in if p = [] then Inl CannotWriteRoot
         else Inr (ws\<lparr>ws_overlay := js_set p content (ws_overlay ws),
                      ws_deleted := set_delete p (ws_deleted ws),
                      ws_changed := set_add p (ws_changed ws),
                      ws_dirs := foldl (\<lambda>ds d. set_add d ds) (ws_dirs ws) (parent_dirs p)\<rparr>))"

definition is_resolved :: "SymlinkTargetResolution \<Rightarrow> bool" where
  "is_resolved r = (case r of Resolved _ \<Rightarrow> True | _ \<Rightarrow> False)"

definition ws_symlink :: "MemoryWorkspace \<Rightarrow> string \<Rightarrow> string \<Rightarrow> ws_error + MemoryWorkspace" where
  "ws_symlink ws path target =
     (let p = normalizeRelative path
      in if p = [] then Inl CannotLinkRoot
         else if escapesWorkspace p then Inl (LinkEscapes p)
         else if \<not> is_resolved (resolveSymlinkTarget p target (read_link ws) DEFAULT_MAX_DEPTH) then Inl (LinkEscapes p)
         else Inr (ws\<lparr>ws_links := js_set p target (ws_links ws),
                      ws_deleted := set_delete p (ws_deleted ws),
                      ws_changed := set_add p (ws_changed ws)\<rparr>))"

definition delete_descendant :: "string \<Rightarrow> MemoryWorkspace \<Rightarrow> string \<Rightarrow> MemoryWorkspace" where
  "delete_descendant p ws key =
     (if under p key
      then ws\<lparr>ws_overlay := js_delete key (ws_overlay ws), ws_deleted := set_add key (ws_deleted ws),
              ws_changed := set_add key (ws_changed ws)\<rparr>
      else ws)"

definition ws_delete :: "MemoryWorkspace \<Rightarrow> string \<Rightarrow> ws_error + MemoryWorkspace" where
  "ws_delete ws path =
     (let p = normalizeRelative path
      in if p = [] then Inl CannotDeleteRoot
         else (let ws1 = ws\<lparr>ws_overlay := js_delete p (ws_overlay ws), ws_deleted := set_add p (ws_deleted ws),
                           ws_changed := set_add p (ws_changed ws)\<rparr>;
                   ws2 = foldl (delete_descendant p) ws1 (js_keys (ws_overlay ws1))
               in Inr (ws2\<lparr>ws_dirs := filter (\<lambda>d. \<not> (d = p \<or> under p d)) (ws_dirs ws2),
                           ws_links := filter (\<lambda>(l, _). \<not> (l = p \<or> under p l)) (ws_links ws2)\<rparr>)))"

subsection \<open>Listing\<close>

text \<open>The first component of \<open>q\<close> below the directory \<open>dir\<close>, if \<open>q\<close> is below it.\<close>

definition child_name :: "string \<Rightarrow> string \<Rightarrow> string option" where
  "child_name dir q =
     (if dir \<noteq> [] \<and> \<not> under dir q then None
      else (let rel = (if dir \<noteq> [] then drop (length dir + 1) q else q);
                name = hd (split_on (CHR ''/'') rel)
            in if name \<noteq> [] then Some name else None))"

text \<open>Source entries are taken without the prefix check: their paths are below the directory.\<close>

definition source_child_name :: "string \<Rightarrow> string \<Rightarrow> string option" where
  "source_child_name dir q =
     (let rel = drop (if dir \<noteq> [] then length dir + 1 else 0) q;
          name = hd (split_on (CHR ''/'') rel)
      in if name \<noteq> [] then Some name else None)"

definition add_names :: "('a \<Rightarrow> string option) \<Rightarrow> 'a list \<Rightarrow> string list \<Rightarrow> string list" where
  "add_names f xs names = foldl (\<lambda>ns x. case f x of Some n \<Rightarrow> set_add n ns | None \<Rightarrow> ns) names xs"

definition parent_of :: "string \<Rightarrow> string" where
  "parent_of p = join_path (butlast (split_on (CHR ''/'') p))"

definition base_name :: "string \<Rightarrow> string" where
  "base_name p = (let parent = parent_of p in drop (if parent \<noteq> [] then length parent + 1 else 0) p)"

definition ws_listDir :: "MemoryWorkspace \<Rightarrow> string \<Rightarrow> string list" where
  "ws_listDir ws path =
     (let dir = normalizeRelative path;
          n1 = (case ws_source ws of None \<Rightarrow> []
                | Some s \<Rightarrow> add_names (\<lambda>entry. source_child_name dir (si_path entry)) (ts_listDir s dir) []);
          n2 = add_names (child_name dir) (js_keys (ws_overlay ws)) n1;
          n3 = add_names (child_name dir) (ws_dirs ws) n2;
          n4 = add_names (child_name dir) (js_keys (ws_links ws)) n3;
          n5 = foldl (\<lambda>ns d. if parent_of d = dir then set_delete (base_name d) ns else ns) n4 (ws_deleted ws)
      in sort n5)"

definition changedPaths :: "MemoryWorkspace \<Rightarrow> string list" where
  "changedPaths ws = sort (ws_changed ws)"

subsection \<open>Snapshots, forks and transactions\<close>

record WorkspaceSnapshot =
  sn_id :: string
  sn_revision :: "WorkspaceRevision option"
  sn_overlay :: "(string, string) jsmap"
  sn_links :: "(string, string) jsmap option"
  sn_deleted :: "string list"
  sn_changed :: "string list"

definition ws_snapshot :: "MemoryWorkspace \<Rightarrow> WorkspaceSnapshot" where
  "ws_snapshot ws =
     \<lparr>sn_id = ws_id ws, sn_revision = Option.bind (ws_source ws) ts_revision, sn_overlay = ws_overlay ws,
      sn_links = Some (ws_links ws), sn_deleted = ws_deleted ws, sn_changed = ws_changed ws\<rparr>"

definition ws_restore :: "MemoryWorkspace \<Rightarrow> WorkspaceSnapshot \<Rightarrow> ws_error + MemoryWorkspace" where
  "ws_restore ws snapshot =
     (if sn_id snapshot \<noteq> ws_id ws then Inl (ForeignSnapshot (sn_id snapshot) (ws_id ws))
      else Inr (ws\<lparr>ws_overlay := sn_overlay snapshot,
                   ws_links := (case sn_links snapshot of Some l \<Rightarrow> l | None \<Rightarrow> []),
                   ws_deleted := sn_deleted snapshot, ws_changed := sn_changed snapshot\<rparr>))"

definition ws_fork :: "MemoryWorkspace \<Rightarrow> string \<Rightarrow> MemoryWorkspace" where
  "ws_fork ws newId =
     (new_workspace newId (ws_source ws))
       \<lparr>ws_overlay := ws_overlay ws, ws_links := ws_links ws, ws_deleted := ws_deleted ws, ws_changed := ws_changed ws\<rparr>"

text \<open>
  \<^verbatim>\<open>withWorkspaceTransaction\<close>: the callback mutates the workspace and returns or throws; a throw
  restores the snapshot and is passed on.
\<close>

definition withWorkspaceTransaction ::
  "MemoryWorkspace \<Rightarrow> (MemoryWorkspace \<Rightarrow> ('e + 'a) \<times> MemoryWorkspace) \<Rightarrow> ((ws_error + 'e) + 'a) \<times> MemoryWorkspace" where
  "withWorkspaceTransaction ws body =
     (let snapshot = ws_snapshot ws
      in (case body ws of
            (Inr v, ws') \<Rightarrow> (Inr v, ws')
          | (Inl e, ws') \<Rightarrow>
              (case ws_restore ws' snapshot of
                 Inl err \<Rightarrow> (Inl (Inl err), ws')
               | Inr ws'' \<Rightarrow> (Inl (Inr e), ws''))))"

record WorkspaceTransaction =
  tx_snapshot :: WorkspaceSnapshot
  tx_closed :: bool

definition tx_begin :: "MemoryWorkspace \<Rightarrow> WorkspaceTransaction" where
  "tx_begin ws = \<lparr>tx_snapshot = ws_snapshot ws, tx_closed = False\<rparr>"

definition tx_commit :: "WorkspaceTransaction \<Rightarrow> ws_error + WorkspaceTransaction" where
  "tx_commit tx = (if tx_closed tx then Inl TransactionClosed else Inr (tx\<lparr>tx_closed := True\<rparr>))"

definition tx_rollback ::
  "WorkspaceTransaction \<Rightarrow> MemoryWorkspace \<Rightarrow> ws_error + WorkspaceTransaction \<times> MemoryWorkspace" where
  "tx_rollback tx ws =
     (if tx_closed tx then Inl TransactionClosed
      else (case ws_restore ws (tx_snapshot tx) of
              Inl e \<Rightarrow> Inl e
            | Inr ws' \<Rightarrow> Inr (tx\<lparr>tx_closed := True\<rparr>, ws')))"

subsection \<open>Diffs\<close>

datatype change_kind = AddChange | ModifyChange | DeleteChange

record WorkspaceChange =
  wc_path :: string
  wc_kind :: change_kind
  wc_content :: "string option"

definition base_content :: "MemoryWorkspace \<Rightarrow> string \<Rightarrow> string + string option" where
  "base_content ws path =
     (case ws_source ws of
        None \<Rightarrow> Inr None
      | Some s \<Rightarrow>
          (case ts_stat s path of
             Some info \<Rightarrow> if si_kind info = FileKind then map_sum id Some (ts_readFile s path) else Inr None
           | None \<Rightarrow> Inr None))"

definition change_of :: "string \<Rightarrow> string option \<Rightarrow> string option \<Rightarrow> WorkspaceChange option" where
  "change_of path base current =
     (if base = current then None
      else (case current of
              None \<Rightarrow> Some \<lparr>wc_path = path, wc_kind = DeleteChange, wc_content = None\<rparr>
            | Some c \<Rightarrow>
                if base = None then Some \<lparr>wc_path = path, wc_kind = AddChange, wc_content = Some c\<rparr>
                else Some \<lparr>wc_path = path, wc_kind = ModifyChange, wc_content = Some c\<rparr>))"

fun diff_paths :: "MemoryWorkspace \<Rightarrow> string list \<Rightarrow> string + WorkspaceChange list" where
  "diff_paths ws [] = Inr []"
| "diff_paths ws (path # rest) =
     (case ws_read ws path of
        Inl e \<Rightarrow> Inl e
      | Inr current \<Rightarrow>
          (case base_content ws path of
             Inl e \<Rightarrow> Inl e
           | Inr base \<Rightarrow>
               (case diff_paths ws rest of
                  Inl e \<Rightarrow> Inl e
                | Inr later \<Rightarrow>
                    Inr ((case change_of path base current of Some c \<Rightarrow> [c] | None \<Rightarrow> []) @ later))))"

definition ws_diff :: "MemoryWorkspace \<Rightarrow> string + WorkspaceChange list" where
  "ws_diff ws = diff_paths ws (changedPaths ws)"

end
