(* ===== verification/Workspace_Laws.thy ===== *)
theory Workspace_Laws
  imports Workspace
begin

text \<open>
  What the workspace operations promise: a write is read back and touches nothing else, a delete
  hides a whole subtree, links resolve inside the workspace, a transaction that fails leaves every
  read as it was, and a diff lists exactly the changed files. The last section records, on concrete
  workspaces, where the code falls short of its comments.
\<close>

subsection \<open>Paths below a directory\<close>

lemma under_trans: "under p q \<Longrightarrow> under q r \<Longrightarrow> under p r"
  by (auto simp: under_def prefix_def)

lemma under_irrefl [simp]: "\<not> under p p"
  by (auto simp: under_def prefix_def)

lemma isDeleted_iff: "isDeleted ws p \<longleftrightarrow> (\<exists>d \<in> set (ws_deleted ws). d = p \<or> (d \<noteq> [] \<and> under d p))"
  by (auto simp: isDeleted_def)

subsection \<open>What a write and a delete do to each part of the state\<close>

lemma ws_writeD:
  assumes "ws_write ws path c = Inr ws'"
  shows "normalizeRelative path \<noteq> []"
    and "ws_source ws' = ws_source ws" and "ws_links ws' = ws_links ws" and "ws_id ws' = ws_id ws"
    and "js_get (ws_overlay ws') q = (if q = normalizeRelative path then Some c else js_get (ws_overlay ws) q)"
    and "set (ws_deleted ws') = set (ws_deleted ws) - {normalizeRelative path}"
    and "set (ws_changed ws') = insert (normalizeRelative path) (set (ws_changed ws))"
  using assms by (auto simp: ws_write_def Let_def split: if_splits)

lemma delete_descendants:
  "let ws' = foldl (delete_descendant p) ws ks
   in ws_source ws' = ws_source ws \<and> ws_links ws' = ws_links ws \<and> ws_dirs ws' = ws_dirs ws \<and> ws_id ws' = ws_id ws \<and>
      js_get (ws_overlay ws') = (\<lambda>q. if under p q \<and> q \<in> set ks then None else js_get (ws_overlay ws) q) \<and>
      set (ws_deleted ws') = set (ws_deleted ws) \<union> {q \<in> set ks. under p q} \<and>
      set (ws_changed ws') = set (ws_changed ws) \<union> {q \<in> set ks. under p q}"
  by (induction ks arbitrary: ws) (auto simp: Let_def delete_descendant_def fun_eq_iff)

lemma ws_deleteD:
  assumes "ws_delete ws path = Inr ws'"
  defines "p \<equiv> normalizeRelative path"
  shows "p \<noteq> []" and "ws_source ws' = ws_source ws" and "ws_id ws' = ws_id ws"
    and "js_get (ws_overlay ws') q = (if q = p \<or> under p q then None else js_get (ws_overlay ws) q)"
    and "js_get (ws_links ws') q = (if q = p \<or> under p q then None else js_get (ws_links ws) q)"
    and "set (ws_deleted ws') = set (ws_deleted ws) \<union> insert p {q. under p q \<and> js_get (ws_overlay ws) q \<noteq> None}"
    and "set (ws_dirs ws') = {d \<in> set (ws_dirs ws). d \<noteq> p \<and> \<not> under p d}"
    and "p \<in> set (ws_changed ws')"
proof -
  let ?ws1 = "ws\<lparr>ws_overlay := js_delete p (ws_overlay ws), ws_deleted := set_add p (ws_deleted ws),
                 ws_changed := set_add p (ws_changed ws)\<rparr>"
  let ?ws2 = "foldl (delete_descendant p) ?ws1 (js_keys (ws_overlay ?ws1))"
  note d = delete_descendants [of p ?ws1 "js_keys (ws_overlay ?ws1)", unfolded Let_def]
  have eq: "p \<noteq> []"
    "ws' = ?ws2\<lparr>ws_dirs := filter (\<lambda>d. \<not> (d = p \<or> under p d)) (ws_dirs ?ws2),
               ws_links := filter (\<lambda>(l, _). \<not> (l = p \<or> under p l)) (ws_links ?ws2)\<rparr>"
    using assms(1) by (auto simp: ws_delete_def Let_def p_def split: if_splits)
  have links: "map_of (filter (\<lambda>(l, _). P l) m) q = (if P q then map_of m q else None)" for P and m :: "(string \<times> string) list"
    by (induction m) auto
  show "p \<noteq> []" by (rule eq)
  show "ws_source ws' = ws_source ws" "ws_id ws' = ws_id ws"
    using d by (simp_all add: eq(2))
  show "js_get (ws_overlay ws') q = (if q = p \<or> under p q then None else js_get (ws_overlay ws) q)"
    using d by (auto simp: eq(2))
  show "js_get (ws_links ws') q = (if q = p \<or> under p q then None else js_get (ws_links ws) q)"
    using d by (simp add: eq(2) links)
  show "set (ws_deleted ws') = set (ws_deleted ws) \<union> insert p {q. under p q \<and> js_get (ws_overlay ws) q \<noteq> None}"
    using d by (auto simp: eq(2))
  show "set (ws_dirs ws') = {d \<in> set (ws_dirs ws). d \<noteq> p \<and> \<not> under p d}"
    using d by (auto simp: eq(2))
  show "p \<in> set (ws_changed ws')"
    using d by (simp add: eq(2))
qed

subsection \<open>Reads\<close>

text \<open>A read of a path that is not a link depends on that path's own entries alone.\<close>

lemma ws_read_not_link:
  "js_get (ws_links ws) (normalizeRelative q) = None \<Longrightarrow>
   ws_read ws q =
     (case js_get (ws_overlay ws) (normalizeRelative q) of
        Some c \<Rightarrow> Inr (Some c)
      | None \<Rightarrow> if isDeleted ws (normalizeRelative q) \<or> ws_source ws = None then Inr None
                else readFromSource (ws_source ws) (normalizeRelative q) 0)"
  by (auto simp: ws_read.simps [of ws q] Let_def split: option.splits)

lemma ws_read_overlay:
  "js_get (ws_overlay ws) (normalizeRelative q) = Some c \<Longrightarrow> ws_read ws q = Inr (Some c)"
  by (simp add: ws_read.simps [of ws q] Let_def)

lemma ws_read_deleted:
  "js_get (ws_overlay ws) (normalizeRelative q) = None \<Longrightarrow> isDeleted ws (normalizeRelative q) \<Longrightarrow> ws_read ws q = Inr None"
  by (simp add: ws_read.simps [of ws q] Let_def)

lemma readFromSource_None [simp]: "readFromSource None p d = Inr None"
  by (subst readFromSource.simps) simp

text \<open>Reads see the source, the overlay, the links and the set of deleted paths, and nothing else.\<close>

lemma ws_read_cong:
  assumes "ws_source ws' = ws_source ws" and "js_get (ws_overlay ws') = js_get (ws_overlay ws)"
    and "js_get (ws_links ws') = js_get (ws_links ws)" and "set (ws_deleted ws') = set (ws_deleted ws)"
  shows "ws_read ws' q = ws_read ws q"
  using assms
proof (induction ws q rule: ws_read.induct)
  case (1 ws q)
  have rl: "read_link ws' = read_link ws"
    using "1.prems" by (simp add: read_link_def fun_eq_iff)
  have del: "isDeleted ws' = isDeleted ws"
    using "1.prems" by (simp add: isDeleted_def fun_eq_iff)
  show ?case
    using 1 by (simp add: ws_read.simps [of ws q] ws_read.simps [of ws' q] rl del Let_def split: option.splits SymlinkTargetResolution.splits)
qed

subsection \<open>Sequences of operations\<close>

datatype ws_op = WriteOp string string | SymlinkOp string string | DeleteOp string

fun ws_apply :: "MemoryWorkspace \<Rightarrow> ws_op \<Rightarrow> ws_error + MemoryWorkspace" where
  "ws_apply ws (WriteOp p c) = ws_write ws p c"
| "ws_apply ws (SymlinkOp p t) = ws_symlink ws p t"
| "ws_apply ws (DeleteOp p) = ws_delete ws p"

text \<open>A call that throws leaves the workspace as it was.\<close>

definition ws_step :: "MemoryWorkspace \<Rightarrow> ws_op \<Rightarrow> MemoryWorkspace" where
  "ws_step ws op = (case ws_apply ws op of Inl _ \<Rightarrow> ws | Inr ws' \<Rightarrow> ws')"

lemma ws_step_fixed: "ws_id (ws_step ws op) = ws_id ws \<and> ws_source (ws_step ws op) = ws_source ws"
proof (cases op)
  case (WriteOp p c)
  then show ?thesis by (auto simp: ws_step_def ws_write_def Let_def)
next
  case (SymlinkOp p t)
  then show ?thesis by (auto simp: ws_step_def ws_symlink_def Let_def)
next
  case (DeleteOp p)
  then show ?thesis by (auto simp: ws_step_def ws_deleteD split: sum.splits)
qed

lemma ws_run_fixed: "ws_id (run_ops ws_step ws ops) = ws_id ws \<and> ws_source (run_ops ws_step ws ops) = ws_source ws"
  by (induction ops arbitrary: ws) (auto simp: ws_step_fixed)

text \<open>
  Every recorded path is normalized and below the root, every recorded path counts as changed, and
  a deleted path has neither content nor a link.
\<close>

definition ws_inv :: "MemoryWorkspace \<Rightarrow> bool" where
  "ws_inv ws \<longleftrightarrow> (wf_jsmap (ws_overlay ws) \<and> wf_jsmap (ws_links ws) \<and> distinct (ws_deleted ws) \<and> distinct (ws_changed ws)) \<and>
     (\<forall>p \<in> set (ws_changed ws). p \<noteq> [] \<and> normalizeRelative p = p) \<and>
     (\<forall>p. p \<notin> set (ws_changed ws) \<longrightarrow>
        js_get (ws_overlay ws) p = None \<and> js_get (ws_links ws) p = None \<and> p \<notin> set (ws_deleted ws)) \<and>
     (\<forall>p \<in> set (ws_deleted ws). js_get (ws_overlay ws) p = None \<and> js_get (ws_links ws) p = None)"

lemma ws_inv_new: "ws_inv (new_workspace i src)"
  by (simp add: ws_inv_def new_workspace_def)

lemma delete_descendants_wf:
  "wf_jsmap (ws_overlay ws) \<Longrightarrow> distinct (ws_deleted ws) \<Longrightarrow> distinct (ws_changed ws) \<Longrightarrow>
   wf_jsmap (ws_overlay (foldl (delete_descendant p) ws ks)) \<and> distinct (ws_deleted (foldl (delete_descendant p) ws ks)) \<and>
   distinct (ws_changed (foldl (delete_descendant p) ws ks))"
  by (induction ks arbitrary: ws) (auto simp: delete_descendant_def)

lemma ws_delete_wf:
  assumes "ws_delete ws path = Inr ws'" and "wf_jsmap (ws_overlay ws)" and "wf_jsmap (ws_links ws)"
    and "distinct (ws_deleted ws)" and "distinct (ws_changed ws)"
  shows "wf_jsmap (ws_overlay ws') \<and> wf_jsmap (ws_links ws') \<and> distinct (ws_deleted ws') \<and> distinct (ws_changed ws')"
proof -
  let ?p = "normalizeRelative path"
  let ?ws1 = "ws\<lparr>ws_overlay := js_delete ?p (ws_overlay ws), ws_deleted := set_add ?p (ws_deleted ws),
                 ws_changed := set_add ?p (ws_changed ws)\<rparr>"
  let ?ks = "js_keys (ws_overlay ?ws1)"
  have "wf_jsmap (ws_overlay ?ws1)" "distinct (ws_deleted ?ws1)" "distinct (ws_changed ?ws1)"
    using assms by auto
  note wf = delete_descendants_wf [OF this, of ?p ?ks]
  have "ws_links (foldl (delete_descendant ?p) ?ws1 ?ks) = ws_links ws"
    using delete_descendants [of ?p ?ws1 ?ks] by (simp add: Let_def)
  with wf assms show ?thesis
    by (auto simp: ws_delete_def Let_def split: if_splits)
qed

lemma ws_delete_changed:
  assumes "ws_delete ws path = Inr ws'"
  shows "set (ws_changed ws') = set (ws_changed ws) \<union>
    insert (normalizeRelative path) {q. under (normalizeRelative path) q \<and> js_get (ws_overlay ws) q \<noteq> None}"
  using assms delete_descendants [of "normalizeRelative path"
    "ws\<lparr>ws_overlay := js_delete (normalizeRelative path) (ws_overlay ws),
       ws_deleted := set_add (normalizeRelative path) (ws_deleted ws),
       ws_changed := set_add (normalizeRelative path) (ws_changed ws)\<rparr>"
    "js_keys (js_delete (normalizeRelative path) (ws_overlay ws))"]
  by (auto simp: ws_delete_def Let_def split: if_splits)

lemma ws_inv_step: "ws_inv ws \<Longrightarrow> ws_inv (ws_step ws op)"
proof (cases op)
  case (WriteOp p c)
  assume "ws_inv ws"
  with WriteOp show ?thesis
    by (simp add: ws_step_def ws_write_def ws_inv_def Let_def)
next
  case (SymlinkOp p t)
  assume "ws_inv ws"
  with SymlinkOp show ?thesis
    by (simp add: ws_step_def ws_symlink_def ws_inv_def Let_def)
next
  case (DeleteOp path)
  assume inv: "ws_inv ws"
  show ?thesis
  proof (cases "ws_delete ws path")
    case (Inr ws')
    have wf: "wf_jsmap (ws_overlay ws') \<and> wf_jsmap (ws_links ws') \<and> distinct (ws_deleted ws') \<and> distinct (ws_changed ws')"
      using ws_delete_wf [OF Inr] inv by (simp add: ws_inv_def)
    have "ws_inv ws'"
      using inv wf ws_deleteD(1) [OF Inr]
      by (auto simp: ws_inv_def ws_deleteD(4-6) [OF Inr] ws_delete_changed [OF Inr])
    with Inr DeleteOp show ?thesis by (simp add: ws_step_def)
  qed (use inv DeleteOp in \<open>simp add: ws_step_def\<close>)
qed

subsection \<open>Properties\<close>

lemma read_frame:
  assumes "p = normalizeRelative q"
    and "js_get (ws_links ws) p = None" and "js_get (ws_links ws') p = None"
    and "js_get (ws_overlay ws') p = js_get (ws_overlay ws) p" and "isDeleted ws' p = isDeleted ws p"
    and "ws_source ws' = ws_source ws"
  shows "ws_read ws' q = ws_read ws q"
  using assms by (cases "js_get (ws_overlay ws) p"; cases "ws_source ws") (simp_all add: ws_read_not_link)

text \<open>
  A write is read back at every spelling of the path, and the path is then a file; every path
  that is neither the written one, nor below it, nor a link reads as before.
\<close>

theorem write_then_read:
  assumes "ws_write ws path c = Inr ws'"
  shows "(\<forall>q. normalizeRelative q = normalizeRelative path \<longrightarrow> ws_read ws' q = Inr (Some c) \<and> ws_stat ws' q = Some StatFile) \<and>
    (\<forall>q. normalizeRelative q \<noteq> normalizeRelative path \<and> \<not> under (normalizeRelative path) (normalizeRelative q) \<and>
       js_get (ws_links ws) (normalizeRelative q) = None \<longrightarrow> ws_read ws' q = ws_read ws q)"
proof (intro conjI allI impI)
  fix q assume "normalizeRelative q = normalizeRelative path"
  then show "ws_read ws' q = Inr (Some c)" "ws_stat ws' q = Some StatFile"
    using ws_writeD(1,5) [OF assms] by (simp_all add: ws_read_overlay ws_stat_def)
next
  fix q assume q: "normalizeRelative q \<noteq> normalizeRelative path \<and> \<not> under (normalizeRelative path) (normalizeRelative q) \<and>
       js_get (ws_links ws) (normalizeRelative q) = None"
  then have "isDeleted ws' (normalizeRelative q) = isDeleted ws (normalizeRelative q)"
    by (auto simp: isDeleted_iff ws_writeD(6) [OF assms])
  with q show "ws_read ws' q = ws_read ws q"
    by (intro read_frame [OF refl]) (simp_all add: ws_writeD [OF assms])
qed

text \<open>
  Deleting a path makes it and everything below it absent, whatever the overlay, the links, the
  implicit directories and the source hold; every path outside the subtree that is not a link
  reads as before.
\<close>

theorem delete_hides_subtree:
  assumes "ws_delete ws path = Inr ws'"
  shows "(\<forall>q. normalizeRelative q = normalizeRelative path \<or> under (normalizeRelative path) (normalizeRelative q) \<longrightarrow>
      ws_read ws' q = Inr None \<and> ws_stat ws' q = None) \<and>
    (\<forall>q. normalizeRelative q \<noteq> normalizeRelative path \<and> \<not> under (normalizeRelative path) (normalizeRelative q) \<and>
       js_get (ws_links ws) (normalizeRelative q) = None \<longrightarrow> ws_read ws' q = ws_read ws q)"
proof (intro conjI allI impI)
  fix q assume q: "normalizeRelative q = normalizeRelative path \<or> under (normalizeRelative path) (normalizeRelative q)"
  note d = ws_deleteD [OF assms]
  have del: "isDeleted ws' (normalizeRelative q)"
    using q d(1) by (auto simp: isDeleted_iff d(6))
  with q show "ws_read ws' q = Inr None"
    by (simp add: ws_read_deleted d(4))
  have "normalizeRelative q \<noteq> []"
    using q d(1) by (auto simp: under_def)
  moreover have "js_get (ws_overlay ws') key = None" if "under (normalizeRelative q) key" for key
    using q that by (auto simp: d(4) dest: under_trans)
  ultimately show "ws_stat ws' q = None"
    using q del by (auto simp: ws_stat_def Let_def d(4,5,7))
next
  fix q assume q: "normalizeRelative q \<noteq> normalizeRelative path \<and> \<not> under (normalizeRelative path) (normalizeRelative q) \<and>
       js_get (ws_links ws) (normalizeRelative q) = None"
  note d = ws_deleteD [OF assms]
  have "isDeleted ws' (normalizeRelative q) = isDeleted ws (normalizeRelative q)"
    using q by (auto simp: isDeleted_iff d(6) dest: under_trans)
  with q show "ws_read ws' q = ws_read ws q"
    by (intro read_frame [OF refl]) (simp_all add: d(2,4,5))
qed


lemma restore_run:
  "ws_restore (run_ops ws_step ws ops) (ws_snapshot ws) = Inr (ws\<lparr>ws_dirs := ws_dirs (run_ops ws_step ws ops)\<rparr>)"
  using ws_run_fixed [of ws ops] by (simp add: ws_restore_def ws_snapshot_def)

lemma dirs_only_same:
  "ws_read (ws\<lparr>ws_dirs := ds\<rparr>) q = ws_read ws q" "changedPaths (ws\<lparr>ws_dirs := ds\<rparr>) = changedPaths ws"
  "ws_diff (ws\<lparr>ws_dirs := ds\<rparr>) = ws_diff ws"
proof -
  show read: "ws_read (ws\<lparr>ws_dirs := ds\<rparr>) q = ws_read ws q" for q
    by (rule ws_read_cong) simp_all
  show paths: "changedPaths (ws\<lparr>ws_dirs := ds\<rparr>) = changedPaths ws"
    by (simp add: changedPaths_def)
  have "diff_paths (ws\<lparr>ws_dirs := ds\<rparr>) ps = diff_paths ws ps" for ps
    by (induction ps) (simp_all add: read base_content_def split: sum.splits option.splits)
  then show "ws_diff (ws\<lparr>ws_dirs := ds\<rparr>) = ws_diff ws"
    by (simp add: ws_diff_def paths)
qed

text \<open>
  C5: a transaction whose body fails passes the failure on and leaves the workspace as it was before,
  apart from the implicit directories the body created: every read, the changed paths and the diff
  are those of the start. A body that succeeds keeps its changes. The explicit transaction object
  rolls back the same way, and once closed refuses to commit or roll back again.
\<close>

theorem transaction_atomic:
  fixes e :: 'e and v :: 'a
  shows "(\<exists>back. withWorkspaceTransaction ws (\<lambda>w. (Inl e :: 'e + 'a, run_ops ws_step w ops)) = (Inl (Inr e), back) \<and>
      back = ws\<lparr>ws_dirs := ws_dirs (run_ops ws_step ws ops)\<rparr> \<and>
      (\<forall>q. ws_read back q = ws_read ws q) \<and> changedPaths back = changedPaths ws \<and> ws_diff back = ws_diff ws \<and>
      (\<exists>tx. tx_rollback (tx_begin ws) (run_ops ws_step ws ops) = Inr (tx, back) \<and>
        tx_commit tx = Inl TransactionClosed \<and> (\<forall>w. tx_rollback tx w = Inl TransactionClosed))) \<and>
    withWorkspaceTransaction ws (\<lambda>w. (Inr v :: 'e + 'a, run_ops ws_step w ops)) = (Inr v, run_ops ws_step ws ops)"
  by (simp add: withWorkspaceTransaction_def tx_rollback_def tx_begin_def tx_commit_def restore_run dirs_only_same)

lemma diff_paths_spec:
  assumes "diff_paths ws ps = Inr cs"
  shows "(\<forall>p \<in> set ps. \<exists>cur base. ws_read ws p = Inr cur \<and> base_content ws p = Inr base) \<and>
    map wc_path cs = filter (\<lambda>p. ws_read ws p \<noteq> base_content ws p) ps \<and>
    (\<forall>c \<in> set cs. \<exists>cur base. ws_read ws (wc_path c) = Inr cur \<and> base_content ws (wc_path c) = Inr base \<and>
       change_of (wc_path c) base cur = Some c)"
  using assms
proof (induction ps arbitrary: cs)
  case (Cons p ps)
  then obtain cur base cs' where r: "ws_read ws p = Inr cur" "base_content ws p = Inr base" "diff_paths ws ps = Inr cs'"
    "cs = (case change_of p base cur of Some c \<Rightarrow> [c] | None \<Rightarrow> []) @ cs'"
    by (auto split: sum.splits)
  have path: "change_of p base cur = Some c \<Longrightarrow> wc_path c = p" for c
    by (auto simp: change_of_def split: if_splits option.splits)
  have iff: "change_of p base cur = None \<longleftrightarrow> cur = base"
    by (auto simp: change_of_def split: option.splits)
  show ?case
  proof (cases "change_of p base cur")
    case None
    with iff r Cons.IH [OF r(3)] show ?thesis by auto
  next
    case (Some c)
    with iff r path Cons.IH [OF r(3)] show ?thesis by auto
  qed
qed simp

lemma diff_spec:
  assumes "ws_inv ws" and "ws_diff ws = Inr cs"
  shows "sorted (map wc_path cs) \<and> distinct (map wc_path cs) \<and>
    set (map wc_path cs) = {p \<in> set (ws_changed ws). ws_read ws p \<noteq> base_content ws p} \<and>
    (\<forall>c \<in> set cs. ws_read ws (wc_path c) = Inr (wc_content c) \<and>
       (wc_kind c = DeleteChange \<longleftrightarrow> wc_content c = None) \<and>
       (wc_kind c = AddChange \<longleftrightarrow> wc_content c \<noteq> None \<and> base_content ws (wc_path c) = Inr None))"
proof -
  note spec = diff_paths_spec [OF assms(2) [unfolded ws_diff_def changedPaths_def]]
  have "distinct (ws_changed ws)"
    using assms(1) by (simp add: ws_inv_def)
  then have "sorted (map wc_path cs) \<and> distinct (map wc_path cs) \<and>
    set (map wc_path cs) = {p \<in> set (ws_changed ws). ws_read ws p \<noteq> base_content ws p}"
    using spec by (simp add: sorted_wrt_filter)
  moreover have "ws_read ws (wc_path c) = Inr (wc_content c) \<and>
       (wc_kind c = DeleteChange \<longleftrightarrow> wc_content c = None) \<and>
       (wc_kind c = AddChange \<longleftrightarrow> wc_content c \<noteq> None \<and> base_content ws (wc_path c) = Inr None)" if "c \<in> set cs" for c
  proof -
    from spec that obtain cur base where "ws_read ws (wc_path c) = Inr cur" "base_content ws (wc_path c) = Inr base"
      "change_of (wc_path c) base cur = Some c" by blast
    then show ?thesis
      by (cases c) (auto simp: change_of_def split: if_splits option.splits)
  qed
  ultimately show ?thesis by blast
qed

text \<open>
  The diff lists each changed path whose content differs from the source's, once and in order,
  with the current content, as an addition, a modification or a deletion according to which of
  the two is absent; a changed path that is not listed reads exactly as the source's file.
\<close>

theorem diff_exact:
  assumes "ws_inv ws" and "ws_diff ws = Inr cs"
  shows "sorted (map wc_path cs) \<and> distinct (map wc_path cs) \<and>
    set (map wc_path cs) = {p \<in> set (ws_changed ws). ws_read ws p \<noteq> base_content ws p} \<and>
    (\<forall>c \<in> set cs. ws_read ws (wc_path c) = Inr (wc_content c) \<and>
       (wc_kind c = DeleteChange \<longleftrightarrow> wc_content c = None) \<and>
       (wc_kind c = AddChange \<longleftrightarrow> wc_content c \<noteq> None \<and> base_content ws (wc_path c) = Inr None))"
  by (rule diff_spec [OF assms])

subsection \<open>Concrete workspaces\<close>

definition info_of :: "string \<Rightarrow> SourceKind \<Rightarrow> SourceInfo" where
  "info_of p k = \<lparr>si_path = p, si_kind = k, si_size = 0, si_mtimeMs = 0, si_objectId = None\<rparr>"

definition sample_source :: TreeSource where
  "sample_source =
     \<lparr>ts_name = ''sample'', ts_revision = None,
      ts_stat = map_of [(''d'', info_of ''d'' DirectoryKind), (''d/f'', info_of ''d/f'' FileKind),
                        (''l'', info_of ''l'' SymlinkKind)],
      ts_listDir = (\<lambda>dir. if dir = [] then [info_of ''d'' DirectoryKind, info_of ''l'' SymlinkKind]
                          else if dir = ''d'' then [info_of ''d/f'' FileKind] else []),
      ts_readFile = (\<lambda>p. if p = ''d/f'' then Inr ''base'' else if p = ''l'' then Inr ''d/f'' else Inl ''ENOENT'')\<rparr>"

definition sample_ws :: MemoryWorkspace where
  "sample_ws = new_workspace ''w'' (Some sample_source)"

theorem write_then_read_witness:
  "ws_read (ws_step sample_ws (WriteOp ''d/./f'' ''new'')) ''d//f'' = Inr (Some ''new'') \<and>
   ws_read (ws_step sample_ws (WriteOp ''d/./f'' ''new'')) ''d'' = ws_read sample_ws ''d''"
proof -
  have w: "ws_write sample_ws ''d/./f'' ''new'' = Inr (ws_step sample_ws (WriteOp ''d/./f'' ''new''))"
    by (simp add: ws_step_def ws_write_def Let_def) (code_simp)
  have "normalizeRelative ''d//f'' = normalizeRelative ''d/./f''" "normalizeRelative ''d'' \<noteq> normalizeRelative ''d/./f''"
    "\<not> under (normalizeRelative ''d/./f'') (normalizeRelative ''d'')"
    "js_get (ws_links sample_ws) (normalizeRelative ''d'') = None"
    by code_simp+
  with write_then_read [OF w] show ?thesis by blast
qed

theorem delete_hides_subtree_witness:
  "ws_read sample_ws ''d/f'' = Inr (Some ''base'') \<and>
   ws_read (ws_step sample_ws (DeleteOp ''d'')) ''d/f'' = Inr None \<and> ws_stat (ws_step sample_ws (DeleteOp ''d'')) ''d/f'' = None"
proof -
  have w: "ws_delete sample_ws ''d'' = Inr (ws_step sample_ws (DeleteOp ''d''))"
    by (simp add: ws_step_def ws_delete_def Let_def) (code_simp)
  have "under (normalizeRelative ''d'') (normalizeRelative ''d/f'')" "ws_read sample_ws ''d/f'' = Inr (Some ''base'')"
    by code_simp+
  with delete_hides_subtree [OF w] show ?thesis by blast
qed


theorem diff_exact_witness:
  "ws_diff (ws_step sample_ws (WriteOp ''n'' ''x'')) = Inr [\<lparr>wc_path = ''n'', wc_kind = AddChange, wc_content = Some ''x''\<rparr>] \<and>
   ws_read (ws_step sample_ws (WriteOp ''n'' ''x'')) ''n'' = Inr (Some ''x'')"
proof -
  have inv: "ws_inv (ws_step sample_ws (WriteOp ''n'' ''x''))"
    by (rule ws_inv_step) (simp add: sample_ws_def ws_inv_new)
  have d: "ws_diff (ws_step sample_ws (WriteOp ''n'' ''x'')) = Inr [\<lparr>wc_path = ''n'', wc_kind = AddChange, wc_content = Some ''x''\<rparr>]"
    by code_simp
  from diff_exact [OF inv d] d show ?thesis by simp
qed

subsection \<open>Where the code falls short of its comments\<close>

text \<open>
  The comment of \<^verbatim>\<open>withWorkspaceTransaction\<close> says a failure restores the exact snapshot. The implicit
  directories are in neither the snapshot nor \<^verbatim>\<open>restore\<close>, so they survive the rollback.
\<close>

lemma rollback_keeps_directories:
  "ws_stat (new_workspace ''w'' None) ''d'' = None \<and>
   ws_stat (snd (withWorkspaceTransaction (new_workspace ''w'' None)
     (\<lambda>w. (Inl () :: unit + unit, ws_step w (WriteOp ''d/x'' ''1''))))) ''d'' = Some StatDirectory"
  by code_simp

text \<open>Deleting a directory of the source removes its files from every read but leaves the diff empty.\<close>

lemma diff_misses_deleted_directory:
  "ws_diff (ws_step sample_ws (DeleteOp ''d'')) = Inr [] \<and> ws_read sample_ws ''d/f'' = Inr (Some ''base'') \<and>
   ws_read (ws_step sample_ws (DeleteOp ''d'')) ''d/f'' = Inr None"
  by code_simp

text \<open>A symlink of the source reads the source's file even after that file was overwritten.\<close>

lemma source_link_reads_stale_content:
  "ws_read (ws_step sample_ws (WriteOp ''d/f'' ''new'')) ''d/f'' = Inr (Some ''new'') \<and>
   ws_read (ws_step sample_ws (WriteOp ''d/f'' ''new'')) ''l'' = Inr (Some ''base'')"
  by code_simp

text \<open>A directory that was deleted and written into again exists but is missing from its parent's listing.\<close>

lemma listDir_misses_recreated_directory:
  "let ws = run_ops ws_step sample_ws [DeleteOp ''d'', WriteOp ''d/x'' ''1'']
   in ws_stat ws ''d'' = Some StatDirectory \<and> ws_listDir ws ''d'' = [''f'', ''x''] \<and> ws_listDir ws [] = [''l'']"
  by code_simp

text \<open>Writing a file at a deleted directory's path makes the source's files below it readable again.\<close>

lemma write_over_deleted_directory_revives:
  "ws_read (run_ops ws_step sample_ws [DeleteOp ''d'', WriteOp ''d'' ''1'']) ''d/f'' = Inr (Some ''base'')"
  by code_simp

text \<open>
  The first directory of a link is taken as written: below a linked directory, a target that climbs
  out of the workspace along the physical path is accepted.
\<close>

lemma link_below_link_escapes:
  "let ws = ws_step (new_workspace ''w'' None) (SymlinkOp ''p/q/d'' ''../../r'')
   in resolveSymlinkTarget ''p/q/d/x'' ''../../../z'' (read_link ws) DEFAULT_MAX_DEPTH = Resolved ''z'' \<and>
      resolveSymlinkTarget ''p/q/d'' ''../../r'' (read_link (new_workspace ''w'' None)) DEFAULT_MAX_DEPTH = Resolved ''r'' \<and>
      resolveSymlinkTarget ''r/x'' ''../../../z'' (read_link ws) DEFAULT_MAX_DEPTH = Escapes ''r/x'' ''../../../z''"
  by code_simp

end
