(* ===== verification/Text_Replace.thy ===== *)
theory Text_Replace
  imports Prelude
begin

text \<open>
  The edit contract of \<^verbatim>\<open>workspace.replace\<close> (\<^verbatim>\<open>src/src/execution/text-replace.ts\<close>): an exact match
  that occurs once, or else a block of lines that matches once when leading indentation is
  ignored. \<^verbatim>\<open>String.prototype.replace\<close> is written out with its replacement patterns, \<^verbatim>\<open>split\<close>
  with its left-to-right search, and \<^verbatim>\<open>trim\<close> with the white space of the language in UTF-8.
\<close>

subsection \<open>The string operations of the language\<close>

text \<open>The first occurrence of a non-empty pattern: what precedes it and what follows it.\<close>

fun find_first :: "string \<Rightarrow> string \<Rightarrow> (string \<times> string) option" where
  "find_first pat [] = None"
| "find_first pat (c # s) =
     (if prefix pat (c # s) then Some ([], drop (length pat) (c # s))
      else map_option (\<lambda>(pre, post). (c # pre, post)) (find_first pat s))"

text \<open>\<^verbatim>\<open>content.split(pat).length - 1\<close>: matches are taken from the left and do not overlap.\<close>

function count_occurrences :: "string \<Rightarrow> string \<Rightarrow> nat" where
  "count_occurrences pat s =
     (if pat = [] \<or> s = [] then 0
      else if prefix pat s then Suc (count_occurrences pat (drop (length pat) s))
      else count_occurrences pat (tl s))"
  by pat_completeness auto
termination
proof (relation "measure (\<lambda>(pat, s). length s)", goal_cases)
  case (2 pat s)
  then have "0 < length pat" "0 < length s" by auto
  then have "length s - length pat < length s" by linarith
  then show ?case by simp
next
  case (3 pat s)
  then show ?case by (cases s) auto
qed simp

declare count_occurrences.simps [simp del]

text \<open>The expansion of the replacement text: two dollars, the match, the text before it, the text after it.\<close>

fun expand_replacement :: "string \<Rightarrow> string \<Rightarrow> string \<Rightarrow> string \<Rightarrow> string" where
  "expand_replacement matched pre post (c # d # rest) =
     (if c = CHR ''$'' \<and> d = CHR ''$'' then CHR ''$'' # expand_replacement matched pre post rest
      else if c = CHR ''$'' \<and> d = CHR ''&'' then matched @ expand_replacement matched pre post rest
      else if c = CHR ''$'' \<and> d = CHR 0x60 then pre @ expand_replacement matched pre post rest
      else if c = CHR ''$'' \<and> d = CHR 0x27 then post @ expand_replacement matched pre post rest
      else c # expand_replacement matched pre post (d # rest))"
| "expand_replacement matched pre post s = s"

definition js_replace :: "string \<Rightarrow> string \<Rightarrow> string \<Rightarrow> string" where
  "js_replace content pat new =
     (case find_first pat content of
        None \<Rightarrow> content
      | Some (pre, post) \<Rightarrow> pre @ expand_replacement pat pre post new @ post)"

definition ws_width :: "string \<Rightarrow> nat" where
  "ws_width s =
     (if s = [] then 0
      else if hd s \<in> set [CHR 0x09, CHR 0x0A, CHR 0x0B, CHR 0x0C, CHR 0x0D, CHR 0x20] then 1
      else if take 2 s = [CHR 0xC2, CHR 0xA0] then 2
      else if take 3 s \<in> set [[CHR 0xE1, CHR 0x9A, CHR 0x80], [CHR 0xE2, CHR 0x80, CHR 0x80], [CHR 0xE2, CHR 0x80, CHR 0x81],
             [CHR 0xE2, CHR 0x80, CHR 0x82], [CHR 0xE2, CHR 0x80, CHR 0x83], [CHR 0xE2, CHR 0x80, CHR 0x84],
             [CHR 0xE2, CHR 0x80, CHR 0x85], [CHR 0xE2, CHR 0x80, CHR 0x86], [CHR 0xE2, CHR 0x80, CHR 0x87],
             [CHR 0xE2, CHR 0x80, CHR 0x88], [CHR 0xE2, CHR 0x80, CHR 0x89], [CHR 0xE2, CHR 0x80, CHR 0x8A],
             [CHR 0xE2, CHR 0x80, CHR 0xA8], [CHR 0xE2, CHR 0x80, CHR 0xA9], [CHR 0xE2, CHR 0x80, CHR 0xAF],
             [CHR 0xE2, CHR 0x81, CHR 0x9F], [CHR 0xE3, CHR 0x80, CHR 0x80], [CHR 0xEF, CHR 0xBB, CHR 0xBF]] then 3
      else 0)"

function isBlank :: "string \<Rightarrow> bool" where
  "isBlank line =
     (if line = [] then True else if ws_width line = 0 then False else isBlank (drop (ws_width line) line))"
  by pat_completeness auto
termination
  by (relation "measure length") auto

declare isBlank.simps [simp del]

subsection \<open>The edit\<close>

record TextReplaceResult =
  tr_ok :: bool
  tr_content :: "string option"
  tr_occurrences :: nat
  tr_tolerant :: "bool option"
  tr_error :: "string option"

definition is_indent :: "char \<Rightarrow> bool" where
  "is_indent c = (c = CHR '' '' \<or> c = CHR 0x09)"

definition leadingWhitespace :: "string \<Rightarrow> string" where
  "leadingWhitespace line = takeWhile is_indent line"

definition withoutIndentation :: "string \<Rightarrow> string" where
  "withoutIndentation line = dropWhile is_indent line"

abbreviation newline :: char where "newline \<equiv> CHR 0x0A"

definition first_indent :: "string list \<Rightarrow> string" where
  "first_indent lines = (case find (\<lambda>line. \<not> isBlank line) lines of Some line \<Rightarrow> leadingWhitespace line | None \<Rightarrow> [])"

definition reindent_line :: "string \<Rightarrow> string \<Rightarrow> string \<Rightarrow> string" where
  "reindent_line sourceIndent targetIndent line =
     (if isBlank line then []
      else if prefix sourceIndent line then targetIndent @ drop (length sourceIndent) line
      else targetIndent @ withoutIndentation line)"

definition reindent :: "string \<Rightarrow> string \<Rightarrow> string" where
  "reindent newText targetIndent =
     (let lines = split_on newline newText
      in join_with newline (map (reindent_line (first_indent lines) targetIndent) lines))"

definition matches_at :: "string list \<Rightarrow> string list \<Rightarrow> nat \<Rightarrow> bool" where
  "matches_at contentLines oldLines start =
     (map withoutIndentation (take (length oldLines) (drop start contentLines)) = map withoutIndentation oldLines)"

definition old_lines :: "string \<Rightarrow> string list" where
  "old_lines oldText =
     (let ls = split_on newline oldText in if length ls > 1 \<and> last ls = [] then butlast ls else ls)"

definition match_starts :: "string list \<Rightarrow> string list \<Rightarrow> nat list" where
  "match_starts contentLines oldLines =
     filter (matches_at contentLines oldLines) (filter (\<lambda>start. start + length oldLines \<le> length contentLines) [0..<Suc (length contentLines)])"

definition replaceIgnoringIndentation :: "string \<Rightarrow> string \<Rightarrow> string \<Rightarrow> string option" where
  "replaceIgnoringIndentation content oldText newText =
     (let contentLines = split_on newline content;
          oldLines = old_lines oldText
      in if oldLines = [] then None
         else (case match_starts contentLines oldLines of
                 [start] \<Rightarrow>
                   (let block = take (length oldLines) (drop start contentLines);
                        replacement = split_on newline (reindent newText (first_indent block))
                    in Some (join_with newline
                         (take start contentLines @ replacement @ drop (start + length oldLines) contentLines)))
               | _ \<Rightarrow> None))"

definition replaceInText :: "string \<Rightarrow> string \<Rightarrow> string \<Rightarrow> TextReplaceResult" where
  "replaceInText content oldText newText =
     (if oldText = [] then \<lparr>tr_ok = False, tr_content = None, tr_occurrences = 0, tr_tolerant = None,
                           tr_error = Some ''old_text must not be empty''\<rparr>
      else (let occurrences = count_occurrences oldText content;
                refusal = \<lparr>tr_ok = False, tr_content = None, tr_occurrences = occurrences, tr_tolerant = None,
                           tr_error = Some (''old_text occurs '' @ show_nat occurrences @ '' times; it must occur exactly once'')\<rparr>
            in if occurrences = 1
               then \<lparr>tr_ok = True, tr_content = Some (js_replace content oldText newText), tr_occurrences = 1,
                     tr_tolerant = None, tr_error = None\<rparr>
               else if occurrences = 0
               then (case replaceIgnoringIndentation content oldText newText of
                       Some tolerant \<Rightarrow> \<lparr>tr_ok = True, tr_content = Some tolerant, tr_occurrences = 1,
                                        tr_tolerant = Some True, tr_error = None\<rparr>
                     | None \<Rightarrow> refusal)
               else refusal))"

subsection \<open>Lemmas on searching\<close>

lemma find_first_Some:
  "pat \<noteq> [] \<Longrightarrow> find_first pat s = Some (pre, post) \<Longrightarrow> s = pre @ pat @ post"
proof (induction s arbitrary: pre)
  case (Cons c s)
  show ?case
  proof (cases "prefix pat (c # s)")
    case True
    with Cons.prems show ?thesis by (auto simp: prefix_def)
  next
    case False
    with Cons.prems obtain pre' where "find_first pat s = Some (pre', post)" "pre = c # pre'"
      by (auto split: prod.splits)
    with Cons.IH Cons.prems(1) show ?thesis by simp
  qed
qed simp

lemma find_first_None: "pat \<noteq> [] \<Longrightarrow> find_first pat s = None \<longleftrightarrow> count_occurrences pat s = 0"
proof (induction s)
  case (Cons c s)
  then show ?case by (simp add: count_occurrences.simps [of pat "c # s"])
qed (simp add: count_occurrences.simps)

lemma count_after_first:
  "pat \<noteq> [] \<Longrightarrow> find_first pat s = Some (pre, post) \<Longrightarrow> count_occurrences pat s = Suc (count_occurrences pat post)"
proof (induction s arbitrary: pre)
  case (Cons c s)
  then show ?case
    by (auto simp: count_occurrences.simps [of pat "c # s"] split: if_splits)
qed simp

lemma expand_no_dollar: "CHR ''$'' \<notin> set new \<Longrightarrow> expand_replacement matched pre post new = new"
  by (induction matched pre post new rule: expand_replacement.induct) auto

lemma old_lines_not_Nil [simp]: "old_lines oldText \<noteq> []"
proof -
  have "butlast xs \<noteq> []" if "length xs > 1" for xs :: "string list"
    using that by (cases xs; cases "tl xs") auto
  then show ?thesis by (simp add: old_lines_def Let_def)
qed



lemma tolerant_match_example:
  "tr_content (replaceInText (''f'' @ [newline] @ ''    x = 1'' @ [newline] @ ''g'') (''  x = 1'' @ [newline] @ ''  g'') ''y = 2'') =
   Some (''f'' @ [newline] @ ''    y = 2'')"
  by code_simp

subsection \<open>Where the contract and the code differ\<close>

text \<open>The new text is not taken literally: a dollar pattern in it is expanded.\<close>

lemma replacement_patterns_expanded:
  "tr_content (replaceInText ''cost: X'' ''X'' ''$$5'') = Some ''cost: $5'' \<and>
   tr_content (replaceInText ''cost: X'' ''X'' ''$&$&'') = Some ''cost: XX''"
  by code_simp

text \<open>An ambiguous edit is accepted when its occurrences overlap.\<close>

lemma overlapping_match_accepted:
  "''aaa'' = [] @ ''aa'' @ ''a'' \<and> ''aaa'' = ''a'' @ ''aa'' @ [] \<and> tr_content (replaceInText ''aaa'' ''aa'' ''b'') = Some ''ba''"
  by code_simp

end
