(* ===== verification/Blobs.thy ===== *)
theory Blobs
  imports Prelude
begin

text \<open>
  The content-addressed blob store (\<^verbatim>\<open>src/src/artifacts/blob-store.ts\<close>): the file-backed store, the
  access policies, the write quota and the guarded view that combines them. SHA-256 is a parameter
  \<open>sha\<close>, of which the theorems assume what it is used for: its result is 64 lower-case
  hexadecimal digits, and where content is read back, that the contents compared do not collide.
  The files of the store are two maps from the hexadecimal digest, which determines both paths: the
  objects with their modification times, and the sidecar metadata.
\<close>

subsection \<open>References and digests\<close>

record BlobRef =
  br_digest :: string
  br_size :: int
  br_mediaType :: string
  br_producedBy :: "string option"
  br_producedFrom :: "string list option"
  br_tenantId :: "string option"

record PutBlobOptions =
  po_mediaType :: "string option"
  po_producedBy :: "string option"
  po_producedFrom :: "string list option"
  po_tenantId :: "string option"

record blob_meta =
  bm_mediaType :: string
  bm_producedBy :: "string option"
  bm_producedFrom :: "string list option"
  bm_tenantId :: "string option"

datatype blob_access = BlobRead | BlobWrite

datatype blob_error =
    InvalidDigest string
  | BlobMissing string
  | BlobCorrupt string
  | BlobNotFound string
  | BlobForbidden blob_access string
  | QuotaBlob int int
  | QuotaTenant int int

definition SHA256_PREFIX :: string where "SHA256_PREFIX = ''sha256:''"

definition digestOf :: "(string \<Rightarrow> string) \<Rightarrow> string \<Rightarrow> string" where
  "digestOf sha bytes = SHA256_PREFIX @ sha bytes"

definition is_hex64 :: "string \<Rightarrow> bool" where
  "is_hex64 s = (length s = 64 \<and> list_all (\<lambda>c. c \<in> set ''abcdef0123456789'') s)"

definition strip_prefix :: "string \<Rightarrow> string" where
  "strip_prefix digest = (if prefix SHA256_PREFIX digest then drop (length SHA256_PREFIX) digest else digest)"

definition normalizeDigest :: "string \<Rightarrow> blob_error + string" where
  "normalizeDigest digest =
     (let hex = strip_prefix digest in if \<not> is_hex64 hex then Inl (InvalidDigest digest) else Inr (SHA256_PREFIX @ hex))"

text \<open>An empty string counts as absent where the code tests an option for truth.\<close>

definition truthy :: "string option \<Rightarrow> string option" where
  "truthy x = (if x = Some [] then None else x)"

subsection \<open>The file-backed store\<close>

record blob_fs =
  bf_objects :: "(string, string \<times> int) jsmap"
  bf_meta :: "(string, blob_meta) jsmap"

definition empty_blob_fs :: blob_fs where
  "empty_blob_fs = \<lparr>bf_objects = [], bf_meta = []\<rparr>"

definition put_meta :: "PutBlobOptions \<Rightarrow> blob_meta" where
  "put_meta opts =
     \<lparr>bm_mediaType = (case po_mediaType opts of Some m \<Rightarrow> m | None \<Rightarrow> ''application/octet-stream''),
      bm_producedBy = truthy (po_producedBy opts),
      bm_producedFrom = (case po_producedFrom opts of Some (x # xs) \<Rightarrow> Some (x # xs) | _ \<Rightarrow> None),
      bm_tenantId = truthy (po_tenantId opts)\<rparr>"

text \<open>\<open>sidecar\<close> says whether writing the metadata file succeeded: its failure is swallowed.\<close>

definition fs_put ::
  "(string \<Rightarrow> string) \<Rightarrow> blob_fs \<Rightarrow> string \<Rightarrow> PutBlobOptions \<Rightarrow> int \<Rightarrow> bool \<Rightarrow> blob_error + BlobRef \<times> blob_fs" where
  "fs_put sha s bytes opts now sidecar =
     (case normalizeDigest (digestOf sha bytes) of
        Inl e \<Rightarrow> Inl e
      | Inr digest \<Rightarrow>
          (let key = strip_prefix digest;
               meta = put_meta opts;
               existed = (case js_get (bf_objects s) key of
                            Some (existing, _) \<Rightarrow> digestOf sha existing = digestOf sha bytes
                          | None \<Rightarrow> False);
               s1 = (if existed then s else s\<lparr>bf_objects := js_set key (bytes, now) (bf_objects s)\<rparr>);
               s2 = (if sidecar then s1\<lparr>bf_meta := js_set key meta (bf_meta s1)\<rparr> else s1)
           in Inr (\<lparr>br_digest = digestOf sha bytes, br_size = int (length bytes), br_mediaType = bm_mediaType meta,
                    br_producedBy = bm_producedBy meta, br_producedFrom = bm_producedFrom meta,
                    br_tenantId = bm_tenantId meta\<rparr>, s2)))"

definition fs_get :: "(string \<Rightarrow> string) \<Rightarrow> blob_fs \<Rightarrow> string \<Rightarrow> blob_error + string" where
  "fs_get sha s digest =
     (case normalizeDigest digest of
        Inl e \<Rightarrow> Inl e
      | Inr normalized \<Rightarrow>
          (case js_get (bf_objects s) (strip_prefix normalized) of
             None \<Rightarrow> Inl (BlobMissing normalized)
           | Some (bytes, _) \<Rightarrow> if digestOf sha bytes \<noteq> normalized then Inl (BlobCorrupt normalized) else Inr bytes))"

definition default_meta :: blob_meta where
  "default_meta = \<lparr>bm_mediaType = ''application/octet-stream'', bm_producedBy = None, bm_producedFrom = None, bm_tenantId = None\<rparr>"

definition fs_stat :: "blob_fs \<Rightarrow> string \<Rightarrow> blob_error + BlobRef option" where
  "fs_stat s digest =
     (case normalizeDigest digest of
        Inl e \<Rightarrow> Inl e
      | Inr normalized \<Rightarrow>
          (let key = strip_prefix normalized
           in (case js_get (bf_objects s) key of
                 None \<Rightarrow> Inr None
               | Some (bytes, _) \<Rightarrow>
                   (let meta = (case js_get (bf_meta s) key of Some m \<Rightarrow> m | None \<Rightarrow> default_meta)
                    in Inr (Some \<lparr>br_digest = normalized, br_size = int (length bytes), br_mediaType = bm_mediaType meta,
                                  br_producedBy = truthy (bm_producedBy meta), br_producedFrom = bm_producedFrom meta,
                                  br_tenantId = truthy (bm_tenantId meta)\<rparr>)))))"

definition fs_list :: "blob_fs \<Rightarrow> BlobRef list" where
  "fs_list s =
     concat (map (\<lambda>name. case fs_stat s (SHA256_PREFIX @ name) of Inr (Some ref) \<Rightarrow> [ref] | _ \<Rightarrow> [])
       (filter is_hex64 (js_keys (bf_objects s))))"

fun normalize_all :: "string list \<Rightarrow> blob_error + string list" where
  "normalize_all [] = Inr []"
| "normalize_all (d # ds) =
     (case normalizeDigest d of
        Inl e \<Rightarrow> Inl e
      | Inr n \<Rightarrow> (case normalize_all ds of Inl e \<Rightarrow> Inl e | Inr ns \<Rightarrow> Inr (n # ns)))"

definition is_young :: "blob_fs \<Rightarrow> string \<Rightarrow> int option \<Rightarrow> int \<Rightarrow> bool" where
  "is_young s digest olderThanMs now =
     (case olderThanMs of
        None \<Rightarrow> False
      | Some age \<Rightarrow> (case js_get (bf_objects s) (strip_prefix digest) of Some (_, mtime) \<Rightarrow> now - mtime < age | None \<Rightarrow> False))"

fun prune_loop :: "string list \<Rightarrow> int option \<Rightarrow> int \<Rightarrow> BlobRef list \<Rightarrow> blob_fs \<Rightarrow> (string list \<times> int) \<times> blob_fs" where
  "prune_loop keep olderThanMs now [] s = (([], 0), s)"
| "prune_loop keep olderThanMs now (ref # refs) s =
     (if br_digest ref \<in> set keep \<or> is_young s (br_digest ref) olderThanMs now
      then prune_loop keep olderThanMs now refs s
      else (let key = strip_prefix (br_digest ref);
                ((removed, freed), s') = prune_loop keep olderThanMs now refs
                  (s\<lparr>bf_objects := js_delete key (bf_objects s), bf_meta := js_delete key (bf_meta s)\<rparr>)
            in ((br_digest ref # removed, br_size ref + freed), s')))"

definition fs_prune ::
  "blob_fs \<Rightarrow> string list \<Rightarrow> int option \<Rightarrow> int \<Rightarrow> blob_error + (string list \<times> int) \<times> blob_fs" where
  "fs_prune s keep olderThanMs now =
     (case normalize_all keep of
        Inl e \<Rightarrow> Inl e
      | Inr ks \<Rightarrow> Inr (prune_loop ks olderThanMs now (fs_list s) s))"

subsection \<open>Policies, quota and audit\<close>

record BlobPrincipal =
  bp_tenantId :: string
  bp_subject :: "string option"

record BlobAccessRequest =
  rq_op :: blob_access
  rq_digest :: string
  rq_ref :: "BlobRef option"
  rq_principal :: "BlobPrincipal option"

definition shared_authorize :: "BlobAccessRequest \<Rightarrow> bool" where
  "shared_authorize request = True"

definition tenant_authorize :: "bool option \<Rightarrow> BlobAccessRequest \<Rightarrow> bool" where
  "tenant_authorize allowSharedRead request =
     (if rq_op request = BlobWrite then rq_principal request \<noteq> None
      else (case truthy (map_option bp_tenantId (rq_principal request)) of
              None \<Rightarrow> False
            | Some tenant \<Rightarrow>
                (case Option.bind (rq_ref request) br_tenantId of
                   None \<Rightarrow> allowSharedRead \<noteq> Some False
                 | Some owner \<Rightarrow> owner = tenant)))"

record write_quota =
  q_used :: "(string, int) jsmap"
  q_maxBytesPerBlob :: "int option"
  q_maxBytesPerTenant :: "int option"

definition quota_key :: "string option \<Rightarrow> string" where
  "quota_key tenantId = (case tenantId of Some t \<Rightarrow> t | None \<Rightarrow> ''<shared>'')"

definition quota_usage :: "write_quota \<Rightarrow> string option \<Rightarrow> int" where
  "quota_usage q tenantId = (case js_get (q_used q) (quota_key tenantId) of Some n \<Rightarrow> n | None \<Rightarrow> 0)"

definition quota_check :: "write_quota \<Rightarrow> string option \<Rightarrow> int \<Rightarrow> blob_error option" where
  "quota_check q tenantId bytes =
     (case q_maxBytesPerBlob q of
        Some m \<Rightarrow> if bytes > m then Some (QuotaBlob bytes m)
                 else (case q_maxBytesPerTenant q of
                         Some mt \<Rightarrow> if quota_usage q tenantId + bytes > mt
                                   then Some (QuotaTenant (quota_usage q tenantId + bytes) mt) else None
                       | None \<Rightarrow> None)
      | None \<Rightarrow>
          (case q_maxBytesPerTenant q of
             Some mt \<Rightarrow> if quota_usage q tenantId + bytes > mt
                       then Some (QuotaTenant (quota_usage q tenantId + bytes) mt) else None
           | None \<Rightarrow> None))"

definition quota_commit :: "write_quota \<Rightarrow> string option \<Rightarrow> int \<Rightarrow> write_quota" where
  "quota_commit q tenantId bytes =
     q\<lparr>q_used := js_set (quota_key tenantId) (quota_usage q tenantId + bytes) (q_used q)\<rparr>"

datatype audit_outcome = Allowed | Denied | NotFound

record BlobAuditEvent =
  au_op :: blob_access
  au_digest :: string
  au_outcome :: audit_outcome
  au_principal :: "BlobPrincipal option"
  au_at :: int

subsection \<open>The guarded store\<close>

text \<open>
  The guard's principal and policy are arguments; its state is the inner store, the quota and the
  audit log, newest event first.
\<close>

record guarded_store =
  gs_inner :: blob_fs
  gs_quota :: "write_quota option"
  gs_audit :: "BlobAuditEvent list"

definition guard_emit :: "BlobPrincipal option \<Rightarrow> int \<Rightarrow> blob_access \<Rightarrow> string \<Rightarrow> audit_outcome \<Rightarrow> guarded_store \<Rightarrow> guarded_store" where
  "guard_emit pr now op digest outcome g =
     g\<lparr>gs_audit := \<lparr>au_op = op, au_digest = digest, au_outcome = outcome, au_principal = pr, au_at = now\<rparr> # gs_audit g\<rparr>"

text \<open>
  \<^verbatim>\<open>put\<close> up to its call of the inner store (policy, dedup lookup, quota check), and from there on:
  the two parts between which another write can run.
\<close>

definition guard_put_check ::
  "(string \<Rightarrow> string) \<Rightarrow> (BlobAccessRequest \<Rightarrow> bool) \<Rightarrow> BlobPrincipal option \<Rightarrow> int \<Rightarrow> guarded_store \<Rightarrow> string \<Rightarrow>
   (blob_error + bool) \<times> guarded_store" where
  "guard_put_check sha authorize pr now g bytes =
     (let digest = digestOf sha bytes
      in if \<not> authorize \<lparr>rq_op = BlobWrite, rq_digest = digest, rq_ref = None, rq_principal = pr\<rparr>
         then (Inl (BlobForbidden BlobWrite digest), guard_emit pr now BlobWrite digest Denied g)
         else (let existing = (case fs_stat (gs_inner g) digest of Inr (Some _) \<Rightarrow> True | _ \<Rightarrow> False)
               in if existing then (Inr True, g)
                  else (case Option.bind (gs_quota g) (\<lambda>q. quota_check q (map_option bp_tenantId pr) (int (length bytes))) of
                          Some e \<Rightarrow> (Inl e, g)
                        | None \<Rightarrow> (Inr False, g))))"

definition guard_put_commit ::
  "(string \<Rightarrow> string) \<Rightarrow> BlobPrincipal option \<Rightarrow> int \<Rightarrow> bool \<Rightarrow> guarded_store \<Rightarrow> string \<Rightarrow> PutBlobOptions \<Rightarrow> bool \<Rightarrow>
   (blob_error + BlobRef) \<times> guarded_store" where
  "guard_put_commit sha pr now sidecar g bytes opts existing =
     (let opts' = (case truthy (map_option bp_tenantId pr) of Some t \<Rightarrow> opts\<lparr>po_tenantId := Some t\<rparr> | None \<Rightarrow> opts)
      in (case fs_put sha (gs_inner g) bytes opts' now sidecar of
            Inl e \<Rightarrow> (Inl e, g)
          | Inr (ref, inner') \<Rightarrow>
              (let g1 = g\<lparr>gs_inner := inner'\<rparr>;
                   g2 = (if existing then g1
                         else g1\<lparr>gs_quota := map_option (\<lambda>q. quota_commit q (map_option bp_tenantId pr) (int (length bytes))) (gs_quota g1)\<rparr>)
               in (Inr ref, guard_emit pr now BlobWrite (br_digest ref) Allowed g2))))"

definition guard_put ::
  "(string \<Rightarrow> string) \<Rightarrow> (BlobAccessRequest \<Rightarrow> bool) \<Rightarrow> BlobPrincipal option \<Rightarrow> int \<Rightarrow> bool \<Rightarrow> guarded_store \<Rightarrow> string \<Rightarrow>
   PutBlobOptions \<Rightarrow> (blob_error + BlobRef) \<times> guarded_store" where
  "guard_put sha authorize pr now sidecar g bytes opts =
     (case guard_put_check sha authorize pr now g bytes of
        (Inl e, g') \<Rightarrow> (Inl e, g')
      | (Inr existing, g') \<Rightarrow> guard_put_commit sha pr now sidecar g' bytes opts existing)"

definition guard_get ::
  "(string \<Rightarrow> string) \<Rightarrow> (BlobAccessRequest \<Rightarrow> bool) \<Rightarrow> BlobPrincipal option \<Rightarrow> int \<Rightarrow> guarded_store \<Rightarrow> string \<Rightarrow>
   (blob_error + string) \<times> guarded_store" where
  "guard_get sha authorize pr now g digest =
     (case fs_stat (gs_inner g) digest of
        Inl e \<Rightarrow> (Inl e, g)
      | Inr None \<Rightarrow> (Inl (BlobNotFound digest), guard_emit pr now BlobRead digest NotFound g)
      | Inr (Some ref) \<Rightarrow>
          if \<not> authorize \<lparr>rq_op = BlobRead, rq_digest = br_digest ref, rq_ref = Some ref, rq_principal = pr\<rparr>
          then (Inl (BlobForbidden BlobRead digest), guard_emit pr now BlobRead (br_digest ref) Denied g)
          else (fs_get sha (gs_inner g) (br_digest ref), guard_emit pr now BlobRead (br_digest ref) Allowed g))"

definition guard_stat ::
  "(BlobAccessRequest \<Rightarrow> bool) \<Rightarrow> BlobPrincipal option \<Rightarrow> guarded_store \<Rightarrow> string \<Rightarrow> blob_error + BlobRef option" where
  "guard_stat authorize pr g digest =
     (case fs_stat (gs_inner g) digest of
        Inl e \<Rightarrow> Inl e
      | Inr None \<Rightarrow> Inr None
      | Inr (Some ref) \<Rightarrow>
          if \<not> authorize \<lparr>rq_op = BlobRead, rq_digest = br_digest ref, rq_ref = Some ref, rq_principal = pr\<rparr> then Inr None
          else Inr (Some ref))"

subsection \<open>Digests\<close>

lemma strip_prefix_add [simp]: "strip_prefix (SHA256_PREFIX @ h) = h"
  by (simp add: strip_prefix_def)

lemma normalizeDigest_ok:
  "normalizeDigest d = Inr n \<longleftrightarrow> is_hex64 (strip_prefix d) \<and> n = SHA256_PREFIX @ strip_prefix d"
  by (auto simp: normalizeDigest_def Let_def)

lemma normalizeDigest_digestOf:
  "normalizeDigest (digestOf sha b) = Inr n \<longleftrightarrow> is_hex64 (sha b) \<and> n = digestOf sha b"
  by (auto simp: normalizeDigest_ok digestOf_def)

lemma digestOf_eq [simp]: "digestOf sha a = SHA256_PREFIX @ h \<longleftrightarrow> sha a = h"
  by (simp add: digestOf_def)

text \<open>Every object is stored under the digest of its bytes.\<close>

definition blob_inv :: "(string \<Rightarrow> string) \<Rightarrow> blob_fs \<Rightarrow> bool" where
  "blob_inv sha s = (\<forall>key bytes t. js_get (bf_objects s) key = Some (bytes, t) \<longrightarrow> sha bytes = key)"

lemma blob_inv_empty [simp]: "blob_inv sha empty_blob_fs"
  by (simp add: blob_inv_def empty_blob_fs_def)

lemma fs_get_iff:
  assumes "blob_inv sha s"
  shows "fs_get sha s d = Inr b \<longleftrightarrow> is_hex64 (strip_prefix d) \<and> (\<exists>t. js_get (bf_objects s) (strip_prefix d) = Some (b, t))"
  using assms by (auto simp: fs_get_def normalizeDigest_def blob_inv_def Let_def split: option.splits)

lemma fs_putD:
  assumes "fs_put sha s b opts now sidecar = Inr (ref, s')"
  shows "is_hex64 (sha b)" and "br_digest ref = digestOf sha b" and "br_size ref = int (length b)"
    and "br_tenantId ref = truthy (po_tenantId opts)"
    and "bf_objects s' = (case js_get (bf_objects s) (sha b) of
          Some (c, t) \<Rightarrow> if sha c = sha b then bf_objects s else js_set (sha b) (b, now) (bf_objects s)
        | None \<Rightarrow> js_set (sha b) (b, now) (bf_objects s))"
  using assms
  by (auto simp: fs_put_def normalizeDigest_def Let_def digestOf_def put_meta_def split: sum.splits if_splits option.splits)

subsection \<open>The contract of the interface\<close>

text \<open>
  What a holder of a digest relies on: the bytes behind a digest are the bytes it was computed from,
  a stored object is read back as long as nothing removes it, and other writes do not disturb it.
  The put is of bytes that do not collide with an object already present.
\<close>

locale blob_store =
  fixes sha :: "string \<Rightarrow> string"
    and put :: "'s \<Rightarrow> string \<Rightarrow> PutBlobOptions \<Rightarrow> (blob_error + BlobRef) \<times> 's"
    and getb :: "'s \<Rightarrow> string \<Rightarrow> blob_error + string"
    and inv :: "'s \<Rightarrow> bool"
  assumes put_inv: "inv s \<Longrightarrow> inv (snd (put s b opts))"
    and put_get: "inv s \<Longrightarrow> (\<forall>c. getb s (digestOf sha b) = Inr c \<longrightarrow> c = b) \<Longrightarrow> put s b opts = (Inr ref, s') \<Longrightarrow>
      br_digest ref = digestOf sha b \<and> br_size ref = int (length b) \<and> getb s' (digestOf sha b) = Inr b"
    and put_keeps: "inv s \<Longrightarrow> getb s d = Inr c \<Longrightarrow> getb (snd (put s b opts)) d = Inr c"
    and get_digest: "inv s \<Longrightarrow> getb s d = Inr b \<Longrightarrow> normalizeDigest d = Inr (digestOf sha b)"
begin

lemma puts_keep:
  "inv s \<Longrightarrow> getb s d = Inr c \<Longrightarrow> getb (run_ops (\<lambda>s (b, opts). snd (put s b opts)) s ops) d = Inr c"
proof (induction ops arbitrary: s)
  case (Cons x ops)
  obtain b opts where x: "x = (b, opts)" by (cases x)
  from Cons.IH [of "snd (put s b opts)"] Cons.prems put_inv [of s b opts] put_keeps [of s d c b opts] show ?case
    by (simp add: x)
qed simp

lemma put_stays:
  assumes "inv s" and "\<forall>c. getb s (digestOf sha b) = Inr c \<longrightarrow> c = b" and "put s b opts = (Inr ref, s')"
  shows "getb (run_ops (\<lambda>s (b, opts). snd (put s b opts)) s' ops) (br_digest ref) = Inr b"
proof -
  note p = put_get [OF assms]
  have "inv s'"
    using put_inv [OF assms(1), of b opts] assms(3) by simp
  from puts_keep [OF this] p show ?thesis by simp
qed

end

definition fs_put_state ::
  "(string \<Rightarrow> string) \<Rightarrow> int \<Rightarrow> bool \<Rightarrow> blob_fs \<Rightarrow> string \<Rightarrow> PutBlobOptions \<Rightarrow> (blob_error + BlobRef) \<times> blob_fs" where
  "fs_put_state sha now sidecar s b opts =
     (case fs_put sha s b opts now sidecar of Inl e \<Rightarrow> (Inl e, s) | Inr (ref, s') \<Rightarrow> (Inr ref, s'))"

lemma fs_put_get_object:
  assumes "blob_inv sha s" and "fs_put sha s b opts now sidecar = Inr (ref, s')"
  shows "js_get (bf_objects s') k = (if k = sha b \<and> js_get (bf_objects s) k = None then Some (b, now) else js_get (bf_objects s) k)"
  using fs_putD(5) [OF assms(2)] assms(1) by (auto simp: blob_inv_def split: option.splits)

lemma blob_inv_put:
  assumes "blob_inv sha s" and "fs_put sha s b opts now sidecar = Inr (ref, s')"
  shows "blob_inv sha s'"
proof -
  note obj = fs_put_get_object [OF assms]
  from assms(1) show ?thesis
    unfolding blob_inv_def obj by auto
qed

interpretation fs_blobs: blob_store sha "fs_put_state sha now sidecar" "fs_get sha" "blob_inv sha"
  for sha now sidecar
proof (unfold_locales, goal_cases)
  case (1 s b opts)
  then show ?case
    using blob_inv_put [OF 1] by (auto simp: fs_put_state_def split: sum.splits)
next
  case (2 s b opts ref s')
  then have p: "fs_put sha s b opts now sidecar = Inr (ref, s')"
    by (auto simp: fs_put_state_def split: sum.splits)
  have "blob_inv sha s'"
    using blob_inv_put [OF 2(1) p] .
  moreover have "\<exists>t. js_get (bf_objects s') (sha b) = Some (b, t)"
  proof (cases "js_get (bf_objects s) (sha b)")
    case (Some ct)
    obtain c t where ct: "ct = (c, t)" by (cases ct)
    with 2(1) Some fs_putD(1) [OF p] have "fs_get sha s (digestOf sha b) = Inr c"
      by (simp add: fs_get_iff digestOf_def)
    with 2(2) Some ct fs_put_get_object [OF 2(1) p] show ?thesis by auto
  qed (simp add: fs_put_get_object [OF 2(1) p])
  ultimately show ?case
    using fs_putD(1-3) [OF p] fs_get_iff [of sha s' "digestOf sha b" b] by (simp add: digestOf_def)
next
  case (3 s d c b opts)
  show ?case
  proof (cases "fs_put sha s b opts now sidecar")
    case (Inr rs)
    then obtain ref s' where p: "fs_put sha s b opts now sidecar = Inr (ref, s')" by (cases rs) auto
    note inv' = blob_inv_put [OF 3(1) p]
    from 3(2) fs_put_get_object [OF 3(1) p] have "fs_get sha s' d = Inr c"
      unfolding fs_get_iff [OF 3(1)] fs_get_iff [OF inv'] by auto
    with p show ?thesis by (simp add: fs_put_state_def)
  qed (use 3 in \<open>simp add: fs_put_state_def\<close>)
next
  case (4 s d b)
  then show ?case
    by (auto simp: fs_get_def split: sum.splits option.splits if_splits)
qed

subsection \<open>Pruning\<close>

lemma prune_loop_spec:
  "prune_loop keep age now refs s = ((removed, freed), s') \<Longrightarrow>
   (\<forall>d \<in> set removed. d \<notin> set keep \<and> d \<in> br_digest ` set refs) \<and>
   (\<forall>k. js_get (bf_objects s') k = (if k \<in> strip_prefix ` set removed then None else js_get (bf_objects s) k))"
proof (induction refs arbitrary: s removed freed)
  case (Cons ref refs)
  show ?case
  proof (cases "br_digest ref \<in> set keep \<or> is_young s (br_digest ref) age now")
    case True
    with Cons show ?thesis by auto
  next
    case False
    let ?k = "strip_prefix (br_digest ref)"
    obtain rm fr where rest: "prune_loop keep age now refs
        (s\<lparr>bf_objects := js_delete ?k (bf_objects s), bf_meta := js_delete ?k (bf_meta s)\<rparr>) = ((rm, fr), s')"
      and eq: "removed = br_digest ref # rm"
      using Cons.prems False by (auto simp: Let_def split: prod.splits)
    from Cons.IH [OF rest] False eq show ?thesis by auto
  qed
qed simp

lemma fs_list_digests: "ref \<in> set (fs_list s) \<Longrightarrow> \<exists>h. is_hex64 h \<and> br_digest ref = SHA256_PREFIX @ h"
  by (auto simp: fs_list_def fs_stat_def normalizeDigest_def Let_def split: sum.splits option.splits if_splits)

lemma normalize_all_set: "normalize_all ds = Inr ns \<Longrightarrow> set ns = (\<lambda>d. SHA256_PREFIX @ strip_prefix d) ` set ds"
  by (induction ds arbitrary: ns) (auto simp: normalizeDigest_ok split: sum.splits)

lemma fs_prune_spec:
  assumes "fs_prune s keep age now = Inr ((removed, freed), s')"
  shows "js_get (bf_objects s') k = (if SHA256_PREFIX @ k \<in> set removed then None else js_get (bf_objects s) k)"
    and "d \<in> set keep \<Longrightarrow> SHA256_PREFIX @ strip_prefix d \<notin> set removed"
proof -
  obtain ks where ks: "normalize_all keep = Inr ks" and loop: "prune_loop ks age now (fs_list s) s = ((removed, freed), s')"
    using assms by (auto simp: fs_prune_def split: sum.splits)
  note spec = prune_loop_spec [OF loop]
  have form: "\<forall>d \<in> set removed. \<exists>h. d = SHA256_PREFIX @ h"
    using spec fs_list_digests by fastforce
  then have "k \<in> strip_prefix ` set removed \<longleftrightarrow> SHA256_PREFIX @ k \<in> set removed"
    by force
  with spec show "js_get (bf_objects s') k = (if SHA256_PREFIX @ k \<in> set removed then None else js_get (bf_objects s) k)"
    by simp
  show "d \<in> set keep \<Longrightarrow> SHA256_PREFIX @ strip_prefix d \<notin> set removed"
    using spec normalize_all_set [OF ks] by auto
qed

datatype blob_op = PutBlob string PutBlobOptions int bool | PruneBlobs "string list" "int option" int

fun blob_step :: "(string \<Rightarrow> string) \<Rightarrow> blob_fs \<Rightarrow> blob_op \<Rightarrow> blob_fs" where
  "blob_step sha s (PutBlob b opts now sidecar) = snd (fs_put_state sha now sidecar s b opts)"
| "blob_step sha s (PruneBlobs keep age now) = (case fs_prune s keep age now of Inl _ \<Rightarrow> s | Inr (_, s') \<Rightarrow> s')"

definition spares :: "string \<Rightarrow> blob_op \<Rightarrow> bool" where
  "spares digest op = (case op of PruneBlobs keep _ _ \<Rightarrow> digest \<in> set keep | PutBlob _ _ _ _ \<Rightarrow> True)"

lemma blob_step_keeps:
  assumes "blob_inv sha s"
  shows "blob_inv sha (blob_step sha s op)"
    and "spares d op \<Longrightarrow> fs_get sha s d = Inr b \<Longrightarrow> fs_get sha (blob_step sha s op) d = Inr b"
proof -
  show inv: "blob_inv sha (blob_step sha s op)"
  proof (cases op)
    case (PutBlob b opts now sidecar)
    with fs_blobs.put_inv [OF assms] show ?thesis by simp
  next
    case (PruneBlobs keep age now)
    show ?thesis
    proof (cases "fs_prune s keep age now")
      case (Inr rs)
      then obtain removed freed s' where p: "fs_prune s keep age now = Inr ((removed, freed), s')" by (cases rs) auto
      have "blob_inv sha s'"
        using assms unfolding blob_inv_def fs_prune_spec(1) [OF p] by auto
      with p PruneBlobs show ?thesis by simp
    qed (use PruneBlobs assms in simp)
  qed
  assume sp: "spares d op" and g: "fs_get sha s d = Inr b"
  show "fs_get sha (blob_step sha s op) d = Inr b"
  proof (cases op)
    case (PutBlob b' opts now sidecar)
    with fs_blobs.put_keeps [OF assms g] show ?thesis by simp
  next
    case (PruneBlobs keep age now)
    show ?thesis
    proof (cases "fs_prune s keep age now")
      case (Inr rs)
      then obtain removed freed s' where p: "fs_prune s keep age now = Inr ((removed, freed), s')" by (cases rs) auto
      have "SHA256_PREFIX @ strip_prefix d \<notin> set removed"
        using sp PruneBlobs fs_prune_spec(2) [OF p] by (simp add: spares_def)
      then have "fs_get sha s' d = Inr b"
        using g inv PruneBlobs p fs_prune_spec(1) [OF p, of "strip_prefix d"] by (simp add: fs_get_iff [OF assms] fs_get_iff)
      with p PruneBlobs show ?thesis by simp
    qed (use PruneBlobs g in simp)
  qed
qed

text \<open>
  Content addressing. From the empty store on, whatever is written or pruned, a digest only ever
  reads as bytes with that digest; and bytes that were put, and do not collide with an object already
  present, are read back under the returned digest through any later writes and any prunes that keep
  it.
\<close>

theorem blob_read_back:
  assumes "s = run_ops (blob_step sha) empty_blob_fs before"
    and "fs_put sha s b opts now sidecar = Inr (ref, s')"
    and "\<forall>c. fs_get sha s (digestOf sha b) = Inr c \<longrightarrow> c = b"
    and "\<forall>op \<in> set after. spares (br_digest ref) op"
  shows "fs_get sha (run_ops (blob_step sha) s' after) (br_digest ref) = Inr b \<and>
    (\<forall>d c. fs_get sha s d = Inr c \<longrightarrow> normalizeDigest d = Inr (digestOf sha c))"
proof -
  have inv: "blob_inv sha s"
    unfolding assms(1) by (rule run_ops_invariant) (auto intro: blob_step_keeps(1))
  have p: "fs_put_state sha now sidecar s b opts = (Inr ref, s')"
    by (simp add: fs_put_state_def assms(2))
  note g = fs_blobs.put_get [OF inv assms(3) p]
  have "blob_inv sha s'"
    using blob_inv_put [OF inv assms(2)] .
  then have "fs_get sha (run_ops (blob_step sha) s' after) (br_digest ref) = Inr b"
    using g assms(4)
  proof (induction after arbitrary: s')
    case (Cons op after)
    have "fs_get sha (blob_step sha s' op) (digestOf sha b) = Inr b"
      using blob_step_keeps(2) [OF Cons.prems(1), of "digestOf sha b" op b] Cons.prems by simp
    with Cons blob_step_keeps(1) [OF Cons.prems(1), of op] show ?case by simp
  qed simp
  with fs_blobs.get_digest [OF inv] show ?thesis by blast
qed


subsection \<open>Quota\<close>

definition within_quota :: "guarded_store \<Rightarrow> bool" where
  "within_quota g = (\<forall>q m t. gs_quota g = Some q \<and> q_maxBytesPerTenant q = Some m \<longrightarrow> quota_usage q t \<le> m)"

text \<open>The sequential writes of several principals, each run to its end.\<close>

definition guard_puts ::
  "(string \<Rightarrow> string) \<Rightarrow> (BlobAccessRequest \<Rightarrow> bool) \<Rightarrow> guarded_store \<Rightarrow>
   (BlobPrincipal option \<times> int \<times> bool \<times> string \<times> PutBlobOptions) list \<Rightarrow> guarded_store" where
  "guard_puts sha authorize g ops =
     run_ops (\<lambda>g (pr, now, sidecar, b, opts). snd (guard_put sha authorize pr now sidecar g b opts)) g ops"

lemma quota_usage_commit: "quota_usage (quota_commit q t n) t' = (if quota_key t' = quota_key t then quota_usage q t + n else quota_usage q t')"
  by (auto simp: quota_usage_def quota_commit_def)

lemma quota_check_tenant:
  "quota_check q t n = None \<Longrightarrow> q_maxBytesPerTenant q = Some m \<Longrightarrow> quota_usage q t + n \<le> m"
  by (auto simp: quota_check_def split: option.splits if_splits)

lemma guard_put_within:
  assumes "within_quota g"
  shows "within_quota (snd (guard_put sha authorize pr now sidecar g b opts))"
proof (cases "guard_put_check sha authorize pr now g b")
  case (Pair r g1)
  have same: "gs_quota g1 = gs_quota g"
    using Pair by (auto simp: guard_put_check_def guard_emit_def Let_def split: if_splits option.splits)
  show ?thesis
  proof (cases r)
    case (Inr existing)
    have checked: "quota_check q (map_option bp_tenantId pr) (int (length b)) = None" if "\<not> existing" "gs_quota g = Some q" for q
      using Pair Inr that by (auto simp: guard_put_check_def Let_def split: if_splits option.splits)
    have "within_quota (snd (guard_put_commit sha pr now sidecar g1 b opts existing))"
    proof (cases "fs_put sha (gs_inner g1) b (case truthy (map_option bp_tenantId pr) of Some t \<Rightarrow> opts\<lparr>po_tenantId := Some t\<rparr> | None \<Rightarrow> opts) now sidecar")
      case (Inl e)
      with assms same show ?thesis by (simp add: guard_put_commit_def within_quota_def)
    next
      case (Inr rs)
      obtain ref inner' where rs: "rs = (ref, inner')" by (cases rs)
      show ?thesis
      proof (cases "existing \<or> gs_quota g = None")
        case True
        with Inr rs assms same show ?thesis
          by (auto simp: guard_put_commit_def guard_emit_def within_quota_def Let_def)
      next
        case False
        then obtain q where q: "gs_quota g = Some q" "\<not> existing" by auto
        have "quota_usage (quota_commit q (map_option bp_tenantId pr) (int (length b))) t \<le> m"
          if "q_maxBytesPerTenant q = Some m" for m t
          using quota_check_tenant [OF checked [OF q(2,1)] that] assms that q
          by (auto simp: quota_usage_commit within_quota_def)
        with Inr rs q same show ?thesis
          by (auto simp: guard_put_commit_def guard_emit_def within_quota_def quota_commit_def Let_def)
      qed
    qed
    with Pair Inr show ?thesis by (simp add: guard_put_def)
  qed (use Pair same assms in \<open>simp add: guard_put_def within_quota_def\<close>)
qed

text \<open>
  Quota. A sequence of writes, each completed before the next begins, never takes a tenant over
  the ceiling: it starts within the quota and stays there.
\<close>

theorem quota_respected:
  assumes "within_quota g"
  shows "within_quota (guard_puts sha authorize g ops)"
  unfolding guard_puts_def
proof (rule run_ops_invariant [where P = within_quota])
  fix g x assume "within_quota g"
  then show "within_quota (case x of (pr, now, sidecar, b, opts) \<Rightarrow> snd (guard_put sha authorize pr now sidecar g b opts))"
    by (auto intro: guard_put_within split: prod.splits)
qed (rule assms)

subsection \<open>Concrete stores\<close>

definition sample_sha :: "string \<Rightarrow> string" where
  "sample_sha b = replicate 64 (if b = ''one'' then CHR ''1'' else CHR ''0'')"

definition no_options :: PutBlobOptions where
  "no_options = \<lparr>po_mediaType = None, po_producedBy = None, po_producedFrom = None, po_tenantId = None\<rparr>"

definition tenant :: "string \<Rightarrow> BlobPrincipal option" where
  "tenant t = Some \<lparr>bp_tenantId = t, bp_subject = None\<rparr>"

definition sample_guard :: guarded_store where
  "sample_guard =
     \<lparr>gs_inner = empty_blob_fs, gs_quota = Some \<lparr>q_used = [], q_maxBytesPerBlob = None, q_maxBytesPerTenant = Some 4\<rparr>, gs_audit = []\<rparr>"

theorem blob_read_back_witness:
  "\<exists>ref s'. fs_put sample_sha empty_blob_fs ''one'' no_options 0 True = Inr (ref, s') \<and>
     fs_get sample_sha (run_ops (blob_step sample_sha) s' [PutBlob ''two'' no_options 1 True, PruneBlobs [br_digest ref] None 2])
       (br_digest ref) = Inr ''one''"
proof -
  let ?d = "digestOf sample_sha ''one''"
  let ?ref = "\<lparr>br_digest = ?d, br_size = 3, br_mediaType = ''application/octet-stream'', br_producedBy = None,
    br_producedFrom = None, br_tenantId = None\<rparr>"
  obtain s' where p: "fs_put sample_sha empty_blob_fs ''one'' no_options 0 True = Inr (?ref, s')"
  proof (rule that)
    show "fs_put sample_sha empty_blob_fs ''one'' no_options 0 True =
      Inr (?ref, snd (fs_put_state sample_sha 0 True empty_blob_fs ''one'' no_options))"
      by code_simp
  qed
  have "\<forall>c. fs_get sample_sha empty_blob_fs ?d = Inr c \<longrightarrow> c = ''one''"
    by (simp add: fs_get_def empty_blob_fs_def split: sum.splits)
  with blob_read_back [where before = "[]" and s = empty_blob_fs and sha = sample_sha and b = "''one''"
      and after = "[PutBlob ''two'' no_options 1 True, PruneBlobs [?d] None 2]", OF _ p] p
  show ?thesis by (auto simp: spares_def)
qed


theorem quota_respected_witness:
  "within_quota (guard_puts sample_sha shared_authorize sample_guard [(tenant ''a'', 0, True, ''one'', no_options), (tenant ''a'', 1, True, ''two'', no_options)])"
proof -
  have "within_quota sample_guard"
    by (auto simp: within_quota_def sample_guard_def quota_usage_def)
  then show ?thesis by (rule quota_respected)
qed

subsection \<open>Where the store falls short\<close>

text \<open>
  Two writes that both pass the quota check before either is committed take the tenant over its
  ceiling.
\<close>

lemma concurrent_puts_exceed_quota:
  "let a = tenant ''a'';
       c1 = guard_put_check sample_sha shared_authorize a 0 sample_guard ''one'';
       c2 = guard_put_check sample_sha shared_authorize a 0 sample_guard ''two'';
       g1 = snd (guard_put_commit sample_sha a 1 True sample_guard ''one'' no_options False);
       g2 = snd (guard_put_commit sample_sha a 2 True g1 ''two'' no_options False)
   in fst c1 = Inr False \<and> fst c2 = Inr False \<and>
      map_option (\<lambda>q. (quota_usage q (Some ''a''), q_maxBytesPerTenant q)) (gs_quota g2) = Some (6, Some 4)"
  by code_simp

text \<open>
  Writing bytes another tenant already stored rewrites the metadata: the second tenant becomes the
  owner and the first one can no longer read its own blob.
\<close>

lemma dedup_put_takes_ownership:
  "let g1 = snd (guard_put sample_sha (tenant_authorize None) (tenant ''a'') 0 True sample_guard ''one'' no_options);
       g2 = snd (guard_put sample_sha (tenant_authorize None) (tenant ''b'') 1 True g1 ''one'' no_options);
       d = digestOf sample_sha ''one''
   in fst (guard_get sample_sha (tenant_authorize None) (tenant ''a'') 2 g1 d) = Inr ''one'' \<and>
      fst (guard_get sample_sha (tenant_authorize None) (tenant ''a'') 3 g2 d) = Inl (BlobForbidden BlobRead d)"
  by code_simp

end
