(* ===== verification/Artifacts.thy ===== *)
theory Artifacts
  imports Blobs
begin

text \<open>
  The artifact index and blob retention (\<^verbatim>\<open>src/src/artifacts/artifact-index.ts\<close>,
  \<^verbatim>\<open>retention.ts\<close>): recording and querying artifacts, the provenance walk over \<^verbatim>\<open>producedFrom\<close>
  with its gap report, and the sweep that prunes a store down to what the index reaches.
\<close>

subsection \<open>The index\<close>

record ArtifactRecord =
  rec_ref :: BlobRef
  rec_at :: int

type_synonym artifact_index = "(string, ArtifactRecord) jsmap"

definition index_record :: "artifact_index \<Rightarrow> BlobRef \<Rightarrow> int \<Rightarrow> artifact_index" where
  "index_record ix ref now = js_set (br_digest ref) \<lparr>rec_ref = ref, rec_at = now\<rparr> ix"

definition index_get :: "artifact_index \<Rightarrow> string \<Rightarrow> ArtifactRecord option" where
  "index_get ix digest = js_get ix digest"

definition index_list :: "artifact_index \<Rightarrow> ArtifactRecord list" where
  "index_list ix = js_values ix"

definition byProducer :: "artifact_index \<Rightarrow> string \<Rightarrow> ArtifactRecord list" where
  "byProducer ix producedBy = filter (\<lambda>record. br_producedBy (rec_ref record) = Some producedBy) (js_values ix)"

definition inputs_of :: "ArtifactRecord \<Rightarrow> string list" where
  "inputs_of record = (case br_producedFrom (rec_ref record) of Some ds \<Rightarrow> ds | None \<Rightarrow> [])"

definition byInput :: "artifact_index \<Rightarrow> string \<Rightarrow> ArtifactRecord list" where
  "byInput ix digest = filter (\<lambda>record. digest \<in> set (inputs_of record)) (js_values ix)"

subsection \<open>The provenance walk\<close>

record ProvenanceNode =
  pn_digest :: string
  pn_known :: bool
  pn_record :: "ArtifactRecord option"

record ProvenanceReport =
  pr_nodes :: "ProvenanceNode list"
  pr_gaps :: "string list"
  pr_truncated :: bool
  pr_intact :: bool

text \<open>
  The loop over the explicit stack, whose top is the head of the list. It ends because a recorded
  digest is expanded at most once and an unrecorded one pushes nothing.
\<close>

function walk_loop ::
  "artifact_index \<Rightarrow> nat \<Rightarrow> (string \<times> nat) list \<Rightarrow> string list \<Rightarrow> ProvenanceNode list \<Rightarrow> string list \<Rightarrow> bool \<Rightarrow>
   ProvenanceNode list \<times> string list \<times> bool" where
  "walk_loop ix maxDepth [] seen nodes gaps truncated = (nodes, gaps, truncated)"
| "walk_loop ix maxDepth ((i, depth) # stack) seen nodes gaps truncated =
     (if i \<in> set seen then walk_loop ix maxDepth stack seen nodes gaps truncated
      else if depth > maxDepth then walk_loop ix maxDepth stack seen nodes gaps True
      else (case js_get ix i of
              Some record \<Rightarrow>
                walk_loop ix maxDepth (rev (map (\<lambda>input. (input, Suc depth)) (inputs_of record)) @ stack)
                  (set_add i seen) (nodes @ [\<lparr>pn_digest = i, pn_known = True, pn_record = Some record\<rparr>]) gaps truncated
            | None \<Rightarrow>
                walk_loop ix maxDepth stack (set_add i seen)
                  (nodes @ [\<lparr>pn_digest = i, pn_known = False, pn_record = None\<rparr>]) (gaps @ [i]) truncated))"
  by pat_completeness auto
termination
proof (relation "measures [\<lambda>(ix, maxDepth, stack, seen, nodes, gaps, truncated). card (dom (js_get ix) - set seen),
    \<lambda>(ix, maxDepth, stack, seen, nodes, gaps, truncated). length stack]", goal_cases)
  case (4 ix maxDepth i depth stack seen nodes gaps truncated)
  then have "dom (js_get ix) - insert i (set seen) = dom (js_get ix) - set seen" by auto
  then show ?case by simp
next
  case (5 ix maxDepth i depth stack seen nodes gaps truncated rcd)
  then have "i \<in> dom (js_get ix)" "i \<notin> set seen" by auto
  then have "card (dom (js_get ix) - insert i (set seen)) < card (dom (js_get ix) - set seen)"
    by (intro psubset_card_mono) (auto simp: finite_dom_map_of)
  then show ?case by simp
qed auto

definition DEFAULT_WALK_DEPTH :: nat where "DEFAULT_WALK_DEPTH = 32"

definition walkProvenance :: "artifact_index \<Rightarrow> string \<Rightarrow> nat \<Rightarrow> ProvenanceReport" where
  "walkProvenance ix digest maxDepth =
     (let (nodes, gaps, truncated) = walk_loop ix maxDepth [(digest, 0)] [] [] [] False
      in \<lparr>pr_nodes = nodes, pr_gaps = gaps, pr_truncated = truncated, pr_intact = (gaps = [] \<and> \<not> truncated)\<rparr>)"

subsection \<open>Retention\<close>

definition reachableDigests :: "artifact_index \<Rightarrow> string list" where
  "reachableDigests ix =
     foldl (\<lambda>reachable record.
         foldl (\<lambda>r node. set_add (pn_digest node) r) (set_add (br_digest (rec_ref record)) reachable)
           (pr_nodes (walkProvenance ix (br_digest (rec_ref record)) DEFAULT_WALK_DEPTH)))
       [] (index_list ix)"

definition sweepUnreferencedBlobs ::
  "blob_fs \<Rightarrow> artifact_index \<Rightarrow> int option \<Rightarrow> int \<Rightarrow> blob_error + (string list \<times> int) \<times> blob_fs" where
  "sweepUnreferencedBlobs store ix olderThanMs now = fs_prune store (reachableDigests ix) olderThanMs now"

subsection \<open>What a walk covers\<close>

text \<open>The digests reachable backwards from a digest.\<close>

inductive ancestor :: "artifact_index \<Rightarrow> string \<Rightarrow> string \<Rightarrow> bool" for ix d where
  self: "ancestor ix d d"
| input: "ancestor ix d e \<Longrightarrow> js_get ix e = Some record \<Longrightarrow> x \<in> set (inputs_of record) \<Longrightarrow> ancestor ix d x"

inductive_cases ancestorE: "ancestor ix d x"

text \<open>
  The invariant of the loop: the nodes are the seen digests, their known flags and the gaps say which
  are recorded, and unless the walk was truncated, every input of a seen digest is seen or on the
  stack.
\<close>

definition walk_inv ::
  "artifact_index \<Rightarrow> string \<Rightarrow> (string \<times> nat) list \<Rightarrow> string list \<Rightarrow> ProvenanceNode list \<Rightarrow> string list \<Rightarrow> bool \<Rightarrow> bool" where
  "walk_inv ix root stack seen nodes gaps truncated \<longleftrightarrow>
     map pn_digest nodes = seen \<and>
     (\<forall>n \<in> set nodes. pn_record n = js_get ix (pn_digest n) \<and> (pn_known n \<longleftrightarrow> js_get ix (pn_digest n) \<noteq> None)) \<and>
     set gaps = {d \<in> set seen. js_get ix d = None} \<and>
     (\<forall>d \<in> set seen \<union> fst ` set stack. ancestor ix root d) \<and>
     (\<not> truncated \<longrightarrow>
        (\<forall>d \<in> set seen. \<forall>record. js_get ix d = Some record \<longrightarrow> set (inputs_of record) \<subseteq> set seen \<union> fst ` set stack))"

lemma walk_loop_inv:
  assumes "walk_loop ix maxDepth stack seen nodes gaps truncated = (nodes', gaps', truncated')"
    and "walk_inv ix root stack seen nodes gaps truncated" and "distinct seen"
  shows "\<exists>seen'. walk_inv ix root [] seen' nodes' gaps' truncated' \<and> distinct seen' \<and> set seen \<subseteq> set seen' \<and>
    (\<not> truncated' \<longrightarrow> \<not> truncated \<and> fst ` set stack \<subseteq> set seen')"
  using assms
proof (induction ix maxDepth stack seen nodes gaps truncated rule: walk_loop.induct)
  case (1 ix maxDepth seen nodes gaps truncated)
  then show ?case by auto
next
  case (2 ix maxDepth i depth stack seen nodes gaps truncated)
  consider (seen) "i \<in> set seen" | (deep) "i \<notin> set seen" "depth > maxDepth"
    | (known) rcd where "i \<notin> set seen" "\<not> depth > maxDepth" "js_get ix i = Some rcd"
    | (gap) "i \<notin> set seen" "\<not> depth > maxDepth" "js_get ix i = None"
    by (cases "js_get ix i") auto
  then show ?case
  proof cases
    case seen
    have "walk_inv ix root stack seen nodes gaps truncated"
      using "2.prems"(2) seen by (simp add: walk_inv_def insert_absorb)
    with "2.IH"(1) [OF seen] "2.prems" seen show ?thesis by auto
  next
    case deep
    have "walk_inv ix root stack seen nodes gaps True"
      using "2.prems"(2) by (auto simp: walk_inv_def)
    with "2.IH"(2) [OF deep] "2.prems" deep show ?thesis by auto
  next
    case (known rcd)
    let ?stack = "rev (map (\<lambda>input. (input, Suc depth)) (inputs_of rcd)) @ stack"
    let ?nodes = "nodes @ [\<lparr>pn_digest = i, pn_known = True, pn_record = Some rcd\<rparr>]"
    have anc: "ancestor ix root i"
      using "2.prems"(2) by (auto simp: walk_inv_def)
    have "\<forall>d \<in> set (set_add i seen). \<forall>r. js_get ix d = Some r \<longrightarrow>
        set (inputs_of r) \<subseteq> set (set_add i seen) \<union> fst ` set ?stack" if "\<not> truncated"
    proof (intro ballI allI impI)
      fix d r assume d: "d \<in> set (set_add i seen)" "js_get ix d = Some r"
      show "set (inputs_of r) \<subseteq> set (set_add i seen) \<union> fst ` set ?stack"
      proof (cases "d = i")
        case True
        with d known(3) show ?thesis by (auto simp: image_image image_Un)
      next
        case False
        with d "2.prems"(2) that have "set (inputs_of r) \<subseteq> set seen \<union> fst ` set ((i, depth) # stack)"
          by (simp add: walk_inv_def)
        then show ?thesis by (auto simp: image_Un)
      qed
    qed
    then have "walk_inv ix root ?stack (set_add i seen) ?nodes gaps truncated"
      using "2.prems"(2) known(1,3) anc unfolding walk_inv_def
      by (auto simp: set_add_def image_Un image_image intro: ancestor.input [OF anc known(3)])
    with "2.IH"(4) [OF known] "2.prems" known show ?thesis
      by (auto simp: image_Un image_image)
  next
    case gap
    have "walk_inv ix root stack (set_add i seen) (nodes @ [\<lparr>pn_digest = i, pn_known = False, pn_record = None\<rparr>]) (gaps @ [i]) truncated"
      using "2.prems"(2) gap unfolding walk_inv_def by (auto simp: set_add_def)
    with "2.IH"(3) [OF gap] "2.prems" gap show ?thesis by auto
  qed
qed

lemma walk_inv_start: "walk_inv ix d [(d, 0)] [] [] [] False"
  by (simp add: walk_inv_def ancestor.self)

lemma walk_covers:
  assumes "walk_loop ix maxDepth stack seen nodes gaps truncated = (nodes', gaps', truncated')"
    and "set seen \<subseteq> pn_digest ` set nodes"
  shows "set nodes \<subseteq> set nodes' \<and> (\<forall>(i, depth) \<in> set stack. depth \<le> maxDepth \<longrightarrow> i \<in> pn_digest ` set nodes')"
  using assms
proof (induction ix maxDepth stack seen nodes gaps truncated rule: walk_loop.induct)
  case (2 ix maxDepth i depth stack seen nodes gaps truncated)
  consider (seen) "i \<in> set seen" | (deep) "i \<notin> set seen" "depth > maxDepth"
    | (known) rcd where "i \<notin> set seen" "\<not> depth > maxDepth" "js_get ix i = Some rcd"
    | (gap) "i \<notin> set seen" "\<not> depth > maxDepth" "js_get ix i = None"
    by (cases "js_get ix i") auto
  then show ?case
  proof cases
    case seen
    with "2.IH"(1) [OF seen] "2.prems" show ?thesis by auto
  next
    case deep
    with "2.IH"(2) [OF deep] "2.prems" show ?thesis by auto
  next
    case (known rcd)
    have "set (set_add i seen) \<subseteq> pn_digest ` set (nodes @ [\<lparr>pn_digest = i, pn_known = True, pn_record = Some rcd\<rparr>])"
      using "2.prems"(2) by auto
    from "2.IH"(4) [OF known _ this] "2.prems"(1) known
    have ih: "set (nodes @ [\<lparr>pn_digest = i, pn_known = True, pn_record = Some rcd\<rparr>]) \<subseteq> set nodes'"
      "\<forall>(j, depth) \<in> set stack. depth \<le> maxDepth \<longrightarrow> j \<in> pn_digest ` set nodes'"
      by auto
    then have "i \<in> pn_digest ` set nodes'"
      by (intro image_eqI [of _ _ "\<lparr>pn_digest = i, pn_known = True, pn_record = Some rcd\<rparr>"]) auto
    with ih show ?thesis by auto
  next
    case gap
    have "set (set_add i seen) \<subseteq> pn_digest ` set (nodes @ [\<lparr>pn_digest = i, pn_known = False, pn_record = None\<rparr>])"
      using "2.prems"(2) by auto
    from "2.IH"(3) [OF gap _ this] "2.prems"(1) gap
    have ih: "set (nodes @ [\<lparr>pn_digest = i, pn_known = False, pn_record = None\<rparr>]) \<subseteq> set nodes'"
      "\<forall>(j, depth) \<in> set stack. depth \<le> maxDepth \<longrightarrow> j \<in> pn_digest ` set nodes'"
      by auto
    then have "i \<in> pn_digest ` set nodes'"
      by (intro image_eqI [of _ _ "\<lparr>pn_digest = i, pn_known = False, pn_record = None\<rparr>"]) auto
    with ih show ?thesis by auto
  qed
qed auto

lemma provenance_sound_nodes:
  "\<forall>x \<in> pn_digest ` set (pr_nodes (walkProvenance ix d maxDepth)). ancestor ix d x"
proof -
  obtain nodes gaps trunc where loop: "walk_loop ix maxDepth [(d, 0)] [] [] [] False = (nodes, gaps, trunc)"
    by (metis prod_cases3)
  from walk_loop_inv [OF loop walk_inv_start] show ?thesis
    by (auto simp: walk_inv_def walkProvenance_def loop simp del: walk_loop.simps)
qed

text \<open>
  The provenance report tells the truth. Its nodes are distinct ancestors of the digest,
  the digest included; the gaps are exactly the nodes without a record; a walk that was not truncated
  covers every ancestor, so a report that says intact means that the whole chain behind the digest is
  recorded.
\<close>

theorem provenance_report_sound:
  assumes "r = walkProvenance ix d maxDepth"
  shows "distinct (map pn_digest (pr_nodes r)) \<and> d \<in> pn_digest ` set (pr_nodes r) \<and>
    (\<forall>n \<in> set (pr_nodes r). ancestor ix d (pn_digest n) \<and> pn_record n = js_get ix (pn_digest n) \<and>
       (pn_known n \<longleftrightarrow> js_get ix (pn_digest n) \<noteq> None)) \<and>
    set (pr_gaps r) = {x \<in> pn_digest ` set (pr_nodes r). js_get ix x = None} \<and>
    (\<not> pr_truncated r \<longrightarrow> pn_digest ` set (pr_nodes r) = {x. ancestor ix d x}) \<and>
    (pr_intact r \<longrightarrow> (\<forall>x. ancestor ix d x \<longrightarrow> js_get ix x \<noteq> None))"
proof -
  obtain nodes gaps trunc where loop: "walk_loop ix maxDepth [(d, 0)] [] [] [] False = (nodes, gaps, trunc)"
    by (metis prod_cases3)
  have r: "pr_nodes r = nodes" "pr_gaps r = gaps" "pr_truncated r = trunc" "pr_intact r \<longleftrightarrow> gaps = [] \<and> \<not> trunc"
    by (simp_all add: assms walkProvenance_def loop del: walk_loop.simps)
  obtain seen where inv: "walk_inv ix d [] seen nodes gaps trunc" "distinct seen" "\<not> trunc \<Longrightarrow> d \<in> set seen"
    using walk_loop_inv [OF loop walk_inv_start] by auto
  have seen: "set seen = pn_digest ` set nodes" "map pn_digest nodes = seen"
    using inv(1) by (auto simp: walk_inv_def)
  have d: "d \<in> set seen"
    using walk_covers [OF loop] seen by simp
  have closed: "ancestor ix d x \<Longrightarrow> x \<in> set seen" if "\<not> trunc" for x
  proof (induction rule: ancestor.induct)
    case (input e rcd x)
    have "\<forall>d \<in> set seen. \<forall>r. js_get ix d = Some r \<longrightarrow> set (inputs_of r) \<subseteq> set seen"
      using inv(1) that by (simp add: walk_inv_def)
    with input show ?case by blast
  qed (rule d)
  have nodes: "\<forall>n \<in> set nodes. ancestor ix d (pn_digest n) \<and> pn_record n = js_get ix (pn_digest n) \<and>
       (pn_known n \<longleftrightarrow> js_get ix (pn_digest n) \<noteq> None)"
    and gaps: "set gaps = {x \<in> set seen. js_get ix x = None}"
    using inv(1) by (auto simp: walk_inv_def)
  have all: "\<not> trunc \<longrightarrow> set seen = {x. ancestor ix d x}"
    using closed nodes seen(1) by auto
  moreover have "gaps = [] \<and> \<not> trunc \<longrightarrow> (\<forall>x. ancestor ix d x \<longrightarrow> js_get ix x \<noteq> None)"
    using gaps closed by auto
  ultimately show ?thesis
    using inv(2) seen d nodes gaps unfolding r by auto
qed

text \<open>An index built by recording files every artifact under its own digest.\<close>

definition build_index :: "(BlobRef \<times> int) list \<Rightarrow> artifact_index" where
  "build_index refs = foldl (\<lambda>ix (ref, now). index_record ix ref now) [] refs"

definition index_inv :: "artifact_index \<Rightarrow> bool" where
  "index_inv ix \<longleftrightarrow> wf_jsmap ix \<and> (\<forall>d r. js_get ix d = Some r \<longrightarrow> br_digest (rec_ref r) = d)"

lemma index_inv_record: "index_inv ix \<Longrightarrow> index_inv (index_record ix ref now)"
  by (simp add: index_record_def index_inv_def)

lemma build_index_inv: "index_inv (build_index refs)"
proof -
  have "index_inv ix \<Longrightarrow> index_inv (foldl (\<lambda>ix (ref, now). index_record ix ref now) ix refs)" for ix
  proof (induction refs arbitrary: ix)
    case (Cons x refs)
    then show ?case by (cases x) (simp add: index_inv_record)
  qed simp
  moreover have "index_inv []"
    by (simp add: index_inv_def)
  ultimately show ?thesis
    unfolding build_index_def by blast
qed

lemma set_foldl_nodes: "set (foldl (\<lambda>r node. set_add (pn_digest node) r) acc ns) = set acc \<union> pn_digest ` set ns"
  by (induction ns arbitrary: acc) auto

lemma set_reachableDigests:
  "set (reachableDigests ix) =
   (\<Union>r \<in> set (js_values ix). insert (br_digest (rec_ref r)) (pn_digest ` set (pr_nodes (walkProvenance ix (br_digest (rec_ref r)) DEFAULT_WALK_DEPTH))))"
proof -
  have "set (foldl (\<lambda>reachable rcd. foldl (\<lambda>r node. set_add (pn_digest node) r) (set_add (br_digest (rec_ref rcd)) reachable)
           (pr_nodes (walkProvenance ix (br_digest (rec_ref rcd)) DEFAULT_WALK_DEPTH))) acc rs) =
    set acc \<union> (\<Union>r \<in> set rs. insert (br_digest (rec_ref r)) (pn_digest ` set (pr_nodes (walkProvenance ix (br_digest (rec_ref r)) DEFAULT_WALK_DEPTH))))" for acc rs
    by (induction rs arbitrary: acc) (auto simp: set_foldl_nodes)
  from this [of "[]" "js_values ix"] show ?thesis
    by (simp add: reachableDigests_def index_list_def)
qed

lemma walk_has_inputs:
  assumes "js_get ix d = Some r" and "x \<in> set (inputs_of r)" and "0 < maxDepth"
  shows "x \<in> pn_digest ` set (pr_nodes (walkProvenance ix d maxDepth))"
proof -
  let ?node = "\<lparr>pn_digest = d, pn_known = True, pn_record = Some r\<rparr>"
  obtain nodes gaps trunc where loop: "walk_loop ix maxDepth [(d, 0)] [] [] [] False = (nodes, gaps, trunc)"
    by (metis prod_cases3)
  then have "walk_loop ix maxDepth (rev (map (\<lambda>input. (input, Suc 0)) (inputs_of r)) @ []) (set_add d []) ([] @ [?node]) [] False = (nodes, gaps, trunc)"
    using assms(1) by simp
  from walk_covers [OF this] have "\<forall>(i, depth) \<in> set (rev (map (\<lambda>input. (input, Suc 0)) (inputs_of r))). depth \<le> maxDepth \<longrightarrow> i \<in> pn_digest ` set nodes"
    by simp
  with assms(2,3) have "x \<in> pn_digest ` set nodes" by auto
  then show ?thesis
    by (simp add: walkProvenance_def loop del: walk_loop.simps)
qed

text \<open>
  C14: retention is safe. The digests an index keeps are exactly those of its records and the inputs
  they name; a sweep removes none of them, so every recorded or referenced blob reads as before.
\<close>

theorem sweep_keeps_referenced:
  assumes "ix = build_index refs" and "sweepUnreferencedBlobs s ix age now = Inr ((removed, freed), s')" and "blob_inv sha s"
  shows "set (reachableDigests ix) = {d. \<exists>r. js_get ix d = Some r} \<union> {x. \<exists>d r. js_get ix d = Some r \<and> x \<in> set (inputs_of r)} \<and>
    (\<forall>d \<in> set (reachableDigests ix). fs_get sha s' d = fs_get sha s d)"
proof
  have wf: "wf_jsmap ix" and key: "\<And>d r. js_get ix d = Some r \<Longrightarrow> br_digest (rec_ref r) = d"
    using build_index_inv [of refs] assms(1) by (auto simp: index_inv_def)
  have anc: "ancestor ix d x \<Longrightarrow> js_get ix d \<noteq> None \<Longrightarrow> js_get ix x \<noteq> None \<or> (\<exists>e r. js_get ix e = Some r \<and> x \<in> set (inputs_of r))" for d x
    by (induction rule: ancestor.induct) auto
  show "set (reachableDigests ix) = {d. \<exists>r. js_get ix d = Some r} \<union> {x. \<exists>d r. js_get ix d = Some r \<and> x \<in> set (inputs_of r)}"
  proof (intro equalityI subsetI)
    fix x assume "x \<in> set (reachableDigests ix)"
    then obtain d r where dr: "js_get ix d = Some r"
      and x: "x = d \<or> x \<in> pn_digest ` set (pr_nodes (walkProvenance ix d DEFAULT_WALK_DEPTH))"
      using set_js_values [OF wf] key by (auto simp: set_reachableDigests)
    then have "ancestor ix d x"
      using provenance_sound_nodes [of ix d DEFAULT_WALK_DEPTH] ancestor.self by blast
    with anc dr show "x \<in> {d. \<exists>r. js_get ix d = Some r} \<union> {x. \<exists>d r. js_get ix d = Some r \<and> x \<in> set (inputs_of r)}"
      by fastforce
  next
    fix x assume "x \<in> {d. \<exists>r. js_get ix d = Some r} \<union> {x. \<exists>d r. js_get ix d = Some r \<and> x \<in> set (inputs_of r)}"
    then consider r where "js_get ix x = Some r" | d r where "js_get ix d = Some r" "x \<in> set (inputs_of r)" by auto
    then show "x \<in> set (reachableDigests ix)"
    proof cases
      case (1 r)
      with key set_js_values [OF wf] show ?thesis by (force simp: set_reachableDigests)
    next
      case (2 d r)
      with walk_has_inputs [OF 2, of DEFAULT_WALK_DEPTH] key set_js_values [OF wf] show ?thesis
        by (force simp: set_reachableDigests DEFAULT_WALK_DEPTH_def)
    qed
  qed
  show "\<forall>d \<in> set (reachableDigests ix). fs_get sha s' d = fs_get sha s d"
  proof
    fix d assume "d \<in> set (reachableDigests ix)"
    with fs_prune_spec [OF assms(2) [unfolded sweepUnreferencedBlobs_def]]
    have "js_get (bf_objects s') (strip_prefix d) = js_get (bf_objects s) (strip_prefix d)" by simp
    then show "fs_get sha s' d = fs_get sha s d"
      by (auto simp: fs_get_def normalizeDigest_def Let_def)
  qed
qed

subsection \<open>A concrete chain\<close>

definition sample_ref :: "string \<Rightarrow> string list \<Rightarrow> BlobRef" where
  "sample_ref d ds =
     \<lparr>br_digest = d, br_size = 0, br_mediaType = ''text/plain'', br_producedBy = None,
      br_producedFrom = (if ds = [] then None else Some ds), br_tenantId = None\<rparr>"

definition sample_digest :: "char \<Rightarrow> string" where
  "sample_digest c = SHA256_PREFIX @ replicate 64 c"

definition sample_index :: artifact_index where
  "sample_index = build_index [(sample_ref (sample_digest CHR ''2'') [sample_digest CHR ''1''], 5)]"

theorem provenance_report_sound_witness:
  "pr_gaps (walkProvenance sample_index (sample_digest CHR ''2'') 32) = [sample_digest CHR ''1''] \<and>
   pn_digest ` set (pr_nodes (walkProvenance sample_index (sample_digest CHR ''2'') 32)) =
     {x. ancestor sample_index (sample_digest CHR ''2'') x}"
proof -
  have "pr_gaps (walkProvenance sample_index (sample_digest CHR ''2'') 32) = [sample_digest CHR ''1'']"
    "\<not> pr_truncated (walkProvenance sample_index (sample_digest CHR ''2'') 32)"
    by code_simp+
  with provenance_report_sound [OF refl, of sample_index "sample_digest CHR ''2''" 32] show ?thesis by blast
qed

definition sample_store :: blob_fs where
  "sample_store = snd (fs_put_state sample_sha 1 True (snd (fs_put_state sample_sha 0 True empty_blob_fs ''one'' no_options)) ''zero'' no_options)"

theorem sweep_keeps_referenced_witness:
  "\<exists>removed freed s'. sweepUnreferencedBlobs sample_store sample_index None 9 = Inr ((removed, freed), s') \<and>
     removed = [sample_digest CHR ''0''] \<and>
     fs_get sample_sha s' (sample_digest CHR ''1'') = fs_get sample_sha sample_store (sample_digest CHR ''1'')"
proof -
  let ?sweep = "sweepUnreferencedBlobs sample_store sample_index None 9"
  have c: "case ?sweep of Inr ((removed, _), _) \<Rightarrow> removed = [sample_digest CHR ''0''] | Inl _ \<Rightarrow> False"
    by code_simp
  obtain removed freed s' where sweep: "?sweep = Inr ((removed, freed), s')" and rm: "removed = [sample_digest CHR ''0'']"
    using c by (auto split: sum.splits)
  have inv: "blob_inv sample_sha sample_store"
    unfolding sample_store_def by (intro fs_blobs.put_inv blob_inv_empty)
  have "sample_digest CHR ''1'' \<in> set (reachableDigests sample_index)"
    by code_simp
  with sweep rm sweep_keeps_referenced [OF sample_index_def sweep inv] show ?thesis by blast
qed

end
