(* ===== verification/Codec.thy ===== *)
theory Codec
  imports Workspace_Laws
begin

text \<open>
  The wire forms of a workspace: base64 as \<^verbatim>\<open>Buffer\<close> writes and reads it, the inline snapshot codec
  (\<^verbatim>\<open>src/src/workspace/snapshot-codec.ts\<close>) and the encoded diff of \<^verbatim>\<open>memory-workspace.ts\<close>. Bytes
  are characters. The body of an encoded diff is the JSON value that the text denotes.
\<close>

subsection \<open>Base64\<close>

definition b64_alphabet :: string where
  "b64_alphabet = ''ABCDEFGHIJKLMNOPQRSTUVWXYZabcdefghijklmnopqrstuvwxyz0123456789+/''"

definition b64_digit :: "nat \<Rightarrow> char" where
  "b64_digit n = b64_alphabet ! n"

abbreviation byte :: "char \<Rightarrow> nat" where
  "byte c \<equiv> of_char c"

fun base64_encode :: "string \<Rightarrow> string" where
  "base64_encode [] = []"
| "base64_encode [a] = [b64_digit (byte a div 4), b64_digit (byte a mod 4 * 16), CHR ''='', CHR ''='']"
| "base64_encode [a, b] =
     [b64_digit (byte a div 4), b64_digit (byte a mod 4 * 16 + byte b div 16), b64_digit (byte b mod 16 * 4), CHR ''='']"
| "base64_encode (a # b # c # rest) =
     [b64_digit (byte a div 4), b64_digit (byte a mod 4 * 16 + byte b div 16),
      b64_digit (byte b mod 16 * 4 + byte c div 64), b64_digit (byte c mod 64)] @ base64_encode rest"

text \<open>The reader accepts both alphabets, skips other characters and stops at the padding.\<close>

fun index_in :: "char \<Rightarrow> string \<Rightarrow> nat option" where
  "index_in c [] = None"
| "index_in c (x # xs) = (if x = c then Some 0 else map_option Suc (index_in c xs))"

definition b64_value :: "char \<Rightarrow> nat option" where
  "b64_value c = (if c = CHR ''-'' then Some 62 else if c = CHR ''_'' then Some 63 else index_in c b64_alphabet)"

fun b64_bytes :: "nat list \<Rightarrow> string" where
  "b64_bytes (p # q # r # s # rest) =
     [char_of (p * 4 + q div 16), char_of (q mod 16 * 16 + r div 4), char_of (r mod 4 * 64 + s)] @ b64_bytes rest"
| "b64_bytes [p, q, r] = [char_of (p * 4 + q div 16), char_of (q mod 16 * 16 + r div 4)]"
| "b64_bytes [p, q] = [char_of (p * 4 + q div 16)]"
| "b64_bytes _ = []"

definition base64_decode :: "string \<Rightarrow> string" where
  "base64_decode s = b64_bytes (List.map_filter b64_value (takeWhile (\<lambda>c. c \<noteq> CHR ''='') s))"

lemma b64_digit_value:
  assumes "n < 64"
  shows "b64_value (b64_digit n) = Some n" and "b64_digit n \<noteq> CHR ''=''"
proof -
  have "list_all (\<lambda>n. b64_value (b64_digit n) = Some n \<and> b64_digit n \<noteq> CHR ''='') [0..<64]"
    by code_simp
  with assms show "b64_value (b64_digit n) = Some n" "b64_digit n \<noteq> CHR ''=''"
    by (auto simp: list_all_iff)
qed

lemma byte_less [simp]: "byte (c :: char) < (256 :: nat)"
  using of_char_of [of "of_char c :: nat"] by (metis char_of_char mod_less_divisor of_char_of zero_less_numeral)

lemma six_bits:
  fixes a b :: nat
  assumes "a < 256" and "b < 256"
  shows "a div 4 < 64" "a mod 4 * 16 < 64" "a mod 4 * 16 + b div 16 < 64" "a mod 16 * 4 < 64"
    "a mod 16 * 4 + b div 64 < 64" "a mod 64 < 64"
  using assms by linarith+

lemma byte_parts [simp]:
  "byte b div 16 mod 16 = (byte b div 16 :: nat)" "byte b div 16 div 16 = (0 :: nat)"
  "byte b div 64 mod 4 = (byte b div 64 :: nat)" "byte b div 64 div 4 = (0 :: nat)"
proof -
  have "n div 16 mod 16 = n div 16" "n div 16 div 16 = 0" "n div 64 mod 4 = n div 64" "n div 64 div 4 = 0"
    if "n < 256" for n :: nat
    using that by auto
  then show "byte b div 16 mod 16 = (byte b div 16 :: nat)" "byte b div 16 div 16 = (0 :: nat)"
    "byte b div 64 mod 4 = (byte b div 64 :: nat)" "byte b div 64 div 4 = (0 :: nat)"
    by (meson byte_less)+
qed

lemma base64_roundtrip [simp]: "base64_decode (base64_encode bs) = bs"
proof (induction bs rule: base64_encode.induct)
  case 1
  then show ?case by (simp add: base64_decode_def)
next
  case (2 a)
  have "byte a div 4 * 4 + byte a mod 4 * 16 div 16 = byte a" by simp
  then show ?case
    by (simp add: base64_decode_def b64_digit_value six_bits [OF byte_less byte_less] map_filter_simps)
next
  case (3 a b)
  then show ?case
    by (simp add: base64_decode_def b64_digit_value six_bits [OF byte_less byte_less] map_filter_simps)
next
  case (4 a b c rest)
  then show ?case
    by (simp add: base64_decode_def b64_digit_value six_bits [OF byte_less byte_less] map_filter_simps)
qed

subsection \<open>The inline snapshot\<close>

definition MAX_INLINE_SNAPSHOT_BYTES :: nat where "MAX_INLINE_SNAPSHOT_BYTES = 256 * 1024"

record SerializedWorkspaceSnapshot =
  ss_id :: string
  ss_revision :: "WorkspaceRevision option"
  ss_overlay :: "(string \<times> string) list"
  ss_links :: "(string \<times> string) list option"
  ss_deleted :: "string list"
  ss_changed :: "string list"

datatype codec_error = InlineSnapshotTooLarge nat nat | InlineArtifactTooLarge nat nat

definition overlay_bytes :: "(string, string) jsmap \<Rightarrow> nat" where
  "overlay_bytes m = sum_list (map length (js_values m))"

definition serializeWorkspaceSnapshot :: "WorkspaceSnapshot \<Rightarrow> codec_error + SerializedWorkspaceSnapshot" where
  "serializeWorkspaceSnapshot snapshot =
     (let total = overlay_bytes (sn_overlay snapshot)
      in if total > MAX_INLINE_SNAPSHOT_BYTES then Inl (InlineSnapshotTooLarge total MAX_INLINE_SNAPSHOT_BYTES)
         else Inr \<lparr>ss_id = sn_id snapshot, ss_revision = sn_revision snapshot,
                   ss_overlay = map (\<lambda>(path, bytes). (path, base64_encode bytes)) (sn_overlay snapshot),
                   ss_links = (case sn_links snapshot of Some (l # ls) \<Rightarrow> Some (l # ls) | _ \<Rightarrow> None),
                   ss_deleted = sn_deleted snapshot, ss_changed = sn_changed snapshot\<rparr>)"

text \<open>\<^verbatim>\<open>new Map(entries)\<close> and \<^verbatim>\<open>new Set(values)\<close>.\<close>

definition map_of_entries :: "('k \<times> 'v) list \<Rightarrow> ('k, 'v) jsmap" where
  "map_of_entries es = foldl (\<lambda>m (k, v). js_set k v m) [] es"

definition set_of_values :: "'a list \<Rightarrow> 'a list" where
  "set_of_values xs = foldl (\<lambda>s x. set_add x s) [] xs"

definition deserializeWorkspaceSnapshot :: "SerializedWorkspaceSnapshot \<Rightarrow> WorkspaceSnapshot" where
  "deserializeWorkspaceSnapshot snapshot =
     \<lparr>sn_id = ss_id snapshot, sn_revision = ss_revision snapshot,
      sn_overlay = map_of_entries (map (\<lambda>(path, base64). (path, base64_decode base64)) (ss_overlay snapshot)),
      sn_links = Some (map_of_entries (case ss_links snapshot of Some ls \<Rightarrow> ls | None \<Rightarrow> [])),
      sn_deleted = set_of_values (ss_deleted snapshot), sn_changed = set_of_values (ss_changed snapshot)\<rparr>"

lemma js_set_new: "k \<notin> fst ` set m \<Longrightarrow> js_set k v m = m @ [(k, v)]"
  by (induction m) auto

lemma map_of_entries_id: "wf_jsmap es \<Longrightarrow> map_of_entries es = es"
proof -
  have "distinct (map fst (m @ es)) \<Longrightarrow> foldl (\<lambda>m (k, v). js_set k v m) m es = m @ es" for m
  proof (induction es arbitrary: m)
    case (Cons x es)
    obtain k v where x: "x = (k, v)" by (cases x)
    with Cons.prems have "js_set k v m = m @ [(k, v)]"
      by (intro js_set_new) auto
    with Cons x show ?case by simp
  qed simp
  then show "wf_jsmap es \<Longrightarrow> map_of_entries es = es"
    by (simp add: map_of_entries_def wf_jsmap_def)
qed

lemma set_of_values_id: "distinct xs \<Longrightarrow> set_of_values xs = xs"
proof -
  have "distinct (s @ xs) \<Longrightarrow> foldl (\<lambda>s x. set_add x s) s xs = s @ xs" for s
    by (induction xs arbitrary: s) (auto simp: set_add_def)
  then show "distinct xs \<Longrightarrow> set_of_values xs = xs"
    by (simp add: set_of_values_def)
qed

text \<open>
  A snapshot of a workspace within the inline ceiling survives serialization, base64 included: the
  deserialized snapshot restores any workspace exactly as the original one does. Above the ceiling
  serialization fails and names both sizes.
\<close>

theorem snapshot_codec_roundtrip:
  assumes "ws = run_ops ws_step (new_workspace i src) ops"
  shows "(overlay_bytes (ws_overlay ws) \<le> MAX_INLINE_SNAPSHOT_BYTES \<longrightarrow>
      (\<exists>x. serializeWorkspaceSnapshot (ws_snapshot ws) = Inr x \<and>
        (\<forall>ws'. ws_restore ws' (deserializeWorkspaceSnapshot x) = ws_restore ws' (ws_snapshot ws)))) \<and>
    (overlay_bytes (ws_overlay ws) > MAX_INLINE_SNAPSHOT_BYTES \<longrightarrow>
      serializeWorkspaceSnapshot (ws_snapshot ws) =
        Inl (InlineSnapshotTooLarge (overlay_bytes (ws_overlay ws)) MAX_INLINE_SNAPSHOT_BYTES))"
proof -
  have "ws_inv ws"
    unfolding assms by (rule run_ops_invariant) (auto intro: ws_inv_step ws_inv_new)
  then have wf: "wf_jsmap (ws_overlay ws)" "wf_jsmap (ws_links ws)" "distinct (ws_deleted ws)" "distinct (ws_changed ws)"
    by (simp_all add: ws_inv_def)
  have over: "map ((\<lambda>(path, base64). (path, base64_decode base64)) \<circ> (\<lambda>(path, bytes). (path, base64_encode bytes))) m = m" for m
    by (induction m) auto
  have links: "(case (case Some l of Some (x # xs) \<Rightarrow> Some (x # xs) | _ \<Rightarrow> None) of Some ls \<Rightarrow> ls | None \<Rightarrow> []) = l"
    for l :: "(string, string) jsmap"
    by (cases l) auto
  show ?thesis
    using links [of "ws_links ws"]
    by (auto simp: serializeWorkspaceSnapshot_def deserializeWorkspaceSnapshot_def ws_snapshot_def ws_restore_def Let_def
        over map_of_entries_id set_of_values_id wf)
qed

theorem snapshot_codec_roundtrip_witness:
  "\<exists>x. serializeWorkspaceSnapshot (ws_snapshot (ws_step sample_ws (WriteOp ''n'' ''x''))) = Inr x \<and>
     ws_restore sample_ws (deserializeWorkspaceSnapshot x) = ws_restore sample_ws (ws_snapshot (ws_step sample_ws (WriteOp ''n'' ''x'')))"
proof -
  let ?ws = "run_ops ws_step (new_workspace ''w'' (Some sample_source)) [WriteOp ''n'' ''x'']"
  have eq: "?ws = ws_step sample_ws (WriteOp ''n'' ''x'')"
    by (simp add: sample_ws_def)
  have "overlay_bytes (ws_overlay ?ws) = 1"
    by code_simp
  then have "overlay_bytes (ws_overlay ?ws) \<le> MAX_INLINE_SNAPSHOT_BYTES"
    by (simp add: MAX_INLINE_SNAPSHOT_BYTES_def)
  with snapshot_codec_roundtrip [of ?ws "''w''" "Some sample_source" "[WriteOp ''n'' ''x'']"] show ?thesis
    unfolding eq by blast
qed

subsection \<open>The encoded diff\<close>

record EncodedChange =
  ec_path :: string
  ec_kind :: change_kind
  ec_contentBase64 :: "string option"

record EncodedWorkspaceDiff =
  ed_revision :: "WorkspaceRevision option"
  ed_changes :: "EncodedChange list"

record workspace_diff =
  wd_revision :: "WorkspaceRevision option"
  wd_changes :: "WorkspaceChange list"

definition encode_change :: "WorkspaceChange \<Rightarrow> EncodedChange" where
  "encode_change change =
     \<lparr>ec_path = wc_path change, ec_kind = wc_kind change, ec_contentBase64 = map_option base64_encode (wc_content change)\<rparr>"

definition encodeWorkspaceDiff :: "workspace_diff \<Rightarrow> EncodedWorkspaceDiff" where
  "encodeWorkspaceDiff diff = \<lparr>ed_revision = wd_revision diff, ed_changes = map encode_change (wd_changes diff)\<rparr>"

text \<open>The decoder tests the base64 text for truth, so an empty text counts as no content.\<close>

definition decode_change :: "EncodedChange \<Rightarrow> WorkspaceChange" where
  "decode_change change =
     \<lparr>wc_path = ec_path change, wc_kind = ec_kind change,
      wc_content = (case ec_contentBase64 change of
                      Some t \<Rightarrow> if t = [] then None else Some (base64_decode t)
                    | None \<Rightarrow> None)\<rparr>"

definition decodeWorkspaceDiff :: "EncodedWorkspaceDiff \<Rightarrow> workspace_diff" where
  "decodeWorkspaceDiff parsed = \<lparr>wd_revision = ed_revision parsed, wd_changes = map decode_change (ed_changes parsed)\<rparr>"

lemma base64_encode_Nil [simp]: "base64_encode bs = [] \<longleftrightarrow> bs = []"
  by (cases bs rule: base64_encode.cases) auto

lemma diff_codec_exact:
  "decodeWorkspaceDiff (encodeWorkspaceDiff diff) = diff \<longleftrightarrow> (\<forall>c \<in> set (wd_changes diff). wc_content c \<noteq> Some [])"
proof -
  have one: "decode_change (encode_change c) = c \<longleftrightarrow> wc_content c \<noteq> Some []" for c
    by (cases c) (auto simp: decode_change_def encode_change_def split: option.splits)
  have "map (decode_change \<circ> encode_change) cs = cs \<longleftrightarrow> (\<forall>c \<in> set cs. wc_content c \<noteq> Some [])" for cs
    by (induction cs) (simp_all add: one)
  moreover have "decodeWorkspaceDiff (encodeWorkspaceDiff diff) = diff \<longleftrightarrow>
      wd_changes (decodeWorkspaceDiff (encodeWorkspaceDiff diff)) = wd_changes diff"
    by (cases diff) (auto simp: decodeWorkspaceDiff_def encodeWorkspaceDiff_def)
  ultimately show ?thesis
    by (simp add: decodeWorkspaceDiff_def encodeWorkspaceDiff_def)
qed

text \<open>
  An exported diff is recovered by decoding exactly when no change carries empty content: such a
  change, and only such a change, loses its content on the way.
\<close>

theorem diff_codec_roundtrip:
  "decodeWorkspaceDiff (encodeWorkspaceDiff diff) = diff \<longleftrightarrow> (\<forall>c \<in> set (wd_changes diff). wc_content c \<noteq> Some [])"
  by (rule diff_codec_exact)

theorem diff_codec_roundtrip_witness:
  "decodeWorkspaceDiff (encodeWorkspaceDiff
      \<lparr>wd_revision = None, wd_changes = [\<lparr>wc_path = ''a'', wc_kind = AddChange, wc_content = Some ''x''\<rparr>]\<rparr>) =
   \<lparr>wd_revision = None, wd_changes = [\<lparr>wc_path = ''a'', wc_kind = AddChange, wc_content = Some ''x''\<rparr>]\<rparr>"
  unfolding diff_codec_roundtrip by simp

end
