(* ===== verification/World_Types.thy ===== *)
theory World_Types
  imports Effects Mailbox
begin

text \<open>
  The records agents and projects are made of (\<^verbatim>\<open>src/src/core/types.ts\<close>, \<^verbatim>\<open>src/src/world/types.ts\<close>) and
  the types of the durability interface (\<^verbatim>\<open>src/src/durability/types.ts\<close>). Free-form metadata is JSON.
\<close>

datatype AgentState =
    Idle | Thinking | WaitingForTool | WaitingForAgent | WaitingForHuman | WaitingForResource
  | Sleeping | Blocked | Completed | Failed | Cancelled

datatype RelationKind = Supervises | DelegatesTo | Consults | Reviews | ReportsTo | SharesResource

fun relation_kind_text :: "RelationKind \<Rightarrow> string" where
  "relation_kind_text Supervises = ''supervises''"
| "relation_kind_text DelegatesTo = ''delegates_to''"
| "relation_kind_text Consults = ''consults''"
| "relation_kind_text Reviews = ''reviews''"
| "relation_kind_text ReportsTo = ''reports_to''"
| "relation_kind_text SharesResource = ''shares_resource''"

record Relation =
  rel_from :: string
  rel_to :: string
  rel_kind :: RelationKind
  rel_metadata :: "(string, json) jsmap option"

datatype task_status = TaskPending | TaskRunning | TaskBlocked | TaskCompleted | TaskFailed | TaskCancelled

fun task_status_text :: "task_status \<Rightarrow> string" where
  "task_status_text TaskPending = ''pending''"
| "task_status_text TaskRunning = ''running''"
| "task_status_text TaskBlocked = ''blocked''"
| "task_status_text TaskCompleted = ''completed''"
| "task_status_text TaskFailed = ''failed''"
| "task_status_text TaskCancelled = ''cancelled''"

record TaskSpec =
  tk_id :: string
  tk_revision :: "int option"
  tk_title :: string
  tk_objective :: string
  tk_constraints :: "string list option"
  tk_dependencies :: "string list option"
  tk_owner :: "string option"
  tk_contributors :: "string list option"
  tk_status :: task_status
  tk_metadata :: "(string, json) jsmap option"

record InlineArtifact =
  ia_mediaType :: string
  ia_dataBase64 :: string
  ia_size :: int

datatype ArtifactType = WorkspaceDiffArtifact | PatchArtifact | ReportArtifact | BuildArtifact | CustomArtifact

record Artifact =
  art_id :: string
  art_revision :: "int option"
  art_type :: ArtifactType
  art_taskId :: "string option"
  art_workspaceId :: "string option"
  art_createdAt :: int
  art_ref :: ArtifactRef
  art_inline :: "InlineArtifact option"
  art_metadata :: "(string, json) jsmap option"

record AgentSnapshot =
  ag_id :: string
  ag_definitionId :: string
  ag_taskId :: "string option"
  ag_workspaceId :: string
  ag_state :: AgentState
  ag_createdAt :: int
  ag_updatedAt :: int
  ag_mailbox :: "AgentMessage list"
  ag_metadata :: "(string, json) jsmap"

datatype tool_phase = ToolStart | ToolEnd

datatype RuntimeEvent =
    AgentCreated AgentSnapshot
  | AgentRecovered AgentSnapshot AgentState int
  | AgentStateChanged string AgentState AgentState int
  | AgentMessaged string AgentMessage
  | AgentOutput string string int
  | AgentTool string string tool_phase int "json option"
  | AgentCompletedEvent string "json option" int
  | AgentFailedEvent string string int
  | TaskUpdated TaskSpec
  | RelationAdded Relation
  | ArtifactCreated Artifact

record SequencedRuntimeEvent =
  sq_seq :: int
  sq_event :: RuntimeEvent

record EventCursor =
  ev_consumerId :: string
  ev_ackSeq :: int
  ev_updatedAt :: int

record AgentWriteFence =
  fence_resourceId :: string
  fence_ownerId :: string
  fence_fencingToken :: int

record ProjectConstraint =
  pc_id :: string
  pc_text :: string
  pc_source :: "message_role option"
  pc_createdAt :: int
  pc_active :: bool

datatype decision_status = Proposed | Accepted | Rejected | Superseded

record ProjectDecision =
  pd_id :: string
  pd_title :: string
  pd_rationale :: string
  pd_status :: decision_status
  pd_createdAt :: int
  pd_createdBy :: "string option"
  pd_supersedes :: "string option"
  pd_metadata :: "(string, json) jsmap option"

record ProjectSpec =
  pj_id :: string
  pj_revision :: int
  pj_name :: string
  pj_objective :: string
  pj_createdAt :: int
  pj_updatedAt :: int
  pj_constraints :: "ProjectConstraint list"
  pj_decisions :: "ProjectDecision list"
  pj_taskIds :: "string list"
  pj_artifactIds :: "string list"
  pj_metadata :: "(string, json) jsmap"

record ProjectProjection =
  pp_project :: ProjectSpec
  pp_tasks :: "TaskSpec list"
  pp_artifacts :: "Artifact list"
  pp_contextText :: string

text \<open>The result of a compare-and-swap: whether it happened and the record as it now is.\<close>

record 'a CasResult =
  cas_swapped :: bool
  cas_value :: 'a

end
