(* ===== verification/Synthetic.thy ===== *)
theory Synthetic
  imports Broker Codec Blobs Text_Replace Json World_Types
begin

text \<open>
  The synthetic executor (\<^verbatim>\<open>src/src/execution/synthetic.ts\<close>), the lowest rung: workspace effects on
  in-memory workspaces, with the error codes of a real filesystem, and the export of a workspace's
  diff to the blob store (\<^verbatim>\<open>MemoryWorkspace.exportArtifact\<close>). The blob store is any
  implementation of the interface, given by its \<^verbatim>\<open>put\<close>.
\<close>

subsection \<open>Exporting a diff\<close>

definition artifact_ref :: "BlobRef \<Rightarrow> ArtifactRef" where
  "artifact_ref ref =
     \<lparr>ar_digest = br_digest ref, ar_size = br_size ref, ar_mediaType = br_mediaType ref, ar_mechanism = ''blob-store'',
      ar_producedBy = br_producedBy ref, ar_producedFrom = br_producedFrom ref\<rparr>"

definition WORKSPACE_DIFF_MEDIA_TYPE :: string where
  "WORKSPACE_DIFF_MEDIA_TYPE = ''application/vnd.synth.workspace-diff+json''"

fun kind_text :: "change_kind \<Rightarrow> string" where
  "kind_text AddChange = ''add''"
| "kind_text ModifyChange = ''modify''"
| "kind_text DeleteChange = ''delete''"

fun revision_kind_text :: "revision_kind \<Rightarrow> string" where
  "revision_kind_text GitRevision = ''git''"
| "revision_kind_text SnapshotRevision = ''snapshot''"
| "revision_kind_text UnknownRevision = ''unknown''"

definition opt_field :: "string \<Rightarrow> string option \<Rightarrow> (string \<times> json) list" where
  "opt_field k v = (case v of Some s \<Rightarrow> [(k, JStr s)] | None \<Rightarrow> [])"

definition revision_json :: "WorkspaceRevision \<Rightarrow> json" where
  "revision_json r =
     JObj ([(''kind'', JStr (revision_kind_text (wr_kind r)))] @ opt_field ''remote'' (wr_remote r) @
           opt_field ''ref'' (wr_ref r) @ opt_field ''commit'' (wr_commit r))"

definition change_json :: "EncodedChange \<Rightarrow> json" where
  "change_json c =
     JObj ([(''path'', JStr (ec_path c)), (''kind'', JStr (kind_text (ec_kind c)))] @
           opt_field ''contentBase64'' (ec_contentBase64 c))"

definition diff_text :: "EncodedWorkspaceDiff \<Rightarrow> string" where
  "diff_text d =
     stringify (JObj ((case ed_revision d of Some r \<Rightarrow> [(''revision'', revision_json r)] | None \<Rightarrow> []) @
                      [(''changes'', JArr (map change_json (ed_changes d)))]))"

datatype export_error = SourceFailed string | StoreFailed blob_error | ArtifactTooLarge int

text \<open>The store is written before the inline ceiling is checked, as in the code.\<close>

definition exportArtifact ::
  "('b \<Rightarrow> string \<Rightarrow> PutBlobOptions \<Rightarrow> (blob_error + BlobRef) \<times> 'b) \<Rightarrow> MemoryWorkspace \<Rightarrow> bool \<Rightarrow> string \<Rightarrow> int \<Rightarrow> 'b \<Rightarrow>
   (export_error + Artifact) \<times> 'b" where
  "exportArtifact put ws inline artifactId now store =
     (case ws_diff ws of
        Inl e \<Rightarrow> (Inl (SourceFailed e), store)
      | Inr changes \<Rightarrow>
          (let bytes = diff_text (encodeWorkspaceDiff
                 \<lparr>wd_revision = Option.bind (ws_source ws) ts_revision, wd_changes = changes\<rparr>);
               opts = \<lparr>po_mediaType = Some WORKSPACE_DIFF_MEDIA_TYPE, po_producedBy = Some (ws_id ws),
                       po_producedFrom = None, po_tenantId = None\<rparr>
           in (case put store bytes opts of
                 (Inl e, store') \<Rightarrow> (Inl (StoreFailed e), store')
               | (Inr ref, store') \<Rightarrow>
                   (let artifact = \<lparr>art_id = artifactId, art_revision = None, art_type = WorkspaceDiffArtifact, art_taskId = None,
                                    art_workspaceId = Some (ws_id ws), art_createdAt = now, art_ref = artifact_ref ref,
                                    art_inline = None, art_metadata = None\<rparr>
                    in if \<not> inline then (Inr artifact, store')
                       else if length bytes > MAX_INLINE_SNAPSHOT_BYTES then (Inl (ArtifactTooLarge (int (length bytes))), store')
                       else (Inr (artifact\<lparr>art_inline := Some \<lparr>ia_mediaType = WORKSPACE_DIFF_MEDIA_TYPE,
                               ia_dataBase64 = base64_encode bytes, ia_size = int (length bytes)\<rparr>\<rparr>), store')))))"

subsection \<open>The executor\<close>

record 'b synth_world =
  sw_workspaces :: "(string, MemoryWorkspace) jsmap"
  sw_blobs :: 'b

fun is_workspace_effect :: "effect_body \<Rightarrow> bool" where
  "is_workspace_effect (ProcessExecEffect _) = False"
| "is_workspace_effect (WorkflowRun _ _) = False"
| "is_workspace_effect (HumanApproval _ _) = False"
| "is_workspace_effect _ = True"

definition synth_canExecute :: "Effect \<Rightarrow> bool" where
  "synth_canExecute effect =
     (is_workspace_effect (eff_body effect) \<or> (case eff_body effect of ProcessExecEffect _ \<Rightarrow> True | _ \<Rightarrow> False))"

fun effect_path :: "effect_body \<Rightarrow> string" where
  "effect_path (WorkspaceRead p) = p"
| "effect_path (WorkspaceWrite p _) = p"
| "effect_path (WorkspaceReplace p _ _) = p"
| "effect_path (WorkspaceDelete p) = p"
| "effect_path (WorkspaceSymlink p _) = p"
| "effect_path (WorkspaceList (Some p)) = p"
| "effect_path _ = []"

definition path_error :: "string \<Rightarrow> string \<Rightarrow> EffectResult" where
  "path_error code p = error_result (workspaceError code p)"

text \<open>An edit that the workspace itself refuses throws.\<close>

definition ws_edit :: "string \<Rightarrow> ws_error + MemoryWorkspace \<Rightarrow> MemoryWorkspace \<Rightarrow> (string + EffectResult) \<times> MemoryWorkspace" where
  "ws_edit msg r ws = (case r of Inl _ \<Rightarrow> (Inl msg, ws) | Inr ws' \<Rightarrow> (Inr ok_result, ws'))"

definition replace_refusal :: "nat \<Rightarrow> string \<Rightarrow> string" where
  "replace_refusal n p = ''old_text occurs '' @ show_nat n @ '' times in '' @ p @ ''; it must occur exactly once''"

text \<open>The switch of \<^verbatim>\<open>execute\<close> for the effects that touch the workspace only; \<open>p\<close> is the normalized path.\<close>

fun synth_workspace_op :: "MemoryWorkspace \<Rightarrow> string \<Rightarrow> effect_body \<Rightarrow> (string + EffectResult) \<times> MemoryWorkspace" where
  "synth_workspace_op ws p (WorkspaceRead _) =
     (if p = [] then (Inr (path_error WORKSPACE_IS_DIRECTORY p), ws)
      else (case ws_stat ws p of
              None \<Rightarrow> (Inr (path_error WORKSPACE_NOT_FOUND p), ws)
            | Some StatDirectory \<Rightarrow> (Inr (path_error WORKSPACE_IS_DIRECTORY p), ws)
            | Some _ \<Rightarrow> (map_sum id (\<lambda>c. ok_result\<lparr>r_output := map_option OutBytes c\<rparr>) (ws_read ws p), ws)))"
| "synth_workspace_op ws p (WorkspaceWrite _ content) =
     (if p = [] then (Inr (path_error WORKSPACE_IS_DIRECTORY p), ws)
      else if ws_stat ws p = Some StatDirectory then (Inr (path_error WORKSPACE_IS_DIRECTORY p), ws)
      else ws_edit ''Cannot write workspace root'' (ws_write ws p content) ws)"
| "synth_workspace_op ws p (WorkspaceReplace _ oldText newText) =
     (if p = [] then (Inr (path_error WORKSPACE_IS_DIRECTORY p), ws)
      else (case ws_stat ws p of
              None \<Rightarrow> (Inr (path_error WORKSPACE_NOT_FOUND p), ws)
            | Some StatDirectory \<Rightarrow> (Inr (path_error WORKSPACE_IS_DIRECTORY p), ws)
            | Some _ \<Rightarrow>
                (case ws_read ws p of
                   Inl e \<Rightarrow> (Inl e, ws)
                 | Inr bytes \<Rightarrow>
                     (let result = replaceInText (case bytes of Some b \<Rightarrow> b | None \<Rightarrow> []) oldText newText
                      in (case tr_content result of
                            Some content \<Rightarrow>
                              if tr_ok result then ws_edit ''Cannot write workspace root'' (ws_write ws p content) ws
                              else (Inr (error_result (replace_refusal (tr_occurrences result) p)), ws)
                          | None \<Rightarrow> (Inr (error_result (replace_refusal (tr_occurrences result) p)), ws))))))"
| "synth_workspace_op ws p (WorkspaceDelete _) =
     (if p = [] then (Inr (path_error WORKSPACE_IS_DIRECTORY p), ws)
      else if ws_stat ws p = None then (Inr (path_error WORKSPACE_NOT_FOUND p), ws)
      else ws_edit ''Cannot delete workspace root'' (ws_delete ws p) ws)"
| "synth_workspace_op ws p (WorkspaceSymlink _ target) =
     (if p = [] then (Inr (path_error WORKSPACE_IS_DIRECTORY p), ws)
      else (case ws_symlink ws p target of
              Inr ws' \<Rightarrow> (Inr ok_result, ws')
            | Inl _ \<Rightarrow> (Inr (path_error WORKSPACE_PATH_ESCAPES p), ws)))"
| "synth_workspace_op ws p (WorkspaceList _) =
     (if p = [] then (Inr (ok_result\<lparr>r_output := Some (OutNames (ws_listDir ws []))\<rparr>), ws)
      else (case ws_stat ws p of
              None \<Rightarrow> (Inr (path_error WORKSPACE_NOT_FOUND p), ws)
            | Some StatDirectory \<Rightarrow> (Inr (ok_result\<lparr>r_output := Some (OutNames (ws_listDir ws p))\<rparr>), ws)
            | Some _ \<Rightarrow> (Inr (path_error WORKSPACE_NOT_DIRECTORY p), ws)))"
| "synth_workspace_op ws p _ = (Inr (error_result ESCALATION_REQUIRED), ws)"

fun blob_error_message :: "blob_error \<Rightarrow> string" where
  "blob_error_message (InvalidDigest d) = ''Invalid blob digest: '' @ d"
| "blob_error_message (BlobMissing d) = ''ENOENT''"
| "blob_error_message (BlobCorrupt d) = ''BLOB_CORRUPT:'' @ d"
| "blob_error_message (BlobNotFound d) = ''BLOB_NOT_FOUND:'' @ d"
| "blob_error_message (BlobForbidden BlobRead d) = ''BLOB_FORBIDDEN:read:'' @ d"
| "blob_error_message (BlobForbidden BlobWrite d) = ''BLOB_FORBIDDEN:write:'' @ d"
| "blob_error_message (QuotaBlob n m) = ''BLOB_QUOTA_EXCEEDED:blob:'' @ show_int n @ ''>'' @ show_int m"
| "blob_error_message (QuotaTenant n m) = ''BLOB_QUOTA_EXCEEDED:tenant:'' @ show_int n @ ''>'' @ show_int m"

fun export_error_message :: "export_error \<Rightarrow> string" where
  "export_error_message (SourceFailed e) = e"
| "export_error_message (StoreFailed e) = blob_error_message e"
| "export_error_message (ArtifactTooLarge n) = ''INLINE_ARTIFACT_TOO_LARGE:'' @ show_int n"

definition synth_export ::
  "('b \<Rightarrow> string \<Rightarrow> PutBlobOptions \<Rightarrow> (blob_error + BlobRef) \<times> 'b) option \<Rightarrow> MemoryWorkspace \<Rightarrow> string \<Rightarrow> int \<Rightarrow> 'b \<Rightarrow>
   (string + EffectResult) \<times> 'b" where
  "synth_export put ws artifactId now store =
     (case put of
        None \<Rightarrow> (Inr (error_result ''ARTIFACT_STORE_REQUIRED''), store)
      | Some f \<Rightarrow>
          (case exportArtifact f ws False artifactId now store of
             (Inl e, store') \<Rightarrow> (Inl (export_error_message e), store')
           | (Inr artifact, store') \<Rightarrow>
               (Inr (ok_result\<lparr>r_artifact := Some (art_ref artifact),
                               r_output := Some (OutDigest (ar_digest (art_ref artifact)) (ar_size (art_ref artifact)))\<rparr>), store')))"

definition synth_execute ::
  "('b \<Rightarrow> string \<Rightarrow> PutBlobOptions \<Rightarrow> (blob_error + BlobRef) \<times> 'b) option \<Rightarrow> string \<Rightarrow> int \<Rightarrow> Effect \<Rightarrow> EffectContext \<Rightarrow>
   'b synth_world \<Rightarrow> (string + EffectResult) \<times> 'b synth_world" where
  "synth_execute put artifactId now effect ctx w =
     (case js_get (sw_workspaces w) (ctx_workspaceId ctx) of
        None \<Rightarrow> (Inr (error_result (''Unknown workspace '' @ ctx_workspaceId ctx)), w)
      | Some ws \<Rightarrow>
          if \<not> is_workspace_effect (eff_body effect) then (Inr (error_result ESCALATION_REQUIRED), w)
          else (let rawPath = effect_path (eff_body effect)
                in if escapesWorkspace rawPath then (Inr (path_error WORKSPACE_PATH_ESCAPES rawPath), w)
                   else (let p = normalizeRelative rawPath
                         in if p \<noteq> [] \<and> (\<exists>a \<in> set (ancestorPaths p). ws_stat ws a = Some StatFile)
                            then (Inr (path_error WORKSPACE_NOT_DIRECTORY p), w)
                            else if eff_body effect = WorkspaceExport
                            then (let (r, store') = synth_export put ws artifactId now (sw_blobs w)
                                  in (r, w\<lparr>sw_blobs := store'\<rparr>))
                            else (let (r, ws') = synth_workspace_op ws p (eff_body effect)
                                  in (r, w\<lparr>sw_workspaces := js_set (ctx_workspaceId ctx) ws' (sw_workspaces w)\<rparr>)))))"

text \<open>As an executor of the broker: fidelity 0, no resource class.\<close>

definition synthetic_executor ::
  "('b \<Rightarrow> string \<Rightarrow> PutBlobOptions \<Rightarrow> (blob_error + BlobRef) \<times> 'b) option \<Rightarrow> string \<Rightarrow> int \<Rightarrow> 'b synth_world executor" where
  "synthetic_executor put artifactId now =
     \<lparr>x_id = ''synthetic'', x_fidelity = 0, x_resourceClassId = None,
      x_canExecute = (\<lambda>effect ctx w. Inr (synth_canExecute effect)),
      x_execute = synth_execute put artifactId now\<rparr>"

subsection \<open>Failures change nothing\<close>

definition failed :: "string + EffectResult \<Rightarrow> bool" where
  "failed r = (case r of Inl _ \<Rightarrow> True | Inr x \<Rightarrow> \<not> r_ok x)"

lemma failed_simps [simp]: "failed (Inl e)" "failed (Inr (error_result e))" "failed (Inr (path_error c p))" "\<not> failed (Inr ok_result)"
  "\<not> failed (Inr (ok_result\<lparr>r_output := v\<rparr>))"
  by (simp_all add: failed_def path_error_def ok_result_def)

lemma ws_edit_failed: "ws_edit msg r ws = (x, ws') \<Longrightarrow> failed x \<Longrightarrow> ws' = ws"
  by (auto simp: ws_edit_def split: sum.splits)

lemma synth_op_failed: "synth_workspace_op ws p b = (r, ws') \<Longrightarrow> failed r \<Longrightarrow> ws' = ws"
  by (cases b)
    (auto simp: Let_def split: if_splits option.splits stat_kind.splits sum.splits dest: ws_edit_failed)

text \<open>The workspace's operation that a successful effect performs.\<close>

lemma synth_op_steps: "synth_workspace_op ws p b = (r, ws') \<Longrightarrow> ws' = ws \<or>
   (\<exists>c. ws_write ws p c = Inr ws' \<and> ws_stat ws p \<noteq> Some StatDirectory) \<or> ws_delete ws p = Inr ws' \<or>
   (\<exists>q t. b = WorkspaceSymlink q t \<and> ws_symlink ws p t = Inr ws')"
  by (cases b) (auto simp: Let_def ws_edit_def split: if_splits option.splits stat_kind.splits sum.splits)

text \<open>
  C11: isolation. Whatever an effect is, executing it touches no workspace but the one its context names;
  if it fails, by an error result or by throwing, it changes no workspace at all; only an export
  writes the blob store; and an effect whose path leaves the workspace is refused with the shared error.
\<close>

theorem synthetic_effect_isolated:
  assumes "synth_execute put artifactId now effect ctx w = (r, w')"
  shows "(\<forall>i. i \<noteq> ctx_workspaceId ctx \<or> failed r \<longrightarrow> js_get (sw_workspaces w') i = js_get (sw_workspaces w) i) \<and>
    (eff_body effect \<noteq> WorkspaceExport \<longrightarrow> sw_blobs w' = sw_blobs w) \<and>
    (js_get (sw_workspaces w) (ctx_workspaceId ctx) \<noteq> None \<and> is_workspace_effect (eff_body effect) \<and>
       escapesWorkspace (effect_path (eff_body effect)) \<longrightarrow>
     r = Inr (path_error WORKSPACE_PATH_ESCAPES (effect_path (eff_body effect))) \<and> w' = w)"
proof (cases "js_get (sw_workspaces w) (ctx_workspaceId ctx)")
  case None
  with assms show ?thesis by (auto simp: synth_execute_def)
next
  case (Some ws)
  let ?p = "normalizeRelative (effect_path (eff_body effect))"
  obtain x ws' where op: "synth_workspace_op ws ?p (eff_body effect) = (x, ws')"
    by (cases "synth_workspace_op ws ?p (eff_body effect)")
  from op have "failed x \<Longrightarrow> ws' = ws" by (rule synth_op_failed)
  with assms Some op show ?thesis
    by (auto simp: synth_execute_def Let_def split: if_splits prod.splits)
qed

subsection \<open>The overlay stays a tree\<close>

definition tree_ok :: "MemoryWorkspace \<Rightarrow> bool" where
  "tree_ok ws \<longleftrightarrow> ws_inv ws \<and> ws_links ws = [] \<and>
     (\<forall>k k'. js_get (ws_overlay ws) k \<noteq> None \<and> js_get (ws_overlay ws) k' \<noteq> None \<longrightarrow> \<not> under k k')"

lemma tree_ok_new: "tree_ok (new_workspace i src)"
  by (simp add: tree_ok_def ws_inv_new) (simp add: new_workspace_def)

lemma ws_inv_write: "ws_inv ws \<Longrightarrow> ws_write ws p c = Inr ws' \<Longrightarrow> ws_inv ws'"
  using ws_inv_step [of ws "WriteOp p c"] by (simp add: ws_step_def)

lemma ws_inv_delete: "ws_inv ws \<Longrightarrow> ws_delete ws p = Inr ws' \<Longrightarrow> ws_inv ws'"
  using ws_inv_step [of ws "DeleteOp p"] by (simp add: ws_step_def)

lemma ws_inv_overlay: "ws_inv ws \<Longrightarrow> js_get (ws_overlay ws) k \<noteq> None \<Longrightarrow> k \<noteq> [] \<and> normalizeRelative k = k"
  by (auto simp: ws_inv_def)

lemma tree_ok_write:
  assumes t: "tree_ok ws" and w: "ws_write ws p c = Inr ws'" and p: "normalizeRelative p = p"
    and anc: "\<forall>a \<in> set (ancestorPaths p). ws_stat ws a \<noteq> Some StatFile" and dir: "ws_stat ws p \<noteq> Some StatDirectory"
  shows "tree_ok ws'"
proof -
  note d = ws_writeD [OF w, unfolded p]
  have inv: "ws_inv ws" and tree: "\<And>k k'. js_get (ws_overlay ws) k \<noteq> None \<Longrightarrow> js_get (ws_overlay ws) k' \<noteq> None \<Longrightarrow> \<not> under k k'"
    using t by (auto simp: tree_ok_def)
  have below: "\<not> under p k" if "js_get (ws_overlay ws) k \<noteq> None" for k
  proof (cases "js_get (ws_overlay ws) p")
    case None
    with dir d(1) t show ?thesis using that by (auto simp: ws_stat_def p Let_def tree_ok_def split: if_splits)
  next
    case (Some c')
    with tree that show ?thesis by blast
  qed
  have above: "\<not> under k p" if k: "js_get (ws_overlay ws) k \<noteq> None" for k
  proof
    assume "under k p"
    with ws_inv_overlay [OF inv k] p have "k \<in> set (ancestorPaths p)"
      by (simp add: ancestorPaths_iff under_def)
    moreover have "ws_stat ws k = Some StatFile"
      using k ws_inv_overlay [OF inv k] by (simp add: ws_stat_def)
    ultimately show False using anc by blast
  qed
  have "\<not> under k k'" if "js_get (ws_overlay ws') k \<noteq> None" "js_get (ws_overlay ws') k' \<noteq> None" for k k'
    using that below [of k'] above [of k] tree [of k k'] by (auto simp: d(5) split: if_splits)
  with ws_inv_write [OF inv w] d(3) t show ?thesis by (auto simp: tree_ok_def)
qed

lemma tree_ok_delete: "tree_ok ws \<Longrightarrow> ws_delete ws p = Inr ws' \<Longrightarrow> tree_ok ws'"
proof -
  assume t: "tree_ok ws" and w: "ws_delete ws p = Inr ws'"
  note d = ws_deleteD [OF w]
  have "map_of (ws_links ws') = map_of (ws_links ws)"
    using t by (simp add: fun_eq_iff d(5) tree_ok_def)
  then have "ws_links ws' = []"
    using t by (cases "ws_links ws'") (auto simp: tree_ok_def fun_eq_iff split: if_splits)
  moreover have "js_get (ws_overlay ws') k \<noteq> None \<Longrightarrow> js_get (ws_overlay ws) k \<noteq> None" for k
    by (auto simp: d(4) split: if_splits)
  ultimately show "tree_ok ws'"
    using t ws_inv_delete [OF _ w] unfolding tree_ok_def by blast
qed

definition not_symlink :: "Effect \<Rightarrow> bool" where
  "not_symlink effect = (case eff_body effect of WorkspaceSymlink _ _ \<Rightarrow> False | _ \<Rightarrow> True)"

definition world_ok :: "'b synth_world \<Rightarrow> bool" where
  "world_ok w = (\<forall>i ws. js_get (sw_workspaces w) i = Some ws \<longrightarrow> tree_ok ws)"

lemma world_ok_execute:
  assumes "world_ok w" and "not_symlink effect"
  shows "world_ok (snd (synth_execute put artifactId now effect ctx w))"
proof (cases "js_get (sw_workspaces w) (ctx_workspaceId ctx)")
  case None
  with assms show ?thesis by (simp add: synth_execute_def)
next
  case (Some ws)
  let ?p = "normalizeRelative (effect_path (eff_body effect))"
  have t: "tree_ok ws"
    using assms(1) Some by (auto simp: world_ok_def)
  obtain x ws' where op: "synth_workspace_op ws ?p (eff_body effect) = (x, ws')"
    by (cases "synth_workspace_op ws ?p (eff_body effect)")
  have "tree_ok ws'" if "?p = [] \<or> (\<forall>a \<in> set (ancestorPaths ?p). ws_stat ws a \<noteq> Some StatFile)"
  proof -
    have "ancestorPaths ?p = []" if "?p = []"
      using that by (simp add: ancestorPaths_def segments_def raw_components_def to_slashes_def skipped_def)
    then have anc: "\<forall>a \<in> set (ancestorPaths ?p). ws_stat ws a \<noteq> Some StatFile"
      using that by auto
    from synth_op_steps [OF op] assms(2) consider "ws' = ws"
      | c where "ws_write ws ?p c = Inr ws'" "ws_stat ws ?p \<noteq> Some StatDirectory" | "ws_delete ws ?p = Inr ws'"
      by (auto simp: not_symlink_def)
    then show ?thesis
      using t tree_ok_write [OF t _ _ anc] tree_ok_delete [OF t] by cases auto
  qed
  with assms(1) Some op show ?thesis
    by (auto simp: synth_execute_def world_ok_def Let_def split: if_splits prod.splits)
qed

definition synth_run ::
  "('b \<Rightarrow> string \<Rightarrow> PutBlobOptions \<Rightarrow> (blob_error + BlobRef) \<times> 'b) option \<Rightarrow> 'b synth_world \<Rightarrow>
   (Effect \<times> EffectContext \<times> string \<times> int) list \<Rightarrow> 'b synth_world" where
  "synth_run put w effs = run_ops (\<lambda>w (e, ctx, a, n). snd (synth_execute put a n e ctx w)) w effs"

text \<open>
  The rung behaves as a filesystem tree. From fresh workspaces over any source, after any sequence
  of effects without symlinks, no path of any workspace is both a file and a directory with files in
  it: a file never has another file below it, and every recorded path is normalized.
\<close>

theorem synthetic_tree_shape:
  assumes "\<forall>i ws. js_get (sw_workspaces w) i = Some ws \<longrightarrow> (\<exists>j src. ws = new_workspace j src)"
    and "\<forall>(e, _) \<in> set effs. not_symlink e"
    and "js_get (sw_workspaces (synth_run put w effs)) i = Some ws"
    and "js_get (ws_overlay ws) k \<noteq> None" and "js_get (ws_overlay ws) k' \<noteq> None"
  shows "\<not> under k k' \<and> normalizeRelative k = k"
proof -
  have "world_ok w"
    using assms(1) tree_ok_new by (auto simp: world_ok_def)
  then have "world_ok (synth_run put w effs)"
    using assms(2) unfolding synth_run_def
  proof (induction effs arbitrary: w)
    case (Cons x effs)
    obtain e ctx a n where x: "x = (e, ctx, a, n)" by (cases x)
    with Cons world_ok_execute [OF Cons.prems(1), of e] show ?case by simp
  qed simp
  with assms(3) have "tree_ok ws"
    by (auto simp: world_ok_def)
  with assms(4,5) ws_inv_overlay show ?thesis
    unfolding tree_ok_def by blast
qed

subsection \<open>Writing and reading through the executor\<close>

lemma write_keeps_ancestor:
  assumes "ws_write ws p c = Inr ws'" and "normalizeRelative p = p" and "a \<in> set (ancestorPaths p)"
    and "ws_stat ws a \<noteq> Some StatFile"
  shows "ws_stat ws' a \<noteq> Some StatFile"
proof -
  note d = ws_writeD [OF assms(1), unfolded assms(2)]
  let ?a = "normalizeRelative a"
  obtain i where a: "a = join_path (take i (segments p))" "1 \<le> i" "i < length (segments p)"
    using assms(3) by (auto simp: ancestorPaths_def Let_def)
  have plain: "\<forall>x \<in> set (take i (segments p)). plain x"
    using normalized_join [OF assms(2)] by (auto dest: in_set_takeD)
  have na: "?a = a"
    unfolding a(1) by (rule normalizeRelative_join [OF plain])
  have "a \<noteq> []"
    using segments_join [OF plain] a by (auto simp: segments_def raw_components_def to_slashes_def skipped_def)
  with na assms(2,3) have up: "under a p"
    by (simp add: under_def ancestorPaths_iff [symmetric])
  then have "a \<noteq> p" by auto
  have "\<exists>key \<in> set (js_keys (ws_overlay ws')). under a key"
    using up d(5) by (intro bexI [of _ p]) auto
  with assms(4) \<open>a \<noteq> p\<close> \<open>a \<noteq> []\<close> show ?thesis
    by (auto simp: ws_stat_def na Let_def d(3,5) split: if_splits)
qed

text \<open>
  What an effect writes, the next effect reads. After a successful write of a file, a read of any
  spelling of that path that stays inside the workspace succeeds, returns exactly the written bytes
  and changes nothing that can be looked up.
\<close>

theorem effect_write_then_read:
  assumes "synth_execute put a n \<lparr>eff_id = i, eff_body = WorkspaceWrite path c\<rparr> ctx w = (Inr res, w1)" and "r_ok res"
    and "normalizeRelative q = normalizeRelative path" and "\<not> escapesWorkspace q"
  shows "\<exists>w2. synth_execute put a' n' \<lparr>eff_id = i', eff_body = WorkspaceRead q\<rparr> ctx w1 =
      (Inr (ok_result\<lparr>r_output := Some (OutBytes c)\<rparr>), w2) \<and>
    js_get (sw_workspaces w2) = js_get (sw_workspaces w1) \<and> sw_blobs w2 = sw_blobs w1"
proof -
  let ?p = "normalizeRelative path"
  obtain ws where ws: "js_get (sw_workspaces w) (ctx_workspaceId ctx) = Some ws"
    using assms(1,2) by (cases "js_get (sw_workspaces w) (ctx_workspaceId ctx)") (auto simp: synth_execute_def)
  have anc: "?p = [] \<or> (\<forall>a \<in> set (ancestorPaths ?p). ws_stat ws a \<noteq> Some StatFile)"
    and esc: "\<not> escapesWorkspace path"
    using assms(1,2) ws by (auto simp: synth_execute_def path_error_def Let_def split: if_splits)
  then obtain ws' where op: "synth_workspace_op ws ?p (WorkspaceWrite path c) = (Inr res, ws')"
    and w1: "w1 = w\<lparr>sw_workspaces := js_set (ctx_workspaceId ctx) ws' (sw_workspaces w)\<rparr>"
    using assms(1,2) ws by (auto simp: synth_execute_def path_error_def Let_def split: if_splits prod.splits)
  have ne: "?p \<noteq> []" and wr: "ws_write ws ?p c = Inr ws'"
    using op assms(2) by (auto simp: path_error_def ws_edit_def split: if_splits sum.splits)
  have anc': "\<forall>a \<in> set (ancestorPaths ?p). ws_stat ws' a \<noteq> Some StatFile"
    using anc ne write_keeps_ancestor [OF wr] by auto
  have st: "ws_stat ws' ?p = Some StatFile" and rd: "ws_read ws' ?p = Inr (Some c)"
    using ws_writeD(1,5) [OF wr] by (simp_all add: ws_stat_def ws_read_overlay)
  have "synth_workspace_op ws' ?p (WorkspaceRead q) = (Inr (ok_result\<lparr>r_output := Some (OutBytes c)\<rparr>), ws')"
    using ne st rd by simp
  then show ?thesis
    using assms(3,4) anc' ne unfolding w1
    by (auto simp: synth_execute_def Let_def fun_eq_iff)
qed

subsection \<open>Concrete runs\<close>

definition sample_world :: "unit synth_world" where
  "sample_world = \<lparr>sw_workspaces = [(''w'', sample_ws)], sw_blobs = ()\<rparr>"

definition write_effect :: "string \<Rightarrow> string \<Rightarrow> Effect" where
  "write_effect p c = \<lparr>eff_id = ''e'', eff_body = WorkspaceWrite p c\<rparr>"

theorem synthetic_effect_isolated_witness:
  "synth_execute (None :: (unit \<Rightarrow> _) option) ''a'' 0 (write_effect ''../x'' ''1'') sample_ctx sample_world =
     (Inr (path_error WORKSPACE_PATH_ESCAPES ''../x''), sample_world)"
proof -
  let ?r = "synth_execute (None :: (unit \<Rightarrow> _) option) ''a'' 0 (write_effect ''../x'' ''1'') sample_ctx sample_world"
  have p: "?r = (fst ?r, snd ?r)" by simp
  have "js_get (sw_workspaces sample_world) (ctx_workspaceId sample_ctx) \<noteq> None"
    "is_workspace_effect (eff_body (write_effect ''../x'' ''1''))"
    "escapesWorkspace (effect_path (eff_body (write_effect ''../x'' ''1'')))"
    "effect_path (eff_body (write_effect ''../x'' ''1'')) = ''../x''"
    by code_simp+
  with synthetic_effect_isolated [OF p] p show ?thesis by metis
qed

theorem synthetic_tree_shape_witness:
  "\<not> under ''n/a'' ''n/b'' \<and> normalizeRelative ''n/a'' = ''n/a''"
proof -
  let ?effs = "[(write_effect ''n/a'' ''1'', sample_ctx, ''a'', 0), (write_effect ''n/b'' ''2'', sample_ctx, ''a'', 0)]"
  let ?w = "synth_run (None :: (unit \<Rightarrow> _) option) sample_world ?effs"
  obtain ws where ws: "js_get (sw_workspaces ?w) ''w'' = Some ws"
    and k: "js_get (ws_overlay ws) ''n/a'' \<noteq> None" "js_get (ws_overlay ws) ''n/b'' \<noteq> None"
  proof -
    have "case js_get (sw_workspaces ?w) ''w'' of
        Some ws \<Rightarrow> js_get (ws_overlay ws) ''n/a'' \<noteq> None \<and> js_get (ws_overlay ws) ''n/b'' \<noteq> None | None \<Rightarrow> False"
      by code_simp
    then show ?thesis using that by (auto split: option.splits)
  qed
  have start: "\<forall>i ws. js_get (sw_workspaces sample_world) i = Some ws \<longrightarrow> (\<exists>j src. ws = new_workspace j src)"
    by (auto simp: sample_world_def sample_ws_def split: if_splits)
  have "\<forall>(e, _) \<in> set ?effs. not_symlink e"
    by (simp add: not_symlink_def write_effect_def)
  from synthetic_tree_shape [OF start this ws k] show ?thesis .
qed

theorem effect_write_then_read_witness:
  "\<exists>w1 w2. synth_execute (None :: (unit \<Rightarrow> _) option) ''a'' 0 (write_effect ''n/./a'' ''1'') sample_ctx sample_world = (Inr ok_result, w1) \<and>
     synth_execute (None :: (unit \<Rightarrow> _) option) ''a'' 1 \<lparr>eff_id = ''f'', eff_body = WorkspaceRead ''n/a''\<rparr> sample_ctx w1 =
       (Inr (ok_result\<lparr>r_output := Some (OutBytes ''1'')\<rparr>), w2)"
proof -
  let ?r = "synth_execute (None :: (unit \<Rightarrow> _) option) ''a'' 0 (write_effect ''n/./a'' ''1'') sample_ctx sample_world"
  have "fst ?r = Inr ok_result" by code_simp
  then have r: "?r = (Inr ok_result, snd ?r)" by (simp add: prod_eq_iff)
  have "normalizeRelative ''n/a'' = normalizeRelative ''n/./a''" "\<not> escapesWorkspace ''n/a''"
    by code_simp+
  from effect_write_then_read [OF r [unfolded write_effect_def] _ this] r show ?thesis
    unfolding write_effect_def by (metis result_simps(1))
qed

text \<open>
  A symlink may be created over a directory, after which a file can be written in its place: the one way
  a path becomes a file with files below it.
\<close>

lemma symlink_over_directory_breaks_tree:
  "let w = synth_run (None :: (unit \<Rightarrow> _) option) sample_world
       [(write_effect ''n/a'' ''1'', sample_ctx, ''a'', 0),
        (\<lparr>eff_id = ''s'', eff_body = WorkspaceSymlink ''n'' ''d''\<rparr>, sample_ctx, ''a'', 1),
        (write_effect ''n'' ''2'', sample_ctx, ''a'', 2)]
   in map_option (\<lambda>ws. (js_get (ws_overlay ws) ''n'', js_get (ws_overlay ws) ''n/a'')) (js_get (sw_workspaces w) ''w'') =
      Some (Some ''2'', Some ''1'')"
  by code_simp

end
