(* ===== verification/Postgres_Control.thy ===== *)
theory Postgres_Control
  imports Leases Mailbox
begin

text \<open>
  The PostgreSQL control store's leases and mailboxes (\<^verbatim>\<open>src/src/postgres/distributed-state.ts\<close>). A
  table is a map from its primary key or a list of rows; each SQL statement of a method is one atomic
  change of the tables, with the database clock it reads as an argument. A method of two statements
  takes the interference of other sessions between them as a function \<open>env\<close> on the database.
  Both stores provide the contracts of the interfaces, so the fencing and delivery lemmas proved
  there hold for them.
\<close>

subsection \<open>Tables\<close>

record pg_control =
  pg_leases :: "(string, LeaseRecord) jsmap"
  pg_mailbox :: "MailboxEnvelope list"
  pg_mailbox_seq :: int
  pg_mailbox_cursors :: "(string \<times> string, MailboxCursor) jsmap"

subsection \<open>Leases\<close>

definition pg_lease_upsert :: "'z pg_control_scheme \<Rightarrow> string \<Rightarrow> string \<Rightarrow> int \<Rightarrow> int \<Rightarrow> LeaseRecord option \<times> 'z pg_control_scheme" where
  "pg_lease_upsert db resourceId ownerId ttl now =
     (case js_get (pg_leases db) resourceId of
        None \<Rightarrow>
          (let row = \<lparr>l_resourceId = resourceId, l_ownerId = ownerId, l_fencingToken = 1, l_acquiredAt = now,
                      l_updatedAt = now, l_expiresAt = now + ttl\<rparr>
           in (Some row, db\<lparr>pg_leases := js_set resourceId row (pg_leases db)\<rparr>))
      | Some old \<Rightarrow>
          if l_expiresAt old \<le> now
          then (let row = old\<lparr>l_ownerId := ownerId, l_fencingToken := l_fencingToken old + 1, l_acquiredAt := now,
                              l_updatedAt := now, l_expiresAt := now + ttl\<rparr>
                in (Some row, db\<lparr>pg_leases := js_set resourceId row (pg_leases db)\<rparr>))
          else (None, db))"

definition pg_getLease :: "'z pg_control_scheme \<Rightarrow> string \<Rightarrow> LeaseRecord option" where
  "pg_getLease db resourceId = js_get (pg_leases db) resourceId"

text \<open>Only a ttl that is a number passes the cast of the statement; the check of the code lets NaN through.\<close>

definition pg_acquireLease ::
  "('z pg_control_scheme \<Rightarrow> 'z pg_control_scheme) \<Rightarrow> 'z pg_control_scheme \<Rightarrow> string \<Rightarrow> string \<Rightarrow> jsnum \<Rightarrow> int \<Rightarrow>
   lease_error + LeaseClaimResult \<times> 'z pg_control_scheme" where
  "pg_acquireLease env db resourceId ownerId ttlMs now =
     (if le_zero ttlMs then Inl (InvalidTtl ttlMs)
      else if \<not> is_finite ttlMs then Inl LeaseDbError
      else (case pg_lease_upsert db resourceId ownerId (num_of ttlMs) now of
              (Some row, db') \<Rightarrow> Inr (\<lparr>acquired = True, claim_lease = row\<rparr>, db')
            | (None, db') \<Rightarrow>
                (case pg_getLease (env db') resourceId of
                   None \<Rightarrow> Inl (LeaseClaimLost resourceId)
                 | Some existing \<Rightarrow> Inr (\<lparr>acquired = False, claim_lease = existing\<rparr>, env db'))))"

definition pg_renewLease ::
  "'z pg_control_scheme \<Rightarrow> string \<Rightarrow> string \<Rightarrow> int \<Rightarrow> jsnum \<Rightarrow> int \<Rightarrow> lease_error + LeaseRecord option \<times> 'z pg_control_scheme" where
  "pg_renewLease db resourceId ownerId fencingToken ttlMs now =
     (if le_zero ttlMs then Inl (InvalidTtl ttlMs)
      else if \<not> is_finite ttlMs then Inl LeaseDbError
      else (case js_get (pg_leases db) resourceId of
              None \<Rightarrow> Inr (None, db)
            | Some l \<Rightarrow>
                if l_ownerId l = ownerId \<and> l_fencingToken l = fencingToken \<and> l_expiresAt l > now
                then (let row = l\<lparr>l_updatedAt := now, l_expiresAt := now + num_of ttlMs\<rparr>
                      in Inr (Some row, db\<lparr>pg_leases := js_set resourceId row (pg_leases db)\<rparr>))
                else Inr (None, db)))"

definition pg_releaseLease :: "'z pg_control_scheme \<Rightarrow> string \<Rightarrow> string \<Rightarrow> int \<Rightarrow> int \<Rightarrow> bool \<times> 'z pg_control_scheme" where
  "pg_releaseLease db resourceId ownerId fencingToken now =
     (case js_get (pg_leases db) resourceId of
        None \<Rightarrow> (False, db)
      | Some l \<Rightarrow>
          if l_ownerId l = ownerId \<and> l_fencingToken l = fencingToken
          then (True, db\<lparr>pg_leases := js_set resourceId (l\<lparr>l_updatedAt := now, l_expiresAt := now\<rparr>) (pg_leases db)\<rparr>)
          else (False, db))"

definition pg_validateLease :: "'z pg_control_scheme \<Rightarrow> string \<Rightarrow> string \<Rightarrow> int \<Rightarrow> int \<Rightarrow> LeaseRecord option" where
  "pg_validateLease db resourceId ownerId fencingToken now =
     (case js_get (pg_leases db) resourceId of
        None \<Rightarrow> None
      | Some l \<Rightarrow>
          if l_ownerId l = ownerId \<and> l_fencingToken l = fencingToken \<and> l_expiresAt l > now then Some l else None)"

definition pg_issued :: "'z pg_control_scheme \<Rightarrow> string \<Rightarrow> int" where
  "pg_issued db r = (case js_get (pg_leases db) r of Some l \<Rightarrow> l_fencingToken l | None \<Rightarrow> 0)"

abbreviation pg_acquire :: "'z pg_control_scheme \<Rightarrow> string \<Rightarrow> string \<Rightarrow> jsnum \<Rightarrow> int \<Rightarrow> lease_error + LeaseClaimResult \<times> 'z pg_control_scheme" where
  "pg_acquire \<equiv> pg_acquireLease (\<lambda>db. db)"

lemmas pg_lease_defs = pg_acquireLease_def pg_lease_upsert_def pg_renewLease_def pg_releaseLease_def
  pg_validateLease_def pg_getLease_def pg_issued_def Let_def

interpretation pg_lease: lease_provider pg_acquire pg_renewLease pg_releaseLease pg_validateLease pg_issued "\<lambda>_. True"
proof (unfold_locales, goal_cases)
  case (1 s r ow ttl now c s')
  then show ?case
    by (auto simp: pg_lease_defs fun_eq_iff split: option.splits if_splits)
next
  case (2 s r ow ttl now c s' now')
  then show ?case
    by (auto simp: pg_lease_defs split: option.splits if_splits)
next
  case (3 s r ow ttl now c s')
  then show ?case
    by (auto simp: pg_lease_defs split: option.splits if_splits)
next
  case (4 s r ow t now l ow' ttl c s')
  then show ?case
    by (auto simp: pg_lease_defs split: option.splits if_splits)
next
  case (5 s r ow t ttl now x s')
  then show ?case
    by (auto simp: pg_lease_defs fun_eq_iff split: option.splits if_splits)
next
  case (6 s r ow t now b s')
  then show ?case
    by (auto simp: pg_lease_defs fun_eq_iff split: option.splits if_splits)
next
  case (7 s r ow t now l)
  then show ?case
    by (auto simp: pg_lease_defs split: option.splits if_splits)
next
  case (8 s r ow t now l ow' now' l')
  then show ?case
    by (auto simp: pg_lease_defs split: option.splits if_splits)
qed

subsection \<open>Mailboxes\<close>

text \<open>
  The statement of \<^verbatim>\<open>appendMailbox\<close> draws a sequence number and becomes visible when its transaction
  commits: \<open>pg_append_begin\<close> and \<open>pg_append_commit\<close>. An append that no other session overlaps
  is one after the other. A conflicting message id draws a number too and inserts nothing.
\<close>

definition pg_append_begin :: "'z pg_control_scheme \<Rightarrow> string \<Rightarrow> AgentMessage \<Rightarrow> int \<Rightarrow> MailboxEnvelope \<times> 'z pg_control_scheme" where
  "pg_append_begin db agentId message now =
     (let s = pg_mailbox_seq db + 1
      in (\<lparr>e_agentId = agentId, e_seq = s, e_message = message, e_appendedAt = now\<rparr>, db\<lparr>pg_mailbox_seq := s\<rparr>))"

definition pg_find_message :: "'z pg_control_scheme \<Rightarrow> string \<Rightarrow> string \<Rightarrow> MailboxEnvelope option" where
  "pg_find_message db agentId messageId =
     find (\<lambda>e. e_agentId e = agentId \<and> m_id (e_message e) = messageId) (pg_mailbox db)"

definition pg_append_commit :: "'z pg_control_scheme \<Rightarrow> MailboxEnvelope \<Rightarrow> bool \<times> 'z pg_control_scheme" where
  "pg_append_commit db row =
     (case pg_find_message db (e_agentId row) (m_id (e_message row)) of
        Some _ \<Rightarrow> (False, db)
      | None \<Rightarrow> (True, db\<lparr>pg_mailbox := pg_mailbox db @ [row]\<rparr>))"

definition pg_appendMailbox ::
  "('z pg_control_scheme \<Rightarrow> 'z pg_control_scheme) \<Rightarrow> 'z pg_control_scheme \<Rightarrow> string \<Rightarrow> AgentMessage \<Rightarrow> int \<Rightarrow>
   string + MailboxAppendResult \<times> 'z pg_control_scheme" where
  "pg_appendMailbox env db agentId message now =
     (let (row, db1) = pg_append_begin db agentId message now
      in (case pg_append_commit db1 row of
            (True, db2) \<Rightarrow> Inr (\<lparr>envelope = row, inserted = True\<rparr>, db2)
          | (False, db2) \<Rightarrow>
              (case pg_find_message (env db2) agentId (m_id message) of
                 Some e \<Rightarrow> Inr (\<lparr>envelope = e, inserted = False\<rparr>, env db2)
               | None \<Rightarrow> Inl (''Mailbox append conflict row missing for '' @ agentId @ ''/'' @ m_id message))))"

definition pg_rows :: "'z pg_control_scheme \<Rightarrow> string \<Rightarrow> MailboxEnvelope list" where
  "pg_rows db agentId = sort_key e_seq (filter (\<lambda>e. e_agentId e = agentId) (pg_mailbox db))"

definition pg_readMailbox :: "'z pg_control_scheme \<Rightarrow> string \<Rightarrow> int \<Rightarrow> int \<Rightarrow> MailboxEnvelope list" where
  "pg_readMailbox db agentId afterSeq limit = take (nat (max 0 limit)) (filter (\<lambda>e. e_seq e > afterSeq) (pg_rows db agentId))"

definition pg_getMailboxCursor :: "'z pg_control_scheme \<Rightarrow> string \<Rightarrow> string \<Rightarrow> MailboxCursor option" where
  "pg_getMailboxCursor db agentId consumerId = js_get (pg_mailbox_cursors db) (agentId, consumerId)"

definition pg_max_seq :: "'z pg_control_scheme \<Rightarrow> string \<Rightarrow> int" where
  "pg_max_seq db agentId = (case map e_seq (pg_rows db agentId) of [] \<Rightarrow> 0 | s # ss \<Rightarrow> foldl max s ss)"

definition pg_ackMailbox :: "'z pg_control_scheme \<Rightarrow> string \<Rightarrow> string \<Rightarrow> int \<Rightarrow> int \<Rightarrow> MailboxCursor \<times> 'z pg_control_scheme" where
  "pg_ackMailbox db agentId consumerId throughSeq now =
     (let clamped = min throughSeq (pg_max_seq db agentId);
          ack = (case js_get (pg_mailbox_cursors db) (agentId, consumerId) of
                   Some k \<Rightarrow> max (k_ackSeq k) clamped
                 | None \<Rightarrow> clamped);
          row = \<lparr>k_agentId = agentId, k_consumerId = consumerId, k_ackSeq = ack, k_updatedAt = now\<rparr>
      in (row, db\<lparr>pg_mailbox_cursors := js_set (agentId, consumerId) row (pg_mailbox_cursors db)\<rparr>))"

text \<open>An append that runs alone never meets the missing row.\<close>

definition pg_append :: "'z pg_control_scheme \<Rightarrow> string \<Rightarrow> AgentMessage \<Rightarrow> int \<Rightarrow> MailboxAppendResult \<times> 'z pg_control_scheme" where
  "pg_append db agentId message now =
     (let (row, db1) = pg_append_begin db agentId message now
      in (case pg_find_message db agentId (m_id message) of
            None \<Rightarrow> (\<lparr>envelope = row, inserted = True\<rparr>, db1\<lparr>pg_mailbox := pg_mailbox db @ [row]\<rparr>)
          | Some e \<Rightarrow> (\<lparr>envelope = e, inserted = False\<rparr>, db1)))"

lemma pg_append_alone: "pg_appendMailbox (\<lambda>db. db) db a m now = Inr (pg_append db a m now)"
  by (auto simp: pg_appendMailbox_def pg_append_def pg_append_begin_def pg_append_commit_def pg_find_message_def Let_def
      split: option.splits)

definition pg_mail_inv :: "'z pg_control_scheme \<Rightarrow> bool" where
  "pg_mail_inv db \<longleftrightarrow> sorted_wrt (<) (map e_seq (pg_mailbox db)) \<and> 0 \<le> pg_mailbox_seq db \<and>
     (\<forall>e \<in> set (pg_mailbox db). 0 < e_seq e \<and> e_seq e \<le> pg_mailbox_seq db) \<and>
     distinct (map (\<lambda>e. (e_agentId e, m_id (e_message e))) (pg_mailbox db))"

lemma pg_mail_inv_bump: "pg_mail_inv db \<Longrightarrow> pg_mail_inv (db\<lparr>pg_mailbox_seq := pg_mailbox_seq db + 1\<rparr>)"
  by (fastforce simp: pg_mail_inv_def)

lemma sort_key_sorted: "sorted_wrt (<) (map f xs) \<Longrightarrow> sort_key f xs = (xs :: 'a list)" for f :: "'a \<Rightarrow> int"
  by (intro sort_key_id_if_sorted) (auto simp: sorted_wrt_map sorted_map elim: sorted_wrt_mono_rel [rotated])

lemma pg_rows_filter:
  assumes "pg_mail_inv db"
  shows "pg_rows db a = filter (\<lambda>e. e_agentId e = a) (pg_mailbox db)"
proof -
  have "sorted_wrt (<) (map e_seq (filter (\<lambda>e. e_agentId e = a) (pg_mailbox db)))"
    using assms by (simp add: pg_mail_inv_def sorted_wrt_map sorted_wrt_filter)
  then show ?thesis by (simp add: pg_rows_def sort_key_sorted)
qed

lemma pg_rows_sorted: "pg_mail_inv db \<Longrightarrow> sorted_wrt (<) (map e_seq (pg_rows db a))"
  by (simp add: pg_rows_filter) (simp add: pg_mail_inv_def sorted_wrt_map sorted_wrt_filter)

lemma foldl_max_sorted: "sorted_wrt (<) (s # ss) \<Longrightarrow> foldl max s ss = last (s # (ss :: int list))"
proof (induction ss arbitrary: s)
  case (Cons x ss)
  then show ?case by (cases ss) (auto simp: max_def)
qed simp

lemma pg_max_seq_last:
  assumes "pg_mail_inv db"
  shows "pg_max_seq db a = last_seq (pg_rows db a)"
proof (cases "pg_rows db a")
  case (Cons e es)
  from pg_rows_sorted [OF assms, of a] have "foldl max (e_seq e) (map e_seq es) = last (e_seq e # map e_seq es)"
    by (intro foldl_max_sorted) (simp add: Cons)
  also have "\<dots> = e_seq (last (e # es))"
    by (metis last_map list.simps(9) list.distinct(1))
  finally show ?thesis by (simp add: pg_max_seq_def last_seq_def Cons)
qed (simp add: pg_max_seq_def last_seq_def)

lemma pg_find_message_iff:
  assumes "pg_mail_inv db"
  shows "pg_find_message db a i = Some e \<longleftrightarrow> e \<in> set (pg_rows db a) \<and> m_id (e_message e) = i"
proof
  assume "pg_find_message db a i = Some e"
  then show "e \<in> set (pg_rows db a) \<and> m_id (e_message e) = i"
    by (auto simp: pg_find_message_def pg_rows_filter [OF assms] find_Some_iff)
next
  assume "e \<in> set (pg_rows db a) \<and> m_id (e_message e) = i"
  then have "e \<in> set (pg_mailbox db)" "(e_agentId e, m_id (e_message e)) = (a, i)"
    by (auto simp: pg_rows_filter [OF assms])
  with assms find_id_eq [of "\<lambda>e. (e_agentId e, m_id (e_message e))" "pg_mailbox db" e "(a, i)"]
  show "pg_find_message db a i = Some e"
    by (simp add: pg_find_message_def pg_mail_inv_def)
qed

interpretation pg_mail: mailbox_provider pg_append pg_readMailbox pg_getMailboxCursor pg_ackMailbox pg_rows pg_mail_inv
proof (unfold_locales, goal_cases)
  case (1 s a)
  then show ?case by (rule pg_rows_sorted)
next
  case (2 s e a m now r s')
  then have "pg_find_message s a (m_id m) = Some e"
    by (simp add: pg_find_message_iff)
  with 2 show ?case
    by (auto simp: pg_append_def pg_append_begin_def pg_rows_def pg_getMailboxCursor_def Let_def fun_eq_iff pg_mail_inv_bump)
next
  case (3 s m a now r s')
  have "pg_find_message s a (m_id m) = None"
    using 3(2) pg_find_message_iff [OF 3(1), of a "m_id m"] by (cases "pg_find_message s a (m_id m)") force+
  then have r: "r = \<lparr>envelope = \<lparr>e_agentId = a, e_seq = pg_mailbox_seq s + 1, e_message = m, e_appendedAt = now\<rparr>, inserted = True\<rparr>"
    and s': "s' = s\<lparr>pg_mailbox_seq := pg_mailbox_seq s + 1, pg_mailbox := pg_mailbox s @ [envelope r]\<rparr>"
    using 3(3) by (auto simp: pg_append_def pg_append_begin_def Let_def)
  have inv': "pg_mail_inv s'"
  proof -
    have new: "\<forall>e \<in> set (pg_mailbox s). e_seq e < pg_mailbox_seq s + 1 \<and> (e_agentId e, m_id (e_message e)) \<noteq> (a, m_id m)"
    proof
      fix e assume "e \<in> set (pg_mailbox s)"
      with 3(1,2) show "e_seq e < pg_mailbox_seq s + 1 \<and> (e_agentId e, m_id (e_message e)) \<noteq> (a, m_id m)"
        unfolding pg_rows_filter [OF 3(1)] by (auto simp: pg_mail_inv_def image_iff)
    qed
    with 3(1) show ?thesis
      by (fastforce simp: s' r pg_mail_inv_def sorted_wrt_append)
  qed
  with 3(1) show ?case
    by (auto simp: pg_rows_filter fun_eq_iff) (auto simp: s' r)
next
  case (4 s a after limit)
  then show ?case by (simp add: pg_readMailbox_def)
next
  case (5 s e a)
  then show ?case by (auto simp: pg_rows_filter pg_mail_inv_def)
next
  case (6 s a c through now k s')
  then show ?case
    by (auto simp: pg_ackMailbox_def pg_getMailboxCursor_def pg_mail_inv_def pg_rows_def Let_def fun_eq_iff)
next
  case (7 s through a c now k s')
  have "0 \<le> last_seq (pg_rows s a)"
    using 7(1) by (auto simp: last_seq_def pg_rows_filter pg_mail_inv_def dest!: last_in_set less_imp_le)
  with 7 show ?case
    by (auto simp: pg_ackMailbox_def pg_getMailboxCursor_def pg_max_seq_last Let_def split: option.splits)
qed

subsection \<open>Properties\<close>

abbreviation pg_lease_run :: "'z pg_control_scheme \<Rightarrow> lease_op list \<Rightarrow> 'z pg_control_scheme" where
  "pg_lease_run \<equiv> run_ops (lease_step pg_acquire pg_renewLease pg_releaseLease)"

text \<open>
  The PostgreSQL leases fence as the in-memory ones do. After a grant no older token of the resource
  validates, renews or releases, whatever calls of whatever replicas follow; two proofs that validate
  in one state are one owner's one token; and while a claim validates nobody else is granted the
  resource. Losing a claim never ends in the error of a missing row, because rows are never deleted.
\<close>

theorem pg_lease_safe:
  assumes "pg_acquire db r ow ttl now = Inr (c, db1)" and "acquired c" and "t < l_fencingToken (claim_lease c)"
  shows "pg_validateLease (pg_lease_run db1 ops) r ow' t now' = None \<and>
    (\<forall>x db2. pg_renewLease (pg_lease_run db1 ops) r ow' t ttl' now' = Inr (x, db2) \<longrightarrow> x = None \<and> db2 = pg_lease_run db1 ops) \<and>
    pg_releaseLease (pg_lease_run db1 ops) r ow' t now' = (False, pg_lease_run db1 ops) \<and>
    (\<forall>o1 t1 n1 l1 o2 t2 n2 l2. pg_validateLease (pg_lease_run db1 ops) r o1 t1 n1 = Some l1 \<and>
       pg_validateLease (pg_lease_run db1 ops) r o2 t2 n2 = Some l2 \<longrightarrow> o1 = o2 \<and> t1 = t2) \<and>
    pg_acquire db2 r ow2 ttl2 now2 \<noteq> Inl (LeaseClaimLost r)"
proof -
  let ?db = "pg_lease_run db1 ops"
  have "l_fencingToken (claim_lease c) = pg_issued db1 r"
    using assms(1,2) by (auto simp: pg_lease_defs split: option.splits if_splits)
  then have t: "t < pg_issued ?db r"
    using assms(3) pg_lease.run_hi_mono [of db1 r ops] by simp
  have "pg_validateLease ?db r ow' t now' = None"
    using pg_lease.stale_token_dead [OF TrueI assms] .
  moreover have "(\<forall>x db2. pg_renewLease ?db r ow' t ttl' now' = Inr (x, db2) \<longrightarrow> x = None \<and> db2 = ?db)"
    "pg_releaseLease ?db r ow' t now' = (False, ?db)"
    using t by (auto simp: pg_renewLease_def pg_releaseLease_def pg_issued_def Let_def split: option.splits if_splits)
  moreover have "\<forall>o1 t1 n1 l1 o2 t2 n2 l2. pg_validateLease ?db r o1 t1 n1 = Some l1 \<and>
       pg_validateLease ?db r o2 t2 n2 = Some l2 \<longrightarrow> o1 = o2 \<and> t1 = t2"
    using pg_lease.holder_unique [OF TrueI] by blast
  moreover have "pg_acquire db2 r ow2 ttl2 now2 \<noteq> Inl (LeaseClaimLost r)"
    by (auto simp: pg_lease_defs split: option.splits if_splits)
  ultimately show ?thesis by blast
qed

definition empty_control :: pg_control where
  "empty_control = \<lparr>pg_leases = [], pg_mailbox = [], pg_mailbox_seq = 0, pg_mailbox_cursors = []\<rparr>"

theorem pg_lease_safe_witness:
  "let db = pg_lease_run empty_control [AcquireOp ''r'' ''a'' (Num 10) 0, AcquireOp ''r'' ''b'' (Num 10) 10]
   in pg_validateLease db ''r'' ''a'' 1 11 = None \<and> pg_validateLease db ''r'' ''b'' 2 11 \<noteq> None"
proof -
  let ?start = "pg_lease_run empty_control [AcquireOp ''r'' ''a'' (Num 10) 0]"
  let ?db = "pg_lease_run empty_control [AcquireOp ''r'' ''a'' (Num 10) 0, AcquireOp ''r'' ''b'' (Num 10) 10]"
  let ?l = "\<lparr>l_resourceId = ''r'', l_ownerId = ''b'', l_fencingToken = 2, l_acquiredAt = 10, l_updatedAt = 10, l_expiresAt = 20\<rparr>"
  have a: "pg_acquire ?start ''r'' ''b'' (Num 10) 10 = Inr (\<lparr>acquired = True, claim_lease = ?l\<rparr>, ?db)"
    by code_simp
  have held: "pg_validateLease ?db ''r'' ''b'' 2 11 \<noteq> None" by code_simp
  have "acquired \<lparr>acquired = True, claim_lease = ?l\<rparr>" "1 < l_fencingToken (claim_lease \<lparr>acquired = True, claim_lease = ?l\<rparr>)"
    by simp_all
  from pg_lease_safe [OF a this, where ops = "[]" and ow' = "''a''" and now' = 11]
  have "pg_validateLease ?db ''r'' ''a'' 1 11 = None"
    unfolding run_ops_Nil by (rule conjunct1)
  with held show ?thesis unfolding Let_def by blast
qed

text \<open>
  Delivery from PostgreSQL. As long as appends do not overlap, a consumer that reads behind its cursor
  and acknowledges what it read receives every unacknowledged envelope exactly once and in order, and
  an append of a known message id returns the first envelope.
\<close>

theorem pg_mailbox_delivery:
  assumes "pg_mail_inv db" and "0 < limit" and "length (pg_rows db a) \<le> n"
  shows "fst (consume_rounds n pg_readMailbox pg_getMailboxCursor pg_ackMailbox a c limit now db) =
      filter (\<lambda>e. e_seq e > (case pg_getMailboxCursor db a c of Some k \<Rightarrow> k_ackSeq k | None \<Rightarrow> 0)) (pg_rows db a) \<and>
    pg_mail_inv (snd (pg_append db a m now)) \<and>
    (\<forall>e \<in> set (pg_rows db a). m_id (e_message e) = m_id m \<longrightarrow>
       fst (pg_append db a m now) = \<lparr>envelope = e, inserted = False\<rparr> \<and> pg_rows (snd (pg_append db a m now)) = pg_rows db)"
proof -
  obtain r db' where p: "pg_append db a m now = (r, db')" by (cases "pg_append db a m now")
  have "pg_mail_inv db'"
  proof (cases "m_id m \<in> (\<lambda>e. m_id (e_message e)) ` set (pg_rows db a)")
    case True
    with pg_mail.app_known [OF assms(1) _ _ p] show ?thesis by force
  next
    case False
    with pg_mail.app_fresh [OF assms(1) False p] show ?thesis by blast
  qed
  with pg_mail.consume_all [OF assms] pg_mail.app_known [OF assms(1) _ _ p] p show ?thesis by auto
qed

definition sample_mail_db :: pg_control where
  "sample_mail_db = snd (pg_append (snd (pg_append empty_control ''a'' (sample_message ''1'') 0)) ''a'' (sample_message ''2'') 1)"

theorem pg_mailbox_delivery_witness:
  "map e_seq (fst (consume_rounds 2 pg_readMailbox pg_getMailboxCursor pg_ackMailbox ''a'' ''c'' 1 4 sample_mail_db)) = [1, 2]"
proof -
  have inv: "pg_mail_inv sample_mail_db" by code_simp
  have len: "length (pg_rows sample_mail_db ''a'') \<le> 2" by code_simp
  have "map e_seq (filter (\<lambda>e. e_seq e > (case pg_getMailboxCursor sample_mail_db ''a'' ''c'' of Some k \<Rightarrow> k_ackSeq k | None \<Rightarrow> 0))
      (pg_rows sample_mail_db ''a'')) = [1, 2]"
    by code_simp
  with pg_mailbox_delivery [OF inv _ len, where limit = 1 and c = "''c''" and now = 4] show ?thesis by simp
qed

subsection \<open>Where the store falls short\<close>

text \<open>
  Two overlapping appends: the second draws the higher number and commits first, a consumer reads and
  acknowledges it, then the first commits below the cursor and is never delivered.
\<close>

lemma overlapping_append_lost:
  "let (r1, db1) = pg_append_begin empty_control ''a'' (sample_message ''1'') 0;
       (r2, db2) = pg_append_begin db1 ''a'' (sample_message ''2'') 0;
       db3 = snd (pg_append_commit db2 r2);
       (first, db4) = consume_batch pg_readMailbox pg_getMailboxCursor pg_ackMailbox ''a'' ''c'' 10 1 db3;
       db5 = snd (pg_append_commit db4 r1);
       (second, db6) = consume_batch pg_readMailbox pg_getMailboxCursor pg_ackMailbox ''a'' ''c'' 10 2 db5
   in map e_seq first = [2] \<and> second = [] \<and> map e_seq (pg_rows db5 ''a'') = [1, 2]"
  by code_simp

text \<open>A released lease can be released again: the row stays, so the second release reports success too.\<close>

lemma double_release_succeeds:
  "let db = pg_lease_run empty_control [AcquireOp ''r'' ''a'' (Num 10) 0];
       (first, db1) = pg_releaseLease db ''r'' ''a'' 1 5;
       (second, db2) = pg_releaseLease db1 ''r'' ''a'' 1 6
   in first \<and> second"
  by code_simp

end
