(* ===== verification/Postgres_Persistence.thy ===== *)
theory Postgres_Persistence
  imports Postgres_Control World_Types Broker "HOL-Library.Char_ord" "HOL-Library.List_Lexorder"
begin

text \<open>
  \<^verbatim>\<open>PostgresPersistence\<close> (\<^verbatim>\<open>src/src/postgres/persistence.ts\<close>): agents with fenced writes, tasks, relations,
  the event log with its consumer cursors, commands, turns, checkpoints, effect receipts, projects
  and artifacts with compare-and-swap, and the hard-fencing client \<^verbatim>\<open>persistAgentSnapshot\<close>
  (\<^verbatim>\<open>src/src/durability/types.ts\<close>). The database extends the control tables, because a fenced agent
  write reads the lease row in the same statement. A JSON body is the record it encodes. As in the
  control store, a statement is one atomic change and \<open>env\<close> is what other sessions do between two
  statements of a method.
\<close>

record ('r, 'w) pgdb = pg_control +
  pg_agents :: "(string, AgentSnapshot \<times> int) jsmap"
  pg_tasks :: "(string, TaskSpec) jsmap"
  pg_relations :: "(string \<times> string \<times> string, Relation) jsmap"
  pg_events :: "SequencedRuntimeEvent list"
  pg_event_seq :: int
  pg_event_cursors :: "(string, EventCursor) jsmap"
  pg_commands :: "(string, DurableCommandRecord) jsmap"
  pg_checkpoints :: "(string, 'w DurableWorkspaceCheckpoint) jsmap"
  pg_turns :: "(string, int \<times> 'w DurableTurnRecord) jsmap"
  pg_effects :: "(string, 'r DurableEffectRecord) jsmap"
  pg_projects :: "(string, ProjectSpec) jsmap"
  pg_artifacts :: "(string, Artifact) jsmap"

subsection \<open>Agents\<close>

definition pg_createAgent :: "('r, 'w) pgdb \<Rightarrow> AgentSnapshot \<Rightarrow> bool \<times> ('r, 'w) pgdb" where
  "pg_createAgent db snapshot =
     (case js_get (pg_agents db) (ag_id snapshot) of
        Some _ \<Rightarrow> (False, db)
      | None \<Rightarrow> (True, db\<lparr>pg_agents := js_set (ag_id snapshot) (snapshot, 0) (pg_agents db)\<rparr>))"

datatype agent_error = FenceRequired string | FenceRejected string string int | FencedWriteUnsupported string

definition pg_putAgent :: "('r, 'w) pgdb \<Rightarrow> AgentSnapshot \<Rightarrow> agent_error + ('r, 'w) pgdb" where
  "pg_putAgent db snapshot =
     (case js_get (pg_agents db) (ag_id snapshot) of
        None \<Rightarrow> Inr (db\<lparr>pg_agents := js_set (ag_id snapshot) (snapshot, 0) (pg_agents db)\<rparr>)
      | Some (_, token) \<Rightarrow>
          if token = 0 then Inr (db\<lparr>pg_agents := js_set (ag_id snapshot) (snapshot, token) (pg_agents db)\<rparr>)
          else Inl (FenceRequired (ag_id snapshot)))"

definition agent_resource :: "string \<Rightarrow> string" where
  "agent_resource agentId = ''agent:'' @ agentId"

definition pg_putAgentFenced :: "('r, 'w) pgdb \<Rightarrow> AgentSnapshot \<Rightarrow> AgentWriteFence \<Rightarrow> int \<Rightarrow> bool \<times> ('r, 'w) pgdb" where
  "pg_putAgentFenced db snapshot fence now =
     (if fence_resourceId fence \<noteq> agent_resource (ag_id snapshot) then (False, db)
      else (case pg_validateLease db (fence_resourceId fence) (fence_ownerId fence) (fence_fencingToken fence) now of
              None \<Rightarrow> (False, db)
            | Some _ \<Rightarrow>
                (let written = db\<lparr>pg_agents := js_set (ag_id snapshot) (snapshot, fence_fencingToken fence) (pg_agents db)\<rparr>
                 in (case js_get (pg_agents db) (ag_id snapshot) of
                       None \<Rightarrow> (True, written)
                     | Some (_, token) \<Rightarrow> if token \<le> fence_fencingToken fence then (True, written) else (False, db)))))"

definition pg_getAgent :: "('r, 'w) pgdb \<Rightarrow> string \<Rightarrow> AgentSnapshot option" where
  "pg_getAgent db i = map_option fst (js_get (pg_agents db) i)"

definition by_key :: "('k :: linorder, 'v) jsmap \<Rightarrow> 'v list" where
  "by_key m = map snd (sort_key fst m)"

definition pg_listAgents :: "('r, 'w) pgdb \<Rightarrow> AgentSnapshot list" where
  "pg_listAgents db = map fst (by_key (pg_agents db))"

text \<open>\<^verbatim>\<open>persistAgentSnapshot\<close> over a provider's two write methods; the fenced one is optional.\<close>

definition persistAgentSnapshot ::
  "('s \<Rightarrow> AgentSnapshot \<Rightarrow> agent_error + 's) \<Rightarrow> ('s \<Rightarrow> AgentSnapshot \<Rightarrow> AgentWriteFence \<Rightarrow> bool \<times> 's) option \<Rightarrow>
   's \<Rightarrow> AgentSnapshot \<Rightarrow> AgentWriteFence option \<Rightarrow> (agent_error + unit) \<times> 's" where
  "persistAgentSnapshot putAgent putAgentFenced db snapshot fence =
     (case fence of
        None \<Rightarrow> (case putAgent db snapshot of Inl e \<Rightarrow> (Inl e, db) | Inr db' \<Rightarrow> (Inr (), db'))
      | Some fn \<Rightarrow>
          (case putAgentFenced of
             None \<Rightarrow> (Inl (FencedWriteUnsupported (ag_id snapshot)), db)
           | Some put \<Rightarrow>
               (case put db snapshot fn of
                  (True, db') \<Rightarrow> (Inr (), db')
                | (False, db') \<Rightarrow> (Inl (FenceRejected (ag_id snapshot) (fence_resourceId fn) (fence_fencingToken fn)), db'))))"

subsection \<open>Tasks, relations and events\<close>

definition pg_putTask :: "('r, 'w) pgdb \<Rightarrow> TaskSpec \<Rightarrow> ('r, 'w) pgdb" where
  "pg_putTask db task = db\<lparr>pg_tasks := js_set (tk_id task) task (pg_tasks db)\<rparr>"

definition pg_getTask :: "('r, 'w) pgdb \<Rightarrow> string \<Rightarrow> TaskSpec option" where
  "pg_getTask db i = js_get (pg_tasks db) i"

datatype world_error = UnknownRecord string | RequiresNewerRevision string int

text \<open>
  The shape shared by the three compare-and-swap methods: one conditional update, and a second
  statement that fetches the current row when it did not apply.
\<close>

definition cas_update ::
  "('db \<Rightarrow> (string, 'a) jsmap) \<Rightarrow> ((string, 'a) jsmap \<Rightarrow> 'db \<Rightarrow> 'db) \<Rightarrow> ('a \<Rightarrow> int) \<Rightarrow>
   ('db \<Rightarrow> 'db) \<Rightarrow> 'db \<Rightarrow> string \<Rightarrow> 'a \<Rightarrow> int \<Rightarrow> (world_error + 'a CasResult) \<times> 'db" where
  "cas_update table update revision_of env db i nxt expected =
     (case js_get (table db) i of
        Some old \<Rightarrow>
          if revision_of old = expected
          then (Inr \<lparr>cas_swapped = True, cas_value = nxt\<rparr>, update (js_set i nxt (table db)) db)
          else (case js_get (table (env db)) i of
                  Some current \<Rightarrow> (Inr \<lparr>cas_swapped = False, cas_value = current\<rparr>, env db)
                | None \<Rightarrow> (Inl (UnknownRecord i), env db))
      | None \<Rightarrow>
          (case js_get (table (env db)) i of
             Some current \<Rightarrow> (Inr \<lparr>cas_swapped = False, cas_value = current\<rparr>, env db)
           | None \<Rightarrow> (Inl (UnknownRecord i), env db)))"

definition task_rev :: "TaskSpec \<Rightarrow> int" where
  "task_rev task = opt_or (tk_revision task) 0"

definition pg_compareAndSwapTask ::
  "(('r, 'w) pgdb \<Rightarrow> ('r, 'w) pgdb) \<Rightarrow> ('r, 'w) pgdb \<Rightarrow> TaskSpec \<Rightarrow> int \<Rightarrow> (world_error + TaskSpec CasResult) \<times> ('r, 'w) pgdb" where
  "pg_compareAndSwapTask env db task expectedRevision =
     cas_update pg_tasks (\<lambda>t db. db\<lparr>pg_tasks := t\<rparr>) task_rev env db (tk_id task)
       (task\<lparr>tk_revision := Some (expectedRevision + 1)\<rparr>) expectedRevision"

definition pg_putRelation :: "('r, 'w) pgdb \<Rightarrow> Relation \<Rightarrow> ('r, 'w) pgdb" where
  "pg_putRelation db relation =
     db\<lparr>pg_relations := js_set (rel_from relation, rel_to relation, relation_kind_text (rel_kind relation)) relation (pg_relations db)\<rparr>"

definition pg_listRelations :: "('r, 'w) pgdb \<Rightarrow> Relation list" where
  "pg_listRelations db = by_key (pg_relations db)"

definition pg_appendEvent :: "('r, 'w) pgdb \<Rightarrow> RuntimeEvent \<Rightarrow> ('r, 'w) pgdb" where
  "pg_appendEvent db event =
     (let s = pg_event_seq db + 1
      in db\<lparr>pg_event_seq := s, pg_events := pg_events db @ [\<lparr>sq_seq = s, sq_event = event\<rparr>]\<rparr>)"

definition pg_listEvents :: "('r, 'w) pgdb \<Rightarrow> RuntimeEvent list" where
  "pg_listEvents db = map sq_event (sort_key sq_seq (pg_events db))"

definition pg_readEvents :: "('r, 'w) pgdb \<Rightarrow> int option \<Rightarrow> int option \<Rightarrow> SequencedRuntimeEvent list" where
  "pg_readEvents db afterSeq limit =
     take (nat (max 0 (opt_or limit 1000))) (filter (\<lambda>e. sq_seq e > opt_or afterSeq 0) (sort_key sq_seq (pg_events db)))"

definition pg_pruneEvents :: "('r, 'w) pgdb \<Rightarrow> int \<Rightarrow> nat \<times> ('r, 'w) pgdb" where
  "pg_pruneEvents db throughSeq =
     (length (filter (\<lambda>e. sq_seq e \<le> throughSeq) (pg_events db)),
      db\<lparr>pg_events := filter (\<lambda>e. \<not> sq_seq e \<le> throughSeq) (pg_events db)\<rparr>)"

definition pg_max_event :: "('r, 'w) pgdb \<Rightarrow> int" where
  "pg_max_event db = (case map sq_seq (pg_events db) of [] \<Rightarrow> 0 | s # ss \<Rightarrow> foldl max s ss)"

definition pg_ackEvent :: "('r, 'w) pgdb \<Rightarrow> string \<Rightarrow> int \<Rightarrow> int \<Rightarrow> EventCursor \<times> ('r, 'w) pgdb" where
  "pg_ackEvent db consumerId throughSeq now =
     (let clamped = min throughSeq (pg_max_event db);
          ack = (case js_get (pg_event_cursors db) consumerId of Some k \<Rightarrow> max (ev_ackSeq k) clamped | None \<Rightarrow> clamped);
          row = \<lparr>ev_consumerId = consumerId, ev_ackSeq = ack, ev_updatedAt = now\<rparr>
      in (row, db\<lparr>pg_event_cursors := js_set consumerId row (pg_event_cursors db)\<rparr>))"

definition pg_getEventCursor :: "('r, 'w) pgdb \<Rightarrow> string \<Rightarrow> EventCursor option" where
  "pg_getEventCursor db consumerId = js_get (pg_event_cursors db) consumerId"

definition pg_listEventCursors :: "('r, 'w) pgdb \<Rightarrow> EventCursor list" where
  "pg_listEventCursors db = js_values (pg_event_cursors db)"

definition pg_forgetEventConsumer :: "('r, 'w) pgdb \<Rightarrow> string \<Rightarrow> bool \<times> ('r, 'w) pgdb" where
  "pg_forgetEventConsumer db consumerId =
     (js_get (pg_event_cursors db) consumerId \<noteq> None, db\<lparr>pg_event_cursors := js_delete consumerId (pg_event_cursors db)\<rparr>)"

definition pg_safeEventWatermark :: "('r, 'w) pgdb \<Rightarrow> int" where
  "pg_safeEventWatermark db =
     (case map ev_ackSeq (js_values (pg_event_cursors db)) of [] \<Rightarrow> 0 | a # rest \<Rightarrow> foldl min a rest)"

definition pg_pruneEventsSafe :: "(('r, 'w) pgdb \<Rightarrow> ('r, 'w) pgdb) \<Rightarrow> ('r, 'w) pgdb \<Rightarrow> nat \<times> ('r, 'w) pgdb" where
  "pg_pruneEventsSafe env db =
     (let watermark = pg_safeEventWatermark db
      in if watermark \<le> 0 then (0, env db) else pg_pruneEvents (env db) watermark)"

subsection \<open>Commands, checkpoints, turns and effects\<close>

definition pg_putCommand :: "('r, 'w) pgdb \<Rightarrow> DurableCommandRecord \<Rightarrow> ('r, 'w) pgdb" where
  "pg_putCommand db record =
     (let written = db\<lparr>pg_commands := js_set (c_id record) record (pg_commands db)\<rparr>
      in (case js_get (pg_commands db) (c_id record) of
            None \<Rightarrow> written
          | Some old \<Rightarrow>
              if opt_or (c_fencingToken old) 0 \<le> opt_or (c_fencingToken record) 0 \<and>
                 \<not> (c_status old = CmdCommitted \<and> c_status record \<noteq> CmdCommitted)
              then written else db))"

definition pg_getCommand :: "('r, 'w) pgdb \<Rightarrow> string \<Rightarrow> DurableCommandRecord option" where
  "pg_getCommand db i = js_get (pg_commands db) i"

definition pg_claimCommand ::
  "(('r, 'w) pgdb \<Rightarrow> ('r, 'w) pgdb) \<Rightarrow> ('r, 'w) pgdb \<Rightarrow> DurableCommandRecord \<Rightarrow>
   (string + DurableCommandRecord ClaimResult) \<times> ('r, 'w) pgdb" where
  "pg_claimCommand env db record =
     (let written = db\<lparr>pg_commands := js_set (c_id record) record (pg_commands db)\<rparr>;
          lost = (case js_get (pg_commands (env db)) (c_id record) of
                    Some existing \<Rightarrow> (Inr \<lparr>claimed = False, claim_record = existing\<rparr>, env db)
                  | None \<Rightarrow> (Inl (''Command claim lost without visible record: '' @ c_id record), env db))
      in (case js_get (pg_commands db) (c_id record) of
            None \<Rightarrow> (Inr \<lparr>claimed = True, claim_record = record\<rparr>, written)
          | Some old \<Rightarrow>
              if c_status old = CmdFailed then (Inr \<lparr>claimed = True, claim_record = record\<rparr>, written) else lost))"

definition pg_putWorkspaceCheckpoint :: "('r, 'w) pgdb \<Rightarrow> 'w DurableWorkspaceCheckpoint \<Rightarrow> ('r, 'w) pgdb" where
  "pg_putWorkspaceCheckpoint db c = db\<lparr>pg_checkpoints := js_set (w_workspaceId c) c (pg_checkpoints db)\<rparr>"

definition pg_getWorkspaceCheckpoint :: "('r, 'w) pgdb \<Rightarrow> string \<Rightarrow> 'w DurableWorkspaceCheckpoint option" where
  "pg_getWorkspaceCheckpoint db i = js_get (pg_checkpoints db) i"

definition pg_putTurn :: "('r, 'w) pgdb \<Rightarrow> 'w DurableTurnRecord \<Rightarrow> int \<Rightarrow> ('r, 'w) pgdb" where
  "pg_putTurn db record now = db\<lparr>pg_turns := js_set (t_id record) (now, record) (pg_turns db)\<rparr>"

definition pg_getTurn :: "('r, 'w) pgdb \<Rightarrow> string \<Rightarrow> 'w DurableTurnRecord option" where
  "pg_getTurn db i = map_option snd (js_get (pg_turns db) i)"

definition pg_listTurns :: "('r, 'w) pgdb \<Rightarrow> TurnStatus option \<Rightarrow> 'w DurableTurnRecord list" where
  "pg_listTurns db status =
     map (\<lambda>(i, at, t). t) (sort_key (\<lambda>(i, at, t). (at, i))
       (filter (\<lambda>(i, at, t). case status of None \<Rightarrow> True | Some st \<Rightarrow> t_status t = st) (pg_turns db)))"

definition pg_putEffect :: "('r, 'w) pgdb \<Rightarrow> 'r DurableEffectRecord \<Rightarrow> ('r, 'w) pgdb" where
  "pg_putEffect db record =
     (let written = db\<lparr>pg_effects := js_set (f_id record) record (pg_effects db)\<rparr>
      in (case js_get (pg_effects db) (f_id record) of
            None \<Rightarrow> written
          | Some old \<Rightarrow>
              if \<not> (f_status old = EffCommitted \<and> f_status record \<noteq> EffCommitted) \<and>
                 \<not> (f_status old = EffFailed \<and> f_status record = EffStarted)
              then written else db))"

definition pg_getEffect :: "('r, 'w) pgdb \<Rightarrow> string \<Rightarrow> 'r DurableEffectRecord option" where
  "pg_getEffect db i = js_get (pg_effects db) i"

definition pg_claimEffect ::
  "(('r, 'w) pgdb \<Rightarrow> ('r, 'w) pgdb) \<Rightarrow> ('r, 'w) pgdb \<Rightarrow> 'r DurableEffectRecord \<Rightarrow>
   (string + 'r DurableEffectRecord ClaimResult) \<times> ('r, 'w) pgdb" where
  "pg_claimEffect env db record =
     (case js_get (pg_effects db) (f_id record) of
        None \<Rightarrow> (Inr \<lparr>claimed = True, claim_record = record\<rparr>, db\<lparr>pg_effects := js_set (f_id record) record (pg_effects db)\<rparr>)
      | Some _ \<Rightarrow>
          (case js_get (pg_effects (env db)) (f_id record) of
             Some existing \<Rightarrow> (Inr \<lparr>claimed = False, claim_record = existing\<rparr>, env db)
           | None \<Rightarrow> (Inl (''Effect claim lost without visible record: '' @ f_id record), env db)))"

subsection \<open>Projects and artifacts\<close>

definition pg_getProject :: "('r, 'w) pgdb \<Rightarrow> string \<Rightarrow> ProjectSpec option" where
  "pg_getProject db i = js_get (pg_projects db) i"

definition pg_putProject :: "(('r, 'w) pgdb \<Rightarrow> ('r, 'w) pgdb) \<Rightarrow> ('r, 'w) pgdb \<Rightarrow> ProjectSpec \<Rightarrow> (world_error + unit) \<times> ('r, 'w) pgdb" where
  "pg_putProject env db project =
     (let written = db\<lparr>pg_projects := js_set (pj_id project) project (pg_projects db)\<rparr>
      in (case js_get (pg_projects db) (pj_id project) of
            None \<Rightarrow> (Inr (), written)
          | Some old \<Rightarrow>
              if pj_revision project > pj_revision old then (Inr (), written)
              else (case pg_getProject (env db) (pj_id project) of
                      Some current \<Rightarrow> (Inl (RequiresNewerRevision (pj_id project) (pj_revision current)), env db)
                    | None \<Rightarrow> (Inr (), env db))))"

definition pg_compareAndSwapProject ::
  "(('r, 'w) pgdb \<Rightarrow> ('r, 'w) pgdb) \<Rightarrow> ('r, 'w) pgdb \<Rightarrow> ProjectSpec \<Rightarrow> int \<Rightarrow> int \<Rightarrow> (world_error + ProjectSpec CasResult) \<times> ('r, 'w) pgdb" where
  "pg_compareAndSwapProject env db project expectedRevision now =
     cas_update pg_projects (\<lambda>t db. db\<lparr>pg_projects := t\<rparr>) pj_revision env db (pj_id project)
       (project\<lparr>pj_revision := expectedRevision + 1, pj_updatedAt := now\<rparr>) expectedRevision"

definition pg_listProjects :: "('r, 'w) pgdb \<Rightarrow> ProjectSpec list" where
  "pg_listProjects db = by_key (pg_projects db)"

definition pg_putArtifact :: "('r, 'w) pgdb \<Rightarrow> Artifact \<Rightarrow> ('r, 'w) pgdb" where
  "pg_putArtifact db artifact = db\<lparr>pg_artifacts := js_set (art_id artifact) artifact (pg_artifacts db)\<rparr>"

definition artifact_rev :: "Artifact \<Rightarrow> int" where
  "artifact_rev a = opt_or (art_revision a) 0"

definition pg_compareAndSwapArtifact ::
  "(('r, 'w) pgdb \<Rightarrow> ('r, 'w) pgdb) \<Rightarrow> ('r, 'w) pgdb \<Rightarrow> Artifact \<Rightarrow> int \<Rightarrow> (world_error + Artifact CasResult) \<times> ('r, 'w) pgdb" where
  "pg_compareAndSwapArtifact env db artifact expectedRevision =
     cas_update pg_artifacts (\<lambda>t db. db\<lparr>pg_artifacts := t\<rparr>) artifact_rev env db (art_id artifact)
       (artifact\<lparr>art_revision := Some (expectedRevision + 1)\<rparr>) expectedRevision"

definition pg_getArtifact :: "('r, 'w) pgdb \<Rightarrow> string \<Rightarrow> Artifact option" where
  "pg_getArtifact db i = js_get (pg_artifacts db) i"

text \<open>A project as text for an agent's context; \<open>nl\<close> joins lines, empty parts are left out.\<close>

definition nl :: "string list \<Rightarrow> string" where
  "nl ls = join_with (CHR 0x0A) ls"

definition section_text :: "string \<Rightarrow> string list \<Rightarrow> string" where
  "section_text heading ls = (if ls = [] then [] else [CHR 0x0A] @ ''## '' @ heading @ [CHR 0x0A] @ nl ls)"

definition project_context :: "ProjectSpec \<Rightarrow> TaskSpec list \<Rightarrow> string" where
  "project_context project tasks =
     nl (filter (\<lambda>s. s \<noteq> [])
       [''# Project: '' @ pj_name project,
        pj_objective project,
        section_text ''Constraints'' (map (\<lambda>c. ''- '' @ pc_text c) (filter pc_active (pj_constraints project))),
        section_text ''Accepted decisions''
          (map (\<lambda>d. ''- '' @ pd_title d @ '': '' @ pd_rationale d) (filter (\<lambda>d. pd_status d = Accepted) (pj_decisions project))),
        section_text ''Tasks''
          (map (\<lambda>t. ''- ['' @ task_status_text (tk_status t) @ ''] '' @ tk_title t @ '': '' @ tk_objective t) tasks)])"

definition pg_projection :: "('r, 'w) pgdb \<Rightarrow> string \<Rightarrow> ProjectProjection option" where
  "pg_projection db projectId =
     (case pg_getProject db projectId of
        None \<Rightarrow> None
      | Some project \<Rightarrow>
          (let tasks = List.map_filter (pg_getTask db) (pj_taskIds project);
               artifacts = List.map_filter (pg_getArtifact db) (pj_artifactIds project)
           in Some \<lparr>pp_project = project, pp_tasks = tasks, pp_artifacts = artifacts,
                    pp_contextText = project_context project tasks\<rparr>))"

end
