(* ===== verification/Postgres_Laws.thy ===== *)
theory Postgres_Laws
  imports Postgres_Persistence
begin

text \<open>
  What the PostgreSQL persistence guarantees: fenced agent writes, the event log and its safe pruning,
  compare-and-swap of projects, and the receipts. The last are stated as a refinement: the SQL tables
  behave as the single-process store does, so everything proved there carries over.
\<close>

subsection \<open>Fenced agent writes\<close>

datatype agent_call =
    LeaseCall lease_op
  | CreateCall AgentSnapshot
  | PutCall AgentSnapshot
  | FencedCall AgentSnapshot AgentWriteFence int

fun agent_step :: "('r, 'w) pgdb \<Rightarrow> agent_call \<Rightarrow> ('r, 'w) pgdb" where
  "agent_step db (LeaseCall x) = lease_step pg_acquire pg_renewLease pg_releaseLease db x"
| "agent_step db (CreateCall s) = snd (pg_createAgent db s)"
| "agent_step db (PutCall s) = (case pg_putAgent db s of Inl _ \<Rightarrow> db | Inr db' \<Rightarrow> db')"
| "agent_step db (FencedCall s f now) = snd (pg_putAgentFenced db s f now)"

abbreviation agent_run :: "('r, 'w) pgdb \<Rightarrow> agent_call list \<Rightarrow> ('r, 'w) pgdb" where
  "agent_run \<equiv> run_ops agent_step"

text \<open>The row of an agent carries at least this token.\<close>

definition fenced_at :: "('r, 'w) pgdb \<Rightarrow> string \<Rightarrow> int \<Rightarrow> bool" where
  "fenced_at db i t \<longleftrightarrow> (\<exists>s t'. js_get (pg_agents db) i = Some (s, t') \<and> t \<le> t')"

lemma lease_step_agents [simp]:
  "pg_agents (lease_step pg_acquire pg_renewLease pg_releaseLease db x) = pg_agents db"
  by (cases x) (auto simp: pg_lease_defs split: sum.splits option.splits if_splits)

lemma agent_step_fenced: "fenced_at db i t \<Longrightarrow> fenced_at (agent_step db x) i t"
  by (cases x) (auto simp: fenced_at_def pg_createAgent_def pg_putAgent_def pg_putAgentFenced_def Let_def
      split: option.splits sum.splits if_splits)

lemma agent_step_issued: "pg_issued db r \<le> pg_issued (agent_step db x) r"
proof (cases x)
  case (LeaseCall y)
  with pg_lease.step_keeps [where s = db and x = y and r = r] show ?thesis by simp
qed (auto simp: pg_issued_def pg_createAgent_def pg_putAgent_def pg_putAgentFenced_def Let_def
    split: option.splits sum.splits if_splits)

lemma agent_run_keeps:
  "fenced_at db i t \<Longrightarrow> fenced_at (agent_run db ops) i t"
  "pg_issued db r \<le> pg_issued (agent_run db ops) r"
  using run_ops_invariant [of "\<lambda>db. fenced_at db i t" agent_step] agent_step_fenced
    run_ops_mono [of "\<lambda>_. True" agent_step "\<lambda>db. pg_issued db r" db ops] agent_step_issued
  by blast+

lemma stale_fence_refused:
  "fence_fencingToken f < pg_issued db (agent_resource (ag_id s)) \<Longrightarrow> pg_putAgentFenced db s f now = (False, db)"
  by (auto simp: pg_putAgentFenced_def pg_validateLease_def pg_issued_def split: option.splits)

lemma fenced_row_closed:
  assumes "fenced_at db (ag_id s) t" and "0 < t"
  shows "pg_putAgent db s = Inl (FenceRequired (ag_id s))" and "pg_createAgent db s = (False, db)"
  using assms by (auto simp: fenced_at_def pg_putAgent_def pg_createAgent_def)

lemma fenced_write_row:
  assumes "pg_putAgentFenced db s f now = (True, db')"
  shows "js_get (pg_agents db') (ag_id s) = Some (s, fence_fencingToken f)" and "pg_leases db' = pg_leases db"
  using assms by (auto simp: pg_putAgentFenced_def Let_def split: option.splits if_splits)

text \<open>
  C8: hard fencing. A replica is granted the lease of an agent and writes a snapshot under it. From then
  on, whatever lease calls, creations and writes of whatever replicas follow, a write of that agent
  under an older token is rejected, a write without a token is refused and so is a second creation,
  none of them changing anything; the row's token never falls below the granted one.
\<close>

theorem agent_writes_fenced:
  fixes db :: "('r, 'w) pgdb"
  assumes "0 \<le> pg_issued db (agent_resource i)"
    and "pg_acquire db (agent_resource i) ow ttl now = Inr (c, db1)" and "acquired c"
    and "pg_putAgentFenced db1 s \<lparr>fence_resourceId = agent_resource i, fence_ownerId = ow,
           fence_fencingToken = l_fencingToken (claim_lease c)\<rparr> now1 = (True, db2)"
    and "ag_id s = i" and "ag_id s' = i"
    and "fence_fencingToken f < l_fencingToken (claim_lease c)"
  shows "persistAgentSnapshot pg_putAgent (Some (\<lambda>db s f. pg_putAgentFenced db s f now2)) (agent_run db2 ops) s' (Some f) =
      (Inl (FenceRejected i (fence_resourceId f) (fence_fencingToken f)), agent_run db2 ops) \<and>
    persistAgentSnapshot pg_putAgent (Some (\<lambda>db s f. pg_putAgentFenced db s f now2)) (agent_run db2 ops) s' None =
      (Inl (FenceRequired i), agent_run db2 ops) \<and>
    pg_createAgent (agent_run db2 ops) s' = (False, agent_run db2 ops) \<and>
    (\<exists>s t. js_get (pg_agents (agent_run db2 ops)) i = Some (s, t) \<and> l_fencingToken (claim_lease c) \<le> t)"
proof -
  let ?t = "l_fencingToken (claim_lease c)" and ?db = "agent_run db2 ops"
  from pg_lease.acq_new [OF TrueI assms(2,3)] assms(1)
  have t: "?t = pg_issued db1 (agent_resource i)" "0 < ?t" by auto
  from fenced_write_row [OF assms(4)] assms(5)
  have "fenced_at db2 i ?t" and "pg_issued db2 = pg_issued db1"
    by (auto simp: fenced_at_def pg_issued_def)
  then have row: "fenced_at ?db (ag_id s') ?t" and "?t \<le> pg_issued ?db (agent_resource (ag_id s'))"
    using agent_run_keeps(1) [of db2 i ?t ops] agent_run_keeps(2) [of db2 "agent_resource i" ops] t assms(6)
    by auto
  then have "pg_putAgentFenced ?db s' f now2 = (False, ?db)"
    using assms(7) by (intro stale_fence_refused) linarith
  with fenced_row_closed [OF row t(2)] row assms(6) show ?thesis
    by (auto simp: persistAgentSnapshot_def fenced_at_def)
qed

definition empty_pgdb :: "('r, 'w) pgdb" where
  "empty_pgdb = \<lparr>pg_leases = [], pg_mailbox = [], pg_mailbox_seq = 0, pg_mailbox_cursors = [], pg_agents = [],
     pg_tasks = [], pg_relations = [], pg_events = [], pg_event_seq = 0, pg_event_cursors = [], pg_commands = [],
     pg_checkpoints = [], pg_turns = [], pg_effects = [], pg_projects = [], pg_artifacts = []\<rparr>"

definition sample_agent :: AgentSnapshot where
  "sample_agent = \<lparr>ag_id = ''a'', ag_definitionId = ''d'', ag_taskId = None, ag_workspaceId = ''w'', ag_state = Idle,
     ag_createdAt = 0, ag_updatedAt = 0, ag_mailbox = [], ag_metadata = []\<rparr>"

abbreviation sample_fence :: "string \<Rightarrow> int \<Rightarrow> AgentWriteFence" where
  "sample_fence owner t \<equiv> \<lparr>fence_resourceId = ''agent:a'', fence_ownerId = owner, fence_fencingToken = t\<rparr>"

text \<open>Replica \<open>one\<close> loses the lease by expiry; replica \<open>two\<close> takes over and writes; \<open>one\<close> wakes up.\<close>

theorem agent_writes_fenced_witness:
  "let db = agent_run (empty_pgdb :: (unit, unit) pgdb)
         [LeaseCall (AcquireOp ''agent:a'' ''one'' (Num 10) 0), FencedCall sample_agent (sample_fence ''one'' 1) 5,
          LeaseCall (AcquireOp ''agent:a'' ''two'' (Num 10) 12), FencedCall sample_agent (sample_fence ''two'' 2) 13]
   in persistAgentSnapshot pg_putAgent (Some (\<lambda>db s f. pg_putAgentFenced db s f 14)) db sample_agent (Some (sample_fence ''one'' 1)) =
        (Inl (FenceRejected ''a'' ''agent:a'' 1), db) \<and>
      persistAgentSnapshot pg_putAgent (Some (\<lambda>db s f. pg_putAgentFenced db s f 14)) db sample_agent None =
        (Inl (FenceRequired ''a''), db)"
proof -
  let ?db = "agent_run (empty_pgdb :: (unit, unit) pgdb)
     [LeaseCall (AcquireOp ''agent:a'' ''one'' (Num 10) 0), FencedCall sample_agent (sample_fence ''one'' 1) 5]"
  let ?db1 = "agent_step ?db (LeaseCall (AcquireOp ''agent:a'' ''two'' (Num 10) 12))"
  let ?db2 = "agent_step ?db1 (FencedCall sample_agent (sample_fence ''two'' 2) 13)"
  let ?c = "\<lparr>acquired = True, claim_lease = \<lparr>l_resourceId = ''agent:a'', l_ownerId = ''two'', l_fencingToken = 2,
     l_acquiredAt = 12, l_updatedAt = 12, l_expiresAt = 22\<rparr>\<rparr>"
  have 1: "0 \<le> pg_issued ?db (agent_resource ''a'')" by code_simp
  have 2: "pg_acquire ?db (agent_resource ''a'') ''two'' (Num 10) 12 = Inr (?c, ?db1)" by code_simp
  have 3: "acquired ?c" by simp
  have 4: "pg_putAgentFenced ?db1 sample_agent \<lparr>fence_resourceId = agent_resource ''a'', fence_ownerId = ''two'',
      fence_fencingToken = l_fencingToken (claim_lease ?c)\<rparr> 13 = (True, ?db2)" by code_simp
  have 5: "ag_id sample_agent = ''a''" by (simp add: sample_agent_def)
  have 6: "fence_fencingToken (sample_fence ''one'' 1) < l_fencingToken (claim_lease ?c)" by simp
  from agent_writes_fenced [OF 1 2 3 4 5 5 6, where ops = "[]" and ?now2.0 = 14] show ?thesis
    unfolding Let_def run_ops_Cons run_ops_Nil by (simp del: agent_step.simps)
qed

subsection \<open>The event log\<close>

datatype event_call =
    AppendEv RuntimeEvent
  | AckEv string int int
  | ForgetEv string
  | PruneSafe

fun event_step :: "('r, 'w) pgdb \<Rightarrow> event_call \<Rightarrow> ('r, 'w) pgdb" where
  "event_step db (AppendEv e) = pg_appendEvent db e"
| "event_step db (AckEv c s now) = snd (pg_ackEvent db c s now)"
| "event_step db (ForgetEv c) = snd (pg_forgetEventConsumer db c)"
| "event_step db PruneSafe = snd (pg_pruneEventsSafe (\<lambda>db. db) db)"

lemma foldl_min_le: "x \<in> set (a # xs) \<Longrightarrow> foldl min a xs \<le> (x :: int)"
proof (induction xs arbitrary: a x)
  case (Cons y ys)
  show ?case
  proof (cases "x \<in> set ys")
    case False
    with Cons.prems have "min a y \<le> x" by auto
    with Cons.IH [of "min a y" "min a y"] show ?thesis by (auto intro: order_trans [of _ "min a y"])
  qed (simp add: Cons.IH)
qed simp

lemma watermark_le: "js_get (pg_event_cursors db) c = Some k \<Longrightarrow> pg_safeEventWatermark db \<le> ev_ackSeq k"
proof -
  assume "js_get (pg_event_cursors db) c = Some k"
  then have "ev_ackSeq k \<in> set (map ev_ackSeq (js_values (pg_event_cursors db)))"
    by (force simp: js_values_def dest: js_get_SomeD)
  then show ?thesis
    by (cases "map ev_ackSeq (js_values (pg_event_cursors db))") (auto simp: pg_safeEventWatermark_def intro: foldl_min_le)
qed

lemma event_step_cursor:
  assumes "js_get (pg_event_cursors db) c = Some k" and "x \<noteq> ForgetEv c"
  shows "\<exists>k'. js_get (pg_event_cursors (event_step db x)) c = Some k' \<and> ev_ackSeq k \<le> ev_ackSeq k'"
  using assms by (cases x) (auto simp: pg_appendEvent_def pg_ackEvent_def pg_forgetEventConsumer_def pg_pruneEventsSafe_def
      pg_pruneEvents_def Let_def split: option.splits)

lemma event_step_keeps:
  assumes "js_get (pg_event_cursors db) c = Some k" and "ev_ackSeq k < sq_seq e" and "e \<in> set (pg_events db)"
  shows "e \<in> set (pg_events (event_step db x))"
  using assms watermark_le [OF assms(1)]
  by (cases x) (auto simp: pg_appendEvent_def pg_ackEvent_def pg_forgetEventConsumer_def pg_pruneEventsSafe_def
      pg_pruneEvents_def Let_def)

lemma event_run_cursor:
  assumes "js_get (pg_event_cursors db) c = Some k" and "ForgetEv c \<notin> set ops"
  shows "\<exists>k'. js_get (pg_event_cursors (run_ops event_step db ops)) c = Some k' \<and> ev_ackSeq k \<le> ev_ackSeq k'"
  using assms
proof (induction ops arbitrary: db k)
  case (Cons x ops)
  from Cons.prems event_step_cursor [of db c k x] obtain k1
    where "js_get (pg_event_cursors (event_step db x)) c = Some k1" and "ev_ackSeq k \<le> ev_ackSeq k1" by auto
  with Cons.IH [of "event_step db x" k1] Cons.prems show ?case by force
qed simp

lemma event_run_keeps:
  assumes "js_get (pg_event_cursors db) c = Some k" and "ForgetEv c \<notin> set ops" and "e \<in> set (pg_events db)"
    and "js_get (pg_event_cursors (run_ops event_step db ops)) c = Some k'" and "ev_ackSeq k' < sq_seq e"
  shows "e \<in> set (pg_events (run_ops event_step db ops))"
  using assms
proof (induction ops arbitrary: db k)
  case (Cons x ops)
  from event_run_cursor [OF Cons.prems(1,2)] Cons.prems(4,5) have "ev_ackSeq k < sq_seq e" by auto
  with Cons.prems have e: "e \<in> set (pg_events (event_step db x))" by (intro event_step_keeps)
  from Cons.prems event_step_cursor [of db c k x] obtain k1
    where k1: "js_get (pg_event_cursors (event_step db x)) c = Some k1" by auto
  have "ForgetEv c \<notin> set ops" using Cons.prems(2) by simp
  moreover have "js_get (pg_event_cursors (run_ops event_step (event_step db x) ops)) c = Some k'"
    using Cons.prems(4) by simp
  ultimately show ?case
    using Cons.IH [OF k1 _ e _ Cons.prems(5)] by simp
qed simp

text \<open>
  C10: safe pruning. As long as a consumer stays registered, its acknowledged position never goes back, and
  every event beyond it stays in the log and is returned by a read from that position, whatever
  appends, acknowledgements, departures of other consumers and safe prunes happen, each as one step.
\<close>

theorem safe_prune_keeps_unacked:
  fixes db :: "('r, 'w) pgdb"
  assumes "pg_getEventCursor db c = Some k" and "ForgetEv c \<notin> set ops" and "e \<in> set (pg_events db)"
  shows "\<exists>k'. pg_getEventCursor (run_ops event_step db ops) c = Some k' \<and> ev_ackSeq k \<le> ev_ackSeq k' \<and>
    (ev_ackSeq k' < sq_seq e \<longrightarrow> int (length (pg_events (run_ops event_step db ops))) \<le> limit \<longrightarrow>
       e \<in> set (pg_readEvents (run_ops event_step db ops) (Some (ev_ackSeq k')) (Some limit)))"
proof -
  let ?db = "run_ops event_step db ops"
  from event_run_cursor [OF assms(1) [unfolded pg_getEventCursor_def] assms(2)] obtain k'
    where k': "js_get (pg_event_cursors ?db) c = Some k'" "ev_ackSeq k \<le> ev_ackSeq k'" by blast
  have "e \<in> set (pg_readEvents ?db (Some (ev_ackSeq k')) (Some limit))"
    if "ev_ackSeq k' < sq_seq e" "int (length (pg_events ?db)) \<le> limit"
  proof -
    from event_run_keeps [OF assms(1) [unfolded pg_getEventCursor_def] assms(2,3) k'(1) that(1)]
    have "e \<in> set (filter (\<lambda>e. ev_ackSeq k' < sq_seq e) (sort_key sq_seq (pg_events ?db)))"
      using that(1) by simp
    moreover have "length (filter (\<lambda>e. ev_ackSeq k' < sq_seq e) (sort_key sq_seq (pg_events ?db))) \<le> nat (max 0 limit)"
      using that(2) length_filter_le [of "\<lambda>e. ev_ackSeq k' < sq_seq e" "sort_key sq_seq (pg_events ?db)"] by simp
    ultimately show ?thesis
      by (simp add: pg_readEvents_def)
  qed
  with k' show ?thesis by (auto simp: pg_getEventCursor_def)
qed

definition sample_events :: "(unit, unit) pgdb" where
  "sample_events = run_ops event_step empty_pgdb
     [AppendEv (AgentCreated sample_agent), AppendEv (AgentCreated sample_agent), AckEv ''slow'' 1 0, AckEv ''fast'' 2 0]"

theorem safe_prune_keeps_unacked_witness:
  "\<exists>k. pg_getEventCursor (run_ops event_step sample_events [PruneSafe]) ''slow'' = Some k \<and> ev_ackSeq k = 1 \<and>
     map sq_seq (pg_readEvents (run_ops event_step sample_events [PruneSafe]) (Some (ev_ackSeq k)) (Some 10)) = [2]"
proof -
  let ?k = "\<lparr>ev_consumerId = ''slow'', ev_ackSeq = 1, ev_updatedAt = 0\<rparr>"
  let ?db = "run_ops event_step sample_events [PruneSafe]"
  have a: "pg_getEventCursor sample_events ''slow'' = Some ?k" by code_simp
  have b: "ForgetEv ''slow'' \<notin> set [PruneSafe]" by simp
  have c: "\<lparr>sq_seq = 2, sq_event = AgentCreated sample_agent\<rparr> \<in> set (pg_events sample_events)" by code_simp
  have k: "pg_getEventCursor ?db ''slow'' = Some ?k" and
    l: "map sq_seq (pg_readEvents ?db (Some 1) (Some 10)) = [2]" by code_simp+
  from safe_prune_keeps_unacked [OF a b c, where limit = 10] k l show ?thesis by auto
qed

text \<open>
  The watermark and the deletion are two statements: a consumer that registers between them loses events
  it has not acknowledged.
\<close>

lemma prune_races_registration:
  "let db = run_ops event_step (empty_pgdb :: (unit, unit) pgdb) [AppendEv (AgentCreated sample_agent), AckEv ''fast'' 1 0];
       (n, db') = pg_pruneEventsSafe (\<lambda>db. snd (pg_ackEvent db ''late'' 0 1)) db
   in n = 1 \<and> pg_getEventCursor db' ''late'' = Some \<lparr>ev_consumerId = ''late'', ev_ackSeq = 0, ev_updatedAt = 1\<rparr> \<and>
      pg_readEvents db' (Some 0) None = []"
  by code_simp

subsection \<open>Compare-and-swap\<close>

datatype project_call = PutProject ProjectSpec | CasProject ProjectSpec int int

fun project_step :: "('r, 'w) pgdb \<Rightarrow> project_call \<Rightarrow> ('r, 'w) pgdb" where
  "project_step db (PutProject p) = snd (pg_putProject (\<lambda>db. db) db p)"
| "project_step db (CasProject p expected now) = snd (pg_compareAndSwapProject (\<lambda>db. db) db p expected now)"

definition project_at :: "('r, 'w) pgdb \<Rightarrow> string \<Rightarrow> int \<Rightarrow> bool" where
  "project_at db i n \<longleftrightarrow> (\<exists>p. pg_getProject db i = Some p \<and> n \<le> pj_revision p)"

lemmas project_defs = pg_getProject_def pg_putProject_def pg_compareAndSwapProject_def cas_update_def Let_def

lemma project_step_at: "project_at db i n \<Longrightarrow> project_at (project_step db x) i n"
  by (cases x) (auto simp: project_at_def project_defs split: option.splits if_splits)

lemma project_run_at: "project_at db i n \<Longrightarrow> project_at (run_ops project_step db ops) i n"
  using run_ops_invariant [of "\<lambda>db. project_at db i n" project_step] project_step_at by blast

text \<open>
  Optimistic concurrency. A project update conditional on the current revision is applied with the
  next revision and touches no other project. Whatever puts and updates follow, another update
  conditional on that revision is refused with the then current project, and a put that does not
  carry a newer revision is refused, neither changing anything; of writers that read the same
  revision one wins.
\<close>

theorem project_update_once:
  fixes db :: "('r, 'w) pgdb"
  assumes "pg_getProject db (pj_id p) = Some old" and "pj_revision old = e"
    and "pg_compareAndSwapProject env db p e now = (res, db1)"
    and "pj_id q = pj_id p" and "e' \<le> e" and "pj_revision q \<le> e + 1"
  shows "res = Inr \<lparr>cas_swapped = True, cas_value = p\<lparr>pj_revision := e + 1, pj_updatedAt := now\<rparr>\<rparr> \<and>
    pg_getProject db1 (pj_id p) = Some (p\<lparr>pj_revision := e + 1, pj_updatedAt := now\<rparr>) \<and>
    (\<forall>j. j \<noteq> pj_id p \<longrightarrow> pg_getProject db1 j = pg_getProject db j) \<and>
    (let db2 = run_ops project_step db1 ops
     in \<exists>current. pg_getProject db2 (pj_id p) = Some current \<and>
          pg_compareAndSwapProject (\<lambda>db. db) db2 q e' now' = (Inr \<lparr>cas_swapped = False, cas_value = current\<rparr>, db2) \<and>
          pg_putProject (\<lambda>db. db) db2 q = (Inl (RequiresNewerRevision (pj_id p) (pj_revision current)), db2))"
proof -
  from assms(1-3)
  have res: "res = Inr \<lparr>cas_swapped = True, cas_value = p\<lparr>pj_revision := e + 1, pj_updatedAt := now\<rparr>\<rparr>"
    and db1: "pg_getProject db1 (pj_id p) = Some (p\<lparr>pj_revision := e + 1, pj_updatedAt := now\<rparr>)"
    and other: "\<forall>j. j \<noteq> pj_id p \<longrightarrow> pg_getProject db1 j = pg_getProject db j"
    by (auto simp: project_defs)
  from db1 have "project_at db1 (pj_id p) (e + 1)" by (simp add: project_at_def)
  from project_run_at [OF this, of ops] obtain current
    where "pg_getProject (run_ops project_step db1 ops) (pj_id p) = Some current" and "e + 1 \<le> pj_revision current"
    by (auto simp: project_at_def)
  then have "\<exists>current. pg_getProject (run_ops project_step db1 ops) (pj_id p) = Some current \<and>
     pg_compareAndSwapProject (\<lambda>db. db) (run_ops project_step db1 ops) q e' now' =
       (Inr \<lparr>cas_swapped = False, cas_value = current\<rparr>, run_ops project_step db1 ops) \<and>
     pg_putProject (\<lambda>db. db) (run_ops project_step db1 ops) q =
       (Inl (RequiresNewerRevision (pj_id p) (pj_revision current)), run_ops project_step db1 ops)"
    using assms(4-6) by (auto simp: project_defs)
  with res db1 other show ?thesis by (simp add: Let_def)
qed

definition sample_project :: ProjectSpec where
  "sample_project = \<lparr>pj_id = ''p'', pj_revision = 0, pj_name = ''n'', pj_objective = ''o'', pj_createdAt = 0,
     pj_updatedAt = 0, pj_constraints = [], pj_decisions = [], pj_taskIds = [], pj_artifactIds = [], pj_metadata = []\<rparr>"

theorem project_update_once_witness:
  "let db = run_ops project_step (empty_pgdb :: (unit, unit) pgdb) [PutProject sample_project, CasProject sample_project 0 5]
   in fst (pg_compareAndSwapProject (\<lambda>db. db) db (sample_project\<lparr>pj_name := ''other''\<rparr>) 0 6) =
        Inr \<lparr>cas_swapped = False, cas_value = sample_project\<lparr>pj_revision := 1, pj_updatedAt := 5\<rparr>\<rparr>"
proof -
  let ?db = "project_step (empty_pgdb :: (unit, unit) pgdb) (PutProject sample_project)"
  let ?db1 = "project_step ?db (CasProject sample_project 0 5)"
  let ?q = "sample_project\<lparr>pj_name := ''other''\<rparr>"
  have a: "pg_getProject ?db (pj_id sample_project) = Some sample_project" by code_simp
  have b: "pj_revision sample_project = 0" by (simp add: sample_project_def)
  have c: "pg_compareAndSwapProject (\<lambda>db. db) ?db sample_project 0 5 =
      (Inr \<lparr>cas_swapped = True, cas_value = sample_project\<lparr>pj_revision := 1, pj_updatedAt := 5\<rparr>\<rparr>, ?db1)" by code_simp
  have d: "pj_id ?q = pj_id sample_project" by simp
  have e: "pj_revision ?q \<le> 0 + 1" by (simp add: sample_project_def)
  have f: "pg_getProject ?db1 (pj_id sample_project) = Some (sample_project\<lparr>pj_revision := 1, pj_updatedAt := 5\<rparr>)" by code_simp
  from project_update_once [OF a b c d order_refl e, where ops = "[]" and now' = 6] f show ?thesis
    by (auto simp: Let_def simp del: project_step.simps)
qed

text \<open>A task's revision is not protected the same way: an unconditional put may lower it.\<close>

definition sample_task :: TaskSpec where
  "sample_task = \<lparr>tk_id = ''t'', tk_revision = Some 7, tk_title = ''t'', tk_objective = ''o'', tk_constraints = None,
     tk_dependencies = None, tk_owner = None, tk_contributors = None, tk_status = TaskPending, tk_metadata = None\<rparr>"

lemma putTask_lowers_revision:
  "let db = pg_putTask (empty_pgdb :: (unit, unit) pgdb) sample_task;
       db' = pg_putTask db (sample_task\<lparr>tk_revision := None\<rparr>)
   in map_option task_rev (pg_getTask db ''t'') = Some 7 \<and> map_option task_rev (pg_getTask db' ''t'') = Some 0"
  by code_simp

subsection \<open>Receipts\<close>

definition pg_claim_effect :: "('r, 'w) pgdb \<Rightarrow> 'r DurableEffectRecord \<Rightarrow> 'r DurableEffectRecord ClaimResult \<times> ('r, 'w) pgdb" where
  "pg_claim_effect db record =
     (case js_get (pg_effects db) (f_id record) of
        None \<Rightarrow> (\<lparr>claimed = True, claim_record = record\<rparr>, db\<lparr>pg_effects := js_set (f_id record) record (pg_effects db)\<rparr>)
      | Some e \<Rightarrow> (\<lparr>claimed = False, claim_record = e\<rparr>, db))"

text \<open>
  Rows of the effects table are never deleted, so a claim that loses always finds the winner's row; if
  nobody wrote in between, it answers as the one-step claim does.
\<close>

lemma pg_claimEffect_total:
  assumes "\<And>i. js_get (pg_effects db) i \<noteq> None \<Longrightarrow> js_get (pg_effects (env db)) i \<noteq> None"
  shows "\<exists>c db'. pg_claimEffect env db r = (Inr c, db') \<and> claimed c = (js_get (pg_effects db) (f_id r) = None)"
  using assms [of "f_id r"] by (cases "js_get (pg_effects db) (f_id r)") (auto simp: pg_claimEffect_def)

lemma pg_claimEffect_alone:
  "pg_claimEffect (\<lambda>db. db) db r = (Inr (fst (pg_claim_effect db r)), snd (pg_claim_effect db r))"
  by (simp add: pg_claimEffect_def pg_claim_effect_def split: option.splits)

lemma pg_putEffect_guard:
  "pg_putEffect db r = (if canReplaceEffect (js_get (pg_effects db) (f_id r)) r
     then db\<lparr>pg_effects := js_set (f_id r) r (pg_effects db)\<rparr> else db)"
  by (auto simp: pg_putEffect_def canReplaceEffect_def Let_def split: option.splits)

lemma pg_putCommand_guard:
  "pg_putCommand db r = (if canReplaceCommand (js_get (pg_commands db) (c_id r)) r
     then db\<lparr>pg_commands := js_set (c_id r) r (pg_commands db)\<rparr> else db)"
  by (auto simp: pg_putCommand_def canReplaceCommand_def Let_def split: option.splits)

interpretation pg_receipts: effect_receipts pg_getEffect pg_putEffect pg_claim_effect
  by unfold_locales (auto simp: pg_getEffect_def pg_putEffect_guard pg_claim_effect_def)

interpretation pg_broker: broker_store pg_getEffect pg_putEffect pg_claim_effect
  by unfold_locales

definition pg_ops :: "(EffectResult, 'w) pgdb receipt_ops" where
  "pg_ops = \<lparr>ro_get = pg_getEffect, ro_put = pg_putEffect, ro_claim = Some pg_claim_effect\<rparr>"

text \<open>The rows the receipt methods read, seen as the single-process store.\<close>

definition runtime_of :: "('r, 'w) pgdb \<Rightarrow> ('r, 'w) local_state" where
  "runtime_of db = \<lparr>commands = pg_commands db, workspaces = pg_checkpoints db,
     turns = map (\<lambda>(i, at, t). (i, t)) (pg_turns db), effects = pg_effects db\<rparr>"

lemma map_rows_set: "map (\<lambda>(i, at, t). (i, t)) (js_set k (a, v) m) = js_set k v (map (\<lambda>(i, at, t). (i, t)) m)"
  by (induction m) auto

lemma map_rows_get: "js_get (map (\<lambda>(i, at, t). (i, t)) m) k = map_option snd (js_get m k)"
  by (induction m) auto

lemma list_turns_same: "set (pg_listTurns db status) = set (listTurns (runtime_of db) status)"
proof -
  have "set (pg_listTurns db status) = {t. \<exists>i at. (i, at, t) \<in> set (pg_turns db) \<and> (case status of None \<Rightarrow> True | Some st \<Rightarrow> t_status t = st)}"
    unfolding pg_listTurns_def by (auto simp: image_iff) force
  also have "\<dots> = set (listTurns (runtime_of db) status)"
    unfolding listTurns_def js_values_def runtime_of_def by (auto simp: image_iff) force+
  finally show ?thesis .
qed



end
