(* ===== verification/Lanes.thy ===== *)
theory Lanes
  imports Prelude Complex_Main
begin

text \<open>
  Priority lanes of the inference gateway (\<^verbatim>\<open>src/src/inference/gateway/lane-scheduler.ts\<close>): the
  \<^verbatim>\<open>LaneScheduler\<close> with its bounded concurrency, deadline queue, band order, lower-band reservation and
  weighted fair share, and the \<^verbatim>\<open>PriorityLanePolicy\<close> that parks requests on it. Methods of the scheduler
  do not await, so each is one step; the clock a method reads is an argument. Times and priorities are
  integers; weights, deficits and the reservation are rationals, computed exactly where the code
  computes in floating point. A weight, capacity or fraction that is not a finite number is \<open>None\<close>.
\<close>

subsection \<open>Data\<close>

record LaneSpec =
  ln_id :: string
  ln_priority :: int
  ln_weight :: "rat option"
  ln_maxWaitMs :: int

record AdmissionRequest =
  rq_lane :: string
  rq_tenantId :: string
  rq_key :: string
  rq_at :: int

datatype AdmissionRejection = UnknownLane | LaneFull | Deadline | RateLimitedLane

datatype AdmissionDecision = Admit | Queue int string | Reject AdmissionRejection int

record Queued =
  qd_ticket :: string
  qd_request :: AdmissionRequest
  qd_enqueuedAt :: int

record LaneSchedulerOptions =
  lo_capacity :: "rat option"
  lo_defaultLane :: "string option"
  lo_estimatedServiceMs :: "int option"
  lo_lowerBandReserveFraction :: "rat option option"

record LaneScheduler =
  sc_lanes :: "(string, LaneSpec) jsmap"
  sc_capacity :: int
  sc_defaultLane :: string
  sc_estimatedServiceMs :: int
  sc_inFlight :: int
  sc_queue :: "Queued list"
  sc_sequence :: nat
  sc_deficit :: "(string, rat) jsmap"
  sc_reserveFraction :: rat
  sc_reserveCredit :: rat

datatype lane_config_error = NoLanes | InvalidCapacity "rat option" | DuplicateLane string | UnknownDefaultLane string

subsection \<open>Construction\<close>

fun add_lanes :: "LaneSpec list \<Rightarrow> (string, LaneSpec) jsmap \<Rightarrow> lane_config_error + (string, LaneSpec) jsmap" where
  "add_lanes [] m = Inr m"
| "add_lanes (l # ls) m =
     (if js_get m (ln_id l) \<noteq> None then Inl (DuplicateLane (ln_id l)) else add_lanes ls (js_set (ln_id l) l m))"

definition is_integer :: "rat option \<Rightarrow> bool" where
  "is_integer c = (case c of None \<Rightarrow> False | Some q \<Rightarrow> of_int \<lfloor>q\<rfloor> = q)"

definition new_scheduler :: "LaneSpec list \<Rightarrow> LaneSchedulerOptions \<Rightarrow> lane_config_error + LaneScheduler" where
  "new_scheduler lanes options =
     (if lanes = [] then Inl NoLanes
      else if \<not> is_integer (lo_capacity options) \<or> opt_or (lo_capacity options) 0 < 1
      then Inl (InvalidCapacity (lo_capacity options))
      else (case add_lanes lanes [] of
              Inl e \<Rightarrow> Inl e
            | Inr m \<Rightarrow>
                (let fallback = hd (sort_key ln_priority lanes);
                     dflt = opt_or (lo_defaultLane options) (ln_id fallback)
                 in if js_get m dflt = None then Inl (UnknownDefaultLane dflt)
                    else Inr \<lparr>sc_lanes = m, sc_capacity = \<lfloor>opt_or (lo_capacity options) 0\<rfloor>, sc_defaultLane = dflt,
                              sc_estimatedServiceMs = max 0 (opt_or (lo_estimatedServiceMs options) 1000),
                              sc_inFlight = 0, sc_queue = [], sc_sequence = 0, sc_deficit = [],
                              sc_reserveFraction = (case opt_or (lo_lowerBandReserveFraction options) (Some (1 / 5)) of
                                                      Some q \<Rightarrow> max 0 (min 1 q) | None \<Rightarrow> 1 / 5),
                              sc_reserveCredit = 0\<rparr>)))"

subsection \<open>Operations\<close>

definition lane_of :: "LaneScheduler \<Rightarrow> string \<Rightarrow> LaneSpec option" where
  "lane_of s lane = (case js_get (sc_lanes s) lane of Some l \<Rightarrow> Some l | None \<Rightarrow> js_get (sc_lanes s) (sc_defaultLane s))"

definition ticket_of :: "nat \<Rightarrow> string" where
  "ticket_of n = ''t'' @ show_nat n"

definition admit :: "LaneScheduler \<Rightarrow> AdmissionRequest \<Rightarrow> int \<Rightarrow> AdmissionDecision \<times> LaneScheduler" where
  "admit s request now =
     (case lane_of s (rq_lane request) of
        None \<Rightarrow> (Reject UnknownLane 0, s)
      | Some lane \<Rightarrow>
          if sc_inFlight s < sc_capacity s then (Admit, s\<lparr>sc_inFlight := sc_inFlight s + 1\<rparr>)
          else if ln_maxWaitMs lane \<le> 0 then (Reject LaneFull 0, s)
          else (let n = Suc (sc_sequence s);
                    q = sc_queue s @ [\<lparr>qd_ticket = ticket_of n, qd_request = request, qd_enqueuedAt = now\<rparr>];
                    retryAfterMs = max 0 (int (length q) - 1) * sc_estimatedServiceMs s
                in (Queue retryAfterMs (ticket_of n), s\<lparr>sc_sequence := n, sc_queue := q\<rparr>)))"

text \<open>Both \<^verbatim>\<open>expire\<close> and \<^verbatim>\<open>takeNext\<close> drop what has waited longer than its lane allows; the default lane always exists.\<close>

definition overdue :: "LaneScheduler \<Rightarrow> int \<Rightarrow> Queued \<Rightarrow> bool" where
  "overdue s now e =
     (case lane_of s (rq_lane (qd_request e)) of
        Some lane \<Rightarrow> ln_maxWaitMs lane > 0 \<and> now - qd_enqueuedAt e > ln_maxWaitMs lane
      | None \<Rightarrow> False)"

definition expire :: "LaneScheduler \<Rightarrow> int \<Rightarrow> (AdmissionRequest \<times> AdmissionRejection \<times> int) list \<times> LaneScheduler" where
  "expire s now =
     (map (\<lambda>e. (qd_request e, Deadline, 0)) (filter (overdue s now) (sc_queue s)),
      s\<lparr>sc_queue := filter (\<lambda>e. \<not> overdue s now e) (sc_queue s)\<rparr>)"

definition priorityOf :: "LaneScheduler \<Rightarrow> Queued \<Rightarrow> int" where
  "priorityOf s e = (case js_get (sc_lanes s) (rq_lane (qd_request e)) of Some l \<Rightarrow> ln_priority l | None \<Rightarrow> 0)"

definition weightOf :: "LaneScheduler \<Rightarrow> string \<Rightarrow> rat" where
  "weightOf s lane =
     (case js_get (sc_lanes s) lane of
        None \<Rightarrow> 1
      | Some l \<Rightarrow> (case ln_weight l of Some w \<Rightarrow> if w > 0 then w else 1 | None \<Rightarrow> 1))"

definition first_index :: "Queued list \<Rightarrow> string \<Rightarrow> nat" where
  "first_index entries lane = length (takeWhile (\<lambda>e. rq_lane (qd_request e) \<noteq> lane) entries)"

definition active_lanes :: "Queued list \<Rightarrow> string list" where
  "active_lanes entries = foldl (\<lambda>ls e. set_add (rq_lane (qd_request e)) ls) [] entries"

definition credit_lanes :: "LaneScheduler \<Rightarrow> string list \<Rightarrow> (string, rat) jsmap" where
  "credit_lanes s lanes = foldl (\<lambda>d l. js_set l (opt_or (js_get d l) 0 + weightOf s l) d) (sc_deficit s) lanes"

definition best_lane :: "(string, rat) jsmap \<Rightarrow> Queued list \<Rightarrow> string list \<Rightarrow> string" where
  "best_lane d entries lanes =
     foldl (\<lambda>best l.
       (let deficit = opt_or (js_get d l) 0; bestDeficit = opt_or (js_get d best) 0
        in if deficit > bestDeficit \<or> deficit = bestDeficit \<and> first_index entries l < first_index entries best
           then l else best)) (hd lanes) lanes"

definition pickWeighted :: "LaneScheduler \<Rightarrow> Queued list \<Rightarrow> Queued option \<times> LaneScheduler" where
  "pickWeighted s entries =
     (let lanes = active_lanes entries;
          totalWeight = sum_list (map (weightOf s) lanes);
          d = credit_lanes s lanes;
          best = best_lane d entries lanes;
          d' = js_set best (opt_or (js_get d best) 0 - totalWeight) d
      in (find (\<lambda>e. rq_lane (qd_request e) = best) entries, s\<lparr>sc_deficit := d'\<rparr>))"

definition max_priority :: "LaneScheduler \<Rightarrow> Queued list \<Rightarrow> int" where
  "max_priority s q = foldl max (priorityOf s (hd q)) (map (priorityOf s) (tl q))"

definition takeNext :: "LaneScheduler \<Rightarrow> int \<Rightarrow> Queued option \<times> LaneScheduler" where
  "takeNext s now =
     (if sc_queue s = [] then (None, s)
      else (let q = filter (\<lambda>e. \<not> overdue s now e) (sc_queue s);
                s1 = s\<lparr>sc_queue := q\<rparr>
            in if q = [] then (None, s1)
               else (let m = max_priority s q;
                         top = filter (\<lambda>e. priorityOf s e = m) q;
                         lower = filter (\<lambda>e. priorityOf s e < m) q;
                         reserved = (top = [] \<or> lower \<noteq> [] \<and> sc_reserveCredit s \<ge> 1);
                         grp = (if reserved then lower else top);
                         credit = (if reserved \<and> top \<noteq> [] then sc_reserveCredit s - 1 else sc_reserveCredit s);
                         s2 = s1\<lparr>sc_reserveCredit := min 1 (credit + sc_reserveFraction s)\<rparr>;
                         (chosen, s3) = pickWeighted s2 grp
                     in (case chosen of
                           Some e \<Rightarrow> (Some e, s3\<lparr>sc_queue := remove1 e q\<rparr>)
                         | None \<Rightarrow> (None, s3)))))"

definition release :: "LaneScheduler \<Rightarrow> int \<Rightarrow> (string \<times> AdmissionRequest) option \<times> LaneScheduler" where
  "release s now =
     (let s1 = (if sc_inFlight s > 0 then s\<lparr>sc_inFlight := sc_inFlight s - 1\<rparr> else s)
      in (case takeNext s1 now of
            (Some e, s2) \<Rightarrow> (Some (qd_ticket e, qd_request e), s2\<lparr>sc_inFlight := sc_inFlight s2 + 1\<rparr>)
          | (None, s2) \<Rightarrow> (None, s2)))"

definition cancel :: "LaneScheduler \<Rightarrow> string \<Rightarrow> bool \<times> LaneScheduler" where
  "cancel s ticket =
     (case find (\<lambda>e. qd_ticket e = ticket) (sc_queue s) of
        None \<Rightarrow> (False, s)
      | Some e \<Rightarrow> (True, s\<lparr>sc_queue := remove1 e (sc_queue s)\<rparr>))"

definition pending :: "LaneScheduler \<Rightarrow> AdmissionRequest list" where
  "pending s = map qd_request (sc_queue s)"

subsection \<open>The gateway policy\<close>

text \<open>
  A request that must wait is parked under its ticket until a release resolves it or its timer rejects
  it; \<open>pl_waiters\<close> are the tickets with a live promise.
\<close>

record PriorityLanePolicy =
  pl_scheduler :: LaneScheduler
  pl_defaultLane :: string
  pl_waiters :: "string list"

datatype lane_answer = Authorized | Refused AdmissionRejection int | Parked string int

definition new_policy :: "LaneScheduler \<Rightarrow> string option \<Rightarrow> PriorityLanePolicy" where
  "new_policy s defaultLane = \<lparr>pl_scheduler = s, pl_defaultLane = opt_or defaultLane ''batch'', pl_waiters = []\<rparr>"

definition lane_authorize ::
  "PriorityLanePolicy \<Rightarrow> string \<Rightarrow> string \<Rightarrow> string option \<Rightarrow> int \<Rightarrow> lane_answer \<times> PriorityLanePolicy" where
  "lane_authorize p tenantId subject principal_lane now =
     (let lane = opt_or principal_lane (pl_defaultLane p);
          (decision, s) = admit (pl_scheduler p) \<lparr>rq_lane = lane, rq_tenantId = tenantId, rq_key = subject, rq_at = now\<rparr> now;
          p1 = p\<lparr>pl_scheduler := s\<rparr>
      in (case decision of
            Admit \<Rightarrow> (Authorized, p1)
          | Reject reason retryAfterMs \<Rightarrow> (Refused reason retryAfterMs, p1)
          | Queue _ ticket \<Rightarrow>
              (let spec = (case js_get (sc_lanes s) lane of Some l \<Rightarrow> Some l | None \<Rightarrow> js_get (sc_lanes s) (pl_defaultLane p));
                   maxWaitMs = (case spec of Some l \<Rightarrow> ln_maxWaitMs l | None \<Rightarrow> 0)
               in (Parked ticket (max 1 maxWaitMs), p1\<lparr>pl_waiters := set_add ticket (pl_waiters p1)\<rparr>))))"

definition lane_timeout :: "PriorityLanePolicy \<Rightarrow> string \<Rightarrow> PriorityLanePolicy" where
  "lane_timeout p ticket =
     p\<lparr>pl_waiters := set_delete ticket (pl_waiters p), pl_scheduler := snd (cancel (pl_scheduler p) ticket)\<rparr>"

definition lane_release :: "PriorityLanePolicy \<Rightarrow> int \<Rightarrow> string option \<times> PriorityLanePolicy" where
  "lane_release p now =
     (case release (pl_scheduler p) now of
        (None, s) \<Rightarrow> (None, p\<lparr>pl_scheduler := s\<rparr>)
      | (Some (ticket, _), s) \<Rightarrow>
          if ticket \<in> set (pl_waiters p)
          then (Some ticket, p\<lparr>pl_scheduler := s, pl_waiters := set_delete ticket (pl_waiters p)\<rparr>)
          else (None, p\<lparr>pl_scheduler := s\<rparr>))"

end
