(* ===== verification/Lanes_Laws.thy ===== *)
theory Lanes_Laws
  imports Lanes
begin

text \<open>
  What the lanes guarantee: the concurrency bound and its accounting across parked requests, which request
  a freed slot goes to, and that a waiting lower band is passed over only a bounded number of times.
\<close>

subsection \<open>Choosing an entry\<close>

lemma active_lanes_set: "set (active_lanes es) = (\<lambda>e. rq_lane (qd_request e)) ` set es"
proof -
  have "set (foldl (\<lambda>ls e. set_add (rq_lane (qd_request e)) ls) acc es) = set acc \<union> (\<lambda>e. rq_lane (qd_request e)) ` set es" for acc
    by (induction es arbitrary: acc) auto
  then show ?thesis by (simp add: active_lanes_def)
qed

lemma active_lanes_Nil: "active_lanes es = [] \<longleftrightarrow> es = []"
  using active_lanes_set [of es] by (metis image_is_empty set_empty)

lemma foldl_choose_in:
  assumes "\<And>b l. f b l = b \<or> f b l = l"
  shows "foldl f b ls \<in> insert b (set ls)"
proof (induction ls arbitrary: b)
  case (Cons l ls)
  from Cons.IH [of "f b l"] assms [of b l] show ?case by auto
qed simp

lemma best_lane_in: "lanes \<noteq> [] \<Longrightarrow> best_lane d es lanes \<in> set lanes"
proof -
  assume "lanes \<noteq> []"
  have "best_lane d es lanes \<in> insert (hd lanes) (set lanes)"
    unfolding best_lane_def Let_def by (rule foldl_choose_in) simp
  with \<open>lanes \<noteq> []\<close> show ?thesis by auto
qed

lemma pickWeighted_in:
  assumes "es \<noteq> []"
  shows "\<exists>e \<in> set es. \<exists>d. pickWeighted s es = (Some e, s\<lparr>sc_deficit := d\<rparr>)"
proof -
  let ?lane = "\<lambda>e. rq_lane (qd_request e)"
  let ?best = "best_lane (credit_lanes s (active_lanes es)) es (active_lanes es)"
  have "?best \<in> ?lane ` set es"
    using best_lane_in [of "active_lanes es"] assms by (simp add: active_lanes_Nil active_lanes_set)
  then have "find (\<lambda>e. ?lane e = ?best) es \<noteq> None"
    by (auto simp: find_None_iff)
  then obtain e where "find (\<lambda>e. ?lane e = ?best) es = Some e" by blast
  moreover from this have "e \<in> set es" by (auto simp: find_Some_iff)
  ultimately show ?thesis by (auto simp: pickWeighted_def Let_def)
qed

lemma foldl_max_ge: "x \<in> insert a (set xs) \<Longrightarrow> x \<le> foldl max a (xs :: int list)"
proof (induction xs arbitrary: a x)
  case (Cons y ys)
  from Cons.IH [of "max a y" "max a y"] have m: "max a y \<le> foldl max (max a y) ys" by simp
  from Cons.prems consider "x = a" | "x = y" | "x \<in> set ys" by auto
  then show ?case
    using m Cons.IH [of x "max a y"] by cases auto
qed simp

lemma foldl_max_in: "foldl max a xs \<in> insert a (set (xs :: int list))"
  by (induction xs arbitrary: a) (force simp: max_def split: if_splits)+

lemma max_priority_ge: "e \<in> set q \<Longrightarrow> priorityOf s e \<le> max_priority s q"
  by (cases q) (auto simp: max_priority_def intro!: foldl_max_ge)

lemma max_priority_in: "q \<noteq> [] \<Longrightarrow> \<exists>e \<in> set q. priorityOf s e = max_priority s q"
  using foldl_max_in [of "priorityOf s (hd q)" "map (priorityOf s) (tl q)"]
  by (cases q) (auto simp: max_priority_def)

text \<open>Entries still within their deadline, and those of them below the highest band present.\<close>

definition live :: "LaneScheduler \<Rightarrow> int \<Rightarrow> Queued list" where
  "live s now = filter (\<lambda>e. \<not> overdue s now e) (sc_queue s)"

definition lower_waiting :: "LaneScheduler \<Rightarrow> int \<Rightarrow> Queued list" where
  "lower_waiting s now = filter (\<lambda>e. priorityOf s e < max_priority s (live s now)) (live s now)"

definition reserve_owed :: "LaneScheduler \<Rightarrow> int \<Rightarrow> bool" where
  "reserve_owed s now \<longleftrightarrow> lower_waiting s now \<noteq> [] \<and> 1 \<le> sc_reserveCredit s"

text \<open>The band the next entry comes from, and the reservation after it was taken.\<close>

definition right_band :: "LaneScheduler \<Rightarrow> int \<Rightarrow> Queued \<Rightarrow> bool" where
  "right_band s now e \<longleftrightarrow>
     (if reserve_owed s now then priorityOf s e < max_priority s (live s now) else priorityOf s e = max_priority s (live s now))"

definition next_credit :: "LaneScheduler \<Rightarrow> int \<Rightarrow> rat" where
  "next_credit s now = min 1 ((if reserve_owed s now then sc_reserveCredit s - 1 else sc_reserveCredit s) + sc_reserveFraction s)"

lemma frame_inFlight:
  "live (s\<lparr>sc_inFlight := n\<rparr>) now = live s now" "priorityOf (s\<lparr>sc_inFlight := n\<rparr>) = priorityOf s"
  "max_priority (s\<lparr>sc_inFlight := n\<rparr>) = max_priority s" "reserve_owed (s\<lparr>sc_inFlight := n\<rparr>) now = reserve_owed s now"
  "right_band (s\<lparr>sc_inFlight := n\<rparr>) now = right_band s now" "next_credit (s\<lparr>sc_inFlight := n\<rparr>) now = next_credit s now"
proof -
  have "overdue (s\<lparr>sc_inFlight := n\<rparr>) = overdue s"
  proof -
    have "lane_of (s\<lparr>sc_inFlight := n\<rparr>) = lane_of s" by (rule ext) (simp add: lane_of_def split: option.split)
    then show ?thesis by (simp add: overdue_def [abs_def])
  qed
  then show l: "live (s\<lparr>sc_inFlight := n\<rparr>) now = live s now" by (simp add: live_def)
  show p: "priorityOf (s\<lparr>sc_inFlight := n\<rparr>) = priorityOf s" by (simp add: priorityOf_def [abs_def])
  then show m: "max_priority (s\<lparr>sc_inFlight := n\<rparr>) = max_priority s" by (simp add: max_priority_def [abs_def])
  show r: "reserve_owed (s\<lparr>sc_inFlight := n\<rparr>) now = reserve_owed s now"
    by (simp add: reserve_owed_def lower_waiting_def l p m)
  show "right_band (s\<lparr>sc_inFlight := n\<rparr>) now = right_band s now"
    by (rule ext) (simp only: right_band_def l p m r)
  show "next_credit (s\<lparr>sc_inFlight := n\<rparr>) now = next_credit s now"
    by (simp add: next_credit_def r)
qed

text \<open>What \<^verbatim>\<open>takeNext\<close> does, as one equation per case.\<close>

lemma takeNext_none:
  assumes "live s now = []"
  shows "\<exists>s'. takeNext s now = (None, s') \<and> s' = s\<lparr>sc_queue := []\<rparr>"
  using assms by (cases "sc_queue s") (auto simp: takeNext_def live_def Let_def)

lemma takeNext_some:
  assumes "live s now \<noteq> []"
  shows "\<exists>e d. takeNext s now =
      (Some e, s\<lparr>sc_queue := remove1 e (live s now), sc_deficit := d, sc_reserveCredit := next_credit s now\<rparr>) \<and>
    e \<in> set (live s now) \<and> right_band s now e"
proof -
  let ?q = "live s now" and ?m = "max_priority s (live s now)"
  let ?top = "filter (\<lambda>e. priorityOf s e = ?m) ?q"
  have top: "?top \<noteq> []" using max_priority_in [OF assms, of s] by (auto simp: filter_empty_conv)
  have q: "sc_queue s \<noteq> []" using assms by (auto simp: live_def)
  let ?grp = "if reserve_owed s now then lower_waiting s now else ?top"
  let ?s2 = "s\<lparr>sc_queue := ?q, sc_reserveCredit := next_credit s now\<rparr>"
  have "?grp \<noteq> []" using top by (auto simp: reserve_owed_def)
  from pickWeighted_in [OF this, of ?s2] obtain e d where e: "e \<in> set ?grp"
    and pick: "pickWeighted ?s2 ?grp = (Some e, ?s2\<lparr>sc_deficit := d\<rparr>)" by blast
  have "takeNext s now = (Some e, (?s2\<lparr>sc_deficit := d\<rparr>)\<lparr>sc_queue := remove1 e ?q\<rparr>)"
  proof (cases "reserve_owed s now")
    case True
    with q assms top pick show ?thesis
      by (simp add: takeNext_def live_def [symmetric] lower_waiting_def [symmetric] reserve_owed_def next_credit_def Let_def)
  next
    case False
    with q assms top pick show ?thesis
      by (auto simp: takeNext_def live_def [symmetric] lower_waiting_def [symmetric] reserve_owed_def next_credit_def Let_def)
  qed
  moreover have "e \<in> set ?q" and "right_band s now e"
    using e by (auto simp: lower_waiting_def right_band_def split: if_splits)
  ultimately show ?thesis by (intro exI [of _ e] exI [of _ d]) simp
qed

subsection \<open>The bound on concurrency\<close>

definition sched_ok :: "LaneScheduler \<Rightarrow> bool" where
  "sched_ok s \<longleftrightarrow> 1 \<le> sc_capacity s \<and> 0 \<le> sc_inFlight s \<and> sc_inFlight s \<le> sc_capacity s \<and>
     (sc_queue s \<noteq> [] \<longrightarrow> sc_inFlight s = sc_capacity s) \<and>
     distinct (map qd_ticket (sc_queue s)) \<and>
     (\<forall>e \<in> set (sc_queue s). \<exists>n \<in> {1..sc_sequence s}. qd_ticket e = ticket_of n) \<and>
     0 \<le> sc_reserveFraction s \<and> sc_reserveFraction s \<le> 1 \<and> 0 \<le> sc_reserveCredit s \<and>
     js_get (sc_lanes s) (sc_defaultLane s) \<noteq> None"

lemma ticket_of_inj [simp]: "ticket_of m = ticket_of n \<longleftrightarrow> m = n"
  by (simp add: ticket_of_def)

lemma new_scheduler_ok: "new_scheduler lanes options = Inr s \<Longrightarrow> sched_ok s"
  by (auto simp: new_scheduler_def sched_ok_def Let_def le_floor_iff split: if_splits sum.splits option.splits)

text \<open>Removing entries from the queue, whichever, keeps what the invariant says of it.\<close>

lemma sched_ok_shrink:
  assumes "sched_ok s" and "set q \<subseteq> set (sc_queue s)" and "distinct (map qd_ticket q)" and "q \<noteq> [] \<longrightarrow> sc_inFlight s = sc_capacity s"
  shows "sched_ok (s\<lparr>sc_queue := q\<rparr>)"
  using assms by (auto simp: sched_ok_def)

lemma distinct_tickets:
  assumes "sched_ok s"
  shows "distinct (map qd_ticket (filter P (sc_queue s)))" and "distinct (map qd_ticket (remove1 e (filter P (sc_queue s))))"
    and "distinct (map qd_ticket (remove1 e (sc_queue s)))"
proof -
  from assms have d: "distinct (map qd_ticket (sc_queue s))" by (simp add: sched_ok_def)
  have r: "distinct (map f (remove1 x xs))" if "distinct (map f xs)" for f :: "Queued \<Rightarrow> string" and x xs
    using that set_remove1_subset [of x] by (induction xs) (simp_all, blast)
  from d show f: "distinct (map qd_ticket (filter P (sc_queue s)))" by (rule distinct_map_filter)
  from r [OF f] show "distinct (map qd_ticket (remove1 e (filter P (sc_queue s))))" .
  from r [OF d] show "distinct (map qd_ticket (remove1 e (sc_queue s)))" .
qed

lemma sched_ok_admit: "sched_ok s \<Longrightarrow> sched_ok (snd (admit s r now))"
proof -
  assume ok: "sched_ok s"
  obtain lane where lane: "lane_of s (rq_lane r) = Some lane"
    using ok by (cases "js_get (sc_lanes s) (rq_lane r)") (auto simp: sched_ok_def lane_of_def)
  have "ticket_of (Suc (sc_sequence s)) \<notin> qd_ticket ` set (sc_queue s)"
    using ok by (fastforce simp: sched_ok_def)
  with ok lane show ?thesis
    by (fastforce simp: admit_def sched_ok_def Let_def)
qed

lemma sched_ok_expire: "sched_ok s \<Longrightarrow> sched_ok (snd (expire s now))"
  unfolding expire_def snd_conv by (rule sched_ok_shrink) (auto simp: distinct_tickets sched_ok_def filter_empty_conv)

lemma sched_ok_cancel: "sched_ok s \<Longrightarrow> sched_ok (snd (cancel s t))"
proof (cases "find (\<lambda>e. qd_ticket e = t) (sc_queue s)")
  case (Some e)
  assume ok: "sched_ok s"
  have "remove1 e (sc_queue s) \<noteq> [] \<longrightarrow> sc_queue s \<noteq> []" by auto
  with ok have "remove1 e (sc_queue s) \<noteq> [] \<longrightarrow> sc_inFlight s = sc_capacity s"
    unfolding sched_ok_def by blast
  from sched_ok_shrink [OF ok set_remove1_subset distinct_tickets(3) [OF ok] this] Some show ?thesis
    by (simp add: cancel_def)
qed (simp add: cancel_def)

lemma cancel_gone:
  assumes "sched_ok s"
  shows "t \<notin> qd_ticket ` set (sc_queue (snd (cancel s t))) \<and> set (sc_queue (snd (cancel s t))) \<subseteq> set (sc_queue s)"
proof (cases "find (\<lambda>e. qd_ticket e = t) (sc_queue s)")
  case None
  then have "cancel s t = (False, s)" by (simp add: cancel_def)
  with None show ?thesis by (auto simp: find_None_iff)
next
  case (Some e)
  then have e: "qd_ticket e = t" "e \<in> set (sc_queue s)" by (auto simp: find_Some_iff)
  have "inj_on qd_ticket (set (sc_queue s))" "distinct (sc_queue s)"
    using assms by (auto simp: sched_ok_def distinct_map)
  with e have "t \<notin> qd_ticket ` set (remove1 e (sc_queue s))" by (auto simp: inj_on_def)
  with Some set_remove1_subset [of e "sc_queue s"] show ?thesis by (simp add: cancel_def)
qed

text \<open>
  A release either finds nobody waiting in time and the slot stays free, or hands the slot to one live
  entry.
\<close>

lemma release_cases:
  assumes ok: "sched_ok s" and pos: "0 < sc_inFlight s"
  obtains (none) "live s now = []" "release s now = (None, s\<lparr>sc_queue := [], sc_inFlight := sc_inFlight s - 1\<rparr>)"
  | (some) e d where "e \<in> set (live s now)" "right_band s now e"
      "release s now = (Some (qd_ticket e, qd_request e),
         s\<lparr>sc_queue := remove1 e (live s now), sc_deficit := d, sc_reserveCredit := next_credit s now\<rparr>)"
proof (cases "live s now = []")
  case True
  with takeNext_none [of "s\<lparr>sc_inFlight := sc_inFlight s - 1\<rparr>" now] pos show ?thesis
    by (intro none) (auto simp: release_def Let_def frame_inFlight)
next
  case False
  then have "live (s\<lparr>sc_inFlight := sc_inFlight s - 1\<rparr>) now \<noteq> []" by (simp add: frame_inFlight)
  from takeNext_some [OF this] pos show ?thesis
    by (auto simp: release_def Let_def frame_inFlight intro: some)
qed

lemma sched_ok_release:
  assumes ok: "sched_ok s" and pos: "0 < sc_inFlight s"
  shows "sched_ok (snd (release s now))"
  using assms
proof (cases rule: release_cases [where now = now])
  case none
  with ok pos show ?thesis by (auto simp: sched_ok_def)
next
  case (some e d)
  have "0 \<le> next_credit s now" using ok by (auto simp: sched_ok_def reserve_owed_def next_credit_def)
  have "sc_queue s \<noteq> []" using some by (auto simp: live_def)
  then have full: "sc_inFlight s = sc_capacity s" using ok by (simp add: sched_ok_def)
  have "sched_ok (s\<lparr>sc_queue := remove1 e (live s now)\<rparr>)"
    using set_remove1_subset [of e "live s now"] full distinct_tickets(2) [OF ok, of e "\<lambda>e. \<not> overdue s now e"]
    by (intro sched_ok_shrink [OF ok]) (auto simp: live_def)
  with \<open>0 \<le> next_credit s now\<close> some show ?thesis by (simp add: sched_ok_def)
qed

subsection \<open>The policy's accounting\<close>

text \<open>
  Requests through the policy: an arrival is authorized, refused or parked; a parked one is resolved
  by a release or rejected by its timer at any time; an authorized request releases once when it
  finishes. \<open>running\<close> counts the authorized requests that have not finished, \<open>parked\<close> the tickets of
  those that wait.
\<close>

record lane_system =
  ls_policy :: PriorityLanePolicy
  ls_running :: int
  ls_parked :: "string set"

inductive lane_step :: "lane_system \<Rightarrow> lane_system \<Rightarrow> bool" where
  authorized: "lane_authorize (ls_policy y) tenant subject lane now = (Authorized, p) \<Longrightarrow>
    lane_step y (y\<lparr>ls_policy := p, ls_running := ls_running y + 1\<rparr>)"
| refused: "lane_authorize (ls_policy y) tenant subject lane now = (Refused reason retry, p) \<Longrightarrow>
    lane_step y (y\<lparr>ls_policy := p\<rparr>)"
| parked: "lane_authorize (ls_policy y) tenant subject lane now = (Parked ticket wait, p) \<Longrightarrow>
    lane_step y (y\<lparr>ls_policy := p, ls_parked := insert ticket (ls_parked y)\<rparr>)"
| timeout: "ticket \<in> ls_parked y \<Longrightarrow>
    lane_step y (y\<lparr>ls_policy := lane_timeout (ls_policy y) ticket, ls_parked := ls_parked y - {ticket}\<rparr>)"
| resolved: "0 < ls_running y \<Longrightarrow> lane_release (ls_policy y) now = (Some ticket, p) \<Longrightarrow>
    lane_step y (y\<lparr>ls_policy := p, ls_parked := ls_parked y - {ticket}\<rparr>)"
| freed: "0 < ls_running y \<Longrightarrow> lane_release (ls_policy y) now = (None, p) \<Longrightarrow>
    lane_step y (y\<lparr>ls_policy := p, ls_running := ls_running y - 1\<rparr>)"

definition lane_start :: "LaneScheduler \<Rightarrow> string option \<Rightarrow> lane_system" where
  "lane_start s d = \<lparr>ls_policy = new_policy s d, ls_running = 0, ls_parked = {}\<rparr>"

abbreviation sched :: "lane_system \<Rightarrow> LaneScheduler" where
  "sched y \<equiv> pl_scheduler (ls_policy y)"

definition lane_inv :: "lane_system \<Rightarrow> bool" where
  "lane_inv y \<longleftrightarrow> sched_ok (sched y) \<and> ls_running y = sc_inFlight (sched y) \<and>
     ls_parked y = set (pl_waiters (ls_policy y)) \<and>
     qd_ticket ` set (sc_queue (sched y)) \<subseteq> ls_parked y"

lemma lane_authorize_cases:
  assumes "lane_authorize p tenant subject lane now = (answer, p')"
  shows "\<exists>r. case answer of
      Authorized \<Rightarrow> admit (pl_scheduler p) r now = (Admit, pl_scheduler p') \<and> pl_waiters p' = pl_waiters p
    | Refused reason retry \<Rightarrow> admit (pl_scheduler p) r now = (Reject reason retry, pl_scheduler p') \<and> pl_waiters p' = pl_waiters p
    | Parked ticket wait \<Rightarrow> \<exists>retry. admit (pl_scheduler p) r now = (Queue retry ticket, pl_scheduler p') \<and>
        pl_waiters p' = set_add ticket (pl_waiters p)"
  using assms
  by (cases "admit (pl_scheduler p) \<lparr>rq_lane = opt_or lane (pl_defaultLane p), rq_tenantId = tenant, rq_key = subject, rq_at = now\<rparr> now")
    (auto simp: lane_authorize_def Let_def split: AdmissionDecision.splits
      intro!: exI [of _ "\<lparr>rq_lane = opt_or lane (pl_defaultLane p), rq_tenantId = tenant, rq_key = subject, rq_at = now\<rparr>"])

lemma admit_cases:
  assumes "admit s r now = (decision, s')"
  shows "case decision of
      Admit \<Rightarrow> sc_inFlight s < sc_capacity s \<and> s' = s\<lparr>sc_inFlight := sc_inFlight s + 1\<rparr>
    | Reject _ _ \<Rightarrow> s' = s
    | Queue _ t \<Rightarrow> \<not> sc_inFlight s < sc_capacity s \<and> t = ticket_of (Suc (sc_sequence s)) \<and> sc_inFlight s' = sc_inFlight s \<and>
        sc_queue s' = sc_queue s @ [\<lparr>qd_ticket = t, qd_request = r, qd_enqueuedAt = now\<rparr>]"
  using assms by (auto simp: admit_def Let_def split: option.splits if_splits)

lemma lane_inv_release:
  assumes inv: "lane_inv y" and run: "0 < ls_running y" and rel: "lane_release (ls_policy y) now = (out, p)"
  shows "sched_ok (pl_scheduler p) \<and>
    (case out of
       Some t \<Rightarrow> sc_inFlight (pl_scheduler p) = sc_inFlight (sched y) \<and> t \<in> ls_parked y \<and>
         set (pl_waiters p) = ls_parked y - {t} \<and> qd_ticket ` set (sc_queue (pl_scheduler p)) \<subseteq> ls_parked y - {t}
     | None \<Rightarrow> sc_inFlight (pl_scheduler p) = sc_inFlight (sched y) - 1 \<and> set (pl_waiters p) = ls_parked y \<and>
         sc_queue (pl_scheduler p) = [])"
proof -
  from inv run have ok: "sched_ok (sched y)" and pos: "0 < sc_inFlight (sched y)" by (auto simp: lane_inv_def)
  have par: "ls_parked y = set (pl_waiters (ls_policy y))" and sub: "qd_ticket ` set (sc_queue (sched y)) \<subseteq> ls_parked y"
    using inv by (auto simp: lane_inv_def)
  note ok' = sched_ok_release [OF ok pos, of now]
  from ok pos show ?thesis
  proof (cases rule: release_cases [where now = now])
    case none
    then have "out = None \<and> p = (ls_policy y)\<lparr>pl_scheduler := snd (release (sched y) now)\<rparr>"
      using rel by (simp add: lane_release_def)
    with none par ok' show ?thesis by simp
  next
    case (some e d)
    have "distinct (map qd_ticket (live (sched y) now))"
      unfolding live_def by (rule distinct_tickets(1) [OF ok])
    then have "qd_ticket e \<notin> qd_ticket ` set (remove1 e (live (sched y) now))"
      using some by (auto simp: distinct_map inj_on_def)
    moreover have "qd_ticket ` set (remove1 e (live (sched y) now)) \<subseteq> ls_parked y"
      using sub set_remove1_subset [of e "live (sched y) now"] by (auto simp: live_def)
    moreover have t: "qd_ticket e \<in> ls_parked y" using some sub by (auto simp: live_def)
    moreover from t par some(3) rel have "out = Some (qd_ticket e) \<and> p = (ls_policy y)\<lparr>pl_scheduler := snd (release (sched y) now),
        pl_waiters := set_delete (qd_ticket e) (pl_waiters (ls_policy y))\<rparr>"
      by (simp add: lane_release_def)
    ultimately show ?thesis
      using some(3) ok' par by (simp add: subset_Diff_insert)
  qed
qed

lemma lane_inv_step: "lane_step y y' \<Longrightarrow> lane_inv y \<Longrightarrow> lane_inv y'"
proof (induction rule: lane_step.induct)
  case (authorized y tenant subject lane now p)
  from lane_authorize_cases [OF authorized(1)] obtain r where "admit (sched y) r now = (Admit, pl_scheduler p)"
    and "pl_waiters p = pl_waiters (ls_policy y)" by auto
  with admit_cases [OF this(1)] sched_ok_admit [of "sched y" r now] authorized(2) show ?case
    by (auto simp: lane_inv_def)
next
  case (refused y tenant subject lane now reason retry p)
  from lane_authorize_cases [OF refused(1)] obtain r where "admit (sched y) r now = (Reject reason retry, pl_scheduler p)"
    and "pl_waiters p = pl_waiters (ls_policy y)" by auto
  with admit_cases [OF this(1)] refused(2) show ?case
    by (auto simp: lane_inv_def)
next
  case (parked y tenant subject lane now ticket wait p)
  from lane_authorize_cases [OF parked(1)] obtain r retry where "admit (sched y) r now = (Queue retry ticket, pl_scheduler p)"
    and "pl_waiters p = set_add ticket (pl_waiters (ls_policy y))" by auto
  with admit_cases [OF this(1)] sched_ok_admit [of "sched y" r now] parked(2) show ?case
    by (auto simp: lane_inv_def)
next
  case (timeout ticket y)
  from timeout(2) have ok: "sched_ok (sched y)" by (simp add: lane_inv_def)
  have "sc_inFlight (snd (cancel (sched y) ticket)) = sc_inFlight (sched y)"
    by (simp add: cancel_def split: option.splits)
  moreover have "qd_ticket ` set (sc_queue (snd (cancel (sched y) ticket))) \<subseteq> ls_parked y - {ticket}"
    using cancel_gone [OF ok, of ticket] timeout(2) unfolding lane_inv_def by blast
  ultimately show ?case
    using timeout(2) sched_ok_cancel [OF ok, of ticket] by (simp add: lane_inv_def lane_timeout_def)
next
  case (resolved y now ticket p)
  with lane_inv_release [OF resolved(3,1,2)] show ?case by (auto simp: lane_inv_def)
next
  case (freed y now p)
  with lane_inv_release [OF freed(3,1,2)] show ?case by (auto simp: lane_inv_def)
qed

lemma lane_inv_start: "sched_ok s \<Longrightarrow> sc_inFlight s = 0 \<Longrightarrow> lane_inv (lane_start s d)"
  by (auto simp: lane_inv_def lane_start_def new_policy_def sched_ok_def)

lemma takeNext_frame:
  "sc_capacity (snd (takeNext s now)) = sc_capacity s" "sc_reserveFraction (snd (takeNext s now)) = sc_reserveFraction s"
proof -
  have "sc_capacity (snd (takeNext s now)) = sc_capacity s \<and> sc_reserveFraction (snd (takeNext s now)) = sc_reserveFraction s"
  proof (cases "live s now = []")
    case True
    from takeNext_none [OF this] show ?thesis by auto
  next
    case False
    from takeNext_some [OF this] obtain e d where "takeNext s now =
      (Some e, s\<lparr>sc_queue := remove1 e (live s now), sc_deficit := d, sc_reserveCredit := next_credit s now\<rparr>)" by blast
    then show ?thesis by simp
  qed
  then show "sc_capacity (snd (takeNext s now)) = sc_capacity s" "sc_reserveFraction (snd (takeNext s now)) = sc_reserveFraction s"
    by simp_all
qed

lemma release_frame:
  "sc_capacity (snd (release s now)) = sc_capacity s" "sc_reserveFraction (snd (release s now)) = sc_reserveFraction s"
proof -
  let ?s = "if sc_inFlight s > 0 then s\<lparr>sc_inFlight := sc_inFlight s - 1\<rparr> else s"
  obtain out s' where t: "takeNext ?s now = (out, s')" by (cases "takeNext ?s now")
  then have "sc_capacity s' = sc_capacity s" "sc_reserveFraction s' = sc_reserveFraction s"
    using takeNext_frame [of ?s now] by simp_all
  with t show "sc_capacity (snd (release s now)) = sc_capacity s" "sc_reserveFraction (snd (release s now)) = sc_reserveFraction s"
    unfolding release_def Let_def t by (cases out; simp)+
qed

lemma lane_step_capacity: "lane_step y y' \<Longrightarrow> sc_capacity (sched y') = sc_capacity (sched y)"
proof (induction rule: lane_step.induct)
  case (timeout ticket y)
  show ?case by (simp add: lane_timeout_def cancel_def split: option.splits)
next
  case (resolved y now ticket p)
  then show ?case
    using release_frame(1) [of "sched y" now] by (auto simp: lane_release_def split: prod.splits option.splits if_splits)
next
  case (freed y now p)
  then show ?case
    using release_frame(1) [of "sched y" now] by (auto simp: lane_release_def split: prod.splits option.splits if_splits)
qed (auto simp: lane_authorize_def admit_def Let_def split: prod.splits option.splits if_splits AdmissionDecision.splits)

lemma new_scheduler_idle: "new_scheduler lanes options = Inr s \<Longrightarrow> sc_inFlight s = 0"
  by (auto simp: new_scheduler_def Let_def split: if_splits sum.splits option.splits)

lemma lane_reachable:
  assumes "new_scheduler lanes options = Inr s" and "lane_step\<^sup>*\<^sup>* (lane_start s d) y"
  shows "lane_inv y" and "sc_capacity (sched y) = sc_capacity s"
proof -
  from assms(2) show "lane_inv y"
  proof (induction rule: rtranclp_induct)
    case base
    from new_scheduler_ok [OF assms(1)] new_scheduler_idle [OF assms(1)] show ?case by (rule lane_inv_start)
  next
    case (step y z)
    then show ?case by (blast intro: lane_inv_step)
  qed
  from assms(2) show "sc_capacity (sched y) = sc_capacity s"
  proof (induction rule: rtranclp_induct)
    case base
    show ?case by (simp add: lane_start_def new_policy_def)
  next
    case (step y z)
    then show ?case using lane_step_capacity by simp
  qed
qed

subsection \<open>Properties\<close>

text \<open>
  C15: no slot is lost or invented. Whatever requests arrive, finish and time out, in whatever order, the
  scheduler's count is the number of requests that are running, which never exceeds the capacity;
  requests wait only while every slot is taken; and when a request finishes while another one is
  waiting within its deadline, its slot passes to a request whose caller still waits.
\<close>

theorem lane_slots_accounted:
  assumes "new_scheduler lanes options = Inr s" and "lane_step\<^sup>*\<^sup>* (lane_start s d) y"
  shows "ls_running y = sc_inFlight (pl_scheduler (ls_policy y)) \<and> 0 \<le> ls_running y \<and> ls_running y \<le> sc_capacity s \<and>
    (pending (pl_scheduler (ls_policy y)) \<noteq> [] \<longrightarrow> ls_running y = sc_capacity s) \<and>
    (0 < ls_running y \<and> live (pl_scheduler (ls_policy y)) now \<noteq> [] \<longrightarrow>
       (\<exists>t p. lane_release (ls_policy y) now = (Some t, p) \<and> t \<in> ls_parked y))"
proof -
  note inv = lane_reachable(1) [OF assms] and cap = lane_reachable(2) [OF assms]
  have "\<exists>t p. lane_release (ls_policy y) now = (Some t, p) \<and> t \<in> ls_parked y"
    if run: "0 < ls_running y" and live: "live (sched y) now \<noteq> []"
  proof -
    obtain out p where rel: "lane_release (ls_policy y) now = (out, p)" by (cases "lane_release (ls_policy y) now")
    from inv have "sc_inFlight (sched y) = ls_running y" by (simp add: lane_inv_def)
    with lane_inv_release [OF inv run rel] rel show ?thesis
    proof (cases out)
      case None
      have full: "sc_inFlight (sched y) = sc_capacity (sched y)"
        using inv live by (auto simp: lane_inv_def sched_ok_def live_def)
      have "sched_ok (sched y)" "0 < sc_inFlight (sched y)"
        using inv run by (auto simp: lane_inv_def)
      then have "sc_inFlight (snd (release (sched y) now)) = sc_inFlight (sched y)"
        using live by (cases rule: release_cases [where now = now]) auto
      moreover have "pl_scheduler p = snd (release (sched y) now)"
        using rel by (auto simp: lane_release_def split: prod.splits option.splits if_splits)
      ultimately show ?thesis
        using lane_inv_release [OF inv run rel] None by simp
    qed auto
  qed
  with inv cap show ?thesis by (auto simp: lane_inv_def sched_ok_def pending_def)
qed

subsubsection \<open>Which request is next\<close>

datatype sched_op = LaneAdmit AdmissionRequest int | LaneExpire int | LaneRelease int | LaneCancel string

fun sched_step :: "LaneScheduler \<Rightarrow> sched_op \<Rightarrow> LaneScheduler" where
  "sched_step s (LaneAdmit r now) = snd (admit s r now)"
| "sched_step s (LaneExpire now) = snd (expire s now)"
| "sched_step s (LaneRelease now) = snd (release s now)"
| "sched_step s (LaneCancel t) = snd (cancel s t)"

lemma release_idle: "sched_ok s \<Longrightarrow> \<not> 0 < sc_inFlight s \<Longrightarrow> release s now = (None, s)"
  by (auto simp: sched_ok_def release_def takeNext_def)

lemma sched_ok_step: "sched_ok s \<Longrightarrow> sched_ok (sched_step s x)"
  by (cases x; cases "0 < sc_inFlight s")
    (simp_all add: sched_ok_admit sched_ok_expire sched_ok_cancel sched_ok_release release_idle)

lemma sched_ok_run: "new_scheduler lanes options = Inr s \<Longrightarrow> sched_ok (run_ops sched_step s ops)"
  using run_ops_invariant [of sched_ok sched_step s ops] sched_ok_step new_scheduler_ok by blast

text \<open>
  The next request. In any state the scheduler can reach, a release that hands out a request hands
  out one that is within its deadline; it belongs to the highest band waiting, unless the
  reservation is owed to the bands below and one of them is served; everybody else who is in time
  keeps waiting, and the number of taken slots stays. If nobody is in time, the slot becomes free.
\<close>

theorem lane_next_request:
  assumes "new_scheduler lanes options = Inr s0" and "s = run_ops sched_step s0 ops" and "0 < sc_inFlight s"
  shows "case release s now of
      (None, s') \<Rightarrow> (\<forall>e \<in> set (sc_queue s). overdue s now e) \<and> sc_inFlight s' = sc_inFlight s - 1 \<and> sc_queue s' = []
    | (Some (t, r), s') \<Rightarrow> (\<exists>e \<in> set (sc_queue s). qd_ticket e = t \<and> qd_request e = r \<and> \<not> overdue s now e \<and>
         (if (\<exists>x \<in> set (sc_queue s). \<exists>y \<in> set (sc_queue s). \<not> overdue s now x \<and> \<not> overdue s now y \<and> priorityOf s x < priorityOf s y) \<and>
             1 \<le> sc_reserveCredit s
          then \<exists>y \<in> set (sc_queue s). \<not> overdue s now y \<and> priorityOf s e < priorityOf s y
          else \<forall>y \<in> set (sc_queue s). \<not> overdue s now y \<longrightarrow> priorityOf s y \<le> priorityOf s e) \<and>
         sc_inFlight s' = sc_inFlight s \<and> set (sc_queue s') = {x \<in> set (sc_queue s). \<not> overdue s now x \<and> x \<noteq> e})"
proof -
  have ok: "sched_ok s" using sched_ok_run [OF assms(1), of ops] assms(2) by simp
  from ok assms(3) show ?thesis
  proof (cases rule: release_cases [where now = now])
    case none
    then show ?thesis by (auto simp: live_def filter_empty_conv)
  next
    case (some e d)
    have live_iff: "x \<in> set (live s now) \<longleftrightarrow> x \<in> set (sc_queue s) \<and> \<not> overdue s now x" for x
      by (auto simp: live_def)
    have ne: "live s now \<noteq> []" using some(1) by auto
    have owed: "reserve_owed s now \<longleftrightarrow>
        (\<exists>x \<in> set (live s now). \<exists>y \<in> set (live s now). priorityOf s x < priorityOf s y) \<and> 1 \<le> sc_reserveCredit s"
      using max_priority_in [OF ne, of s] max_priority_ge [of _ "live s now" s]
      unfolding reserve_owed_def lower_waiting_def filter_empty_conv by (metis le_less_trans less_le_trans)
    obtain top where top: "top \<in> set (live s now)" "priorityOf s top = max_priority s (live s now)"
      using max_priority_in [OF ne, of s] by blast
    have band: "if reserve_owed s now then \<exists>y \<in> set (live s now). priorityOf s e < priorityOf s y
        else \<forall>y \<in> set (live s now). priorityOf s y \<le> priorityOf s e"
      using some(2) top by (auto simp: right_band_def max_priority_ge intro!: bexI [of _ top])
    have "distinct (live s now)"
      using ok by (auto simp: live_def sched_ok_def distinct_map)
    then have "set (remove1 e (live s now)) = {x \<in> set (live s now). x \<noteq> e}" by auto
    then have q: "set (remove1 e (live s now)) = {x \<in> set (sc_queue s). \<not> overdue s now x \<and> x \<noteq> e}"
      using live_iff by auto
    have e: "e \<in> set (sc_queue s)" "\<not> overdue s now e" using some(1) live_iff by blast+
    have ex: "(\<exists>y \<in> set (live s now). P y) \<longleftrightarrow> (\<exists>y \<in> set (sc_queue s). \<not> overdue s now y \<and> P y)"
      "(\<forall>y \<in> set (live s now). P y) \<longleftrightarrow> (\<forall>y \<in> set (sc_queue s). \<not> overdue s now y \<longrightarrow> P y)" for P
      using live_iff by blast+
    show ?thesis
      unfolding some(3) prod.case option.case using e q band [unfolded owed ex]
      by (intro bexI [OF _ e(1)]) (simp add: Bex_def conj_commute conj_left_commute)
  qed
qed

text \<open>Every release of the run served the highest band while a lower one was waiting.\<close>

fun passed_over :: "LaneScheduler \<Rightarrow> sched_op list \<Rightarrow> bool" where
  "passed_over s [] = True"
| "passed_over s (LaneRelease now # ops) =
     (lower_waiting s now \<noteq> [] \<and>
      (\<exists>e \<in> set (live s now). fst (release s now) = Some (qd_ticket e, qd_request e) \<and> priorityOf s e = max_priority s (live s now)) \<and>
      passed_over (snd (release s now)) ops)"
| "passed_over s (x # ops) = passed_over (sched_step s x) ops"

fun is_release :: "sched_op \<Rightarrow> bool" where
  "is_release (LaneRelease _) = True"
| "is_release _ = False"

lemma passed_over_credit:
  assumes ok: "sched_ok s" and low: "lower_waiting s now \<noteq> []"
    and e: "e \<in> set (live s now)" "fst (release s now) = Some (qd_ticket e, qd_request e)" "priorityOf s e = max_priority s (live s now)"
  shows "sc_reserveCredit s < 1 \<and> sc_reserveCredit (snd (release s now)) = min 1 (sc_reserveCredit s + sc_reserveFraction s) \<and>
    sc_reserveFraction (snd (release s now)) = sc_reserveFraction s"
proof -
  have "0 < sc_inFlight s" using release_idle [OF ok, of now] e(2) by fastforce
  with ok show ?thesis
  proof (cases rule: release_cases [where now = now])
    case (some x d)
    have "inj_on qd_ticket (set (sc_queue s))" using ok by (auto simp: sched_ok_def distinct_map)
    with some e have "x = e" by (auto simp: live_def inj_on_def)
    with some(2) e(3) have "\<not> reserve_owed s now" by (simp add: right_band_def split: if_splits)
    with low some(3) show ?thesis by (auto simp: reserve_owed_def next_credit_def)
  qed (use e in simp)
qed

lemma sched_step_reserve:
  "\<not> is_release x \<Longrightarrow> sc_reserveCredit (sched_step s x) = sc_reserveCredit s \<and> sc_reserveFraction (sched_step s x) = sc_reserveFraction s"
  by (cases x) (auto simp: admit_def expire_def cancel_def Let_def split: option.splits)

lemma run_fraction: "sc_reserveFraction (run_ops sched_step s ops) = sc_reserveFraction s"
proof (induction ops arbitrary: s)
  case (Cons x ops)
  have "sc_reserveFraction (sched_step s x) = sc_reserveFraction s"
    by (cases "is_release x"; cases x) (simp_all add: sched_step_reserve release_frame del: sched_step.simps(1,2,4))
  with Cons show ?case by simp
qed simp

lemma passed_over_bound:
  assumes "sched_ok s" and "passed_over s ops" and "filter is_release ops \<noteq> []"
  shows "sc_reserveCredit s + (of_nat (length (filter is_release ops)) - 1) * sc_reserveFraction s < 1"
  using assms
proof (induction s ops rule: passed_over.induct)
  case (2 s now ops)
  from "2.prems"(2) obtain e where "lower_waiting s now \<noteq> []" and "e \<in> set (live s now)"
    and "fst (release s now) = Some (qd_ticket e, qd_request e)" and "priorityOf s e = max_priority s (live s now)"
    and rest: "passed_over (snd (release s now)) ops" by auto
  note c = passed_over_credit [OF "2.prems"(1) this(1-4)]
  have ok: "sched_ok (snd (release s now))" using sched_ok_step [OF "2.prems"(1), of "LaneRelease now"] by simp
  have f: "0 \<le> sc_reserveFraction s" using "2.prems"(1) by (simp add: sched_ok_def)
  show ?case
  proof (cases "filter is_release ops = []")
    case True
    with c show ?thesis by simp
  next
    case False
    let ?k = "of_nat (length (filter is_release ops)) :: rat" and ?f = "sc_reserveFraction s"
    from "2.IH" [OF ok rest False] c have IH: "min 1 (sc_reserveCredit s + ?f) + (?k - 1) * ?f < 1" by simp
    have "1 \<le> length (filter is_release ops)" using False by (cases "filter is_release ops") auto
    then have "(1 :: rat) \<le> ?k" by (metis of_nat_1 of_nat_le_iff)
    then have "0 \<le> (?k - 1) * ?f" using f by simp
    with IH have "sc_reserveCredit s + ?f + (?k - 1) * ?f < 1" by (auto simp: min_def split: if_splits)
    moreover have "of_nat (length (filter is_release (LaneRelease now # ops))) - (1 :: rat) = ?k" by simp
    ultimately show ?thesis by (simp add: algebra_simps)
  qed
qed (use sched_ok_step sched_step_reserve in \<open>force simp del: sched_step.simps\<close>)+


subsection \<open>A concrete gateway\<close>

definition sample_lane :: "string \<Rightarrow> int \<Rightarrow> LaneSpec" where
  "sample_lane i n = \<lparr>ln_id = i, ln_priority = n, ln_weight = Some 1, ln_maxWaitMs = 100\<rparr>"

definition sample_options :: LaneSchedulerOptions where
  "sample_options = \<lparr>lo_capacity = Some 1, lo_defaultLane = None, lo_estimatedServiceMs = None, lo_lowerBandReserveFraction = None\<rparr>"

definition sample_sched :: LaneScheduler where
  "sample_sched = \<lparr>sc_lanes = [(''live'', sample_lane ''live'' 10), (''batch'', sample_lane ''batch'' 1)], sc_capacity = 1,
     sc_defaultLane = ''batch'', sc_estimatedServiceMs = 1000, sc_inFlight = 0, sc_queue = [], sc_sequence = 0,
     sc_deficit = [], sc_reserveFraction = 1 / 5, sc_reserveCredit = 0\<rparr>"

abbreviation sample_request :: "string \<Rightarrow> AdmissionRequest" where
  "sample_request lane \<equiv> \<lparr>rq_lane = lane, rq_tenantId = ''t'', rq_key = ''k'', rq_at = 0\<rparr>"

lemma sample_sched: "new_scheduler [sample_lane ''live'' 10, sample_lane ''batch'' 1] sample_options = Inr sample_sched"
  by code_simp

theorem lane_slots_accounted_witness:
  "\<exists>y t p. lane_step\<^sup>*\<^sup>* (lane_start sample_sched None) y \<and> ls_running y = 1 \<and> lane_release (ls_policy y) 50 = (Some t, p) \<and> t \<in> ls_parked y"
proof -
  let ?p1 = "snd (lane_authorize (new_policy sample_sched None) ''t'' ''a'' None 0)"
  let ?p2 = "snd (lane_authorize ?p1 ''t'' ''b'' (Some ''live'') 1)"
  let ?y1 = "(lane_start sample_sched None)\<lparr>ls_policy := ?p1, ls_running := ls_running (lane_start sample_sched None) + 1\<rparr>"
  let ?y2 = "?y1\<lparr>ls_policy := ?p2, ls_parked := insert ''t1'' (ls_parked ?y1)\<rparr>"
  have "lane_authorize (ls_policy (lane_start sample_sched None)) ''t'' ''a'' None 0 = (Authorized, ?p1)"
    unfolding lane_start_def lane_system.simps by code_simp
  then have s1: "lane_step (lane_start sample_sched None) ?y1" by (rule lane_step.authorized)
  have "lane_authorize (ls_policy ?y1) ''t'' ''b'' (Some ''live'') 1 = (Parked ''t1'' 100, ?p2)"
    unfolding lane_system.simps by code_simp
  then have "lane_step ?y1 ?y2" by (rule lane_step.parked)
  with s1 have reach: "lane_step\<^sup>*\<^sup>* (lane_start sample_sched None) ?y2" by simp
  have run: "ls_running ?y2 = 1" by (simp add: lane_start_def)
  have "live (pl_scheduler ?p2) 50 \<noteq> []" by code_simp
  then have "0 < ls_running ?y2 \<and> live (pl_scheduler (ls_policy ?y2)) 50 \<noteq> []" using run by simp
  with lane_slots_accounted [OF sample_sched reach, of 50] run reach show ?thesis by blast
qed

theorem lane_next_request_witness:
  "\<exists>s'. release (run_ops sched_step sample_sched [LaneAdmit (sample_request ''batch'') 0, LaneAdmit (sample_request ''batch'') 1,
      LaneAdmit (sample_request ''live'') 2]) 3 = (Some (''t2'', sample_request ''live''), s') \<and> sc_inFlight s' = 1"
proof -
  let ?ops = "[LaneAdmit (sample_request ''batch'') 0, LaneAdmit (sample_request ''batch'') 1, LaneAdmit (sample_request ''live'') 2]"
  let ?s = "run_ops sched_step sample_sched ?ops"
  have pos: "0 < sc_inFlight ?s" and one: "sc_inFlight ?s = 1" by code_simp+
  have out: "fst (release ?s 3) = Some (''t2'', sample_request ''live'')" by code_simp
  obtain s' where s': "release ?s 3 = (Some (''t2'', sample_request ''live''), s')" using out by (cases "release ?s 3") auto
  from lane_next_request [OF sample_sched refl pos, where now = 3] have "sc_inFlight s' = sc_inFlight ?s"
    unfolding s' prod.case option.case by blast
  with s' one show ?thesis by auto
qed


subsection \<open>Where the lanes fall short\<close>

text \<open>
  A request for an unknown lane gets the default lane's deadline, but not its band: it ranks with priority
  0, here below the default lane it is said to be queued under.
\<close>

lemma unknown_lane_ranked_zero:
  "let s = run_ops sched_step sample_sched [LaneAdmit (sample_request ''batch'') 0, LaneAdmit (sample_request ''typo'') 1,
         LaneAdmit (sample_request ''batch'') 2]
   in map_option snd (fst (release s 3)) = Some (sample_request ''batch'') \<and> pending s = [sample_request ''typo'', sample_request ''batch'']"
  by code_simp

text \<open>
  The policy's default lane need not exist in the scheduler: a request without a lane is then queued with
  the scheduler's default lane's deadline but timed out by the policy after one millisecond.
\<close>

lemma policy_default_lane_missing:
  "let p = new_policy (sample_sched\<lparr>sc_lanes := [(''live'', sample_lane ''live'' 10)], sc_defaultLane := ''live''\<rparr>) None;
       (first, p1) = lane_authorize p ''t'' ''a'' None 0;
       (second, p2) = lane_authorize p1 ''t'' ''b'' None 0
   in first = Authorized \<and> second = Parked ''t1'' 1"
  by code_simp

end
