(* ===== verification/Tenant_Policy.thy ===== *)
theory Tenant_Policy
  imports Json "HOL-Library.Char_ord"
begin

text \<open>
  Gateway tenancy (\<^verbatim>\<open>src/src/inference/gateway/tenant-policy.ts\<close>): bearer authentication, model access,
  rate limiting per process and against a shared counter, and the composition of policies. The shared
  counter is the locale \<open>rate_limit_store\<close>; the in-memory one and the PostgreSQL one
  (\<^verbatim>\<open>src/src/postgres/distributed-state.ts\<close>) provide it.
\<close>

record GatewayPrincipal =
  gp_tenantId :: string
  gp_subject :: string
  gp_allowedModels :: "string list option"
  gp_requestsPerMinute :: "int option"
  gp_lane :: "string option"

datatype policy_error = ModelForbidden string | RateLimited string | LaneRefused string

subsection \<open>Authentication\<close>

definition new_authenticator :: "(string \<Rightarrow> 'd) \<Rightarrow> (string, GatewayPrincipal) jsmap \<Rightarrow> ('d \<times> GatewayPrincipal) list" where
  "new_authenticator digest tokens = map (\<lambda>(token, p). (digest token, p)) tokens"

definition authenticate :: "(string \<Rightarrow> 'd) \<Rightarrow> ('d \<times> GatewayPrincipal) list \<Rightarrow> string option \<Rightarrow> GatewayPrincipal option" where
  "authenticate digest tokens header =
     (case header of
        None \<Rightarrow> None
      | Some h \<Rightarrow>
          if take 7 (map to_lower h) \<noteq> ''bearer '' then None
          else foldl (\<lambda>who (d, p). if d = digest (drop 7 h) then Some p else who) None tokens)"

subsection \<open>Policies\<close>

definition acl_authorize :: "GatewayPrincipal \<Rightarrow> string \<Rightarrow> policy_error option" where
  "acl_authorize who model =
     (case gp_allowedModels who of
        None \<Rightarrow> None
      | Some allowed \<Rightarrow> if model \<in> set allowed then None else Some (ModelForbidden model))"

text \<open>The limit of a who: absent, zero or negative means unlimited.\<close>

definition limit_of :: "GatewayPrincipal \<Rightarrow> int option" where
  "limit_of who = (case gp_requestsPerMinute who of None \<Rightarrow> None | Some l \<Rightarrow> if l \<le> 0 then None else Some l)"

type_synonym rate_windows = "(string, int \<times> int) jsmap"

definition local_rate_authorize :: "rate_windows \<Rightarrow> GatewayPrincipal \<Rightarrow> int \<Rightarrow> policy_error option \<times> rate_windows" where
  "local_rate_authorize windows who now =
     (case limit_of who of
        None \<Rightarrow> (None, windows)
      | Some limit \<Rightarrow>
          (let minute = now div 60000;
               count = (case js_get windows (gp_tenantId who) of
                          Some (m, c) \<Rightarrow> if m = minute then c + 1 else 1
                        | None \<Rightarrow> 1);
               windows' = js_set (gp_tenantId who) (minute, count) windows
           in (if count > limit then Some (RateLimited (gp_tenantId who)) else None, windows')))"

definition shared_rate_authorize ::
  "('s \<Rightarrow> string \<Rightarrow> int \<Rightarrow> int \<times> 's) \<Rightarrow> int \<Rightarrow> 's \<Rightarrow> GatewayPrincipal \<Rightarrow> int \<Rightarrow> policy_error option \<times> 's" where
  "shared_rate_authorize increment windowMs s who now =
     (case limit_of who of
        None \<Rightarrow> (None, s)
      | Some limit \<Rightarrow>
          (let (count, s') = increment s (gp_tenantId who) (now div windowMs * windowMs)
           in (if count > limit then Some (RateLimited (gp_tenantId who)) else None, s')))"

subsection \<open>Shared counters\<close>

definition show_key :: "string \<Rightarrow> int \<Rightarrow> string" where
  "show_key tenantId windowStartMs = tenantId @ CHR ''@'' # show_int windowStartMs"

definition mem_increment :: "(string, int) jsmap \<Rightarrow> string \<Rightarrow> int \<Rightarrow> int \<times> (string, int) jsmap" where
  "mem_increment counts tenantId windowStartMs =
     (let key = show_key tenantId windowStartMs; nxt = opt_or (js_get counts key) 0 + 1
      in (nxt, js_set key nxt counts))"

text \<open>\<^verbatim>\<open>Number\<close> of the text behind the last separator of a key: the decimal text of the window start.\<close>

definition read_nat :: "string \<Rightarrow> nat" where
  "read_nat s = foldl (\<lambda>n c. 10 * n + (of_char c - 48)) 0 s"

definition read_int :: "string \<Rightarrow> int" where
  "read_int s = (if s \<noteq> [] \<and> hd s = CHR ''-'' then - int (read_nat (tl s)) else int (read_nat s))"

definition key_window :: "string \<Rightarrow> int" where
  "key_window key = read_int (last (split_on (CHR ''@'') key))"

definition mem_prune :: "(string, int) jsmap \<Rightarrow> int \<Rightarrow> int \<times> (string, int) jsmap" where
  "mem_prune counts beforeMs =
     (int (length (filter (\<lambda>(k, _). key_window k < beforeMs) counts)), filter (\<lambda>(k, _). \<not> key_window k < beforeMs) counts)"

definition pg_increment :: "(string \<times> int, int) jsmap \<Rightarrow> string \<Rightarrow> int \<Rightarrow> int \<times> (string \<times> int, int) jsmap" where
  "pg_increment rows tenantId windowStartMs =
     (let nxt = (case js_get rows (tenantId, windowStartMs) of None \<Rightarrow> 1 | Some c \<Rightarrow> c + 1)
      in (nxt, js_set (tenantId, windowStartMs) nxt rows))"

definition pg_prune_windows :: "(string \<times> int, int) jsmap \<Rightarrow> int \<Rightarrow> int \<times> (string \<times> int, int) jsmap" where
  "pg_prune_windows rows beforeMs =
     (int (length (filter (\<lambda>((_, w), _). w < beforeMs) rows)), filter (\<lambda>((_, w), _). \<not> w < beforeMs) rows)"

subsection \<open>Composition\<close>

record ('s, 'p) tenant_policy =
  tp_authorize :: "'s \<Rightarrow> 'p \<Rightarrow> string \<Rightarrow> policy_error option \<times> 's"
  tp_release :: "('s \<Rightarrow> 'p \<Rightarrow> 's) option"

definition release_policy :: "'p \<Rightarrow> ('s, 'p) tenant_policy \<Rightarrow> 's \<Rightarrow> 's" where
  "release_policy who policy s = (case tp_release policy of None \<Rightarrow> s | Some rel \<Rightarrow> rel s who)"

fun composite_loop ::
  "('s, 'p) tenant_policy list \<Rightarrow> ('s, 'p) tenant_policy list \<Rightarrow> 's \<Rightarrow> 'p \<Rightarrow> string \<Rightarrow> policy_error option \<times> 's" where
  "composite_loop authorized [] s who model = (None, s)"
| "composite_loop authorized (policy # ps) s who model =
     (case tp_authorize policy s who model of
        (None, s') \<Rightarrow> composite_loop (authorized @ [policy]) ps s' who model
      | (Some e, s') \<Rightarrow> (Some e, fold (release_policy who) (rev authorized) s'))"

definition composite_authorize :: "('s, 'p) tenant_policy list \<Rightarrow> 's \<Rightarrow> 'p \<Rightarrow> string \<Rightarrow> policy_error option \<times> 's" where
  "composite_authorize policies s who model = composite_loop [] policies s who model"

definition composite_release :: "('s, 'p) tenant_policy list \<Rightarrow> 's \<Rightarrow> 'p \<Rightarrow> 's" where
  "composite_release policies s who = fold (release_policy who) policies s"

subsection \<open>Counting in windows\<close>

lemma read_nat_snoc: "read_nat (s @ [c]) = 10 * read_nat s + (of_char c - 48)"
  by (simp add: read_nat_def)

lemma read_show_nat [simp]: "read_nat (show_nat n) = n"
proof (induction n rule: show_nat.induct)
  case (1 n)
  have digit: "(of_char (char_of (48 + d) :: char) :: nat) - 48 = d" if "d < 10" for d :: nat
    using that by simp
  show ?case
  proof (cases "n < 10")
    case True
    then show ?thesis by (simp add: show_nat.simps [of n] read_nat_def)
  next
    case False
    then show ?thesis
      using 1 by (simp add: show_nat.simps [of n] read_nat_snoc)
  qed
qed

lemma show_nat_digits: "c \<in> set (show_nat n) \<Longrightarrow> 48 \<le> (of_char c :: nat) \<and> (of_char c :: nat) < 58"
proof (induction n rule: show_nat.induct)
  case (1 n)
  then show ?case by (cases "n < 10") (auto simp: show_nat.simps [of n])
qed

lemma show_int_no_at: "CHR ''@'' \<notin> set (show_int n)"
  by (auto simp: show_int_def dest: show_nat_digits)

lemma read_show_int [simp]: "read_int (show_int n) = n"
proof (cases "n < 0")
  case False
  obtain c ds where s: "show_nat (nat n) = c # ds" by (cases "show_nat (nat n)") auto
  with show_nat_digits [of c "nat n"] have "c \<noteq> CHR ''-''" by auto
  with False s show ?thesis
    using read_show_nat [of "nat n"] by (simp add: show_int_def read_int_def)
qed (simp add: show_int_def read_int_def)

lemma show_int_inj [simp]: "show_int m = show_int n \<longleftrightarrow> m = n"
  using read_show_int by metis

lemma split_key: "split_on (CHR ''@'') (show_key t w) = split_on (CHR ''@'') t @ [show_int w]"
  by (simp add: show_key_def split_on_append_sep split_on_no_sep show_int_no_at)

lemma key_window [simp]: "key_window (show_key t w) = w"
  by (simp add: key_window_def split_key)

lemma show_key_inj [simp]: "show_key t w = show_key t' w' \<longleftrightarrow> t = t' \<and> w = w'"
  by (metis append1_eq_conv join_split show_int_inj split_key)

text \<open>
  What the policy relies on from a shared counter: increments are exact and touch one window of one
  tenant; pruning forgets windows before a time and nothing else. \<open>cnt\<close> is the count of a window.
\<close>

locale rate_limit_store =
  fixes inc :: "'s \<Rightarrow> string \<Rightarrow> int \<Rightarrow> int \<times> 's"
    and pr :: "'s \<Rightarrow> int \<Rightarrow> int \<times> 's"
    and cnt :: "'s \<Rightarrow> string \<Rightarrow> int \<Rightarrow> int"
  assumes inc_count: "fst (inc s t w) = cnt s t w + 1"
    and inc_other: "cnt (snd (inc s t w)) t' w' = (if t' = t \<and> w' = w then cnt s t w + 1 else cnt s t' w')"
    and prune_old: "cnt (snd (pr s b)) t w = (if w < b then 0 else cnt s t w)"

datatype rate_call = RateCall GatewayPrincipal int | PruneCall int

definition rate_step ::
  "('s \<Rightarrow> string \<Rightarrow> int \<Rightarrow> int \<times> 's) \<Rightarrow> ('s \<Rightarrow> int \<Rightarrow> int \<times> 's) \<Rightarrow> int \<Rightarrow> 's \<Rightarrow> rate_call \<Rightarrow> policy_error option \<times> 's" where
  "rate_step inc pr windowMs s c =
     (case c of
        RateCall who now \<Rightarrow> shared_rate_authorize inc windowMs s who now
      | PruneCall b \<Rightarrow> (None, snd (pr s b)))"

text \<open>The calls of a tenant in a window under a limit, and how many of them are let through.\<close>

definition counted :: "int \<Rightarrow> string \<Rightarrow> int \<Rightarrow> int \<Rightarrow> rate_call \<Rightarrow> bool" where
  "counted windowMs t w limit c =
     (case c of
        RateCall who now \<Rightarrow> gp_tenantId who = t \<and> now div windowMs * windowMs = w \<and>
          (case limit_of who of Some l \<Rightarrow> l \<le> limit | None \<Rightarrow> False)
      | PruneCall _ \<Rightarrow> False)"

fun accepted ::
  "('s \<Rightarrow> rate_call \<Rightarrow> policy_error option \<times> 's) \<Rightarrow> (rate_call \<Rightarrow> bool) \<Rightarrow> 's \<Rightarrow> rate_call list \<Rightarrow> nat" where
  "accepted step which s [] = 0"
| "accepted step which s (c # cs) =
     (if which c \<and> fst (step s c) = None then 1 else 0) + accepted step which (snd (step s c)) cs"

lemma rate_call_simps:
  "rate_step inc pr windowMs s (RateCall who now) = shared_rate_authorize inc windowMs s who now"
  "rate_step inc pr windowMs s (PruneCall b) = (None, snd (pr s b))"
  "counted windowMs t w limit (PruneCall b) = False"
  "counted windowMs t w limit (RateCall who now) =
     (gp_tenantId who = t \<and> now div windowMs * windowMs = w \<and> (case limit_of who of Some l \<Rightarrow> l \<le> limit | None \<Rightarrow> False))"
  by (simp_all add: rate_step_def counted_def)

context rate_limit_store
begin

lemma authorize_outcome:
  "shared_rate_authorize inc windowMs s who now =
     (case limit_of who of None \<Rightarrow> (None, s)
      | Some l \<Rightarrow> (if cnt s (gp_tenantId who) (now div windowMs * windowMs) + 1 > l then Some (RateLimited (gp_tenantId who)) else None,
                  snd (inc s (gp_tenantId who) (now div windowMs * windowMs))))"
proof (cases "limit_of who")
  case (Some l)
  obtain c s' where i: "inc s (gp_tenantId who) (now div windowMs * windowMs) = (c, s')"
    by (cases "inc s (gp_tenantId who) (now div windowMs * windowMs)")
  with inc_count [of s "gp_tenantId who" "now div windowMs * windowMs"] Some show ?thesis
    by (simp add: shared_rate_authorize_def)
qed (simp add: shared_rate_authorize_def)

lemma window_bound:
  assumes "\<forall>b. PruneCall b \<in> set cs \<longrightarrow> b \<le> w"
  shows "int (accepted (rate_step inc pr windowMs) (counted windowMs t w limit) s cs) \<le> max 0 (limit - cnt s t w)"
  using assms
proof (induction cs arbitrary: s)
  case (Cons c cs)
  then have IH: "int (accepted (rate_step inc pr windowMs) (counted windowMs t w limit) s' cs) \<le> max 0 (limit - cnt s' t w)" for s'
    by simp
  show ?case
  proof (cases c)
    case (PruneCall b)
    with Cons.prems IH [of "snd (pr s b)"] show ?thesis by (auto simp: rate_call_simps prune_old split: if_splits)
  next
    case (RateCall who now)
    show ?thesis
    proof (cases "limit_of who")
      case None
      with RateCall IH [of s] show ?thesis by (simp add: rate_call_simps authorize_outcome)
    next
      case (Some l)
      let ?s = "snd (inc s (gp_tenantId who) (now div windowMs * windowMs))"
      have step: "snd (rate_step inc pr windowMs s c) = ?s" and
        ok: "fst (rate_step inc pr windowMs s c) = None \<longleftrightarrow> cnt s (gp_tenantId who) (now div windowMs * windowMs) + 1 \<le> l"
        using RateCall Some by (simp_all add: rate_call_simps authorize_outcome)
      have c: "counted windowMs t w limit c \<longleftrightarrow> gp_tenantId who = t \<and> now div windowMs * windowMs = w \<and> l \<le> limit"
        using RateCall Some by (simp add: rate_call_simps)
      show ?thesis
        using IH [of ?s] unfolding accepted.simps step ok c by (auto simp: inc_other split: if_splits)
    qed
  qed
qed simp

end

subsection \<open>The two counters\<close>

lemma map_of_filter_key: "map_of (filter (\<lambda>(k, _). P k) m) k = (if P k then map_of m k else None)"
  by (induction m) auto

definition mem_count :: "(string, int) jsmap \<Rightarrow> string \<Rightarrow> int \<Rightarrow> int" where
  "mem_count counts t w = opt_or (js_get counts (show_key t w)) 0"

definition pg_count :: "(string \<times> int, int) jsmap \<Rightarrow> string \<Rightarrow> int \<Rightarrow> int" where
  "pg_count rows t w = opt_or (js_get rows (t, w)) 0"

interpretation mem_rates: rate_limit_store mem_increment mem_prune mem_count
  by unfold_locales (auto simp: mem_increment_def mem_prune_def mem_count_def Let_def
      map_of_filter_key [where P = "\<lambda>k. \<not> key_window k < b" for b])

interpretation pg_rates: rate_limit_store pg_increment pg_prune_windows pg_count
proof unfold_locales
  fix rows b t w
  have "(\<lambda>((_, w), _). \<not> w < b) = (\<lambda>(k, _ :: int). \<not> snd (k :: string \<times> int) < b)" by auto
  then show "pg_count (snd (pg_prune_windows rows b)) t w = (if w < b then 0 else pg_count rows t w)"
    by (simp add: pg_count_def pg_prune_windows_def map_of_filter_key [where P = "\<lambda>k. \<not> snd k < b"])
qed (auto simp: pg_increment_def pg_count_def Let_def split: option.splits)

text \<open>
  C17: the limit is global. However the calls of any number of replicas and principals are ordered on one
  shared counter, and however windows that are over get pruned, the calls of one tenant in one window
  under principals limited to at most \<open>n\<close> per window are let through at most \<open>n\<close> times, with the
  in-memory counter and with the PostgreSQL one; a principal without a positive limit is never
  refused.
\<close>

theorem rate_limit_global:
  assumes "0 \<le> n" and "\<forall>b. PruneCall b \<in> set calls \<longrightarrow> b \<le> w"
  shows "int (accepted (rate_step mem_increment mem_prune windowMs) (counted windowMs t w n) [] calls) \<le> n \<and>
    int (accepted (rate_step pg_increment pg_prune_windows windowMs) (counted windowMs t w n) [] calls) \<le> n \<and>
    (limit_of who = None \<longrightarrow> shared_rate_authorize mem_increment windowMs counts who now = (None, counts) \<and>
       shared_rate_authorize pg_increment windowMs rows who now = (None, rows))"
proof -
  have "mem_count [] t w = 0" "pg_count [] t w = 0" by (simp_all add: mem_count_def pg_count_def)
  with mem_rates.window_bound [OF assms(2), of windowMs t n "[]"] pg_rates.window_bound [OF assms(2), of windowMs t n "[]"] assms(1)
  show ?thesis by (simp add: shared_rate_authorize_def)
qed

definition sample_principal :: GatewayPrincipal where
  "sample_principal = \<lparr>gp_tenantId = ''acme'', gp_subject = ''u'', gp_allowedModels = Some [''m''], gp_requestsPerMinute = Some 2, gp_lane = None\<rparr>"

theorem rate_limit_global_witness:
  "accepted (rate_step mem_increment mem_prune 10) (counted 10 ''acme'' 10 2) []
     [RateCall sample_principal 11, PruneCall 10, RateCall sample_principal 12, RateCall sample_principal 13] = 2"
proof -
  let ?calls = "[RateCall sample_principal 11, PruneCall 10, RateCall sample_principal 12, RateCall sample_principal 13]"
  have "\<forall>b. PruneCall b \<in> set ?calls \<longrightarrow> b \<le> 10" by simp
  from rate_limit_global [OF _ this, of 2 10 "''acme''"]
  have "int (accepted (rate_step mem_increment mem_prune 10) (counted 10 ''acme'' 10 2) [] ?calls) \<le> 2" by simp
  moreover have "2 \<le> accepted (rate_step mem_increment mem_prune 10) (counted 10 ''acme'' 10 2) [] ?calls" by code_simp
  ultimately show ?thesis by simp
qed

subsection \<open>Further lemmas\<close>

text \<open>Without a shared counter each replica has a window of its own and two of them let twice as much through.\<close>

lemma local_limit_per_process:
  "let (r1, a1) = local_rate_authorize [] sample_principal 60001; (r2, a2) = local_rate_authorize a1 sample_principal 60002;
       (r3, b1) = local_rate_authorize [] sample_principal 60003; (r4, b2) = local_rate_authorize b1 sample_principal 60004;
       (r5, a3) = local_rate_authorize a2 sample_principal 60005
   in r1 = None \<and> r2 = None \<and> r3 = None \<and> r4 = None \<and> r5 = Some (RateLimited ''acme'')"
  by code_simp

text \<open>Authentication accepts exactly the configured tokens, as long as the digest separates them.\<close>

lemma authenticate_iff:
  assumes "wf_jsmap tokens" and "inj_on digest (insert (drop 7 h) (fst ` set tokens))"
  shows "authenticate digest (new_authenticator digest tokens) (Some h) = Some p \<longleftrightarrow>
    take 7 (map to_lower h) = ''bearer '' \<and> js_get tokens (drop 7 h) = Some p"
proof -
  let ?f = "\<lambda>acc (d, q). if d = digest (drop 7 h) then Some q else acc"
  have "foldl ?f acc (map (\<lambda>(t, q). (digest t, q)) ts) = (case js_get ts (drop 7 h) of Some q \<Rightarrow> Some q | None \<Rightarrow> acc)"
    if "distinct (map fst ts)" "inj_on digest (insert (drop 7 h) (fst ` set ts))" for ts :: "(string, GatewayPrincipal) jsmap" and acc
    using that
  proof (induction ts arbitrary: acc)
    case (Cons x ts)
    obtain t q where x: "x = (t, q)" by (cases x)
    have "digest t = digest (drop 7 h) \<longleftrightarrow> t = drop 7 h"
      using Cons.prems(2) x by (auto simp: inj_on_def)
    moreover have "js_get ts t = None" using Cons.prems(1) x by (simp add: map_of_eq_None_iff)
    moreover have "inj_on digest (insert (drop 7 h) (fst ` set ts))"
      using Cons.prems(2) by (rule inj_on_subset) auto
    ultimately show ?case
      using Cons.IH Cons.prems(1) x by (auto split: option.splits)
  qed simp
  from this [OF assms(1) [unfolded wf_jsmap_def] assms(2), of None] show ?thesis
    by (simp add: authenticate_def new_authenticator_def split: option.splits)
qed

text \<open>
  A composed authorization that fails leaves no admission behind: if every policy's release undoes its
  admission and a refusal changes nothing, the state is the one before.
\<close>

lemma composite_failure_undone:
  assumes undo: "\<And>policy s s'. policy \<in> set (authorized @ ps) \<Longrightarrow> tp_authorize policy s who model = (None, s') \<Longrightarrow> release_policy who policy s' = s"
    and refuse: "\<And>policy s s' e. policy \<in> set ps \<Longrightarrow> tp_authorize policy s who model = (Some e, s') \<Longrightarrow> s' = s"
    and start: "fold (release_policy who) (rev authorized) s = s0"
    and "composite_loop authorized ps s who model = (Some e, s')"
  shows "s' = s0"
  using assms
proof (induction authorized ps s who model rule: composite_loop.induct)
  case (2 authorized policy ps s who model)
  obtain out s1 where step: "tp_authorize policy s who model = (out, s1)" by (cases "tp_authorize policy s who model")
  show ?case
  proof (cases out)
    case None
    have "release_policy who policy s1 = s" using "2.prems"(1) step None by simp
    then have "fold (release_policy who) (rev (authorized @ [policy])) s1 = s0" using "2.prems"(3) by simp
    moreover have "composite_loop (authorized @ [policy]) ps s1 who model = (Some e, s')"
      using "2.prems"(4) step None by simp
    ultimately show ?thesis
    proof (intro "2.IH" [OF step [unfolded None, symmetric] refl])
      fix q s s' assume "q \<in> set ((authorized @ [policy]) @ ps)" "tp_authorize q s who model = (None, s')"
      then show "release_policy who q s' = s" using "2.prems"(1) [of q s s'] by simp
    next
      fix q s s' e assume "q \<in> set ps" "tp_authorize q s who model = (Some e, s')"
      then show "s' = s" using "2.prems"(2) [of q s e s'] by simp
    qed
  next
    case (Some e')
    then have "s1 = s" using "2.prems"(2) [of policy s e' s1] step by simp
    then show ?thesis using "2.prems"(3,4) step Some by simp
  qed
qed simp

end
