(* ===== verification/Router.thy ===== *)
theory Router
  imports Json Complex_Main
begin

text \<open>
  The gateway's network router: continuation stores (\<^verbatim>\<open>src/src/inference/gateway/continuation-store.ts\<close>),
  shared route health and affinity (\<^verbatim>\<open>router-state.ts\<close>, PostgreSQL versions in
  \<^verbatim>\<open>src/src/postgres/distributed-state.ts\<close>), the retry hint of a response (\<^verbatim>\<open>retry-hint.ts\<close>) and
  \<^verbatim>\<open>ProfileRouterBackend\<close> (\<^verbatim>\<open>profile-router-backend.ts\<close>). A backend is a parameter: a function from the
  forwarded request and the world to a response or a thrown message and the world after it. The world
  holds the shared stores, the caches, the clock and the abort signal, so a backend call may also stand
  for what other replicas do while it is awaited. Times are rationals, since hints may be fractional;
  the conversions \<^verbatim>\<open>Number\<close> and \<^verbatim>\<open>Date.parse\<close> of header text are parameters that give \<open>None\<close> where the
  code sees a value that is not finite.
\<close>

subsection \<open>Continuations\<close>

record 'v ContinuationRecord =
  cn_id :: string
  cn_value :: 'v
  cn_createdAt :: rat
  cn_expiresAt :: "rat option"
  cn_tenantId :: "string option"

fun evict :: "int \<Rightarrow> (string, 'v) jsmap \<Rightarrow> (string, 'v) jsmap" where
  "evict maxEntries [] = []"
| "evict maxEntries ((k, v) # m) =
     (if int (length ((k, v) # m)) > maxEntries then (if k = [] then (k, v) # m else evict maxEntries m) else (k, v) # m)"

definition putContinuation ::
  "int \<Rightarrow> (string, 'v ContinuationRecord) jsmap \<Rightarrow> 'v ContinuationRecord \<Rightarrow> (string, 'v ContinuationRecord) jsmap" where
  "putContinuation maxEntries m r = evict maxEntries (js_set (cn_id r) r (js_delete (cn_id r) m))"

definition cn_expired :: "rat \<Rightarrow> 'v ContinuationRecord \<Rightarrow> bool" where
  "cn_expired now r = (case cn_expiresAt r of Some e \<Rightarrow> e \<le> now | None \<Rightarrow> False)"

definition getContinuation ::
  "(string, 'v ContinuationRecord) jsmap \<Rightarrow> string \<Rightarrow> string option \<Rightarrow> rat \<Rightarrow>
   'v ContinuationRecord option \<times> (string, 'v ContinuationRecord) jsmap" where
  "getContinuation m i tenantId now =
     (case js_get m i of
        None \<Rightarrow> (None, m)
      | Some r \<Rightarrow>
          if cn_expired now r then (None, js_delete i m)
          else if tenantId \<noteq> cn_tenantId r then (None, m) else (Some r, m))"

definition deleteContinuation :: "(string, 'v ContinuationRecord) jsmap \<Rightarrow> string \<Rightarrow> (string, 'v ContinuationRecord) jsmap" where
  "deleteContinuation m i = js_delete i m"

definition pruneContinuations ::
  "(string, 'v ContinuationRecord) jsmap \<Rightarrow> rat \<Rightarrow> nat \<times> (string, 'v ContinuationRecord) jsmap" where
  "pruneContinuations m now =
     (length (filter (\<lambda>(_, r). cn_expired now r) m), filter (\<lambda>(_, r). \<not> cn_expired now r) m)"

definition pg_putContinuation ::
  "(string, 'v ContinuationRecord) jsmap \<Rightarrow> 'v ContinuationRecord \<Rightarrow> (string, 'v ContinuationRecord) jsmap" where
  "pg_putContinuation m r = js_set (cn_id r) r m"

definition pg_getContinuation ::
  "(string, 'v ContinuationRecord) jsmap \<Rightarrow> string \<Rightarrow> string option \<Rightarrow> rat \<Rightarrow> 'v ContinuationRecord option" where
  "pg_getContinuation m i tenantId now =
     (case js_get m i of
        None \<Rightarrow> None
      | Some r \<Rightarrow> if cn_expired now r then None else if tenantId \<noteq> cn_tenantId r then None else Some r)"

subsection \<open>Route health and affinity\<close>

record RouteHealth =
  rh_cooldownUntil :: "rat option"
  rh_successes :: int
  rh_failures :: int
  rh_lastStatus :: "int option"

record SharedRouteHealth = RouteHealth +
  rh_routeKey :: string
  rh_updatedAt :: rat

record router_world =
  rw_health :: "(string, SharedRouteHealth) jsmap"
  rw_affinity :: "(string, string \<times> rat option) jsmap"
  rw_healthCache :: "(string, RouteHealth) jsmap"
  rw_affinityCache :: "(string, string) jsmap"
  rw_now :: rat
  rw_aborted :: bool

definition state_getAffinity :: "string \<Rightarrow> router_world \<Rightarrow> string option \<times> router_world" where
  "state_getAffinity key w =
     (case js_get (rw_affinity w) key of
        None \<Rightarrow> (None, w)
      | Some (routeId, expiresAt) \<Rightarrow>
          (case expiresAt of
             Some e \<Rightarrow> if e \<le> rw_now w then (None, w\<lparr>rw_affinity := js_delete key (rw_affinity w)\<rparr>) else (Some routeId, w)
           | None \<Rightarrow> (Some routeId, w)))"

definition pg_getAffinity :: "(string, string \<times> rat option) jsmap \<Rightarrow> string \<Rightarrow> rat \<Rightarrow> string option" where
  "pg_getAffinity rows key now =
     (case js_get rows key of
        None \<Rightarrow> None
      | Some (routeId, expiresAt) \<Rightarrow> (case expiresAt of Some e \<Rightarrow> if e > now then Some routeId else None | None \<Rightarrow> Some routeId))"

definition route_key :: "string \<Rightarrow> string \<Rightarrow> string" where
  "route_key model i = model @ '':'' @ i"

definition rt_health :: "string \<Rightarrow> string \<Rightarrow> router_world \<Rightarrow> RouteHealth \<times> router_world" where
  "rt_health model i w =
     (let key = route_key model i;
          value = (case js_get (rw_health w) key of
                     Some shared \<Rightarrow> RouteHealth.truncate shared
                   | None \<Rightarrow> opt_or (js_get (rw_healthCache w) key)
                       \<lparr>rh_cooldownUntil = None, rh_successes = 0, rh_failures = 0, rh_lastStatus = None\<rparr>)
      in (value, w\<lparr>rw_healthCache := js_set key value (rw_healthCache w)\<rparr>))"

definition rt_putHealth :: "string \<Rightarrow> string \<Rightarrow> RouteHealth \<Rightarrow> router_world \<Rightarrow> router_world" where
  "rt_putHealth model i health w =
     (let key = route_key model i
      in w\<lparr>rw_healthCache := js_set key health (rw_healthCache w),
           rw_health := js_set key (RouteHealth.extend health \<lparr>rh_routeKey = key, rh_updatedAt = rw_now w\<rparr>) (rw_health w)\<rparr>)"

definition rt_getAffinity :: "string \<Rightarrow> router_world \<Rightarrow> string option \<times> router_world" where
  "rt_getAffinity key w =
     (let (shared, w1) = state_getAffinity key w
      in if shared \<noteq> None \<and> shared \<noteq> Some []
         then (shared, w1\<lparr>rw_affinityCache := js_set key (the shared) (rw_affinityCache w1)\<rparr>)
         else (shared, w1\<lparr>rw_affinityCache := js_delete key (rw_affinityCache w1)\<rparr>))"

definition rt_putAffinity :: "rat \<Rightarrow> string \<Rightarrow> string \<Rightarrow> router_world \<Rightarrow> router_world" where
  "rt_putAffinity affinityTtlMs key routeId w =
     w\<lparr>rw_affinityCache := js_set key routeId (rw_affinityCache w),
       rw_affinity := js_set key (routeId, Some (rw_now w + affinityTtlMs)) (rw_affinity w)\<rparr>"

definition rt_deleteAffinity :: "string \<Rightarrow> router_world \<Rightarrow> router_world" where
  "rt_deleteAffinity key w =
     w\<lparr>rw_affinityCache := js_delete key (rw_affinityCache w), rw_affinity := js_delete key (rw_affinity w)\<rparr>"

definition ends_with :: "string \<Rightarrow> string \<Rightarrow> bool" where
  "ends_with s ending = (drop (length s - length ending) s = ending)"

definition clearAffinity :: "string option \<Rightarrow> router_world \<Rightarrow> router_world" where
  "clearAffinity session w =
     (if session = None \<or> session = Some []
      then foldl (\<lambda>w key. w\<lparr>rw_affinity := js_delete key (rw_affinity w)\<rparr>) (w\<lparr>rw_affinityCache := []\<rparr>) (js_keys (rw_affinityCache w))
      else foldl (\<lambda>w key. rt_deleteAffinity key w) w
             (filter (\<lambda>key. ends_with key ('':'' @ the session)) (js_keys (rw_affinityCache w))))"

subsection \<open>Requests and responses\<close>

record HttpRequest =
  hr_headers :: "(string, string) jsmap"
  hr_body :: "json option"

record HttpResponse =
  hs_status :: int
  hs_headers :: "(string, string) jsmap"
  hs_body :: string

type_synonym backend = "HttpRequest \<Rightarrow> string \<Rightarrow> router_world \<Rightarrow> (string + HttpResponse) \<times> router_world"

record GatewayRoute =
  gr_id :: string
  gr_backend :: string
  gr_model :: "string option"
  gr_cooldownMs :: "rat option"

record router_config =
  rc_backends :: "(string, backend) jsmap"
  rc_profiles :: "(string, GatewayRoute list) jsmap"
  rc_affinityTtlMs :: rat
  rc_number :: "string \<Rightarrow> rat option"
  rc_date :: "string \<Rightarrow> rat option"

definition jsonError :: "int \<Rightarrow> string \<Rightarrow> HttpResponse" where
  "jsonError status message =
     \<lparr>hs_status = status, hs_headers = [(''content-type'', ''application/json'')],
      hs_body = stringify (JObj [(''error'', JObj [(''message'', JStr message)])])\<rparr>"

definition header_of :: "(string, string) jsmap \<Rightarrow> string \<Rightarrow> string option" where
  "header_of h name = (case js_get h name of Some v \<Rightarrow> if v = [] then None else Some v | None \<Rightarrow> None)"

definition referenceNow :: "router_config \<Rightarrow> (string, string) jsmap \<Rightarrow> rat \<Rightarrow> rat" where
  "referenceNow cfg h fallback =
     (case header_of h ''date'' of None \<Rightarrow> fallback | Some d \<Rightarrow> opt_or (rc_date cfg d) fallback)"

fun reset_hint :: "router_config \<Rightarrow> (string, string) jsmap \<Rightarrow> rat \<Rightarrow> string list \<Rightarrow> rat option" where
  "reset_hint cfg h now [] = None"
| "reset_hint cfg h now (name # names) =
     (case header_of h name of
        None \<Rightarrow> reset_hint cfg h now names
      | Some raw \<Rightarrow>
          (case rc_number cfg raw of
             None \<Rightarrow> reset_hint cfg h now names
           | Some value \<Rightarrow>
               (let serverNow = referenceNow cfg h now
                in if value > 10000000000 then Some (value - serverNow)
                   else if value > 1000000000 then Some (value * 1000 - serverNow)
                   else Some (value * 1000))))"

definition parseRetryHintMs :: "router_config \<Rightarrow> (string, string) jsmap \<Rightarrow> rat \<Rightarrow> rat option" where
  "parseRetryHintMs cfg h now =
     (let fallback = reset_hint cfg h now [''x-ratelimit-reset'', ''x-rate-limit-reset'', ''ratelimit-reset'']
      in (case header_of h ''retry-after'' of
            None \<Rightarrow> fallback
          | Some retryAfter \<Rightarrow>
              (case rc_number cfg retryAfter of
                 Some seconds \<Rightarrow> Some (of_int \<lfloor>seconds * 1000 + 1 / 2\<rfloor>)
               | None \<Rightarrow>
                   (case rc_date cfg retryAfter of
                      Some when \<Rightarrow> Some (when - referenceNow cfg h now)
                    | None \<Rightarrow> fallback))))"

definition retryableStatus :: "int \<Rightarrow> bool" where
  "retryableStatus status \<longleftrightarrow> status = 408 \<or> status = 409 \<or> status = 425 \<or> status = 429 \<or> status \<ge> 500"

definition cooldownFor :: "router_config \<Rightarrow> HttpResponse \<Rightarrow> rat option \<Rightarrow> rat \<Rightarrow> rat" where
  "cooldownFor cfg response configured now =
     (case parseRetryHintMs cfg (hs_headers response) now of
        Some retryAfter \<Rightarrow> max (opt_or configured 0) retryAfter
      | None \<Rightarrow>
          (case configured of
             Some c \<Rightarrow> c
           | None \<Rightarrow> if hs_status response = 429 then 60000 else if hs_status response \<ge> 500 then 30000 else 5000))"

definition rewriteModel :: "json option \<Rightarrow> string \<Rightarrow> string + json" where
  "rewriteModel body model =
     (case body of
        None \<Rightarrow> Inl ''SyntaxError''
      | Some (JObj fs) \<Rightarrow> Inr (JObj (js_set ''model'' (JStr model) fs))
      | Some (JArr xs) \<Rightarrow> Inr (JArr xs)
      | Some _ \<Rightarrow> Inl ''TypeError'')"

definition body_session :: "json option \<Rightarrow> string option" where
  "body_session body =
     (case body of
        Some (JObj fs) \<Rightarrow>
          (case js_get fs ''metadata'' of
             Some (JObj meta) \<Rightarrow>
               (case js_get meta ''session_id'' of Some (JStr s) \<Rightarrow> if s \<noteq> [] then Some s else None | _ \<Rightarrow> None)
           | _ \<Rightarrow> None)
      | _ \<Rightarrow> None)"

definition sessionAffinityKey :: "HttpRequest \<Rightarrow> string \<Rightarrow> string option" where
  "sessionAffinityKey request model =
     (let get = js_get (hr_headers request);
          tenant = opt_or (get ''x-synth-tenant'') ''public'';
          headerSession = (case get ''x-synth-session'' of Some s \<Rightarrow> Some s | None \<Rightarrow>
             (case get ''x-opencode-session'' of Some s \<Rightarrow> Some s | None \<Rightarrow> get ''x-session-id''));
          key = (\<lambda>s. tenant @ '':'' @ model @ '':'' @ s)
      in (case headerSession of
            Some s \<Rightarrow> if s \<noteq> [] then Some (key s) else map_option key (body_session (hr_body request))
          | None \<Rightarrow> map_option key (body_session (hr_body request))))"

subsection \<open>Routing a request\<close>

definition order_routes :: "string option \<Rightarrow> GatewayRoute list \<Rightarrow> GatewayRoute list" where
  "order_routes stickyRoute routes =
     (case stickyRoute of
        Some s \<Rightarrow> if s = [] then routes else filter (\<lambda>r. gr_id r = s) routes @ filter (\<lambda>r. gr_id r \<noteq> s) routes
      | None \<Rightarrow> routes)"

fun healthy_routes :: "router_config \<Rightarrow> string \<Rightarrow> GatewayRoute list \<Rightarrow> router_world \<Rightarrow> GatewayRoute list \<times> router_world" where
  "healthy_routes cfg model [] w = ([], w)"
| "healthy_routes cfg model (r # rs) w =
     (let (health, w1) = rt_health model (gr_id r) w;
          (rest, w2) = healthy_routes cfg model rs w1
      in (if opt_or (rh_cooldownUntil health) 0 \<le> rw_now w1 \<and> js_get (rc_backends cfg) (gr_backend r) \<noteq> None then r # rest else rest, w2))"

definition fail_route ::
  "string \<Rightarrow> string option \<Rightarrow> string option \<Rightarrow> GatewayRoute \<Rightarrow> RouteHealth \<Rightarrow> rat \<Rightarrow> router_world \<Rightarrow> router_world" where
  "fail_route model affinityKey stickyRoute route health cooldown w =
     (let w1 = rt_putHealth model (gr_id route)
                 (health\<lparr>rh_failures := rh_failures health + 1, rh_cooldownUntil := Some (rw_now w + cooldown)\<rparr>) w
      in (case affinityKey of Some key \<Rightarrow> if stickyRoute = Some (gr_id route) then rt_deleteAffinity key w1 else w1 | None \<Rightarrow> w1))"

definition response_ok :: "HttpResponse \<Rightarrow> bool" where
  "response_ok response \<longleftrightarrow> 200 \<le> hs_status response \<and> hs_status response < 300"

definition win_route ::
  "router_config \<Rightarrow> string \<Rightarrow> string option \<Rightarrow> GatewayRoute \<Rightarrow> RouteHealth \<Rightarrow> HttpResponse \<Rightarrow> router_world \<Rightarrow> router_world" where
  "win_route cfg model affinityKey route health response w =
     (let w1 = rt_putHealth model (gr_id route)
                 (health\<lparr>rh_lastStatus := Some (hs_status response), rh_successes := rh_successes health + 1, rh_cooldownUntil := None\<rparr>) w
      in (case affinityKey of
            Some key \<Rightarrow> if response_ok response then rt_putAffinity (rc_affinityTtlMs cfg) key (gr_id route) w1 else w1
          | None \<Rightarrow> w1))"

definition upstream_model :: "string \<Rightarrow> GatewayRoute \<Rightarrow> string" where
  "upstream_model model route =
     (case gr_model route of None \<Rightarrow> model | Some m \<Rightarrow> if m = [] \<or> m = ''$requested'' then model else m)"

fun route_loop ::
  "router_config \<Rightarrow> HttpRequest \<Rightarrow> string \<Rightarrow> string option \<Rightarrow> string option \<Rightarrow> GatewayRoute list \<Rightarrow> HttpResponse option \<Rightarrow>
   router_world \<Rightarrow> (string + HttpResponse) \<times> router_world" where
  "route_loop cfg request model affinityKey stickyRoute [] lastError w =
     (Inr (opt_or lastError (jsonError 503 (''No healthy route for '' @ [CHR 0x27] @ model @ [CHR 0x27]))), w)"
| "route_loop cfg request model affinityKey stickyRoute (route # rest) lastError w =
     (if rw_aborted w then (Inl ''aborted'', w)
      else
        (let (health, w1) = rt_health model (gr_id route) w;
             upstream = upstream_model model route
         in (case rewriteModel (hr_body request) upstream of
               Inl e \<Rightarrow> (Inl e, w1)
             | Inr body \<Rightarrow>
                 (case (the (js_get (rc_backends cfg) (gr_backend route))) (request\<lparr>hr_body := Some body\<rparr>) upstream w1 of
                    (Inr response, w2) \<Rightarrow>
                      if \<not> retryableStatus (hs_status response)
                      then (Inr response, win_route cfg model affinityKey route health response w2)
                      else
                        (let w3 = fail_route model affinityKey stickyRoute route
                                    (health\<lparr>rh_lastStatus := Some (hs_status response)\<rparr>)
                                    (cooldownFor cfg response (gr_cooldownMs route) (rw_now w2)) w2
                         in if rest = [] then (Inr response, w3)
                            else route_loop cfg request model affinityKey stickyRoute rest
                              (Some (jsonError (hs_status response)
                                (''Route '' @ [CHR 0x27] @ gr_id route @ [CHR 0x27] @ '' returned retryable status '' @ show_int (hs_status response)))) w3)
                  | (Inl message, w2) \<Rightarrow>
                      if rw_aborted w2 then (Inl ''aborted'', w2)
                      else route_loop cfg request model affinityKey stickyRoute rest (Some (jsonError 502 message))
                             (fail_route model affinityKey stickyRoute route health (opt_or (gr_cooldownMs route) 30000) w2)))))"

definition router_handle :: "router_config \<Rightarrow> HttpRequest \<Rightarrow> string \<Rightarrow> router_world \<Rightarrow> (string + HttpResponse) \<times> router_world" where
  "router_handle cfg request model w =
     (case js_get (rc_profiles cfg) model of
        None \<Rightarrow> (Inr (jsonError 404 (''Unknown routed model '' @ [CHR 0x27] @ model @ [CHR 0x27])), w)
      | Some routes \<Rightarrow>
          (let affinityKey = sessionAffinityKey request model;
               (stickyRoute, w1) = (case affinityKey of Some key \<Rightarrow> rt_getAffinity key w | None \<Rightarrow> (None, w));
               (candidates, w2) = healthy_routes cfg model (order_routes stickyRoute routes) w1
           in if candidates = []
              then (Inr (jsonError 503 (''No healthy route for '' @ [CHR 0x27] @ model @ [CHR 0x27])), w2)
              else route_loop cfg request model affinityKey stickyRoute candidates None w2))"

end
