(* ===== verification/Router_Laws.thy ===== *)
theory Router_Laws
  imports Router
begin

text \<open>
  What the router does with a request when no other replica interferes: the routes it tries, in which
  order, what it answers and what it records. The continuation stores: who reads what.
\<close>

subsection \<open>Reading and writing health\<close>

definition hval :: "string \<Rightarrow> router_world \<Rightarrow> string \<Rightarrow> RouteHealth" where
  "hval model w i = fst (rt_health model i w)"

lemma route_key_inj [simp]: "route_key model i = route_key model j \<longleftrightarrow> i = j"
  by (simp add: route_key_def)

lemma rt_health_world: "snd (rt_health model i w) = w\<lparr>rw_healthCache := js_set (route_key model i) (hval model w i) (rw_healthCache w)\<rparr>"
  by (simp add: rt_health_def hval_def Let_def)

lemma hval_cached [simp]: "hval model (w\<lparr>rw_healthCache := js_set (route_key model i) (hval model w i) (rw_healthCache w)\<rparr>) j = hval model w j"
  by (auto simp: hval_def rt_health_def Let_def split: option.splits)

lemma hval_put: "hval model (rt_putHealth model i h w) j = (if j = i then h else hval model w j)"
  by (auto simp: hval_def rt_health_def rt_putHealth_def Let_def RouteHealth.defs split: option.splits)

lemma hval_frame: "rw_health w' = rw_health w \<Longrightarrow> rw_healthCache w' = rw_healthCache w \<Longrightarrow> hval model w' j = hval model w j"
  by (simp add: hval_def rt_health_def Let_def split: option.split)

lemma healthy_routes_filter:
  "fst (healthy_routes cfg model rs w) =
     filter (\<lambda>r. opt_or (rh_cooldownUntil (hval model w (gr_id r))) 0 \<le> rw_now w \<and> js_get (rc_backends cfg) (gr_backend r) \<noteq> None) rs \<and>
   hval model (snd (healthy_routes cfg model rs w)) = hval model w \<and>
   rw_health (snd (healthy_routes cfg model rs w)) = rw_health w \<and> rw_affinity (snd (healthy_routes cfg model rs w)) = rw_affinity w \<and>
   rw_now (snd (healthy_routes cfg model rs w)) = rw_now w \<and> rw_aborted (snd (healthy_routes cfg model rs w)) = rw_aborted w"
proof (induction rs arbitrary: w)
  case (Cons r rs)
  let ?w1 = "w\<lparr>rw_healthCache := js_set (route_key model (gr_id r)) (hval model w (gr_id r)) (rw_healthCache w)\<rparr>"
  have h: "rt_health model (gr_id r) w = (hval model w (gr_id r), ?w1)"
    using rt_health_world [of model "gr_id r" w] by (simp add: hval_def prod_eq_iff)
  have "hval model ?w1 = hval model w" by (rule ext) simp
  with Cons.IH [of ?w1] show ?case
    by (simp add: h Let_def split_beta)
qed simp

subsection \<open>Trying routes\<close>

text \<open>A backend that is awaited without interference: only the clock moves.\<close>

definition undisturbed :: "backend \<Rightarrow> bool" where
  "undisturbed b \<longleftrightarrow> (\<forall>req m w. \<exists>t \<ge> rw_now w. snd (b req m w) = w\<lparr>rw_now := t\<rparr>)"

definition cooled :: "string \<Rightarrow> router_world \<Rightarrow> router_world \<Rightarrow> GatewayRoute \<Rightarrow> bool" where
  "cooled model w w' r \<longleftrightarrow> rh_failures (hval model w' (gr_id r)) = rh_failures (hval model w (gr_id r)) + 1 \<and>
     (\<exists>c. rh_cooldownUntil (hval model w' (gr_id r)) = Some c \<and> rw_now w + opt_or (gr_cooldownMs r) 0 \<le> c)"

definition won :: "string \<Rightarrow> router_world \<Rightarrow> router_world \<Rightarrow> GatewayRoute \<Rightarrow> HttpResponse \<Rightarrow> bool" where
  "won model w w' r response \<longleftrightarrow> rh_cooldownUntil (hval model w' (gr_id r)) = None \<and>
     rh_successes (hval model w' (gr_id r)) = rh_successes (hval model w (gr_id r)) + 1 \<and>
     rh_lastStatus (hval model w' (gr_id r)) = Some (hs_status response)"

lemma cooldownFor_ge: "opt_or configured 0 \<le> cooldownFor cfg response configured now"
  by (cases configured) (auto simp: cooldownFor_def split: option.splits)

lemma fail_route_effect:
  "hval model (fail_route model k sticky r h c w) j =
     (if j = gr_id r then h\<lparr>rh_failures := rh_failures h + 1, rh_cooldownUntil := Some (rw_now w + c)\<rparr> else hval model w j)"
  "rw_now (fail_route model k sticky r h c w) = rw_now w" "rw_aborted (fail_route model k sticky r h c w) = rw_aborted w"
proof -
  let ?w1 = "rt_putHealth model (gr_id r) (h\<lparr>rh_failures := rh_failures h + 1, rh_cooldownUntil := Some (rw_now w + c)\<rparr>) w"
  have "hval model (fail_route model k sticky r h c w) j = hval model ?w1 j"
    by (rule hval_frame) (auto simp: fail_route_def rt_deleteAffinity_def Let_def split: option.splits)
  then show "hval model (fail_route model k sticky r h c w) j =
     (if j = gr_id r then h\<lparr>rh_failures := rh_failures h + 1, rh_cooldownUntil := Some (rw_now w + c)\<rparr> else hval model w j)"
    by (simp add: hval_put)
qed (auto simp: fail_route_def rt_deleteAffinity_def rt_putHealth_def Let_def split: option.splits)

lemma win_route_effect:
  "hval model (win_route cfg model k r h response w) j =
     (if j = gr_id r then h\<lparr>rh_lastStatus := Some (hs_status response), rh_successes := rh_successes h + 1, rh_cooldownUntil := None\<rparr>
      else hval model w j)"
  "k = Some key \<Longrightarrow> response_ok response \<Longrightarrow>
     js_get (rw_affinity (win_route cfg model k r h response w)) key = Some (gr_id r, Some (rw_now w + rc_affinityTtlMs cfg))"
proof -
  let ?w1 = "rt_putHealth model (gr_id r)
     (h\<lparr>rh_lastStatus := Some (hs_status response), rh_successes := rh_successes h + 1, rh_cooldownUntil := None\<rparr>) w"
  have "hval model (win_route cfg model k r h response w) j = hval model ?w1 j"
    by (rule hval_frame) (auto simp: win_route_def rt_putAffinity_def Let_def split: option.splits)
  then show "hval model (win_route cfg model k r h response w) j =
     (if j = gr_id r then h\<lparr>rh_lastStatus := Some (hs_status response), rh_successes := rh_successes h + 1, rh_cooldownUntil := None\<rparr>
      else hval model w j)"
    by (simp add: hval_put)
qed (auto simp: win_route_def rt_putAffinity_def rt_putHealth_def Let_def)

text \<open>
  The outcome of trying the routes \<open>cs\<close> from \<open>w\<close>: an initial part was tried and cooled down; then either a
  route answered, or none is left.
\<close>

definition tried_in_order ::
  "router_config \<Rightarrow> string \<Rightarrow> string option \<Rightarrow> GatewayRoute list \<Rightarrow> HttpResponse option \<Rightarrow> router_world \<Rightarrow>
   (string + HttpResponse) \<times> router_world \<Rightarrow> bool" where
  "tried_in_order cfg model k cs lastError w result \<longleftrightarrow>
     (let w' = snd result
      in (\<exists>failed r rest response. cs = failed @ r # rest \<and> fst result = Inr response \<and> \<not> retryableStatus (hs_status response) \<and>
            (\<forall>x \<in> set failed. cooled model w w' x) \<and> won model w w' r response \<and>
            (\<forall>j. j \<notin> gr_id ` set (failed @ [r]) \<longrightarrow> hval model w' j = hval model w j) \<and>
            (\<forall>key. k = Some key \<and> response_ok response \<longrightarrow> (\<exists>e. js_get (rw_affinity w') key = Some (gr_id r, Some e)))) \<or>
         ((\<forall>x \<in> set cs. cooled model w w' x) \<and> (\<forall>j. j \<notin> gr_id ` set cs \<longrightarrow> hval model w' j = hval model w j) \<and>
          (\<exists>response. fst result = Inr response \<and> (cs \<noteq> [] \<longrightarrow> retryableStatus (hs_status response)) \<and>
             (cs = [] \<longrightarrow> (case lastError of Some e \<Rightarrow> response = e | None \<Rightarrow> hs_status response = 503)))))"

lemma cooled_later:
  assumes "cooled model w3 w' x" and "hval model w3 (gr_id x) = hval model w (gr_id x)" and "rw_now w \<le> rw_now w3"
  shows "cooled model w w' x"
  using assms by (auto simp: cooled_def)

lemma tried_cons:
  assumes new: "gr_id r \<notin> gr_id ` set rest" and frame: "\<And>j. j \<noteq> gr_id r \<Longrightarrow> hval model w3 j = hval model w j"
    and clock: "rw_now w \<le> rw_now w3" and r: "cooled model w w3 r" and e: "retryableStatus (hs_status e)"
    and tail: "tried_in_order cfg model k rest (Some e) w3 result"
  shows "tried_in_order cfg model k (r # rest) lastError w result"
proof -
  obtain out w' where res: "result = (out, w')" by (cases result)
  have cool: "cooled model w w' x" if "cooled model w3 w' x" "x \<in> set rest" for x
  proof (rule cooled_later [OF that(1) frame clock])
    show "gr_id x \<noteq> gr_id r" using new that(2) by (metis imageI)
  qed
  have keep: "cooled model w w' r" if "hval model w' (gr_id r) = hval model w3 (gr_id r)"
    using r that by (simp add: cooled_def)
  from tail consider
    (answered) failed s more response where "rest = failed @ s # more" "out = Inr response" "\<not> retryableStatus (hs_status response)"
      "\<forall>x \<in> set failed. cooled model w3 w' x" "won model w3 w' s response"
      "\<forall>j. j \<notin> gr_id ` set (failed @ [s]) \<longrightarrow> hval model w' j = hval model w3 j"
      "\<forall>key. k = Some key \<and> response_ok response \<longrightarrow> (\<exists>e. js_get (rw_affinity w') key = Some (gr_id s, Some e))"
  | (exhausted) response where "\<forall>x \<in> set rest. cooled model w3 w' x" "\<forall>j. j \<notin> gr_id ` set rest \<longrightarrow> hval model w' j = hval model w3 j"
      "out = Inr response" "rest \<noteq> [] \<longrightarrow> retryableStatus (hs_status response)" "rest = [] \<longrightarrow> response = e"
    unfolding tried_in_order_def Let_def res by auto
  then show ?thesis
  proof cases
    case answered
    have "gr_id s \<noteq> gr_id r" using new answered(1) by auto
    then have "won model w w' s response" using answered(5) frame by (simp add: won_def)
    moreover have "cooled model w w' r" using keep answered(1,6) new by auto
    ultimately show ?thesis
      using answered cool frame unfolding tried_in_order_def Let_def res
      by (intro disjI1 exI [of _ "r # failed"] exI [of _ s] exI [of _ more] exI [of _ response]) auto
  next
    case exhausted
    have "cooled model w w' r" using keep exhausted(2) new by auto
    moreover have "retryableStatus (hs_status response)" using exhausted(4,5) e by (cases "rest = []") auto
    ultimately show ?thesis
      using exhausted cool frame unfolding tried_in_order_def Let_def res by (intro disjI2) auto
  qed
qed

lemma cooled_fail:
  assumes "rw_now w \<le> rw_now w2" and "rh_failures h = rh_failures (hval model w (gr_id r))" and "opt_or (gr_cooldownMs r) 0 \<le> c"
  shows "cooled model w (fail_route model k sticky r h c w2) r"
  using assms by (simp add: cooled_def fail_route_effect)

lemma rewrite_object: "hr_body request = Some (JObj fs) \<Longrightarrow> \<exists>body. rewriteModel (hr_body request) m = Inr body"
  by (simp add: rewriteModel_def)

lemma route_loop_tried:
  assumes body: "hr_body request = Some (JObj fs)" and "distinct (map gr_id cs)" and "\<not> rw_aborted w"
    and "\<And>r. r \<in> set cs \<Longrightarrow> \<exists>b. js_get (rc_backends cfg) (gr_backend r) = Some b \<and> undisturbed b"
  shows "tried_in_order cfg model k cs lastError w (route_loop cfg request model k sticky cs lastError w)"
  using assms(2-)
proof (induction cs arbitrary: w lastError)
  case Nil
  then show ?case by (auto simp: tried_in_order_def Let_def jsonError_def split: option.splits)
next
  case (Cons r rest)
  let ?h = "hval model w (gr_id r)" and ?m = "upstream_model model r"
  let ?w1 = "w\<lparr>rw_healthCache := js_set (route_key model (gr_id r)) ?h (rw_healthCache w)\<rparr>"
  have h: "rt_health model (gr_id r) w = (?h, ?w1)"
    using rt_health_world [of model "gr_id r" w] by (simp add: hval_def prod_eq_iff)
  obtain body' where body': "rewriteModel (hr_body request) ?m = Inr body'" using rewrite_object [OF body] by blast
  obtain b where b: "js_get (rc_backends cfg) (gr_backend r) = Some b" "undisturbed b" using Cons.prems(3) by auto
  obtain out t where call: "b (request\<lparr>hr_body := Some body'\<rparr>) ?m ?w1 = (out, ?w1\<lparr>rw_now := t\<rparr>)" and t: "rw_now w \<le> t"
  proof -
    from b(2) obtain t where "t \<ge> rw_now ?w1" "snd (b (request\<lparr>hr_body := Some body'\<rparr>) ?m ?w1) = ?w1\<lparr>rw_now := t\<rparr>"
      unfolding undisturbed_def by blast
    then show thesis by (intro that [of "fst (b (request\<lparr>hr_body := Some body'\<rparr>) ?m ?w1)" t]) (simp_all add: prod_eq_iff)
  qed
  let ?w2 = "?w1\<lparr>rw_now := t\<rparr>"
  have same: "hval model ?w2 j = hval model w j" for j
  proof -
    have "hval model ?w2 j = hval model ?w1 j" by (rule hval_frame) simp_all
    then show ?thesis by simp
  qed
  have ids: "gr_id r \<notin> gr_id ` set rest" using Cons.prems(1) by auto
  have next_ok: "tried_in_order cfg model k (r # rest) lastError w (route_loop cfg request model k sticky rest (Some e) w3)"
    if "w3 = fail_route model k sticky r h' c ?w2" "rh_failures h' = rh_failures ?h" "opt_or (gr_cooldownMs r) 0 \<le> c"
      "retryableStatus (hs_status e)" for w3 h' c e
  proof (rule tried_cons [OF ids, where ?w3.0 = w3])
    show "tried_in_order cfg model k rest (Some e) w3 (route_loop cfg request model k sticky rest (Some e) w3)"
      using Cons.prems that(1) by (intro Cons.IH) (simp_all add: fail_route_effect)
    show "cooled model w w3 r" unfolding that(1) using t that(2,3) by (intro cooled_fail) simp_all
  qed (use that t same in \<open>simp_all add: fail_route_effect\<close>)
  show ?case
  proof (cases out)
    case (Inl message)
    have "route_loop cfg request model k sticky (r # rest) lastError w =
        route_loop cfg request model k sticky rest (Some (jsonError 502 message))
          (fail_route model k sticky r ?h (opt_or (gr_cooldownMs r) 30000) ?w2)"
      using Cons.prems(2) h body' b(1) call Inl by simp
    moreover have "opt_or (gr_cooldownMs r) 0 \<le> opt_or (gr_cooldownMs r) (30000 :: rat)" by (cases "gr_cooldownMs r") simp_all
    ultimately show ?thesis using next_ok [OF refl refl] by (simp add: jsonError_def retryableStatus_def)
  next
    case (Inr response)
    show ?thesis
    proof (cases "retryableStatus (hs_status response)")
      case False
      have "route_loop cfg request model k sticky (r # rest) lastError w = (Inr response, win_route cfg model k r ?h response ?w2)"
        using Cons.prems(2) h body' b(1) call Inr False by simp
      with False show ?thesis
        unfolding tried_in_order_def Let_def
        by (intro disjI1 exI [of _ "[]"] exI [of _ r] exI [of _ rest] exI [of _ response])
          (auto simp: won_def win_route_effect same)
    next
      case True
      let ?w3 = "fail_route model k sticky r (?h\<lparr>rh_lastStatus := Some (hs_status response)\<rparr>) (cooldownFor cfg response (gr_cooldownMs r) t) ?w2"
      show ?thesis
      proof (cases "rest = []")
        case False
        then have "route_loop cfg request model k sticky (r # rest) lastError w = route_loop cfg request model k sticky rest
            (Some (jsonError (hs_status response)
              (''Route '' @ [CHR 0x27] @ gr_id r @ [CHR 0x27] @ '' returned retryable status '' @ show_int (hs_status response)))) ?w3"
          using Cons.prems(2) h body' b(1) call Inr True by simp
        with True show ?thesis using next_ok [OF refl _ cooldownFor_ge] by (simp add: jsonError_def)
      next
        case last: True
        have "cooled model w ?w3 r" using t by (intro cooled_fail cooldownFor_ge) simp_all
        moreover have "route_loop cfg request model k sticky (r # rest) lastError w = (Inr response, ?w3)"
          using Cons.prems(2) h body' b(1) call Inr True last by simp
        ultimately show ?thesis
          using True last unfolding tried_in_order_def Let_def by (auto simp: fail_route_effect same)
      qed
    qed
  qed
qed

subsection \<open>The property\<close>

lemma rt_getAffinity_frame:
  "hval model (snd (rt_getAffinity key w)) = hval model w" "rw_now (snd (rt_getAffinity key w)) = rw_now w"
  "rw_aborted (snd (rt_getAffinity key w)) = rw_aborted w"
proof -
  show "hval model (snd (rt_getAffinity key w)) = hval model w"
    by (rule ext, rule hval_frame) (auto simp: rt_getAffinity_def state_getAffinity_def Let_def split: option.splits prod.splits)
qed (auto simp: rt_getAffinity_def state_getAffinity_def Let_def split: option.splits prod.splits)

lemma order_routes_set: "set (order_routes s routes) = set routes" "distinct (map gr_id routes) \<Longrightarrow> distinct (map gr_id (order_routes s routes))"
  by (auto simp: order_routes_def distinct_map inj_on_def split: option.splits)

text \<open>The route a session stuck to, and the routes that may be tried, in order.\<close>

definition sticky_of :: "HttpRequest \<Rightarrow> string \<Rightarrow> router_world \<Rightarrow> string option" where
  "sticky_of request model w = Option.bind (sessionAffinityKey request model) (\<lambda>key. fst (rt_getAffinity key w))"

definition candidates_of :: "router_config \<Rightarrow> HttpRequest \<Rightarrow> string \<Rightarrow> GatewayRoute list \<Rightarrow> router_world \<Rightarrow> GatewayRoute list" where
  "candidates_of cfg request model routes w =
     filter (\<lambda>r. opt_or (rh_cooldownUntil (hval model w (gr_id r))) 0 \<le> rw_now w \<and> js_get (rc_backends cfg) (gr_backend r) \<noteq> None)
       (order_routes (sticky_of request model w) routes)"

text \<open>
  Failover. For a request with a JSON object as body, to backends awaited without interference, the
  router considers the profile's routes that are off cooldown, the session's sticky route first, and
  tries them in that order: every route tried in vain is counted as failed and cooled down for at
  least its configured time, the first answer that is not retryable is returned, its route recorded as
  healthy and, if the answer was a success, made the session's sticky route; routes it did not try
  keep their health. If none answers, the result is a retryable error; with no candidate it is 503.
\<close>

theorem router_fails_over:
  assumes "js_get (rc_profiles cfg) model = Some routes" and "distinct (map gr_id routes)"
    and "hr_body request = Some (JObj fs)" and "\<not> rw_aborted w"
    and "\<forall>r \<in> set routes. \<forall>b. js_get (rc_backends cfg) (gr_backend r) = Some b \<longrightarrow> undisturbed b"
  shows "tried_in_order cfg model (sessionAffinityKey request model) (candidates_of cfg request model routes w) None w
    (router_handle cfg request model w)"
proof -
  let ?k = "sessionAffinityKey request model"
  obtain sticky w1 where aff: "(case ?k of Some key \<Rightarrow> rt_getAffinity key w | None \<Rightarrow> (None, w)) = (sticky, w1)"
    by (cases "case ?k of Some key \<Rightarrow> rt_getAffinity key w | None \<Rightarrow> (None, w)")
  have sticky: "sticky = sticky_of request model w" and w1: "hval model w1 = hval model w" "rw_now w1 = rw_now w" "rw_aborted w1 = rw_aborted w"
  proof -
    have "sticky = sticky_of request model w \<and> hval model w1 = hval model w \<and> rw_now w1 = rw_now w \<and> rw_aborted w1 = rw_aborted w"
    proof (cases ?k)
      case (Some key)
      with aff have "sticky = fst (rt_getAffinity key w)" "w1 = snd (rt_getAffinity key w)" by simp_all
      with Some show ?thesis by (simp add: sticky_of_def rt_getAffinity_frame)
    qed (use aff in \<open>simp add: sticky_of_def\<close>)
    then show "sticky = sticky_of request model w" "hval model w1 = hval model w" "rw_now w1 = rw_now w" "rw_aborted w1 = rw_aborted w"
      by simp_all
  qed
  obtain cs w2 where hr: "healthy_routes cfg model (order_routes sticky routes) w1 = (cs, w2)"
    by (cases "healthy_routes cfg model (order_routes sticky routes) w1")
  with healthy_routes_filter [of cfg model "order_routes sticky routes" w1] w1 sticky
  have cs: "cs = candidates_of cfg request model routes w"
    and w2: "hval model w2 = hval model w" "rw_now w2 = rw_now w" "rw_aborted w2 = rw_aborted w"
    by (simp_all add: candidates_of_def)
  have dist: "distinct (map gr_id cs)" unfolding cs candidates_of_def
    using order_routes_set(2) [OF assms(2)] by (rule distinct_map_filter)
  have backends: "\<exists>b. js_get (rc_backends cfg) (gr_backend r) = Some b \<and> undisturbed b" if "r \<in> set cs" for r
    using that assms(5) unfolding cs candidates_of_def by (auto simp: order_routes_set)
  have move: "tried_in_order cfg model ?k cs None w result" if "tried_in_order cfg model ?k cs None w2 result" for result
    using that w2 unfolding tried_in_order_def Let_def cooled_def won_def by simp
  have handle: "router_handle cfg request model w =
      (if cs = [] then (Inr (jsonError 503 (''No healthy route for '' @ [CHR 0x27] @ model @ [CHR 0x27])), w2)
       else route_loop cfg request model ?k sticky cs None w2)"
    unfolding router_handle_def assms(1) option.case Let_def aff prod.case hr by (rule refl)
  have "tried_in_order cfg model ?k cs None w2 (router_handle cfg request model w)"
  proof (cases "cs = []")
    case True
    then show ?thesis unfolding handle by (simp add: tried_in_order_def Let_def jsonError_def)
  next
    case False
    then show ?thesis
      unfolding handle using route_loop_tried [OF assms(3) dist _ backends, where w = w2 and lastError = None and sticky = sticky] assms(4) w2 by simp
  qed
  with move cs show ?thesis by simp
qed

subsection \<open>A concrete router\<close>

definition const_backend :: "int \<Rightarrow> backend" where
  "const_backend status req m w = (Inr \<lparr>hs_status = status, hs_headers = [], hs_body = m\<rparr>, w\<lparr>rw_now := rw_now w + 1\<rparr>)"

definition sample_route :: "string \<Rightarrow> GatewayRoute" where
  "sample_route i = \<lparr>gr_id = i, gr_backend = i, gr_model = None, gr_cooldownMs = None\<rparr>"

definition sample_router :: router_config where
  "sample_router = \<lparr>rc_backends = [(''a'', const_backend 503), (''b'', const_backend 200)],
     rc_profiles = [(''m'', [sample_route ''a'', sample_route ''b''])], rc_affinityTtlMs = 1000,
     rc_number = (\<lambda>_. None), rc_date = (\<lambda>_. None)\<rparr>"

definition sample_http :: HttpRequest where
  "sample_http = \<lparr>hr_headers = [(''x-synth-session'', ''s'')], hr_body = Some (JObj [])\<rparr>"

definition sample_rw :: router_world where
  "sample_rw = \<lparr>rw_health = [], rw_affinity = [], rw_healthCache = [], rw_affinityCache = [], rw_now = 5, rw_aborted = False\<rparr>"

theorem router_fails_over_witness:
  "cooled ''m'' sample_rw (snd (router_handle sample_router sample_http ''m'' sample_rw)) (sample_route ''a'') \<and>
   map_option hs_status (case fst (router_handle sample_router sample_http ''m'' sample_rw) of Inr r \<Rightarrow> Some r | Inl _ \<Rightarrow> None) = Some 200"
proof -
  let ?res = "router_handle sample_router sample_http ''m'' sample_rw"
  have 1: "js_get (rc_profiles sample_router) ''m'' = Some [sample_route ''a'', sample_route ''b'']" by (simp add: sample_router_def)
  have 2: "distinct (map gr_id [sample_route ''a'', sample_route ''b''])" by (simp add: sample_route_def)
  have 3: "hr_body sample_http = Some (JObj [])" by (simp add: sample_http_def)
  have 4: "\<not> rw_aborted sample_rw" by (simp add: sample_rw_def)
  have "undisturbed (const_backend st)" for st
    unfolding undisturbed_def const_backend_def by (auto intro!: exI [of _ "rw_now w + 1" for w])
  then have 5: "\<forall>r \<in> set [sample_route ''a'', sample_route ''b'']. \<forall>b. js_get (rc_backends sample_router) (gr_backend r) = Some b \<longrightarrow> undisturbed b"
    by (simp add: sample_router_def sample_route_def)
  have cs: "candidates_of sample_router sample_http ''m'' [sample_route ''a'', sample_route ''b''] sample_rw = [sample_route ''a'', sample_route ''b'']"
    by code_simp
  have ok: "map_option hs_status (case fst ?res of Inr r \<Rightarrow> Some r | Inl _ \<Rightarrow> None) = Some 200" by code_simp
  have fresh: "rh_cooldownUntil (hval ''m'' (snd ?res) ''a'') \<noteq> None" by code_simp
  from router_fails_over [OF 1 2 3 4 5, unfolded cs] have "cooled ''m'' sample_rw (snd ?res) (sample_route ''a'')"
  proof (simp only: tried_in_order_def Let_def, elim disjE exE conjE)
    fix failed r rest response
    assume s: "[sample_route ''a'', sample_route ''b''] = failed @ r # rest" and c: "\<forall>x \<in> set failed. cooled ''m'' sample_rw (snd ?res) x"
      and w: "won ''m'' sample_rw (snd ?res) r response"
    show ?thesis
    proof (cases failed)
      case Nil
      with s have "gr_id r = ''a''" by (auto simp: sample_route_def)
      with w fresh show ?thesis by (simp add: won_def)
    qed (use s c in auto)
  qed simp
  with ok show ?thesis by blast
qed

subsection \<open>Where the router falls short\<close>

text \<open>
  The health of a route is read before the upstream call and written after it. If another replica put
  the route on cooldown meanwhile, an answer of this replica's call erases that cooldown and the count.
\<close>

definition racing_backend :: backend where
  "racing_backend req m w =
     (Inr \<lparr>hs_status = 200, hs_headers = [], hs_body = m\<rparr>,
      fail_route ''m'' None None (sample_route ''a'') (hval ''m'' w ''a'') 60000 w)"

lemma concurrent_cooldown_lost:
  "let cfg = sample_router\<lparr>rc_backends := [(''a'', racing_backend)], rc_profiles := [(''m'', [sample_route ''a''])]\<rparr>;
       w = snd (router_handle cfg sample_http ''m'' sample_rw)
   in rh_cooldownUntil (hval ''m'' w ''a'') = None \<and> rh_failures (hval ''m'' w ''a'') = 0"
  by code_simp

text \<open>Clearing the affinity of a session also clears that of another session whose id ends with it.\<close>

lemma clear_affinity_suffix:
  "let w = rt_putAffinity 10 ''public:m:a:b'' ''r'' sample_rw
   in rw_affinity (clearAffinity (Some ''b'') w) = [] \<and> rw_affinity w \<noteq> []"
  by code_simp

subsection \<open>Continuations\<close>

lemma evict_last: "1 \<le> maxEntries \<Longrightarrow> \<exists>m'. evict maxEntries (m @ [p]) = m' @ [p] \<and> set m' \<subseteq> set m"
proof (induction m)
  case (Cons q m)
  then show ?case by (cases q) (auto intro: exI [of _ "q # m"])
qed (cases p; simp)

lemma update_absent: "js_get m k = None \<Longrightarrow> js_set k v m = m @ [(k, v)]"
  by (induction m) (auto split: if_splits)

text \<open>A stored continuation is read back until it expires, by its tenant only, in both stores.\<close>

lemma continuation_read_back:
  assumes "1 \<le> maxEntries" and "wf_jsmap m"
  shows "fst (getContinuation (putContinuation maxEntries m r) (cn_id r) tenant now) =
      (if cn_expired now r \<or> tenant \<noteq> cn_tenantId r then None else Some r)"
    and "pg_getContinuation (pg_putContinuation m r) (cn_id r) tenant now =
      (if cn_expired now r \<or> tenant \<noteq> cn_tenantId r then None else Some r)"
proof -
  have "js_set (cn_id r) r (js_delete (cn_id r) m) = js_delete (cn_id r) m @ [(cn_id r, r)]"
    by (rule update_absent) simp
  then obtain m' where "putContinuation maxEntries m r = m' @ [(cn_id r, r)]" and "set m' \<subseteq> set (js_delete (cn_id r) m)"
    using evict_last [OF assms(1), of "js_delete (cn_id r) m" "(cn_id r, r)"] by (auto simp: putContinuation_def)
  moreover from this(2) have "js_get m' (cn_id r) = None"
    using AList.delete_notin_dom [of "cn_id r" m] by (force simp: map_of_eq_None_iff)
  ultimately have "js_get (putContinuation maxEntries m r) (cn_id r) = Some r" by (simp add: map_add_def)
  then show "fst (getContinuation (putContinuation maxEntries m r) (cn_id r) tenant now) =
      (if cn_expired now r \<or> tenant \<noteq> cn_tenantId r then None else Some r)"
    by (simp add: getContinuation_def)
qed (simp add: pg_getContinuation_def pg_putContinuation_def)

lemma continuation_tenant:
  "fst (getContinuation m i tenant now) = Some r \<Longrightarrow> cn_tenantId r = tenant \<and> \<not> cn_expired now r"
  "pg_getContinuation m i tenant now = fst (getContinuation m i tenant now)"
  by (auto simp: getContinuation_def pg_getContinuation_def split: option.splits if_splits)

end
