(* ===== verification/Graph.thy ===== *)
theory Graph
  imports Json "HOL-Library.Char_ord"
begin

text \<open>
  The step graph of durable flows (\<^verbatim>\<open>src/integrations/temporal/src/graph.ts\<close>) and the workflow that runs it
  (\<^verbatim>\<open>graph-workflow.ts\<close>). The interpreter threads the scope, the world \<open>'h\<close> of its handlers and the state
  \<open>'k\<close> of the node hook; a handler or the hook may throw. \<^verbatim>\<open>undefined\<close> is a value of its own, since
  composite nodes produce it. The children of a fanout are run one after the other, which is one of
  the schedules \<^verbatim>\<open>Promise.all\<close> allows. Only own properties are looked up by a condition.
\<close>

subsection \<open>Values and conditions\<close>

datatype gval = GUndef | GJson json | GArr "gval list"

fun gval_text :: "gval \<Rightarrow> string option" where
  "gval_text GUndef = None"
| "gval_text (GJson j) = Some (stringify j)"
| "gval_text (GArr vs) = Some (''['' @ join_parts (map (\<lambda>v. opt_or (gval_text v) ''null'') vs) @ '']'')"

definition index_of :: "string \<Rightarrow> nat option" where
  "index_of key =
     (if key \<noteq> [] \<and> list_all (\<lambda>c. CHR ''0'' \<le> c \<and> c \<le> CHR ''9'') key \<and> (hd key \<noteq> CHR ''0'' \<or> key = ''0'')
      then Some (foldl (\<lambda>n c. 10 * n + (of_char c - 48)) 0 key) else None)"

text \<open>One property access; an array has indices and a length, what is not an object ends the walk.\<close>

fun get_key :: "gval \<Rightarrow> string \<Rightarrow> gval" where
  "get_key (GJson (JObj fs)) key = (case js_get fs key of Some v \<Rightarrow> GJson v | None \<Rightarrow> GUndef)"
| "get_key (GJson (JArr xs)) key =
     (if key = ''length'' then GJson (JNum (int (length xs)))
      else (case index_of key of Some n \<Rightarrow> if n < length xs then GJson (xs ! n) else GUndef | None \<Rightarrow> GUndef))"
| "get_key (GArr vs) key =
     (if key = ''length'' then GJson (JNum (int (length vs)))
      else (case index_of key of Some n \<Rightarrow> if n < length vs then vs ! n else GUndef | None \<Rightarrow> GUndef))"
| "get_key _ key = GUndef"

definition resolvePath :: "(string, gval) jsmap \<Rightarrow> string \<Rightarrow> gval" where
  "resolvePath results path =
     (case split_on (CHR ''.'') path of
        [] \<Rightarrow> GUndef
      | key # keys \<Rightarrow> foldl get_key (opt_or (js_get results key) GUndef) keys)"

record GraphCondition =
  gc_path :: string
  gc_equals :: gval

definition matchesCondition :: "GraphCondition \<Rightarrow> (string, gval) jsmap \<Rightarrow> bool" where
  "matchesCondition condition results \<longleftrightarrow>
     gval_text (resolvePath results (gc_path condition)) = gval_text (gc_equals condition)"

subsection \<open>Graphs and scopes\<close>

datatype GraphStep =
    TurnStep string string json
  | ActivityStep string string gval
  | ChildAgent string json
  | ChildGraph string GraphStep
  | Sequence string "GraphStep list"
  | Fanout string "GraphStep list"
  | Branch string GraphCondition GraphStep "GraphStep option"
  | Loop string GraphStep nat GraphCondition

fun step_id :: "GraphStep \<Rightarrow> string" where
  "step_id (TurnStep i _ _) = i"
| "step_id (ActivityStep i _ _) = i"
| "step_id (ChildAgent i _) = i"
| "step_id (ChildGraph i _) = i"
| "step_id (Sequence i _) = i"
| "step_id (Fanout i _) = i"
| "step_id (Branch i _ _ _) = i"
| "step_id (Loop i _ _ _) = i"

record GraphScope =
  gs_results :: "(string, gval) jsmap"
  gs_iteration :: nat
  gs_completed :: "string list"
  gs_journal :: "string list"

definition newGraphScope :: GraphScope where
  "newGraphScope = \<lparr>gs_results = [], gs_iteration = 0, gs_completed = [], gs_journal = []\<rparr>"

record 'h GraphHandlers =
  gh_turn :: "GraphStep \<Rightarrow> 'h \<Rightarrow> (string + gval) \<times> 'h"
  gh_activity :: "GraphStep \<Rightarrow> 'h \<Rightarrow> (string + gval) \<times> 'h"
  gh_child :: "GraphStep \<Rightarrow> 'h \<Rightarrow> (string + gval) \<times> 'h"

datatype 'e graph_error = HandlerError string | HookError 'e

type_synonym ('h, 'k) graph_state = "GraphScope \<times> 'h \<times> 'k"

subsection \<open>The interpreter\<close>

definition result_of :: "GraphScope \<Rightarrow> string \<Rightarrow> gval" where
  "result_of scope i = opt_or (js_get (gs_results scope) i) GUndef"

text \<open>What \<^verbatim>\<open>executeGraph\<close> does after the step ran: record, journal, call the hook.\<close>

definition finish_node ::
  "(GraphScope \<Rightarrow> 'k \<Rightarrow> 'e option \<times> 'k) \<Rightarrow> string \<Rightarrow> string \<Rightarrow> gval \<Rightarrow> ('h, 'k) graph_state \<Rightarrow>
   ('e graph_error + gval) \<times> ('h, 'k) graph_state" where
  "finish_node onNode i path v st =
     (case st of (scope, h, k) \<Rightarrow>
        let scope' = scope\<lparr>gs_results := js_set i v (gs_results scope), gs_completed := gs_completed scope @ [i],
                           gs_journal := set_add path (gs_journal scope)\<rparr>
        in (case onNode scope' k of
              (None, k') \<Rightarrow> (Inr v, scope', h, k')
            | (Some e, k') \<Rightarrow> (Inl (HookError e), scope', h, k')))"

definition leaf_call ::
  "(GraphStep \<Rightarrow> 'h \<Rightarrow> (string + gval) \<times> 'h) \<Rightarrow> GraphStep \<Rightarrow> ('h, 'k) graph_state \<Rightarrow> ('e graph_error + gval) \<times> ('h, 'k) graph_state" where
  "leaf_call f step st =
     (case st of (scope, h, k) \<Rightarrow>
        (case f step h of (Inl e, h') \<Rightarrow> (Inl (HandlerError e), scope, h', k) | (Inr v, h') \<Rightarrow> (Inr v, scope, h', k)))"

definition child_path :: "string \<Rightarrow> nat \<Rightarrow> GraphStep \<Rightarrow> string" where
  "child_path path n child = path @ ''/'' @ show_nat n @ '':'' @ step_id child"

definition branch_path :: "string \<Rightarrow> bool \<Rightarrow> GraphStep \<Rightarrow> string" where
  "branch_path path taken chosen = path @ ''/'' @ (if taken then ''then'' else ''else'') @ '':'' @ step_id chosen"

definition loop_path :: "string \<Rightarrow> nat \<Rightarrow> GraphStep \<Rightarrow> string" where
  "loop_path path n body = path @ ''#'' @ show_nat n @ ''/'' @ step_id body"

text \<open>The first iteration of a loop that is not journaled.\<close>

fun loop_start :: "nat \<Rightarrow> GraphScope \<Rightarrow> string \<Rightarrow> GraphStep \<Rightarrow> nat \<Rightarrow> nat" where
  "loop_start 0 scope path body n = n"
| "loop_start (Suc m) scope path body n =
     (if loop_path path n body \<in> set (gs_journal scope) then loop_start m scope path body (Suc n) else n)"

fun gsize :: "GraphStep \<Rightarrow> nat" where
  "gsize (ChildGraph _ g) = Suc (gsize g)"
| "gsize (Sequence _ gs) = Suc (sum_list (map gsize gs))"
| "gsize (Fanout _ gs) = Suc (sum_list (map gsize gs))"
| "gsize (Branch _ _ g None) = Suc (gsize g)"
| "gsize (Branch _ _ g (Some g')) = Suc (gsize g + gsize g')"
| "gsize (Loop _ g _ _) = Suc (gsize g)"
| "gsize _ = 1"

lemma gsize_Branch: "gsize (Branch i c g g2) = Suc (gsize g + (case g2 of None \<Rightarrow> 0 | Some g' \<Rightarrow> gsize g'))"
  by (cases g2) simp_all

text \<open>
  \<open>exec\<close> is \<^verbatim>\<open>executeGraph\<close>, \<open>run_step\<close> is \<^verbatim>\<open>runStep\<close> with its value, \<open>run_list\<close> the loop over the children of
  a sequence or fanout and \<open>run_loop\<close> the iterations from \<open>n\<close> on, with \<open>m\<close> left and the value of the last
  one so far.
\<close>

function exec ::
    "'h GraphHandlers \<Rightarrow> (GraphScope \<Rightarrow> 'k \<Rightarrow> 'e option \<times> 'k) \<Rightarrow> GraphStep \<Rightarrow> string \<Rightarrow> ('h, 'k) graph_state \<Rightarrow>
     ('e graph_error + gval) \<times> ('h, 'k) graph_state"
  and run_step ::
    "'h GraphHandlers \<Rightarrow> (GraphScope \<Rightarrow> 'k \<Rightarrow> 'e option \<times> 'k) \<Rightarrow> GraphStep \<Rightarrow> string \<Rightarrow> ('h, 'k) graph_state \<Rightarrow>
     ('e graph_error + gval) \<times> ('h, 'k) graph_state"
  and run_list ::
    "'h GraphHandlers \<Rightarrow> (GraphScope \<Rightarrow> 'k \<Rightarrow> 'e option \<times> 'k) \<Rightarrow> GraphStep list \<Rightarrow> nat \<Rightarrow> string \<Rightarrow> ('h, 'k) graph_state \<Rightarrow>
     ('e graph_error + gval list) \<times> ('h, 'k) graph_state"
  and run_loop ::
    "'h GraphHandlers \<Rightarrow> (GraphScope \<Rightarrow> 'k \<Rightarrow> 'e option \<times> 'k) \<Rightarrow> GraphStep \<Rightarrow> GraphCondition \<Rightarrow> string \<Rightarrow> nat \<Rightarrow> nat \<Rightarrow> gval \<Rightarrow>
     ('h, 'k) graph_state \<Rightarrow> ('e graph_error + gval) \<times> ('h, 'k) graph_state" where
  "exec hs onNode g path st =
     (case st of (scope, h, k) \<Rightarrow>
        if path \<in> set (gs_journal scope) then (Inr (result_of scope (step_id g)), st)
        else (case run_step hs onNode g path st of
                (Inl e, st') \<Rightarrow> (Inl e, st')
              | (Inr v, st') \<Rightarrow> finish_node onNode (step_id g) path v st'))"
| "run_step hs onNode (TurnStep i a m) path st = leaf_call (gh_turn hs) (TurnStep i a m) st"
| "run_step hs onNode (ActivityStep i a m) path st = leaf_call (gh_activity hs) (ActivityStep i a m) st"
| "run_step hs onNode (ChildAgent i s) path st = leaf_call (gh_child hs) (ChildAgent i s) st"
| "run_step hs onNode (ChildGraph i g) path st = leaf_call (gh_child hs) (ChildGraph i g) st"
| "run_step hs onNode (Sequence i gs) path st =
     (case run_list hs onNode gs 0 path st of
        (Inl e, st') \<Rightarrow> (Inl e, st')
      | (Inr vs, st') \<Rightarrow> (Inr (if vs = [] then GUndef else last vs), st'))"
| "run_step hs onNode (Fanout i gs) path st =
     (case run_list hs onNode gs 0 path st of
        (Inl e, st') \<Rightarrow> (Inl e, st')
      | (Inr vs, st') \<Rightarrow> (Inr (GArr vs), st'))"
| "run_step hs onNode (Branch i c g1 g2) path st =
     (if matchesCondition c (gs_results (fst st)) then exec hs onNode g1 (branch_path path True g1) st
      else (case g2 of None \<Rightarrow> (Inr GUndef, st) | Some g \<Rightarrow> exec hs onNode g (branch_path path False g) st))"
| "run_step hs onNode (Loop i body maxIterations until) path st =
     (case st of (scope, h, k) \<Rightarrow>
        let start = loop_start maxIterations scope path body 0
        in if start > 0 \<and> matchesCondition until (gs_results scope)
           then (Inr (result_of scope (step_id body)), st)
           else run_loop hs onNode body until path start (maxIterations - start) GUndef st)"
| "run_list hs onNode [] n path st = (Inr [], st)"
| "run_list hs onNode (g # gs) n path st =
     (case exec hs onNode g (child_path path n g) st of
        (Inl e, st') \<Rightarrow> (Inl e, st')
      | (Inr v, st') \<Rightarrow>
          (case run_list hs onNode gs (Suc n) path st' of
             (Inl e, st'') \<Rightarrow> (Inl e, st'')
           | (Inr vs, st'') \<Rightarrow> (Inr (v # vs), st'')))"
| "run_loop hs onNode body until path n 0 v st = (case st of (scope, h, k) \<Rightarrow> (Inr v, scope\<lparr>gs_iteration := 0\<rparr>, h, k))"
| "run_loop hs onNode body until path n (Suc m) v st =
     (case st of (scope, h, k) \<Rightarrow>
        (case exec hs onNode body (loop_path path n body) (scope\<lparr>gs_iteration := n\<rparr>, h, k) of
           (Inl e, st') \<Rightarrow> (Inl e, st')
         | (Inr v', (scope', h', k')) \<Rightarrow>
             if matchesCondition until (gs_results scope') then (Inr v', scope'\<lparr>gs_iteration := 0\<rparr>, h', k')
             else run_loop hs onNode body until path (Suc n) m v' (scope', h', k')))"
  by pat_completeness auto

termination
  by (relation "measures
      [\<lambda>x. case x of
          Inl (Inl (hs, onNode, g, path, st)) \<Rightarrow> 2 * gsize g + 1
        | Inl (Inr (hs, onNode, g, path, st)) \<Rightarrow> 2 * gsize g
        | Inr (Inl (hs, onNode, gs, n, path, st)) \<Rightarrow> 2 * sum_list (map gsize gs) + 1
        | Inr (Inr (hs, onNode, body, until, path, n, m, v, st)) \<Rightarrow> 2 * gsize body + 1,
       \<lambda>x. case x of
          Inr (Inl (hs, onNode, gs, n, path, st)) \<Rightarrow> length gs
        | Inr (Inr (hs, onNode, body, until, path, n, m, v, st)) \<Rightarrow> Suc m
        | _ \<Rightarrow> 0]") (auto simp: gsize_Branch split: option.splits)

subsection \<open>The workflow\<close>

text \<open>
  \<^verbatim>\<open>runGraphWorkflow\<close>: the hook counts the nodes of this run and throws to unwind; \<open>cancelled n\<close> says whether
  the cancel signal has arrived when the hook runs for the \<open>n\<close>-th time.
\<close>

datatype graph_stop = GraphCancelled | ContinueAsNewGraph

definition CONTINUE_AS_NEW_AFTER_NODES :: nat where
  "CONTINUE_AS_NEW_AFTER_NODES = 1000"

definition node_hook :: "nat \<Rightarrow> (nat \<Rightarrow> bool) \<Rightarrow> GraphScope \<Rightarrow> nat \<Rightarrow> graph_stop option \<times> nat" where
  "node_hook threshold cancelled scope completedThisRun =
     (if cancelled completedThisRun then (Some GraphCancelled, completedThisRun)
      else (let n = Suc completedThisRun in if n \<ge> threshold then (Some ContinueAsNewGraph, n) else (None, n)))"

datatype graph_outcome = GraphCompleted | GraphWasCancelled | GraphFailed string | GraphContinued

definition runGraphWorkflow ::
  "'h GraphHandlers \<Rightarrow> nat \<Rightarrow> (nat \<Rightarrow> bool) \<Rightarrow> GraphStep \<Rightarrow> GraphScope option \<Rightarrow> 'h \<Rightarrow> graph_outcome \<times> GraphScope \<times> 'h" where
  "runGraphWorkflow hs threshold cancelled graph carried h =
     (case exec hs (node_hook threshold cancelled) graph (step_id graph) (opt_or carried newGraphScope, h, 0) of
        (Inr v, scope, h', _) \<Rightarrow> (GraphCompleted, scope, h')
      | (Inl (HookError GraphCancelled), scope, h', _) \<Rightarrow> (GraphWasCancelled, scope, h')
      | (Inl (HookError ContinueAsNewGraph), scope, h', _) \<Rightarrow> (GraphContinued, scope, h')
      | (Inl (HandlerError e), scope, h', _) \<Rightarrow> (GraphFailed e, scope, h'))"

text \<open>The runs of one workflow, each continued as new from the scope of the one before.\<close>

fun graph_chain :: "nat \<Rightarrow> 'h GraphHandlers \<Rightarrow> nat \<Rightarrow> GraphStep \<Rightarrow> GraphScope option \<Rightarrow> 'h \<Rightarrow> (graph_outcome \<times> GraphScope \<times> 'h) option" where
  "graph_chain 0 hs threshold graph carried h = None"
| "graph_chain (Suc fuel) hs threshold graph carried h =
     (case runGraphWorkflow hs threshold (\<lambda>_. False) graph carried h of
        (GraphContinued, scope, h') \<Rightarrow> graph_chain fuel hs threshold graph (Some scope) h'
      | result \<Rightarrow> Some result)"

end
