(* ===== verification/Graph_Laws.thy ===== *)
theory Graph_Laws
  imports Graph
begin

text \<open>
  Continue-as-new is transparent: a flow cut into runs by the node threshold does and returns what one
  uninterrupted run does, and the number of runs is bounded by the size of the graph. The lemmas are
  about graphs without loops whose branches do not read what they write; where these conditions
  matter is shown by example.
\<close>

subsection \<open>Positions and names\<close>

fun ids_of :: "GraphStep \<Rightarrow> string list" where
  "ids_of (Sequence i gs) = i # concat (map ids_of gs)"
| "ids_of (Fanout i gs) = i # concat (map ids_of gs)"
| "ids_of (Branch i c g None) = i # ids_of g"
| "ids_of (Branch i c g (Some g')) = i # ids_of g @ ids_of g'"
| "ids_of (Loop i g _ _) = i # ids_of g"
| "ids_of g = [step_id g]"

definition condition_root :: "GraphCondition \<Rightarrow> string" where
  "condition_root c = hd (split_on (CHR ''.'') (gc_path c))"

text \<open>No loop; the id of a child is not used by a later sibling; a branch does not read its own nodes.\<close>

fun resumable :: "GraphStep \<Rightarrow> bool" and resumable_list :: "GraphStep list \<Rightarrow> bool" where
  "resumable (Sequence i gs) = resumable_list gs"
| "resumable (Fanout i gs) = resumable_list gs"
| "resumable (Branch i c g None) = (resumable g \<and> condition_root c \<notin> set (ids_of g))"
| "resumable (Branch i c g (Some g')) =
     (resumable g \<and> resumable g' \<and> condition_root c \<notin> set (ids_of g) \<and> condition_root c \<notin> set (ids_of g'))"
| "resumable (Loop _ _ _ _) = False"
| "resumable _ = True"
| "resumable_list [] = True"
| "resumable_list (g # gs) = (resumable g \<and> step_id g \<notin> set (concat (map ids_of gs)) \<and> resumable_list gs)"

lemma step_id_in_ids [simp]: "step_id g \<in> set (ids_of g)"
  by (cases g rule: ids_of.cases) simp_all

lemma matchesCondition_root:
  assumes "js_get r (condition_root c) = js_get r' (condition_root c)"
  shows "matchesCondition c r = matchesCondition c r'"
  using assms
  by (cases "split_on (CHR ''.'') (gc_path c)") (simp_all add: matchesCondition_def resolvePath_def condition_root_def)

text \<open>Positions below a node are longer than its own.\<close>

definition below :: "string \<Rightarrow> string \<Rightarrow> bool" where
  "below path q \<longleftrightarrow> (\<exists>s. s \<noteq> [] \<and> q = path @ s)"

lemma below_append: "s \<noteq> [] \<Longrightarrow> below path (path @ s)"
  unfolding below_def by blast

lemma below_paths [simp]: "below path (child_path path n g)" "below path (branch_path path b g)"
  unfolding child_path_def branch_path_def by (rule below_append, simp)+

lemma not_below_self [simp]: "\<not> below path path"
  unfolding below_def by (metis self_append_conv)

lemma below_trans: "below p q \<Longrightarrow> below q r \<Longrightarrow> below p r"
  unfolding below_def by (metis append.assoc append_is_Nil_conv)

subsection \<open>What a run touches\<close>

text \<open>
  From a scope to a later one: the journal grows by positions satisfying \<open>P\<close> and results change only for
  ids in \<open>I\<close>.
\<close>

definition grows :: "(string \<Rightarrow> bool) \<Rightarrow> string set \<Rightarrow> GraphScope \<Rightarrow> GraphScope \<Rightarrow> bool" where
  "grows P I s s' \<longleftrightarrow> set (gs_journal s) \<subseteq> set (gs_journal s') \<and>
     (\<forall>q \<in> set (gs_journal s'). q \<in> set (gs_journal s) \<or> P q) \<and>
     (\<forall>i. i \<notin> I \<longrightarrow> js_get (gs_results s') i = js_get (gs_results s) i)"

lemma grows_refl [simp]: "grows P I s s"
  by (simp add: grows_def)

lemma grows_trans: "grows P I s s' \<Longrightarrow> grows P I s' s'' \<Longrightarrow> grows P I s s''"
  by (auto simp: grows_def)

lemma grows_mono: "grows P I s s' \<Longrightarrow> (\<And>q. P q \<Longrightarrow> Q q) \<Longrightarrow> I \<subseteq> J \<Longrightarrow> grows Q J s s'"
  by (auto simp: grows_def)

definition at_or_below :: "string \<Rightarrow> string \<Rightarrow> bool" where
  "at_or_below path q \<longleftrightarrow> q = path \<or> below path q"

lemma leaf_call_scope [simp]: "fst (snd (leaf_call f g st)) = fst st"
  by (cases st) (simp add: leaf_call_def split: prod.splits sum.splits)

lemma finish_grows: "grows (at_or_below path) {i} (fst st) (fst (snd (finish_node onNode i path v st)))"
  by (cases st) (auto simp: finish_node_def grows_def at_or_below_def Let_def split: prod.splits option.splits)

lemma exec_grows:
  "resumable g \<Longrightarrow> grows (at_or_below path) (set (ids_of g)) (fst st) (fst (snd (exec hs onNode g path st)))"
  "resumable g \<Longrightarrow> grows (below path) (set (ids_of g)) (fst st) (fst (snd (run_step hs onNode g path st)))"
  "resumable_list gs \<Longrightarrow> grows (below path) (set (concat (map ids_of gs))) (fst st) (fst (snd (run_list hs onNode gs n path st)))"
  "run_loop hs onNode body until path n m v st = run_loop hs onNode body until path n m v st"
proof (induction hs onNode g path st and hs onNode g path st and hs onNode gs n path st and hs onNode body until path n m v st
    rule: exec_run_step_run_list_run_loop.induct)
  case (1 hs onNode g path st)
  obtain scope h k where st: "st = (scope, h, k)" by (cases st)
  show ?case
  proof (cases "path \<in> set (gs_journal scope)")
    case False
    obtain out st' where run: "run_step hs onNode g path st = (out, st')" by (cases "run_step hs onNode g path st")
    have sub: "grows (at_or_below path) (set (ids_of g)) scope (fst st')"
      using "1.IH" [OF st [symmetric] refl False] "1.prems" run st
      by (auto intro: grows_mono [where P = "below path"] simp: at_or_below_def)
    show ?thesis
    proof (cases out)
      case (Inl e)
      with sub run st False show ?thesis by simp
    next
      case (Inr v)
      have "grows (at_or_below path) (set (ids_of g)) (fst st') (fst (snd (finish_node onNode (step_id g) path v st')))"
        by (rule grows_mono [OF finish_grows]) simp_all
      with grows_trans [OF sub this] run st False Inr show ?thesis by simp
    qed
  qed (simp add: st)
next
  case (6 hs onNode i gs path st)
  then show ?case
    by (auto split: prod.splits sum.splits intro: grows_mono)
next
  case (7 hs onNode i gs path st)
  then show ?case
    by (auto split: prod.splits sum.splits intro: grows_mono)
next
  case (8 hs onNode i c g1 g2 path st)
  then show ?case
    by (cases g2) (auto simp: at_or_below_def intro: below_trans [OF below_paths(2)] elim!: grows_mono)
next
  case (11 hs onNode g gs n path st)
  obtain out st' where ex: "exec hs onNode g (child_path path n g) st = (out, st')" by (cases "exec hs onNode g (child_path path n g) st")
  have sub: "grows (below path) (set (concat (map ids_of (g # gs)))) (fst st) (fst st')"
    using "11.IH"(1) "11.prems" ex by (auto simp: at_or_below_def intro: below_trans [OF below_paths(1)] elim!: grows_mono)
  show ?case
  proof (cases out)
    case (Inr v)
    have "grows (below path) (set (concat (map ids_of (g # gs)))) (fst st') (fst (snd (run_list hs onNode gs (Suc n) path st')))"
      using "11.IH"(2) [OF ex [symmetric] Inr] "11.prems" by (auto elim!: grows_mono)
    from grows_trans [OF sub this] show ?thesis
      using ex Inr by (auto split: prod.splits sum.splits)
  qed (use sub ex in simp)
qed (simp_all)

subsection \<open>Interrupting and resuming\<close>

abbreviation never :: "GraphScope \<Rightarrow> unit \<Rightarrow> unit option \<times> unit" where
  "never \<equiv> \<lambda>_ k. (None, k)"

text \<open>
  A run with any hook against the run that is never interrupted: the same result if the hook let it
  finish, and if the hook threw, resuming uninterrupted from where it stopped is the uninterrupted run.
\<close>

definition same_or_resumes ::
  "(GraphScope \<times> 'h \<Rightarrow> (unit graph_error + 'v) \<times> ('h, unit) graph_state) \<Rightarrow> ('e graph_error + 'v) \<times> ('h, 'k) graph_state \<Rightarrow>
   GraphScope \<times> 'h \<Rightarrow> bool" where
  "same_or_resumes whole part start \<longleftrightarrow>
     (case part of
        (Inr v, s, h, k) \<Rightarrow> whole start = (Inr v, s, h, ())
      | (Inl (HandlerError e), s, h, k) \<Rightarrow> whole start = (Inl (HandlerError e), s, h, ())
      | (Inl (HookError e), s, h, k) \<Rightarrow> whole (s, h) = whole start)"

lemma exec_done:
  assumes "exec hs onNode g path (s, h, k) = (Inr v, s', h', k')"
  shows "path \<in> set (gs_journal s') \<and> result_of s' (step_id g) = v"
  using assms
  by (auto simp: finish_node_def result_of_def Let_def split: prod.splits sum.splits option.splits if_splits)

lemma exec_cached: "path \<in> set (gs_journal s) \<Longrightarrow> exec hs onNode g path (s, h, k) = (Inr (result_of s (step_id g)), s, h, k)"
  by simp

declare exec.simps [simp del]

lemma exec_run:
  "path \<notin> set (gs_journal s) \<Longrightarrow> exec hs onNode g path (s, h, k) =
     (case run_step hs onNode g path (s, h, k) of
        (Inl e, st') \<Rightarrow> (Inl e, st')
      | (Inr v, st') \<Rightarrow> finish_node onNode (step_id g) path v st')"
  by (simp add: exec.simps)

lemma leaf_call_resumes: "same_or_resumes (\<lambda>(s, h). leaf_call f g (s, h, ())) (leaf_call f g (s, h, k)) (s, h)"
  by (auto simp: same_or_resumes_def leaf_call_def split: prod.splits sum.splits)

lemma finish_resumes:
  assumes "same_or_resumes (\<lambda>(s, h). run_step hs never g path (s, h, ())) (run_step hs onNode g path (s, h, k)) (s, h)"
    and new: "path \<notin> set (gs_journal s)" and res: "resumable g"
  shows "same_or_resumes (\<lambda>(s, h). exec hs never g path (s, h, ())) (exec hs onNode g path (s, h, k)) (s, h)"
proof -
  obtain out s1 h1 k1 where run: "run_step hs onNode g path (s, h, k) = (out, s1, h1, k1)" by (metis prod_cases4)
  have new1: "path \<notin> set (gs_journal s1)"
    using exec_grows(2) [OF res, of path "(s, h, k)" hs onNode] new run by (auto simp: grows_def)
  consider (finished) v where "out = Inr v" | (failed) e where "out = Inl (HandlerError e)" | (stopped) e where "out = Inl (HookError e)"
    by (metis graph_error.exhaust sum.exhaust)
  then show ?thesis
  proof cases
    case finished
    then have "run_step hs never g path (s, h, ()) = (Inr v, s1, h1, ())"
      using assms(1) run by (simp add: same_or_resumes_def)
    with finished run new show ?thesis
      by (auto simp: exec_run finish_node_def same_or_resumes_def exec_cached result_of_def Let_def split: prod.splits option.splits)
  next
    case failed
    then have "run_step hs never g path (s, h, ()) = (Inl (HandlerError e), s1, h1, ())"
      using assms(1) run by (simp add: same_or_resumes_def)
    with failed run new show ?thesis
      by (simp add: exec_run same_or_resumes_def)
  next
    case stopped
    then have "run_step hs never g path (s1, h1, ()) = run_step hs never g path (s, h, ())"
      using assms(1) run by (simp add: same_or_resumes_def)
    with stopped run new new1 show ?thesis
      by (simp add: exec_run same_or_resumes_def)
  qed
qed

lemma list_resumes:
  assumes first: "same_or_resumes (\<lambda>(s, h). exec hs never g p (s, h, ())) (exec hs onNode g p (s, h, k)) (s, h)"
    and rest: "\<And>v s' h' k'. exec hs onNode g p (s, h, k) = (Inr v, s', h', k') \<Longrightarrow>
      same_or_resumes (\<lambda>(s, h). run_list hs never gs (Suc n) path (s, h, ())) (run_list hs onNode gs (Suc n) path (s', h', k')) (s', h')"
    and p: "p = child_path path n g" and res: "resumable_list (g # gs)"
  shows "same_or_resumes (\<lambda>(s, h). run_list hs never (g # gs) n path (s, h, ())) (run_list hs onNode (g # gs) n path (s, h, k)) (s, h)"
proof -
  obtain out s1 h1 k1 where ex: "exec hs onNode g p (s, h, k) = (out, s1, h1, k1)" by (metis prod_cases4)
  consider (finished) v where "out = Inr v" | (failed) e where "out = Inl (HandlerError e)" | (stopped) e where "out = Inl (HookError e)"
    by (metis graph_error.exhaust sum.exhaust)
  then show ?thesis
  proof cases
    case finished
    have whole: "exec hs never g p (s, h, ()) = (Inr v, s1, h1, ())"
      using first ex finished by (simp add: same_or_resumes_def)
    obtain out2 s2 h2 k2 where run: "run_list hs onNode gs (Suc n) path (s1, h1, k1) = (out2, s2, h2, k2)" by (metis prod_cases4)
    have grow: "grows (below path) (set (concat (map ids_of gs))) s1 s2"
      using exec_grows(3) [of gs path "(s1, h1, k1)" hs onNode "Suc n"] res run by simp
    from exec_done [OF ex [unfolded finished]] have "p \<in> set (gs_journal s1)" and v: "result_of s1 (step_id g) = v" by auto
    with grow have "p \<in> set (gs_journal s2)" by (auto simp: grows_def)
    moreover have "result_of s2 (step_id g) = v" using grow res v by (simp add: grows_def result_of_def)
    ultimately have cached: "exec hs never g p (s2, h2, ()) = (Inr v, s2, h2, ())" by (simp add: exec_cached)
    from rest [OF ex [unfolded finished]] run show ?thesis
      using ex finished whole cached p unfolding same_or_resumes_def
      by (auto split: sum.splits graph_error.splits prod.splits)
  next
    case failed
    then show ?thesis using first ex p by (simp add: same_or_resumes_def)
  next
    case stopped
    then show ?thesis using first ex p by (simp add: same_or_resumes_def)
  qed
qed

lemma map_outcome_resumes:
  assumes "same_or_resumes (\<lambda>(s, h). whole (s, h, ())) (part :: ('e graph_error + 'v) \<times> ('h, 'k) graph_state) (s, h)"
  shows "same_or_resumes
    (\<lambda>(s, h). case whole (s, h, ()) of (Inl e, st') \<Rightarrow> (Inl e, st') | (Inr v, st') \<Rightarrow> (Inr (f v), st'))
    (case part of (Inl e, st') \<Rightarrow> (Inl e, st') | (Inr v, st') \<Rightarrow> (Inr (f v), st')) (s, h)"
  using assms unfolding same_or_resumes_def by (auto split: prod.splits sum.splits graph_error.splits)

lemma branch_resumes:
  assumes taken: "same_or_resumes (\<lambda>(s, h). exec hs never g p (s, h, ())) (exec hs onNode g p (s, h, k)) (s, h)"
    and res: "resumable g" and root: "condition_root c \<notin> set (ids_of g)"
    and here: "matchesCondition c (gs_results s) = b"
    and part: "part = exec hs onNode g p (s, h, k)"
    and whole: "\<And>s h. matchesCondition c (gs_results s) = b \<Longrightarrow> whole (s, h) = exec hs never g p (s, h, ())"
  shows "same_or_resumes whole part (s, h)"
proof -
  obtain out s1 h1 k1 where ex: "exec hs onNode g p (s, h, k) = (out, s1, h1, k1)" by (metis prod_cases4)
  have "grows (at_or_below p) (set (ids_of g)) s s1"
    using exec_grows(1) [OF res, of p "(s, h, k)" hs onNode] ex by simp
  then have "js_get (gs_results s1) (condition_root c) = js_get (gs_results s) (condition_root c)"
    using root by (simp add: grows_def)
  from matchesCondition_root [OF this] here have "whole (s1, h1) = exec hs never g p (s1, h1, ())"
    by (intro whole) simp
  with taken ex here part show ?thesis
    by (auto simp: same_or_resumes_def whole split: sum.splits graph_error.splits)
qed

lemma interrupted_resumes:
  "resumable g \<Longrightarrow> same_or_resumes (\<lambda>(s, h). exec hs never g path (s, h, ())) (exec hs onNode g path st) (fst st, fst (snd st))"
  "resumable g \<Longrightarrow> same_or_resumes (\<lambda>(s, h). run_step hs never g path (s, h, ())) (run_step hs onNode g path st) (fst st, fst (snd st))"
  "resumable_list gs \<Longrightarrow>
     same_or_resumes (\<lambda>(s, h). run_list hs never gs n path (s, h, ())) (run_list hs onNode gs n path st) (fst st, fst (snd st))"
  "run_loop hs onNode body until path n m v st = run_loop hs onNode body until path n m v st"
proof (induction hs onNode g path st and hs onNode g path st and hs onNode gs n path st and hs onNode body until path n m v st
    rule: exec_run_step_run_list_run_loop.induct)
  case (1 hs onNode g path st)
  obtain s h k where st: "st = (s, h, k)" by (cases st)
  show ?case
  proof (cases "path \<in> set (gs_journal s)")
    case True
    then show ?thesis by (simp add: st exec_cached same_or_resumes_def)
  next
    case False
    from "1.IH" [OF st [symmetric] refl False] "1.prems" st show ?thesis
      by (auto intro: finish_resumes [OF _ False])
  qed
next
  case (2 hs onNode i a m path st)
  then show ?case by (cases st) (simp add: leaf_call_resumes)
next
  case (3 hs onNode i a m path st)
  then show ?case by (cases st) (simp add: leaf_call_resumes)
next
  case (4 hs onNode i s path st)
  then show ?case by (cases st) (simp add: leaf_call_resumes)
next
  case (5 hs onNode i g path st)
  then show ?case by (cases st) (simp add: leaf_call_resumes)
next
  case (6 hs onNode i gs path st)
  then show ?case
    using map_outcome_resumes [of "run_list hs never gs 0 path" "run_list hs onNode gs 0 path st" "fst st" "fst (snd st)"
        "\<lambda>vs. if vs = [] then GUndef else last vs"] by simp
next
  case (7 hs onNode i gs path st)
  then show ?case
    using map_outcome_resumes [of "run_list hs never gs 0 path" "run_list hs onNode gs 0 path st" "fst st" "fst (snd st)" GArr] by simp
next
  case (8 hs onNode i c g1 g2 path st)
  obtain s h k where st: "st = (s, h, k)" by (cases st)
  have g1: "resumable g1" "condition_root c \<notin> set (ids_of g1)" using "8.prems" by (cases g2; simp)+
  show ?case
  proof (cases "matchesCondition c (gs_results s)")
    case True
    note IH = "8.IH"(1) [unfolded st fst_conv snd_conv, OF True g1(1)]
    show ?thesis
      unfolding st fst_conv snd_conv by (rule branch_resumes [OF IH g1 refl]) (simp_all add: True)
  next
    case False
    show ?thesis
    proof (cases g2)
      case None
      with False st show ?thesis by (simp add: same_or_resumes_def)
    next
      case (Some g)
      have g: "resumable g" "condition_root c \<notin> set (ids_of g)" using "8.prems" Some by simp_all
      note IH = "8.IH"(2) [unfolded st fst_conv snd_conv, OF False Some g(1)]
      show ?thesis
        unfolding st fst_conv snd_conv by (rule branch_resumes [OF IH g refl]) (simp_all add: False Some)
    qed
  qed
next
  case (10 hs onNode n path st)
  then show ?case by (cases st) (simp add: same_or_resumes_def)
next
  case (11 hs onNode g gs n path st)
  obtain s h k where st: "st = (s, h, k)" by (cases st)
  show ?case
    unfolding st fst_conv snd_conv
  proof (rule list_resumes [OF _ _ refl "11.prems"])
    show "same_or_resumes (\<lambda>(s, h). exec hs never g (child_path path n g) (s, h, ())) (exec hs onNode g (child_path path n g) (s, h, k)) (s, h)"
      using "11.IH"(1) "11.prems" st by simp
    show "same_or_resumes (\<lambda>(s, h). run_list hs never gs (Suc n) path (s, h, ())) (run_list hs onNode gs (Suc n) path (s', h', k')) (s', h')"
      if "exec hs onNode g (child_path path n g) (s, h, k) = (Inr v, s', h', k')" for v s' h' k'
      using "11.IH"(2) [OF that [folded st, symmetric] refl] "11.prems" by simp
  qed
qed (simp_all)

subsection \<open>How often a flow can be interrupted\<close>

text \<open>The positions of a graph without loops, both sides of its branches included.\<close>

fun positions :: "GraphStep \<Rightarrow> string \<Rightarrow> string list" and positions_list :: "GraphStep list \<Rightarrow> nat \<Rightarrow> string \<Rightarrow> string list" where
  "positions (Sequence i gs) p = p # positions_list gs 0 p"
| "positions (Fanout i gs) p = p # positions_list gs 0 p"
| "positions (Branch i c g None) p = p # positions g (branch_path p True g)"
| "positions (Branch i c g (Some g')) p = p # positions g (branch_path p True g) @ positions g' (branch_path p False g')"
| "positions (Loop _ _ _ _) p = [p]"
| "positions (ChildGraph _ _) p = [p]"
| "positions _ p = [p]"
| "positions_list [] n p = []"
| "positions_list (g # gs) n p = positions g (child_path p n g) @ positions_list gs (Suc n) p"

lemma positions_self [simp]: "p \<in> set (positions g p)"
proof (cases g)
  case (Branch i c g1 g2)
  then show ?thesis by (cases g2) simp_all
qed simp_all

lemma positions_length:
  "length (positions g p) \<le> gsize g"
  "length (positions_list gs n p) \<le> sum_list (map gsize gs)"
  by (induction g p and gs n p rule: positions_positions_list.induct) auto

definition journals :: "string list \<Rightarrow> GraphScope \<Rightarrow> ('e graph_error + 'v) \<times> ('h, 'k) graph_state \<Rightarrow> bool" where
  "journals ps s result \<longleftrightarrow>
     (let s' = fst (snd result)
      in set (gs_journal s) \<subseteq> set (gs_journal s') \<and> set (gs_journal s') \<subseteq> set (gs_journal s) \<union> set ps \<and>
         (\<forall>e. fst result = Inl (HookError e) \<longrightarrow> set (gs_journal s) \<noteq> set (gs_journal s')))"

lemma journals_mono: "journals ps s result \<Longrightarrow> set ps \<subseteq> set qs \<Longrightarrow> journals qs s result"
  unfolding journals_def Let_def by blast

lemma journals_map:
  "journals ps s part \<Longrightarrow> journals ps s (case part of (Inl e, st') \<Rightarrow> (Inl e, st') | (Inr v, st') \<Rightarrow> (Inr (f v), st'))"
  by (auto simp: journals_def Let_def split: prod.splits sum.splits)

lemma journals_leaf: "journals ps (fst st) (leaf_call f g st)"
  by (cases st) (auto simp: journals_def leaf_call_def Let_def split: prod.splits sum.splits)

lemma journals_exec:
  assumes "journals ps s (run_step hs onNode g path (s, h, k))" and "set ps \<subseteq> set qs" and "path \<in> set qs" and "path \<notin> set (gs_journal s)"
    and "resumable g"
  shows "journals qs s (exec hs onNode g path (s, h, k))"
proof -
  obtain out s1 h1 k1 where run: "run_step hs onNode g path (s, h, k) = (out, s1, h1, k1)" by (metis prod_cases4)
  have new1: "path \<notin> set (gs_journal s1)"
    using exec_grows(2) [OF assms(5), of path "(s, h, k)" hs onNode] assms(4) run by (auto simp: grows_def)
  show ?thesis
  proof (cases out)
    case (Inl e)
    then show ?thesis using assms run by (auto simp: exec_run journals_def Let_def)
  next
    case (Inr v)
    have "set (gs_journal (fst (snd (finish_node onNode (step_id g) path v (s1, h1, k1))))) = insert path (set (gs_journal s1))"
      by (simp add: finish_node_def Let_def split: prod.splits option.splits)
    with Inr new1 assms run show ?thesis by (auto simp: exec_run journals_def Let_def)
  qed
qed

lemma run_journals:
  "resumable g \<Longrightarrow> journals (positions g path) (fst st) (exec hs onNode g path st)"
  "resumable g \<Longrightarrow> journals (positions g path) (fst st) (run_step hs onNode g path st)"
  "resumable_list gs \<Longrightarrow> journals (positions_list gs n path) (fst st) (run_list hs onNode gs n path st)"
  "run_loop hs onNode body until path n m v st = run_loop hs onNode body until path n m v st"
proof (induction hs onNode g path st and hs onNode g path st and hs onNode gs n path st and hs onNode body until path n m v st
    rule: exec_run_step_run_list_run_loop.induct)
  case (1 hs onNode g path st)
  obtain s h k where st: "st = (s, h, k)" by (cases st)
  show ?case
  proof (cases "path \<in> set (gs_journal s)")
    case True
    then show ?thesis by (simp add: st exec_cached journals_def)
  next
    case False
    from "1.IH" [OF st [symmetric] refl False] "1.prems" st show ?thesis
      by (auto intro: journals_exec [OF _ subset_refl _ False])
  qed
next
  case (6 hs onNode i gs path st)
  then show ?case
    by (auto intro!: journals_map [where f = "\<lambda>vs. if vs = [] then GUndef else last vs", simplified] elim!: journals_mono)
next
  case (7 hs onNode i gs path st)
  then show ?case
    by (auto intro!: journals_map elim!: journals_mono)
next
  case (8 hs onNode i c g1 g2 path st)
  then show ?case
    by (cases g2) (auto elim!: journals_mono simp: journals_def Let_def)
next
  case (10 hs onNode n path st)
  then show ?case by (simp add: journals_def)
next
  case (11 hs onNode g gs n path st)
  obtain out st' where ex: "exec hs onNode g (child_path path n g) st = (out, st')" by (cases "exec hs onNode g (child_path path n g) st")
  have first: "journals (positions g (child_path path n g)) (fst st) (out, st')" using "11.IH"(1) "11.prems" ex by simp
  show ?case
  proof (cases out)
    case (Inl e)
    with first ex show ?thesis by (auto simp: journals_def Let_def)
  next
    case (Inr v)
    have "journals (positions_list gs (Suc n) path) (fst st') (run_list hs onNode gs (Suc n) path st')"
      using "11.IH"(2) [OF ex [symmetric] Inr] "11.prems" by simp
    with first ex Inr show ?thesis
      by (auto simp: journals_def Let_def split: prod.splits sum.splits)
  qed
qed (simp_all add: journals_leaf)

subsection \<open>The property\<close>

definition uninterrupted :: "'h GraphHandlers \<Rightarrow> GraphStep \<Rightarrow> GraphScope \<Rightarrow> 'h \<Rightarrow> (graph_outcome \<times> GraphScope \<times> 'h)" where
  "uninterrupted hs g s h =
     (case exec hs never g (step_id g) (s, h, ()) of
        (Inr v, s', h', _) \<Rightarrow> (GraphCompleted, s', h')
      | (Inl (HandlerError e), s', h', _) \<Rightarrow> (GraphFailed e, s', h')
      | (Inl (HookError _), s', h', _) \<Rightarrow> (GraphContinued, s', h'))"

text \<open>Without a cancel signal the hook throws only to continue as new.\<close>

definition only_continues :: "(graph_stop graph_error + 'v) \<times> ('h, 'k) graph_state \<Rightarrow> bool" where
  "only_continues result \<longleftrightarrow> fst result \<noteq> Inl (HookError GraphCancelled)"

lemma finish_continues: "only_continues (finish_node (node_hook threshold (\<lambda>_. False)) i path v st)"
  by (cases st) (auto simp: only_continues_def finish_node_def node_hook_def Let_def)

lemma leaf_continues: "fst (leaf_call f g st) \<noteq> Inl (HookError e)"
  by (cases st) (auto simp: leaf_call_def split: prod.splits sum.splits)

lemma run_continues:
  "onNode = node_hook threshold (\<lambda>_. False) \<Longrightarrow> only_continues (exec hs onNode g path st)"
  "onNode = node_hook threshold (\<lambda>_. False) \<Longrightarrow> only_continues (run_step hs onNode g path st)"
  "onNode = node_hook threshold (\<lambda>_. False) \<Longrightarrow> only_continues (run_list hs onNode gs n path st)"
  "onNode = node_hook threshold (\<lambda>_. False) \<Longrightarrow> only_continues (run_loop hs onNode body until path n m v st)"
proof (induction hs onNode g path st and hs onNode g path st and hs onNode gs n path st and hs onNode body until path n m v st
    rule: exec_run_step_run_list_run_loop.induct)
  case (1 hs onNode g path st)
  obtain s h k where st: "st = (s, h, k)" by (cases st)
  show ?case
  proof (cases "path \<in> set (gs_journal s)")
    case True
    then show ?thesis by (simp add: st exec_cached only_continues_def)
  next
    case False
    have run: "only_continues (run_step hs onNode g path (s, h, k))" using "1.IH" [OF st [symmetric] refl False] "1.prems" st by simp
    obtain out st' where r: "run_step hs onNode g path (s, h, k) = (out, st')" by (cases "run_step hs onNode g path (s, h, k)")
    show ?thesis
      using run r False "1.prems" st finish_continues [of threshold "step_id g" path _ st']
      by (cases out) (simp_all add: exec_run only_continues_def)
  qed
next
  case (9 hs onNode i body m until path st)
  obtain s h k where st: "st = (s, h, k)" by (cases st)
  show ?case
  proof (cases "loop_start m s path body 0 > 0 \<and> matchesCondition until (gs_results s)")
    case True
    then show ?thesis by (simp add: st only_continues_def Let_def)
  next
    case False
    with "9.IH" [OF st [symmetric] refl refl False "9.prems"] show ?thesis by (auto simp: st Let_def)
  qed
next
  case (11 hs onNode g gs n path st)
  obtain out st' where ex: "exec hs onNode g (child_path path n g) st = (out, st')" by (cases "exec hs onNode g (child_path path n g) st")
  show ?case
    using "11.IH"(1) [OF "11.prems"] "11.IH"(2) [OF ex [symmetric] _ "11.prems"] ex
    by (cases out) (auto simp: only_continues_def split: prod.splits sum.splits)
next
  case (13 hs onNode body until path n m v st)
  obtain s h k where st: "st = (s, h, k)" by (cases st)
  obtain out s' h' k' where ex: "exec hs onNode body (loop_path path n body) (s\<lparr>gs_iteration := n\<rparr>, h, k) = (out, s', h', k')"
    by (metis prod_cases4)
  have body: "only_continues (out, s', h', k')" using "13.IH"(1) [OF st [symmetric] refl "13.prems"] ex by simp
  show ?case
  proof (cases out)
    case (Inl e)
    with body ex st show ?thesis by (simp add: only_continues_def)
  next
    case (Inr v')
    with "13.IH"(2) [OF st [symmetric] refl ex [symmetric] Inr refl refl _ "13.prems"] ex st show ?thesis
      by (simp add: only_continues_def)
  qed
qed (auto simp: leaf_continues only_continues_def Let_def split: prod.splits sum.splits option.splits)

lemma hook_continues:
  "exec hs (node_hook threshold (\<lambda>_. False)) g path st = (Inl (HookError e), st') \<Longrightarrow> e = ContinueAsNewGraph"
  using run_continues(1) [OF refl, where threshold = threshold and hs = hs and g = g and path = path and st = st] by (cases e) (simp_all add: only_continues_def)

lemma workflow_run:
  assumes "resumable g" and "runGraphWorkflow hs threshold (\<lambda>_. False) g carried h = (out, s1, h1)"
  defines "s \<equiv> opt_or carried newGraphScope"
  shows "(out = GraphContinued \<and> uninterrupted hs g s1 h1 = uninterrupted hs g s h \<and>
      set (gs_journal s) \<subset> set (gs_journal s1) \<and> set (gs_journal s1) \<subseteq> set (gs_journal s) \<union> set (positions g (step_id g))) \<or>
    (out \<noteq> GraphContinued \<and> uninterrupted hs g s h = (out, s1, h1))"
proof -
  let ?hook = "node_hook threshold (\<lambda>_. False)"
  obtain res s' h' k' where ex: "exec hs ?hook g (step_id g) (s, h, 0) = (res, s', h', k')" by (metis prod_cases4)
  have same: "same_or_resumes (\<lambda>(s, h). exec hs never g (step_id g) (s, h, ())) (res, s', h', k') (s, h)"
    using interrupted_resumes(1) [OF assms(1), of hs "step_id g" ?hook "(s, h, 0)"] ex by simp
  have jr: "journals (positions g (step_id g)) s (res, s', h', k')"
    using run_journals(1) [OF assms(1), of "step_id g" "(s, h, 0)" hs ?hook] ex by simp
  have run: "runGraphWorkflow hs threshold (\<lambda>_. False) g carried h =
      (case (res, s', h', k') of
        (Inr v, scope, h', _) \<Rightarrow> (GraphCompleted, scope, h')
      | (Inl (HookError GraphCancelled), scope, h', _) \<Rightarrow> (GraphWasCancelled, scope, h')
      | (Inl (HookError ContinueAsNewGraph), scope, h', _) \<Rightarrow> (GraphContinued, scope, h')
      | (Inl (HandlerError e), scope, h', _) \<Rightarrow> (GraphFailed e, scope, h'))"
    unfolding runGraphWorkflow_def s_def [symmetric] ex by (rule refl)
  consider (finished) v where "res = Inr v" | (failed) e where "res = Inl (HandlerError e)" | (stopped) e where "res = Inl (HookError e)"
    by (metis graph_error.exhaust sum.exhaust)
  then show ?thesis
  proof cases
    case finished
    with same have "exec hs never g (step_id g) (s, h, ()) = (Inr v, s', h', ())" by (simp add: same_or_resumes_def)
    with run assms(2) finished show ?thesis by (simp add: uninterrupted_def)
  next
    case failed
    with same have "exec hs never g (step_id g) (s, h, ()) = (Inl (HandlerError e), s', h', ())" by (simp add: same_or_resumes_def)
    with run assms(2) failed show ?thesis by (simp add: uninterrupted_def)
  next
    case stopped
    have "e = ContinueAsNewGraph" using hook_continues ex stopped by blast
    with run assms(2) stopped have "out = GraphContinued" "s1 = s'" "h1 = h'" by simp_all
    with same jr stopped show ?thesis
      by (auto simp: same_or_resumes_def journals_def Let_def uninterrupted_def)
  qed
qed

lemma chain_uninterrupted:
  assumes "resumable g" and "card (set (positions g (step_id g)) - set (gs_journal (opt_or carried newGraphScope))) < fuel"
  shows "graph_chain fuel hs threshold g carried h = Some (uninterrupted hs g (opt_or carried newGraphScope) h)"
  using assms(2)
proof (induction fuel arbitrary: carried h)
  case (Suc fuel)
  let ?s = "opt_or carried newGraphScope" and ?ps = "set (positions g (step_id g))"
  obtain out s1 h1 where run: "runGraphWorkflow hs threshold (\<lambda>_. False) g carried h = (out, s1, h1)" by (metis prod_cases3)
  from workflow_run [OF assms(1) run] show ?case
  proof (elim disjE conjE)
    assume out: "out = GraphContinued" and same: "uninterrupted hs g s1 h1 = uninterrupted hs g ?s h"
      and more: "set (gs_journal ?s) \<subset> set (gs_journal s1)" and within: "set (gs_journal s1) \<subseteq> set (gs_journal ?s) \<union> ?ps"
    have "?ps - set (gs_journal s1) \<subset> ?ps - set (gs_journal ?s)" using more within by blast
    then have "card (?ps - set (gs_journal s1)) < card (?ps - set (gs_journal ?s))" by (intro psubset_card_mono) simp_all
    with Suc.prems have "graph_chain fuel hs threshold g (Some s1) h1 = Some (uninterrupted hs g s1 h1)"
      by (subst Suc.IH) simp_all
    with run out same show ?thesis by simp
  next
    assume "out \<noteq> GraphContinued" and "uninterrupted hs g ?s h = (out, s1, h1)"
    with run show ?thesis by (cases out) simp_all
  qed
qed simp


subsection \<open>A concrete flow\<close>

text \<open>Handlers that log the ids they are called with and answer with the length of the log.\<close>

definition log_handler :: "GraphStep \<Rightarrow> string list \<Rightarrow> (string + gval) \<times> string list" where
  "log_handler g calls = (Inr (GJson (JNum (int (length calls)))), calls @ [step_id g])"

definition log_handlers :: "string list GraphHandlers" where
  "log_handlers = \<lparr>gh_turn = log_handler, gh_activity = log_handler, gh_child = log_handler\<rparr>"

abbreviation activity :: "string \<Rightarrow> GraphStep" where
  "activity i \<equiv> ActivityStep i i GUndef"

definition sample_graph :: GraphStep where
  "sample_graph = Sequence ''root'' [activity ''a'', Fanout ''f'' [activity ''b'', activity ''c''],
     Branch ''if'' \<lparr>gc_path = ''a'', gc_equals = GJson (JNum 0)\<rparr> (activity ''d'') None]"


subsection \<open>Where resuming differs\<close>

text \<open>
  A loop that is interrupted right after its last permitted iteration finds every iteration journaled on
  resuming: the loop node gets no value, where the uninterrupted run gives it the body's last one.
\<close>

definition sample_loop :: GraphStep where
  "sample_loop = Loop ''loop'' (activity ''x'') 1 \<lparr>gc_path = ''x'', gc_equals = GJson (JNum 9)\<rparr>"

lemma loop_value_lost_on_resume:
  "map_option (\<lambda>(_, s, _). result_of s ''loop'') (graph_chain 9 log_handlers 1 sample_loop None []) = Some GUndef \<and>
   (\<lambda>(_, s, _). result_of s ''loop'') (uninterrupted log_handlers sample_loop newGraphScope []) = GJson (JNum 0)"
  by code_simp

text \<open>
  A branch whose condition reads a node below it is decided again on resuming, and the other side runs
  as well.
\<close>

definition sample_branch :: GraphStep where
  "sample_branch = Branch ''if'' \<lparr>gc_path = ''x'', gc_equals = GJson (JNum 0)\<rparr> (activity ''y'')
     (Some (Sequence ''else'' [activity ''x'', activity ''z'']))"

lemma branch_flips_on_resume:
  "map_option (\<lambda>(_, _, calls). calls) (graph_chain 9 log_handlers 1 sample_branch None []) = Some [''x'', ''y''] \<and>
   (\<lambda>(_, _, calls). calls) (uninterrupted log_handlers sample_branch newGraphScope []) = [''x'', ''z'']"
  by code_simp

end
