(* ===== verification/Resource_Class.thy ===== *)
theory Resource_Class
  imports Prelude
begin

text \<open>
  The resource classes of physical sandboxes (\<^verbatim>\<open>src/src/execution/resource-class.ts\<close>): the policy data
  that the warm pool, the pod manifests and the executor read, and the shipped defaults.
\<close>

datatype WorkspaceMedium = MediumMemory | MediumNode

datatype NetworkMode = NetNone | NetDnsOnly | NetCluster

record ResourceQuantitySet =
  rq_cpuRequest :: string
  rq_cpuLimit :: "string option"
  rq_memoryRequest :: string
  rq_memoryLimit :: string
  rq_ephemeralStorageRequest :: "string option"
  rq_ephemeralStorageLimit :: "string option"

record WarmPoolPolicy =
  wp_minReady :: nat
  wp_maxReady :: nat
  wp_maxTotal :: nat
  wp_idleTtlMs :: int

type_synonym labels = "(string, string) jsmap"

record NetworkPolicyProfile =
  np_mode :: NetworkMode
  np_controlPlaneNamespaceSelector :: "labels option"
  np_controlPlanePodSelector :: "labels option"
  np_dnsNamespaceSelector :: "labels option"
  np_dnsPodSelector :: "labels option"

record KubernetesResourceClass =
  rc_id :: string
  rc_fidelity :: int
  rc_image :: string
  rc_runtimeClassName :: "string option"
  rc_resources :: ResourceQuantitySet
  rc_workspaceMedium :: WorkspaceMedium
  rc_workspaceSizeLimit :: "string option"
  rc_tmpMedium :: "WorkspaceMedium option"
  rc_tmpSizeLimit :: "string option"
  rc_activeDeadlineSeconds :: int
  rc_terminationGracePeriodSeconds :: int
  rc_network :: NetworkPolicyProfile
  rc_warmPool :: "WarmPoolPolicy option"
  rc_nodeSelector :: "labels option"
  rc_tolerations :: "json list option"
  rc_annotations :: "labels option"
  rc_labels :: "labels option"
  rc_command :: "string list option"
  rc_args :: "string list option"
  rc_env :: "labels option"
  rc_hostUsers :: "bool option"

definition restrictedNetwork :: "NetworkMode \<Rightarrow> NetworkPolicyProfile" where
  "restrictedNetwork mode =
     \<lparr>np_mode = mode,
      np_controlPlaneNamespaceSelector = Some [(''synth.openai.dev/control-plane'', ''true'')],
      np_controlPlanePodSelector = Some [(''app.kubernetes.io/name'', ''synth-control-plane'')],
      np_dnsNamespaceSelector = Some [(''kubernetes.io/metadata.name'', ''kube-system'')],
      np_dnsPodSelector = Some [(''k8s-app'', ''kube-dns'')]\<rparr>"

definition EXECUTOR_IMAGE :: string where
  "EXECUTOR_IMAGE = ''ghcr.io/taituo/synth-executor@sha256:fc59cec2b7a3733e9e50db1d5063669c60ec7add0d18a338b2a3f19a422c822f''"

text \<open>What the four defaults have in common; the fields they differ in are the arguments.\<close>

definition default_class ::
  "string \<Rightarrow> int \<Rightarrow> ResourceQuantitySet \<Rightarrow> string \<Rightarrow> WorkspaceMedium \<Rightarrow> string \<Rightarrow> int \<Rightarrow> int \<Rightarrow> NetworkMode \<Rightarrow>
   WarmPoolPolicy option \<Rightarrow> KubernetesResourceClass" where
  "default_class i fidelity resources workspaceSize tmp tmpSize deadline grace mode pool =
     \<lparr>rc_id = i, rc_fidelity = fidelity, rc_image = EXECUTOR_IMAGE, rc_runtimeClassName = Some ''gvisor'',
      rc_resources = resources, rc_workspaceMedium = MediumNode, rc_workspaceSizeLimit = Some workspaceSize,
      rc_tmpMedium = Some tmp, rc_tmpSizeLimit = Some tmpSize, rc_activeDeadlineSeconds = deadline,
      rc_terminationGracePeriodSeconds = grace, rc_network = restrictedNetwork mode, rc_warmPool = pool,
      rc_nodeSelector = None, rc_tolerations = None, rc_annotations = None, rc_labels = None,
      rc_command = Some [''/bin/sh'', ''-lc''], rc_args = Some [''trap : TERM INT; sleep infinity & wait''],
      rc_env = None, rc_hostUsers = None\<rparr>"

definition sandbox_small :: KubernetesResourceClass where
  "sandbox_small = default_class ''sandbox-small'' 20
     \<lparr>rq_cpuRequest = ''250m'', rq_cpuLimit = Some ''2'', rq_memoryRequest = ''512Mi'', rq_memoryLimit = ''4Gi'',
      rq_ephemeralStorageRequest = Some ''1Gi'', rq_ephemeralStorageLimit = Some ''8Gi''\<rparr>
     ''8Gi'' MediumMemory ''512Mi'' (30 * 60) 5 NetDnsOnly
     (Some \<lparr>wp_minReady = 2, wp_maxReady = 4, wp_maxTotal = 12, wp_idleTtlMs = 10 * 60000\<rparr>)"

definition sandbox_medium :: KubernetesResourceClass where
  "sandbox_medium = default_class ''sandbox-medium'' 30
     \<lparr>rq_cpuRequest = ''1'', rq_cpuLimit = Some ''4'', rq_memoryRequest = ''2Gi'', rq_memoryLimit = ''8Gi'',
      rq_ephemeralStorageRequest = Some ''2Gi'', rq_ephemeralStorageLimit = Some ''20Gi''\<rparr>
     ''20Gi'' MediumMemory ''1Gi'' (45 * 60) 5 NetDnsOnly
     (Some \<lparr>wp_minReady = 1, wp_maxReady = 3, wp_maxTotal = 8, wp_idleTtlMs = 10 * 60000\<rparr>)"

definition sandbox_heavy :: KubernetesResourceClass where
  "sandbox_heavy = default_class ''sandbox-heavy'' 40
     \<lparr>rq_cpuRequest = ''2'', rq_cpuLimit = Some ''8'', rq_memoryRequest = ''4Gi'', rq_memoryLimit = ''16Gi'',
      rq_ephemeralStorageRequest = Some ''4Gi'', rq_ephemeralStorageLimit = Some ''40Gi''\<rparr>
     ''40Gi'' MediumNode ''8Gi'' (60 * 60) 10 NetDnsOnly
     (Some \<lparr>wp_minReady = 0, wp_maxReady = 2, wp_maxTotal = 4, wp_idleTtlMs = 5 * 60000\<rparr>)"

definition project_cell :: KubernetesResourceClass where
  "project_cell = default_class ''project-cell'' 50
     \<lparr>rq_cpuRequest = ''1'', rq_cpuLimit = Some ''6'', rq_memoryRequest = ''2Gi'', rq_memoryLimit = ''12Gi'',
      rq_ephemeralStorageRequest = Some ''5Gi'', rq_ephemeralStorageLimit = Some ''50Gi''\<rparr>
     ''50Gi'' MediumNode ''10Gi'' (6 * 60 * 60) 15 NetCluster None"

definition DEFAULT_KUBERNETES_RESOURCE_CLASSES :: "KubernetesResourceClass list" where
  "DEFAULT_KUBERNETES_RESOURCE_CLASSES = [sandbox_small, sandbox_medium, sandbox_heavy, project_cell]"

definition resourceClassMap :: "KubernetesResourceClass list \<Rightarrow> (string, KubernetesResourceClass) jsmap" where
  "resourceClassMap classes = foldl (\<lambda>m entry. js_set (rc_id entry) entry m) [] classes"

lemma keyed_by: "js_get (foldl (\<lambda>m e. js_set (f e) e m) [] xs) i = Some c \<Longrightarrow> f c = i \<and> c \<in> set xs"
proof (induction xs rule: rev_induct)
  case (snoc x xs)
  show ?case
  proof (cases "i = f x")
    case True
    with snoc.prems show ?thesis by simp
  next
    case False
    with snoc.prems have "js_get (foldl (\<lambda>m e. js_set (f e) e m) [] xs) i = Some c" by simp
    from snoc.IH [OF this] show ?thesis by simp
  qed
qed simp

lemma resourceClassMap_id: "js_get (resourceClassMap classes) i = Some c \<Longrightarrow> rc_id c = i \<and> c \<in> set classes"
  unfolding resourceClassMap_def by (rule keyed_by)

lemmas class_defs = sandbox_small_def sandbox_medium_def sandbox_heavy_def project_cell_def default_class_def
  DEFAULT_KUBERNETES_RESOURCE_CLASSES_def restrictedNetwork_def

end
