(* ===== verification/Pool.thy ===== *)
theory Pool
  imports Resource_Class
begin

text \<open>
  The warm sandbox pool (\<^verbatim>\<open>src/src/execution/kubernetes/pool.ts\<close>). A slot is an object that leases and
  running calls keep a reference to after it has left the pool's map, so slots are a heap \<open>pl_objs\<close>
  by sandbox id and \<open>pl_slots\<close> lists the ids in the map, in insertion order. The asynchronous methods
  are cut at their awaits: what is still to come is a task. The world records what callers were given:
  a lease with its released flag, or an error; and the sandboxes the backend created and was asked to
  destroy. A caller is one call of \<^verbatim>\<open>acquire\<close>.
\<close>

record SandboxIdentity =
  si_id :: string
  si_namespace :: string
  si_podName :: string
  si_resourceClassId :: string
  si_createdAt :: int

datatype slot_state = SlotReady | SlotLeased | SlotDestroying

record Slot =
  sl_sandbox :: SandboxIdentity
  sl_class :: KubernetesResourceClass
  sl_state :: slot_state
  sl_lastUsedAt :: int

record WarmSandboxPool =
  pl_classes :: "(string, KubernetesResourceClass) jsmap"
  pl_objs :: "string \<Rightarrow> Slot"
  pl_slots :: "string list"
  pl_waiters :: "(string, nat list) jsmap"
  pl_creating :: "(string, nat) jsmap"
  pl_closed :: bool

datatype pool_task =
    Creating string "nat option"
  | Created nat string
  | Resetting nat string

record pool_world = WarmSandboxPool +
  pw_tasks :: "pool_task list"
  pw_callers :: "nat list"
  pw_leases :: "(nat, string \<times> bool) jsmap"
  pw_errors :: "(nat \<times> string) list"
  pw_created :: "string list"
  pw_destroyed :: "string list"

definition new_pool :: "KubernetesResourceClass list \<Rightarrow> pool_world" where
  "new_pool classes =
     \<lparr>pl_classes = resourceClassMap classes, pl_objs = (\<lambda>_. undefined), pl_slots = [], pl_waiters = [], pl_creating = [],
      pl_closed = False, pw_tasks = [], pw_callers = [], pw_leases = [], pw_errors = [], pw_created = [], pw_destroyed = []\<rparr>"

definition closed_error :: string where
  "closed_error = ''Warm sandbox pool is closed''"

subsection \<open>Slots\<close>

definition slot_class :: "pool_world \<Rightarrow> string \<Rightarrow> string" where
  "slot_class p i = rc_id (sl_class (pl_objs p i))"

definition in_state :: "pool_world \<Rightarrow> slot_state \<Rightarrow> string \<Rightarrow> string \<Rightarrow> bool" where
  "in_state p st cid i \<longleftrightarrow> slot_class p i = cid \<and> sl_state (pl_objs p i) = st"

definition readyCount :: "pool_world \<Rightarrow> string \<Rightarrow> nat" where
  "readyCount p cid = length (filter (in_state p SlotReady cid) (pl_slots p))"

definition totalCount :: "pool_world \<Rightarrow> string \<Rightarrow> nat" where
  "totalCount p cid = length (filter (\<lambda>i. slot_class p i = cid) (pl_slots p))"

definition creatingCount :: "pool_world \<Rightarrow> string \<Rightarrow> nat" where
  "creatingCount p cid = opt_or (js_get (pl_creating p) cid) 0"

definition set_slot :: "string \<Rightarrow> slot_state \<Rightarrow> int \<Rightarrow> pool_world \<Rightarrow> pool_world" where
  "set_slot i st used p =
     p\<lparr>pl_objs := (pl_objs p)(i := (pl_objs p i)\<lparr>sl_state := st, sl_lastUsedAt := used\<rparr>)\<rparr>"

definition destroy_slot :: "string \<Rightarrow> pool_world \<Rightarrow> pool_world" where
  "destroy_slot i p =
     (if sl_state (pl_objs p i) = SlotDestroying \<and> i \<notin> set (pl_slots p) then p
      else (set_slot i SlotDestroying (sl_lastUsedAt (pl_objs p i)) p)
             \<lparr>pl_slots := set_delete i (pl_slots p), pw_destroyed := pw_destroyed p @ [i]\<rparr>)"

subsection \<open>Leases and waiters\<close>

definition reject :: "nat \<Rightarrow> string \<Rightarrow> pool_world \<Rightarrow> pool_world" where
  "reject caller e p = p\<lparr>pw_errors := pw_errors p @ [(caller, e)]\<rparr>"

definition leaseSlot :: "int \<Rightarrow> string \<Rightarrow> nat \<Rightarrow> pool_world \<Rightarrow> string option \<times> pool_world" where
  "leaseSlot now i caller p =
     (if pl_closed p then (Some closed_error, p)
      else if sl_state (pl_objs p i) \<noteq> SlotReady then (Some (''Sandbox '' @ i @ '' is not ready''), p)
      else (None, (set_slot i SlotLeased now p)\<lparr>pw_leases := js_set caller (i, False) (pw_leases p)\<rparr>))"

text \<open>The caller gets the lease, or the error \<^verbatim>\<open>#leaseSlot\<close> throws.\<close>

definition give :: "int \<Rightarrow> string \<Rightarrow> nat \<Rightarrow> pool_world \<Rightarrow> pool_world" where
  "give now i caller p =
     (case leaseSlot now i caller p of (None, p') \<Rightarrow> p' | (Some e, p') \<Rightarrow> reject caller e p')"

definition set_waiters :: "string \<Rightarrow> nat list \<Rightarrow> pool_world \<Rightarrow> pool_world" where
  "set_waiters cid cs p =
     p\<lparr>pl_waiters := (if cs = [] then js_delete cid (pl_waiters p) else js_set cid cs (pl_waiters p))\<rparr>"

definition serveWaiter :: "int \<Rightarrow> string \<Rightarrow> pool_world \<Rightarrow> bool \<times> pool_world" where
  "serveWaiter now i p =
     (if pl_closed p \<or> sl_state (pl_objs p i) \<noteq> SlotReady then (False, p)
      else (case opt_or (js_get (pl_waiters p) (slot_class p i)) [] of
              [] \<Rightarrow> (False, p)
            | caller # cs \<Rightarrow>
                (case leaseSlot now i caller (set_waiters (slot_class p i) cs p) of
                   (None, p') \<Rightarrow> (True, p')
                 | (Some e, p') \<Rightarrow> (False, reject caller e p'))))"

definition rejectWaiters :: "string \<Rightarrow> string \<Rightarrow> pool_world \<Rightarrow> pool_world" where
  "rejectWaiters cid e p =
     (case js_get (pl_waiters p) cid of
        None \<Rightarrow> p
      | Some cs \<Rightarrow> p\<lparr>pl_waiters := js_delete cid (pl_waiters p), pw_errors := pw_errors p @ map (\<lambda>c. (c, e)) cs\<rparr>)"

subsection \<open>Creating sandboxes\<close>

definition finish_task :: "pool_task \<Rightarrow> pool_world \<Rightarrow> pool_world" where
  "finish_task t p = p\<lparr>pw_tasks := remove1 t (pw_tasks p)\<rparr>"

definition add_task :: "pool_task \<Rightarrow> pool_world \<Rightarrow> pool_world" where
  "add_task t p = p\<lparr>pw_tasks := pw_tasks p @ [t]\<rparr>"

definition reject_owner :: "nat option \<Rightarrow> string \<Rightarrow> pool_world \<Rightarrow> pool_world" where
  "reject_owner owner e p = (case owner of None \<Rightarrow> p | Some caller \<Rightarrow> reject caller e p)"

text \<open>\<^verbatim>\<open>#createReady\<close> up to the backend's answer; the owner is the \<^verbatim>\<open>acquire\<close> that awaits it, if any.\<close>

definition start_create :: "string \<Rightarrow> nat option \<Rightarrow> pool_world \<Rightarrow> pool_world" where
  "start_create cid owner p =
     (if pl_closed p then reject_owner owner closed_error p
      else add_task (Creating cid owner) (p\<lparr>pl_creating := js_set cid (creatingCount p cid + 1) (pl_creating p)\<rparr>))"

definition end_creating :: "string \<Rightarrow> pool_world \<Rightarrow> pool_world" where
  "end_creating cid p =
     (let n = opt_or (js_get (pl_creating p) cid) 1 - 1
      in p\<lparr>pl_creating := (if n = 0 then js_delete cid (pl_creating p) else js_set cid n (pl_creating p))\<rparr>)"

definition create_failed :: "string \<Rightarrow> nat option \<Rightarrow> string \<Rightarrow> pool_world \<Rightarrow> pool_world" where
  "create_failed cid owner e p =
     reject_owner owner e (end_creating cid (rejectWaiters cid e (finish_task (Creating cid owner) p)))"

definition add_slot :: "int \<Rightarrow> KubernetesResourceClass \<Rightarrow> SandboxIdentity \<Rightarrow> pool_world \<Rightarrow> pool_world" where
  "add_slot now cl sandbox p =
     p\<lparr>pl_objs := (pl_objs p)(si_id sandbox := \<lparr>sl_sandbox = sandbox, sl_class = cl, sl_state = SlotReady, sl_lastUsedAt = now\<rparr>),
       pl_slots := set_add (si_id sandbox) (pl_slots p)\<rparr>"

definition create_done :: "int \<Rightarrow> KubernetesResourceClass \<Rightarrow> nat option \<Rightarrow> SandboxIdentity \<Rightarrow> pool_world \<Rightarrow> pool_world" where
  "create_done now cl owner sandbox p0 =
     (let p = p0\<lparr>pw_created := pw_created p0 @ [si_id sandbox]\<rparr>
      in if pl_closed p
         then create_failed (rc_id cl) owner ''Warm sandbox pool closed while sandbox was being created''
                (p\<lparr>pw_destroyed := pw_destroyed p @ [si_id sandbox]\<rparr>)
         else (let q = add_slot now cl sandbox (finish_task (Creating (rc_id cl) owner) p)
               in case owner of
                    None \<Rightarrow> end_creating (rc_id cl) (snd (serveWaiter now (si_id sandbox) q))
                  | Some caller \<Rightarrow> add_task (Created caller (si_id sandbox)) (end_creating (rc_id cl) q)))"

subsection \<open>The public operations\<close>

definition has_room :: "pool_world \<Rightarrow> string \<Rightarrow> KubernetesResourceClass \<Rightarrow> bool" where
  "has_room p cid cl =
     (case rc_warmPool cl of
        None \<Rightarrow> True
      | Some policy \<Rightarrow> totalCount p cid + creatingCount p cid < wp_maxTotal policy)"

definition pool_acquire :: "int \<Rightarrow> nat \<Rightarrow> string \<Rightarrow> pool_world \<Rightarrow> pool_world" where
  "pool_acquire now caller cid p0 =
     (let p = p0\<lparr>pw_callers := pw_callers p0 @ [caller]\<rparr>
      in if pl_closed p then reject caller closed_error p
         else (case js_get (pl_classes p) cid of
                 None \<Rightarrow> reject caller (''Unknown resource class: '' @ cid) p
               | Some cl \<Rightarrow>
                   (case find (in_state p SlotReady cid) (pl_slots p) of
                      Some i \<Rightarrow> give now i caller p
                    | None \<Rightarrow>
                        if has_room p cid cl then start_create (rc_id cl) (Some caller) p
                        else set_waiters cid (opt_or (js_get (pl_waiters p) cid) [] @ [caller]) p)))"

text \<open>The rest of an \<^verbatim>\<open>acquire\<close> whose sandbox was created.\<close>

definition acquire_created :: "int \<Rightarrow> nat \<Rightarrow> string \<Rightarrow> pool_world \<Rightarrow> pool_world" where
  "acquire_created now caller i p = give now i caller (finish_task (Created caller i) p)"

definition lease_release :: "nat \<Rightarrow> bool \<Rightarrow> pool_world \<Rightarrow> pool_world" where
  "lease_release caller destroy p =
     (case js_get (pw_leases p) caller of
        Some (i, False) \<Rightarrow>
          (let q = p\<lparr>pw_leases := js_set caller (i, True) (pw_leases p)\<rparr>
           in if destroy \<or> pl_closed q then destroy_slot i q else add_task (Resetting caller i) q)
      | _ \<Rightarrow> p)"

text \<open>The rest of a release: the sandbox was reset and passed its check, or either failed.\<close>

definition reset_done :: "int \<Rightarrow> nat \<Rightarrow> string \<Rightarrow> bool \<Rightarrow> pool_world \<Rightarrow> pool_world" where
  "reset_done now caller i ok p0 =
     (let p = finish_task (Resetting caller i) p0
      in if \<not> ok \<or> pl_closed p then destroy_slot i p
         else (case serveWaiter now i (set_slot i SlotReady now p) of
                 (True, q) \<Rightarrow> q
               | (False, q) \<Rightarrow>
                   (case rc_warmPool (sl_class (pl_objs q i)) of
                      None \<Rightarrow> q
                    | Some policy \<Rightarrow> if readyCount q (slot_class q i) > wp_maxReady policy then destroy_slot i q else q)))"

definition pool_close :: "pool_world \<Rightarrow> pool_world" where
  "pool_close p =
     (if pl_closed p then p
      else foldr destroy_slot (rev (pl_slots p))
             (p\<lparr>pl_closed := True, pw_errors := pw_errors p @ map (\<lambda>c. (c, closed_error)) (concat (js_values (pl_waiters p))),
                pl_waiters := []\<rparr>))"

definition sweep_slot :: "int \<Rightarrow> string \<Rightarrow> pool_world \<Rightarrow> pool_world" where
  "sweep_slot now i p =
     (case rc_warmPool (sl_class (pl_objs p i)) of
        None \<Rightarrow> p
      | Some policy \<Rightarrow>
          if sl_state (pl_objs p i) \<noteq> SlotReady then p
          else (let ready = readyCount p (slot_class p i)
                in if ready > wp_maxReady policy \<or>
                      (ready > wp_minReady policy \<and> now - sl_lastUsedAt (pl_objs p i) > wp_idleTtlMs policy)
                   then destroy_slot i p else p))"

text \<open>
  \<^verbatim>\<open>maintain\<close> first destroys surplus slots, then, class by class, starts what is missing. The fill of a
  class is a step of its own, taken at any time between others.
\<close>

definition maintain_sweep :: "int \<Rightarrow> pool_world \<Rightarrow> pool_world" where
  "maintain_sweep now p = (if pl_closed p then p else foldr (sweep_slot now) (rev (pl_slots p)) p)"

definition maintain_fill :: "KubernetesResourceClass \<Rightarrow> pool_world \<Rightarrow> pool_world" where
  "maintain_fill cl p =
     (case rc_warmPool cl of
        None \<Rightarrow> p
      | Some policy \<Rightarrow>
          if pl_closed p then p
          else (start_create (rc_id cl) None ^^ (wp_minReady policy - readyCount p (rc_id cl) - creatingCount p (rc_id cl))) p)"

definition pool_stats :: "pool_world \<Rightarrow> (string \<times> nat \<times> nat \<times> nat \<times> nat \<times> nat) list" where
  "pool_stats p =
     map (\<lambda>cid. let ready = readyCount p cid; leased = length (filter (in_state p SlotLeased cid) (pl_slots p));
                    creating = creatingCount p cid
                in (cid, ready, leased, creating, ready + leased + creating, length (opt_or (js_get (pl_waiters p) cid) [])))
       (js_keys (pl_classes p))"

subsection \<open>The pool as a transition system\<close>

text \<open>The backend never gives out a sandbox id twice.\<close>

inductive pool_step :: "pool_world \<Rightarrow> pool_world \<Rightarrow> bool" where
  step_acquire: "caller \<notin> set (pw_callers p) \<Longrightarrow> pool_step p (pool_acquire now caller cid p)"
| step_created: "Creating (rc_id cl) owner \<in> set (pw_tasks p) \<Longrightarrow> js_get (pl_classes p) (rc_id cl) = Some cl \<Longrightarrow>
    si_id sandbox \<notin> set (pw_created p) \<Longrightarrow> pool_step p (create_done now cl owner sandbox p)"
| step_failed: "Creating cid owner \<in> set (pw_tasks p) \<Longrightarrow> pool_step p (create_failed cid owner e p)"
| step_own: "Created caller i \<in> set (pw_tasks p) \<Longrightarrow> pool_step p (acquire_created now caller i p)"
| step_release: "pool_step p (lease_release caller destroy p)"
| step_reset: "Resetting caller i \<in> set (pw_tasks p) \<Longrightarrow> pool_step p (reset_done now caller i ok p)"
| step_close: "pool_step p (pool_close p)"
| step_sweep: "pool_step p (maintain_sweep now p)"
| step_fill: "js_get (pl_classes p) (rc_id cl) = Some cl \<Longrightarrow> pool_step p (maintain_fill cl p)"

inductive pool_reachable :: "KubernetesResourceClass list \<Rightarrow> pool_world \<Rightarrow> bool" for classes where
  pool_start: "pool_reachable classes (new_pool classes)"
| pool_next: "pool_reachable classes p \<Longrightarrow> pool_step p q \<Longrightarrow> pool_reachable classes q"

end
