(* ===== verification/Pool_Laws.thy ===== *)
theory Pool_Laws
  imports Pool "HOL-Library.Multiset"
begin

text \<open>
  What the pool keeps whatever the interleaving: every caller is in exactly one place, a sandbox has at most
  one holder, every sandbox the backend created is in the pool or was handed back to be destroyed, once,
  and the counter of sandboxes being created is exact. The three invariants are proved apart.
\<close>

subsection \<open>Callers\<close>

fun task_owner :: "pool_task \<Rightarrow> nat list" where
  "task_owner (Creating _ (Some c)) = [c]"
| "task_owner (Created c _) = [c]"
| "task_owner _ = []"

definition waiting :: "(string, nat list) jsmap \<Rightarrow> nat multiset" where
  "waiting m = mset (concat (map snd m))"

definition owners :: "pool_task list \<Rightarrow> nat multiset" where
  "owners ts = mset (concat (map task_owner ts))"

text \<open>Where callers are: waiting, in a running call, holding (or having held) a lease, or turned away.\<close>

definition places :: "pool_world \<Rightarrow> nat multiset" where
  "places p = waiting (pl_waiters p) + owners (pw_tasks p) + mset (map fst (pw_leases p)) + mset (map fst (pw_errors p))"

definition accounted :: "pool_world \<Rightarrow> bool" where
  "accounted p \<longleftrightarrow> wf_jsmap (pl_waiters p) \<and> places p = mset (pw_callers p) \<and> distinct (pw_callers p)"

lemma update_new: "js_get m k = None \<Longrightarrow> js_set k v m = m @ [(k, v)]"
  by (induction m) (auto split: if_splits)

lemma waiting_Nil [simp]: "waiting [] = {#}" "owners [] = {#}"
  by (simp_all add: waiting_def owners_def)

lemma delete_absent: "k \<notin> fst ` set m \<Longrightarrow> js_delete k m = m"
  by (induction m) (auto split: if_splits)

lemma waiting_Cons: "waiting ((k, v) # m) = mset v + waiting m"
  by (simp add: waiting_def)

lemma waiting_delete: "wf_jsmap m \<Longrightarrow> waiting m = mset (opt_or (js_get m k) []) + waiting (js_delete k m)"
proof (induction m)
  case (Cons x m)
  then show ?case by (cases x) (auto simp: waiting_Cons wf_jsmap_def delete_absent)
qed simp

lemma waiting_set: "wf_jsmap m \<Longrightarrow> waiting (js_set k v m) = mset v + waiting (js_delete k m)"
proof (induction m)
  case (Cons x m)
  then show ?case by (cases x) (auto simp: waiting_Cons wf_jsmap_def delete_absent)
qed (simp add: waiting_def)

lemma owners_append [simp]: "owners (ts @ us) = owners ts + owners us" "owners [t] = mset (task_owner t)"
  by (simp_all add: owners_def)

lemma owners_remove: "t \<in> set ts \<Longrightarrow> owners ts = mset (task_owner t) + owners (remove1 t ts)"
  by (induction ts) (auto simp: owners_def)

lemma keys_paired [simp]: "image_mset fst (image_mset (\<lambda>c. (c, e)) M) = M"
  by (simp add: multiset.map_comp comp_def)

lemma keys_updated: "js_get m k = Some v \<Longrightarrow> image_mset fst (mset (js_set k w m)) = image_mset fst (mset m)"
  by (induction m) (auto split: if_splits)

text \<open>The primitives on the place of callers.\<close>

lemmas pool_primitives = set_slot_def destroy_slot_def reject_def add_task_def finish_task_def end_creating_def add_slot_def

lemma places_primitive [simp]:
  "places (set_slot i st u p) = places p" "places (destroy_slot i p) = places p"
  "places (end_creating cid p) = places p" "places (add_slot now cl sb p) = places p"
  "places (reject c e p) = add_mset c (places p)" "places (add_task t p) = mset (task_owner t) + places p"
  "places (p\<lparr>pw_created := cs\<rparr>) = places p" "places (p\<lparr>pw_destroyed := ds\<rparr>) = places p"
  "places (p\<lparr>pw_callers := xs\<rparr>) = places p" "places (p\<lparr>pl_creating := n\<rparr>) = places p"
  by (simp_all add: places_def pool_primitives Let_def)

lemma places_finish: "t \<in> set (pw_tasks p) \<Longrightarrow> places p = mset (task_owner t) + places (finish_task t p)"
  by (simp add: places_def finish_task_def owners_remove)

lemma waiters_primitive [simp]:
  "pl_waiters (set_slot i st u p) = pl_waiters p" "pl_waiters (destroy_slot i p) = pl_waiters p"
  "pl_waiters (end_creating cid p) = pl_waiters p" "pl_waiters (add_slot now cl sb p) = pl_waiters p"
  "pl_waiters (reject c e p) = pl_waiters p" "pl_waiters (add_task t p) = pl_waiters p" "pl_waiters (finish_task t p) = pl_waiters p"
  by (simp_all add: pool_primitives Let_def)

lemma callers_primitive [simp]:
  "pw_callers (set_slot i st u p) = pw_callers p" "pw_callers (destroy_slot i p) = pw_callers p"
  "pw_callers (end_creating cid p) = pw_callers p" "pw_callers (add_slot now cl sb p) = pw_callers p"
  "pw_callers (reject c e p) = pw_callers p" "pw_callers (add_task t p) = pw_callers p" "pw_callers (finish_task t p) = pw_callers p"
  "pw_callers (set_waiters cid cs p) = pw_callers p"
  by (simp_all add: pool_primitives set_waiters_def Let_def)

lemma set_waiters_wf [simp]: "wf_jsmap (pl_waiters p) \<Longrightarrow> wf_jsmap (pl_waiters (set_waiters cid cs p))"
  by (simp add: set_waiters_def)

lemma places_set_waiters:
  "wf_jsmap (pl_waiters p) \<Longrightarrow>
   places (set_waiters cid cs p) + mset (opt_or (js_get (pl_waiters p) cid) []) = mset cs + places p"
  using waiting_delete [of "pl_waiters p" cid]
  by (auto simp: set_waiters_def places_def waiting_set)

text \<open>A caller that is about to be given a slot is in no other place.\<close>

lemma lease_places:
  "caller \<notin># places p \<Longrightarrow> leaseSlot now i caller p = (None, q) \<Longrightarrow> places q = add_mset caller (places p)"
  by (auto simp: leaseSlot_def places_def set_slot_def update_new map_of_eq_None_iff split: if_splits)

lemma lease_same: "leaseSlot now i caller p = (Some e, q) \<Longrightarrow> q = p"
  by (auto simp: leaseSlot_def split: if_splits)

lemma lease_frame:
  "leaseSlot now i caller p = (r, q) \<Longrightarrow> pl_waiters q = pl_waiters p \<and> pw_callers q = pw_callers p"
  by (auto simp: leaseSlot_def split: if_splits)

lemma give_frame [simp]: "pl_waiters (give now i c p) = pl_waiters p" "pw_callers (give now i c p) = pw_callers p"
  by (auto simp: give_def split: prod.splits option.splits dest: lease_frame)

lemma give_places: "caller \<notin># places p \<Longrightarrow> places (give now i caller p) = add_mset caller (places p)"
  by (auto simp: give_def split: prod.splits option.splits dest: lease_places lease_same)

text \<open>A slot and a waiter that meet: the waiter leaves the queue and gets the lease or the error.\<close>

definition same_places :: "pool_world \<Rightarrow> pool_world \<Rightarrow> bool" where
  "same_places p q \<longleftrightarrow> wf_jsmap (pl_waiters q) \<and> places q = places p \<and> pw_callers q = pw_callers p"

lemma places_after_shift:
  assumes "wf_jsmap (pl_waiters p)" and "opt_or (js_get (pl_waiters p) cid) [] = c # cs"
  shows "places p = add_mset c (places (set_waiters cid cs p))"
  using places_set_waiters [OF assms(1), of cid cs] assms(2) by simp

lemma serve_places:
  assumes acc: "wf_jsmap (pl_waiters p)" "\<And>c. count (places p) c \<le> 1"
  shows "same_places p (snd (serveWaiter now i p))"
proof (cases "pl_closed p \<or> sl_state (pl_objs p i) \<noteq> SlotReady")
  case True
  then show ?thesis by (simp add: serveWaiter_def same_places_def acc)
next
  case open_ready: False
  show ?thesis
  proof (cases "opt_or (js_get (pl_waiters p) (slot_class p i)) []")
    case Nil
    with open_ready show ?thesis by (simp add: serveWaiter_def same_places_def acc)
  next
    case (Cons c cs)
    let ?q = "set_waiters (slot_class p i) cs p"
    have places: "places p = add_mset c (places ?q)" by (rule places_after_shift [OF acc(1) Cons])
    with acc(2) [of c] have "c \<notin># places ?q" by (simp add: not_in_iff)
    moreover have "snd (serveWaiter now i p) = give now i c ?q"
      using open_ready Cons by (auto simp: serveWaiter_def give_def split: prod.splits option.splits)
    ultimately show ?thesis using places acc(1) by (simp add: same_places_def give_places)
  qed
qed

lemma reject_waiters_places: "wf_jsmap (pl_waiters p) \<Longrightarrow> same_places p (rejectWaiters cid e p)"
  using waiting_delete [of "pl_waiters p" cid]
  by (auto simp: rejectWaiters_def same_places_def places_def comp_def split: option.splits)

lemma reject_owner_places [simp]:
  "places (reject_owner owner e p) = mset (task_owner (Creating cid owner)) + places p"
  "pl_waiters (reject_owner owner e p) = pl_waiters p" "pw_callers (reject_owner owner e p) = pw_callers p"
  by (simp_all add: reject_owner_def split: option.splits)

lemma accounted_same: "accounted p \<Longrightarrow> same_places p q \<Longrightarrow> accounted q"
  by (simp add: accounted_def same_places_def)

lemma accounted_once: "accounted p \<Longrightarrow> count (places p) c \<le> 1"
  by (metis accounted_def distinct_count_atmost_1 zero_le_one order_refl)

lemma same_places_trans [trans]: "same_places p q \<Longrightarrow> same_places q r \<Longrightarrow> same_places p r"
  by (simp add: same_places_def)

lemma start_create_places:
  "places (start_create cid owner p) = mset (task_owner (Creating cid owner)) + places p"
  "pl_waiters (start_create cid owner p) = pl_waiters p" "pw_callers (start_create cid owner p) = pw_callers p"
  by (simp_all add: start_create_def reject_owner_places(1) [of owner _ _ cid])

lemma create_failed_places:
  assumes "wf_jsmap (pl_waiters p)" and task: "Creating cid owner \<in> set (pw_tasks p)"
  shows "same_places p (create_failed cid owner e p)"
proof -
  let ?q = "rejectWaiters cid e (finish_task (Creating cid owner) p)"
  have "same_places (finish_task (Creating cid owner) p) ?q" using assms(1) by (simp add: reject_waiters_places)
  with places_finish [OF task] show ?thesis
    by (simp add: create_failed_def same_places_def reject_owner_places(1) [of owner _ _ cid])
qed

lemma create_done_places:
  assumes acc: "accounted p" and task: "Creating (rc_id cl) owner \<in> set (pw_tasks p)"
  shows "same_places p (create_done now cl owner sandbox p)"
proof (cases "pl_closed p")
  case True
  let ?p = "p\<lparr>pw_created := pw_created p @ [si_id sandbox], pw_destroyed := pw_destroyed p @ [si_id sandbox]\<rparr>"
  have "same_places ?p (create_failed (rc_id cl) owner e ?p)" for e
    using acc task by (intro create_failed_places) (simp_all add: accounted_def)
  moreover have "same_places p ?p" using acc by (simp add: accounted_def same_places_def)
  ultimately show ?thesis using True by (auto simp: create_done_def intro: same_places_trans)
next
  case False
  let ?p = "p\<lparr>pw_created := pw_created p @ [si_id sandbox]\<rparr>"
  let ?q = "add_slot now cl sandbox (finish_task (Creating (rc_id cl) owner) ?p)"
  have q: "places p = mset (task_owner (Creating (rc_id cl) owner)) + places ?q" and wf: "wf_jsmap (pl_waiters ?q)"
    using places_finish [of "Creating (rc_id cl) owner" ?p] task acc by (simp_all add: accounted_def)
  show ?thesis
  proof (cases owner)
    case None
    have "count (places ?q) c \<le> 1" for c using accounted_once [OF acc, of c] q None by simp
    with serve_places [of ?q now "si_id sandbox"] wf q None False show ?thesis
      by (simp add: create_done_def same_places_def)
  next
    case (Some c)
    with q wf False show ?thesis by (simp add: create_done_def same_places_def)
  qed
qed

lemma destroy_fold [simp]:
  "places (foldr destroy_slot is p) = places p" "pl_waiters (foldr destroy_slot is p) = pl_waiters p"
  "pw_callers (foldr destroy_slot is p) = pw_callers p"
  by (induction "is") simp_all

lemma sweep_places [simp]:
  "places (sweep_slot now i p) = places p" "pl_waiters (sweep_slot now i p) = pl_waiters p" "pw_callers (sweep_slot now i p) = pw_callers p"
  by (simp_all add: sweep_slot_def Let_def split: option.splits)

lemma sweep_fold [simp]:
  "places (foldr (sweep_slot now) is p) = places p" "pl_waiters (foldr (sweep_slot now) is p) = pl_waiters p"
  "pw_callers (foldr (sweep_slot now) is p) = pw_callers p"
  by (induction "is") simp_all

lemma fill_places:
  "places ((start_create cid None ^^ n) p) = places p" "pl_waiters ((start_create cid None ^^ n) p) = pl_waiters p"
  "pw_callers ((start_create cid None ^^ n) p) = pw_callers p"
  by (induction n) (simp_all add: start_create_places)

lemma close_places: "wf_jsmap (pl_waiters p) \<Longrightarrow> same_places p (pool_close p)"
proof (cases "pl_closed p")
  case False
  have "places (p\<lparr>pl_closed := True, pw_errors := pw_errors p @ map (\<lambda>c. (c, e)) (concat (js_values (pl_waiters p))), pl_waiters := []\<rparr>) = places p" for e
    by (simp add: places_def waiting_def js_values_def comp_def)
  with False show ?thesis by (simp add: pool_close_def same_places_def)
qed (simp add: pool_close_def same_places_def)

lemma release_places: "accounted p \<Longrightarrow> same_places p (lease_release c d p)"
  by (auto simp: lease_release_def same_places_def accounted_def Let_def places_def add_task_def destroy_slot_def set_slot_def keys_updated
        split: option.splits prod.splits bool.splits)

lemma reset_places:
  assumes acc: "accounted p" and task: "Resetting c i \<in> set (pw_tasks p)"
  shows "same_places p (reset_done now c i ok p)"
proof -
  let ?p = "finish_task (Resetting c i) p" and ?q = "set_slot i SlotReady now (finish_task (Resetting c i) p)"
  have same: "places ?p = places p" using places_finish [OF task] by simp
  have "same_places ?q (snd (serveWaiter now i ?q))"
    using acc accounted_once [OF acc] same by (intro serve_places) (simp_all add: accounted_def)
  with same acc show ?thesis
    by (auto simp: reset_done_def same_places_def accounted_def Let_def split: prod.splits bool.splits option.splits)
qed

lemma acquire_accounted:
  assumes acc: "accounted p" and new: "c \<notin> set (pw_callers p)"
  shows "accounted (pool_acquire now c cid p)"
proof -
  have "c \<notin># places p" using assms by (simp add: accounted_def)
  with assms show ?thesis
    using places_set_waiters [of "p\<lparr>pw_callers := pw_callers p @ [c]\<rparr>" cid "opt_or (js_get (pl_waiters p) cid) [] @ [c]"]
    by (auto simp: pool_acquire_def accounted_def Let_def give_places start_create_places split: option.splits)
qed

lemma own_places:
  assumes acc: "accounted p" and task: "Created c i \<in> set (pw_tasks p)"
  shows "same_places p (acquire_created now c i p)"
proof -
  have places: "places p = add_mset c (places (finish_task (Created c i) p))" using places_finish [OF task] by simp
  then have "c \<notin># places (finish_task (Created c i) p)" using accounted_once [OF acc, of c] by (simp add: not_in_iff)
  with places acc show ?thesis by (simp add: acquire_created_def same_places_def accounted_def give_places)
qed

lemma step_accounted: "pool_step p q \<Longrightarrow> accounted p \<Longrightarrow> accounted q"
proof (induction rule: pool_step.induct)
  case (step_sweep p now)
  then show ?case by (simp add: maintain_sweep_def accounted_def)
next
  case (step_fill p cl)
  then show ?case by (simp add: maintain_fill_def accounted_def fill_places split: option.splits)
next
  case (step_failed cid owner p e)
  then show ?case by (intro accounted_same [OF _ create_failed_places]) (simp_all add: accounted_def)
next
  case (step_close p)
  then show ?case by (intro accounted_same [OF _ close_places]) (simp_all add: accounted_def)
qed (auto intro: acquire_accounted accounted_same create_done_places own_places release_places reset_places)

lemma reachable_accounted: "pool_reachable classes p \<Longrightarrow> accounted p"
  by (induction rule: pool_reachable.induct) (simp_all add: step_accounted, simp add: accounted_def new_pool_def places_def)

subsection \<open>The counter of sandboxes being created\<close>

fun creates :: "string \<Rightarrow> pool_task \<Rightarrow> bool" where
  "creates cid (Creating k _) = (k = cid)"
| "creates cid _ = False"

definition in_flight :: "pool_world \<Rightarrow> string \<Rightarrow> nat" where
  "in_flight p cid = length (filter (creates cid) (pw_tasks p))"

definition creating_counted :: "pool_world \<Rightarrow> bool" where
  "creating_counted p \<longleftrightarrow> (\<forall>cid. creatingCount p cid = in_flight p cid)"

lemma creating_primitive [simp]:
  "pl_creating (set_slot i st u p) = pl_creating p" "pl_creating (destroy_slot i p) = pl_creating p"
  "pl_creating (add_slot now cl sb p) = pl_creating p" "pl_creating (reject c e p) = pl_creating p"
  "pl_creating (add_task t p) = pl_creating p" "pl_creating (finish_task t p) = pl_creating p"
  "pl_creating (set_waiters cid cs p) = pl_creating p" "pl_creating (rejectWaiters cid e p) = pl_creating p"
  "pl_creating (reject_owner owner e p) = pl_creating p"
  by (simp_all add: pool_primitives set_waiters_def rejectWaiters_def reject_owner_def split: option.splits)

lemma tasks_primitive [simp]:
  "pw_tasks (set_slot i st u p) = pw_tasks p" "pw_tasks (destroy_slot i p) = pw_tasks p"
  "pw_tasks (add_slot now cl sb p) = pw_tasks p" "pw_tasks (reject c e p) = pw_tasks p"
  "pw_tasks (add_task t p) = pw_tasks p @ [t]" "pw_tasks (finish_task t p) = remove1 t (pw_tasks p)"
  "pw_tasks (set_waiters cid cs p) = pw_tasks p" "pw_tasks (rejectWaiters cid e p) = pw_tasks p"
  "pw_tasks (reject_owner owner e p) = pw_tasks p" "pw_tasks (end_creating cid p) = pw_tasks p"
  by (simp_all add: pool_primitives set_waiters_def rejectWaiters_def reject_owner_def Let_def split: option.splits)

lemma give_tasks [simp]: "pl_creating (give now i c p) = pl_creating p" "pw_tasks (give now i c p) = pw_tasks p"
  by (auto simp: give_def leaseSlot_def split: if_splits)

lemma serve_tasks [simp]:
  "pl_creating (snd (serveWaiter now i p)) = pl_creating p" "pw_tasks (snd (serveWaiter now i p)) = pw_tasks p"
  by (auto simp: serveWaiter_def leaseSlot_def split: if_splits list.splits)

lemma filter_remove: "t \<in> set ts \<Longrightarrow> length (filter P ts) = length (filter P (remove1 t ts)) + (if P t then 1 else 0)"
  by (induction ts) auto

lemma filter_remove_other: "\<not> P t \<Longrightarrow> filter P (remove1 t ts) = filter P ts"
  by (induction ts) auto

lemma counted_frame: "pl_creating q = pl_creating p \<Longrightarrow> in_flight q = in_flight p \<Longrightarrow> creating_counted p \<Longrightarrow> creating_counted q"
  by (simp add: creating_counted_def creatingCount_def)

lemma counted_start: "creating_counted p \<Longrightarrow> creating_counted (start_create cid owner p)"
  by (simp add: start_create_def creating_counted_def creatingCount_def in_flight_def)

lemma counted_end:
  assumes "\<And>k. creatingCount p k = in_flight p k + (if k = cid then 1 else 0)"
  shows "creating_counted (end_creating cid p)"
proof -
  have "creatingCount (end_creating cid p) k = in_flight p k" for k
    using assms [of k] assms [of cid]
    by (auto simp: end_creating_def creatingCount_def opt_or_def Let_def split: option.splits if_splits)
  then show ?thesis by (simp add: creating_counted_def in_flight_def)
qed

lemma in_flight_finish:
  assumes "Creating cid owner \<in> set (pw_tasks p)" and "creating_counted p"
  shows "creatingCount p k = length (filter (creates k) (remove1 (Creating cid owner) (pw_tasks p))) + (if k = cid then 1 else 0)"
  using assms(2) filter_remove [OF assms(1), of "creates k"] by (auto simp: creating_counted_def in_flight_def)

lemma counted_failed:
  assumes "Creating cid owner \<in> set (pw_tasks p)" and "creating_counted p"
  shows "creating_counted (create_failed cid owner e p)"
proof -
  have "creating_counted (end_creating cid (rejectWaiters cid e (finish_task (Creating cid owner) p)))"
    using in_flight_finish [OF assms] by (intro counted_end) (simp add: in_flight_def creatingCount_def)
  then show ?thesis by (rule counted_frame [rotated 2]) (simp_all add: create_failed_def in_flight_def fun_eq_iff)
qed

lemma counted_done:
  assumes "Creating (rc_id cl) owner \<in> set (pw_tasks p)" and "creating_counted p"
  shows "creating_counted (create_done now cl owner sandbox p)"
proof (cases "pl_closed p")
  case True
  let ?p = "p\<lparr>pw_created := pw_created p @ [si_id sandbox], pw_destroyed := pw_destroyed p @ [si_id sandbox]\<rparr>"
  have "creating_counted ?p" using assms(2) by (rule counted_frame [rotated 2]) (simp_all add: in_flight_def fun_eq_iff)
  with counted_failed [of "rc_id cl" owner ?p] assms(1) True show ?thesis by (simp add: create_done_def)
next
  case False
  let ?q = "add_slot now cl sandbox (finish_task (Creating (rc_id cl) owner) (p\<lparr>pw_created := pw_created p @ [si_id sandbox]\<rparr>))"
  have exact: "creatingCount p k = length (filter (creates k) (remove1 (Creating (rc_id cl) owner) (pw_tasks p))) + (if k = rc_id cl then 1 else 0)" for k
    by (rule in_flight_finish [OF assms])
  show ?thesis
  proof (cases owner)
    case None
    have "creating_counted (end_creating (rc_id cl) (snd (serveWaiter now (si_id sandbox) ?q)))"
      using exact by (intro counted_end) (simp add: creatingCount_def in_flight_def)
    with None False show ?thesis by (simp add: create_done_def)
  next
    case (Some c)
    have "creating_counted (end_creating (rc_id cl) ?q)" using exact by (intro counted_end) (simp add: creatingCount_def in_flight_def)
    then have "creating_counted (add_task (Created c (si_id sandbox)) (end_creating (rc_id cl) ?q))"
      by (rule counted_frame [rotated 2]) (simp_all add: in_flight_def fun_eq_iff)
    with Some False show ?thesis by (simp add: create_done_def)
  qed
qed

lemma sweep_creating [simp]:
  "pl_creating (foldr (sweep_slot now) is p) = pl_creating p" "pw_tasks (foldr (sweep_slot now) is p) = pw_tasks p"
  by (induction "is") (simp_all add: sweep_slot_def Let_def split: option.splits)

lemma destroys_creating [simp]:
  "pl_creating (foldr destroy_slot is p) = pl_creating p" "pw_tasks (foldr destroy_slot is p) = pw_tasks p"
  by (induction "is") simp_all

lemma counted_fill: "creating_counted p \<Longrightarrow> creating_counted ((start_create cid None ^^ n) p)"
  by (induction n) (simp_all add: counted_start)

lemma step_counted: "pool_step p q \<Longrightarrow> creating_counted p \<Longrightarrow> creating_counted q"
proof (induction rule: pool_step.induct)
  case (step_acquire caller p now cid)
  have "creating_counted (p\<lparr>pw_callers := pw_callers p @ [caller]\<rparr>)"
    using step_acquire.prems by (rule counted_frame [rotated 2]) (simp_all add: in_flight_def fun_eq_iff)
  with counted_start [OF this, of _ "Some caller"] show ?case
    by (auto simp: pool_acquire_def Let_def creating_counted_def creatingCount_def in_flight_def split: option.splits)
next
  case (step_own caller i p now)
  then show ?case
    by (auto simp: acquire_created_def in_flight_def fun_eq_iff filter_remove_other elim!: counted_frame [rotated 2])
next
  case (step_release p caller destroy)
  then show ?case
    by (auto simp: lease_release_def Let_def in_flight_def fun_eq_iff elim!: counted_frame [rotated 2] split: option.splits prod.splits bool.splits)
next
  case (step_reset caller i p now ok)
  have served: "pl_creating q = pl_creating r \<and> pw_tasks q = pw_tasks r" if "serveWaiter now i r = (b, q)" for q r b
    using serve_tasks [of now i r] that by simp
  show ?case
    using step_reset
    by (auto simp: reset_done_def Let_def in_flight_def fun_eq_iff filter_remove_other elim!: counted_frame [rotated 2] dest: served
        split: prod.splits bool.splits option.splits)
next
  case (step_close p)
  then show ?case by (auto simp: pool_close_def in_flight_def fun_eq_iff elim!: counted_frame [rotated 2])
next
  case (step_sweep p now)
  then show ?case by (auto simp: maintain_sweep_def in_flight_def fun_eq_iff elim!: counted_frame [rotated 2])
next
  case (step_fill p cl)
  then show ?case by (simp add: maintain_fill_def counted_fill split: option.splits)
qed (simp_all add: counted_done counted_failed)

lemma reachable_counted: "pool_reachable classes p \<Longrightarrow> creating_counted p"
  by (induction rule: pool_reachable.induct)
    (simp_all add: step_counted, simp add: creating_counted_def new_pool_def creatingCount_def in_flight_def)

subsection \<open>Slots, holders and the backend's sandboxes\<close>

text \<open>
  The invariant over the states of slots \<open>st\<close>, the pool's map \<open>sl\<close>, the multiset of holders \<open>H\<close>, the ids
  \<open>R\<close> that leases and tasks refer to, and what was created and destroyed.
\<close>

definition slots_ok ::
  "(string \<Rightarrow> slot_state) \<Rightarrow> string list \<Rightarrow> string multiset \<Rightarrow> string set \<Rightarrow> string list \<Rightarrow> string list \<Rightarrow> bool \<Rightarrow> bool" where
  "slots_ok st sl H R cr de shut \<longleftrightarrow>
     distinct sl \<and> distinct cr \<and> distinct de \<and> set cr = set sl \<union> set de \<and> set sl \<inter> set de = {} \<and>
     (\<forall>i\<in>set sl. st i \<noteq> SlotDestroying \<and> (st i = SlotLeased \<longleftrightarrow> i \<in># H)) \<and>
     (\<forall>i\<in>R. i \<in> set sl \<or> i \<in> set cr \<and> st i = SlotDestroying) \<and>
     (\<forall>i. count H i \<le> 1) \<and> set_mset H \<subseteq> R \<and> (if shut then sl = [] else set_mset H \<subseteq> set sl)"

lemma ok_lease:
  assumes "slots_ok st sl H R cr de False" and "st i = SlotReady" and "i \<in> R \<union> set sl"
  shows "slots_ok (st(i := SlotLeased)) sl (add_mset i H) (insert i R) cr de False"
proof -
  have "i \<in> set sl" using assms by (auto simp: slots_ok_def)
  moreover have "i \<notin># H" using assms \<open>i \<in> set sl\<close> by (auto simp: slots_ok_def)
  ultimately show ?thesis using assms by (auto simp: slots_ok_def not_in_iff)
qed

lemma ok_holder: "slots_ok st sl (add_mset i H) R cr de shut \<Longrightarrow> i \<notin># H \<and> i \<in> R \<and> (i \<in> set sl \<or> st i = SlotDestroying)"
  by (auto simp: slots_ok_def not_in_iff dest: spec [of _ i])

lemma ok_count: "slots_ok st sl (add_mset i H) R cr de shut \<Longrightarrow> count H j \<le> 1"
  unfolding slots_ok_def by (metis count_add_mset le_Suc_eq nat_le_linear not_less_eq_eq)

lemma ok_ready:
  assumes "slots_ok st sl (add_mset i H) R cr de False"
  shows "slots_ok (st(i := SlotReady)) sl H R cr de False"
  using assms ok_holder [OF assms] ok_count [OF assms] by (auto simp: slots_ok_def)

lemma ok_destroy_held:
  assumes "slots_ok st sl (add_mset i H) R cr de shut"
  shows "if i \<in> set sl then slots_ok (st(i := SlotDestroying)) (set_delete i sl) H R cr (de @ [i]) shut
    else slots_ok st sl H R cr de shut"
  using assms ok_holder [OF assms] ok_count [OF assms] by (auto simp: slots_ok_def)

lemma ok_destroy_idle:
  assumes "slots_ok st sl H R cr de shut" and "i \<in> set sl" and "i \<notin># H"
  shows "slots_ok (st(i := SlotDestroying)) (set_delete i sl) H R cr (de @ [i]) shut"
  using assms by (auto simp: slots_ok_def)

lemma ok_add:
  assumes "slots_ok st sl H R cr de False" and "i \<notin> set cr"
  shows "slots_ok (st(i := SlotReady)) (set_add i sl) H (insert i R) (cr @ [i]) de False"
  using assms by (auto simp: slots_ok_def)

lemma ok_add_shut:
  assumes "slots_ok st sl H R cr de True" and "i \<notin> set cr"
  shows "slots_ok st sl H R (cr @ [i]) (de @ [i]) True"
  using assms by (auto simp: slots_ok_def)

lemma ok_refs: "slots_ok st sl H R cr de shut \<Longrightarrow> set_mset H \<subseteq> S \<Longrightarrow> S \<subseteq> R \<union> set sl \<Longrightarrow> slots_ok st sl H S cr de shut"
  by (auto simp: slots_ok_def)

lemma ok_shut:
  assumes "slots_ok st sl H R cr de False"
  shows "slots_ok (\<lambda>i. if i \<in> set sl then SlotDestroying else st i) [] H R cr (de @ sl) True"
  using assms by (auto simp: slots_ok_def)

text \<open>The same over worlds.\<close>

fun task_holds :: "pool_task \<Rightarrow> string list" where
  "task_holds (Resetting _ i) = [i]"
| "task_holds _ = []"

fun task_refs :: "pool_task \<Rightarrow> string set" where
  "task_refs (Resetting _ i) = {i}"
| "task_refs (Created _ i) = {i}"
| "task_refs _ = {}"

definition held :: "(nat, string \<times> bool) jsmap \<Rightarrow> string multiset" where
  "held leases = mset (map (fst \<circ> snd) (filter (Not \<circ> snd \<circ> snd) leases))"

definition holders :: "pool_world \<Rightarrow> string multiset" where
  "holders p = held (pw_leases p) + mset (concat (map task_holds (pw_tasks p)))"

definition refs :: "pool_world \<Rightarrow> string set" where
  "refs p = (fst \<circ> snd) ` set (pw_leases p) \<union> \<Union> (task_refs ` set (pw_tasks p))"

definition slots_inv :: "pool_world \<Rightarrow> bool" where
  "slots_inv p \<longleftrightarrow>
     slots_ok (\<lambda>i. sl_state (pl_objs p i)) (pl_slots p) (holders p) (refs p) (pw_created p) (pw_destroyed p) (pl_closed p)"

lemma held_new: "js_get m c = None \<Longrightarrow> held (js_set c (i, False) m) = add_mset i (held m)"
  by (simp add: update_new held_def)

lemma refs_new: "js_get m c = None \<Longrightarrow> (fst \<circ> snd) ` set (js_set c (i, b) m) = insert i ((fst \<circ> snd) ` set m)"
  by (simp add: update_new)

lemma held_release:
  "distinct (map fst m) \<Longrightarrow> js_get m c = Some (i, False) \<Longrightarrow> held m = add_mset i (held (js_set c (i, True) m))"
  by (induction m) (auto simp: held_def split: if_splits)

lemma refs_release: "distinct (map fst m) \<Longrightarrow> js_get m c = Some (i, b) \<Longrightarrow> (fst \<circ> snd) ` set (js_set c (i, b') m) = (fst \<circ> snd) ` set m"
  by (induction m) (auto split: if_splits)

lemma slots_frame:
  assumes "slots_inv p" and "pl_objs q = pl_objs p" "pl_slots q = pl_slots p" "pw_leases q = pw_leases p" "pw_tasks q = pw_tasks p"
    "pw_created q = pw_created p" "pw_destroyed q = pw_destroyed p" "pl_closed q = pl_closed p"
  shows "slots_inv q"
  using assms by (simp add: slots_inv_def holders_def refs_def)

lemma state_set_slot: "(\<lambda>j. sl_state (pl_objs (set_slot i st u p) j)) = (\<lambda>j. sl_state (pl_objs p j))(i := st)"
  by (auto simp: set_slot_def fun_eq_iff)

lemma set_slot_fields [simp]:
  "pl_slots (set_slot i st u p) = pl_slots p" "pw_leases (set_slot i st u p) = pw_leases p"
  "pw_created (set_slot i st u p) = pw_created p" "pw_destroyed (set_slot i st u p) = pw_destroyed p" "pl_closed (set_slot i st u p) = pl_closed p"
  by (simp_all add: set_slot_def)

lemma give_inv:
  assumes inv: "slots_inv p" and fresh: "js_get (pw_leases p) c = None"
    and known: "sl_state (pl_objs p i) = SlotReady \<Longrightarrow> i \<in> refs p \<union> set (pl_slots p)"
  shows "slots_inv (give now i c p)"
proof (cases "pl_closed p \<or> sl_state (pl_objs p i) \<noteq> SlotReady")
  case True
  then show ?thesis using inv by (auto simp: give_def leaseSlot_def reject_def intro: slots_frame)
next
  case False
  let ?q = "(set_slot i SlotLeased now p)\<lparr>pw_leases := js_set c (i, False) (pw_leases p)\<rparr>"
  have "slots_ok ((\<lambda>j. sl_state (pl_objs p j))(i := SlotLeased)) (pl_slots p) (add_mset i (holders p)) (insert i (refs p)) (pw_created p) (pw_destroyed p) False"
    using inv False known by (intro ok_lease) (simp_all add: slots_inv_def)
  moreover have "holders ?q = add_mset i (holders p)" "refs ?q = insert i (refs p)"
    by (simp_all add: holders_def refs_def held_new [OF fresh] refs_new [OF fresh, unfolded comp_def])
  ultimately have "slots_inv ?q" using False state_set_slot [of i SlotLeased now p] by (simp add: slots_inv_def)
  with False show ?thesis by (simp add: give_def leaseSlot_def)
qed

lemma fresh_caller: "c \<notin># places p \<Longrightarrow> js_get (pw_leases p) c = None"
  by (auto simp: places_def map_of_eq_None_iff)

lemma serve_cases:
  assumes "wf_jsmap (pl_waiters p)" and once: "\<And>c. count (places p) c \<le> 1"
  obtains "serveWaiter now i p = (False, p)"
  | c cs where "js_get (pw_leases p) c = None" and "serveWaiter now i p = (True, give now i c (set_waiters (slot_class p i) cs p))"
    and "sl_state (pl_objs p i) = SlotReady"
proof (cases "pl_closed p \<or> sl_state (pl_objs p i) \<noteq> SlotReady")
  case True
  then show thesis by (intro that(1)) (simp add: serveWaiter_def)
next
  case ready: False
  show thesis
  proof (cases "opt_or (js_get (pl_waiters p) (slot_class p i)) []")
    case Nil
    with ready show thesis by (intro that(1)) (simp add: serveWaiter_def)
  next
    case (Cons c cs)
    have "c \<notin># places (set_waiters (slot_class p i) cs p)"
      using places_after_shift [OF assms(1) Cons] once [of c] by (simp add: not_in_iff)
    then have "js_get (pw_leases p) c = None" using fresh_caller by (fastforce simp: set_waiters_def)
    moreover have "serveWaiter now i p = (True, give now i c (set_waiters (slot_class p i) cs p))"
      using ready Cons by (simp add: serveWaiter_def give_def leaseSlot_def set_waiters_def)
    ultimately show thesis using ready by (intro that(2)) simp_all
  qed
qed

lemma serve_inv:
  assumes inv: "slots_inv p" and "i \<in> set (pl_slots p)" and acc: "wf_jsmap (pl_waiters p)" "\<And>c. count (places p) c \<le> 1"
  shows "slots_inv (snd (serveWaiter now i p))"
proof (cases rule: serve_cases [OF acc, of now i])
  case (2 c cs)
  have "slots_inv (set_waiters (slot_class p i) cs p)" using inv by (rule slots_frame) (simp_all add: set_waiters_def)
  with 2 assms(2) show ?thesis by (auto intro!: give_inv simp: set_waiters_def)
qed (simp add: inv)

lemma destroy_held_inv:
  assumes "slots_ok (\<lambda>j. sl_state (pl_objs p j)) (pl_slots p) (add_mset i (holders p)) R (pw_created p) (pw_destroyed p) (pl_closed p)"
    and "set_mset (holders p) \<subseteq> refs p" and "refs p \<subseteq> R"
  shows "slots_inv (destroy_slot i p)"
proof (cases "i \<in> set (pl_slots p)")
  case True
  then have "slots_ok ((\<lambda>j. sl_state (pl_objs p j))(i := SlotDestroying)) (set_delete i (pl_slots p)) (holders p) (refs p)
      (pw_created p) (pw_destroyed p @ [i]) (pl_closed p)"
    using ok_destroy_held [OF assms(1)] assms(2,3) by (auto intro: ok_refs)
  with True show ?thesis
    using state_set_slot [of i SlotDestroying "sl_lastUsedAt (pl_objs p i)" p]
    by (simp add: slots_inv_def destroy_slot_def holders_def refs_def)
next
  case False
  with ok_destroy_held [OF assms(1)] have "slots_inv p" using assms(2,3) by (auto simp: slots_inv_def intro: ok_refs)
  with False ok_holder [OF assms(1)] show ?thesis by (simp add: destroy_slot_def)
qed

lemma destroy_idle_inv:
  assumes inv: "slots_inv p" and i: "i \<in> set (pl_slots p)" "sl_state (pl_objs p i) = SlotReady"
  shows "slots_inv (destroy_slot i p)"
proof -
  have "i \<notin># holders p" using inv i by (auto simp: slots_inv_def slots_ok_def)
  with inv i have "slots_ok ((\<lambda>j. sl_state (pl_objs p j))(i := SlotDestroying)) (set_delete i (pl_slots p)) (holders p) (refs p)
      (pw_created p) (pw_destroyed p @ [i]) (pl_closed p)" by (intro ok_destroy_idle) (simp_all add: slots_inv_def)
  with i show ?thesis
    using state_set_slot [of i SlotDestroying "sl_lastUsedAt (pl_objs p i)" p]
    by (simp add: slots_inv_def destroy_slot_def holders_def refs_def)
qed

text \<open>The tasks that come and go.\<close>

lemma holders_add: "holders (add_task t p) = holders p + mset (task_holds t)"
  by (simp add: holders_def add_task_def)

lemma refs_add: "refs (add_task t p) = refs p \<union> task_refs t"
  by (auto simp: refs_def add_task_def)

lemma holders_finish: "t \<in> set (pw_tasks p) \<Longrightarrow> holders p = holders (finish_task t p) + mset (task_holds t)"
proof -
  have "mset (concat (map task_holds ts)) = mset (concat (map task_holds (remove1 t ts))) + mset (task_holds t)"
    if "t \<in> set ts" for ts using that by (induction ts) auto
  then show "t \<in> set (pw_tasks p) \<Longrightarrow> ?thesis" by (simp add: holders_def finish_task_def)
qed

lemma refs_finish: "refs (finish_task t p) \<subseteq> refs p"
  by (auto simp: refs_def finish_task_def dest: notin_set_remove1 [THEN contrapos_nn] set_remove1_subset [THEN subsetD])

lemma held_refs: "set_mset (holders p) \<subseteq> refs p"
proof -
  have "set (task_holds t) \<subseteq> task_refs t" for t by (cases t) simp_all
  then show ?thesis by (fastforce simp: holders_def refs_def held_def)
qed

lemma finish_other:
  assumes "slots_inv p" and "t \<in> set (pw_tasks p)" and "task_holds t = []"
  shows "slots_inv (finish_task t p)"
proof -
  have "holders (finish_task t p) = holders p" using holders_finish [OF assms(2)] assms(3) by simp
  then show ?thesis
    using assms(1) refs_finish [of t p] held_refs [of "finish_task t p"]
    by (auto simp: slots_inv_def finish_task_def intro: ok_refs)
qed

lemma add_other:
  assumes "slots_inv p" and "task_holds t = []" and "task_refs t \<subseteq> set (pl_slots p)"
  shows "slots_inv (add_task t p)"
proof -
  have same: "holders (add_task t p) = holders p" using assms(2) by (simp add: holders_add)
  have "slots_ok (\<lambda>j. sl_state (pl_objs p j)) (pl_slots p) (holders p) (refs (add_task t p)) (pw_created p) (pw_destroyed p) (pl_closed p)"
    using assms(1) by (rule ok_refs [OF slots_inv_def [THEN iffD1]]) (use assms(3) held_refs [of p] in \<open>auto simp: refs_add\<close>)
  then show ?thesis by (simp add: slots_inv_def same) (simp add: add_task_def)
qed

lemma objs_primitive [simp]:
  "pl_objs (reject c e p) = pl_objs p" "pl_slots (reject c e p) = pl_slots p" "pw_leases (reject c e p) = pw_leases p"
  "pw_created (reject c e p) = pw_created p" "pw_destroyed (reject c e p) = pw_destroyed p" "pl_closed (reject c e p) = pl_closed p"
  "pl_objs (end_creating cid p) = pl_objs p" "pl_slots (end_creating cid p) = pl_slots p" "pw_leases (end_creating cid p) = pw_leases p"
  "pw_created (end_creating cid p) = pw_created p" "pw_destroyed (end_creating cid p) = pw_destroyed p" "pl_closed (end_creating cid p) = pl_closed p"
  "pl_objs (finish_task t p) = pl_objs p" "pl_slots (finish_task t p) = pl_slots p" "pw_leases (finish_task t p) = pw_leases p"
  "pw_created (finish_task t p) = pw_created p" "pw_destroyed (finish_task t p) = pw_destroyed p" "pl_closed (finish_task t p) = pl_closed p"
  by (simp_all add: reject_def end_creating_def finish_task_def Let_def)

lemma slots_reject [simp]: "slots_inv (reject c e p) = slots_inv p" "slots_inv (end_creating cid p) = slots_inv p"
  by (simp_all add: slots_inv_def holders_def refs_def)

lemma slots_reject_owner [simp]: "slots_inv (reject_owner owner e p) = slots_inv p"
  by (simp add: reject_owner_def split: option.splits)

lemma slots_reject_waiters [simp]: "slots_inv (rejectWaiters cid e p) = slots_inv p"
  by (simp add: rejectWaiters_def slots_inv_def holders_def refs_def split: option.splits)

lemma slots_set_waiters [simp]: "slots_inv (set_waiters cid cs p) = slots_inv p"
  by (simp add: set_waiters_def slots_inv_def holders_def refs_def)

lemma start_inv: "slots_inv p \<Longrightarrow> slots_inv (start_create cid owner p)"
  by (simp add: start_create_def) (intro impI add_other, simp_all add: slots_inv_def holders_def refs_def)

lemma failed_inv: "slots_inv p \<Longrightarrow> Creating cid owner \<in> set (pw_tasks p) \<Longrightarrow> slots_inv (create_failed cid owner e p)"
  by (simp add: create_failed_def finish_other)

lemma acquire_inv:
  assumes inv: "slots_inv p" and acc: "accounted p" and new: "c \<notin> set (pw_callers p)"
  shows "slots_inv (pool_acquire now c cid p)"
proof -
  let ?p = "p\<lparr>pw_callers := pw_callers p @ [c]\<rparr>"
  have "slots_inv ?p" using inv by (rule slots_frame) simp_all
  moreover have "js_get (pw_leases p) c = None" using acc new by (intro fresh_caller) (simp add: accounted_def)
  ultimately show ?thesis
    by (auto simp: pool_acquire_def Let_def find_Some_iff intro!: give_inv start_inv split: option.splits)
qed

lemma created_inv:
  assumes inv: "slots_inv p" and acc: "accounted p" and task: "Created c i \<in> set (pw_tasks p)"
  shows "slots_inv (acquire_created now c i p)"
proof -
  have "i \<in> refs p" using task by (force simp: refs_def)
  then have "sl_state (pl_objs p i) = SlotReady \<Longrightarrow> i \<in> set (pl_slots p)" using inv by (auto simp: slots_inv_def slots_ok_def)
  moreover have "js_get (pw_leases p) c = None"
    using places_finish [OF task] accounted_once [OF acc, of c] fresh_caller [of c "finish_task (Created c i) p"]
    by (simp add: not_in_iff)
  ultimately show ?thesis
    using finish_other [OF inv task] by (auto simp: acquire_created_def intro!: give_inv)
qed

lemma distinct_if_once: "(\<And>c. count (mset xs) c \<le> 1) \<Longrightarrow> distinct xs"
proof (induction xs)
  case (Cons x xs)
  have "count (mset xs) c \<le> 1" for c by (rule le_trans [OF _ Cons.prems [of c]]) simp
  moreover have "x \<notin> set xs" using Cons.prems [of x] by (simp add: not_in_iff [symmetric])
  ultimately show ?case using Cons.IH by simp
qed simp

lemma leases_distinct: "accounted p \<Longrightarrow> distinct (map fst (pw_leases p))"
proof (rule distinct_if_once)
  fix c
  assume "accounted p"
  then have "count (places p) c \<le> 1" by (rule accounted_once)
  then show "count (mset (map fst (pw_leases p))) c \<le> 1" by (simp add: places_def)
qed

lemma release_inv:
  assumes inv: "slots_inv p" and acc: "accounted p"
  shows "slots_inv (lease_release c destroy p)"
proof (cases "\<exists>i. js_get (pw_leases p) c = Some (i, False)")
  case True
  then obtain i where lease: "js_get (pw_leases p) c = Some (i, False)" by blast
  let ?q = "p\<lparr>pw_leases := js_set c (i, True) (pw_leases p)\<rparr>"
  have held: "holders p = add_mset i (holders ?q)"
    using held_release [OF leases_distinct [OF acc] lease] by (simp add: holders_def)
  have refs: "refs ?q = refs p"
    using refs_release [OF leases_distinct [OF acc] lease, of True] by (simp add: refs_def)
  have ok: "slots_ok (\<lambda>j. sl_state (pl_objs p j)) (pl_slots p) (add_mset i (holders ?q)) (refs p) (pw_created p) (pw_destroyed p) (pl_closed p)"
    using inv by (simp add: slots_inv_def held)
  have "slots_inv (destroy_slot i ?q)"
    using ok held_refs [of ?q] by (intro destroy_held_inv [where R = "refs p"]) (simp_all add: refs)
  moreover have "slots_inv (add_task (Resetting c i) ?q)"
  proof -
    have "holders (add_task (Resetting c i) ?q) = holders p" "refs (add_task (Resetting c i) ?q) = refs p"
      using ok_holder [OF ok] by (simp_all add: holders_add refs_add held refs insert_absorb)
    with inv show ?thesis by (simp add: slots_inv_def) (simp add: add_task_def)
  qed
  ultimately show ?thesis by (simp add: lease_release_def lease Let_def)
next
  case False
  then have "lease_release c destroy p = p" by (auto simp: lease_release_def split: option.splits bool.splits)
  with inv show ?thesis by simp
qed

lemma reset_inv:
  assumes inv: "slots_inv p" and acc: "accounted p" and task: "Resetting c i \<in> set (pw_tasks p)"
  shows "slots_inv (reset_done now c i ok p)"
proof -
  let ?p = "finish_task (Resetting c i) p"
  have held: "holders p = add_mset i (holders ?p)" using holders_finish [OF task] by simp
  have was: "slots_ok (\<lambda>j. sl_state (pl_objs p j)) (pl_slots p) (add_mset i (holders ?p)) (refs p) (pw_created p) (pw_destroyed p) (pl_closed p)"
    using inv by (simp add: slots_inv_def held)
  show ?thesis
  proof (cases "\<not> ok \<or> pl_closed p")
    case True
    have "slots_inv (destroy_slot i ?p)"
      using was refs_finish [of "Resetting c i" p] held_refs [of ?p] by (intro destroy_held_inv [where R = "refs p"]) simp_all
    with True show ?thesis by (auto simp: reset_done_def Let_def)
  next
    case False
    let ?q = "set_slot i SlotReady now ?p"
    have slot: "i \<in> set (pl_slots p)" using inv False by (auto simp: slots_inv_def slots_ok_def held)
    have same: "holders ?q = holders ?p" "refs ?q = refs ?p" by (simp_all add: holders_def refs_def)
    have "slots_ok ((\<lambda>j. sl_state (pl_objs p j))(i := SlotReady)) (pl_slots p) (holders ?p) (refs ?p) (pw_created p) (pw_destroyed p) False"
      using ok_refs [OF ok_ready held_refs] was False refs_finish [of "Resetting c i" p] by (metis le_supI1)
    then have q: "slots_inv ?q"
      using state_set_slot [of i SlotReady now ?p] False by (simp add: slots_inv_def same)
    have served: "wf_jsmap (pl_waiters ?q)" "\<And>k. count (places ?q) k \<le> 1"
      using acc accounted_once [OF acc] places_finish [OF task] by (simp_all add: accounted_def)
    have serve: "slots_inv (snd (serveWaiter now i ?q))" using serve_inv [OF q _ served] slot by simp
    show ?thesis
    proof (cases rule: serve_cases [OF served, of now i])
      case 1
      have "slots_inv (destroy_slot i ?q)" using q slot by (intro destroy_idle_inv) (simp_all add: set_slot_def)
      with 1 q False show ?thesis by (simp add: reset_done_def Let_def split: option.splits)
    next
      case (2 k ks)
      with serve False show ?thesis by (simp add: reset_done_def Let_def)
    qed
  qed
qed

lemma done_inv:
  assumes inv: "slots_inv p" and acc: "accounted p" and task: "Creating (rc_id cl) owner \<in> set (pw_tasks p)"
    and new: "si_id sandbox \<notin> set (pw_created p)"
  shows "slots_inv (create_done now cl owner sandbox p)"
proof (cases "pl_closed p")
  case True
  let ?p = "p\<lparr>pw_created := pw_created p @ [si_id sandbox], pw_destroyed := pw_destroyed p @ [si_id sandbox]\<rparr>"
  have "slots_inv ?p" using ok_add_shut [OF _ new] inv True by (simp add: slots_inv_def holders_def refs_def)
  with failed_inv [of ?p "rc_id cl" owner] task True show ?thesis by (simp add: create_done_def)
next
  case False
  let ?t = "Creating (rc_id cl) owner" and ?i = "si_id sandbox"
  let ?p = "p\<lparr>pw_created := pw_created p @ [?i]\<rparr>"
  let ?q = "add_slot now cl sandbox (finish_task ?t ?p)"
  have fin: "slots_inv (finish_task ?t p)" using finish_other [OF inv task] by simp
  have same: "holders ?q = holders (finish_task ?t p)" "refs ?q = refs (finish_task ?t p)"
    by (simp_all add: holders_def refs_def add_slot_def finish_task_def)
  have st: "(\<lambda>j. sl_state (pl_objs ?q j)) = (\<lambda>j. sl_state (pl_objs p j))(?i := SlotReady)"
    by (auto simp: add_slot_def fun_eq_iff)
  have "slots_ok ((\<lambda>j. sl_state (pl_objs p j))(?i := SlotReady)) (set_add ?i (pl_slots p)) (holders ?q) (refs ?q) (pw_created p @ [?i]) (pw_destroyed p) False"
    using ok_refs [OF ok_add [OF _ new] held_refs] fin False
    by (fastforce simp: slots_inv_def same)
  then have q: "slots_inv ?q" using False st by (simp add: slots_inv_def) (simp add: add_slot_def)
  have slot: "?i \<in> set (pl_slots ?q)" by (simp add: add_slot_def)
  show ?thesis
  proof (cases owner)
    case None
    have "places ?q = places p" using places_finish [OF task] None by (simp add: places_def finish_task_def add_slot_def)
    with acc accounted_once [OF acc] have "slots_inv (snd (serveWaiter now ?i ?q))"
      by (intro serve_inv q slot) (simp_all add: accounted_def)
    with None False show ?thesis by (simp add: create_done_def)
  next
    case (Some c)
    have "slots_inv (add_task (Created c ?i) (end_creating (rc_id cl) ?q))"
      using q slot by (intro add_other) simp_all
    with Some False show ?thesis by (simp add: create_done_def)
  qed
qed

lemma sweep_inv:
  assumes "slots_inv p"
  shows "distinct is \<Longrightarrow> set is \<subseteq> set (pl_slots p) \<Longrightarrow>
    slots_inv (foldr (sweep_slot now) is p) \<and> set (pl_slots p) - set is \<subseteq> set (pl_slots (foldr (sweep_slot now) is p))"
proof (induction "is")
  case (Cons i "is")
  let ?q = "foldr (sweep_slot now) is p"
  have "slots_inv ?q" "i \<in> set (pl_slots ?q)" using Cons by auto
  then have "slots_inv (sweep_slot now i ?q)"
    by (simp add: sweep_slot_def Let_def destroy_idle_inv split: option.splits)
  moreover have "set (pl_slots ?q) - {i} \<subseteq> set (pl_slots (sweep_slot now i ?q))"
    by (auto simp: sweep_slot_def Let_def destroy_slot_def split: option.splits)
  ultimately show ?case using Cons by auto
qed (simp add: assms)

lemma destroy_present:
  "i \<in> set (pl_slots p) \<Longrightarrow> pl_slots (destroy_slot i p) = set_delete i (pl_slots p)"
  "i \<in> set (pl_slots p) \<Longrightarrow> pw_destroyed (destroy_slot i p) = pw_destroyed p @ [i]"
  "i \<in> set (pl_slots p) \<Longrightarrow> sl_state (pl_objs (destroy_slot i p) j) = (if j = i then SlotDestroying else sl_state (pl_objs p j))"
  by (simp_all add: destroy_slot_def set_slot_def)

lemma destroy_all:
  "distinct is \<Longrightarrow> set is \<subseteq> set (pl_slots p) \<Longrightarrow>
   pl_slots (foldr destroy_slot is p) = filter (\<lambda>i. i \<notin> set is) (pl_slots p) \<and>
   pw_destroyed (foldr destroy_slot is p) = pw_destroyed p @ rev is \<and>
   (\<lambda>j. sl_state (pl_objs (foldr destroy_slot is p) j)) = (\<lambda>j. if j \<in> set is then SlotDestroying else sl_state (pl_objs p j))"
proof (induction "is")
  case (Cons i "is")
  let ?q = "foldr destroy_slot is p"
  have "i \<in> set (pl_slots ?q)" using Cons by auto
  with Cons show ?case
    by (auto simp: destroy_present set_delete_def fun_eq_iff intro: filter_cong)
qed simp

lemma destroy_all_fields [simp]:
  "pw_leases (foldr destroy_slot is p) = pw_leases p" "pw_created (foldr destroy_slot is p) = pw_created p"
  "pl_closed (foldr destroy_slot is p) = pl_closed p"
  by (induction "is") (simp_all add: destroy_slot_def)

lemma close_inv:
  assumes "slots_inv p"
  shows "slots_inv (pool_close p)"
proof (cases "pl_closed p")
  case False
  let ?p = "p\<lparr>pl_closed := True, pw_errors := pw_errors p @ map (\<lambda>c. (c, closed_error)) (concat (js_values (pl_waiters p))), pl_waiters := []\<rparr>"
  have "distinct (rev (pl_slots p))" using assms by (simp add: slots_inv_def slots_ok_def)
  from destroy_all [OF this, of ?p]
  have "slots_inv (foldr destroy_slot (rev (pl_slots p)) ?p)"
    using ok_shut [of _ "pl_slots p"] assms False by (simp add: slots_inv_def holders_def refs_def)
  with False show ?thesis by (simp add: pool_close_def)
qed (simp add: pool_close_def assms)

lemma fill_inv: "slots_inv p \<Longrightarrow> slots_inv ((start_create cid None ^^ n) p)"
  by (induction n) (simp_all add: start_inv)

lemma step_slots: "pool_step p q \<Longrightarrow> slots_inv p \<Longrightarrow> accounted p \<Longrightarrow> slots_inv q"
proof (induction rule: pool_step.induct)
  case (step_sweep p now)
  have "distinct (rev (pl_slots p))" using step_sweep.prems(1) by (simp add: slots_inv_def slots_ok_def)
  with sweep_inv [OF step_sweep.prems(1), of "rev (pl_slots p)" now] step_sweep.prems(1) show ?case
    by (simp add: maintain_sweep_def)
next
  case (step_fill p cl)
  then show ?case by (simp add: maintain_fill_def fill_inv split: option.splits)
qed (simp_all add: acquire_inv done_inv failed_inv created_inv release_inv reset_inv close_inv)

lemma reachable_slots: "pool_reachable classes p \<Longrightarrow> slots_inv p"
proof (induction rule: pool_reachable.induct)
  case pool_start
  show ?case by (simp add: slots_inv_def slots_ok_def new_pool_def holders_def refs_def held_def)
next
  case (pool_next p q)
  then show ?case using step_slots reachable_accounted by blast
qed

subsection \<open>The bound on sandboxes\<close>

definition load :: "pool_world \<Rightarrow> string \<Rightarrow> nat" where
  "load p cid = totalCount p cid + in_flight p cid"

lemma slot_class_primitive [simp]:
  "slot_class (set_slot i st u p) j = slot_class p j" "slot_class (reject c e p) j = slot_class p j"
  "slot_class (finish_task t p) j = slot_class p j" "slot_class (add_task t p) j = slot_class p j"
  "slot_class (set_waiters cid cs p) j = slot_class p j" "slot_class (rejectWaiters cid e p) j = slot_class p j"
  "slot_class (end_creating cid p) j = slot_class p j" "slot_class (destroy_slot i p) j = slot_class p j"
  "slot_class (reject_owner owner e p) j = slot_class p j"
  by (simp_all add: slot_class_def pool_primitives set_waiters_def rejectWaiters_def reject_owner_def Let_def split: option.splits)

lemma total_primitive [simp]:
  "totalCount (set_slot i st u p) cid = totalCount p cid" "totalCount (reject c e p) cid = totalCount p cid"
  "totalCount (finish_task t p) cid = totalCount p cid" "totalCount (add_task t p) cid = totalCount p cid"
  "totalCount (set_waiters k cs p) cid = totalCount p cid" "totalCount (rejectWaiters k e p) cid = totalCount p cid"
  "totalCount (end_creating k p) cid = totalCount p cid" "totalCount (reject_owner owner e p) cid = totalCount p cid"
  "totalCount (p\<lparr>pw_created := rs\<rparr>) cid = totalCount p cid" "totalCount (p\<lparr>pw_destroyed := ds\<rparr>) cid = totalCount p cid"
  "totalCount (p\<lparr>pw_callers := xs\<rparr>) cid = totalCount p cid" "totalCount (p\<lparr>pl_creating := n\<rparr>) cid = totalCount p cid"
  "totalCount (p\<lparr>pw_leases := l\<rparr>) cid = totalCount p cid"
  by (simp_all add: totalCount_def)
    (simp_all add: slot_class_def pool_primitives set_waiters_def rejectWaiters_def reject_owner_def Let_def split: option.splits)

lemma total_give [simp]: "totalCount (give now i c p) cid = totalCount p cid"
  by (auto simp: give_def leaseSlot_def)

lemma total_serve [simp]: "totalCount (snd (serveWaiter now i p)) cid = totalCount p cid"
  by (auto simp: serveWaiter_def leaseSlot_def split: list.splits)

lemma total_destroy: "totalCount (destroy_slot i p) cid \<le> totalCount p cid"
proof -
  have "length (filter P (set_delete i xs)) \<le> length (filter P xs)" for P :: "string \<Rightarrow> bool" and xs
    by (induction xs) (auto simp: set_delete_def)
  then show ?thesis by (simp add: totalCount_def) (simp add: destroy_slot_def)
qed

lemma total_destroys: "totalCount (foldr destroy_slot is p) cid \<le> totalCount p cid"
  by (induction "is") (auto intro: le_trans [OF total_destroy])

lemma total_sweep: "totalCount (foldr (sweep_slot now) is p) cid \<le> totalCount p cid"
proof (induction "is")
  case (Cons i "is")
  have "totalCount (sweep_slot now i q) cid \<le> totalCount q cid" for q
    by (simp add: sweep_slot_def Let_def total_destroy split: option.splits)
  with Cons show ?case by (auto intro: le_trans)
qed simp

lemma total_add:
  assumes "slots_inv p" and "si_id sandbox \<notin> set (pw_created p)"
  shows "totalCount (add_slot now cl sandbox p) cid = totalCount p cid + (if rc_id cl = cid then 1 else 0)"
proof -
  have "si_id sandbox \<notin> set (pl_slots p)" using assms by (auto simp: slots_inv_def slots_ok_def)
  moreover from this have "filter (\<lambda>i. slot_class (add_slot now cl sandbox p) i = cid) (pl_slots p) = filter (\<lambda>i. slot_class p i = cid) (pl_slots p)"
    by (intro filter_cong refl) (auto simp: slot_class_def add_slot_def)
  ultimately show ?thesis by (simp add: totalCount_def) (simp add: slot_class_def add_slot_def set_add_def)
qed

lemma flight_tasks: "in_flight p cid = length (filter (creates cid) (pw_tasks p))"
  by (simp add: in_flight_def)

lemma load_failed:
  "Creating k owner \<in> set (pw_tasks p) \<Longrightarrow> load (create_failed k owner e p) cid \<le> load p cid"
  using filter_remove [of "Creating k owner" "pw_tasks p" "creates cid"] by (simp add: load_def create_failed_def flight_tasks)

lemma load_done:
  assumes inv: "slots_inv p" and task: "Creating (rc_id cl) owner \<in> set (pw_tasks p)" and new: "si_id sandbox \<notin> set (pw_created p)"
  shows "load (create_done now cl owner sandbox p) cid \<le> load p cid"
proof (cases "pl_closed p")
  case True
  then show ?thesis using load_failed [of "rc_id cl" owner "p\<lparr>pw_created := _, pw_destroyed := _\<rparr>"] task
    by (simp add: create_done_def load_def flight_tasks)
next
  case False
  let ?p = "p\<lparr>pw_created := pw_created p @ [si_id sandbox]\<rparr>" and ?t = "Creating (rc_id cl) owner"
  have "totalCount (add_slot now cl sandbox (finish_task ?t ?p)) cid = totalCount (add_slot now cl sandbox (finish_task ?t p)) cid"
    by (simp add: totalCount_def slot_class_def add_slot_def finish_task_def)
  also have "\<dots> = totalCount p cid + (if rc_id cl = cid then 1 else 0)"
    using total_add [OF finish_other [OF inv task]] new by simp
  finally show ?thesis
    using False filter_remove [OF task, of "creates cid"]
    by (cases owner) (auto simp: create_done_def load_def flight_tasks Let_def)
qed

lemma load_fill_none: "wp_minReady policy = 0 \<Longrightarrow> rc_warmPool cl = Some policy \<Longrightarrow> maintain_fill cl p = p"
  by (simp add: maintain_fill_def)

lemma load_fill_other: "rc_id cl \<noteq> cid \<Longrightarrow> load (maintain_fill cl p) cid = load p cid"
proof -
  assume "rc_id cl \<noteq> cid"
  then have "load ((start_create (rc_id cl) None ^^ n) q) cid = load q cid" for n q
    by (induction n) (simp_all add: start_create_def load_def flight_tasks)
  then show ?thesis by (simp add: maintain_fill_def split: option.splits)
qed

lemma load_release: "load (lease_release c destroy p) cid \<le> load p cid"
  by (auto simp: lease_release_def load_def flight_tasks Let_def split: option.splits bool.splits intro: le_trans [OF total_destroy])

lemma load_reset: "load (reset_done now c i ok p) cid \<le> load p cid"
proof -
  let ?p = "finish_task (Resetting c i) p"
  obtain b q where served: "serveWaiter now i (set_slot i SlotReady now ?p) = (b, q)" by (cases "serveWaiter now i (set_slot i SlotReady now ?p)")
  have q: "totalCount q cid = totalCount p cid" "pw_tasks q = pw_tasks ?p"
    using total_serve [of now i "set_slot i SlotReady now ?p" cid] serve_tasks(2) [of now i "set_slot i SlotReady now ?p"] served by simp_all
  show ?thesis
    using total_destroy [of i ?p cid] total_destroy [of i q cid] q served
    by (cases b) (auto simp: reset_done_def load_def flight_tasks Let_def filter_remove_other split: option.splits)
qed

lemma load_acquire:
  assumes creating_counted: "creating_counted p" and known: "\<And>k c. js_get (pl_classes p) k = Some c \<Longrightarrow> rc_id c = k"
    and cl: "js_get (pl_classes p) cid = Some cl" "rc_warmPool cl = Some policy" and bound: "load p cid \<le> wp_maxTotal policy"
  shows "load (pool_acquire now c k p) cid \<le> wp_maxTotal policy"
proof -
  let ?p = "p\<lparr>pw_callers := pw_callers p @ [c]\<rparr>"
  have same: "load ?p cid = load p cid" by (simp add: load_def flight_tasks)
  have start: "load (start_create (rc_id c') (Some c) ?p) cid \<le> wp_maxTotal policy"
    if "js_get (pl_classes p) k = Some c'" and "has_room ?p k c'" and "\<not> pl_closed p" for c'
  proof (cases "k = cid")
    case True
    with that cl known creating_counted have "load p cid < wp_maxTotal policy"
      by (simp add: has_room_def load_def creating_counted_def creatingCount_def)
    with True that cl known [OF cl(1)] show ?thesis by (simp add: start_create_def load_def flight_tasks)
  next
    case False
    with that known [OF that(1)] bound show ?thesis by (simp add: start_create_def load_def flight_tasks)
  qed
  show ?thesis
    using start bound same
    by (auto simp: pool_acquire_def load_def flight_tasks Let_def split: option.splits)
qed

lemma classes_primitive [simp]:
  "pl_classes (set_slot i st u p) = pl_classes p" "pl_classes (destroy_slot i p) = pl_classes p"
  "pl_classes (end_creating cid p) = pl_classes p" "pl_classes (add_slot now cl sb p) = pl_classes p"
  "pl_classes (reject c e p) = pl_classes p" "pl_classes (add_task t p) = pl_classes p" "pl_classes (finish_task t p) = pl_classes p"
  "pl_classes (set_waiters cid cs p) = pl_classes p" "pl_classes (rejectWaiters cid e p) = pl_classes p"
  "pl_classes (reject_owner owner e p) = pl_classes p" "pl_classes (start_create cid owner p) = pl_classes p"
  by (simp_all add: pool_primitives set_waiters_def rejectWaiters_def reject_owner_def start_create_def Let_def split: option.splits)

lemma classes_give [simp]: "pl_classes (give now i c p) = pl_classes p"
  by (auto simp: give_def leaseSlot_def)

lemma classes_serve [simp]: "pl_classes (snd (serveWaiter now i p)) = pl_classes p"
  by (auto simp: serveWaiter_def leaseSlot_def split: list.splits)

lemma classes_folds [simp]:
  "pl_classes (foldr destroy_slot is p) = pl_classes p" "pl_classes (foldr (sweep_slot now) is p) = pl_classes p"
  "pl_classes ((start_create cid None ^^ n) p) = pl_classes p"
  by (induction "is") (simp_all add: sweep_slot_def Let_def split: option.splits, induction n, simp_all)

lemma classes_reset: "pl_classes (reset_done now c i ok p) = pl_classes p"
proof -
  have "pl_classes q = pl_classes r" if "serveWaiter now i r = (b, q)" for q r b using classes_serve [of now i r] that by simp
  then show ?thesis
    by (auto simp: reset_done_def Let_def split: prod.splits bool.splits option.splits)
qed

lemma step_classes: "pool_step p q \<Longrightarrow> pl_classes q = pl_classes p"
  by (induction rule: pool_step.induct)
    (simp_all add: pool_acquire_def create_done_def create_failed_def acquire_created_def lease_release_def pool_close_def
      maintain_sweep_def maintain_fill_def classes_reset Let_def split: option.splits bool.splits)

lemma reachable_classes: "pool_reachable classes p \<Longrightarrow> pl_classes p = resourceClassMap classes"
  by (induction rule: pool_reachable.induct) (simp_all add: step_classes, simp add: new_pool_def)

lemma load_close: "load (pool_close p) cid \<le> load p cid"
proof -
  let ?p = "p\<lparr>pl_closed := True, pw_errors := pw_errors p @ map (\<lambda>c. (c, closed_error)) (concat (js_values (pl_waiters p))), pl_waiters := []\<rparr>"
  have "totalCount ?p cid = totalCount p cid" by (simp add: totalCount_def slot_class_def)
  with total_destroys [of "rev (pl_slots p)" ?p cid] show ?thesis by (simp add: pool_close_def load_def flight_tasks)
qed

lemma step_load:
  assumes "pool_step p q" and inv: "slots_inv p" "creating_counted p" and known: "\<And>k c. js_get (pl_classes p) k = Some c \<Longrightarrow> rc_id c = k"
    and cl: "js_get (pl_classes p) cid = Some cl" "rc_warmPool cl = Some policy" "wp_minReady policy = 0"
    and bound: "load p cid \<le> wp_maxTotal policy"
  shows "load q cid \<le> wp_maxTotal policy"
  using assms(1)
proof cases
  case (step_acquire caller now k)
  then show ?thesis using load_acquire [OF inv(2) known cl(1,2) bound] by simp
next
  case (step_created c owner sandbox now)
  then show ?thesis using load_done [OF inv(1)] bound le_trans by blast
next
  case (step_failed k owner e)
  then show ?thesis using load_failed bound le_trans by blast
next
  case (step_own caller i now)
  then show ?thesis using bound by (simp add: acquire_created_def load_def flight_tasks filter_remove_other)
next
  case (step_release caller destroy)
  then show ?thesis using load_release bound le_trans by blast
next
  case (step_reset caller i now ok)
  then show ?thesis using load_reset bound le_trans by blast
next
  case step_close
  then show ?thesis using load_close bound le_trans by blast
next
  case (step_sweep now)
  then show ?thesis
    using bound total_sweep [of now "rev (pl_slots p)" p cid] by (auto simp: maintain_sweep_def load_def flight_tasks)
next
  case (step_fill c)
  show ?thesis
  proof (cases "rc_id c = cid")
    case True
    with step_fill cl have "c = cl" by simp
    with step_fill load_fill_none [OF cl(3,2)] bound show ?thesis by simp
  next
    case False
    with step_fill load_fill_other bound show ?thesis by simp
  qed
qed

lemma reachable_load:
  assumes "pool_reachable classes p" and cl: "js_get (resourceClassMap classes) cid = Some cl" "rc_warmPool cl = Some policy" "wp_minReady policy = 0"
  shows "load p cid \<le> wp_maxTotal policy"
  using assms(1)
proof (induction rule: pool_reachable.induct)
  case pool_start
  show ?case by (simp add: load_def totalCount_def in_flight_def new_pool_def)
next
  case (pool_next p q)
  note reach = pool_next.hyps(1)
  have "rc_id c = k" if "js_get (pl_classes p) k = Some c" for k c
    using that unfolding reachable_classes [OF reach] by (rule resourceClassMap_id [THEN conjunct1])
  moreover have "js_get (pl_classes p) cid = Some cl" using cl(1) by (simp only: reachable_classes [OF reach])
  ultimately show ?case
    by (rule step_load [OF pool_next.hyps(2) reachable_slots [OF reach] reachable_counted [OF reach] _ _ cl(2,3) pool_next.IH])
qed

text \<open>A closed pool stays closed and has no queue.\<close>

definition drained :: "pool_world \<Rightarrow> bool" where
  "drained p \<longleftrightarrow> (pl_closed p \<longrightarrow> pl_waiters p = [])"

lemma closed_primitive [simp]:
  "pl_closed (destroy_slot i p) = pl_closed p" "pl_closed (add_slot now cl sb p) = pl_closed p" "pl_closed (add_task t p) = pl_closed p"
  "pl_closed (set_waiters cid cs p) = pl_closed p" "pl_closed (rejectWaiters cid e p) = pl_closed p"
  "pl_closed (reject_owner owner e p) = pl_closed p" "pl_closed (start_create cid owner p) = pl_closed p"
  by (simp_all add: pool_primitives set_waiters_def rejectWaiters_def reject_owner_def start_create_def split: option.splits)

lemma closed_give [simp]: "pl_closed (give now i c p) = pl_closed p"
  by (auto simp: give_def leaseSlot_def)

lemma closed_folds [simp]:
  "pl_closed (foldr (sweep_slot now) is p) = pl_closed p" "pl_closed ((start_create cid None ^^ n) p) = pl_closed p"
  by (induction "is") (simp_all add: sweep_slot_def Let_def split: option.splits, induction n, simp_all)

lemma closed_serve: "pl_closed (snd (serveWaiter now i p)) = pl_closed p"
  by (auto simp: serveWaiter_def leaseSlot_def split: list.splits)

lemma reject_waiters_empty: "pl_waiters p = [] \<Longrightarrow> rejectWaiters cid e p = p"
  by (simp add: rejectWaiters_def)

lemma step_drained: "pool_step p q \<Longrightarrow> drained p \<Longrightarrow> drained q"
proof (induction rule: pool_step.induct)
  case (step_created cl owner p sandbox now)
  have "pl_closed (create_done now cl owner sandbox p) = pl_closed p"
    by (simp add: create_done_def create_failed_def closed_serve Let_def split: option.splits)
  with step_created show ?case
    by (auto simp: drained_def create_done_def create_failed_def reject_waiters_empty Let_def)
next
  case (step_reset caller i p now ok)
  have "pl_closed r = pl_closed q" if "serveWaiter now i q = (b, r)" for q r b using closed_serve [of now i q] that by simp
  then show ?case using step_reset
    by (auto simp: drained_def reset_done_def Let_def split: prod.splits bool.splits option.splits)
qed (auto simp: drained_def pool_acquire_def create_failed_def acquire_created_def lease_release_def pool_close_def maintain_sweep_def
    maintain_fill_def reject_waiters_empty start_create_places fill_places Let_def split: option.splits bool.splits)

lemma reachable_drained: "pool_reachable classes p \<Longrightarrow> drained p"
  by (induction rule: pool_reachable.induct) (simp_all add: step_drained, simp add: drained_def new_pool_def)

subsection \<open>The properties\<close>

definition unreleased :: "pool_world \<Rightarrow> (nat \<times> string) list" where
  "unreleased p = [(c, i). (c, i, r) \<leftarrow> pw_leases p, \<not> r]"

lemma unreleased_held: "mset (map snd (unreleased p)) = held (pw_leases p)"
proof -
  have "map snd [(c, i). (c, i, r) \<leftarrow> m, \<not> r] = map (fst \<circ> snd) (filter (Not \<circ> snd \<circ> snd) m)" for m :: "(nat, string \<times> bool) jsmap"
    by (induction m) auto
  then show ?thesis by (simp add: unreleased_def held_def)
qed

text \<open>
  C19: in every reachable state of the pool, under every interleaving of acquires, backend answers, releases,
  maintenance and close: no sandbox is under two unreleased leases; while the pool is open each such
  sandbox is a leased slot of the pool; and every sandbox the backend ever created is either in the
  pool or was given back to the backend to be destroyed, exactly once.
\<close>

theorem pool_lease_exclusive:
  assumes "pool_reachable classes p"
  shows "distinct (map snd (unreleased p)) \<and>
    (\<not> pl_closed p \<longrightarrow> (\<forall>(c, i) \<in> set (unreleased p). i \<in> set (pl_slots p) \<and> sl_state (pl_objs p i) = SlotLeased)) \<and>
    distinct (pw_destroyed p) \<and> set (pw_created p) = set (pl_slots p) \<union> set (pw_destroyed p) \<and>
    set (pl_slots p) \<inter> set (pw_destroyed p) = {}"
proof -
  have inv: "slots_inv p" by (rule reachable_slots [OF assms])
  have "count (mset (map snd (unreleased p))) i \<le> 1" for i
  proof -
    have "count (held (pw_leases p)) i \<le> count (holders p) i" by (simp add: holders_def)
    also have "\<dots> \<le> 1" using inv by (simp add: slots_inv_def slots_ok_def)
    finally show ?thesis by (simp only: unreleased_held)
  qed
  then have "distinct (map snd (unreleased p))" by (rule distinct_if_once)
  moreover have "i \<in># holders p" if "(c, i) \<in> set (unreleased p)" for c i
  proof -
    have "i \<in># mset (map snd (unreleased p))" using that by force
    then show ?thesis by (simp only: unreleased_held) (simp add: holders_def)
  qed
  ultimately show ?thesis using inv by (fastforce simp: slots_inv_def slots_ok_def)
qed

text \<open>
  Closing the pool. In every reachable state of a closed pool no slot is left, nobody waits, every sandbox
  that was created has been given back to the backend, and every caller of acquire has its lease or its
  error or still runs; a further acquire gets the error that the pool is closed and changes nothing else.
\<close>

theorem pool_closed_drained:
  assumes "pool_reachable classes p" and "pl_closed p"
  shows "pl_slots p = [] \<and> pl_waiters p = [] \<and> set (pw_created p) = set (pw_destroyed p) \<and>
    mset (pw_callers p) = owners (pw_tasks p) + mset (map fst (pw_leases p)) + mset (map fst (pw_errors p)) \<and>
    pool_acquire now caller cid p = p\<lparr>pw_callers := pw_callers p @ [caller], pw_errors := pw_errors p @ [(caller, closed_error)]\<rparr>"
proof -
  have "pl_waiters p = []" using reachable_drained [OF assms(1)] assms(2) by (simp add: drained_def)
  moreover from this have "mset (pw_callers p) = owners (pw_tasks p) + mset (map fst (pw_leases p)) + mset (map fst (pw_errors p))"
    using reachable_accounted [OF assms(1)] by (simp add: accounted_def places_def)
  ultimately show ?thesis
    using reachable_slots [OF assms(1)] assms(2) by (simp add: slots_inv_def slots_ok_def pool_acquire_def reject_def)
qed

text \<open>
  The pool's limit. For a class whose warm pool keeps nothing ready of itself (\<^verbatim>\<open>minReady\<close> 0, as the shipped
  heavy class), the slots of the class and the sandboxes being created for it never exceed \<^verbatim>\<open>maxTotal\<close>.
\<close>

theorem pool_max_total:
  assumes "pool_reachable classes p" and "js_get (resourceClassMap classes) cid = Some cl"
    and "rc_warmPool cl = Some policy" and "wp_minReady policy = 0"
  shows "totalCount p cid + creatingCount p cid \<le> wp_maxTotal policy"
  using reachable_load [OF assms] reachable_counted [OF assms(1)] by (simp add: load_def creating_counted_def)

subsection \<open>Concrete runs\<close>

definition sample_pool_class :: "nat \<Rightarrow> KubernetesResourceClass" where
  "sample_pool_class minReady =
     sandbox_heavy\<lparr>rc_warmPool := Some \<lparr>wp_minReady = minReady, wp_maxReady = 1, wp_maxTotal = 1, wp_idleTtlMs = 1000\<rparr>\<rparr>"

definition sample_sandbox :: "string \<Rightarrow> SandboxIdentity" where
  "sample_sandbox i = \<lparr>si_id = i, si_namespace = ''ns'', si_podName = i, si_resourceClassId = ''sandbox-heavy'', si_createdAt = 0\<rparr>"

text \<open>A sandbox created for caller 0, then leased to it; then a second caller asks.\<close>

definition run_created :: "nat \<Rightarrow> pool_world" where
  "run_created minReady =
     create_done 0 (sample_pool_class minReady) (Some 0) (sample_sandbox ''s'') (pool_acquire 0 0 ''sandbox-heavy'' (new_pool [sample_pool_class minReady]))"

definition run_leased :: "nat \<Rightarrow> pool_world" where
  "run_leased minReady = acquire_created 0 0 ''s'' (run_created minReady)"

definition run_waiting :: pool_world where
  "run_waiting = pool_acquire 0 1 ''sandbox-heavy'' (run_leased 0)"

lemma sample_class_id: "rc_id (sample_pool_class m) = ''sandbox-heavy''"
  by (simp add: sample_pool_class_def class_defs)

lemma sample_class_known: "js_get (resourceClassMap [sample_pool_class m]) ''sandbox-heavy'' = Some (sample_pool_class m)"
  by (simp add: resourceClassMap_def sample_class_id)

lemma sample_class_policy:
  "rc_warmPool (sample_pool_class m) = Some \<lparr>wp_minReady = m, wp_maxReady = 1, wp_maxTotal = 1, wp_idleTtlMs = 1000\<rparr>"
  by (simp add: sample_pool_class_def)

lemmas run_defs = pool_acquire_def new_pool_def has_room_def totalCount_def creatingCount_def start_create_def add_task_def
  create_done_def add_slot_def finish_task_def end_creating_def acquire_created_def give_def leaseSlot_def set_slot_def
  sample_class_id sample_class_known sample_class_policy sample_sandbox_def set_add_def Let_def in_state_def slot_class_def

lemma created_reachable: "pool_reachable [sample_pool_class m] (run_created m)"
  unfolding run_created_def
  by (rule pool_next [OF pool_next [OF pool_start step_acquire] step_created]) (simp_all add: run_defs)

lemma leased_reachable: "pool_reachable [sample_pool_class m] (run_leased m)"
  unfolding run_leased_def
  by (rule pool_next [OF created_reachable step_own]) (simp add: run_created_def run_defs)

lemma waiting_reachable: "pool_reachable [sample_pool_class 0] run_waiting"
  unfolding run_waiting_def
  by (rule pool_next [OF leased_reachable step_acquire]) (simp add: run_leased_def run_created_def run_defs)

theorem pool_lease_exclusive_witness:
  "unreleased run_waiting = [(0, ''s'')] \<and> pl_slots run_waiting = [''s''] \<and> sl_state (pl_objs run_waiting ''s'') = SlotLeased"
proof -
  have leases: "unreleased run_waiting = [(0, ''s'')]" and "\<not> pl_closed run_waiting" and slots: "pl_slots run_waiting = [''s'']"
    by (simp_all add: unreleased_def run_waiting_def run_leased_def run_created_def set_waiters_def run_defs)
  with pool_lease_exclusive [OF waiting_reachable] show ?thesis by simp
qed

theorem pool_closed_drained_witness:
  "let p = pool_close run_waiting in pl_slots p = [] \<and> pl_waiters p = [] \<and> pw_destroyed p = [''s''] \<and>
     pw_errors p = [(1, closed_error)] \<and> snd (last (pw_errors (pool_acquire 0 2 ''sandbox-heavy'' p))) = closed_error"
proof -
  have reach: "pool_reachable [sample_pool_class 0] (pool_close run_waiting)" by (rule pool_next [OF waiting_reachable step_close])
  have run: "pl_closed (pool_close run_waiting)" "pw_destroyed (pool_close run_waiting) = [''s'']" "pw_errors (pool_close run_waiting) = [(1, closed_error)]"
    by (simp_all add: pool_close_def destroy_slot_def js_values_def run_waiting_def run_leased_def run_created_def set_waiters_def run_defs)
  show ?thesis using pool_closed_drained [OF reach run(1), of 0 2 "''sandbox-heavy''"] run(2,3) by (simp add: Let_def)
qed

theorem pool_max_total_witness: "totalCount run_waiting ''sandbox-heavy'' + creatingCount run_waiting ''sandbox-heavy'' \<le> 1"
  using pool_max_total [OF waiting_reachable sample_class_known sample_class_policy] by simp

subsection \<open>Where the pool falls short\<close>

text \<open>
  Between the creation of its sandbox and its own continuation an acquire does not own the slot, which is
  ready in the pool's map: another acquire takes it, and the first one fails.
\<close>

lemma direct_slot_taken:
  "\<exists>p. pool_reachable [sample_pool_class 0] p \<and> pw_errors p = [(0, ''Sandbox s is not ready'')] \<and> unreleased p = [(1, ''s'')]"
proof (intro exI conjI)
  let ?p = "pool_acquire 0 1 ''sandbox-heavy'' (run_created 0)"
  have "pool_reachable [sample_pool_class 0] ?p"
    by (rule pool_next [OF created_reachable step_acquire]) (simp add: run_created_def run_defs)
  then show "pool_reachable [sample_pool_class 0] (acquire_created 0 0 ''s'' ?p)"
    by (rule pool_next [OF _ step_own]) (simp add: run_created_def run_defs)
qed (simp_all add: unreleased_def run_created_def reject_def run_defs)

text \<open>Maintenance looks at \<^verbatim>\<open>minReady\<close> only and creates sandboxes beyond \<^verbatim>\<open>maxTotal\<close>.\<close>

lemma maintain_exceeds_max_total:
  "\<exists>p. pool_reachable [sample_pool_class 1] p \<and> totalCount p ''sandbox-heavy'' + creatingCount p ''sandbox-heavy'' = 2"
proof (intro exI conjI)
  show "pool_reachable [sample_pool_class 1] (maintain_fill (sample_pool_class 1) (run_leased 1))"
    by (rule pool_next [OF leased_reachable step_fill]) (simp add: run_leased_def run_created_def run_defs)
qed (simp add: maintain_fill_def readyCount_def run_leased_def run_created_def run_defs)

text \<open>
  A release that destroys its sandbox does not look at the queue: the waiter stays queued though no sandbox
  of the class is left, and maintenance of a class that keeps nothing ready does not serve it either.
\<close>

lemma destroy_strands_waiter:
  "let p = lease_release 0 True run_waiting in
     pool_reachable [sample_pool_class 0] p \<and> pl_slots p = [] \<and> pw_tasks p = [] \<and> js_get (pl_waiters p) ''sandbox-heavy'' = Some [1] \<and>
     maintain_fill (sample_pool_class 0) (maintain_sweep now p) = p"
proof -
  have "pool_reachable [sample_pool_class 0] (lease_release 0 True run_waiting)" by (rule pool_next [OF waiting_reachable step_release])
  moreover have "maintain_fill (sample_pool_class 0) p = p" for p by (rule load_fill_none [OF _ sample_class_policy]) simp
  ultimately show ?thesis
    by (simp add: lease_release_def destroy_slot_def set_delete_def maintain_sweep_def run_waiting_def run_leased_def run_created_def set_waiters_def run_defs)
qed

end
