(* ===== verification/Manifests.thy ===== *)
theory Manifests
  imports Resource_Class Json "HOL-Library.Char_ord"
begin

text \<open>
  The Kubernetes objects of sandboxes and project cells (\<^verbatim>\<open>src/src/execution/kubernetes/manifests.ts\<close>), as JSON.
  A member whose value is \<^verbatim>\<open>undefined\<close> is not sent, so the builders leave it out. The second half says what
  a network policy built here lets through, by the rules of \<^verbatim>\<open>networking.k8s.io/v1\<close>.
\<close>

subsection \<open>Objects\<close>

definition present :: "(string \<times> json option) list \<Rightarrow> json" where
  "present members = JObj [(k, v). (k, Some v) \<leftarrow> members]"

definition js_labels :: "labels \<Rightarrow> json" where
  "js_labels ls = JObj (map (\<lambda>(k, v). (k, JStr v)) ls)"

text \<open>Object spread: later members replace earlier ones in place.\<close>

definition spread :: "labels \<Rightarrow> labels \<Rightarrow> labels" where
  "spread base extra = foldl (\<lambda>m (k, v). js_set k v m) base extra"

definition truthy_text :: "string option \<Rightarrow> string option" where
  "truthy_text s = (if s = Some [] then None else s)"

text \<open>The white space of \<^verbatim>\<open>trim\<close> and \<^verbatim>\<open>\s\<close>, on ASCII text.\<close>

definition is_space :: "char \<Rightarrow> bool" where
  "is_space c \<longleftrightarrow> c \<in> {CHR '' '', CHR 0x09, CHR 0x0A, CHR 0x0B, CHR 0x0C, CHR 0x0D}"

definition js_trim :: "string \<Rightarrow> string" where
  "js_trim s = rev (dropWhile is_space (rev (dropWhile is_space s)))"

definition q_text :: "string option \<Rightarrow> string option" where
  "q_text value = (case value of None \<Rightarrow> None | Some s \<Rightarrow> truthy_text (Some (js_trim s)))"

subsection \<open>Names\<close>

definition alnum :: "char \<Rightarrow> bool" where
  "alnum c \<longleftrightarrow> CHR ''a'' \<le> c \<and> c \<le> CHR ''z'' \<or> CHR ''0'' \<le> c \<and> c \<le> CHR ''9''"

definition name_char :: "char \<Rightarrow> bool" where
  "name_char c \<longleftrightarrow> alnum c \<or> c = CHR ''-''"

definition DNS1123_LABEL :: "string \<Rightarrow> bool" where
  "DNS1123_LABEL s \<longleftrightarrow> s \<noteq> [] \<and> alnum (hd s) \<and> alnum (last s) \<and> list_all name_char s"

definition assertValidNamespace :: "string \<Rightarrow> string + string" where
  "assertValidNamespace namespace =
     (if length namespace = 0 \<or> length namespace > 63 \<or> \<not> DNS1123_LABEL namespace
      then Inl (''Invalid Kubernetes namespace name: '' @ json_quote namespace @ '' (expected a DNS-1123 label of at most 63 characters)'')
      else Inr namespace)"

definition kube_name :: "string \<Rightarrow> string" where
  "kube_name s = take 63 (map (\<lambda>c. if name_char c then c else CHR ''-'') (map to_lower s))"

subsection \<open>Sandbox pods\<close>

abbreviation LABEL_MANAGED :: string where "LABEL_MANAGED \<equiv> ''synth.openai.dev/managed''"
abbreviation LABEL_CLASS :: string where "LABEL_CLASS \<equiv> ''synth.openai.dev/resource-class''"
abbreviation LABEL_SANDBOX :: string where "LABEL_SANDBOX \<equiv> ''synth.openai.dev/sandbox''"
abbreviation LABEL_CELL :: string where "LABEL_CELL \<equiv> ''synth.openai.dev/project-cell''"

definition sandboxLabels :: "string \<Rightarrow> KubernetesResourceClass \<Rightarrow> labels" where
  "sandboxLabels i resourceClass =
     spread [(LABEL_MANAGED, ''true''), (LABEL_CLASS, rc_id resourceClass), (LABEL_SANDBOX, i),
             (''app.kubernetes.io/name'', ''synth-executor'')]
       (opt_or (rc_labels resourceClass) [])"

definition pod_limits :: "ResourceQuantitySet \<Rightarrow> json" where
  "pod_limits r =
     present [(''memory'', Some (JStr (rq_memoryLimit r))),
              (''cpu'', if q_text (rq_cpuLimit r) = None then None else map_option JStr (rq_cpuLimit r)),
              (''ephemeral-storage'',
                 if q_text (rq_ephemeralStorageLimit r) = None then None else map_option JStr (rq_ephemeralStorageLimit r))]"

definition pod_requests :: "ResourceQuantitySet \<Rightarrow> json" where
  "pod_requests r =
     present [(''cpu'', Some (JStr (rq_cpuRequest r))), (''memory'', Some (JStr (rq_memoryRequest r))),
              (''ephemeral-storage'',
                 if q_text (rq_ephemeralStorageRequest r) = None then None else map_option JStr (rq_ephemeralStorageRequest r))]"

definition seccomp_default :: json where
  "seccomp_default = JObj [(''type'', JStr ''RuntimeDefault'')]"

definition empty_dir :: "string \<Rightarrow> WorkspaceMedium option \<Rightarrow> string option \<Rightarrow> json" where
  "empty_dir volume medium limit =
     JObj [(''name'', JStr volume),
           (''emptyDir'', present [(''medium'', if medium = Some MediumMemory then Some (JStr ''Memory'') else None),
                                  (''sizeLimit'', map_option JStr (truthy_text limit))])]"

definition env_list :: "labels option \<Rightarrow> json" where
  "env_list env = JArr (map (\<lambda>(k, v). JObj [(''name'', JStr k), (''value'', JStr v)]) (opt_or env []))"

definition js_strings :: "string list \<Rightarrow> json" where
  "js_strings xs = JArr (map JStr xs)"

definition executor_container :: "KubernetesResourceClass \<Rightarrow> json" where
  "executor_container resourceClass =
     present
       [(''name'', Some (JStr ''executor'')), (''image'', Some (JStr (rc_image resourceClass))),
        (''imagePullPolicy'', Some (JStr ''IfNotPresent'')),
        (''command'', map_option js_strings (rc_command resourceClass)), (''args'', map_option js_strings (rc_args resourceClass)),
        (''workingDir'', Some (JStr ''/workspace'')), (''env'', Some (env_list (rc_env resourceClass))),
        (''resources'', Some (JObj [(''requests'', pod_requests (rc_resources resourceClass)), (''limits'', pod_limits (rc_resources resourceClass))])),
        (''securityContext'', Some (JObj
          [(''privileged'', JBool False), (''allowPrivilegeEscalation'', JBool False), (''readOnlyRootFilesystem'', JBool True),
           (''runAsNonRoot'', JBool True), (''runAsUser'', JNum 65532), (''runAsGroup'', JNum 65532),
           (''capabilities'', JObj [(''drop'', js_strings [''ALL''])]), (''seccompProfile'', seccomp_default)])),
        (''volumeMounts'', Some (JArr
          [JObj [(''name'', JStr ''workspace''), (''mountPath'', JStr ''/workspace'')],
           JObj [(''name'', JStr ''tmp''), (''mountPath'', JStr ''/tmp'')]]))]"

definition sandbox_pod_spec :: "KubernetesResourceClass \<Rightarrow> json" where
  "sandbox_pod_spec resourceClass =
     present
         [(''restartPolicy'', Some (JStr ''Never'')),
          (''runtimeClassName'', map_option JStr (truthy_text (rc_runtimeClassName resourceClass))),
          (''activeDeadlineSeconds'', Some (JNum (rc_activeDeadlineSeconds resourceClass))),
          (''terminationGracePeriodSeconds'', Some (JNum (rc_terminationGracePeriodSeconds resourceClass))),
          (''automountServiceAccountToken'', Some (JBool False)),
          (''hostUsers'', if rc_hostUsers resourceClass = Some False then Some (JBool False) else None),
          (''nodeSelector'', map_option js_labels (rc_nodeSelector resourceClass)),
          (''tolerations'', map_option JArr (rc_tolerations resourceClass)),
          (''securityContext'', Some (JObj
            [(''runAsNonRoot'', JBool True), (''runAsUser'', JNum 65532), (''runAsGroup'', JNum 65532), (''fsGroup'', JNum 65532),
             (''seccompProfile'', seccomp_default)])),
          (''volumes'', Some (JArr
            [empty_dir ''workspace'' (Some (rc_workspaceMedium resourceClass)) (rc_workspaceSizeLimit resourceClass),
             empty_dir ''tmp'' (rc_tmpMedium resourceClass) (rc_tmpSizeLimit resourceClass)])),
          (''containers'', Some (JArr [executor_container resourceClass]))]"

definition buildSandboxPod :: "string \<Rightarrow> string \<Rightarrow> string \<Rightarrow> KubernetesResourceClass \<Rightarrow> json" where
  "buildSandboxPod namespace podName sandboxId resourceClass =
     JObj
       [(''apiVersion'', JStr ''v1''), (''kind'', JStr ''Pod''),
        (''metadata'', JObj
          [(''namespace'', JStr namespace), (''name'', JStr podName), (''labels'', js_labels (sandboxLabels sandboxId resourceClass)),
           (''annotations'', js_labels (opt_or (rc_annotations resourceClass) []))]),
        (''spec'', sandbox_pod_spec resourceClass)]"

subsection \<open>Network policies\<close>

definition selectorExpression :: "labels option \<Rightarrow> json" where
  "selectorExpression ls = JObj [(''matchLabels'', js_labels (opt_or ls []))]"

record SandboxOwnerReference =
  or_apiVersion :: string
  or_kind :: string
  or_name :: string
  or_uid :: string

definition js_owner :: "SandboxOwnerReference \<Rightarrow> json" where
  "js_owner r = JObj [(''apiVersion'', JStr (or_apiVersion r)), (''kind'', JStr (or_kind r)), (''name'', JStr (or_name r)), (''uid'', JStr (or_uid r))]"

definition dns_ports :: json where
  "dns_ports = JArr [JObj [(''protocol'', JStr ''UDP''), (''port'', JNum 53)], JObj [(''protocol'', JStr ''TCP''), (''port'', JNum 53)]]"

definition policy_ingress :: "NetworkPolicyProfile \<Rightarrow> json list" where
  "policy_ingress profile =
     (if np_controlPlaneNamespaceSelector profile = None \<and> np_controlPlanePodSelector profile = None then []
      else [JObj [(''from'', JArr [JObj
              [(''namespaceSelector'', selectorExpression (np_controlPlaneNamespaceSelector profile)),
               (''podSelector'', selectorExpression (np_controlPlanePodSelector profile))]])]])"

definition policy_egress :: "NetworkPolicyProfile \<Rightarrow> json list" where
  "policy_egress profile =
     (if np_mode profile = NetNone then []
      else [JObj [(''to'', JArr [JObj
                    [(''namespaceSelector'', selectorExpression (np_dnsNamespaceSelector profile)),
                     (''podSelector'', selectorExpression (np_dnsPodSelector profile))]]),
                  (''ports'', dns_ports)]]) @
     (if np_mode profile = NetCluster then [JObj [(''to'', JArr [JObj [(''namespaceSelector'', JObj [])]])]] else [])"

definition network_policy :: "json \<Rightarrow> labels \<Rightarrow> json list \<Rightarrow> json list \<Rightarrow> json" where
  "network_policy metadata selected ingress egress =
     JObj
       [(''apiVersion'', JStr ''networking.k8s.io/v1''), (''kind'', JStr ''NetworkPolicy''), (''metadata'', metadata),
        (''spec'', JObj
          [(''podSelector'', JObj [(''matchLabels'', js_labels selected)]), (''policyTypes'', js_strings [''Ingress'', ''Egress'']),
           (''ingress'', JArr ingress), (''egress'', JArr egress)])]"

definition buildSandboxNetworkPolicy ::
  "string \<Rightarrow> string \<Rightarrow> string \<Rightarrow> NetworkPolicyProfile \<Rightarrow> SandboxOwnerReference option \<Rightarrow> json" where
  "buildSandboxNetworkPolicy namespace nm sandboxId profile owner =
     network_policy
       (present [(''namespace'', Some (JStr namespace)), (''name'', Some (JStr nm)),
                 (''ownerReferences'', map_option (\<lambda>r. JArr [js_owner r]) owner)])
       [(LABEL_SANDBOX, sandboxId)] (policy_ingress profile) (policy_egress profile)"

subsection \<open>Project cells\<close>

record service_resources =
  sr_cpuRequest :: "string option"
  sr_cpuLimit :: "string option"
  sr_memoryRequest :: "string option"
  sr_memoryLimit :: "string option"

record ProjectCellService =
  ps_name :: string
  ps_image :: string
  ps_ports :: "int list option"
  ps_env :: "labels option"
  ps_runtimeClassName :: "string option"
  ps_runAsUser :: "int option"
  ps_runAsGroup :: "int option"
  ps_fsGroup :: "int option"
  ps_resources :: "service_resources option"

definition buildRestrictedNamespace :: "string \<Rightarrow> labels \<Rightarrow> json" where
  "buildRestrictedNamespace namespace ls =
     JObj
       [(''apiVersion'', JStr ''v1''), (''kind'', JStr ''Namespace''),
        (''metadata'', JObj
          [(''name'', JStr namespace),
           (''labels'', js_labels (spread
             [(''pod-security.kubernetes.io/enforce'', ''restricted''), (''pod-security.kubernetes.io/audit'', ''restricted''),
              (''pod-security.kubernetes.io/warn'', ''restricted''), (LABEL_MANAGED, ''true'')] ls))])]"

definition service_pod_name :: "string \<Rightarrow> ProjectCellService \<Rightarrow> string" where
  "service_pod_name cellId service = kube_name (''cell-'' @ cellId @ ''-'' @ ps_name service)"

definition service_quantity :: "(service_resources \<Rightarrow> string option) \<Rightarrow> ProjectCellService \<Rightarrow> json option" where
  "service_quantity f service = (case ps_resources service of None \<Rightarrow> None | Some r \<Rightarrow> map_option JStr (truthy_text (f r)))"

definition service_container :: "ProjectCellService \<Rightarrow> json" where
  "service_container service =
     JObj
       [(''name'', JStr (ps_name service)), (''image'', JStr (ps_image service)), (''env'', env_list (ps_env service)),
        (''ports'', JArr (map (\<lambda>p. JObj [(''containerPort'', JNum p)]) (opt_or (ps_ports service) []))),
        (''resources'', JObj
          [(''requests'', present [(''cpu'', service_quantity sr_cpuRequest service), (''memory'', service_quantity sr_memoryRequest service)]),
           (''limits'', present [(''cpu'', service_quantity sr_cpuLimit service), (''memory'', service_quantity sr_memoryLimit service)])]),
        (''securityContext'', present
          [(''privileged'', Some (JBool False)), (''allowPrivilegeEscalation'', Some (JBool False)), (''runAsNonRoot'', Some (JBool True)),
           (''runAsUser'', map_option JNum (ps_runAsUser service)), (''runAsGroup'', map_option JNum (ps_runAsGroup service)),
           (''capabilities'', Some (JObj [(''drop'', js_strings [''ALL''])])), (''seccompProfile'', Some seccomp_default)])]"

definition service_pod_spec :: "ProjectCellService \<Rightarrow> json" where
  "service_pod_spec service =
     present
         [(''restartPolicy'', Some (JStr ''Always'')),
          (''runtimeClassName'', map_option JStr (truthy_text (ps_runtimeClassName service))),
          (''automountServiceAccountToken'', Some (JBool False)),
          (''securityContext'', Some (present
            [(''runAsNonRoot'', Some (JBool True)), (''fsGroup'', map_option JNum (ps_fsGroup service)), (''seccompProfile'', Some seccomp_default)])),
          (''containers'', Some (JArr [service_container service]))]"

definition buildProjectServicePod :: "string \<Rightarrow> string \<Rightarrow> ProjectCellService \<Rightarrow> json" where
  "buildProjectServicePod namespace cellId service =
     (let nm = service_pod_name cellId service
      in JObj
       [(''apiVersion'', JStr ''v1''), (''kind'', JStr ''Pod''),
        (''metadata'', JObj
          [(''namespace'', JStr namespace), (''name'', JStr nm),
           (''labels'', js_labels
             [(LABEL_MANAGED, ''true''), (LABEL_CELL, cellId), (''synth.openai.dev/project-service'', ps_name service),
              (''app.kubernetes.io/name'', nm)])]),
        (''spec'', service_pod_spec service)])"

definition buildProjectService :: "string \<Rightarrow> string \<Rightarrow> ProjectCellService \<Rightarrow> json option" where
  "buildProjectService namespace cellId service =
     (if opt_or (ps_ports service) [] = [] then None
      else Some (JObj
       [(''apiVersion'', JStr ''v1''), (''kind'', JStr ''Service''),
        (''metadata'', JObj
          [(''namespace'', JStr namespace), (''name'', JStr (service_pod_name cellId service)), (''labels'', js_labels [(LABEL_CELL, cellId)])]),
        (''spec'', JObj
          [(''selector'', js_labels [(LABEL_CELL, cellId), (''synth.openai.dev/project-service'', ps_name service)]),
           (''ports'', JArr (map (\<lambda>p. JObj [(''name'', JStr (''p'' @ show_int p)), (''port'', JNum p), (''targetPort'', JNum p)])
              (opt_or (ps_ports service) [])))])]))"

definition buildProjectCellNetworkPolicy :: "string \<Rightarrow> string \<Rightarrow> json" where
  "buildProjectCellNetworkPolicy namespace cellId =
     (let own = JArr [JObj [(''podSelector'', JObj [(''matchLabels'', js_labels [(LABEL_CELL, cellId)])])]]
      in network_policy
       (JObj [(''namespace'', JStr namespace), (''name'', JStr (kube_name (''cell-'' @ cellId @ ''-network'')))])
       [(LABEL_CELL, cellId)]
       [JObj [(''from'', own)]]
       [JObj [(''to'', own)],
        JObj [(''to'', JArr [JObj
                [(''namespaceSelector'', JObj [(''matchLabels'', js_labels [(''kubernetes.io/metadata.name'', ''kube-system'')])]),
                 (''podSelector'', JObj [(''matchLabels'', js_labels [(''k8s-app'', ''kube-dns'')])])]]),
              (''ports'', dns_ports)]])"

subsection \<open>What a policy lets through\<close>

text \<open>
  The rules of a network policy, on the shape built here: a selector matches when the labels have every
  pair of it, a peer without a namespace selector means the policy's own namespace, a peer without a pod
  selector means every pod, and a rule without ports means every port.
\<close>

fun member :: "string \<Rightarrow> json \<Rightarrow> json option" where
  "member k (JObj fs) = js_get fs k"
| "member k _ = None"

fun members :: "string list \<Rightarrow> json \<Rightarrow> json option" where
  "members [] j = Some j"
| "members (k # ks) j = (case member k j of None \<Rightarrow> None | Some v \<Rightarrow> members ks v)"

fun elems :: "json option \<Rightarrow> json list" where
  "elems (Some (JArr xs)) = xs"
| "elems _ = []"

definition selects :: "json \<Rightarrow> labels \<Rightarrow> bool" where
  "selects selector ls \<longleftrightarrow>
     (case member ''matchLabels'' selector of
        Some (JObj fs) \<Rightarrow> list_all (\<lambda>(k, v). map_option JStr (js_get ls k) = Some v) fs
      | _ \<Rightarrow> True)"

record kube_pod =
  kp_namespace :: string
  kp_namespaceLabels :: labels
  kp_labels :: labels

definition peer_matches :: "string \<Rightarrow> kube_pod \<Rightarrow> json \<Rightarrow> bool" where
  "peer_matches own pod peer \<longleftrightarrow>
     (case member ''namespaceSelector'' peer of None \<Rightarrow> kp_namespace pod = own | Some s \<Rightarrow> selects s (kp_namespaceLabels pod)) \<and>
     (case member ''podSelector'' peer of None \<Rightarrow> True | Some s \<Rightarrow> selects s (kp_labels pod))"

definition rule_allows :: "string \<Rightarrow> string \<Rightarrow> kube_pod \<Rightarrow> int \<Rightarrow> json \<Rightarrow> bool" where
  "rule_allows peers own pod port rule \<longleftrightarrow>
     list_ex (peer_matches own pod) (elems (member peers rule)) \<and>
     (member ''ports'' rule = None \<or> list_ex (\<lambda>p. member ''port'' p = Some (JNum port)) (elems (member ''ports'' rule)))"

definition egress_allowed :: "json \<Rightarrow> string \<Rightarrow> kube_pod \<Rightarrow> int \<Rightarrow> bool" where
  "egress_allowed policy own pod port \<longleftrightarrow> list_ex (rule_allows ''to'' own pod port) (elems (members [''spec'', ''egress''] policy))"

definition ingress_allowed :: "json \<Rightarrow> string \<Rightarrow> kube_pod \<Rightarrow> int \<Rightarrow> bool" where
  "ingress_allowed policy own pod port \<longleftrightarrow> list_ex (rule_allows ''from'' own pod port) (elems (members [''spec'', ''ingress''] policy))"

definition policy_selects :: "json \<Rightarrow> labels \<Rightarrow> bool" where
  "policy_selects policy ls \<longleftrightarrow> (case members [''spec'', ''podSelector''] policy of None \<Rightarrow> False | Some s \<Rightarrow> selects s ls)"

end
