(* ===== verification/Project_Cell.thy ===== *)
theory Project_Cell
  imports Pool Manifest_Laws
begin

text \<open>
  The manager of project cells (\<^verbatim>\<open>src/src/execution/kubernetes/project-cell.ts\<close>). The object controller and
  the sandbox backend are parameters: functions on a world \<open>'w\<close> that may fail. A cell record is an
  object a lease keeps a reference to, so records are a heap \<open>cm_recs\<close> by reference and \<open>cm_cells\<close> maps
  ids to references. The per-cell lock makes the operations on one cell atomic; operations on different
  cells touch different entries, so each operation is one step.
\<close>

record ProjectCellSpec =
  pc_id :: string
  pc_namespace :: "string option"
  pc_resourceClassId :: "string option"
  pc_services :: "ProjectCellService list option"
  pc_idleTtlMs :: "int option"

record ProjectCellHandle =
  ch_id :: string
  ch_namespace :: string
  ch_executor :: SandboxIdentity
  ch_serviceNames :: "string list"
  ch_createdAt :: int

record CellRecord =
  cr_handle :: ProjectCellHandle
  cr_leases :: nat
  cr_lastUsedAt :: int
  cr_idleTtlMs :: int

type_synonym ('w, 'a) io = "'w \<Rightarrow> (string + 'a) \<times> 'w"

record 'w cell_env =
  ce_apply :: "json \<Rightarrow> ('w, unit) io"
  ce_waitPodReady :: "string \<Rightarrow> string \<Rightarrow> ('w, unit) io"
  ce_deleteNamespace :: "string \<Rightarrow> ('w, unit) io"
  ce_create :: "KubernetesResourceClass \<Rightarrow> string \<Rightarrow> labels \<Rightarrow> ('w, SandboxIdentity) io"
  ce_destroy :: "SandboxIdentity \<Rightarrow> ('w, unit) io"

record 'w cell_manager =
  cm_cells :: "(string, nat) jsmap"
  cm_recs :: "CellRecord list"
  cm_leases :: "(nat \<times> bool) list"
  cm_world :: 'w

definition and_then :: "('w, 'a) io \<Rightarrow> ('a \<Rightarrow> ('w, 'b) io) \<Rightarrow> ('w, 'b) io" where
  "and_then m f w = (case m w of (Inl e, w') \<Rightarrow> (Inl e, w') | (Inr x, w') \<Rightarrow> f x w')"

subsection \<open>Building a cell\<close>

fun apply_services :: "'w cell_env \<Rightarrow> string \<Rightarrow> string \<Rightarrow> ProjectCellService list \<Rightarrow> string list \<Rightarrow> ('w, string list) io" where
  "apply_services env namespace i [] serviceNames = (\<lambda>w. (Inr serviceNames, w))"
| "apply_services env namespace i (service # services) serviceNames =
     and_then (ce_apply env (buildProjectServicePod namespace i service)) (\<lambda>_.
     and_then (ce_waitPodReady env namespace (service_pod_name i service)) (\<lambda>_.
       (case buildProjectService namespace i service of
          None \<Rightarrow> apply_services env namespace i services serviceNames
        | Some object \<Rightarrow>
            and_then (ce_apply env object) (\<lambda>_.
              apply_services env namespace i services (serviceNames @ [service_pod_name i service])))))"

definition cell_class :: "(string, KubernetesResourceClass) jsmap \<Rightarrow> ProjectCellSpec \<Rightarrow> string + KubernetesResourceClass" where
  "cell_class classes spec =
     (let classId = opt_or (pc_resourceClassId spec) ''project-cell''
      in case js_get classes classId of
           None \<Rightarrow> Inl (''Unknown project cell resource class: '' @ classId)
         | Some c \<Rightarrow> Inr (c\<lparr>rc_network := (rc_network c)\<lparr>np_mode := NetNone\<rparr>\<rparr>))"

text \<open>The body of the \<^verbatim>\<open>try\<close> block of \<^verbatim>\<open>#createCell\<close>, up to the registration of the cell.\<close>

definition build_cell ::
  "'w cell_env \<Rightarrow> (string, KubernetesResourceClass) jsmap \<Rightarrow> string \<Rightarrow> ProjectCellSpec \<Rightarrow> ('w, string list \<times> SandboxIdentity) io" where
  "build_cell env classes namespace spec =
     and_then (ce_apply env (buildRestrictedNamespace namespace [(LABEL_CELL, pc_id spec)])) (\<lambda>_.
     and_then (ce_apply env (buildProjectCellNetworkPolicy namespace (pc_id spec))) (\<lambda>_.
     and_then (apply_services env namespace (pc_id spec) (opt_or (pc_services spec) []) []) (\<lambda>serviceNames.
     and_then (\<lambda>w. (cell_class classes spec, w)) (\<lambda>resourceClass.
     and_then (ce_create env resourceClass namespace [(LABEL_CELL, pc_id spec)]) (\<lambda>executor w.
       (Inr (serviceNames, executor), w))))))"

definition spec_namespace :: "ProjectCellSpec \<Rightarrow> string + string" where
  "spec_namespace spec =
     (case pc_namespace spec of None \<Rightarrow> Inr (cell_namespace (pc_id spec)) | Some n \<Rightarrow> assertValidNamespace n)"

definition createCell ::
  "'w cell_env \<Rightarrow> (string, KubernetesResourceClass) jsmap \<Rightarrow> int \<Rightarrow> ProjectCellSpec \<Rightarrow> 'w cell_manager \<Rightarrow> (string + nat) \<times> 'w cell_manager" where
  "createCell env classes now spec m =
     (case spec_namespace spec of
        Inl e \<Rightarrow> (Inl e, m)
      | Inr namespace \<Rightarrow>
          (case build_cell env classes namespace spec (cm_world m) of
             (Inr (serviceNames, executor), w) \<Rightarrow>
               (let r = \<lparr>cr_handle = \<lparr>ch_id = pc_id spec, ch_namespace = namespace, ch_executor = executor, ch_serviceNames = serviceNames,
                                      ch_createdAt = now\<rparr>,
                         cr_leases = 0, cr_lastUsedAt = now, cr_idleTtlMs = opt_or (pc_idleTtlMs spec) (30 * 60000)\<rparr>
                in (Inr (length (cm_recs m)),
                    m\<lparr>cm_cells := js_set (pc_id spec) (length (cm_recs m)) (cm_cells m), cm_recs := cm_recs m @ [r], cm_world := w\<rparr>))
           | (Inl e, w) \<Rightarrow>
               (Inl e, m\<lparr>cm_world := (if pc_namespace spec = None then snd (ce_deleteNamespace env namespace w) else w)\<rparr>)))"

text \<open>\<^verbatim>\<open>#ensureLocked\<close>, with the reference of the cell's record as its result.\<close>

definition ensureLocked ::
  "'w cell_env \<Rightarrow> (string, KubernetesResourceClass) jsmap \<Rightarrow> int \<Rightarrow> ProjectCellSpec \<Rightarrow> 'w cell_manager \<Rightarrow> (string + nat) \<times> 'w cell_manager" where
  "ensureLocked env classes now spec m =
     (case js_get (cm_cells m) (pc_id spec) of Some r \<Rightarrow> (Inr r, m) | None \<Rightarrow> createCell env classes now spec m)"

definition cell_ensure ::
  "'w cell_env \<Rightarrow> (string, KubernetesResourceClass) jsmap \<Rightarrow> int \<Rightarrow> ProjectCellSpec \<Rightarrow> 'w cell_manager \<Rightarrow> (string + ProjectCellHandle) \<times> 'w cell_manager" where
  "cell_ensure env classes now spec m =
     (case ensureLocked env classes now spec m of
        (Inl e, m') \<Rightarrow> (Inl e, m')
      | (Inr r, m') \<Rightarrow> (Inr (cr_handle (cm_recs m' ! r)), m'))"

subsection \<open>Leases\<close>

definition cell_lease ::
  "'w cell_env \<Rightarrow> (string, KubernetesResourceClass) jsmap \<Rightarrow> int \<Rightarrow> ProjectCellSpec \<Rightarrow> 'w cell_manager \<Rightarrow> (string + nat) \<times> 'w cell_manager" where
  "cell_lease env classes now spec m =
     (case ensureLocked env classes now spec m of
        (Inl e, m') \<Rightarrow> (Inl e, m')
      | (Inr r, m') \<Rightarrow>
          (Inr (length (cm_leases m')),
           m'\<lparr>cm_recs := (cm_recs m')[r := (cm_recs m' ! r)\<lparr>cr_leases := cr_leases (cm_recs m' ! r) + 1, cr_lastUsedAt := now\<rparr>],
              cm_leases := cm_leases m' @ [(r, False)]\<rparr>))"

definition cell_release :: "int \<Rightarrow> nat \<Rightarrow> 'w cell_manager \<Rightarrow> 'w cell_manager" where
  "cell_release now l m =
     (if l < length (cm_leases m) \<and> \<not> snd (cm_leases m ! l)
      then (let r = fst (cm_leases m ! l)
            in m\<lparr>cm_leases := (cm_leases m)[l := (r, True)],
                 cm_recs := (cm_recs m)[r := (cm_recs m ! r)\<lparr>cr_leases := cr_leases (cm_recs m ! r) - 1, cr_lastUsedAt := now\<rparr>]\<rparr>)
      else m)"

subsection \<open>Destroying cells\<close>

definition destroyLocked :: "'w cell_env \<Rightarrow> string \<Rightarrow> 'w cell_manager \<Rightarrow> 'w cell_manager" where
  "destroyLocked env i m =
     (case js_get (cm_cells m) i of
        None \<Rightarrow> m
      | Some r \<Rightarrow>
          (let w = snd (ce_destroy env (ch_executor (cr_handle (cm_recs m ! r))) (cm_world m))
           in m\<lparr>cm_cells := js_delete i (cm_cells m),
                cm_world := snd (ce_deleteNamespace env (ch_namespace (cr_handle (cm_recs m ! r))) w)\<rparr>))"

definition reap_cell :: "'w cell_env \<Rightarrow> int \<Rightarrow> string \<Rightarrow> 'w cell_manager \<Rightarrow> 'w cell_manager" where
  "reap_cell env now i m =
     (case js_get (cm_cells m) i of
        None \<Rightarrow> m
      | Some r \<Rightarrow>
          if cr_leases (cm_recs m ! r) > 0 \<or> now - cr_lastUsedAt (cm_recs m ! r) < cr_idleTtlMs (cm_recs m ! r) then m
          else destroyLocked env i m)"

definition cell_reap :: "'w cell_env \<Rightarrow> int \<Rightarrow> 'w cell_manager \<Rightarrow> 'w cell_manager" where
  "cell_reap env now m = foldl (\<lambda>m i. reap_cell env now i m) m (js_keys (cm_cells m))"

definition new_manager :: "'w \<Rightarrow> 'w cell_manager" where
  "new_manager w = \<lparr>cm_cells = [], cm_recs = [], cm_leases = [], cm_world = w\<rparr>"

inductive cell_step :: "'w cell_env \<Rightarrow> (string, KubernetesResourceClass) jsmap \<Rightarrow> 'w cell_manager \<Rightarrow> 'w cell_manager \<Rightarrow> bool" for env classes where
  do_ensure: "cell_step env classes m (snd (cell_ensure env classes now spec m))"
| do_lease: "cell_step env classes m (snd (cell_lease env classes now spec m))"
| do_release: "cell_step env classes m (cell_release now l m)"
| do_reap: "cell_step env classes m (reap_cell env now i m)"
| do_destroy: "cell_step env classes m (destroyLocked env i m)"

inductive cell_reachable :: "'w cell_env \<Rightarrow> (string, KubernetesResourceClass) jsmap \<Rightarrow> 'w cell_manager \<Rightarrow> bool" for env classes where
  cell_start: "cell_reachable env classes (new_manager w)"
| cell_next: "cell_reachable env classes m \<Longrightarrow> cell_step env classes m m' \<Longrightarrow> cell_reachable env classes m'"

end
