(* ===== verification/Project_Cell_Laws.thy ===== *)
theory Project_Cell_Laws
  imports Project_Cell
begin

text \<open>
  The lease counts of project cells, what a failed creation leaves behind, and two ways in which a cell's
  namespace is deleted under someone else.
\<close>

subsection \<open>Lease counts\<close>

definition open_leases :: "(nat \<times> bool) list \<Rightarrow> nat \<Rightarrow> nat" where
  "open_leases leases r = length (filter (\<lambda>(r', released). r' = r \<and> \<not> released) leases)"

definition cell_inv :: "'w cell_manager \<Rightarrow> bool" where
  "cell_inv m \<longleftrightarrow>
     (\<forall>i r. js_get (cm_cells m) i = Some r \<longrightarrow> r < length (cm_recs m) \<and> ch_id (cr_handle (cm_recs m ! r)) = i) \<and>
     (\<forall>x \<in> set (cm_leases m). fst x < length (cm_recs m)) \<and>
     (\<forall>r < length (cm_recs m). cr_leases (cm_recs m ! r) = open_leases (cm_leases m) r)"

lemma open_leases_append [simp]: "open_leases (ls @ [(r, False)]) r' = open_leases ls r' + (if r' = r then 1 else 0)"
  by (simp add: open_leases_def)

lemma open_leases_none: "\<forall>x \<in> set ls. fst x < n \<Longrightarrow> open_leases ls n = 0"
  by (auto simp: open_leases_def filter_empty_conv)

lemma open_leases_release:
  "l < length ls \<Longrightarrow> ls ! l = (r, False) \<Longrightarrow> open_leases (ls[l := (r, True)]) r' = open_leases ls r' - (if r' = r then 1 else 0)"
proof (induction ls arbitrary: l)
  case (Cons x ls)
  show ?case
  proof (cases l)
    case 0
    with Cons.prems show ?thesis by (simp add: open_leases_def)
  next
    case (Suc k)
    with Cons.prems have k: "k < length ls" "ls ! k = (r, False)" by simp_all
    have "r' = r \<Longrightarrow> 0 < open_leases ls r'"
      using nth_mem [OF k(1)] k(2) by (auto simp: open_leases_def filter_empty_conv)
    with Cons.IH [OF k] Suc show ?thesis by (cases x) (auto simp: open_leases_def)
  qed
qed simp

lemma cell_ensure_inv:
  assumes "cell_inv m" and "ensureLocked env classes now spec m = (out, m')"
  shows "cell_inv m' \<and> (\<forall>r. out = Inr r \<longrightarrow> r < length (cm_recs m') \<and> js_get (cm_cells m') (pc_id spec) = Some r)"
proof (cases "js_get (cm_cells m) (pc_id spec)")
  case (Some r)
  with assms show ?thesis by (auto simp: ensureLocked_def cell_inv_def)
next
  case None
  have lease: "a < length (cm_recs m)" if "(a, b) \<in> set (cm_leases m)" for a b using assms(1) that by (force simp: cell_inv_def)
  have "cell_inv m" using assms(1) .
  moreover have "open_leases (cm_leases m) (length (cm_recs m)) = 0"
    using assms(1) by (intro open_leases_none) (auto simp: cell_inv_def)
  ultimately show ?thesis
    using assms(2) None
    by (auto simp: ensureLocked_def createCell_def cell_inv_def nth_append less_Suc_eq Let_def dest: lease split: sum.splits prod.splits if_splits)
qed

lemma cell_lease_inv: "cell_inv m \<Longrightarrow> cell_inv (snd (cell_lease env classes now spec m))"
proof -
  assume inv: "cell_inv m"
  obtain out m' where ens: "ensureLocked env classes now spec m = (out, m')" by (cases "ensureLocked env classes now spec m")
  from cell_ensure_inv [OF inv ens] show ?thesis
    by (cases out) (auto simp: cell_lease_def ens cell_inv_def nth_list_update)
qed

lemma cell_release_inv: "cell_inv m \<Longrightarrow> cell_inv (cell_release now l m)"
proof (cases "l < length (cm_leases m) \<and> \<not> snd (cm_leases m ! l)")
  case True
  assume inv: "cell_inv m"
  obtain r where lease: "cm_leases m ! l = (r, False)" using True by (cases "cm_leases m ! l") auto
  with inv True have r: "r < length (cm_recs m)" unfolding cell_inv_def using nth_mem by fastforce
  have "set ((cm_leases m)[l := (r, True)]) \<subseteq> insert (r, True) (set (cm_leases m))" by (rule set_update_subset_insert)
  with inv r lease True show ?thesis
    by (auto simp: cell_release_def cell_inv_def Let_def nth_list_update open_leases_release)
qed (auto simp: cell_release_def)

lemma cell_destroy_inv: "cell_inv m \<Longrightarrow> cell_inv (destroyLocked env i m)"
  by (auto simp: destroyLocked_def cell_inv_def Let_def split: option.splits)

lemma step_cell_inv: "cell_step env classes m m' \<Longrightarrow> cell_inv m \<Longrightarrow> cell_inv m'"
proof (induction rule: cell_step.induct)
  case (do_ensure m now spec)
  obtain out m' where ens: "ensureLocked env classes now spec m = (out, m')" by (cases "ensureLocked env classes now spec m")
  with cell_ensure_inv [OF do_ensure ens] show ?case by (cases out) (simp_all add: cell_ensure_def)
next
  case (do_reap m now i)
  then show ?case by (simp add: reap_cell_def cell_destroy_inv split: option.splits)
qed (simp_all add: cell_lease_inv cell_release_inv cell_destroy_inv)

lemma reachable_cell_inv: "cell_reachable env classes m \<Longrightarrow> cell_inv m"
  by (induction rule: cell_reachable.induct) (simp_all add: step_cell_inv, simp add: cell_inv_def new_manager_def)

lemma destroy_recs [simp]: "cm_recs (destroyLocked env i m) = cm_recs m"
  by (simp add: destroyLocked_def Let_def split: option.splits)

lemma reap_recs [simp]: "cm_recs (reap_cell env now i m) = cm_recs m"
  by (simp add: reap_cell_def split: option.splits)

lemma reap_keeps:
  assumes "js_get (cm_cells m) i = Some r"
    and "0 < cr_leases (cm_recs m ! r) \<or> now - cr_lastUsedAt (cm_recs m ! r) < cr_idleTtlMs (cm_recs m ! r)"
  shows "js_get (cm_cells (foldl (\<lambda>m i. reap_cell env now i m) m is)) i = Some r"
  using assms
proof (induction "is" arbitrary: m)
  case (Cons j "is")
  have "js_get (cm_cells (reap_cell env now j m)) i = Some r"
    using Cons.prems by (auto simp: reap_cell_def destroyLocked_def Let_def split: option.splits)
  then show ?case using Cons.IH [of "reap_cell env now j m"] Cons.prems(2) by simp
qed simp

text \<open>
  C22: reference counting of cells. In every reachable state the lease count of each registered cell is the number
  of its leases that are not released, whatever releases were repeated or came after the cell was
  replaced; and a reap at any time leaves every cell registered that has such a lease.
\<close>

theorem cell_leases_exact:
  assumes "cell_reachable env classes m" and "js_get (cm_cells m) i = Some r"
  shows "cr_leases (cm_recs m ! r) = open_leases (cm_leases m) r \<and>
    (open_leases (cm_leases m) r > 0 \<longrightarrow> js_get (cm_cells (cell_reap env now m)) i = Some r)"
proof -
  have "cell_inv m" by (rule reachable_cell_inv [OF assms(1)])
  with assms(2) have "cr_leases (cm_recs m ! r) = open_leases (cm_leases m) r" by (simp add: cell_inv_def)
  with reap_keeps [OF assms(2)] show ?thesis by (simp add: cell_reap_def)
qed

subsection \<open>Failures\<close>

text \<open>
  A creation that fails. Nothing is registered; the caller gets the error of the step that failed; what was
  applied so far is given up by deleting the namespace, after everything else, if the manager chose its
  name, and a namespace the caller named is left alone. A namespace that is not a DNS-1123 label is
  refused before anything is applied.
\<close>

theorem ensure_failure_clean:
  assumes "cell_ensure env classes now spec m = (Inl e, m')"
  shows "cm_cells m' = cm_cells m \<and> cm_recs m' = cm_recs m \<and> cm_leases m' = cm_leases m \<and>
    (case spec_namespace spec of
       Inl e' \<Rightarrow> e = e' \<and> m' = m
     | Inr n \<Rightarrow> (let (out, w) = build_cell env classes n spec (cm_world m) in
         out = Inl e \<and> cm_world m' = (if pc_namespace spec = None then snd (ce_deleteNamespace env n w) else w)))"
  using assms
  by (auto simp: cell_ensure_def ensureLocked_def createCell_def Let_def split: option.splits sum.splits prod.splits)

subsection \<open>A backend that logs its calls\<close>

definition log_call :: "string \<Rightarrow> string list \<Rightarrow> (string + unit) \<times> string list" where
  "log_call s w = (Inr (), w @ [s])"

definition log_env :: "bool \<Rightarrow> string list cell_env" where
  "log_env ok =
     \<lparr>ce_apply = (\<lambda>_. log_call ''apply''), ce_waitPodReady = (\<lambda>_ _. log_call ''wait''), ce_deleteNamespace = (\<lambda>n. log_call (''delete '' @ n)),
      ce_create = (\<lambda>_ n _ w. if ok then (Inr \<lparr>si_id = ''x'', si_namespace = n, si_podName = ''x'', si_resourceClassId = ''project-cell'', si_createdAt = 0\<rparr>, w @ [''create''])
                             else (Inl ''no capacity'', w)),
      ce_destroy = (\<lambda>_. log_call ''destroy'')\<rparr>"

definition default_classes :: "(string, KubernetesResourceClass) jsmap" where
  "default_classes = resourceClassMap DEFAULT_KUBERNETES_RESOURCE_CLASSES"

definition simple_cell :: "string \<Rightarrow> string option \<Rightarrow> ProjectCellSpec" where
  "simple_cell i n = \<lparr>pc_id = i, pc_namespace = n, pc_resourceClassId = None, pc_services = None, pc_idleTtlMs = None\<rparr>"

lemma project_cell_known: "js_get default_classes ''project-cell'' = Some project_cell"
  by (simp add: default_classes_def resourceClassMap_def DEFAULT_KUBERNETES_RESOURCE_CLASSES_def class_defs(1-5))

lemmas cell_run = cell_ensure_def cell_lease_def ensureLocked_def createCell_def spec_namespace_def simple_cell_def build_cell_def and_then_def
  cell_class_def project_cell_known log_env_def log_call_def new_manager_def Let_def

theorem cell_leases_exact_witness:
  "\<exists>m r. js_get (cm_cells m) ''a'' = Some r \<and> open_leases (cm_leases m) r = 1 \<and>
     js_get (cm_cells (cell_reap (log_env True) 99999999 m)) ''a'' = Some r"
proof -
  let ?m = "snd (cell_lease (log_env True) default_classes 0 (simple_cell ''a'' None) (new_manager []))"
  have reach: "cell_reachable (log_env True) default_classes ?m" by (rule cell_next [OF cell_start do_lease])
  have cell: "js_get (cm_cells ?m) ''a'' = Some 0" and "open_leases (cm_leases ?m) 0 = 1"
    by (simp_all add: cell_run open_leases_def)
  with cell_leases_exact [OF reach cell, of 99999999] show ?thesis by auto
qed

theorem ensure_failure_clean_witness:
  "cm_world (snd (cell_ensure (log_env False) default_classes 0 (simple_cell ''a'' None) (new_manager []))) =
     [''apply'', ''apply'', ''delete '' @ cell_namespace ''a'']"
proof -
  obtain m' where run: "cell_ensure (log_env False) default_classes 0 (simple_cell ''a'' None) (new_manager []) = (Inl ''no capacity'', m')"
    by (simp add: cell_run)
  from ensure_failure_clean [OF run] show ?thesis unfolding run by (simp add: cell_run)
qed

text \<open>The namespace of a caller survives a failed creation but not the destruction of the cell.\<close>

lemma destroy_deletes_callers_namespace:
  "last (cm_world (destroyLocked (log_env True) ''a'' (snd (cell_ensure (log_env True) default_classes 0 (simple_cell ''a'' (Some ''shared'')) (new_manager []))))) =
     ''delete shared''"
proof -
  have "assertValidNamespace ''shared'' = Inr ''shared''" by code_simp
  then show ?thesis by (simp add: cell_run destroyLocked_def)
qed

text \<open>Destroying one cell deletes the namespace of another whose id differs in letter case only.\<close>

lemma destroy_deletes_other_cell:
  "let m = snd (cell_ensure (log_env True) default_classes 0 (simple_cell ''Team_A'' None)
        (snd (cell_ensure (log_env True) default_classes 0 (simple_cell ''team-a'' None) (new_manager []))));
       m' = destroyLocked (log_env True) ''Team_A'' m
   in last (cm_world m') = ''delete '' @ cell_namespace ''team-a'' \<and> js_get (cm_cells m') ''team-a'' \<noteq> None"
  using cell_namespace_collision by (simp add: cell_run destroyLocked_def)

end
