(* ===== verification/Workspace_Sync.thy ===== *)
theory Workspace_Sync
  imports Workspace_Laws Project_Cell Broker
begin

text \<open>
  Moving a workspace into a sandbox and back (\<^verbatim>\<open>src/src/execution/kubernetes/workspace-sync.ts\<close>) and the
  executor that does so around a command (\<^verbatim>\<open>executor.ts\<close>). The sandbox backend and the pool are
  parameters: functions on a world that may fail. The optional \<^verbatim>\<open>listFiles\<close> of a tree source is an argument.
\<close>

record sandbox_change =
  sc_path :: string
  sc_deleted :: bool
  sc_symlink :: bool

record SandboxExecResult =
  xr_exitCode :: int
  xr_stdout :: string
  xr_stderr :: string
  xr_timedOut :: bool

record 'w SandboxBackend =
  sb_create :: "KubernetesResourceClass \<Rightarrow> labels \<Rightarrow> ('w, SandboxIdentity) io"
  sb_destroy :: "SandboxIdentity \<Rightarrow> ('w, unit) io"
  sb_exec :: "SandboxIdentity \<Rightarrow> ProcessExec \<Rightarrow> ('w, SandboxExecResult) io"
  sb_writeFile :: "SandboxIdentity \<Rightarrow> string \<Rightarrow> string \<Rightarrow> ('w, unit) io"
  sb_readFile :: "SandboxIdentity \<Rightarrow> string \<Rightarrow> ('w, string) io"
  sb_writeSymlink :: "SandboxIdentity \<Rightarrow> string \<Rightarrow> string \<Rightarrow> ('w, unit) io"
  sb_readSymlink :: "SandboxIdentity \<Rightarrow> string \<Rightarrow> ('w, string) io"
  sb_removePath :: "SandboxIdentity \<Rightarrow> string \<Rightarrow> ('w, unit) io"
  sb_listGitChanges :: "SandboxIdentity \<Rightarrow> ('w, sandbox_change list) io"

record sync_options =
  so_maxFiles :: nat
  so_maxBytes :: nat
  so_initializeGitBaseline :: bool

definition default_sync :: sync_options where
  "default_sync = \<lparr>so_maxFiles = 20000, so_maxBytes = 256 * 1024 * 1024, so_initializeGitBaseline = True\<rparr>"

definition ret :: "'a \<Rightarrow> ('w, 'a) io" where
  "ret x w = (Inr x, w)"

definition fail_with :: "string \<Rightarrow> ('w, 'a) io" where
  "fail_with e w = (Inl e, w)"

definition lift_result :: "string + 'a \<Rightarrow> ('w, 'a) io" where
  "lift_result r w = (r, w)"

definition checkLimits :: "sync_options \<Rightarrow> nat \<times> nat \<Rightarrow> string \<Rightarrow> ('w, unit) io" where
  "checkLimits opts n phase =
     (if fst n > so_maxFiles opts then fail_with (phase @ '' exceeds sync file limit ('' @ show_nat (so_maxFiles opts) @ '')'')
      else if snd n > so_maxBytes opts then fail_with (phase @ '' exceeds sync byte limit ('' @ show_nat (so_maxBytes opts) @ '')'')
      else ret ())"

definition add_file :: "string \<Rightarrow> nat \<times> nat \<Rightarrow> nat \<times> nat" where
  "add_file content n = (fst n + 1, snd n + length content)"

subsection \<open>Into the sandbox\<close>

text \<open>A counted put: count, check the limits, then write; returns the new count.\<close>

definition put_entry ::
  "sync_options \<Rightarrow> string \<Rightarrow> (string \<Rightarrow> string \<Rightarrow> ('w, unit) io) \<Rightarrow> string \<Rightarrow> string \<Rightarrow> nat \<times> nat \<Rightarrow> ('w, nat \<times> nat) io" where
  "put_entry opts phase put path content n =
     and_then (checkLimits opts (add_file content n) phase) (\<lambda>_. and_then (put path content) (\<lambda>_. ret (add_file content n)))"

fun materialize_base ::
  "sync_options \<Rightarrow> 'w SandboxBackend \<Rightarrow> SandboxIdentity \<Rightarrow> TreeSource \<Rightarrow> string list \<Rightarrow> nat \<times> nat \<Rightarrow> ('w, nat \<times> nat) io" where
  "materialize_base opts backend sandbox src [] n = ret n"
| "materialize_base opts backend sandbox src (path # paths) n =
     (let is_link = (case ts_stat src path of Some info \<Rightarrow> si_kind info = SymlinkKind | None \<Rightarrow> False);
          put = (if is_link then sb_writeSymlink backend sandbox else sb_writeFile backend sandbox)
      in and_then (lift_result (ts_readFile src path)) (\<lambda>content.
         and_then (put_entry opts ''base workspace'' put path content n) (\<lambda>n'.
           materialize_base opts backend sandbox src paths n')))"

definition baseline_command :: ProcessExec where
  "baseline_command =
     \<lparr>px_command = ''git init -q && git config user.name synth-runtime && git config user.email synth@invalid && git add -A && git commit -q --allow-empty -m synthetic-base'',
      px_cwd = None,
      px_env = Some [(''GIT_CONFIG_COUNT'', ''1''), (''GIT_CONFIG_KEY_0'', ''safe.directory''), (''GIT_CONFIG_VALUE_0'', ''/workspace'')],
      px_timeoutMs = Some 120000, px_resourceClass = None\<rparr>"

definition git_baseline :: "sync_options \<Rightarrow> 'w SandboxBackend \<Rightarrow> SandboxIdentity \<Rightarrow> ('w, unit) io" where
  "git_baseline opts backend sandbox =
     (if \<not> so_initializeGitBaseline opts then ret ()
      else and_then (sb_exec backend sandbox baseline_command) (\<lambda>r.
        if xr_exitCode r \<noteq> 0
        then fail_with (''Failed to initialize sandbox Git baseline: '' @ (if xr_stderr r \<noteq> [] then xr_stderr r else xr_stdout r))
        else ret ()))"

fun materialize_links ::
  "sync_options \<Rightarrow> 'w SandboxBackend \<Rightarrow> SandboxIdentity \<Rightarrow> (string \<times> string) list \<Rightarrow> nat \<times> nat \<Rightarrow> ('w, nat \<times> nat) io" where
  "materialize_links opts backend sandbox [] n = ret n"
| "materialize_links opts backend sandbox ((path, target) # links) n =
     and_then (put_entry opts ''workspace overlay'' (sb_writeSymlink backend sandbox) path target n) (\<lambda>n'.
       materialize_links opts backend sandbox links n')"

fun materialize_changes ::
  "sync_options \<Rightarrow> 'w SandboxBackend \<Rightarrow> SandboxIdentity \<Rightarrow> string list \<Rightarrow> WorkspaceChange list \<Rightarrow> nat \<times> nat \<Rightarrow> ('w, nat \<times> nat) io" where
  "materialize_changes opts backend sandbox links [] n = ret n"
| "materialize_changes opts backend sandbox links (change # changes) n =
     (if wc_path change \<in> set links then materialize_changes opts backend sandbox links changes n
      else if wc_kind change = DeleteChange
      then and_then (sb_removePath backend sandbox (wc_path change)) (\<lambda>_. materialize_changes opts backend sandbox links changes n)
      else and_then (put_entry opts ''workspace overlay'' (sb_writeFile backend sandbox) (wc_path change) (opt_or (wc_content change) []) n)
             (\<lambda>n'. materialize_changes opts backend sandbox links changes n'))"

definition materialize ::
  "sync_options \<Rightarrow> 'w SandboxBackend \<Rightarrow> string list option \<Rightarrow> MemoryWorkspace \<Rightarrow> SandboxIdentity \<Rightarrow> ('w, nat \<times> nat) io" where
  "materialize opts backend listFiles workspace sandbox =
     and_then
       (case (ws_source workspace, listFiles) of
          (Some src, Some paths) \<Rightarrow> materialize_base opts backend sandbox src paths (0, 0)
        | _ \<Rightarrow> ret (0, 0)) (\<lambda>n.
     and_then (git_baseline opts backend sandbox) (\<lambda>_.
     and_then (materialize_links opts backend sandbox (ws_links workspace) n) (\<lambda>n'.
     and_then (lift_result (ws_diff workspace)) (\<lambda>changes.
       materialize_changes opts backend sandbox (js_keys (ws_links workspace)) changes n'))))"

subsection \<open>Back into the workspace\<close>

fun ws_error_text :: "ws_error \<Rightarrow> string" where
  "ws_error_text CannotWriteRoot = ''Cannot write workspace root''"
| "ws_error_text CannotLinkRoot = ''Cannot create a symlink at the workspace root''"
| "ws_error_text CannotDeleteRoot = ''Cannot delete workspace root''"
| "ws_error_text (LinkEscapes p) = workspaceError WORKSPACE_PATH_ESCAPES p"
| "ws_error_text (ForeignSnapshot a b) = ''Workspace snapshot '' @ a @ '' does not belong to '' @ b"
| "ws_error_text TransactionClosed = ''Workspace transaction already closed''"

definition ws_result :: "ws_error + MemoryWorkspace \<Rightarrow> ('w, MemoryWorkspace) io" where
  "ws_result r = (case r of Inl e \<Rightarrow> fail_with (ws_error_text e) | Inr ws \<Rightarrow> ret ws)"

definition sync_entry ::
  "sync_options \<Rightarrow> 'w SandboxBackend \<Rightarrow> SandboxIdentity \<Rightarrow> sandbox_change \<Rightarrow> nat \<times> nat \<Rightarrow> MemoryWorkspace \<Rightarrow>
   ('w, (nat \<times> nat) \<times> MemoryWorkspace) io" where
  "sync_entry opts backend sandbox change n ws =
     (let n1 = (fst n + 1, snd n); path = sc_path change
      in and_then (checkLimits opts n1 ''sandbox changes'') (\<lambda>_.
           if sc_deleted change then and_then (ws_result (ws_delete ws path)) (\<lambda>ws'. ret (n1, ws'))
           else and_then (if sc_symlink change then sb_readSymlink backend sandbox path else sb_readFile backend sandbox path) (\<lambda>content.
                (let n2 = (fst n1, snd n1 + length content)
                 in and_then (checkLimits opts n2 ''sandbox changes'') (\<lambda>_.
                    and_then (ws_result (if sc_symlink change then ws_symlink ws path content else ws_write ws path content)) (\<lambda>ws'.
                      ret (n2, ws')))))))"

text \<open>The loop of \<^verbatim>\<open>syncBack\<close>; the workspace is changed in place, so it is returned on failure too.\<close>

fun sync_changes ::
  "sync_options \<Rightarrow> 'w SandboxBackend \<Rightarrow> SandboxIdentity \<Rightarrow> sandbox_change list \<Rightarrow> nat \<times> nat \<Rightarrow> MemoryWorkspace \<Rightarrow> 'w \<Rightarrow>
   string option \<times> MemoryWorkspace \<times> 'w" where
  "sync_changes opts backend sandbox [] n ws w = (None, ws, w)"
| "sync_changes opts backend sandbox (change # changes) n ws w =
     (case sync_entry opts backend sandbox change n ws w of
        (Inl e, w') \<Rightarrow> (Some e, ws, w')
      | (Inr (n', ws'), w') \<Rightarrow> sync_changes opts backend sandbox changes n' ws' w')"

definition syncBack ::
  "sync_options \<Rightarrow> 'w SandboxBackend \<Rightarrow> MemoryWorkspace \<Rightarrow> SandboxIdentity \<Rightarrow> 'w \<Rightarrow> string option \<times> MemoryWorkspace \<times> 'w" where
  "syncBack opts backend workspace sandbox w =
     (let before = ws_snapshot workspace;
          undo = (\<lambda>e ws w'. (Some e, (case ws_restore ws before of Inr back \<Rightarrow> back | Inl _ \<Rightarrow> ws), w'))
      in case sb_listGitChanges backend sandbox w of
           (Inl e, w') \<Rightarrow> undo e workspace w'
         | (Inr changes, w') \<Rightarrow>
             (case sync_changes opts backend sandbox changes (0, 0) workspace w' of
                (Some e, ws, w'') \<Rightarrow> undo e ws w''
              | (None, ws, w'') \<Rightarrow> (None, ws, w'')))"

subsection \<open>The executor\<close>

record 'w k8s_env =
  ke_backend :: "'w SandboxBackend"
  ke_pool_acquire :: "(string \<Rightarrow> ('w, SandboxIdentity) io) option"
  ke_pool_release :: "SandboxIdentity \<Rightarrow> bool \<Rightarrow> ('w, unit) io"
  ke_sync :: sync_options
  ke_listFiles :: "string list option"

record 'w k8s_world =
  kw_workspaces :: "(string, MemoryWorkspace) jsmap"
  kw_world :: 'w

definition k8s_canExecute :: "KubernetesResourceClass \<Rightarrow> Effect \<Rightarrow> EffectContext \<Rightarrow> bool" where
  "k8s_canExecute resourceClass effect ctx =
     (case eff_body effect of
        ProcessExecEffect px \<Rightarrow>
          (case truthy_text (px_resourceClass px) of None \<Rightarrow> True | Some c \<Rightarrow> c = rc_id resourceClass) \<and>
          (case Option.bind (ctx_executionPolicy ctx) ep_allowedClasses of None \<Rightarrow> True | Some allowed \<Rightarrow> rc_id resourceClass \<in> set allowed)
      | _ \<Rightarrow> False)"

definition exec_result :: "string \<Rightarrow> SandboxIdentity \<Rightarrow> SandboxExecResult \<Rightarrow> EffectResult" where
  "exec_result cid sandbox r =
     \<lparr>r_ok = (xr_exitCode r = 0),
      r_output = Some (OutJson (JObj
        [(''exitCode'', JNum (xr_exitCode r)), (''stdout'', JStr (xr_stdout r)), (''stderr'', JStr (xr_stderr r)),
         (''timedOut'', JBool (xr_timedOut r)), (''sandboxId'', JStr (si_id sandbox)), (''resourceClass'', JStr cid)])),
      r_error = (if xr_exitCode r = 0 then None
                 else Some (if xr_timedOut r then ''EXECUTION_TIMEOUT'' else ''Command exited '' @ show_int (xr_exitCode r))),
      r_executor = None, r_fidelity = None, r_artifact = None\<rparr>"

text \<open>
  Obtaining a sandbox: from the pool when there is one and the class is pooled, otherwise one of its own; the
  second component says whether it is used once only.
\<close>

definition obtain_sandbox :: "'w k8s_env \<Rightarrow> KubernetesResourceClass \<Rightarrow> EffectContext \<Rightarrow> ('w, SandboxIdentity \<times> bool) io" where
  "obtain_sandbox env resourceClass ctx =
     (case (ke_pool_acquire env, rc_warmPool resourceClass) of
        (Some acquire, Some _) \<Rightarrow> and_then (acquire (rc_id resourceClass)) (\<lambda>sandbox. ret (sandbox, False))
      | _ \<Rightarrow> and_then (sb_create (ke_backend env) resourceClass [(''synth.openai.dev/agent-id'', ctx_agentId ctx)])
               (\<lambda>sandbox. ret (sandbox, True)))"

definition release_sandbox :: "'w k8s_env \<Rightarrow> SandboxIdentity \<times> bool \<Rightarrow> 'w \<Rightarrow> 'w" where
  "release_sandbox env lease w =
     snd (if snd lease then sb_destroy (ke_backend env) (fst lease) w else ke_pool_release env (fst lease) False w)"

text \<open>What happens between obtaining the sandbox and releasing it.\<close>

definition run_in_sandbox ::
  "'w k8s_env \<Rightarrow> string \<Rightarrow> ProcessExec \<Rightarrow> MemoryWorkspace \<Rightarrow> SandboxIdentity \<Rightarrow> 'w \<Rightarrow> EffectResult \<times> MemoryWorkspace \<times> 'w" where
  "run_in_sandbox env cid px workspace sandbox w =
     (case materialize (ke_sync env) (ke_backend env) (ke_listFiles env) workspace sandbox w of
        (Inl e, w1) \<Rightarrow> (error_result e, workspace, w1)
      | (Inr _, w1) \<Rightarrow>
          (case sb_exec (ke_backend env) sandbox (px\<lparr>px_resourceClass := None\<rparr>) w1 of
             (Inl e, w2) \<Rightarrow> (error_result e, workspace, w2)
           | (Inr r, w2) \<Rightarrow>
               (case syncBack (ke_sync env) (ke_backend env) workspace sandbox w2 of
                  (Some e, workspace', w3) \<Rightarrow> (error_result e, workspace', w3)
                | (None, workspace', w3) \<Rightarrow> (exec_result cid sandbox r, workspace', w3))))"

definition k8s_execute ::
  "'w k8s_env \<Rightarrow> KubernetesResourceClass \<Rightarrow> Effect \<Rightarrow> EffectContext \<Rightarrow> 'w k8s_world \<Rightarrow> (string + EffectResult) \<times> 'w k8s_world" where
  "k8s_execute env resourceClass effect ctx kw =
     (case eff_body effect of
        ProcessExecEffect px \<Rightarrow>
          (case js_get (kw_workspaces kw) (ctx_workspaceId ctx) of
             None \<Rightarrow> (Inr (error_result (''Unknown workspace '' @ ctx_workspaceId ctx)), kw)
           | Some workspace \<Rightarrow>
               (case obtain_sandbox env resourceClass ctx (kw_world kw) of
                  (Inl e, w) \<Rightarrow> (Inr (error_result e), kw\<lparr>kw_world := w\<rparr>)
                | (Inr lease, w) \<Rightarrow>
                    (let (result, workspace', w') = run_in_sandbox env (rc_id resourceClass) px workspace (fst lease) w
                     in (Inr result,
                         kw\<lparr>kw_workspaces := js_set (ctx_workspaceId ctx) workspace' (kw_workspaces kw),
                            kw_world := release_sandbox env lease w'\<rparr>))))
      | _ \<Rightarrow> (Inr (error_result ESCALATION_REQUIRED), kw))"

definition kubernetes_executor :: "'w k8s_env \<Rightarrow> KubernetesResourceClass \<Rightarrow> 'w k8s_world executor" where
  "kubernetes_executor env resourceClass =
     \<lparr>x_id = ''kubernetes:'' @ rc_id resourceClass, x_fidelity = rc_fidelity resourceClass, x_resourceClassId = Some (rc_id resourceClass),
      x_canExecute = (\<lambda>effect ctx w. Inr (k8s_canExecute resourceClass effect ctx)),
      x_execute = k8s_execute env resourceClass\<rparr>"

end
