(* ===== verification/Sandbox_Executor.thy ===== *)
theory Sandbox_Executor
  imports Workspace_Sync Synthetic
begin

text \<open>
  The executor of the sandbox rung (\<^verbatim>\<open>src/src/execution/kubernetes/sandbox-workspace.ts\<close>): workspace effects and
  commands run in a pod that is held for the workspace, and the in-memory workspace is only the seed and
  checkpoint of that pod. Its shell commands are built as strings, so the quoting is modelled too, with
  the part of the shell's word reading it depends on.
\<close>

subsection \<open>Shell words\<close>

definition shQuote :: "string \<Rightarrow> string" where
  "shQuote value =
     [CHR 0x27] @ concat (map (\<lambda>c. if c = CHR 0x27 then [CHR 0x27, CHR 0x5C, CHR 0x27, CHR 0x27] else [c]) value) @ [CHR 0x27]"

text \<open>
  How a POSIX shell reads one word: inside single quotes every character is literal, outside them a
  backslash makes the next character literal, and white space, an operator or an expansion ends what is
  literal. The result is the word and what follows it.
\<close>

definition sh_special :: "char \<Rightarrow> bool" where
  "sh_special c \<longleftrightarrow> c \<in> set '' ;&|<>()$`*?[#~=%!{}'' \<or> c \<in> {CHR 0x22, CHR 0x09, CHR 0x0A}"

fun sh_word :: "bool \<Rightarrow> string \<Rightarrow> (string \<times> string) option" where
  "sh_word True [] = None"
| "sh_word True (c # s) = (if c = CHR 0x27 then sh_word False s else map_option (\<lambda>(w, r). (c # w, r)) (sh_word True s))"
| "sh_word False [] = Some ([], [])"
| "sh_word False (c # s) =
     (if c = CHR 0x27 then sh_word True s
      else if c = CHR 0x5C then (case s of [] \<Rightarrow> Some ([], []) | d # s' \<Rightarrow> map_option (\<lambda>(w, r). (d # w, r)) (sh_word False s'))
      else if sh_special c then Some ([], c # s)
      else map_option (\<lambda>(w, r). (c # w, r)) (sh_word False s))"

text \<open>The two commands: a fixed beginning, the quoted path, a fixed rest.\<close>

definition kind_tail :: string where
  "kind_tail =
     ''; if [ -d '' @ [CHR 0x22] @ ''$p'' @ [CHR 0x22] @ '' ]; then echo D; elif [ -e '' @ [CHR 0x22] @ ''$p'' @ [CHR 0x22] @
     '' ]; then echo F; else echo N; fi''"

definition kind_command :: "string \<Rightarrow> string" where
  "kind_command path = ''p='' @ shQuote path @ kind_tail"

definition list_tail :: string where
  "list_tail = '' && find . -mindepth 1 -maxdepth 1 -printf '' @ [CHR 0x27] @ ''%f/%y'' @ [CHR 0x5C] @ ''n'' @ [CHR 0x27]"

definition list_command :: "string \<Rightarrow> string" where
  "list_command path = ''cd '' @ shQuote (if path = [] then ''.'' else path) @ list_tail"

subsection \<open>State\<close>

record WorkspaceLease =
  wl_sandbox :: SandboxIdentity
  wl_oneShot :: bool
  wl_materialized :: bool

record 'w sandbox_rung =
  sx_leases :: "(string, WorkspaceLease) jsmap"
  sx_workspaces :: "(string, MemoryWorkspace) jsmap"
  sx_world :: 'w

definition WORKSPACE_EFFECTS :: "string list" where
  "WORKSPACE_EFFECTS = [''workspace.read'', ''workspace.write'', ''workspace.replace'', ''workspace.list'', ''workspace.delete'']"

definition box_canExecute :: "KubernetesResourceClass \<Rightarrow> Effect \<Rightarrow> EffectContext \<Rightarrow> bool" where
  "box_canExecute resourceClass effect ctx \<longleftrightarrow>
     effect_kind (eff_body effect) \<in> set WORKSPACE_EFFECTS \<or> k8s_canExecute resourceClass effect ctx"

definition lease_labels :: "string \<Rightarrow> string \<Rightarrow> labels" where
  "lease_labels agentId key = [(''synth.openai.dev/agent-id'', agentId), (''synth.openai.dev/workspace-id'', key)]"

definition acquire_box :: "'w k8s_env \<Rightarrow> KubernetesResourceClass \<Rightarrow> string \<Rightarrow> string \<Rightarrow> ('w, SandboxIdentity \<times> bool) io" where
  "acquire_box env resourceClass agentId key =
     (case (ke_pool_acquire env, rc_warmPool resourceClass) of
        (Some acquire, Some _) \<Rightarrow> and_then (acquire (rc_id resourceClass)) (\<lambda>sandbox. ret (sandbox, False))
      | _ \<Rightarrow> and_then (sb_create (ke_backend env) resourceClass (lease_labels agentId key)) (\<lambda>sandbox. ret (sandbox, True)))"

text \<open>\<^verbatim>\<open>#leaseFor\<close>: the lease is registered before the workspace is materialized.\<close>

definition leaseFor ::
  "'w k8s_env \<Rightarrow> KubernetesResourceClass \<Rightarrow> string \<Rightarrow> string \<Rightarrow> 'w sandbox_rung \<Rightarrow> (string + SandboxIdentity) \<times> 'w sandbox_rung" where
  "leaseFor env resourceClass key agentId st =
     (case js_get (sx_leases st) key of
        Some entry \<Rightarrow> (Inr (wl_sandbox entry), st)
      | None \<Rightarrow>
          (case acquire_box env resourceClass agentId key (sx_world st) of
             (Inl e, w) \<Rightarrow> (Inl e, st\<lparr>sx_world := w\<rparr>)
           | (Inr (sandbox, oneShot), w) \<Rightarrow>
               (let entry = \<lparr>wl_sandbox = sandbox, wl_oneShot = oneShot, wl_materialized = False\<rparr>;
                    st1 = st\<lparr>sx_leases := js_set key entry (sx_leases st), sx_world := w\<rparr>;
                    ready = (\<lambda>w'. (Inr sandbox, st1\<lparr>sx_leases := js_set key (entry\<lparr>wl_materialized := True\<rparr>) (sx_leases st1), sx_world := w'\<rparr>))
                in case js_get (sx_workspaces st) key of
                     None \<Rightarrow> ready w
                   | Some workspace \<Rightarrow>
                       (case materialize (ke_sync env) (ke_backend env) (ke_listFiles env) workspace sandbox w of
                          (Inl e, w') \<Rightarrow> (Inl e, st1\<lparr>sx_world := w'\<rparr>)
                        | (Inr _, w') \<Rightarrow> ready w'))))"

subsection \<open>Effects in the pod\<close>

datatype path_kind = KindFile | KindDirectory | KindMissing

definition shell :: "'w k8s_env \<Rightarrow> SandboxIdentity \<Rightarrow> string \<Rightarrow> ('w, SandboxExecResult) io" where
  "shell env sandbox command =
     sb_exec (ke_backend env) sandbox \<lparr>px_command = command, px_cwd = None, px_env = None, px_timeoutMs = Some 120000, px_resourceClass = None\<rparr>"

definition box_kind :: "'w k8s_env \<Rightarrow> SandboxIdentity \<Rightarrow> string \<Rightarrow> ('w, path_kind) io" where
  "box_kind env sandbox path =
     and_then (shell env sandbox (kind_command path)) (\<lambda>r.
       if xr_exitCode r \<noteq> 0 then fail_with (''stat('' @ path @ '') failed: '' @ xr_stderr r)
       else if js_trim (xr_stdout r) = ''D'' then ret KindDirectory
       else if js_trim (xr_stdout r) = ''F'' then ret KindFile
       else ret KindMissing)"

definition entry_name :: "string \<Rightarrow> string" where
  "entry_name line = (if CHR ''/'' \<in> set line then join_with (CHR ''/'') (butlast (split_on (CHR ''/'') line)) else line)"

definition box_list :: "'w k8s_env \<Rightarrow> SandboxIdentity \<Rightarrow> string \<Rightarrow> ('w, string list) io" where
  "box_list env sandbox path =
     and_then (shell env sandbox (list_command path)) (\<lambda>r.
       if xr_exitCode r \<noteq> 0 then fail_with (''list('' @ path @ '') failed: '' @ xr_stderr r)
       else ret (sort (map entry_name (filter (\<lambda>l. l \<noteq> []) (split_on (CHR 0x0A) (xr_stdout r))))))"

definition box_relative :: "string \<Rightarrow> string option" where
  "box_relative path = (if escapesWorkspace path then None else Some (normalizeRelative path))"

text \<open>The path of an effect that must name something below the root.\<close>

definition below_root :: "string \<Rightarrow> string option" where
  "below_root path = (case box_relative path of None \<Rightarrow> None | Some p \<Rightarrow> if p = [] then None else Some p)"

definition at_file :: "'w k8s_env \<Rightarrow> SandboxIdentity \<Rightarrow> string \<Rightarrow> ('w, EffectResult) io \<Rightarrow> ('w, EffectResult) io" where
  "at_file env sandbox path run =
     and_then (box_kind env sandbox path) (\<lambda>kind.
       case kind of
         KindMissing \<Rightarrow> ret (path_error WORKSPACE_NOT_FOUND path)
       | KindDirectory \<Rightarrow> ret (path_error WORKSPACE_IS_DIRECTORY path)
       | KindFile \<Rightarrow> run)"

fun box_effect :: "'w k8s_env \<Rightarrow> string \<Rightarrow> SandboxIdentity \<Rightarrow> effect_body \<Rightarrow> ('w, EffectResult) io" where
  "box_effect env cid sandbox (WorkspaceRead path) =
     (case box_relative path of
        None \<Rightarrow> ret (path_error WORKSPACE_PATH_ESCAPES path)
      | Some p \<Rightarrow> at_file env sandbox p
          (and_then (sb_readFile (ke_backend env) sandbox p) (\<lambda>bytes. ret (ok_result\<lparr>r_output := Some (OutBytes bytes)\<rparr>))))"
| "box_effect env cid sandbox (WorkspaceWrite path content) =
     (case below_root path of
        None \<Rightarrow> ret (path_error WORKSPACE_PATH_ESCAPES path)
      | Some p \<Rightarrow> and_then (sb_writeFile (ke_backend env) sandbox p content) (\<lambda>_. ret ok_result))"
| "box_effect env cid sandbox (WorkspaceReplace path oldText newText) =
     (case below_root path of
        None \<Rightarrow> ret (path_error WORKSPACE_PATH_ESCAPES path)
      | Some p \<Rightarrow> at_file env sandbox p
          (and_then (sb_readFile (ke_backend env) sandbox p) (\<lambda>current.
             let result = replaceInText current oldText newText
             in if \<not> tr_ok result then ret (error_result (replace_refusal (tr_occurrences result) p))
                else and_then (sb_writeFile (ke_backend env) sandbox p (opt_or (tr_content result) [])) (\<lambda>_. ret ok_result))))"
| "box_effect env cid sandbox (WorkspaceDelete path) =
     (case below_root path of
        None \<Rightarrow> ret (path_error WORKSPACE_PATH_ESCAPES path)
      | Some p \<Rightarrow> and_then (sb_removePath (ke_backend env) sandbox p) (\<lambda>_. ret ok_result))"
| "box_effect env cid sandbox (WorkspaceList path) =
     (case (case path of None \<Rightarrow> Some [] | Some q \<Rightarrow> box_relative q) of
        None \<Rightarrow> ret (path_error WORKSPACE_PATH_ESCAPES (opt_or path []))
      | Some p \<Rightarrow>
          and_then (if p = [] then ret KindDirectory else box_kind env sandbox p) (\<lambda>kind.
            if kind = KindMissing then ret (path_error WORKSPACE_NOT_FOUND p)
            else if kind \<noteq> KindDirectory then ret (path_error WORKSPACE_NOT_DIRECTORY p)
            else and_then (box_list env sandbox p) (\<lambda>names. ret (ok_result\<lparr>r_output := Some (OutNames names)\<rparr>))))"
| "box_effect env cid sandbox (ProcessExecEffect px) =
     and_then (sb_exec (ke_backend env) sandbox (px\<lparr>px_resourceClass := None\<rparr>)) (\<lambda>r. ret (exec_result cid sandbox r))"
| "box_effect env cid sandbox _ = ret (error_result ESCALATION_REQUIRED)"

definition box_execute ::
  "'w k8s_env \<Rightarrow> KubernetesResourceClass \<Rightarrow> Effect \<Rightarrow> EffectContext \<Rightarrow> 'w sandbox_rung \<Rightarrow> (string + EffectResult) \<times> 'w sandbox_rung" where
  "box_execute env resourceClass effect ctx st =
     (if \<not> box_canExecute resourceClass effect ctx then (Inr (error_result ESCALATION_REQUIRED), st)
      else (case leaseFor env resourceClass (ctx_workspaceId ctx) (ctx_agentId ctx) st of
              (Inl e, st') \<Rightarrow> (Inr (error_result e), st')
            | (Inr sandbox, st') \<Rightarrow>
                (case box_effect env (rc_id resourceClass) sandbox (eff_body effect) (sx_world st') of
                   (Inl e, w) \<Rightarrow> (Inr (error_result e), st'\<lparr>sx_world := w\<rparr>)
                 | (Inr result, w) \<Rightarrow> (Inr result, st'\<lparr>sx_world := w\<rparr>))))"

definition sandbox_executor :: "'w k8s_env \<Rightarrow> KubernetesResourceClass \<Rightarrow> 'w sandbox_rung executor" where
  "sandbox_executor env resourceClass =
     \<lparr>x_id = ''sandbox-workspace:'' @ rc_id resourceClass, x_fidelity = rc_fidelity resourceClass, x_resourceClassId = Some (rc_id resourceClass),
      x_canExecute = (\<lambda>effect ctx st. Inr (box_canExecute resourceClass effect ctx)),
      x_execute = box_execute env resourceClass\<rparr>"

subsection \<open>Checkpoints\<close>

definition box_checkpoint :: "'w k8s_env \<Rightarrow> string \<Rightarrow> 'w sandbox_rung \<Rightarrow> (string + bool) \<times> 'w sandbox_rung" where
  "box_checkpoint env key st =
     (case (js_get (sx_leases st) key, js_get (sx_workspaces st) key) of
        (Some entry, Some workspace) \<Rightarrow>
          (let (failure, workspace', w) = syncBack (ke_sync env) (ke_backend env) workspace (wl_sandbox entry) (sx_world st)
           in (case failure of Some e \<Rightarrow> Inl e | None \<Rightarrow> Inr True,
               st\<lparr>sx_workspaces := js_set key workspace' (sx_workspaces st), sx_world := w\<rparr>))
      | _ \<Rightarrow> (Inr False, st))"

definition hasSandbox :: "string \<Rightarrow> 'w sandbox_rung \<Rightarrow> bool" where
  "hasSandbox key st = (js_get (sx_leases st) key \<noteq> None)"

definition box_close :: "'w k8s_env \<Rightarrow> 'w sandbox_rung \<Rightarrow> 'w sandbox_rung" where
  "box_close env st =
     st\<lparr>sx_leases := [],
        sx_world := foldl (\<lambda>w entry. snd (if wl_oneShot entry then sb_destroy (ke_backend env) (wl_sandbox entry) w
                                         else ke_pool_release env (wl_sandbox entry) True w))
                      (sx_world st) (js_values (sx_leases st))\<rparr>"

fun restore_changes :: "WorkspaceChange list \<Rightarrow> MemoryWorkspace \<Rightarrow> string + MemoryWorkspace" where
  "restore_changes [] ws = Inr ws"
| "restore_changes (change # changes) ws =
     (let edited = (if wc_kind change = DeleteChange then ws_delete ws (wc_path change)
                    else (case wc_content change of None \<Rightarrow> Inr ws | Some content \<Rightarrow> ws_write ws (wc_path change) content))
      in case edited of Inl e \<Rightarrow> Inl (ws_error_text e) | Inr ws' \<Rightarrow> restore_changes changes ws')"

text \<open>\<^verbatim>\<open>parse\<close> stands for \<^verbatim>\<open>JSON.parse\<close> of the stored text.\<close>

definition restoreSandboxWorkspace ::
  "(string \<Rightarrow> string + string) \<Rightarrow> (string \<Rightarrow> EncodedWorkspaceDiff option) \<Rightarrow> string \<Rightarrow> MemoryWorkspace \<Rightarrow> string + MemoryWorkspace" where
  "restoreSandboxWorkspace get parse digest workspace =
     (case get digest of
        Inl e \<Rightarrow> Inl e
      | Inr bytes \<Rightarrow>
          (case parse bytes of
             None \<Rightarrow> Inl ''SyntaxError''
           | Some parsed \<Rightarrow> restore_changes (wd_changes (decodeWorkspaceDiff parsed)) workspace))"

definition checkpointSandboxWorkspace ::
  "'w k8s_env \<Rightarrow> ('b \<Rightarrow> string \<Rightarrow> PutBlobOptions \<Rightarrow> (blob_error + BlobRef) \<times> 'b) \<Rightarrow> string \<Rightarrow> string \<Rightarrow> int \<Rightarrow> 'w sandbox_rung \<Rightarrow> 'b \<Rightarrow>
   (string + ArtifactRef option) \<times> 'w sandbox_rung \<times> 'b" where
  "checkpointSandboxWorkspace env put artifactId key now st store =
     (case box_checkpoint env key st of
        (Inl e, st') \<Rightarrow> (Inl e, st', store)
      | (Inr False, st') \<Rightarrow> (Inr None, st', store)
      | (Inr True, st') \<Rightarrow>
          (case js_get (sx_workspaces st') key of
             None \<Rightarrow> (Inr None, st', store)
           | Some workspace \<Rightarrow>
               (case exportArtifact put workspace False artifactId now store of
                  (Inl e, store') \<Rightarrow> (Inl (export_error_message e), st', store')
                | (Inr artifact, store') \<Rightarrow> (Inr (Some (art_ref artifact)), st', store'))))"

end
