(* ===== verification/Workspace_Sync_Laws.thy ===== *)
theory Workspace_Sync_Laws
  imports Workspace_Sync
begin

text \<open>
  The synchronizer keeps the two file systems apart until all is known to be in order: a failed import
  leaves the workspace as it was, and what a successful export puts into the sandbox is the
  workspace an agent sees.
\<close>

subsection \<open>Runs of the import\<close>

lemma and_then_Inr:
  "and_then m f w = (Inr y, w'') \<longleftrightarrow> (\<exists>x w'. m w = (Inr x, w') \<and> f x w' = (Inr y, w''))"
  by (auto simp: and_then_def split: prod.splits sum.splits)

lemma ret_Inr [simp]: "ret x w = (Inr y, w') \<longleftrightarrow> x = y \<and> w = w'"
  by (simp add: ret_def)

lemma fail_Inr [simp]: "fail_with e w \<noteq> (Inr y, w')"
  by (simp add: fail_with_def)

lemma lift_Inr [simp]: "lift_result r w = (Inr y, w') \<longleftrightarrow> r = Inr y \<and> w = w'"
  by (auto simp: lift_result_def)

lemma limits_Inr [simp]: "checkLimits opts n phase w = (Inr y, w') \<longleftrightarrow> fst n \<le> so_maxFiles opts \<and> snd n \<le> so_maxBytes opts \<and> w = w'"
  by (auto simp: checkLimits_def)

lemma ws_result_Inr [simp]: "ws_result r w = (Inr ws, w') \<longleftrightarrow> r = Inr ws \<and> w = w'"
  by (auto simp: ws_result_def split: sum.splits)

text \<open>The edit a change of the sandbox becomes, given what the sandbox answers for its content.\<close>

fun edit_of :: "sandbox_change \<Rightarrow> string \<Rightarrow> ws_op" where
  "edit_of change content =
     (if sc_deleted change then DeleteOp (sc_path change)
      else if sc_symlink change then SymlinkOp (sc_path change) content else WriteOp (sc_path change) content)"

lemma sync_entry_step:
  assumes "sync_entry opts backend sandbox change n ws w = (Inr (n', ws'), w')"
  shows "(\<exists>content. ws_apply ws (edit_of change content) = Inr ws') \<and> fst n' = fst n + 1 \<and> fst n' \<le> so_maxFiles opts \<and> snd n' \<le> so_maxBytes opts"
  using assms by (auto simp: sync_entry_def Let_def and_then_Inr split: if_splits)

lemma sync_changes_run:
  assumes "sync_changes opts backend sandbox changes n ws w = (out, ws', w')"
  shows "\<exists>ops. ws' = run_ops ws_step ws ops \<and>
    (out = None \<longrightarrow> list_all2 (\<lambda>op change. \<exists>content. op = edit_of change content) ops changes \<and>
       (changes \<noteq> [] \<longrightarrow> fst n + length changes \<le> so_maxFiles opts))"
  using assms
proof (induction changes arbitrary: n ws w)
  case Nil
  then show ?case by (intro exI [of _ "[]"]) simp
next
  case (Cons change changes)
  show ?case
  proof (cases "sync_entry opts backend sandbox change n ws w")
    case entry: (Pair r w1)
    show ?thesis
    proof (cases r)
      case (Inl e)
      with entry Cons.prems show ?thesis by (intro exI [of _ "[]"]) auto
    next
      case (Inr v)
      obtain n1 ws1 where v: "v = (n1, ws1)" by (cases v)
      with Inr entry have e: "sync_entry opts backend sandbox change n ws w = (Inr (n1, ws1), w1)" by simp
      obtain content where op: "ws_apply ws (edit_of change content) = Inr ws1" and n1: "fst n1 = fst n + 1" "fst n1 \<le> so_maxFiles opts"
        using sync_entry_step [OF e] by blast
      from Cons.prems e have "sync_changes opts backend sandbox changes n1 ws1 w1 = (out, ws', w')" by simp
      from Cons.IH [OF this] obtain ops where ops: "ws' = run_ops ws_step ws1 ops"
        "out = None \<longrightarrow> list_all2 (\<lambda>op change. \<exists>content. op = edit_of change content) ops changes \<and> (changes \<noteq> [] \<longrightarrow> fst n1 + length changes \<le> so_maxFiles opts)"
        by blast
      show ?thesis
      proof (intro exI [of _ "edit_of change content # ops"] conjI impI)
        show "ws' = run_ops ws_step ws (edit_of change content # ops)" using ops(1) op by (simp add: ws_step_def del: edit_of.simps)
      next
        assume "out = None"
        with ops(2) show "list_all2 (\<lambda>op change. \<exists>content. op = edit_of change content) (edit_of change content # ops) (change # changes)"
          by (auto simp del: edit_of.simps)
      next
        assume "out = None"
        with ops(2) n1 show "fst n + length (change # changes) \<le> so_maxFiles opts" by (cases changes) auto
      qed
    qed
  qed
qed

lemma sync_failed:
  assumes "syncBack opts backend ws sandbox w = (Some e, ws', w')"
  shows "\<exists>ds. ws' = ws\<lparr>ws_dirs := ds\<rparr>"
proof -
  have self: "ws_restore ws (ws_snapshot ws) = Inr ws"
    using restore_run [of ws "[]"] by simp
  show ?thesis
  proof (cases "sb_listGitChanges backend sandbox w")
    case listed: (Pair r w1)
    show ?thesis
    proof (cases r)
      case (Inl x)
      with assms listed self show ?thesis by (auto simp: syncBack_def Let_def intro: exI [of _ "ws_dirs ws"])
    next
      case (Inr changes)
      obtain out ws1 w2 where run: "sync_changes opts backend sandbox changes (0, 0) ws w1 = (out, ws1, w2)" by (metis prod_cases3)
      obtain ops where "ws1 = run_ops ws_step ws ops" using sync_changes_run [OF run] by blast
      with assms listed Inr run show ?thesis
        by (auto simp: syncBack_def Let_def restore_run split: option.splits)
    qed
  qed
qed

text \<open>
  C23: importing from a sandbox is atomic. If \<^verbatim>\<open>syncBack\<close> fails, at whatever change and for whatever reason, every
  path of the workspace reads as before and its changes and diff are as before; if it succeeds, the
  workspace is the result of applying one edit per reported change, in order, and the number of changes
  is within the limit.
\<close>

theorem sync_back_atomic:
  assumes "syncBack opts backend ws sandbox w = (out, ws', w')"
  shows "case out of
      Some e \<Rightarrow> (\<forall>q. ws_read ws' q = ws_read ws q) \<and> changedPaths ws' = changedPaths ws \<and> ws_diff ws' = ws_diff ws
    | None \<Rightarrow> (\<exists>changes w1 ops. sb_listGitChanges backend sandbox w = (Inr changes, w1) \<and> ws' = run_ops ws_step ws ops \<and>
        list_all2 (\<lambda>op change. \<exists>content. op = edit_of change content) ops changes \<and> length changes \<le> so_maxFiles opts)"
proof (cases out)
  case (Some e)
  with assms have "syncBack opts backend ws sandbox w = (Some e, ws', w')" by simp
  from sync_failed [OF this] obtain ds where "ws' = ws\<lparr>ws_dirs := ds\<rparr>" by blast
  with Some show ?thesis by (simp add: dirs_only_same)
next
  case None
  then obtain changes w1 where listed: "sb_listGitChanges backend sandbox w = (Inr changes, w1)"
    and run: "sync_changes opts backend sandbox changes (0, 0) ws w1 = (None, ws', w')"
    using assms by (auto simp: syncBack_def Let_def split: prod.splits sum.splits option.splits)
  from sync_changes_run [OF run] obtain ops where "ws' = run_ops ws_step ws ops"
    "list_all2 (\<lambda>op change. \<exists>content. op = edit_of change content) ops changes" "changes \<noteq> [] \<longrightarrow> length changes \<le> so_maxFiles opts"
    by (auto simp del: edit_of.simps)
  with listed None show ?thesis by (cases "changes = []") (auto simp del: edit_of.simps)
qed

subsection \<open>The executor\<close>

definition same_workspace :: "MemoryWorkspace \<Rightarrow> MemoryWorkspace \<Rightarrow> bool" where
  "same_workspace ws ws' \<longleftrightarrow> (\<forall>q. ws_read ws' q = ws_read ws q) \<and> changedPaths ws' = changedPaths ws \<and> ws_diff ws' = ws_diff ws"

lemma run_in_sandbox_failed:
  assumes "run_in_sandbox env cid px ws sandbox w = (result, ws', w')" and "r_output result = None"
  shows "same_workspace ws ws'"
proof -
  have "same_workspace ws ws1" if "syncBack opts backend ws sb w1 = (Some e, ws1, w2)" for opts and backend :: "'a SandboxBackend" and sb w1 e ws1 w2
    using sync_failed [OF that] by (auto simp: same_workspace_def dirs_only_same)
  with assms show ?thesis
    by (auto simp: run_in_sandbox_def exec_result_def same_workspace_def split: prod.splits sum.splits option.splits)
qed

text \<open>
  The physical executor as the broker sees it. It never throws: every failure is a result. It refuses
  whatever is not a command and a command for an unknown workspace without touching anything. A result
  without output, the form of every failure before the command's own exit status is known to be
  imported, leaves every path of every workspace, its changes and its diff as they were; and when a
  sandbox was obtained the last thing that happens is its release, to the pool it came from or to
  destruction.
\<close>

theorem k8s_failure_leaves_workspace:
  assumes "k8s_execute env cl effect ctx kw = (out, kw')"
  shows "\<exists>result. out = Inr result \<and>
    (r_output result = None \<longrightarrow> (\<forall>i ws. js_get (kw_workspaces kw) i = Some ws \<longrightarrow> (\<exists>ws'. js_get (kw_workspaces kw') i = Some ws' \<and> same_workspace ws ws'))) \<and>
    (kw' = kw \<or> (\<exists>e w. obtain_sandbox env cl ctx (kw_world kw) = (Inl e, w) \<and> kw_world kw' = w) \<or>
     (\<exists>lease w. obtain_sandbox env cl ctx (kw_world kw) = (Inr lease, w) \<and> (\<exists>w'. kw_world kw' = release_sandbox env lease w')))"
proof -
  have refl: "same_workspace ws ws" for ws by (simp add: same_workspace_def)
  show ?thesis
  proof (cases "\<exists>px ws. eff_body effect = ProcessExecEffect px \<and> js_get (kw_workspaces kw) (ctx_workspaceId ctx) = Some ws")
    case True
    then obtain px ws where px: "eff_body effect = ProcessExecEffect px" and ws: "js_get (kw_workspaces kw) (ctx_workspaceId ctx) = Some ws" by blast
    obtain r w where ob: "obtain_sandbox env cl ctx (kw_world kw) = (r, w)" by (cases "obtain_sandbox env cl ctx (kw_world kw)")
    show ?thesis
    proof (cases r)
      case (Inl e)
      with assms px ws ob refl show ?thesis by (auto simp: k8s_execute_def)
    next
      case (Inr lease)
      obtain result ws1 w1 where run: "run_in_sandbox env (rc_id cl) px ws (fst lease) w = (result, ws1, w1)" by (metis prod_cases3)
      with assms px ws ob Inr have out: "out = Inr result"
        "kw' = kw\<lparr>kw_workspaces := js_set (ctx_workspaceId ctx) ws1 (kw_workspaces kw), kw_world := release_sandbox env lease w1\<rparr>"
        by (simp_all add: k8s_execute_def)
      have "r_output result = None \<Longrightarrow> same_workspace ws ws1" by (rule run_in_sandbox_failed [OF run])
      with out ob Inr ws refl show ?thesis by auto
    qed
  next
    case False
    with assms have "kw' = kw \<and> (\<exists>e. out = Inr (error_result e))"
      by (auto simp: k8s_execute_def split: effect_body.splits option.splits)
    with refl show ?thesis by auto
  qed
qed

subsection \<open>The contents of the sandbox\<close>

datatype sandbox_entry = SFile string | SLink string

text \<open>
  What the synchronizer relies on: in the view \<open>look\<close> of the sandbox's working tree (the repository's own
  metadata apart), as long as there are no links in it, a write to a normal path puts one entry, a removal
  removes a path with everything below it, and the baseline command changes nothing.
\<close>

definition link_free :: "(string \<Rightarrow> sandbox_entry option) \<Rightarrow> bool" where
  "link_free m \<longleftrightarrow> (\<forall>q t. m q \<noteq> Some (SLink t))"

definition normal_path :: "string \<Rightarrow> bool" where
  "normal_path p \<longleftrightarrow> p \<noteq> [] \<and> normalizeRelative p = p"

definition keeps_files :: "'w SandboxBackend \<Rightarrow> SandboxIdentity \<Rightarrow> ('w \<Rightarrow> string \<Rightarrow> sandbox_entry option) \<Rightarrow> bool" where
  "keeps_files backend sandbox look \<longleftrightarrow>
     (\<forall>p c w w'. normal_path p \<longrightarrow> link_free (look w) \<longrightarrow> sb_writeFile backend sandbox p c w = (Inr (), w') \<longrightarrow> look w' = (look w)(p \<mapsto> SFile c)) \<and>
     (\<forall>p w w'. normal_path p \<longrightarrow> link_free (look w) \<longrightarrow> sb_removePath backend sandbox p w = (Inr (), w') \<longrightarrow>
        look w' = (\<lambda>q. if q = p \<or> under p q then None else look w q)) \<and>
     (\<forall>w r w'. sb_exec backend sandbox baseline_command w = (r, w') \<longrightarrow> look w' = look w)"

lemma put_file:
  assumes "keeps_files backend sandbox look" and "put_entry opts phase (sb_writeFile backend sandbox) path content n w = (Inr n', w')"
    and "normal_path path" "link_free (look w)"
  shows "look w' = (look w)(path \<mapsto> SFile content)"
proof -
  from assms(2) have "sb_writeFile backend sandbox path content w = (Inr (), w')" by (auto simp: put_entry_def and_then_Inr)
  with assms(1,3,4) show ?thesis unfolding keeps_files_def by blast
qed

text \<open>A source without links: every listed path is a file.\<close>

lemma base_files:
  assumes "keeps_files backend sandbox look" and "materialize_base opts backend sandbox src paths n w = (Inr n', w')"
    and "\<forall>p \<in> set paths. \<exists>info. ts_stat src p = Some info \<and> si_kind info = FileKind"
    and "\<forall>p \<in> set paths. normal_path p" "link_free (look w)"
  shows "look w' = (\<lambda>p. if p \<in> set paths then (case ts_readFile src p of Inr c \<Rightarrow> Some (SFile c) | Inl _ \<Rightarrow> None) else look w p) \<and>
    (\<forall>p \<in> set paths. \<exists>c. ts_readFile src p = Inr c)"
  using assms(2-)
proof (induction paths arbitrary: n w)
  case (Cons path paths)
  from Cons.prems(2) obtain info where info: "ts_stat src path = Some info" "si_kind info = FileKind" by auto
  with Cons.prems(1) obtain content n1 w1 where c: "ts_readFile src path = Inr content"
    and put: "put_entry opts ''base workspace'' (sb_writeFile backend sandbox) path content n w = (Inr n1, w1)"
    and rest: "materialize_base opts backend sandbox src paths n1 w1 = (Inr n', w')"
    by (auto simp: and_then_Inr Let_def)
  from put_file [OF assms(1) put] Cons.prems(3,4) have look: "look w1 = (look w)(path \<mapsto> SFile content)" by simp
  then have "link_free (look w1)" using Cons.prems(4) by (simp add: link_free_def)
  from Cons.IH [OF rest _ _ this] Cons.prems(2,3) look c show ?case
    by (auto simp: fun_eq_iff)
qed simp

definition apply_change :: "(string \<Rightarrow> sandbox_entry option) \<Rightarrow> WorkspaceChange \<Rightarrow> string \<Rightarrow> sandbox_entry option" where
  "apply_change m c q =
     (if wc_kind c = DeleteChange then (if q = wc_path c \<or> under (wc_path c) q then None else m q)
      else if q = wc_path c then Some (SFile (opt_or (wc_content c) [])) else m q)"

lemma changes_files:
  assumes "keeps_files backend sandbox look" and "materialize_changes opts backend sandbox [] cs n w = (Inr n', w')"
    and "\<forall>c \<in> set cs. normal_path (wc_path c)" "link_free (look w)"
  shows "look w' = foldl apply_change (look w) cs"
  using assms(2-)
proof (induction cs arbitrary: n w)
  case (Cons c cs)
  have free: "link_free (apply_change (look w) c)" using Cons.prems(3) by (simp add: link_free_def apply_change_def)
  show ?case
  proof (cases "wc_kind c = DeleteChange")
    case True
    with Cons.prems(1) obtain w1 where "sb_removePath backend sandbox (wc_path c) w = (Inr (), w1)"
      and rest: "materialize_changes opts backend sandbox [] cs n w1 = (Inr n', w')" by (auto simp: and_then_Inr)
    then have "look w1 = apply_change (look w) c" using assms(1) True Cons.prems(2,3) by (simp add: keeps_files_def apply_change_def [abs_def])
    with Cons.IH [OF rest] Cons.prems(2) free show ?thesis by simp
  next
    case False
    with Cons.prems(1) obtain n1 w1 where put: "put_entry opts ''workspace overlay'' (sb_writeFile backend sandbox) (wc_path c) (opt_or (wc_content c) []) n w = (Inr n1, w1)"
      and rest: "materialize_changes opts backend sandbox [] cs n1 w1 = (Inr n', w')" by (auto simp: and_then_Inr)
    have "look w1 = apply_change (look w) c" using put_file [OF assms(1) put] False Cons.prems(2,3) by (simp add: apply_change_def fun_eq_iff)
    with Cons.IH [OF rest] Cons.prems(2) free show ?thesis by simp
  qed
qed simp

lemma under_less: "under p q \<Longrightarrow> p < (q :: string)"
proof -
  have "xs < xs @ y # ys" for xs ys :: string and y by (induction xs) simp_all
  then show "under p q \<Longrightarrow> ?thesis" by (auto simp: under_def prefix_def)
qed

lemma changes_frame:
  assumes "p \<notin> set (map wc_path cs)" and "\<forall>c \<in> set cs. wc_kind c = DeleteChange \<longrightarrow> under (wc_path c) p \<longrightarrow> m p = None"
  shows "foldl apply_change m cs p = m p"
  using assms by (induction cs arbitrary: m) (auto simp: apply_change_def)

lemma changes_at:
  assumes "sorted (map wc_path cs)" and "distinct (map wc_path cs)" and "c \<in> set cs"
  shows "foldl apply_change m cs (wc_path c) = (if wc_kind c = DeleteChange then None else Some (SFile (opt_or (wc_content c) [])))"
  using assms
proof (induction cs arbitrary: m)
  case (Cons x cs)
  show ?case
  proof (cases "c = x")
    case True
    have "\<not> under (wc_path d) (wc_path c)" if "d \<in> set cs" for d
      using Cons.prems(1) that True under_less [of "wc_path d" "wc_path c"] by fastforce
    with True Cons.prems(2) have "foldl apply_change (apply_change m x) cs (wc_path c) = apply_change m x (wc_path c)"
      by (intro changes_frame) auto
    also have "\<dots> = (if wc_kind c = DeleteChange then None else Some (SFile (opt_or (wc_content c) [])))"
      by (simp add: True apply_change_def)
    finally show ?thesis by simp
  next
    case False
    with Cons show ?thesis by simp
  qed
qed simp

text \<open>The files of a source, as a view of a tree.\<close>

definition base_view :: "TreeSource \<Rightarrow> string list \<Rightarrow> string \<Rightarrow> sandbox_entry option" where
  "base_view src paths p = (if p \<in> set paths then (case ts_readFile src p of Inr c \<Rightarrow> Some (SFile c) | Inl _ \<Rightarrow> None) else None)"

lemma materialize_look:
  assumes backend: "keeps_files backend sandbox look" and ws: "ws_inv ws" "ws_links ws = []" "ws_source ws = Some src"
    and normal: "\<forall>p \<in> set paths. normal_path p"
    and listed: "\<forall>p \<in> set paths. \<exists>info. ts_stat src p = Some info \<and> si_kind info = FileKind"
    and empty: "look w = (\<lambda>_. None)" and run: "materialize opts backend (Some paths) ws sandbox w = (Inr n, w')"
  obtains cs where "ws_diff ws = Inr cs" and "look w' = foldl apply_change (base_view src paths) cs"
    and "\<forall>p \<in> set paths. \<exists>c. ts_readFile src p = Inr c"
proof -
  from run obtain n1 w1 w2 cs where base: "materialize_base opts backend sandbox src paths (0, 0) w = (Inr n1, w1)"
    and git: "git_baseline opts backend sandbox w1 = (Inr (), w2)" and diff: "ws_diff ws = Inr cs"
    and changes: "materialize_changes opts backend sandbox [] cs n1 w2 = (Inr n, w')"
    using ws by (auto simp: materialize_def and_then_Inr js_keys_def)
  have "link_free (look w)" by (simp add: empty link_free_def)
  note entered = base_files [OF backend base listed normal this, unfolded empty]
  then have view: "look w1 = base_view src paths" by (simp add: base_view_def fun_eq_iff)
  then have "link_free (look w1)" by (auto simp: link_free_def base_view_def split: sum.splits)
  moreover have "look w2 = look w1"
    using git backend unfolding keeps_files_def by (auto simp: git_baseline_def and_then_Inr split: if_splits)
  moreover have "\<forall>c \<in> set cs. normal_path (wc_path c)"
    using diff_spec [OF ws(1) diff] ws(1) by (auto simp: ws_inv_def normal_path_def)
  ultimately show thesis using changes_files [OF backend changes] that diff entered view by simp
qed

lemma base_content_view:
  assumes "ws_source ws = Some src" and "\<forall>p \<in> set paths. \<exists>c. ts_readFile src p = Inr c"
    and "\<forall>p. p \<in> set paths \<longleftrightarrow> (\<exists>info. ts_stat src p = Some info \<and> si_kind info = FileKind)"
  shows "\<exists>c. base_content ws q = Inr c \<and> base_view src paths q = map_option SFile c \<and> (c = None \<longleftrightarrow> q \<notin> set paths)"
proof (cases "q \<in> set paths")
  case True
  with assms(2) obtain c where "ts_readFile src q = Inr c" by blast
  moreover from True assms(3) obtain info where "ts_stat src q = Some info" "si_kind info = FileKind" by blast
  ultimately show ?thesis using True assms(1) by (simp add: base_content_def base_view_def)
next
  case False
  with assms(1,3) show ?thesis by (auto simp: base_content_def base_view_def split: option.splits)
qed


subsection \<open>A sandbox in memory\<close>

definition small_sync :: sync_options where
  "small_sync = \<lparr>so_maxFiles = 10, so_maxBytes = 100, so_initializeGitBaseline = True\<rparr>"

type_synonym tree = "(string \<times> sandbox_entry) list"

definition tree_read :: "string \<Rightarrow> tree \<Rightarrow> (string + string) \<times> tree" where
  "tree_read p w = (case map_of w p of Some (SFile c) \<Rightarrow> (Inr c, w) | _ \<Rightarrow> (Inl ''no such file'', w))"

definition tree_backend :: "sandbox_change list \<Rightarrow> tree SandboxBackend" where
  "tree_backend changes =
     \<lparr>sb_create = (\<lambda>cl _ w. (Inr \<lparr>si_id = ''s'', si_namespace = ''ns'', si_podName = ''p'', si_resourceClassId = rc_id cl, si_createdAt = 0\<rparr>, [])),
      sb_destroy = (\<lambda>_ w. (Inr (), [])),
      sb_exec = (\<lambda>_ _ w. (Inr \<lparr>xr_exitCode = 0, xr_stdout = [], xr_stderr = [], xr_timedOut = False\<rparr>, w)),
      sb_writeFile = (\<lambda>_ p c w. (Inr (), (p, SFile c) # w)), sb_readFile = (\<lambda>_ p. tree_read p),
      sb_writeSymlink = (\<lambda>_ p t w. (Inr (), (p, SLink t) # w)), sb_readSymlink = (\<lambda>_ p. tree_read p),
      sb_removePath = (\<lambda>_ p w. (Inr (), filter (\<lambda>(q, _). \<not> (q = p \<or> under p q)) w)),
      sb_listGitChanges = (\<lambda>_ w. (Inr changes, w))\<rparr>"

lemma tree_keeps_files: "keeps_files (tree_backend changes) sandbox map_of"
proof -
  have "map_of (filter (\<lambda>(q, _). \<not> (q = p \<or> under p q)) w) = (\<lambda>q. if q = p \<or> under p q then None else map_of w q)" for p and w :: tree
    by (induction w) (auto simp: fun_eq_iff)
  then show ?thesis by (simp add: keeps_files_def tree_backend_def)
qed

definition sync_source :: TreeSource where
  "sync_source =
     \<lparr>ts_name = ''git'', ts_revision = None,
      ts_stat = (\<lambda>p. if p = ''a'' \<or> p = ''b'' then Some \<lparr>si_path = p, si_kind = FileKind, si_size = 1, si_mtimeMs = 0, si_objectId = None\<rparr> else None),
      ts_listDir = (\<lambda>_. []), ts_readFile = (\<lambda>p. Inr ''old'')\<rparr>"

definition sync_ws :: MemoryWorkspace where
  "sync_ws = ws_step (ws_step (new_workspace ''w'' (Some sync_source)) (WriteOp ''a'' ''new'')) (DeleteOp ''b'')"

definition plain_change :: "string \<Rightarrow> sandbox_change" where
  "plain_change p = \<lparr>sc_path = p, sc_deleted = False, sc_symlink = False\<rparr>"

abbreviation sample_box :: SandboxIdentity where
  "sample_box \<equiv> \<lparr>si_id = ''s'', si_namespace = ''ns'', si_podName = ''p'', si_resourceClassId = ''c'', si_createdAt = 0\<rparr>"

lemma sync_ws_facts:
  "ws_inv sync_ws" "ws_links sync_ws = []" "ws_source sync_ws = Some sync_source" "set (ws_changed sync_ws) = {''a'', ''b''}"
  "ws_read sync_ws ''a'' = Inr (Some ''new'')" "ws_read sync_ws ''b'' = Inr None"
proof -
  show "ws_inv sync_ws" unfolding sync_ws_def by (intro ws_inv_step ws_inv_new)
  show "ws_links sync_ws = []" "set (ws_changed sync_ws) = {''a'', ''b''}"
    "ws_read sync_ws ''a'' = Inr (Some ''new'')" "ws_read sync_ws ''b'' = Inr None" by code_simp+
  show "ws_source sync_ws = Some sync_source"
    by (simp only: sync_ws_def ws_step_fixed) (simp add: new_workspace_def)
qed

theorem sync_back_atomic_witness:
  "fst (syncBack small_sync (tree_backend [plain_change ''c'', plain_change ''gone'']) sync_ws sample_box [(''c'', SFile ''x'')]) = Some ''no such file'' \<and>
   ws_read (fst (snd (syncBack small_sync (tree_backend [plain_change ''c'', plain_change ''gone'']) sync_ws sample_box [(''c'', SFile ''x'')]))) ''c'' = Inr None"
proof -
  let ?run = "syncBack small_sync (tree_backend [plain_change ''c'', plain_change ''gone'']) sync_ws sample_box [(''c'', SFile ''x'')]"
  have out: "fst ?run = Some ''no such file''" by code_simp
  obtain ws' w' where run: "?run = (Some ''no such file'', ws', w')" using out by (cases ?run) auto
  have "ws_read sync_ws ''c'' = Inr None" by code_simp
  with sync_back_atomic [OF run] show ?thesis unfolding run by simp
qed


definition box_env :: "tree k8s_env" where
  "box_env = \<lparr>ke_backend = tree_backend [plain_change ''gone''], ke_pool_acquire = None, ke_pool_release = (\<lambda>_ _ w. (Inr (), w)),
     ke_sync = small_sync, ke_listFiles = Some [''a'', ''b'']\<rparr>"

definition run_effect :: Effect where
  "run_effect = \<lparr>eff_id = ''e'', eff_body = ProcessExecEffect \<lparr>px_command = ''make'', px_cwd = None, px_env = None, px_timeoutMs = None, px_resourceClass = None\<rparr>\<rparr>"

theorem k8s_failure_leaves_workspace_witness:
  "\<exists>ws'. js_get (kw_workspaces (snd (k8s_execute box_env project_cell run_effect
        \<lparr>ctx_agentId = ''a'', ctx_taskId = None, ctx_workspaceId = ''w'', ctx_executionPolicy = None\<rparr>
        \<lparr>kw_workspaces = [(''w'', sync_ws)], kw_world = []\<rparr>))) ''w'' = Some ws' \<and> same_workspace sync_ws ws'"
proof -
  let ?run = "k8s_execute box_env project_cell run_effect
        \<lparr>ctx_agentId = ''a'', ctx_taskId = None, ctx_workspaceId = ''w'', ctx_executionPolicy = None\<rparr>
        \<lparr>kw_workspaces = [(''w'', sync_ws)], kw_world = []\<rparr>"
  obtain out kw' where run: "?run = (out, kw')" by (cases ?run)
  have "(case fst ?run of Inr result \<Rightarrow> r_output result = None | Inl _ \<Rightarrow> False)" by code_simp
  with k8s_failure_leaves_workspace [OF run] show ?thesis unfolding run by auto
qed

end
