(* ===== verification/Sandbox_Executor_Laws.thy ===== *)
theory Sandbox_Executor_Laws
  imports Sandbox_Executor Workspace_Sync_Laws
begin

text \<open>
  Nothing an effect names reaches the pod unchecked: paths are contained, and what is put into a shell
  command is read back by the shell as one literal word. A checkpoint of the pod's workspace restores.
\<close>

subsection \<open>Quoting\<close>

lemma quoted_body:
  "sh_word True (concat (map (\<lambda>c. if c = CHR 0x27 then [CHR 0x27, CHR 0x5C, CHR 0x27, CHR 0x27] else [c]) v) @ [CHR 0x27] @ rest) =
     map_option (\<lambda>(w, r). (v @ w, r)) (sh_word False rest)"
proof (induction v)
  case Nil
  then show ?case by (cases "sh_word False rest") auto
next
  case (Cons c v)
  then show ?case by (cases "sh_word False rest") (auto simp: option.map_comp)
qed

lemma word_ends: "rest = [] \<or> sh_special (hd rest) \<Longrightarrow> sh_word False rest = Some ([], rest)"
  by (cases rest) (auto simp: sh_special_def)

lemma quoted_word: "rest = [] \<or> sh_special (hd rest) \<Longrightarrow> sh_word False (shQuote v @ rest) = Some (v, rest)"
  using quoted_body [of v rest] word_ends [of rest] by (simp add: shQuote_def)

text \<open>
  No shell injection. Whatever the path, with quotes, spaces, dollar signs or newlines in it, the shell reads
  the operand of the stat and of the listing command as exactly that path (the dot for the root) and
  continues with the fixed rest of the command.
\<close>

theorem sandbox_commands_quoted:
  "(\<exists>operand. kind_command path = ''p='' @ operand \<and> sh_word False operand = Some (path, kind_tail)) \<and>
   (\<exists>operand. list_command path = ''cd '' @ operand \<and> sh_word False operand = Some (if path = [] then ''.'' else path, list_tail))"
proof -
  have "sh_special (hd kind_tail)" "sh_special (hd list_tail)" by (simp_all add: kind_tail_def list_tail_def sh_special_def)
  then show ?thesis by (auto simp: kind_command_def list_command_def quoted_word)
qed

subsection \<open>Paths\<close>

definition contained :: "string \<Rightarrow> bool" where
  "contained p \<longleftrightarrow> normalizeRelative p = p \<and> (\<forall>x \<in> set (segments p). plain x)"

definition guard_path :: "(string \<Rightarrow> ('w, 'a) io) \<Rightarrow> string \<Rightarrow> ('w, 'a) io" where
  "guard_path f p = (if contained p then f p else fail_with ''outside the workspace'')"

text \<open>A backend that refuses every path which is not a normal path inside the workspace.\<close>

definition guarded :: "'w k8s_env \<Rightarrow> 'w k8s_env" where
  "guarded env =
     env\<lparr>ke_backend := (ke_backend env)
       \<lparr>sb_readFile := (\<lambda>sandbox. guard_path (sb_readFile (ke_backend env) sandbox)),
        sb_writeFile := (\<lambda>sandbox p content. guard_path (\<lambda>q. sb_writeFile (ke_backend env) sandbox q content) p),
        sb_removePath := (\<lambda>sandbox. guard_path (sb_removePath (ke_backend env) sandbox))\<rparr>\<rparr>"

lemma contained_normal: "contained (normalizeRelative path)"
  using normalizeRelative_segments [of path] by (simp add: contained_def)

lemma guarded_shell [simp]:
  "shell (guarded env) sandbox c = shell env sandbox c" "sb_exec (ke_backend (guarded env)) = sb_exec (ke_backend env)"
  by (simp_all add: guarded_def shell_def)

lemma guarded_kind [simp]:
  "box_kind (guarded env) sandbox p = box_kind env sandbox p" "box_list (guarded env) sandbox p = box_list env sandbox p"
  by (simp_all add: box_kind_def box_list_def)

lemma guarded_at_file: "contained p \<Longrightarrow> at_file (guarded env) sandbox p run = at_file env sandbox p run"
  by (simp add: at_file_def)

lemma guarded_ops:
  "contained p \<Longrightarrow> sb_readFile (ke_backend (guarded env)) sandbox p = sb_readFile (ke_backend env) sandbox p"
  "contained p \<Longrightarrow> sb_writeFile (ke_backend (guarded env)) sandbox p content = sb_writeFile (ke_backend env) sandbox p content"
  "contained p \<Longrightarrow> sb_removePath (ke_backend (guarded env)) sandbox p = sb_removePath (ke_backend env) sandbox p"
  by (simp_all add: guarded_def guard_path_def)

lemma root_contained: "\<not> escapesWorkspace []"
  by code_simp


subsection \<open>Checkpoints\<close>

definition restored :: "MemoryWorkspace \<Rightarrow> WorkspaceChange \<Rightarrow> bool" where
  "restored ws c \<longleftrightarrow> ws_read ws (wc_path c) = Inr (wc_content c)"

lemma write_restores:
  assumes "ws_write ws p content = Inr ws'" "normalizeRelative p = p"
  shows "ws_read ws' p = Inr (Some content)"
  using ws_writeD(5) [OF assms(1), of p] assms(2) by (subst ws_read.simps) (simp add: Let_def)

lemma delete_restores:
  assumes "ws_delete ws p = Inr ws'" "normalizeRelative p = p"
  shows "ws_read ws' p = Inr None"
  using ws_deleteD(4,6) [OF assms(1)] assms(2) by (subst ws_read.simps) (auto simp: Let_def isDeleted_def)

definition restore_change :: "WorkspaceChange \<Rightarrow> MemoryWorkspace \<Rightarrow> ws_error + MemoryWorkspace" where
  "restore_change c ws =
     (if wc_kind c = DeleteChange then ws_delete ws (wc_path c)
      else (case wc_content c of None \<Rightarrow> Inr ws | Some content \<Rightarrow> ws_write ws (wc_path c) content))"

definition change_ok :: "WorkspaceChange \<Rightarrow> bool" where
  "change_ok c \<longleftrightarrow> normalizeRelative (wc_path c) = wc_path c \<and> wc_path c \<noteq> [] \<and> (wc_kind c = DeleteChange \<longleftrightarrow> wc_content c = None)"

lemma no_keys: "(\<And>k. js_get m k = None) \<Longrightarrow> m = []"
  by (metis map_of_eq_None_iff image_is_empty set_empty equals0I)

text \<open>One change: it cannot fail, its path reads as recorded, and paths that are not at or below it keep.\<close>

lemma restore_change_total:
  assumes "change_ok c"
  obtains ws' where "restore_change c ws = Inr ws'"
  using assms by (cases "wc_content c") (auto simp: restore_change_def change_ok_def ws_delete_def ws_write_def Let_def)

lemma restore_change_spec:
  assumes "restore_change c ws = Inr ws'" "change_ok c" "ws_links ws = []"
  shows "restored ws' c" and "ws_links ws' = []"
    and "normalizeRelative q = q \<Longrightarrow> q \<noteq> wc_path c \<Longrightarrow> \<not> under (wc_path c) q \<Longrightarrow> ws_read ws' q = ws_read ws q"
proof -
  have "restored ws' c \<and> ws_links ws' = [] \<and>
    (normalizeRelative q = q \<longrightarrow> q \<noteq> wc_path c \<longrightarrow> \<not> under (wc_path c) q \<longrightarrow> ws_read ws' q = ws_read ws q)"
  proof (cases "wc_content c")
    case None
    with assms have run: "ws_delete ws (wc_path c) = Inr ws'" and norm: "normalizeRelative (wc_path c) = wc_path c"
      by (auto simp: restore_change_def change_ok_def)
    have "ws_links ws' = []" using ws_deleteD(5) [OF run] assms(3) by (intro no_keys) simp
    moreover have "isDeleted ws' q = isDeleted ws q" if "q \<noteq> wc_path c" "\<not> under (wc_path c) q"
      using that under_trans by (auto simp: isDeleted_def ws_deleteD(6) [OF run] norm)
    ultimately show ?thesis
      using delete_restores [OF run norm] None assms(3) ws_deleteD(2,4) [OF run] norm
      by (auto simp: restored_def intro!: read_frame)
  next
    case (Some content)
    with assms have run: "ws_write ws (wc_path c) content = Inr ws'" and norm: "normalizeRelative (wc_path c) = wc_path c"
      by (auto simp: restore_change_def change_ok_def)
    have "isDeleted ws' q = isDeleted ws q" if "q \<noteq> wc_path c" "\<not> under (wc_path c) q"
      using ws_writeD(6) [OF run] norm that by (auto simp: isDeleted_def)
    then show ?thesis
      using write_restores [OF run norm] Some assms(3) ws_writeD(2,3,5) [OF run] norm
      by (auto simp: restored_def intro!: read_frame)
  qed
  then show "restored ws' c" "ws_links ws' = []"
    "normalizeRelative q = q \<Longrightarrow> q \<noteq> wc_path c \<Longrightarrow> \<not> under (wc_path c) q \<Longrightarrow> ws_read ws' q = ws_read ws q" by auto
qed

lemma restore_all:
  assumes "\<forall>c \<in> set cs. change_ok c" "sorted (map wc_path cs)" "distinct (map wc_path cs)" "ws_links ws = []"
  shows "\<exists>ws'. restore_changes cs ws = Inr ws' \<and> (\<forall>c \<in> set cs. restored ws' c) \<and>
    (\<forall>q. normalizeRelative q = q \<and> (\<forall>c \<in> set cs. q \<noteq> wc_path c \<and> \<not> under (wc_path c) q) \<longrightarrow> ws_read ws' q = ws_read ws q)"
  using assms
proof (induction cs arbitrary: ws)
  case Nil
  then show ?case by simp
next
  case (Cons c cs)
  obtain ws1 where one: "restore_change c ws = Inr ws1" using restore_change_total Cons.prems(1) by (metis list.set_intros(1))
  note spec = restore_change_spec [OF one _ Cons.prems(4)]
  have ok: "change_ok c" using Cons.prems(1) by simp
  obtain ws' where run: "restore_changes cs ws1 = Inr ws'" and rest: "\<forall>d \<in> set cs. restored ws' d"
    and keep: "\<And>q. normalizeRelative q = q \<Longrightarrow> (\<forall>d \<in> set cs. q \<noteq> wc_path d \<and> \<not> under (wc_path d) q) \<Longrightarrow> ws_read ws' q = ws_read ws1 q"
    using Cons.IH [of ws1] Cons.prems spec(2) [OF ok] by auto
  have "\<not> under (wc_path d) (wc_path c) \<and> wc_path c \<noteq> wc_path d" if "d \<in> set cs" for d
    using that Cons.prems(2,3) under_less by fastforce
  then have "restored ws' c"
    using keep [of "wc_path c"] spec(1) [OF ok] ok by (auto simp: restored_def change_ok_def)
  moreover have "restore_changes (c # cs) ws = Inr ws'"
    using one run by (simp add: restore_change_def Let_def)
  ultimately show ?case using rest keep spec(3) [OF ok] by auto
qed


subsection \<open>Witnesses and limits\<close>

definition saved_changes :: "WorkspaceChange list" where
  "saved_changes = [\<lparr>wc_path = ''a'', wc_kind = ModifyChange, wc_content = Some ''new''\<rparr>, \<lparr>wc_path = ''b'', wc_kind = DeleteChange, wc_content = None\<rparr>]"



text \<open>A deleted directory of the source leaves no entry in the diff: a checkpoint restores its files.\<close>

lemma directory_delete_not_in_diff:
  "case ws_delete (new_workspace ''w'' (Some sample_source)) ''d'' of
     Inr ws \<Rightarrow> ws_read ws ''d/f'' = Inr None \<and> ws_diff ws = Inr [] | Inl _ \<Rightarrow> False"
  by code_simp

text \<open>
  The lease is registered before the workspace is materialized and kept when that fails: the effect
  reports the failure, and the next effect of the workspace runs in the pod that was never seeded.
\<close>

lemma failed_seed_reused:
  assumes "js_get (sx_leases st) key = None" "js_get (sx_workspaces st) key = Some ws"
    and "acquire_box env cl agentId key (sx_world st) = (Inr (sandbox, oneShot), w)"
    and "materialize (ke_sync env) (ke_backend env) (ke_listFiles env) ws sandbox w = (Inl e, w')"
  shows "\<exists>st'. leaseFor env cl key agentId st = (Inl e, st') \<and> leaseFor env cl key agentId st' = (Inr sandbox, st') \<and>
    map_option wl_materialized (js_get (sx_leases st') key) = Some False"
  using assms by (simp add: leaseFor_def Let_def)

text \<open>
  The two rungs answer differently for the same condition: deleting what does not exist succeeds in a pod
  and is refused in memory.
\<close>

lemma rungs_disagree:
  assumes "sb_removePath (ke_backend env) sandbox ''x'' w = (Inr (), w')"
  shows "fst (box_effect env cid sandbox (WorkspaceDelete ''x'') w) = Inr ok_result"
    and "fst (synth_workspace_op (new_workspace ''w'' None) ''x'' (WorkspaceDelete ''x'')) = Inr (path_error WORKSPACE_NOT_FOUND ''x'')"
proof -
  have "below_root ''x'' = Some ''x''" by code_simp
  then show "fst (box_effect env cid sandbox (WorkspaceDelete ''x'') w) = Inr ok_result"
    using assms by (simp add: and_then_def ret_def)
  show "fst (synth_workspace_op (new_workspace ''w'' None) ''x'' (WorkspaceDelete ''x'')) = Inr (path_error WORKSPACE_NOT_FOUND ''x'')"
    by code_simp
qed

end
