(* ===== verification/Gateway_Engine.thy ===== *)
theory Gateway_Engine
  imports Router Mailbox Effects Manifests
begin

text \<open>
  The body of an agent turn (\<^verbatim>\<open>src/src/runtime/gateway-engine.ts\<close>): one request to the model gateway, the tool
  calls read from its answer, each executed in order through the rung. \<^verbatim>\<open>fetch\<close>, the rung, the
  callbacks and \<^verbatim>\<open>JSON.parse\<close> are parameters; they act on a world \<open>'w\<close>. The periodic heartbeats during
  the request are part of what \<^verbatim>\<open>fetch\<close> does to the world.
\<close>

subsection \<open>Records\<close>

text \<open>The arguments are whatever \<^verbatim>\<open>JSON.parse\<close> returned: the cast to an object is not checked.\<close>

record GatewayToolCall =
  tc_name :: string
  tc_arguments :: json

record GatewayToolObservation =
  ob_name :: string
  ob_ok :: bool
  ob_output :: "effect_output option"
  ob_error :: "string option"

record GatewayTurnOutcome =
  to_content :: string
  to_toolCalls :: "GatewayToolCall list"
  to_observations :: "GatewayToolObservation list"
  to_requestedModel :: string
  to_servedModel :: "string option"
  to_modelSubstituted :: bool
  to_latencyMs :: rat
  to_usage :: "json option"

datatype engine_error = PlainError string | GatewayHttpError string int "rat option"

datatype emit_phase = ToolStart | ToolEnd

record ModelRequest =
  mr_url :: string
  mr_headers :: "(string, string) jsmap"
  mr_timeoutMs :: int
  mr_body :: json

record 'w AgentEngineContext =
  ec_agentId :: string
  ec_emitTool :: "string \<Rightarrow> emit_phase \<Rightarrow> json \<Rightarrow> 'w \<Rightarrow> 'w"
  ec_executeEffect :: "(Effect \<Rightarrow> 'w \<Rightarrow> (string + EffectResult) \<times> 'w) option"

record 'w GatewayAgentEngineOptions =
  go_baseUrl :: string
  go_model :: string
  go_apiKey :: "string option"
  go_timeoutMs :: "int option"
  go_fetch :: "ModelRequest \<Rightarrow> 'w \<Rightarrow> (string + HttpResponse) \<times> 'w"
  go_parse :: "string \<Rightarrow> json option"
  go_hints :: router_config
  go_heartbeat :: "('w \<Rightarrow> 'w) option"
  go_systemPrompt :: string
  go_buildUserMessage :: "AgentMessage list \<Rightarrow> string"
  go_parseToolCalls :: "(string \<Rightarrow> string + GatewayToolCall list) option"
  go_toEffect :: "(GatewayToolCall \<Rightarrow> string \<Rightarrow> nat \<Rightarrow> string + Effect option) option"
  go_onTurn :: "(GatewayTurnOutcome \<Rightarrow> 'w \<Rightarrow> 'w) option"

subsection \<open>Reading JSON\<close>

text \<open>A property of a parsed value, and \<^verbatim>\<open>??\<close>, which passes over \<^verbatim>\<open>undefined\<close> and \<^verbatim>\<open>null\<close>.\<close>

definition jfield :: "json option \<Rightarrow> string \<Rightarrow> json option" where
  "jfield v k = (case v of Some (JObj fs) \<Rightarrow> js_get fs k | _ \<Rightarrow> None)"

definition nullish :: "json option \<Rightarrow> json option \<Rightarrow> json option" where
  "nullish a b = (if a = None \<or> a = Some JNull then b else a)"

definition jtruthy :: "json option \<Rightarrow> bool" where
  "jtruthy v = (v \<noteq> None \<and> v \<notin> {Some JNull, Some (JBool False), Some (JNum 0), Some (JStr [])})"

definition first_choice :: "json option \<Rightarrow> json option" where
  "first_choice v =
     (case v of Some (JArr (x # _)) \<Rightarrow> Some x | Some (JObj fs) \<Rightarrow> js_get fs ''0'' | Some (JStr (c # _)) \<Rightarrow> Some (JStr [c]) | _ \<Rightarrow> None)"

subsection \<open>Tool calls\<close>

definition coerce_call :: "(string \<Rightarrow> json option) \<Rightarrow> nat \<Rightarrow> json \<Rightarrow> string + GatewayToolCall" where
  "coerce_call parse index entry =
     (case jfield (Some entry) ''name'' of
        Some (JStr name) \<Rightarrow>
          (case nullish (jfield (Some entry) ''arguments'') (nullish (jfield (Some entry) ''args'') (Some (JObj []))) of
             Some (JStr rawArgs) \<Rightarrow>
               if js_trim rawArgs = [] then Inr \<lparr>tc_name = name, tc_arguments = JObj []\<rparr>
               else (case parse rawArgs of
                       None \<Rightarrow> Inl (''tool call '' @ name @ '' arguments are not JSON'')
                     | Some args \<Rightarrow> Inr \<lparr>tc_name = name, tc_arguments = args\<rparr>)
           | Some (JArr xs) \<Rightarrow> Inr \<lparr>tc_name = name, tc_arguments = JArr xs\<rparr>
           | Some (JObj fs) \<Rightarrow> Inr \<lparr>tc_name = name, tc_arguments = JObj fs\<rparr>
           | _ \<Rightarrow> Inr \<lparr>tc_name = name, tc_arguments = JObj []\<rparr>)
      | _ \<Rightarrow> Inl (''tool call '' @ show_nat index @ '' has no name''))"

fun coerce_from :: "(string \<Rightarrow> json option) \<Rightarrow> nat \<Rightarrow> json list \<Rightarrow> string + GatewayToolCall list" where
  "coerce_from parse index [] = Inr []"
| "coerce_from parse index (entry # entries) =
     (case coerce_call parse index entry of
        Inl e \<Rightarrow> Inl e
      | Inr call \<Rightarrow> map_sum id (Cons call) (coerce_from parse (Suc index) entries))"

definition coerceToolCalls :: "(string \<Rightarrow> json option) \<Rightarrow> json option \<Rightarrow> string + GatewayToolCall list" where
  "coerceToolCalls parse value = (case value of Some (JArr entries) \<Rightarrow> coerce_from parse 0 entries | _ \<Rightarrow> Inr [])"

text \<open>The two replacements: a leading fence with an optional \<^verbatim>\<open>json\<close>, and a trailing one.\<close>

definition fence :: string where "fence = ''```''"

definition strip_open :: "string \<Rightarrow> string" where
  "strip_open s =
     (if take 3 s = fence
      then (let r = drop 3 s in dropWhile is_space (if map to_lower (take 4 r) = ''json'' then drop 4 r else r))
      else s)"

definition strip_close :: "string \<Rightarrow> string" where
  "strip_close s = (if take 3 (rev s) = fence then rev (dropWhile is_space (drop 3 (rev s))) else s)"

definition strip_fences :: "string \<Rightarrow> string" where
  "strip_fences content = strip_close (strip_open (js_trim content))"

text \<open>The text from the first opening to the last closing brace, if they are in that order.\<close>

definition brace_slice :: "string \<Rightarrow> string option" where
  "brace_slice s =
     (if CHR ''{'' \<in> set s \<and> CHR ''}'' \<in> set s
      then (let start = length (takeWhile (\<lambda>c. c \<noteq> CHR ''{'') s);
                stop = length s - Suc (length (takeWhile (\<lambda>c. c \<noteq> CHR ''}'') (rev s)))
            in if stop \<le> start then None else Some (take (Suc stop - start) (drop start s)))
      else None)"

definition calls_of :: "(string \<Rightarrow> json option) \<Rightarrow> json \<Rightarrow> string + GatewayToolCall list" where
  "calls_of parse parsed =
     (case parsed of
        JArr xs \<Rightarrow> coerceToolCalls parse (Some (JArr xs))
      | JObj fs \<Rightarrow> coerceToolCalls parse (nullish (js_get fs ''tool_calls'') (js_get fs ''toolCalls''))
      | _ \<Rightarrow> Inr [])"

definition parseToolCallsFromContent :: "(string \<Rightarrow> json option) \<Rightarrow> string \<Rightarrow> string + GatewayToolCall list" where
  "parseToolCallsFromContent parse content =
     (let stripped = strip_fences content
      in case parse stripped of
           Some parsed \<Rightarrow> calls_of parse parsed
         | None \<Rightarrow>
             (case brace_slice stripped of
                None \<Rightarrow> Inr []
              | Some inner \<Rightarrow> (case parse inner of None \<Rightarrow> Inl ''SyntaxError'' | Some parsed \<Rightarrow> calls_of parse parsed)))"

subsection \<open>The turn\<close>

definition refused_observation :: "string \<Rightarrow> Effect option \<Rightarrow> GatewayToolObservation" where
  "refused_observation name effect =
     \<lparr>ob_name = name, ob_ok = False, ob_output = None,
      ob_error = Some (if effect = None then ''No execution rung mapping for tool'' else ''No effect executor configured'')\<rparr>"

definition observe :: "string \<Rightarrow> EffectResult \<Rightarrow> GatewayToolObservation" where
  "observe name result = \<lparr>ob_name = name, ob_ok = r_ok result, ob_output = r_output result, ob_error = r_error result\<rparr>"

definition end_data :: "bool \<Rightarrow> json" where
  "end_data ok = JObj [(''ok'', JBool ok)]"

text \<open>One tool call: the observation it gives, or what was thrown.\<close>

definition run_call ::
  "'w GatewayAgentEngineOptions \<Rightarrow> 'w AgentEngineContext \<Rightarrow> nat \<Rightarrow> GatewayToolCall \<Rightarrow> 'w \<Rightarrow> (string + GatewayToolObservation) \<times> 'w" where
  "run_call opts ctx index call w =
     (case (case go_toEffect opts of None \<Rightarrow> Inr None | Some toEffect \<Rightarrow> toEffect call (ec_agentId ctx) index) of
        Inl e \<Rightarrow> (Inl e, w)
      | Inr effect \<Rightarrow>
          (let w1 = ec_emitTool ctx (tc_name call) ToolStart (tc_arguments call) w
           in case (effect, ec_executeEffect ctx) of
                (Some eff, Some executeEffect) \<Rightarrow>
                  (case executeEffect eff w1 of
                     (Inl e, w2) \<Rightarrow> (Inl e, w2)
                   | (Inr result, w2) \<Rightarrow>
                       (Inr (observe (tc_name call) result), ec_emitTool ctx (tc_name call) ToolEnd (end_data (r_ok result)) w2))
              | _ \<Rightarrow> (Inr (refused_observation (tc_name call) effect), ec_emitTool ctx (tc_name call) ToolEnd (end_data False) w1)))"

fun run_calls ::
  "'w GatewayAgentEngineOptions \<Rightarrow> 'w AgentEngineContext \<Rightarrow> nat \<Rightarrow> GatewayToolCall list \<Rightarrow> 'w \<Rightarrow> (string + GatewayToolObservation list) \<times> 'w" where
  "run_calls opts ctx index [] w = (Inr [], w)"
| "run_calls opts ctx index (call # calls) w =
     (case run_call opts ctx index call w of
        (Inl e, w') \<Rightarrow> (Inl e, w')
      | (Inr observation, w') \<Rightarrow> apfst (map_sum id (Cons observation)) (run_calls opts ctx (Suc index) calls w'))"

definition model_request :: "'w GatewayAgentEngineOptions \<Rightarrow> AgentMessage list \<Rightarrow> ModelRequest" where
  "model_request opts msgs =
     \<lparr>mr_url = (let b = go_baseUrl opts in if b \<noteq> [] \<and> last b = CHR ''/'' then butlast b else b) @ ''/v1/chat/completions'',
      mr_headers = [(''content-type'', ''application/json'')] @
        (case go_apiKey opts of Some k \<Rightarrow> if k = [] then [] else [(''authorization'', ''Bearer '' @ k)] | None \<Rightarrow> []),
      mr_timeoutMs = opt_or (go_timeoutMs opts) 120000,
      mr_body = JObj [(''model'', JStr (go_model opts)),
        (''messages'', JArr [JObj [(''role'', JStr ''system''), (''content'', JStr (go_systemPrompt opts))],
                             JObj [(''role'', JStr ''user''), (''content'', JStr (go_buildUserMessage opts msgs))]])]\<rparr>"

definition ask_model :: "'w GatewayAgentEngineOptions \<Rightarrow> AgentMessage list \<Rightarrow> rat \<Rightarrow> 'w \<Rightarrow> (engine_error + json) \<times> 'w" where
  "ask_model opts msgs now w =
     (case go_fetch opts (model_request opts msgs) w of
        (Inl e, w') \<Rightarrow> (Inl (PlainError e), w')
      | (Inr response, w') \<Rightarrow>
          if \<not> (200 \<le> hs_status response \<and> hs_status response \<le> 299)
          then (Inl (GatewayHttpError (''gateway returned HTTP '' @ show_int (hs_status response) @ '': '' @ take 300 (hs_body response))
                  (hs_status response) (parseRetryHintMs (go_hints opts) (hs_headers response) now)), w')
          else (case go_parse opts (hs_body response) of None \<Rightarrow> (Inl (PlainError ''SyntaxError''), w') | Some body \<Rightarrow> (Inr body, w')))"

text \<open>The answer's text; reading a property of a \<^verbatim>\<open>null\<close> body throws.\<close>

definition answer_content :: "json \<Rightarrow> string + string" where
  "answer_content body =
     (if body = JNull then Inl ''TypeError''
      else (case jfield (jfield (first_choice (jfield (Some body) ''choices'')) ''message'') ''content'' of
              Some (JStr content) \<Rightarrow> if content = [] then Inl ''gateway reply had no message content'' else Inr content
            | _ \<Rightarrow> Inl ''gateway reply had no message content''))"

definition served_model :: "json \<Rightarrow> string option" where
  "served_model body = (case jfield (Some body) ''model'' of Some (JStr m) \<Rightarrow> if js_trim m = [] then None else Some (js_trim m) | _ \<Rightarrow> None)"

definition outcome_of ::
  "'w GatewayAgentEngineOptions \<Rightarrow> json \<Rightarrow> string \<Rightarrow> GatewayToolCall list \<Rightarrow> GatewayToolObservation list \<Rightarrow> rat \<Rightarrow> GatewayTurnOutcome" where
  "outcome_of opts body content toolCalls observations latencyMs =
     \<lparr>to_content = content, to_toolCalls = toolCalls, to_observations = observations, to_requestedModel = go_model opts,
      to_servedModel = served_model body, to_modelSubstituted = (served_model body \<noteq> None \<and> served_model body \<noteq> Some (go_model opts)),
      to_latencyMs = latencyMs, to_usage = (if jtruthy (jfield (Some body) ''usage'') then jfield (Some body) ''usage'' else None)\<rparr>"

definition engine_run ::
  "'w GatewayAgentEngineOptions \<Rightarrow> AgentMessage list \<Rightarrow> 'w AgentEngineContext \<Rightarrow> rat \<Rightarrow> rat \<Rightarrow> 'w \<Rightarrow> (engine_error + GatewayTurnOutcome) \<times> 'w" where
  "engine_run opts msgs ctx startedAt now w =
     (case ask_model opts msgs now (opt_or (go_heartbeat opts) id w) of
        (Inl e, w1) \<Rightarrow> (Inl e, w1)
      | (Inr body, w1) \<Rightarrow>
          (case answer_content body of
             Inl e \<Rightarrow> (Inl (PlainError e), w1)
           | Inr content \<Rightarrow>
               (case opt_or (go_parseToolCalls opts) (parseToolCallsFromContent (go_parse opts)) content of
                  Inl e \<Rightarrow> (Inl (PlainError e), w1)
                | Inr toolCalls \<Rightarrow>
                    (case run_calls opts ctx 0 toolCalls w1 of
                       (Inl e, w2) \<Rightarrow> (Inl (PlainError e), w2)
                     | (Inr observations, w2) \<Rightarrow>
                         (let outcome = outcome_of opts body content toolCalls observations (now - startedAt)
                          in (Inr outcome, opt_or (go_onTurn opts) (\<lambda>_. id) outcome w2))))))"

end
