(* ===== verification/Gateway_Engine_Laws.thy ===== *)
theory Gateway_Engine_Laws
  imports Gateway_Engine
begin

text \<open>
  What a turn does to the world: the effects of its tool calls, once each, in the order the model asked
  for them, and nothing when the model's answer cannot be used.
\<close>

subsection \<open>The effects of a turn\<close>

definition call_effect :: "'w GatewayAgentEngineOptions \<Rightarrow> 'w AgentEngineContext \<Rightarrow> nat \<Rightarrow> GatewayToolCall \<Rightarrow> Effect option" where
  "call_effect opts ctx index call =
     (case (go_toEffect opts, ec_executeEffect ctx) of
        (Some toEffect, Some _) \<Rightarrow> (case toEffect call (ec_agentId ctx) index of Inr effect \<Rightarrow> effect | Inl _ \<Rightarrow> None)
      | _ \<Rightarrow> None)"

fun turn_effects :: "'w GatewayAgentEngineOptions \<Rightarrow> 'w AgentEngineContext \<Rightarrow> nat \<Rightarrow> GatewayToolCall list \<Rightarrow> Effect list" where
  "turn_effects opts ctx index [] = []"
| "turn_effects opts ctx index (call # calls) =
     (case call_effect opts ctx index call of None \<Rightarrow> [] | Some effect \<Rightarrow> [effect]) @ turn_effects opts ctx (Suc index) calls"

text \<open>A world that records the effects executed in it, and callbacks that execute none.\<close>

definition records_effects :: "'w GatewayAgentEngineOptions \<Rightarrow> 'w AgentEngineContext \<Rightarrow> ('w \<Rightarrow> Effect list) \<Rightarrow> bool" where
  "records_effects opts ctx seen \<longleftrightarrow>
     (\<forall>executeEffect effect w. ec_executeEffect ctx = Some executeEffect \<longrightarrow> seen (snd (executeEffect effect w)) = seen w @ [effect]) \<and>
     (\<forall>name phase d w. seen (ec_emitTool ctx name phase d w) = seen w) \<and> (\<forall>request w. seen (snd (go_fetch opts request w)) = seen w) \<and>
     (\<forall>heartbeat w. go_heartbeat opts = Some heartbeat \<longrightarrow> seen (heartbeat w) = seen w) \<and>
     (\<forall>onTurn out w. go_onTurn opts = Some onTurn \<longrightarrow> seen (onTurn out w) = seen w)"

lemma run_call_spec:
  assumes "records_effects opts ctx seen" "run_call opts ctx index call w = (Inr ob, w')"
  shows "ob_name ob = tc_name call"
    and "seen w' = seen w @ (case call_effect opts ctx index call of None \<Rightarrow> [] | Some effect \<Rightarrow> [effect])"
    and "call_effect opts ctx index call = None \<Longrightarrow> \<not> ob_ok ob"
  using assms unfolding records_effects_def run_call_def call_effect_def Let_def
  by (auto simp: observe_def refused_observation_def split: option.splits sum.splits prod.splits) (metis snd_conv)+

lemma run_calls_spec:
  assumes "records_effects opts ctx seen" "run_calls opts ctx index calls w = (Inr obs, w')"
  shows "map ob_name obs = map tc_name calls \<and> seen w' = seen w @ turn_effects opts ctx index calls \<and>
    (\<forall>i < length calls. call_effect opts ctx (index + i) (calls ! i) = None \<longrightarrow> \<not> ob_ok (obs ! i))"
  using assms(2)
proof (induction calls arbitrary: index w obs)
  case (Cons call calls)
  obtain ob w1 obs1 where one: "run_call opts ctx index call w = (Inr ob, w1)" and rest: "run_calls opts ctx (Suc index) calls w1 = (Inr obs1, w')"
    and obs: "obs = ob # obs1"
    using Cons.prems by (auto split: prod.splits sum.splits simp: map_sum_def apfst_def map_prod_def)
  show ?case using run_call_spec [OF assms(1) one] Cons.IH [OF rest] obs by (auto simp: nth_Cons split: nat.splits)
qed simp

lemma ask_model_quiet: "records_effects opts ctx seen \<Longrightarrow> ask_model opts msgs now w = (r, w') \<Longrightarrow> seen w' = seen w"
  unfolding records_effects_def ask_model_def by (auto split: prod.splits sum.splits option.splits if_splits) (metis snd_conv)+

text \<open>
  C29: what a turn executes. After a turn that returns, the effects executed are exactly those of the tool calls the
  model asked for, once each and in that order; there is one observation per call, under its name, and a
  call that maps to no effect, or has no rung to run on, is recorded as failed. When the gateway
  answers with an error status nothing is executed.
\<close>

theorem turn_effects_in_order:
  assumes "records_effects opts ctx seen" and "engine_run opts msgs ctx startedAt now w = (result, w')"
  shows "case result of
      Inr out \<Rightarrow> seen w' = seen w @ turn_effects opts ctx 0 (to_toolCalls out) \<and>
        map ob_name (to_observations out) = map tc_name (to_toolCalls out) \<and>
        (\<forall>i < length (to_toolCalls out). call_effect opts ctx i (to_toolCalls out ! i) = None \<longrightarrow> \<not> ob_ok (to_observations out ! i))
    | Inl (GatewayHttpError _ _ _) \<Rightarrow> seen w' = seen w
    | Inl (PlainError _) \<Rightarrow> True"
proof -
  obtain r w1 where ask: "ask_model opts msgs now (opt_or (go_heartbeat opts) id w) = (r, w1)" by fastforce
  have quiet: "seen w1 = seen w"
    using ask_model_quiet [OF assms(1) ask] assms(1) by (auto simp: records_effects_def opt_or_def split: option.splits)
  show ?thesis
  proof (cases result)
    case (Inl e)
    then show ?thesis using assms(2) ask quiet
      by (auto simp: engine_run_def Let_def split: sum.splits prod.splits engine_error.splits)
  next
    case (Inr out)
    then obtain body content calls obs w2 where r: "r = Inr body" and run: "run_calls opts ctx 0 calls w1 = (Inr obs, w2)"
      and out: "out = outcome_of opts body content calls obs (now - startedAt)" and w': "w' = opt_or (go_onTurn opts) (\<lambda>_. id) out w2"
      using assms(2) ask by (auto simp: engine_run_def Let_def split: sum.splits prod.splits)
    have "seen w' = seen w2" using assms(1) w' by (auto simp: records_effects_def opt_or_def split: option.splits)
    then show ?thesis using run_calls_spec [OF assms(1) run] quiet Inr out by (simp add: outcome_of_def)
  qed
qed

subsection \<open>A concrete turn\<close>

definition sample_reply :: "string \<Rightarrow> json option" where
  "sample_reply s =
     (if s = ''reply'' then Some (JObj [(''choices'', JArr [JObj [(''message'', JObj [(''content'', JStr ''calls'')])]])])
      else if s = ''calls''
      then Some (JArr [JObj [(''name'', JStr ''read''), (''args'', JObj [(''path'', JStr ''a'')])], JObj [(''name'', JStr ''dance'')],
                       JObj [(''name'', JStr ''read''), (''args'', JObj [(''path'', JStr ''b'')])]])
      else None)"

definition sample_to_effect :: "GatewayToolCall \<Rightarrow> string \<Rightarrow> nat \<Rightarrow> string + Effect option" where
  "sample_to_effect call agentId index =
     Inr (if tc_name call = ''read'' then Some \<lparr>eff_id = show_nat index, eff_body = WorkspaceRead ''a''\<rparr> else None)"

definition sample_hints :: router_config where
  "sample_hints = \<lparr>rc_backends = [], rc_profiles = [], rc_affinityTtlMs = 0, rc_number = (\<lambda>_. None), rc_date = (\<lambda>_. None)\<rparr>"

definition sample_options :: "Effect list GatewayAgentEngineOptions" where
  "sample_options =
     \<lparr>go_baseUrl = ''http://gateway/'', go_model = ''m'', go_apiKey = None, go_timeoutMs = None,
      go_fetch = (\<lambda>_ w. (Inr \<lparr>hs_status = 200, hs_headers = [], hs_body = ''reply''\<rparr>, w)), go_parse = sample_reply, go_hints = sample_hints,
      go_heartbeat = None, go_systemPrompt = [], go_buildUserMessage = (\<lambda>_. []), go_parseToolCalls = None,
      go_toEffect = Some sample_to_effect, go_onTurn = None\<rparr>"

definition sample_context :: "Effect list AgentEngineContext" where
  "sample_context = \<lparr>ec_agentId = ''a'', ec_emitTool = (\<lambda>_ _ _ w. w), ec_executeEffect = Some (\<lambda>effect w. (Inr ok_result, w @ [effect]))\<rparr>"

theorem turn_effects_in_order_witness:
  "map eff_id (snd (engine_run sample_options [] sample_context 0 1 [])) = [''0'', ''2''] \<and>
   (\<exists>out. fst (engine_run sample_options [] sample_context 0 1 []) = Inr out \<and> map ob_name (to_observations out) = [''read'', ''dance'', ''read''] \<and>
      \<not> ob_ok (to_observations out ! 1))"
proof -
  let ?run = "engine_run sample_options [] sample_context 0 1 []"
  have hyp: "records_effects sample_options sample_context id"
    by (simp add: records_effects_def sample_options_def sample_context_def)
  have names: "map_sum id (map tc_name \<circ> to_toolCalls) (fst ?run) = Inr [''read'', ''dance'', ''read'']" by code_simp
  then obtain out where out: "fst ?run = Inr out" and calls: "map tc_name (to_toolCalls out) = [''read'', ''dance'', ''read'']"
    by (cases "fst ?run") auto
  have "?run = (Inr out, snd ?run)" using out by (simp add: prod_eq_iff)
  note spec = turn_effects_in_order [OF hyp this, simplified]
  obtain x y z where list: "to_toolCalls out = [x, y, z]" and "tc_name x = ''read''" "tc_name y = ''dance''" "tc_name z = ''read''"
    using calls by (auto simp: map_eq_Cons_conv)
  moreover have "show_nat 0 = ''0''" "show_nat (Suc (Suc 0)) = ''2''" by code_simp+
  ultimately show ?thesis
    using spec out by (auto simp: call_effect_def sample_options_def sample_context_def sample_to_effect_def less_Suc_eq)
qed

end
