(* ===== verification/Run_Turn.thy ===== *)
theory Run_Turn
  imports Gateway_Engine_Laws Sandbox_Executor
begin

text \<open>
  The \<^verbatim>\<open>runTurn\<close> activity (\<^verbatim>\<open>src/integrations/temporal/src/gateway-run-turn.ts\<close>, its records from
  \<^verbatim>\<open>contracts.ts\<close>): it resolves the execution rung, runs the shared turn body on it, and turns the
  outcome into a result and a failure into Temporal's retry taxonomy. Metrics and log lines are not
  modelled, nor the test seam that replaces the engine.
\<close>

subsection \<open>Records\<close>

record DurableMailboxMessage =
  dm_id :: string
  dm_role :: message_role
  dm_text :: string
  dm_createdAt :: int
  dm_kind :: "string option"

datatype tool_effect = ToolRead | ToolWrite | ToolReplace | ToolList | ToolDelete | ToolExec

record DurableToolSpec =
  dt_name :: string
  dt_effect :: tool_effect
  dt_pathArg :: "string option"
  dt_contentArg :: "string option"
  dt_oldTextArg :: "string option"
  dt_newTextArg :: "string option"
  dt_commandArg :: "string option"
  dt_command :: "string option"
  dt_cwdArg :: "string option"
  dt_timeoutArg :: "string option"
  dt_resourceClass :: "string option"

record SandboxRungConfig =
  sg_namespace :: "string option"
  sg_image :: "string option"
  sg_kubectlContext :: "string option"
  sg_files :: "(string, string) jsmap option"

datatype DurableRungConfig = NoRung | SyntheticRung "string option" "(string, string) jsmap option" | SandboxRung SandboxRungConfig

record DurableTurnConfig =
  tg_systemPrompt :: "string option"
  tg_tools :: "DurableToolSpec list option"
  tg_rung :: "DurableRungConfig option"
  tg_scored :: "bool option"

record RunTurnInput =
  ti_agentId :: string
  ti_messages :: "DurableMailboxMessage list"
  ti_config :: "DurableTurnConfig option"

record EventClassification =
  ev_classification :: string
  ev_reaction :: string

datatype turn_result =
    ToolTurn string "GatewayToolCall list" "GatewayToolObservation list" rat
  | TriageTurn "EventClassification list" rat

record GatewayTurnRecord =
  gr_agentId :: string
  gr_attempt :: nat
  gr_plantedKinds :: "string option list"
  gr_classifications :: "EventClassification list"
  gr_requestedModel :: string
  gr_servedModel :: "string option"
  gr_modelSubstituted :: bool
  gr_latencyMs :: rat
  gr_usage :: "json option"
  gr_tools :: "(GatewayToolCall list \<times> GatewayToolObservation list \<times> string) option"

datatype activity_error = TurnError engine_error | NonRetryable string string | RateLimited string rat

record 'w TurnRung =
  tn_isolated :: "bool option"
  tn_persistent :: bool
  tn_executeEffect :: "Effect \<Rightarrow> 'w \<Rightarrow> (string + EffectResult) \<times> 'w"
  tn_checkpoint :: "('w \<Rightarrow> (string + unit) \<times> 'w) option"
  tn_close :: "('w \<Rightarrow> (string + unit) \<times> 'w) option"

text \<open>The heartbeat is that of the rung's receipt store, or of the activity's when there is no rung.\<close>

record 'w GatewayRunTurnOptions =
  gw_baseUrl :: string
  gw_model :: string
  gw_apiKey :: "string option"
  gw_timeoutMs :: "int option"
  gw_fetch :: "ModelRequest \<Rightarrow> 'w \<Rightarrow> (string + HttpResponse) \<times> 'w"
  gw_parse :: "string \<Rightarrow> json option"
  gw_hints :: router_config
  gw_heartbeat :: "'w TurnRung option \<Rightarrow> 'w \<Rightarrow> 'w"
  gw_onTurn :: "(GatewayTurnRecord \<Rightarrow> 'w \<Rightarrow> 'w) option"
  gw_rungFactory :: "DurableRungConfig \<Rightarrow> RunTurnInput \<Rightarrow> 'w \<Rightarrow> (string + 'w TurnRung) \<times> 'w"

subsection \<open>Errors\<close>

definition PERMANENT_HTTP_STATUSES :: "int list" where
  "PERMANENT_HTTP_STATUSES = [400, 401, 402, 403, 404, 422]"

definition toTemporalError :: "engine_error \<Rightarrow> activity_error" where
  "toTemporalError err =
     (case err of
        GatewayHttpError message status retryAfterMs \<Rightarrow>
          if status \<in> set PERMANENT_HTTP_STATUSES then NonRetryable message (''GatewayHTTP'' @ show_int status)
          else (case retryAfterMs of
                  Some ms \<Rightarrow> if status = 429 \<or> status = 503 then RateLimited message ms else TurnError err
                | None \<Rightarrow> TurnError err)
      | PlainError _ \<Rightarrow> TurnError err)"

definition assertRungAllowedForScored :: "'w TurnRung \<Rightarrow> bool \<Rightarrow> string option" where
  "assertRungAllowedForScored rung scored =
     (if scoredRungAllowed (tn_isolated rung) scored then None
      else Some ''UNISOLATED_RUNG_REFUSED: a scored run requires an isolated (sandbox) rung'')"

subsection \<open>Messages and classifications\<close>

definition TRIAGE_SYSTEM_PROMPT :: string where
  "TRIAGE_SYSTEM_PROMPT = join_with (CHR 0x0A)
     [''You triage a stream of events for an operations desk.'',
      ''Classify each event into exactly one class:'',
      ''- '' @ json_quote ''news'' @ '': factual reporting or an announcement from an institution or news outlet.'',
      ''- '' @ json_quote ''social_post'' @ '': an informal, personal post from an individual on social media.'',
      ''- '' @ json_quote ''incident'' @ '': an operational alert about a system failure or degradation that needs action.'',
      ''For each event also give a short reaction (at most 12 words) describing what the desk should do.'',
      ''Reply with ONLY a JSON object of the form {'' @ json_quote ''events'' @ '':[{'' @ json_quote ''classification'' @ '':'' @
        json_quote ''news|social_post|incident'' @ '','' @ json_quote ''reaction'' @ '':'' @ json_quote ''...'' @ ''}]}'',
      ''containing exactly one entry per event, in the same order as the events were listed.'',
      ''No prose, no markdown, no code fences.'']"

definition numbered :: "nat \<Rightarrow> string \<Rightarrow> string" where
  "numbered index text = show_nat (Suc index) @ ''. '' @ text"

definition buildTriageUserMessage :: "AgentMessage list \<Rightarrow> string" where
  "buildTriageUserMessage msgs =
     ''Classify these '' @ show_nat (length msgs) @ '' event(s), in order:'' @ [CHR 0x0A] @
     join_with (CHR 0x0A) (map (\<lambda>(index, m). numbered index (m_text m)) (List.enumerate 0 msgs))"

definition extractJsonObject :: "(string \<Rightarrow> json option) \<Rightarrow> string \<Rightarrow> string + json" where
  "extractJsonObject parse text =
     (let stripped = strip_fences text
      in case parse stripped of
           Some v \<Rightarrow> Inr v
         | None \<Rightarrow>
             (case brace_slice stripped of
                None \<Rightarrow> Inl (''model reply is not JSON: '' @ take 200 stripped)
              | Some part \<Rightarrow> (case parse part of None \<Rightarrow> Inl ''SyntaxError'' | Some v \<Rightarrow> Inr v)))"

definition classify_entry :: "nat \<Rightarrow> json \<Rightarrow> string + EventClassification" where
  "classify_entry index entry =
     (case jfield (Some entry) ''classification'' of
        Some (JStr c) \<Rightarrow>
          Inr \<lparr>ev_classification = map to_lower (js_trim c),
               ev_reaction = (case jfield (Some entry) ''reaction'' of Some (JStr r) \<Rightarrow> r | _ \<Rightarrow> [])\<rparr>
      | _ \<Rightarrow> Inl (''event '' @ show_nat (Suc index) @ '' has no string classification''))"

fun classify_from :: "nat \<Rightarrow> json list \<Rightarrow> string + EventClassification list" where
  "classify_from index [] = Inr []"
| "classify_from index (entry # entries) =
     (case classify_entry index entry of Inl e \<Rightarrow> Inl e | Inr c \<Rightarrow> map_sum id (Cons c) (classify_from (Suc index) entries))"

definition parseClassifications :: "(string \<Rightarrow> json option) \<Rightarrow> string \<Rightarrow> nat \<Rightarrow> string + EventClassification list" where
  "parseClassifications parse text expected =
     (case extractJsonObject parse text of
        Inl e \<Rightarrow> Inl e
      | Inr parsed \<Rightarrow>
          (case jfield (Some parsed) ''events'' of
             Some (JArr events) \<Rightarrow>
               if length events \<noteq> expected
               then Inl (''model returned '' @ show_nat (length events) @ '' classifications for '' @ show_nat expected @ '' events'')
               else classify_from 0 events
           | _ \<Rightarrow> Inl (''model reply has no '' @ json_quote ''events'' @ '' array: '' @ take 200 text)))"

definition toAgentMessage :: "DurableMailboxMessage \<Rightarrow> AgentMessage" where
  "toAgentMessage m = \<lparr>m_id = dm_id m, m_role = dm_role m, m_text = dm_text m, m_createdAt = dm_createdAt m, m_metadata = None\<rparr>"

subsection \<open>Tools\<close>

text \<open>\<^verbatim>\<open>String(value)\<close> on a parsed value.\<close>

fun js_String :: "json \<Rightarrow> string" where
  "js_String JNull = ''null''"
| "js_String (JBool b) = (if b then ''true'' else ''false'')"
| "js_String (JNum n) = show_int n"
| "js_String (JStr s) = s"
| "js_String (JArr xs) = join_with (CHR '','') (map (\<lambda>x. if x = JNull then [] else js_String x) xs)"
| "js_String (JObj _) = ''[object Object]''"

text \<open>\<^verbatim>\<open>arg\<close>. A value that is not an object has none of the named properties.\<close>

definition tool_arg :: "json \<Rightarrow> string \<Rightarrow> string option" where
  "tool_arg arguments name =
     (case jfield (Some arguments) name of None \<Rightarrow> None | Some JNull \<Rightarrow> None | Some v \<Rightarrow> Some (js_String v))"

definition effect_id :: "string \<Rightarrow> string \<Rightarrow> nat \<Rightarrow> string" where
  "effect_id agentId name index = agentId @ '':'' @ name @ '':'' @ show_nat index"

definition tool_body :: "DurableToolSpec \<Rightarrow> json \<Rightarrow> effect_body" where
  "tool_body spec arguments =
     (let arg = (\<lambda>named default. tool_arg arguments (opt_or named default));
          path = opt_or (arg (dt_pathArg spec) ''path'') []
      in case dt_effect spec of
           ToolRead \<Rightarrow> WorkspaceRead path
         | ToolWrite \<Rightarrow> WorkspaceWrite path (opt_or (arg (dt_contentArg spec) ''content'') [])
         | ToolReplace \<Rightarrow> WorkspaceReplace path (opt_or (arg (dt_oldTextArg spec) ''old_text'') []) (opt_or (arg (dt_newTextArg spec) ''new_text'') [])
         | ToolDelete \<Rightarrow> WorkspaceDelete path
         | ToolList \<Rightarrow> WorkspaceList (arg (dt_pathArg spec) ''path'')
         | ToolExec \<Rightarrow>
             ProcessExecEffect
               \<lparr>px_command = (case dt_command spec of Some c \<Rightarrow> c | None \<Rightarrow> opt_or (arg (dt_commandArg spec) ''command'') []),
                px_cwd = arg (dt_cwdArg spec) ''cwd'', px_env = None,
                px_timeoutMs = (case jfield (Some arguments) (opt_or (dt_timeoutArg spec) ''timeoutMs'') of Some (JNum n) \<Rightarrow> Some n | _ \<Rightarrow> None),
                px_resourceClass = (case dt_resourceClass spec of Some c \<Rightarrow> if c = [] then None else Some c | None \<Rightarrow> None)\<rparr>)"

text \<open>Reading an argument of \<^verbatim>\<open>null\<close> arguments throws.\<close>

definition buildToEffect :: "DurableToolSpec list \<Rightarrow> GatewayToolCall \<Rightarrow> string \<Rightarrow> nat \<Rightarrow> string + Effect option" where
  "buildToEffect tools call agentId index =
     (let byName = foldl (\<lambda>m tool. js_set (dt_name tool) tool m) [] tools
      in case js_get byName (tc_name call) of
           None \<Rightarrow> Inr None
         | Some spec \<Rightarrow>
             if tc_arguments call = JNull then Inl ''TypeError''
             else Inr (Some \<lparr>eff_id = effect_id agentId (tc_name call) index, eff_body = tool_body spec (tc_arguments call)\<rparr>))"

subsection \<open>The activity\<close>

definition buildTurnContext :: "RunTurnInput \<Rightarrow> 'w TurnRung option \<Rightarrow> 'w AgentEngineContext" where
  "buildTurnContext input rung =
     \<lparr>ec_agentId = ti_agentId input, ec_emitTool = (\<lambda>_ _ _ w. w), ec_executeEffect = map_option tn_executeEffect rung\<rparr>"

definition turn_config :: "RunTurnInput \<Rightarrow> DurableTurnConfig" where
  "turn_config input = opt_or (ti_config input) \<lparr>tg_systemPrompt = None, tg_tools = None, tg_rung = None, tg_scored = None\<rparr>"

definition tool_mode :: "RunTurnInput \<Rightarrow> bool" where
  "tool_mode input = (case tg_tools (turn_config input) of Some (_ # _) \<Rightarrow> True | _ \<Rightarrow> False)"

text \<open>An empty system prompt is kept as it is, but the user message is then the triage one.\<close>

definition turn_engine :: "'w GatewayRunTurnOptions \<Rightarrow> RunTurnInput \<Rightarrow> 'w TurnRung option \<Rightarrow> 'w GatewayAgentEngineOptions" where
  "turn_engine opts input rung =
     \<lparr>go_baseUrl = gw_baseUrl opts, go_model = gw_model opts, go_apiKey = gw_apiKey opts, go_timeoutMs = gw_timeoutMs opts,
      go_fetch = gw_fetch opts, go_parse = gw_parse opts, go_hints = gw_hints opts, go_heartbeat = Some (gw_heartbeat opts rung),
      go_systemPrompt = opt_or (tg_systemPrompt (turn_config input)) TRIAGE_SYSTEM_PROMPT,
      go_buildUserMessage = (\<lambda>msgs. if opt_or (tg_systemPrompt (turn_config input)) [] \<noteq> [] then join_with (CHR 0x0A) (map m_text msgs)
                                    else buildTriageUserMessage msgs),
      go_parseToolCalls = None, go_toEffect = map_option buildToEffect (tg_tools (turn_config input)), go_onTurn = None\<rparr>"

definition resolve_rung :: "'w GatewayRunTurnOptions \<Rightarrow> RunTurnInput \<Rightarrow> 'w \<Rightarrow> (string + 'w TurnRung option) \<times> 'w" where
  "resolve_rung opts input w =
     (case tg_rung (turn_config input) of
        None \<Rightarrow> (Inr None, w)
      | Some NoRung \<Rightarrow> (Inr None, w)
      | Some config \<Rightarrow>
          (case gw_rungFactory opts config input w of
             (Inl e, w') \<Rightarrow> (Inl e, w')
           | (Inr rung, w') \<Rightarrow>
               (case assertRungAllowedForScored rung (tg_scored (turn_config input) = Some True) of
                  Some e \<Rightarrow> (Inl e, w')
                | None \<Rightarrow> (Inr (Some rung), w'))))"

text \<open>The \<^verbatim>\<open>finally\<close> block: a failing checkpoint is ignored, a failing close is thrown.\<close>

definition finish_rung :: "'w TurnRung option \<Rightarrow> 'w \<Rightarrow> (string + unit) \<times> 'w" where
  "finish_rung rung w =
     (case rung of
        None \<Rightarrow> (Inr (), w)
      | Some r \<Rightarrow>
          if tn_persistent r then (Inr (), case tn_checkpoint r of None \<Rightarrow> w | Some checkpoint \<Rightarrow> snd (checkpoint w))
          else (case tn_close r of None \<Rightarrow> (Inr (), w) | Some close \<Rightarrow> close w))"

definition turn_record :: "RunTurnInput \<Rightarrow> nat \<Rightarrow> EventClassification list \<Rightarrow> GatewayTurnOutcome \<Rightarrow> GatewayTurnRecord" where
  "turn_record input attempt classifications out =
     \<lparr>gr_agentId = ti_agentId input, gr_attempt = attempt, gr_plantedKinds = map dm_kind (ti_messages input),
      gr_classifications = classifications, gr_requestedModel = to_requestedModel out, gr_servedModel = to_servedModel out,
      gr_modelSubstituted = to_modelSubstituted out, gr_latencyMs = to_latencyMs out, gr_usage = to_usage out,
      gr_tools = (if tool_mode input then Some (to_toolCalls out, to_observations out, to_content out) else None)\<rparr>"

definition runTurn :: "'w GatewayRunTurnOptions \<Rightarrow> RunTurnInput \<Rightarrow> nat \<Rightarrow> rat \<Rightarrow> rat \<Rightarrow> 'w \<Rightarrow> (activity_error + turn_result) \<times> 'w" where
  "runTurn opts input attempt startedAt now w =
     (case resolve_rung opts input w of
        (Inl e, w1) \<Rightarrow> (Inl (TurnError (PlainError e)), w1)
      | (Inr rung, w1) \<Rightarrow>
          (let (outcome, w2) = engine_run (turn_engine opts input rung) (map toAgentMessage (ti_messages input)) (buildTurnContext input rung) startedAt now w1;
               (closed, w3) = finish_rung rung w2
           in case (closed, outcome) of
                (Inl e, _) \<Rightarrow> (Inl (TurnError (PlainError e)), w3)
              | (Inr _, Inl e) \<Rightarrow> (Inl (toTemporalError e), w3)
              | (Inr _, Inr out) \<Rightarrow>
                  (case (if tool_mode input then Inr [] else parseClassifications (gw_parse opts) (to_content out) (length (ti_messages input))) of
                     Inl e \<Rightarrow> (Inl (TurnError (PlainError e)), w3)
                   | Inr classifications \<Rightarrow>
                       (Inr (if tool_mode input then ToolTurn (to_content out) (to_toolCalls out) (to_observations out) (to_latencyMs out)
                             else TriageTurn classifications (to_latencyMs out)),
                        opt_or (gw_onTurn opts) (\<lambda>_. id) (turn_record input attempt classifications out) w3))))"

subsection \<open>The default rungs of a worker process\<close>

text \<open>
  The module-level state: the workspaces, the cached sandbox rungs, and the receipt stores of the activity
  attempts, by number. A cached rung keeps the store it was built with. The workspace of a sandbox rung is
  the same object as the entry of the workspace map. Every executor of a rung has its own leases; backend,
  pool and cluster are the parameter \<open>env\<close> and the world \<open>'w\<close>.
\<close>

record sandbox_cache =
  sc_config :: SandboxRungConfig
  sc_store :: "nat option"
  sc_leases :: "(string, (string, WorkspaceLease) jsmap) jsmap"

record 'w worker =
  wk_syntheticWorkspaces :: "(string, MemoryWorkspace) jsmap"
  wk_sandboxRungs :: "(string, sandbox_cache) jsmap"
  wk_stores :: "(EffectResult, unit) temporal_state list"
  wk_world :: 'w

record 'w rung_env =
  re_k8s :: "SandboxRungConfig \<Rightarrow> string \<Rightarrow> 'w k8s_env"
  re_maintain :: "string \<Rightarrow> ('w, unit) io"
  re_closePool :: "string \<Rightarrow> ('w, unit) io"

fun seed_files :: "(string \<times> string) list \<Rightarrow> MemoryWorkspace \<Rightarrow> string + MemoryWorkspace" where
  "seed_files [] ws = Inr ws"
| "seed_files ((path, content) # files) ws =
     (case ws_write ws path content of Inl e \<Rightarrow> Inl (ws_error_text e) | Inr ws' \<Rightarrow> seed_files files ws')"

definition seedWorkspace :: "string \<Rightarrow> (string, string) jsmap option \<Rightarrow> ('w worker, unit) io" where
  "seedWorkspace workspaceId files wk =
     (case js_get (wk_syntheticWorkspaces wk) workspaceId of
        Some _ \<Rightarrow> (Inr (), wk)
      | None \<Rightarrow>
          (case seed_files (opt_or files []) (new_workspace workspaceId None) of
             Inl e \<Rightarrow> (Inl e, wk)
           | Inr ws \<Rightarrow> (Inr (), wk\<lparr>wk_syntheticWorkspaces := js_set workspaceId ws (wk_syntheticWorkspaces wk)\<rparr>)))"

definition rung_key :: "string \<Rightarrow> string" where
  "rung_key agentId = ''temporal:'' @ agentId"

text \<open>\<^verbatim>\<open>broker.execute\<close> over the receipt store of an activity attempt, if there is one.\<close>

definition store_execute ::
  "nat option \<Rightarrow> 'w worker executor list \<Rightarrow> EffectContext \<Rightarrow> int \<Rightarrow> Effect \<Rightarrow> 'w worker \<Rightarrow> (string + EffectResult) \<times> 'w worker" where
  "store_execute store executors ctx now effect wk =
     (case store of
        Some n \<Rightarrow>
          (let (r, s, wk') = broker_execute (Some temporal_ops) executors effect ctx 0 now now (wk_stores wk ! n, wk)
           in (r, wk'\<lparr>wk_stores := (wk_stores wk')[n := s]\<rparr>))
      | None \<Rightarrow>
          (let (r, s, wk') = broker_execute (None :: (EffectResult, unit) temporal_state receipt_ops option) executors effect ctx 0 now now (temporal_new None, wk)
           in (r, wk')))"

text \<open>The synthetic executor on the one workspace of its rung; its rung has no blob store.\<close>

definition worker_synthetic :: "string \<Rightarrow> int \<Rightarrow> 'w worker executor" where
  "worker_synthetic workspaceId now =
     (let inner = synthetic_executor (None :: (unit \<Rightarrow> string \<Rightarrow> PutBlobOptions \<Rightarrow> (blob_error + BlobRef) \<times> unit) option) [] now;
          view = (\<lambda>wk. \<lparr>sw_workspaces = filter (\<lambda>(k, _). k = workspaceId) (wk_syntheticWorkspaces wk), sw_blobs = ()\<rparr>)
      in \<lparr>x_id = x_id inner, x_fidelity = x_fidelity inner, x_resourceClassId = x_resourceClassId inner,
          x_canExecute = (\<lambda>effect ctx wk. x_canExecute inner effect ctx (view wk)),
          x_execute = (\<lambda>effect ctx wk.
            let (r, w) = x_execute inner effect ctx (view wk)
            in (r, wk\<lparr>wk_syntheticWorkspaces :=
                 (case js_get (sw_workspaces w) workspaceId of
                    None \<Rightarrow> wk_syntheticWorkspaces wk
                  | Some ws \<Rightarrow> js_set workspaceId ws (wk_syntheticWorkspaces wk))\<rparr>))\<rparr>)"

definition syntheticRung :: "string option \<Rightarrow> (string, string) jsmap option \<Rightarrow> RunTurnInput \<Rightarrow> nat option \<Rightarrow> int \<Rightarrow> ('w worker, 'w worker TurnRung) io" where
  "syntheticRung named files input store now =
     (let workspaceId = opt_or named (rung_key (ti_agentId input));
          ctx = \<lparr>ctx_agentId = ti_agentId input, ctx_taskId = None, ctx_workspaceId = workspaceId, ctx_executionPolicy = None\<rparr>
      in and_then (seedWorkspace workspaceId files) (\<lambda>_. ret
           \<lparr>tn_isolated = Some False, tn_persistent = False, tn_executeEffect = store_execute store [worker_synthetic workspaceId now] ctx now,
            tn_checkpoint = None, tn_close = None\<rparr>))"

subsection \<open>The sandbox rung\<close>

definition rung_classes :: "SandboxRungConfig \<Rightarrow> KubernetesResourceClass list" where
  "rung_classes config =
     map (\<lambda>c. c\<lparr>rc_image := opt_or (sg_image config) EXECUTOR_IMAGE\<rparr>) (filter (\<lambda>c. rc_id c \<noteq> ''project-cell'') DEFAULT_KUBERNETES_RESOURCE_CLASSES)"

definition class_leases :: "string \<Rightarrow> string \<Rightarrow> 'w worker \<Rightarrow> (string, WorkspaceLease) jsmap" where
  "class_leases key cid wk = (case js_get (wk_sandboxRungs wk) key of None \<Rightarrow> [] | Some c \<Rightarrow> opt_or (js_get (sc_leases c) cid) [])"

definition box_view :: "string \<Rightarrow> string \<Rightarrow> 'w worker \<Rightarrow> 'w sandbox_rung" where
  "box_view key cid wk =
     \<lparr>sx_leases = class_leases key cid wk, sx_workspaces = filter (\<lambda>(k, _). k = key) (wk_syntheticWorkspaces wk), sx_world = wk_world wk\<rparr>"

definition box_put :: "string \<Rightarrow> string \<Rightarrow> 'w sandbox_rung \<Rightarrow> 'w worker \<Rightarrow> 'w worker" where
  "box_put key cid st wk =
     wk\<lparr>wk_world := sx_world st,
        wk_syntheticWorkspaces :=
          (case js_get (sx_workspaces st) key of None \<Rightarrow> wk_syntheticWorkspaces wk | Some ws \<Rightarrow> js_set key ws (wk_syntheticWorkspaces wk)),
        wk_sandboxRungs :=
          (case js_get (wk_sandboxRungs wk) key of
             None \<Rightarrow> wk_sandboxRungs wk
           | Some c \<Rightarrow> js_set key (c\<lparr>sc_leases := js_set cid (sx_leases st) (sc_leases c)\<rparr>) (wk_sandboxRungs wk))\<rparr>"

definition worker_box :: "'w k8s_env \<Rightarrow> string \<Rightarrow> KubernetesResourceClass \<Rightarrow> 'w worker executor" where
  "worker_box env key resourceClass =
     (let inner = sandbox_executor env resourceClass
      in \<lparr>x_id = x_id inner, x_fidelity = x_fidelity inner, x_resourceClassId = x_resourceClassId inner,
          x_canExecute = (\<lambda>effect ctx wk. x_canExecute inner effect ctx (box_view key (rc_id resourceClass) wk)),
          x_execute = (\<lambda>effect ctx wk.
            let (r, st) = x_execute inner effect ctx (box_view key (rc_id resourceClass) wk)
            in (r, box_put key (rc_id resourceClass) st wk))\<rparr>)"

definition sandbox_ctx :: "SandboxRungConfig \<Rightarrow> string \<Rightarrow> EffectContext" where
  "sandbox_ctx config agentId =
     \<lparr>ctx_agentId = agentId, ctx_taskId = None, ctx_workspaceId = rung_key agentId,
      ctx_executionPolicy = Some \<lparr>ep_preferredClass = Some ''sandbox-small'', ep_allowedClasses = Some (map rc_id (rung_classes config)),
        ep_minFidelity = None, ep_allowEscalation = Some True, ep_projectCellId = None\<rparr>\<rparr>"

text \<open>The first executor that holds a pod for the workspace is checkpointed, and only that one.\<close>

fun rung_checkpoint :: "'w k8s_env \<Rightarrow> string \<Rightarrow> KubernetesResourceClass list \<Rightarrow> ('w worker, unit) io" where
  "rung_checkpoint env key [] wk = (Inr (), wk)"
| "rung_checkpoint env key (cl # cls) wk =
     (if hasSandbox key (box_view key (rc_id cl) wk)
      then (case box_checkpoint env key (box_view key (rc_id cl) wk) of
              (Inl e, st) \<Rightarrow> (Inl e, box_put key (rc_id cl) st wk)
            | (Inr _, st) \<Rightarrow> (Inr (), box_put key (rc_id cl) st wk))
      else rung_checkpoint env key cls wk)"

definition rung_close :: "'w rung_env \<Rightarrow> SandboxRungConfig \<Rightarrow> string \<Rightarrow> ('w worker, unit) io" where
  "rung_close env config key wk =
     (let closed = foldl (\<lambda>w cl. sx_world (box_close (re_k8s env config key) ((box_view key (rc_id cl) wk)\<lparr>sx_world := w\<rparr>)))
                     (wk_world wk) (rung_classes config);
          (r, w) = re_closePool env key closed
      in (r, wk\<lparr>wk_sandboxRungs := js_delete key (wk_sandboxRungs wk), wk_world := w\<rparr>))"

text \<open>The live rung of a cache entry: what the closures of the object captured.\<close>

definition cached_rung :: "'w rung_env \<Rightarrow> string \<Rightarrow> int \<Rightarrow> sandbox_cache \<Rightarrow> 'w worker TurnRung" where
  "cached_rung env agentId now c =
     (let key = rung_key agentId; k8s = re_k8s env (sc_config c) key
      in \<lparr>tn_isolated = Some True, tn_persistent = True,
          tn_executeEffect = store_execute (sc_store c) (map (worker_box k8s key) (rung_classes (sc_config c))) (sandbox_ctx (sc_config c) agentId) now,
          tn_checkpoint = Some (rung_checkpoint k8s key (rung_classes (sc_config c))),
          tn_close = Some (rung_close env (sc_config c) key)\<rparr>)"

definition sandboxRung :: "'w rung_env \<Rightarrow> SandboxRungConfig \<Rightarrow> RunTurnInput \<Rightarrow> nat option \<Rightarrow> int \<Rightarrow> ('w worker, 'w worker TurnRung) io" where
  "sandboxRung env config input store now wk =
     (let key = rung_key (ti_agentId input)
      in case js_get (wk_sandboxRungs wk) key of
           Some c \<Rightarrow> (Inr (cached_rung env (ti_agentId input) now c), wk)
         | None \<Rightarrow>
             (case re_maintain env key (wk_world wk) of
                (Inl e, w) \<Rightarrow> (Inl e, wk\<lparr>wk_world := w\<rparr>)
              | (Inr _, w) \<Rightarrow>
                  (case seedWorkspace key (sg_files config) (wk\<lparr>wk_world := w\<rparr>) of
                     (Inl e, wk1) \<Rightarrow> (Inl e, wk1)
                   | (Inr _, wk1) \<Rightarrow>
                       (let c = \<lparr>sc_config = config, sc_store = store, sc_leases = []\<rparr>
                        in (Inr (cached_rung env (ti_agentId input) now c), wk1\<lparr>wk_sandboxRungs := js_set key c (wk_sandboxRungs wk1)\<rparr>)))))"

definition closeSandboxRungs :: "'w rung_env \<Rightarrow> 'w worker \<Rightarrow> (string + unit) \<times> 'w worker" where
  "closeSandboxRungs env wk =
     foldl (\<lambda>(r, wk') (key, c). case r of Inl e \<Rightarrow> (Inl e, wk') | Inr _ \<Rightarrow> rung_close env (sc_config c) key wk') (Inr (), wk) (wk_sandboxRungs wk)"

definition defaultRungFactory :: "'w rung_env \<Rightarrow> nat option \<Rightarrow> int \<Rightarrow> DurableRungConfig \<Rightarrow> RunTurnInput \<Rightarrow> ('w worker, 'w worker TurnRung) io" where
  "defaultRungFactory env store now config input =
     (case config of
        SyntheticRung workspaceId files \<Rightarrow> syntheticRung workspaceId files input store now
      | SandboxRung sandbox \<Rightarrow> sandboxRung env sandbox input store now
      | NoRung \<Rightarrow> fail_with ''TypeError'')"

end
