(* ===== verification/Run_Turn_Laws.thy ===== *)
theory Run_Turn_Laws
  imports Run_Turn Workspace_Sync_Laws
begin

text \<open>
  The activity around the turn: the ids of its effects, the guard of scored runs, what the model never
  sees, the failures it reports, and what goes wrong when a rung outlives the turn it was made for.
\<close>

subsection \<open>Effect ids\<close>

lemma show_nat_no_colon: "c \<in> set (show_nat n) \<Longrightarrow> c \<noteq> CHR '':''"
proof (induction n rule: show_nat.induct)
  case (1 n)
  have "char_of (48 + m) \<noteq> CHR '':''" if "m < 10" for m :: nat
  proof
    assume "char_of (48 + m) = CHR '':''"
    then have "(of_char (char_of (48 + m) :: char) :: nat) = of_char (CHR '':'')" by simp
    with that show False by simp
  qed
  then have "char_of (48 + n) \<noteq> CHR '':'' \<or> \<not> n < 10" "char_of (48 + n mod 10) \<noteq> CHR '':''" by auto
  moreover have "set (show_nat n) = (if n < 10 then {char_of (48 + n)} else insert (char_of (48 + n mod 10)) (set (show_nat (n div 10))))"
    by (subst show_nat.simps) simp
  ultimately show ?case using 1 by (auto split: if_splits)
qed

lemma effect_id_index: "effect_id agent name i = effect_id agent name' j \<Longrightarrow> i = j \<and> name = name'"
proof -
  assume "effect_id agent name i = effect_id agent name' j"
  then have eq: "name @ '':'' @ show_nat i = name' @ '':'' @ show_nat j" by (simp add: effect_id_def)
  have tail: "takeWhile (\<lambda>c. c \<noteq> CHR '':'') (rev (n @ '':'' @ show_nat k)) = rev (show_nat k)" for n k
    using show_nat_no_colon by (simp add: takeWhile_append)
  have "rev (show_nat i) = rev (show_nat j)" using tail [of name i] tail [of name' j] eq by metis
  with eq show ?thesis by simp
qed

lemma turn_effects_ids:
  assumes "go_toEffect opts = Some (buildToEffect tools)" "e \<in> set (turn_effects opts ctx index calls)"
  shows "\<exists>i name. i \<ge> index \<and> eff_id e = effect_id (ec_agentId ctx) name i"
  using assms(2)
proof (induction calls arbitrary: index)
  case (Cons call calls)
  then show ?case
    using Cons.IH [of "Suc index"] assms(1) Suc_leD
    by (fastforce simp: call_effect_def buildToEffect_def Let_def split: option.splits if_splits)
qed simp

lemma turn_effects_distinct:
  assumes "go_toEffect opts = Some (buildToEffect tools)"
  shows "distinct (map eff_id (turn_effects opts ctx index calls))"
proof (induction calls arbitrary: index)
  case (Cons call calls)
  have "eff_id e \<notin> eff_id ` set (turn_effects opts ctx (Suc index) calls)" if "call_effect opts ctx index call = Some e" for e
  proof -
    have "eff_id e = effect_id (ec_agentId ctx) (tc_name call) index"
      using that assms by (auto simp: call_effect_def buildToEffect_def Let_def split: option.splits if_splits sum.splits)
    moreover have "eff_id e \<noteq> eff_id e'" if "e' \<in> set (turn_effects opts ctx (Suc index) calls)" for e'
      using turn_effects_ids [OF assms that] effect_id_index calculation by fastforce
    ultimately show ?thesis by blast
  qed
  then show ?case using Cons.IH [of "Suc index"] by (auto split: option.splits)
qed simp

lemma no_tools_no_effects: "go_toEffect opts = None \<Longrightarrow> turn_effects opts ctx index calls = []"
  by (induction calls arbitrary: index) (simp_all add: call_effect_def)

text \<open>
  No effect of a turn is answered by the receipt of another one: the ids the tool calls of one turn get are
  pairwise different, whatever the names and arguments the model chose, a name with colons and digits
  included.
\<close>

theorem turn_effect_ids_distinct:
  "distinct (map eff_id (turn_effects (turn_engine opts input rung) (buildTurnContext input rung) 0 calls))"
proof (cases "tg_tools (turn_config input)")
  case None
  then have "go_toEffect (turn_engine opts input rung) = None" by (simp add: turn_engine_def)
  from no_tools_no_effects [OF this] show ?thesis by simp
next
  case (Some tools)
  then have "go_toEffect (turn_engine opts input rung) = Some (buildToEffect tools)" by (simp add: turn_engine_def)
  from turn_effects_distinct [OF this] show ?thesis .
qed

subsection \<open>Scored runs\<close>

lemma scored_refusal:
  assumes "tg_scored (turn_config input) = Some True" "tg_rung (turn_config input) = Some config" "config \<noteq> NoRung"
    and "gw_rungFactory opts config input w = (Inr rung, w1)" "tn_isolated rung \<noteq> Some True"
  shows "runTurn opts input attempt startedAt now w =
    (Inl (TurnError (PlainError ''UNISOLATED_RUNG_REFUSED: a scored run requires an isolated (sandbox) rung'')), w1)"
  using assms
  by (cases config) (simp_all add: runTurn_def resolve_rung_def assertRungAllowedForScored_def scoredRungAllowed_def)

lemma seedWorkspace_world:
  "seedWorkspace i files wk = (r, wk') \<Longrightarrow> wk_world wk' = wk_world wk \<and> wk_stores wk' = wk_stores wk \<and> wk_sandboxRungs wk' = wk_sandboxRungs wk"
  by (auto simp: seedWorkspace_def split: option.splits sum.splits)

lemma syntheticRung_spec:
  "syntheticRung named files input store now wk = (r, wk') \<Longrightarrow>
   (case r of Inl _ \<Rightarrow> True | Inr rung \<Rightarrow> tn_isolated rung = Some False) \<and>
   wk_world wk' = wk_world wk \<and> wk_stores wk' = wk_stores wk \<and> wk_sandboxRungs wk' = wk_sandboxRungs wk"
  by (auto simp: syntheticRung_def Let_def and_then_def ret_def split: sum.splits prod.splits dest: seedWorkspace_world)

text \<open>
  A scored turn on the worker's own synthetic rung fails before the model is called: it always ends in an error, and
  neither the world the gateway and the cluster live in nor the receipts have changed.
\<close>

theorem scored_turn_refused:
  assumes "gw_rungFactory opts = defaultRungFactory env store time" and "tg_rung (turn_config input) = Some (SyntheticRung named files)"
    and "tg_scored (turn_config input) = Some True" and "runTurn opts input attempt startedAt now wk = (result, wk')"
  shows "(\<exists>e. result = Inl (TurnError (PlainError e))) \<and> wk_world wk' = wk_world wk \<and> wk_stores wk' = wk_stores wk"
proof (cases "syntheticRung named files input store time wk")
  case (Pair r wk1)
  note spec = syntheticRung_spec [OF Pair]
  show ?thesis
  proof (cases r)
    case (Inl e)
    then have "resolve_rung opts input wk = (Inl e, wk1)" using Pair assms by (simp add: resolve_rung_def defaultRungFactory_def)
    then show ?thesis using assms(4) spec by (auto simp: runTurn_def)
  next
    case (Inr rung)
    then have "gw_rungFactory opts (SyntheticRung named files) input wk = (Inr rung, wk1)" using Pair assms(1) by (simp add: defaultRungFactory_def)
    from scored_refusal [OF assms(3,2) _ this, of attempt startedAt now] show ?thesis using spec Inr assms(4) by auto
  qed
qed

subsection \<open>What the model is not told\<close>

definition retag :: "(DurableMailboxMessage \<Rightarrow> string option) \<Rightarrow> RunTurnInput \<Rightarrow> RunTurnInput" where
  "retag f input = input\<lparr>ti_messages := map (\<lambda>m. m\<lparr>dm_kind := f m\<rparr>) (ti_messages input)\<rparr>"

lemma retag_simps [simp]:
  "ti_agentId (retag f input) = ti_agentId input" "turn_config (retag f input) = turn_config input" "tool_mode (retag f input) = tool_mode input"
  "length (ti_messages (retag f input)) = length (ti_messages input)"
  "map toAgentMessage (ti_messages (retag f input)) = map toAgentMessage (ti_messages input)"
  by (simp_all add: retag_def turn_config_def tool_mode_def toAgentMessage_def)

lemma retag_parts [simp]:
  "turn_engine opts (retag f input) rung = turn_engine opts input rung" "buildTurnContext (retag f input) rung = buildTurnContext input rung"
  "syntheticRung named files (retag f input) store now = syntheticRung named files input store now"
  "sandboxRung env config (retag f input) store now = sandboxRung env config input store now"
  unfolding turn_engine_def buildTurnContext_def syntheticRung_def sandboxRung_def [abs_def] retag_simps by (rule refl)+

text \<open>
  The planted kinds stay hidden. The tags of the messages reach neither the model nor the tools nor the result: changing them
  in any way changes nothing at all that the turn does or returns; only the observer's record, which is
  not part of the turn, carries them.
\<close>

theorem planted_kinds_hidden:
  assumes "gw_rungFactory opts = defaultRungFactory env store time" and "gw_onTurn opts = None"
  shows "runTurn opts (retag f input) attempt startedAt now wk = runTurn opts input attempt startedAt now wk"
proof -
  have factory: "defaultRungFactory env store time config (retag f input) = defaultRungFactory env store time config input" for config
    by (cases config) (simp_all add: defaultRungFactory_def)
  have rung: "resolve_rung opts (retag f input) wk = resolve_rung opts input wk"
    unfolding resolve_rung_def assms(1) retag_simps factory by (rule refl)
  show ?thesis unfolding runTurn_def assms(2) rung retag_simps retag_parts opt_or_simps id_def by (rule refl)
qed

subsection \<open>Results and failures\<close>

lemma classify_entry_spec: "classify_entry i e = Inr c \<Longrightarrow> \<exists>t. ev_classification c = map to_lower t"
  by (cases "jfield (Some e) ''classification''"; cases "the (jfield (Some e) ''classification'')") (auto simp: classify_entry_def)

lemma classify_from_spec: "classify_from i es = Inr cs \<Longrightarrow> length cs = length es \<and> (\<forall>c \<in> set cs. \<exists>t. ev_classification c = map to_lower t)"
  by (induction es arbitrary: i cs) (auto simp: map_sum_def dest: classify_entry_spec split: sum.splits)

lemma parseClassifications_spec:
  "parseClassifications parse text n = Inr cs \<Longrightarrow> length cs = n \<and> (\<forall>c \<in> set cs. \<exists>t. ev_classification c = map to_lower t)"
  by (auto simp: parseClassifications_def dest: classify_from_spec split: sum.splits option.splits json.splits if_splits)

lemma triage_one_per_event:
  assumes "runTurn opts input attempt startedAt now w = (Inr (TriageTurn cs ms), w')"
  shows "length cs = length (ti_messages input) \<and> (\<forall>c \<in> set cs. \<exists>t. ev_classification c = map to_lower t)"
  using assms
  by (auto simp: runTurn_def Let_def dest: parseClassifications_spec split: prod.splits sum.splits if_splits)

lemma http_failure:
  fixes now :: rat
  assumes "resolve_rung opts input w = (Inr rung, w1)" and "finish_rung rung w2 = (Inr (), w3)"
    and "gw_fetch opts (model_request (turn_engine opts input rung) (map toAgentMessage (ti_messages input))) (gw_heartbeat opts rung w1) = (Inr response, w2)"
    and "\<not> (200 \<le> hs_status response \<and> hs_status response \<le> 299)"
  defines "hint \<equiv> parseRetryHintMs (gw_hints opts) (hs_headers response) now"
    and "message \<equiv> ''gateway returned HTTP '' @ show_int (hs_status response) @ '': '' @ take 300 (hs_body response)"
  shows "runTurn opts input attempt startedAt now w =
    (Inl (if hs_status response \<in> {400, 401, 402, 403, 404, 422} then NonRetryable message (''GatewayHTTP'' @ show_int (hs_status response))
          else if hint \<noteq> None \<and> hs_status response \<in> {429, 503} then RateLimited message (the hint)
          else TurnError (GatewayHttpError message (hs_status response) hint)), w3)"
proof -
  have "ask_model (turn_engine opts input rung) (map toAgentMessage (ti_messages input)) now (gw_heartbeat opts rung w1) =
      (Inl (GatewayHttpError message (hs_status response) hint), w2)"
    using assms(3,4) by (simp add: ask_model_def hint_def message_def turn_engine_def)
  then have "engine_run (turn_engine opts input rung) (map toAgentMessage (ti_messages input)) (buildTurnContext input rung) startedAt now w1 =
      (Inl (GatewayHttpError message (hs_status response) hint), w2)"
    by (simp add: engine_run_def) (simp add: turn_engine_def)
  then have "runTurn opts input attempt startedAt now w = (Inl (toTemporalError (GatewayHttpError message (hs_status response) hint)), w3)"
    using assms(1,2) by (simp add: runTurn_def)
  then show ?thesis by (auto simp: toTemporalError_def PERMANENT_HTTP_STATUSES_def split: option.splits)
qed

text \<open>
  How a turn fails when the gateway refuses. A status that cannot succeed on retry is reported as not retryable, a 429 or 503
  with a reset hint carries the hint to the workflow, every other status is left to the retry policy; in
  each case no tool call has run, and the rung has been checkpointed or closed.
\<close>

theorem http_failure_taxonomy:
  fixes now :: rat
  assumes "resolve_rung opts input w = (Inr rung, w1)" and "finish_rung rung w2 = (Inr (), w3)"
    and "gw_fetch opts (model_request (turn_engine opts input rung) (map toAgentMessage (ti_messages input))) (gw_heartbeat opts rung w1) = (Inr response, w2)"
    and "\<not> (200 \<le> hs_status response \<and> hs_status response \<le> 299)"
  defines "hint \<equiv> parseRetryHintMs (gw_hints opts) (hs_headers response) now"
    and "message \<equiv> ''gateway returned HTTP '' @ show_int (hs_status response) @ '': '' @ take 300 (hs_body response)"
  shows "runTurn opts input attempt startedAt now w =
    (Inl (if hs_status response \<in> {400, 401, 402, 403, 404, 422} then NonRetryable message (''GatewayHTTP'' @ show_int (hs_status response))
          else if hint \<noteq> None \<and> hs_status response \<in> {429, 503} then RateLimited message (the hint)
          else TurnError (GatewayHttpError message (hs_status response) hint)), w3)"
  using http_failure [OF assms(1-4)] unfolding hint_def message_def .

subsection \<open>A rung that outlives its turn\<close>

text \<open>
  A cached sandbox rung keeps the receipts of the turn it was made for, and the ids of a later turn start
  again at index 0: an effect of the later turn is answered by the old receipt of the same tool and
  position, whatever its arguments, and nothing is executed.
\<close>

lemma later_turn_replays:
  assumes "js_get (wk_sandboxRungs wk) (rung_key (ti_agentId input)) = Some c" "sc_store c = Some n"
    and "temporal_getEffect (wk_stores wk ! n) (eff_id effect) = Some receipt" "f_status receipt = EffCommitted" "f_result receipt = Some r"
  shows "\<exists>rung. sandboxRung env config input store now wk = (Inr rung, wk) \<and> tn_executeEffect rung effect wk = (Inr r, wk)"
  using assms
  by (simp add: sandboxRung_def cached_rung_def store_execute_def broker_execute_def broker_lookup_def temporal_ops_def receipt_answer_def Let_def)

lemma effect_id_ignores_arguments:
  assumes "js_get (foldl (\<lambda>m tool. js_set (dt_name tool) tool m) [] tools) (tc_name call) \<noteq> None" "tc_arguments call \<noteq> JNull"
  shows "\<exists>body. buildToEffect tools call agentId index = Inr (Some \<lparr>eff_id = effect_id agentId (tc_name call) index, eff_body = body\<rparr>)"
  using assms by (auto simp: buildToEffect_def Let_def)

subsection \<open>Concrete turns\<close>

definition tree_rungs :: "tree rung_env" where
  "tree_rungs = \<lparr>re_k8s = (\<lambda>_ _. box_env), re_maintain = (\<lambda>_ w. (Inr (), w)), re_closePool = (\<lambda>_ w. (Inr (), w))\<rparr>"

definition empty_worker :: "tree worker" where
  "empty_worker = \<lparr>wk_syntheticWorkspaces = [], wk_sandboxRungs = [], wk_stores = [temporal_new None], wk_world = []\<rparr>"

definition sample_turn :: "int \<Rightarrow> tree worker GatewayRunTurnOptions" where
  "sample_turn status =
     \<lparr>gw_baseUrl = ''http://gateway'', gw_model = ''m'', gw_apiKey = None, gw_timeoutMs = None,
      gw_fetch = (\<lambda>_ wk. (Inr \<lparr>hs_status = status, hs_headers = [], hs_body = ''reply''\<rparr>, wk\<lparr>wk_world := [(''asked'', SFile [])]\<rparr>)),
      gw_parse = sample_reply, gw_hints = sample_hints, gw_heartbeat = (\<lambda>_ wk. wk), gw_onTurn = None,
      gw_rungFactory = defaultRungFactory tree_rungs (Some 0) 0\<rparr>"

definition sample_tool :: DurableToolSpec where
  "sample_tool =
     \<lparr>dt_name = ''read'', dt_effect = ToolRead, dt_pathArg = None, dt_contentArg = None, dt_oldTextArg = None, dt_newTextArg = None,
      dt_commandArg = None, dt_command = None, dt_cwdArg = None, dt_timeoutArg = None, dt_resourceClass = None\<rparr>"

definition sample_input :: "bool \<Rightarrow> RunTurnInput" where
  "sample_input scored =
     \<lparr>ti_agentId = ''a'', ti_messages = [\<lparr>dm_id = ''1'', dm_role = Human, dm_text = ''x'', dm_createdAt = 0, dm_kind = Some ''news''\<rparr>],
      ti_config = Some \<lparr>tg_systemPrompt = Some ''p'', tg_tools = Some [sample_tool], tg_rung = Some (SyntheticRung None None),
        tg_scored = Some scored\<rparr>\<rparr>"

lemma sample_resolves:
  obtains rung w1 where "resolve_rung (sample_turn status) (sample_input False) empty_worker = (Inr rung, w1)" "\<And>w. finish_rung rung w = (Inr (), w)"
    "wk_stores w1 = wk_stores empty_worker"
  by (simp add: resolve_rung_def sample_turn_def sample_input_def turn_config_def defaultRungFactory_def syntheticRung_def seedWorkspace_def
      empty_worker_def and_then_def ret_def assertRungAllowedForScored_def scoredRungAllowed_def finish_rung_def Let_def)

theorem scored_turn_refused_witness:
  "(\<exists>e. fst (runTurn (sample_turn 200) (sample_input True) 1 0 1 empty_worker) = Inl (TurnError (PlainError e))) \<and>
   wk_world (snd (runTurn (sample_turn 200) (sample_input True) 1 0 1 empty_worker)) = []"
proof -
  have "gw_rungFactory (sample_turn 200) = defaultRungFactory tree_rungs (Some 0) 0" by (simp add: sample_turn_def)
  moreover have "tg_rung (turn_config (sample_input True)) = Some (SyntheticRung None None)" "tg_scored (turn_config (sample_input True)) = Some True"
    by (simp_all add: sample_input_def turn_config_def)
  ultimately show ?thesis
    using scored_turn_refused [where opts = "sample_turn 200" and input = "sample_input True" and wk = empty_worker and attempt = 1
        and startedAt = 0 and now = 1 and env = tree_rungs and store = "Some 0" and time = 0 and named = None and files = None, OF _ _ _ surjective_pairing]
    by (simp add: empty_worker_def)
qed

theorem planted_kinds_hidden_witness:
  "runTurn (sample_turn 200) (retag (\<lambda>_. None) (sample_input False)) 1 0 1 empty_worker = runTurn (sample_turn 200) (sample_input False) 1 0 1 empty_worker \<and>
   retag (\<lambda>_. None) (sample_input False) \<noteq> sample_input False"
proof -
  have "gw_rungFactory (sample_turn 200) = defaultRungFactory tree_rungs (Some 0) 0" "gw_onTurn (sample_turn 200) = None"
    by (simp_all add: sample_turn_def)
  from planted_kinds_hidden [OF this] have "runTurn (sample_turn 200) (retag (\<lambda>_. None) (sample_input False)) 1 0 1 empty_worker =
      runTurn (sample_turn 200) (sample_input False) 1 0 1 empty_worker" .
  moreover have "retag (\<lambda>_. None) (sample_input False) \<noteq> sample_input False" by (simp add: retag_def sample_input_def)
  ultimately show ?thesis ..
qed

theorem http_failure_taxonomy_witness:
  "(case fst (runTurn (sample_turn 401) (sample_input False) 1 0 1 empty_worker) of Inl (NonRetryable _ t) \<Rightarrow> t = ''GatewayHTTP401'' | _ \<Rightarrow> False) \<and>
   wk_stores (snd (runTurn (sample_turn 401) (sample_input False) 1 0 1 empty_worker)) = wk_stores empty_worker"
proof -
  let ?opts = "sample_turn 401" and ?input = "sample_input False" and ?response = "\<lparr>hs_status = 401, hs_headers = [], hs_body = ''reply''\<rparr>"
  obtain rung w1 where rung: "resolve_rung ?opts ?input empty_worker = (Inr rung, w1)" "\<And>w. finish_rung rung w = (Inr (), w)"
      and stores: "wk_stores w1 = wk_stores empty_worker"
    using sample_resolves [of 401] by blast
  from http_failure_taxonomy [OF rung, where response = ?response]
  have "runTurn ?opts ?input 1 0 1 empty_worker =
      (Inl (NonRetryable (''gateway returned HTTP '' @ show_int 401 @ '': '' @ take 300 ''reply'') (''GatewayHTTP'' @ show_int 401)),
       w1\<lparr>wk_world := [(''asked'', SFile [])]\<rparr>)"
    by (simp add: sample_turn_def)
  moreover have "show_int 401 = ''401''" by code_simp
  ultimately show ?thesis using stores by simp
qed

end
