(* ===== verification/Agent_Workflow.thy ===== *)
theory Agent_Workflow
  imports Run_Turn
begin

text \<open>
  The durable agent (\<^verbatim>\<open>src/integrations/temporal/src/workflows.ts\<close>) with the error and backoff rules of
  \<^verbatim>\<open>correlation.ts\<close>. The workflow runs alone between two awaits; what can happen at an await is an event: a
  signal, the wake-up, the end of the activity, the end of a park. The loop is cut there, and a run is a
  list of events. Search attributes and log lines are outputs only and not modelled.
\<close>

subsection \<open>Failures\<close>

text \<open>
  A thrown value: its message, whether it is an \<^verbatim>\<open>Error\<close>, the marks the rules look for, and its cause. A number
  that is not finite counts as absent, as in the code; a cause chain is finite.
\<close>

datatype failure =
  Failure (fl_message: string) (fl_isError: bool) (fl_nonRetryable: bool) (fl_retryAfterMs: "rat option")
    (fl_details: "rat option list") (fl_cause: "failure option")

fun isNonRetryableFailure :: "failure \<Rightarrow> bool" where
  "isNonRetryableFailure (Failure _ _ nonRetryable _ _ cause) =
     (nonRetryable \<or> (case cause of None \<Rightarrow> False | Some c \<Rightarrow> isNonRetryableFailure c))"

fun first_hint :: "rat option list \<Rightarrow> rat option" where
  "first_hint [] = None"
| "first_hint (entry # entries) = (case entry of Some ms \<Rightarrow> Some ms | None \<Rightarrow> first_hint entries)"

fun retryAfterMsFromError :: "failure \<Rightarrow> rat option" where
  "retryAfterMsFromError (Failure _ _ _ direct details cause) =
     (case direct of
        Some ms \<Rightarrow> Some ms
      | None \<Rightarrow>
          (case first_hint details of
             Some ms \<Rightarrow> Some ms
           | None \<Rightarrow> (case cause of None \<Rightarrow> None | Some c \<Rightarrow> retryAfterMsFromError c)))"

fun root_message :: "string \<Rightarrow> failure \<Rightarrow> string" where
  "root_message message (Failure _ _ _ _ _ None) = message"
| "root_message message (Failure _ _ _ _ _ (Some c)) = root_message (if fl_isError c then fl_message c else message) c"

definition rootCauseMessage :: "failure \<Rightarrow> string" where
  "rootCauseMessage f = root_message (fl_message f) f"

definition MAX_PARK_HINT_MS :: rat where "MAX_PARK_HINT_MS = 60 * 60 * 1000"

definition clampParkHintMs :: "rat option \<Rightarrow> rat option" where
  "clampParkHintMs value = (case value of None \<Rightarrow> None | Some v \<Rightarrow> if v \<le> 0 \<or> v > MAX_PARK_HINT_MS then None else Some v)"

record ParkBackoff =
  pb_initialMs :: rat
  pb_maxMs :: rat

definition DEFAULT_PARK_BACKOFF :: ParkBackoff where
  "DEFAULT_PARK_BACKOFF = \<lparr>pb_initialMs = 5000, pb_maxMs = 300000\<rparr>"

definition backoff_field :: "(ParkBackoff \<Rightarrow> rat) \<Rightarrow> ParkBackoff option \<Rightarrow> rat" where
  "backoff_field f override = (case override of Some b \<Rightarrow> if f b > 0 then f b else f DEFAULT_PARK_BACKOFF | None \<Rightarrow> f DEFAULT_PARK_BACKOFF)"

definition nextParkBackoffMs :: "nat \<Rightarrow> ParkBackoff option \<Rightarrow> rat" where
  "nextParkBackoffMs attempt override =
     (let initialMs = backoff_field pb_initialMs override; maxMs = backoff_field pb_maxMs override
      in min (initialMs * 2 ^ (attempt - 1)) (max initialMs maxMs))"

definition honoursRetryHint :: "rat \<Rightarrow> rat option \<Rightarrow> rat \<Rightarrow> bool" where
  "honoursRetryHint longestWaitMs hintMs toleranceMs =
     (case hintMs of None \<Rightarrow> False | Some h \<Rightarrow> if h \<le> 0 then False else longestWaitMs \<ge> h - max 0 toleranceMs)"

subsection \<open>Correlation fields\<close>

text \<open>What log lines are tagged with, read off the arguments of a call as JSON.\<close>

definition agentIdFromWorkflowId :: "string option \<Rightarrow> string option" where
  "agentIdFromWorkflowId workflowId =
     (case workflowId of
        None \<Rightarrow> None
      | Some i \<Rightarrow> if i = [] then None else if take 6 i = ''agent/'' then Some (drop 6 i) else Some i)"

definition nonempty_text :: "json option \<Rightarrow> string option" where
  "nonempty_text v = (case v of Some (JStr s) \<Rightarrow> if s = [] then None else Some s | _ \<Rightarrow> None)"

definition first_arg :: "json list option \<Rightarrow> json option" where
  "first_arg args = (case args of Some (x # _) \<Rightarrow> Some x | _ \<Rightarrow> None)"

definition agentIdFromArgs :: "json list option \<Rightarrow> string option" where
  "agentIdFromArgs args = nonempty_text (jfield (first_arg args) ''agentId'')"

definition readKind :: "json option \<Rightarrow> string option" where
  "readKind v = nonempty_text (jfield v ''kind'')"

text \<open>A rung that is a non-empty string counts as its own kind.\<close>

definition rungFromArgs :: "json list option \<Rightarrow> string option" where
  "rungFromArgs args =
     (let rung = jfield (jfield (first_arg args) ''config'') ''rung''
      in case rung of Some (JStr s) \<Rightarrow> if s = [] then None else Some s | _ \<Rightarrow> readKind rung)"

definition messageKindFromArgs :: "json list option \<Rightarrow> string option" where
  "messageKindFromArgs args =
     (case jfield (first_arg args) ''messages'' of
        None \<Rightarrow> readKind (first_arg args)
      | Some (JArr ms) \<Rightarrow> if ms = [] then None else readKind (Some (last ms))
      | Some _ \<Rightarrow> None)"

subsection \<open>State\<close>

datatype durable_status = Idle | Running | Waiting | Completed | Failed | Cancelled

record 'r DurableAgentState =
  as_agentId :: string
  as_status :: durable_status
  as_mailbox :: "DurableMailboxMessage list"
  as_lastResult :: "'r option"
  as_lastError :: "string option"
  as_updatedAt :: int
  as_parkBackoff :: "ParkBackoff option"
  as_turnConfig :: "DurableTurnConfig option"

datatype turn_state = TurnIdle | TurnWaiting | TurnCompleted

record 'r RunTurnResult =
  tt_result :: "'r option"
  tt_state :: "turn_state option"

text \<open>Where the loop is: before its first await, in the activity with the number of messages given to it, parked, or returned.\<close>

datatype agent_phase = AwaitWork | InTurn nat | Parked rat | Returned

record 'r agent_workflow =
  wf_state :: "'r DurableAgentState"
  wf_cancelled :: bool
  wf_wake :: bool
  wf_parkAttempt :: nat
  wf_phase :: agent_phase

subsection \<open>Between two awaits\<close>

definition finish_workflow :: "int \<Rightarrow> 'r agent_workflow \<Rightarrow> 'r agent_workflow" where
  "finish_workflow now w =
     (if wf_cancelled w then w\<lparr>wf_phase := Returned, wf_state := (wf_state w)\<lparr>as_status := Cancelled, as_updatedAt := now\<rparr>\<rparr>
      else w\<lparr>wf_phase := Returned\<rparr>)"

text \<open>The loop condition, up to the first await of the body.\<close>

definition loop_head :: "int \<Rightarrow> 'r agent_workflow \<Rightarrow> 'r agent_workflow" where
  "loop_head now w =
     (if \<not> wf_cancelled w \<and> as_status (wf_state w) \<noteq> Completed \<and> as_status (wf_state w) \<noteq> Failed
      then w\<lparr>wf_phase := AwaitWork\<rparr> else finish_workflow now w)"

definition start_workflow :: "'r DurableAgentState \<Rightarrow> int \<Rightarrow> 'r agent_workflow" where
  "start_workflow initial now =
     loop_head now \<lparr>wf_state = initial, wf_cancelled = False, wf_wake = (as_mailbox initial \<noteq> []), wf_parkAttempt = 0, wf_phase = AwaitWork\<rparr>"

definition can_wake :: "'r agent_workflow \<Rightarrow> bool" where
  "can_wake w \<longleftrightarrow> wf_wake w \<or> wf_cancelled w \<or> as_mailbox (wf_state w) \<noteq> []"

definition wake_up :: "int \<Rightarrow> 'r agent_workflow \<Rightarrow> 'r agent_workflow" where
  "wake_up now w =
     (if wf_cancelled w then finish_workflow now w
      else (let w1 = w\<lparr>wf_wake := False\<rparr>
            in if as_mailbox (wf_state w1) = [] then loop_head now w1
               else w1\<lparr>wf_state := (wf_state w1)\<lparr>as_status := Running, as_updatedAt := now\<rparr>, wf_phase := InTurn (length (as_mailbox (wf_state w1)))\<rparr>))"

text \<open>The input of the activity of a turn.\<close>

definition turn_input :: "'r agent_workflow \<Rightarrow> RunTurnInput" where
  "turn_input w =
     \<lparr>ti_agentId = as_agentId (wf_state w), ti_messages = as_mailbox (wf_state w), ti_config = as_turnConfig (wf_state w)\<rparr>"

definition park :: "rat \<Rightarrow> string option \<Rightarrow> int \<Rightarrow> 'r agent_workflow \<Rightarrow> 'r agent_workflow" where
  "park ms lastError now w =
     w\<lparr>wf_state := (wf_state w)\<lparr>as_status := Waiting, as_lastError := lastError, as_updatedAt := now\<rparr>, wf_phase := Parked ms\<rparr>"

definition turn_returned :: "nat \<Rightarrow> 'r RunTurnResult \<Rightarrow> int \<Rightarrow> 'r agent_workflow \<Rightarrow> 'r agent_workflow" where
  "turn_returned consumedCount result now w =
     (let w1 = w\<lparr>wf_state := (wf_state w)\<lparr>as_lastResult := tt_result result, as_updatedAt := now\<rparr>\<rparr>
      in case opt_or (tt_state result) TurnIdle of
           TurnWaiting \<Rightarrow>
             (let w2 = w1\<lparr>wf_parkAttempt := Suc (wf_parkAttempt w1)\<rparr>
              in park (nextParkBackoffMs (wf_parkAttempt w2) (as_parkBackoff (wf_state w2))) None now w2)
         | TurnCompleted \<Rightarrow>
             loop_head now (w1\<lparr>wf_state := (wf_state w1)\<lparr>as_status := Completed, as_lastError := None\<rparr>, wf_parkAttempt := 0\<rparr>)
         | TurnIdle \<Rightarrow>
             loop_head now (w1\<lparr>wf_state := (wf_state w1)\<lparr>as_status := Idle, as_lastError := None,
                                  as_mailbox := drop consumedCount (as_mailbox (wf_state w1))\<rparr>, wf_parkAttempt := 0\<rparr>))"

definition turn_failed :: "failure \<Rightarrow> int \<Rightarrow> 'r agent_workflow \<Rightarrow> 'r agent_workflow" where
  "turn_failed err now w =
     (let cause = rootCauseMessage err; rawHint = retryAfterMsFromError err
      in if isNonRetryableFailure err
         then finish_workflow now (w\<lparr>wf_state := (wf_state w)\<lparr>as_status := Failed, as_lastError := Some cause, as_updatedAt := now\<rparr>\<rparr>)
         else (case clampParkHintMs rawHint of
                 Some hintMs \<Rightarrow> park hintMs (Some cause) now w
               | None \<Rightarrow>
                   (let quotaExhausted = (case rawHint of Some h \<Rightarrow> h > MAX_PARK_HINT_MS | None \<Rightarrow> False);
                        w1 = w\<lparr>wf_parkAttempt := Suc (wf_parkAttempt w)\<rparr>
                    in park (nextParkBackoffMs (wf_parkAttempt w1) (as_parkBackoff (wf_state w1)))
                         (Some (if quotaExhausted then ''QUOTA_EXHAUSTED:'' @ cause else cause)) now w1)))"

definition park_over :: "int \<Rightarrow> 'r agent_workflow \<Rightarrow> 'r agent_workflow" where
  "park_over now w = (if wf_cancelled w then finish_workflow now w else loop_head now w)"

subsection \<open>Signals\<close>

definition on_sendMessage :: "DurableMailboxMessage \<Rightarrow> int \<Rightarrow> 'r agent_workflow \<Rightarrow> 'r agent_workflow" where
  "on_sendMessage m now w =
     w\<lparr>wf_state := (wf_state w)\<lparr>as_mailbox := as_mailbox (wf_state w) @ [m], as_updatedAt := now\<rparr>, wf_wake := True\<rparr>"

definition on_cancelAgent :: "'r agent_workflow \<Rightarrow> 'r agent_workflow" where
  "on_cancelAgent w = w\<lparr>wf_cancelled := True, wf_wake := True\<rparr>"

definition on_getAgentState :: "'r agent_workflow \<Rightarrow> 'r DurableAgentState" where
  "on_getAgentState w = wf_state w"

subsection \<open>Runs\<close>

text \<open>
  Events carry the time at which the code after the await runs. A park ends when its time is over or when
  the agent is cancelled; how long it lasts is the number in the phase.
\<close>

datatype 'r wf_event =
    SendMessage DurableMailboxMessage int
  | CancelAgent
  | WakeUp int
  | TurnReturned "'r RunTurnResult" int
  | TurnFailed failure int
  | ParkOver int

fun wf_step :: "'r wf_event \<Rightarrow> 'r agent_workflow \<Rightarrow> 'r agent_workflow option" where
  "wf_step (SendMessage m now) w = (if wf_phase w = Returned then None else Some (on_sendMessage m now w))"
| "wf_step CancelAgent w = (if wf_phase w = Returned then None else Some (on_cancelAgent w))"
| "wf_step (WakeUp now) w = (if wf_phase w = AwaitWork \<and> can_wake w then Some (wake_up now w) else None)"
| "wf_step (TurnReturned result now) w = (case wf_phase w of InTurn n \<Rightarrow> Some (turn_returned n result now w) | _ \<Rightarrow> None)"
| "wf_step (TurnFailed err now) w = (case wf_phase w of InTurn n \<Rightarrow> Some (turn_failed err now w) | _ \<Rightarrow> None)"
| "wf_step (ParkOver now) w = (case wf_phase w of Parked ms \<Rightarrow> Some (park_over now w) | _ \<Rightarrow> None)"

fun wf_run :: "'r wf_event list \<Rightarrow> 'r agent_workflow \<Rightarrow> 'r agent_workflow option" where
  "wf_run [] w = Some w"
| "wf_run (ev # evs) w = (case wf_step ev w of None \<Rightarrow> None | Some w' \<Rightarrow> wf_run evs w')"

end
