(* ===== verification/Agent_Workflow_Laws.thy ===== *)
theory Agent_Workflow_Laws
  imports Agent_Workflow
begin

text \<open>
  What a durable agent keeps through every sequence of signals, turns, failures and parks: its messages, a
  status that tells where it is, and waits that are positive and bounded.
\<close>

subsection \<open>Backoff\<close>

lemma backoff_field_pos: "f DEFAULT_PARK_BACKOFF > 0 \<Longrightarrow> backoff_field f override > 0"
  by (simp add: backoff_field_def split: option.splits)

lemma backoff_fields_pos [simp]: "backoff_field pb_initialMs override > 0" "backoff_field pb_maxMs override > 0"
  by (simp_all add: backoff_field_pos DEFAULT_PARK_BACKOFF_def)

definition park_bound :: "ParkBackoff option \<Rightarrow> rat" where
  "park_bound override = max MAX_PARK_HINT_MS (max (backoff_field pb_initialMs override) (backoff_field pb_maxMs override))"

lemma next_backoff_bounds: "0 < nextParkBackoffMs n override" "nextParkBackoffMs n override \<le> park_bound override"
  by (auto simp: nextParkBackoffMs_def park_bound_def Let_def min_def less_max_iff_disj)

lemma next_backoff_mono: "m \<le> n \<Longrightarrow> nextParkBackoffMs m override \<le> nextParkBackoffMs n override"
proof -
  assume "m \<le> n"
  then have "(2 :: rat) ^ (m - 1) \<le> 2 ^ (n - 1)" by (intro power_increasing) auto
  then have "backoff_field pb_initialMs override * 2 ^ (m - 1) \<le> backoff_field pb_initialMs override * 2 ^ (n - 1)"
    by (intro mult_left_mono) (auto intro: less_imp_le)
  then show ?thesis unfolding nextParkBackoffMs_def Let_def by (rule min.mono) simp
qed

lemma clamp_bounds: "clampParkHintMs h = Some v \<Longrightarrow> 0 < v \<and> v \<le> park_bound override"
  by (auto simp: clampParkHintMs_def park_bound_def split: option.splits if_splits)

text \<open>A park for a usable hint honours it, whatever tolerance is allowed.\<close>

lemma hint_honoured: "clampParkHintMs hint = Some ms \<Longrightarrow> honoursRetryHint ms hint tolerance"
  by (auto simp: clampParkHintMs_def honoursRetryHint_def split: option.splits if_splits)

text \<open>The planted kind of the last message of a batch is what the trace of its turn is tagged with.\<close>

lemma message_kind_of_batch:
  "messageKindFromArgs (Some [JObj [(''messages'', JArr (ms @ [JObj [(''kind'', JStr k)]]))]]) = (if k = [] then None else Some k)"
  by (simp add: messageKindFromArgs_def readKind_def nonempty_text_def first_arg_def jfield_def)

subsection \<open>The invariant\<close>

text \<open>The messages given to the turn in flight are \<open>given\<close>.\<close>

definition phase_ok :: "DurableMailboxMessage list \<Rightarrow> 'r agent_workflow \<Rightarrow> bool" where
  "phase_ok given w \<longleftrightarrow>
     (case wf_phase w of
        AwaitWork \<Rightarrow> as_status (wf_state w) \<notin> {Completed, Failed}
      | InTurn n \<Rightarrow> as_status (wf_state w) = Running \<and> n = length given \<and> given \<noteq> [] \<and> take n (as_mailbox (wf_state w)) = given
      | Parked ms \<Rightarrow> as_status (wf_state w) = Waiting \<and> 0 < ms \<and> ms \<le> park_bound (as_parkBackoff (wf_state w))
      | Returned \<Rightarrow> (if wf_cancelled w then as_status (wf_state w) = Cancelled else as_status (wf_state w) \<in> {Completed, Failed}))"

definition given_after :: "'r wf_event \<Rightarrow> 'r agent_workflow \<Rightarrow> DurableMailboxMessage list \<Rightarrow> DurableMailboxMessage list" where
  "given_after ev w' given = (case ev of WakeUp _ \<Rightarrow> ti_messages (turn_input w') | _ \<Rightarrow> given)"

definition done_by :: "'r wf_event \<Rightarrow> bool" where
  "done_by ev = (case ev of TurnReturned result _ \<Rightarrow> opt_or (tt_state result) TurnIdle = TurnIdle | _ \<Rightarrow> False)"

definition sent_by :: "'r wf_event \<Rightarrow> DurableMailboxMessage list" where
  "sent_by ev = (case ev of SendMessage m _ \<Rightarrow> [m] | _ \<Rightarrow> [])"

lemma loop_head_simps [simp]:
  "as_mailbox (wf_state (loop_head now w)) = as_mailbox (wf_state w)" "as_parkBackoff (wf_state (loop_head now w)) = as_parkBackoff (wf_state w)"
  "as_mailbox (wf_state (finish_workflow now w)) = as_mailbox (wf_state w)" "as_parkBackoff (wf_state (finish_workflow now w)) = as_parkBackoff (wf_state w)"
  by (simp_all add: loop_head_def finish_workflow_def)

lemma loop_head_ok: "phase_ok given (loop_head now w)"
  by (auto simp: loop_head_def finish_workflow_def phase_ok_def)

lemma finish_ok: "wf_cancelled w \<or> as_status (wf_state w) \<in> {Completed, Failed} \<Longrightarrow> phase_ok given (finish_workflow now w)"
  by (auto simp: finish_workflow_def phase_ok_def)

lemma park_ok: "0 < ms \<Longrightarrow> ms \<le> park_bound (as_parkBackoff (wf_state w)) \<Longrightarrow> phase_ok given (park ms e now w)"
  by (simp add: park_def phase_ok_def)

lemma turn_returned_ok: "phase_ok given' (turn_returned n result now w)"
  unfolding turn_returned_def Let_def
  by (cases "opt_or (tt_state result) TurnIdle") (auto intro!: park_ok loop_head_ok next_backoff_bounds)

lemma turn_failed_ok: "phase_ok given' (turn_failed err now w)"
  unfolding turn_failed_def Let_def
  by (auto intro!: park_ok finish_ok next_backoff_bounds dest: clamp_bounds split: option.splits)

lemma wake_up_ok: "phase_ok (as_mailbox (wf_state (wake_up now w))) (wake_up now w)"
  by (auto simp: wake_up_def Let_def intro!: loop_head_ok finish_ok) (simp add: phase_ok_def)

lemma step_ok:
  assumes "wf_step ev w = Some w'" "phase_ok given w"
  shows "phase_ok (given_after ev w' given) w'"
proof (cases ev)
  case (SendMessage m now)
  then show ?thesis using assms
    by (auto simp: on_sendMessage_def phase_ok_def given_after_def split: agent_phase.splits if_splits)
next
  case CancelAgent
  then show ?thesis using assms
    by (auto simp: on_cancelAgent_def phase_ok_def given_after_def split: agent_phase.splits if_splits)
next
  case (WakeUp now)
  then show ?thesis using assms wake_up_ok [of now w] by (auto simp: given_after_def turn_input_def split: if_splits)
next
  case (ParkOver now)
  then show ?thesis using assms
    by (auto simp: park_over_def given_after_def intro!: loop_head_ok finish_ok split: agent_phase.splits)
qed (use assms in \<open>auto simp: given_after_def turn_returned_ok turn_failed_ok split: agent_phase.splits\<close>)

lemma start_ok: "phase_ok given (start_workflow initial now)"
  by (simp add: start_workflow_def loop_head_ok)

fun given_of :: "'r wf_event list \<Rightarrow> 'r agent_workflow \<Rightarrow> DurableMailboxMessage list \<Rightarrow> DurableMailboxMessage list" where
  "given_of [] w given = given"
| "given_of (ev # evs) w given = (case wf_step ev w of None \<Rightarrow> given | Some w' \<Rightarrow> given_of evs w' (given_after ev w' given))"

lemma run_ok: "wf_run evs w = Some w' \<Longrightarrow> phase_ok given w \<Longrightarrow> phase_ok (given_of evs w given) w'"
  by (induction evs arbitrary: w given) (auto split: option.splits dest: step_ok)

subsection \<open>Messages\<close>

text \<open>The messages of the turns that returned idle, as they were given to the activity.\<close>

fun processed :: "'r wf_event list \<Rightarrow> 'r agent_workflow \<Rightarrow> DurableMailboxMessage list \<Rightarrow> DurableMailboxMessage list" where
  "processed [] w given = []"
| "processed (ev # evs) w given =
     (case wf_step ev w of
        None \<Rightarrow> []
      | Some w' \<Rightarrow> (if done_by ev then given else []) @ processed evs w' (given_after ev w' given))"

definition sent :: "'r wf_event list \<Rightarrow> DurableMailboxMessage list" where
  "sent evs = concat (map sent_by evs)"

lemma step_mailbox:
  assumes "wf_step ev w = Some w'" "phase_ok given w"
  shows "(if done_by ev then given else []) @ as_mailbox (wf_state w') = as_mailbox (wf_state w) @ sent_by ev"
proof (cases ev)
  case (TurnReturned result now)
  then obtain n where phase: "wf_phase w = InTurn n" using assms by (auto split: agent_phase.splits)
  then have "take n (as_mailbox (wf_state w)) = given" using assms(2) by (auto simp: phase_ok_def)
  then have "given @ drop n (as_mailbox (wf_state w)) = as_mailbox (wf_state w)" by auto
  then show ?thesis using TurnReturned assms phase
    by (cases "opt_or (tt_state result) TurnIdle") (auto simp: done_by_def sent_by_def turn_returned_def Let_def park_def)
next
  case (TurnFailed err now)
  then show ?thesis using assms
    by (auto simp: done_by_def sent_by_def turn_failed_def Let_def park_def split: agent_phase.splits option.splits)
qed (use assms in \<open>auto simp: done_by_def sent_by_def on_sendMessage_def on_cancelAgent_def wake_up_def park_over_def Let_def split: if_splits agent_phase.splits\<close>)

lemma run_mailbox:
  "wf_run evs w = Some w' \<Longrightarrow> phase_ok given w \<Longrightarrow>
   processed evs w given @ as_mailbox (wf_state w') = as_mailbox (wf_state w) @ sent evs"
proof (induction evs arbitrary: w given)
  case (Cons ev evs)
  then obtain w1 where step: "wf_step ev w = Some w1" and run: "wf_run evs w1 = Some w'" by (auto split: option.splits)
  from step_mailbox [OF step Cons.prems(2)] Cons.IH [OF run step_ok [OF step Cons.prems(2)]] step show ?case
    by (simp add: sent_def)
qed (simp add: sent_def)

subsection \<open>Properties\<close>

text \<open>
  C30: no message is lost, repeated or reordered. Whatever signals, results, failures and parks a run of the agent has, the messages of
  the turns that completed, as they were given to the activity, followed by what is still in the
  mailbox, are the initial mailbox followed by the messages sent, in order.
\<close>

theorem agent_messages_exactly_once:
  assumes "wf_run evs (start_workflow initial now) = Some w"
  shows "processed evs (start_workflow initial now) [] @ as_mailbox (wf_state w) = as_mailbox initial @ sent evs"
  using run_mailbox [OF assms start_ok, of "[]"] by (simp add: start_workflow_def)

text \<open>
  Where an agent can be. A returned agent was cancelled and says so, or is completed or failed; until then it is neither.
  In a turn it is running, on a non-empty batch; parked it is waiting, for a positive time that is at most
  the configured maximum or one hour, so that it neither spins nor sleeps without bound.
\<close>

theorem agent_phase_invariant:
  assumes "wf_run evs (start_workflow initial now) = Some w"
  shows "case wf_phase w of
      AwaitWork \<Rightarrow> as_status (wf_state w) \<notin> {Completed, Failed}
    | InTurn n \<Rightarrow> as_status (wf_state w) = Running \<and> 0 < n \<and> n \<le> length (as_mailbox (wf_state w))
    | Parked ms \<Rightarrow> as_status (wf_state w) = Waiting \<and> 0 < ms \<and> ms \<le> park_bound (as_parkBackoff (wf_state w))
    | Returned \<Rightarrow> (if wf_cancelled w then as_status (wf_state w) = Cancelled else as_status (wf_state w) \<in> {Completed, Failed})"
proof -
  have ok: "phase_ok (given_of evs (start_workflow initial now) []) w" by (rule run_ok [OF assms start_ok])
  then show ?thesis
  proof (cases "wf_phase w")
    case (InTurn n)
    with ok obtain given where given: "n = length given" "given \<noteq> []" "take n (as_mailbox (wf_state w)) = given" "as_status (wf_state w) = Running"
      by (auto simp: phase_ok_def)
    then have "length given = min (length (as_mailbox (wf_state w))) n" by (metis length_take)
    then have "n \<le> length (as_mailbox (wf_state w))" using given(1) by linarith
    moreover have "0 < n" using given(1,2) by blast
    ultimately show ?thesis using InTurn given(4) by simp
  qed (simp_all add: phase_ok_def)
qed

text \<open>
  C31: an agent gets on. A transient failure parks it and never ends it, and the end of the park brings it back to work; an agent
  with messages and no turn in flight starts a turn with all of them; a cancelled one returns at the next
  event that is not the end of a turn; and only a failure marked as permanent makes a turn fail the agent.
\<close>

theorem agent_progress:
  assumes "wf_run evs (start_workflow initial now) = Some w" and "wf_phase w \<noteq> Returned"
  shows "(case wf_phase w of
      AwaitWork \<Rightarrow>
        (if wf_cancelled w then \<exists>w'. wf_step (WakeUp t) w = Some w' \<and> wf_phase w' = Returned \<and> as_status (wf_state w') = Cancelled
         else as_mailbox (wf_state w) \<noteq> [] \<longrightarrow>
           (\<exists>w'. wf_step (WakeUp t) w = Some w' \<and> wf_phase w' = InTurn (length (ti_messages (turn_input w'))) \<and> ti_messages (turn_input w') = as_mailbox (wf_state w)))
    | Parked ms \<Rightarrow>
        (\<exists>w'. wf_step (ParkOver t) w = Some w' \<and>
           (if wf_cancelled w then wf_phase w' = Returned \<and> as_status (wf_state w') = Cancelled else wf_phase w' = AwaitWork))
    | InTurn n \<Rightarrow>
        (\<exists>w'. wf_step (TurnFailed err t) w = Some w' \<and>
           (if isNonRetryableFailure err then wf_phase w' = Returned \<and> as_lastError (wf_state w') = Some (rootCauseMessage err)
            else (\<exists>ms. wf_phase w' = Parked ms) \<and> as_mailbox (wf_state w') = as_mailbox (wf_state w)))
    | Returned \<Rightarrow> False)"
proof -
  have ok: "phase_ok (given_of evs (start_workflow initial now) []) w" by (rule run_ok [OF assms(1) start_ok])
  show ?thesis
  proof (cases "wf_phase w")
    case AwaitWork
    then show ?thesis by (auto simp: can_wake_def wake_up_def finish_workflow_def turn_input_def Let_def)
  next
    case (InTurn n)
    then show ?thesis by (auto simp: turn_failed_def park_def finish_workflow_def Let_def split: option.splits)
  next
    case (Parked ms)
    with ok have "as_status (wf_state w) = Waiting" by (simp add: phase_ok_def)
    with Parked show ?thesis by (auto simp: park_over_def loop_head_def finish_workflow_def)
  next
    case Returned
    with assms(2) show ?thesis by simp
  qed
qed

subsection \<open>A concrete run\<close>

definition mail :: "string \<Rightarrow> DurableMailboxMessage" where
  "mail i = \<lparr>dm_id = i, dm_role = Human, dm_text = i, dm_createdAt = 0, dm_kind = None\<rparr>"

definition idle_agent :: "unit DurableAgentState" where
  "idle_agent = \<lparr>as_agentId = ''a'', as_status = Idle, as_mailbox = [mail ''1''], as_lastResult = None, as_lastError = None, as_updatedAt = 0,
     as_parkBackoff = None, as_turnConfig = None\<rparr>"

definition limited :: failure where
  "limited = Failure ''activity failed'' True False None [] (Some (Failure ''429'' True False None [Some 2000] None))"

text \<open>A message arrives while the first turn is limited; the retried turn takes both, a third arrives while it runs.\<close>

definition busy_events :: "unit wf_event list" where
  "busy_events =
     [WakeUp 1, SendMessage (mail ''2'') 2, TurnFailed limited 3, ParkOver 4, WakeUp 5, SendMessage (mail ''3'') 6,
      TurnReturned \<lparr>tt_result = None, tt_state = None\<rparr> 7]"

lemma busy_run: "\<exists>w. wf_run busy_events (start_workflow idle_agent 0) = Some w \<and> wf_phase w = AwaitWork \<and> \<not> wf_cancelled w \<and>
    as_mailbox (wf_state w) = [mail ''3'']"
  by (auto simp: busy_events_def start_workflow_def idle_agent_def loop_head_def can_wake_def wake_up_def on_sendMessage_def turn_failed_def limited_def
      clampParkHintMs_def MAX_PARK_HINT_MS_def park_def park_over_def turn_returned_def Let_def)

theorem agent_messages_exactly_once_witness:
  "processed busy_events (start_workflow idle_agent 0) [] = [mail ''1'', mail ''2'']"
proof -
  obtain w where run: "wf_run busy_events (start_workflow idle_agent 0) = Some w" and rest: "as_mailbox (wf_state w) = [mail ''3'']"
    using busy_run by blast
  have "sent busy_events = [mail ''2'', mail ''3'']" by (simp add: sent_def sent_by_def busy_events_def)
  then show ?thesis using agent_messages_exactly_once [OF run] rest by (simp add: idle_agent_def)
qed

theorem agent_phase_invariant_witness:
  "\<exists>w. wf_run (take 3 busy_events) (start_workflow idle_agent 0) = Some w \<and> wf_phase w = Parked 2000 \<and> as_status (wf_state w) = Waiting"
proof -
  have "map_option wf_phase (wf_run (take 3 busy_events) (start_workflow idle_agent 0)) = Some (Parked 2000)"
    by (simp add: busy_events_def start_workflow_def idle_agent_def loop_head_def can_wake_def wake_up_def on_sendMessage_def turn_failed_def limited_def
        clampParkHintMs_def MAX_PARK_HINT_MS_def park_def Let_def)
  then obtain w where run: "wf_run (take 3 busy_events) (start_workflow idle_agent 0) = Some w" and "wf_phase w = Parked 2000" by auto
  with agent_phase_invariant [OF run] show ?thesis by auto
qed

theorem agent_progress_witness:
  "\<exists>w w'. wf_run busy_events (start_workflow idle_agent 0) = Some w \<and> wf_step (WakeUp 8) w = Some w' \<and> ti_messages (turn_input w') = [mail ''3'']"
proof -
  obtain w where run: "wf_run busy_events (start_workflow idle_agent 0) = Some w" and waits: "wf_phase w = AwaitWork" "\<not> wf_cancelled w"
      "as_mailbox (wf_state w) = [mail ''3'']"
    using busy_run by blast
  have "\<exists>w'. wf_step (WakeUp 8) w = Some w' \<and> ti_messages (turn_input w') = [mail ''3'']"
    using agent_progress [OF run, where t = 8 and err = limited] waits by (auto simp del: wf_step.simps)
  with run show ?thesis by blast
qed

subsection \<open>Failures of activities\<close>

text \<open>
  Between the activity and the workflow Temporal wraps what the activity threw. What the workflow relies on is
  that the marks arrive: a failure is found non-retryable exactly if it was thrown as such, and the hint of
  a rate limit is found in it.
\<close>

definition marks_kept :: "(activity_error \<Rightarrow> failure) \<Rightarrow> bool" where
  "marks_kept wrap \<longleftrightarrow>
     (\<forall>e. isNonRetryableFailure (wrap e) \<longleftrightarrow> (\<exists>m t. e = NonRetryable m t)) \<and>
     (\<forall>e. retryAfterMsFromError (wrap e) = (case e of RateLimited _ ms \<Rightarrow> Some ms | _ \<Rightarrow> None))"

text \<open>One way of wrapping that keeps the marks: the thrown failure becomes the cause of the activity's.\<close>

fun wrapped_failure :: "activity_error \<Rightarrow> failure" where
  "wrapped_failure (NonRetryable m _) = Failure ''Activity task failed'' True False None [] (Some (Failure m True True None [] None))"
| "wrapped_failure (RateLimited m ms) = Failure ''Activity task failed'' True False None [] (Some (Failure m True False None [Some ms] None))"
| "wrapped_failure (TurnError _) = Failure ''Activity task failed'' True False None [] (Some (Failure ''error'' True False None [] None))"

lemma wrapped_marks: "marks_kept wrapped_failure"
  unfolding marks_kept_def by (intro conjI allI; case_tac e) auto

end
