(* ===== verification/Gym_Scoring.thy ===== *)
theory Gym_Scoring
  imports Run_Turn
begin

text \<open>
  Scoring of an agent's patch (\<^verbatim>\<open>src/src/gym/scoring.ts\<close>, \<^verbatim>\<open>sandbox-worker.ts\<close>): which paths a patch touches, what is
  protected, and the verdict, which compares the answers of a worker with expected values the worker is never
  given. Git, the worker process, the sandbox backend and \<^verbatim>\<open>JSON.parse\<close> are parameters; a checkout is the tree
  that is on disk.
\<close>

subsection \<open>Paths of a patch\<close>

datatype GymOutcome = OutPassed | OutFailed | OutTampered | OutTimedOut | OutErrored | OutSkipped

text \<open>A component of the path starts with \<open>s\<close>: the regular expressions that begin with \<^verbatim>\<open>(^|\/)\<close>.\<close>

definition component_start :: "string \<Rightarrow> string \<Rightarrow> bool" where
  "component_start s p \<longleftrightarrow> prefix s p \<or> sublist (CHR ''/'' # s) p"

definition ends_as_component :: "string \<Rightarrow> string \<Rightarrow> bool" where
  "ends_as_component s p \<longleftrightarrow> p = s \<or> suffix (CHR ''/'' # s) p"

definition PROTECTED_PATTERNS :: "(string \<Rightarrow> bool) list" where
  "PROTECTED_PATTERNS =
     [\<lambda>p. component_start ''test/'' p \<or> component_start ''tests/'' p,
      ends_as_component ''package.json'',
      ends_as_component ''package-lock.json'',
      sublist ''.mocharc'',
      sublist ''jest.config'',
      sublist ''vitest.config'',
      \<lambda>p. let base = last (split_on (CHR ''/'') p) in prefix ''tsconfig'' base \<and> suffix ''.json'' (drop 8 base),
      component_start ''.github/'',
      component_start ''.git/'']"

definition stripQuotes :: "string \<Rightarrow> string" where
  "stripQuotes value =
     (if length value \<ge> 2 \<and> hd value = CHR 0x22 \<and> last value = CHR 0x22 then butlast (tl value) else value)"

definition patch_path :: "string \<Rightarrow> string option" where
  "patch_path raw =
     (let path = stripQuotes (js_trim raw)
      in if path = [] \<or> path = ''/dev/null'' then None
         else (let p = (if take 2 path = ''a/'' \<or> take 2 path = ''b/'' then drop 2 path else path)
               in if p = [] then None else Some p))"

text \<open>The matches of \<^verbatim>\<open>"[^"]*"|\S+\<close>, from left to right.\<close>

function diff_tokens :: "string \<Rightarrow> string list" where
  "diff_tokens [] = []"
| "diff_tokens (c # s) =
     (if is_space c then diff_tokens s
      else if c = CHR 0x22 \<and> CHR 0x22 \<in> set s
      then (let q = takeWhile (\<lambda>d. d \<noteq> CHR 0x22) s in (c # q @ [c]) # diff_tokens (drop (Suc (length q)) s))
      else (c # takeWhile (\<lambda>d. \<not> is_space d) s) # diff_tokens (dropWhile (\<lambda>d. \<not> is_space d) s))"
  by pat_completeness auto
termination by (relation "measure length") (auto simp: length_dropWhile_le less_Suc_eq_le)

definition after_prefix :: "string list \<Rightarrow> string \<Rightarrow> string option" where
  "after_prefix starts line = map_option (\<lambda>s. drop (length s) line) (find (\<lambda>s. prefix s line) starts)"

definition line_paths :: "string \<Rightarrow> string list" where
  "line_paths line =
     (case after_prefix [''diff --git ''] line of
        Some rest \<Rightarrow> diff_tokens rest
      | None \<Rightarrow>
          (case after_prefix [''--- '', ''+++ ''] line of
             Some rest \<Rightarrow> [rest]
           | None \<Rightarrow>
               (case after_prefix [''rename from '', ''rename to '', ''copy from '', ''copy to ''] line of
                  Some rest \<Rightarrow> [rest]
                | None \<Rightarrow> [])))"

definition add_path :: "string list \<Rightarrow> string \<Rightarrow> string list" where
  "add_path paths raw = (case patch_path raw of None \<Rightarrow> paths | Some p \<Rightarrow> set_add p paths)"

definition parsePatchPaths :: "string \<Rightarrow> string list" where
  "parsePatchPaths patchText = foldl add_path [] (concat (map line_paths (split_on (CHR 0x0A) patchText)))"

text \<open>
  \<^verbatim>\<open>git apply --numstat -z\<close> prints records ended by a null character; \<open>numstat\<close> is its output, or nothing when git
  could not parse the patch. As written, the \<^verbatim>\<open>else\<close> of the loop belongs to the inner \<^verbatim>\<open>if\<close>, so a record of
  fewer than three fields is not looked at.
\<close>

definition numstat_paths :: "string \<Rightarrow> string list" where
  "numstat_paths record =
     (let fields = split_on (CHR 0x09) record in if length fields \<ge> 3 then filter (\<lambda>f. f \<noteq> []) (drop 2 fields) else [])"

definition patchTargetPaths :: "(string \<Rightarrow> string option) \<Rightarrow> string \<Rightarrow> string list" where
  "patchTargetPaths numstat patchText =
     (case numstat patchText of
        None \<Rightarrow> parsePatchPaths patchText
      | Some out \<Rightarrow> foldl (\<lambda>ps p. set_add p ps) (parsePatchPaths patchText) (concat (map numstat_paths (split_on (CHR 0x00) out))))"

definition isTampering :: "string list \<Rightarrow> bool" where
  "isTampering paths \<longleftrightarrow> (\<exists>path \<in> set paths. \<exists>pattern \<in> set PROTECTED_PATTERNS. pattern path)"

subsection \<open>Cases and answers\<close>

text \<open>The expected value may be missing from a case; \<^verbatim>\<open>JSON.stringify\<close> of it is then \<^verbatim>\<open>undefined\<close>.\<close>

record GymCase =
  gc_module :: string
  gc_call :: string
  gc_args :: "json list"
  gc_expect :: "json option"
  gc_label :: "string option"

record GymCaseResult =
  cr_label :: "string option"
  cr_ok :: bool
  cr_error :: "json option"

record IsolatedScore =
  sc_outcome :: GymOutcome
  sc_touchedPaths :: "string list"
  sc_cases :: "GymCaseResult list"
  sc_detail :: "string option"

text \<open>What the worker is sent: everything of a case but the expected value.\<close>

definition request_of :: "nat \<Rightarrow> GymCase \<Rightarrow> json" where
  "request_of index c =
     JObj [(''id'', JNum (int index + 1)), (''module'', JStr (gc_module c)), (''call'', JStr (gc_call c)), (''args'', JArr (gc_args c))]"

definition expectedJson :: "GymCase \<Rightarrow> json option" where
  "expectedJson c = map_option (\<lambda>v. JStr (stringify v)) (gc_expect c)"

definition case_result :: "GymCase \<Rightarrow> bool \<Rightarrow> json option \<Rightarrow> GymCaseResult" where
  "case_result c ok err = \<lparr>cr_label = truthy_text (gc_label c), cr_ok = ok, cr_error = err\<rparr>"

definition shown :: "json option \<Rightarrow> string \<Rightarrow> string" where
  "shown v d = (case v of None \<Rightarrow> d | Some j \<Rightarrow> js_String j)"

text \<open>The comparison of an answer with the expected value, and whether the answer is an error.\<close>

definition compare_response :: "GymCase \<Rightarrow> json \<Rightarrow> GymCaseResult \<times> bool" where
  "compare_response c response =
     (case jfield (Some response) ''error'' of
        Some e \<Rightarrow> (case_result c False (Some e), True)
      | None \<Rightarrow>
          (let valueJson = jfield (Some response) ''valueJson'';
               ok = (jfield (Some response) ''present'' = Some (JBool True) \<and> valueJson = expectedJson c)
           in (case_result c ok
                 (if ok then None
                  else Some (JStr (''expected '' @ shown (expectedJson c) ''undefined'' @ '', got '' @
                                   shown (nullish valueJson None) ''<undefined>''))), False)))"

text \<open>
  One request to the worker on the host: a message with the request's id, nothing before the time limit, or
  its exit. The second component of an answer says that the worker is gone when the next case is looked at.
\<close>

datatype worker_answer = AnswerMessage json | AnswerTimeout | AnswerExit

fun answer_message :: "worker_answer \<Rightarrow> json" where
  "answer_message (AnswerMessage m) = m"
| "answer_message AnswerTimeout = JObj [(''error'', JStr ''timed out'')]"
| "answer_message AnswerExit = JObj [(''id'', JNum (- 1)), (''error'', JStr ''worker exited before answering'')]"

text \<open>The loop over the cases; the worker's answer depends on the requests it has been sent.\<close>

fun run_cases :: "(json list \<Rightarrow> worker_answer \<times> bool) \<Rightarrow> json list \<Rightarrow> bool \<Rightarrow> nat \<Rightarrow> GymCase list \<Rightarrow> (GymCaseResult \<times> bool) list" where
  "run_cases worker sent workerDead index [] = []"
| "run_cases worker sent workerDead index (c # cs) =
     (if workerDead
      then (case_result c False (Some (JStr ''worker exited before answering (early exit is a failure)'')), True) #
           run_cases worker sent True (Suc index) cs
      else (let sent' = sent @ [request_of index c];
                (answer, gone) = worker sent'
            in compare_response c (answer_message answer) #
               run_cases worker sent' (gone \<or> answer = AnswerExit) (Suc index) cs))"

definition verdict :: "(GymCaseResult \<times> bool) list \<Rightarrow> GymOutcome" where
  "verdict rs =
     (if \<forall>r \<in> set rs. cr_ok (fst r) then OutPassed else if \<exists>r \<in> set rs. snd r then OutErrored else OutFailed)"

subsection \<open>The checkout\<close>

text \<open>
  A directory's entries in the order \<^verbatim>\<open>readdir\<close> gives them. A link carries its text and the components of its
  real path, if it has one.
\<close>

datatype fs_entry =
    FsFile string string
  | FsLink string string "string list option"
  | FsDir string "fs_entry list"
  | FsOther string

fun common_prefix :: "'a list \<Rightarrow> 'a list \<Rightarrow> nat" where
  "common_prefix (x # xs) (y # ys) = (if x = y then Suc (common_prefix xs ys) else 0)"
| "common_prefix _ _ = 0"

definition relative_path :: "string list \<Rightarrow> string list \<Rightarrow> string" where
  "relative_path from target =
     (let n = common_prefix from target in join_with (CHR ''/'') (replicate (length from - n) ''..'' @ drop n target))"

definition link_escapes :: "string list \<Rightarrow> string list \<Rightarrow> bool" where
  "link_escapes base target =
     (let rel = relative_path base target in rel = ''..'' \<or> prefix ''../'' rel \<or> prefix ''/'' rel)"

fun findEscapingSymlink :: "string list \<Rightarrow> string list \<Rightarrow> fs_entry list \<Rightarrow> string list option" where
  "findEscapingSymlink base dir [] = None"
| "findEscapingSymlink base dir (FsLink name text target # es) =
     (if name = ''.git'' then findEscapingSymlink base dir es
      else (case target of
              None \<Rightarrow> Some (dir @ [name])
            | Some t \<Rightarrow> if link_escapes base t then Some (dir @ [name]) else findEscapingSymlink base dir es))"
| "findEscapingSymlink base dir (FsDir name children # es) =
     (if name = ''.git'' then findEscapingSymlink base dir es
      else (case findEscapingSymlink base (dir @ [name]) children of
              Some found \<Rightarrow> Some found
            | None \<Rightarrow> findEscapingSymlink base dir es))"
| "findEscapingSymlink base dir (_ # es) = findEscapingSymlink base dir es"

definition SKIP_DIRS :: "string list" where
  "SKIP_DIRS = [''.git'', ''node_modules'']"

definition clone_path :: "string \<Rightarrow> string \<Rightarrow> string" where
  "clone_path rel name = (if rel = [] then name else rel @ ''/'' @ name)"

fun materializeClone :: "string \<Rightarrow> fs_entry list \<Rightarrow> MemoryWorkspace \<Rightarrow> ws_error + MemoryWorkspace" where
  "materializeClone rel [] ws = Inr ws"
| "materializeClone rel (FsLink name text target # es) ws =
     (if name \<in> set SKIP_DIRS then materializeClone rel es ws
      else (case ws_symlink ws (clone_path rel name) text of Inl e \<Rightarrow> Inl e | Inr ws' \<Rightarrow> materializeClone rel es ws'))"
| "materializeClone rel (FsDir name children # es) ws =
     (if name \<in> set SKIP_DIRS then materializeClone rel es ws
      else (case materializeClone (clone_path rel name) children ws of Inl e \<Rightarrow> Inl e | Inr ws' \<Rightarrow> materializeClone rel es ws'))"
| "materializeClone rel (FsFile name content # es) ws =
     (if name \<in> set SKIP_DIRS then materializeClone rel es ws
      else (case ws_write ws (clone_path rel name) content of Inl e \<Rightarrow> Inl e | Inr ws' \<Rightarrow> materializeClone rel es ws'))"
| "materializeClone rel (FsOther name # es) ws = materializeClone rel es ws"

subsection \<open>The pod\<close>

record SandboxScorerConfig =
  sq_image :: string
  sq_namespace :: "string option"
  sq_runtimeClassName :: "string option"
  sq_kubectlContext :: "string option"

definition sandboxScorerConfig :: "(string \<Rightarrow> string option) \<Rightarrow> SandboxScorerConfig option" where
  "sandboxScorerConfig getenv =
     (if getenv ''SYNTH_SCORER_SANDBOX'' = Some ''0'' then None
      else (case truthy_text (getenv ''SYNTH_EXECUTOR_IMAGE'') of
              None \<Rightarrow> None
            | Some img \<Rightarrow> Some \<lparr>sq_image = img, sq_namespace = truthy_text (getenv ''SYNTH_SCORER_NAMESPACE''),
                sq_runtimeClassName = truthy_text (getenv ''SYNTH_RUNTIME_CLASS''), sq_kubectlContext = truthy_text (getenv ''SYNTH_KUBERNETES_CONTEXT'')\<rparr>))"

definition resourceClassFor :: "SandboxScorerConfig \<Rightarrow> string + KubernetesResourceClass" where
  "resourceClassFor config =
     (case find (\<lambda>c. rc_id c = ''sandbox-small'') DEFAULT_KUBERNETES_RESOURCE_CLASSES of
        None \<Rightarrow> Inl ''sandbox-small resource class is missing''
      | Some base \<Rightarrow>
          Inr (base\<lparr>rc_image := sq_image config,
                    rc_runtimeClassName := (case truthy_text (sq_runtimeClassName config) of Some r \<Rightarrow> Some r | None \<Rightarrow> rc_runtimeClassName base)\<rparr>))"

text \<open>The first entry with the id; looking at the id of \<^verbatim>\<open>null\<close> throws.\<close>

fun find_entry :: "int \<Rightarrow> json list \<Rightarrow> string + json option" where
  "find_entry n [] = Inr None"
| "find_entry n (e # es) =
     (if e = JNull then Inl (''Cannot read properties of null (reading '' @ [CHR 0x27] @ ''id'' @ [CHR 0x27] @ '')'')
      else if jfield (Some e) ''id'' = Some (JNum n) then Inr (Some e) else find_entry n es)"

fun pod_cases :: "json list \<Rightarrow> nat \<Rightarrow> GymCase list \<Rightarrow> string + (GymCaseResult \<times> bool) list" where
  "pod_cases parsed index [] = Inr []"
| "pod_cases parsed index (c # cs) =
     (case find_entry (int index + 1) parsed of
        Inl e \<Rightarrow> Inl e
      | Inr found \<Rightarrow>
          map_sum id (Cons (case found of
                              None \<Rightarrow> (case_result c False (Some (JStr ''worker returned no result'')), True)
                            | Some response \<Rightarrow> compare_response c response)) (pod_cases parsed (Suc index) cs))"

definition sandbox_command :: "int \<Rightarrow> nat \<Rightarrow> ProcessExec" where
  "sandbox_command timeoutMs n =
     \<lparr>px_command = ''node worker.mjs requests.json results.json'', px_cwd = None, px_env = None,
      px_timeoutMs = Some (max timeoutMs 5000 * int n + 30000), px_resourceClass = None\<rparr>"

text \<open>
  Everything that happens in the sandbox: the checkout, the worker and the requests go in, the worker runs, and
  its results come out; nothing if they cannot be read.
\<close>

definition pod_run ::
  "'w SandboxBackend \<Rightarrow> string \<Rightarrow> fs_entry list \<Rightarrow> int \<Rightarrow> json list \<Rightarrow> SandboxIdentity \<Rightarrow> ('w, SandboxExecResult \<times> string option) io" where
  "pod_run backend workerSource clone timeoutMs requests sandbox =
     and_then (ws_result (materializeClone '''' clone (new_workspace [] None))) (\<lambda>workspace.
     and_then (materialize (default_sync\<lparr>so_initializeGitBaseline := False\<rparr>) backend None workspace sandbox) (\<lambda>_.
     and_then (sb_writeFile backend sandbox ''worker.mjs'' workerSource) (\<lambda>_.
     and_then (sb_writeFile backend sandbox ''requests.json'' (stringify (JArr requests))) (\<lambda>_.
     and_then (sb_exec backend sandbox (sandbox_command timeoutMs (length requests))) (\<lambda>run w.
       (case sb_readFile backend sandbox ''results.json'' w of
          (Inl _, w') \<Rightarrow> (Inr (run, None), w')
        | (Inr text, w') \<Rightarrow> (Inr (run, Some text), w')))))))"

definition score_of :: "GymOutcome \<Rightarrow> (GymCaseResult \<times> bool) list \<Rightarrow> string option \<Rightarrow> IsolatedScore" where
  "score_of outcome rs detail = \<lparr>sc_outcome = outcome, sc_touchedPaths = [], sc_cases = map fst rs, sc_detail = detail\<rparr>"

definition pod_verdict :: "(string \<Rightarrow> json option) \<Rightarrow> GymCase list \<Rightarrow> SandboxExecResult \<Rightarrow> string option \<Rightarrow> IsolatedScore" where
  "pod_verdict parse cases run results =
     (case Option.bind results parse of
        None \<Rightarrow>
          (if xr_timedOut run then score_of OutTimedOut [] (Some ''the sandboxed worker timed out'')
           else score_of OutErrored []
             (Some (''the sandboxed worker wrote no results (exit '' @ show_int (xr_exitCode run) @ ''): '' @
                    take 300 (if xr_stderr run \<noteq> [] then xr_stderr run else xr_stdout run))))
      | Some (JArr parsed) \<Rightarrow>
          (case pod_cases parsed 0 cases of
             Inl e \<Rightarrow> score_of OutErrored [] (Some e)
           | Inr rs \<Rightarrow> score_of (verdict rs) rs None)
      | Some _ \<Rightarrow> score_of OutErrored [] (Some ''parsed.find is not a function''))"

definition requests_of :: "GymCase list \<Rightarrow> json list" where
  "requests_of cases = map (\<lambda>(i, c). request_of i c) (List.enumerate 0 cases)"

text \<open>The sandbox is destroyed on every way out, and a failure to destroy it is ignored.\<close>

definition scoreInSandbox ::
  "'w SandboxBackend \<Rightarrow> (string \<Rightarrow> json option) \<Rightarrow> string \<Rightarrow> fs_entry list \<Rightarrow> int \<Rightarrow> SandboxScorerConfig \<Rightarrow> GymCase list \<Rightarrow> 'w \<Rightarrow> IsolatedScore \<times> 'w" where
  "scoreInSandbox backend parse workerSource clone timeoutMs config cases w =
     (case resourceClassFor config of
        Inl e \<Rightarrow> (score_of OutErrored [] (Some e), w)
      | Inr cl \<Rightarrow>
          (case sb_create backend cl [] w of
             (Inl e, w1) \<Rightarrow> (score_of OutErrored [] (Some e), w1)
           | (Inr sandbox, w1) \<Rightarrow>
               (let (r, w2) = pod_run backend workerSource clone timeoutMs (requests_of cases) sandbox w1
                in (case r of
                      Inl e \<Rightarrow> score_of OutErrored [] (Some e)
                    | Inr (run, results) \<Rightarrow> pod_verdict parse cases run results,
                    snd (sb_destroy backend sandbox w2)))))"

subsection \<open>The worker's environment\<close>

definition WORKER_ENV_ALLOWLIST :: "string list" where
  "WORKER_ENV_ALLOWLIST = [''PATH'', ''HOME'', ''TMPDIR'', ''TMP'', ''TEMP'', ''LANG'', ''LC_ALL'', ''SystemRoot'', ''LOCALAPPDATA'', ''APPDATA'']"

definition workerEnvironment :: "(string \<Rightarrow> string option) \<Rightarrow> (string, string) jsmap" where
  "workerEnvironment getenv = concat (map (\<lambda>k. case getenv k of None \<Rightarrow> [] | Some v \<Rightarrow> [(k, v)]) WORKER_ENV_ALLOWLIST)"

text \<open>The flags the runtime supports, tried in order; nothing to deny, or a refusal to run.\<close>

definition sqliteDenyArgs :: "bool \<Rightarrow> (string \<Rightarrow> bool) \<Rightarrow> string + string list" where
  "sqliteDenyArgs available supports =
     (if \<not> available then Inr []
      else if supports ''--no-experimental-sqlite'' then Inr [''--no-experimental-sqlite'']
      else Inl ''node:sqlite is available and cannot be denied on this runtime; refusing to run the scoring worker'')"

definition workerArgs :: "bool \<Rightarrow> (string \<Rightarrow> bool) \<Rightarrow> string \<Rightarrow> string + string list" where
  "workerArgs sqlite supports workDir =
     (case find supports [''--permission'', ''--experimental-permission''] of
        None \<Rightarrow> Inl ''Node has no permission model; refusing to run the scoring worker unsandboxed''
      | Some permission \<Rightarrow> map_sum id (\<lambda>deny. [permission, ''--allow-fs-read='' @ workDir] @ deny) (sqliteDenyArgs sqlite supports))"

subsection \<open>The score\<close>

datatype sandbox_choice = SandboxOff | SandboxGiven SandboxScorerConfig | SandboxDefault

record IsolatedScoreOptions =
  io_patchText :: string
  io_baseRepoDir :: string
  io_cases :: "GymCase list option"
  io_timeoutMs :: "int option"
  io_sandbox :: sandbox_choice

text \<open>
  What the scorer runs: git (a clone of the base, the check of a patch, its application), the real path of the
  clone, the environment, the worker's process with its flags and environment, and the backend for a configuration.
\<close>

record 'w score_env =
  se_numstat :: "string \<Rightarrow> string option"
  se_clone :: "string \<Rightarrow> string + fs_entry list"
  se_applyCheck :: "fs_entry list \<Rightarrow> string \<Rightarrow> string option"
  se_apply :: "fs_entry list \<Rightarrow> string \<Rightarrow> string + fs_entry list"
  se_base :: "string list"
  se_work :: string
  se_getenv :: "string \<Rightarrow> string option"
  se_sqlite :: bool
  se_supports :: "string \<Rightarrow> bool"
  se_worker :: "string list \<Rightarrow> (string, string) jsmap \<Rightarrow> int \<Rightarrow> fs_entry list \<Rightarrow> json list \<Rightarrow> worker_answer \<times> bool"
  se_backend :: "SandboxScorerConfig \<Rightarrow> 'w SandboxBackend"
  se_parse :: "string \<Rightarrow> json option"
  se_source :: string

definition pod_choice :: "'w score_env \<Rightarrow> sandbox_choice \<Rightarrow> SandboxScorerConfig option" where
  "pod_choice env choice =
     (case choice of SandboxOff \<Rightarrow> None | SandboxGiven config \<Rightarrow> Some config | SandboxDefault \<Rightarrow> sandboxScorerConfig (se_getenv env))"

text \<open>The clone with the patch applied, or the score that ends the attempt.\<close>

definition patched_checkout :: "'w score_env \<Rightarrow> string \<Rightarrow> string \<Rightarrow> IsolatedScore + fs_entry list" where
  "patched_checkout env baseRepoDir patchText =
     (case se_clone env baseRepoDir of
        Inl e \<Rightarrow> Inl (score_of OutErrored [] (Some e))
      | Inr clone \<Rightarrow>
          if js_trim patchText = [] then Inr clone
          else (case se_applyCheck env clone patchText of
                  Some e \<Rightarrow> Inl (score_of OutErrored [] (Some (''patch does not apply: '' @ e)))
                | None \<Rightarrow>
                    (case se_apply env clone patchText of
                       Inl e \<Rightarrow> Inl (score_of OutErrored [] (Some e))
                     | Inr applied \<Rightarrow> Inr applied)))"

definition score_on_host :: "'w score_env \<Rightarrow> fs_entry list \<Rightarrow> int \<Rightarrow> GymCase list \<Rightarrow> IsolatedScore" where
  "score_on_host env clone timeoutMs cases =
     (case workerArgs (se_sqlite env) (se_supports env) (se_work env) of
        Inl e \<Rightarrow> score_of OutErrored [] (Some e)
      | Inr args \<Rightarrow>
          (let rs = run_cases (se_worker env args (workerEnvironment (se_getenv env)) timeoutMs clone) [] False 0 cases
           in score_of (verdict rs) rs None))"

definition score_checkout :: "'w score_env \<Rightarrow> SandboxScorerConfig option \<Rightarrow> int \<Rightarrow> GymCase list \<Rightarrow> fs_entry list \<Rightarrow> 'w \<Rightarrow> IsolatedScore \<times> 'w" where
  "score_checkout env pod timeoutMs cases clone w =
     (case findEscapingSymlink (se_base env) [] clone of
        Some link \<Rightarrow> (score_of OutTampered [] (Some (''checkout contains a symlink that escapes it: '' @ join_with (CHR ''/'') link)), w)
      | None \<Rightarrow>
          (case pod of
             Some config \<Rightarrow> scoreInSandbox (se_backend env config) (se_parse env) (se_source env) clone timeoutMs config cases w
           | None \<Rightarrow> (score_on_host env clone timeoutMs cases, w)))"

fun join_strings :: "string \<Rightarrow> string list \<Rightarrow> string" where
  "join_strings sep [] = []"
| "join_strings sep [x] = x"
| "join_strings sep (x # y # ys) = x @ sep @ join_strings sep (y # ys)"

definition isolatedScoreGymPatch :: "'w score_env \<Rightarrow> IsolatedScoreOptions \<Rightarrow> 'w \<Rightarrow> IsolatedScore \<times> 'w" where
  "isolatedScoreGymPatch env options w =
     (let touchedPaths = patchTargetPaths (se_numstat env) (io_patchText options);
          give = (\<lambda>(s, w'). (s\<lparr>sc_touchedPaths := touchedPaths\<rparr>, w'));
          podSandbox = pod_choice env (io_sandbox options)
      in give
        (if isTampering touchedPaths
         then (score_of OutTampered [] (Some (''patch touches protected paths: '' @ join_strings '', '' touchedPaths)), w)
         else (case io_cases options of
                 None \<Rightarrow> (score_of OutErrored [] (Some ''the scorer requires held-out cases; the legacy hiddenTestPath/expectedHiddenTests signature is no longer supported''), w)
               | Some cases \<Rightarrow>
                   if cases = [] then (score_of OutErrored [] (Some ''no hidden cases: refusing a vacuous pass''), w)
                   else if podSandbox = None \<and> se_getenv env ''SYNTH_REQUIRE_ISOLATION'' = Some ''1''
                   then (score_of OutErrored [] (Some ''no OS-level sandbox is configured; refusing to run agent code in an untrusted context (SYNTH_REQUIRE_ISOLATION=1)''), w)
                   else (case patched_checkout env (io_baseRepoDir options) (io_patchText options) of
                           Inl s \<Rightarrow> (s, w)
                         | Inr clone \<Rightarrow> score_checkout env podSandbox (opt_or (io_timeoutMs options) 30000) cases clone w))))"

definition isolatedScorerFor :: "'w score_env \<Rightarrow> GymCase list \<Rightarrow> string \<Rightarrow> string \<Rightarrow> 'w \<Rightarrow> IsolatedScore \<times> 'w" where
  "isolatedScorerFor env cases patchText baseRepoDir =
     isolatedScoreGymPatch env \<lparr>io_patchText = patchText, io_baseRepoDir = baseRepoDir, io_cases = Some cases, io_timeoutMs = None, io_sandbox = SandboxDefault\<rparr>"

end
