(* ===== verification/Gym_Tools.thy ===== *)
theory Gym_Tools
  imports Gym_Scoring Text_Replace
begin

text \<open>
  The tools of a benchmark attempt (\<^verbatim>\<open>src/src/gym/tools.ts\<close>), the two environments they act on, a host directory and
  the execution broker, the harvest of the patch (\<^verbatim>\<open>harvest.ts\<close>) and the choice of the runner (\<^verbatim>\<open>runner.ts\<close>).
  The host's file system and shell and the broker are parameters.
\<close>

subsection \<open>Runners\<close>

record GymExecResult =
  xe_code :: int
  xe_stdout :: string
  xe_stderr :: string
  xe_timedOut :: "bool option"

record exec_options =
  xo_cwd :: "string option"
  xo_timeoutMs :: "int option"

record 'w EffectRunner =
  er_read :: "string \<Rightarrow> ('w, string) io"
  er_write :: "string \<Rightarrow> string \<Rightarrow> ('w, unit) io"
  er_list :: "string \<Rightarrow> ('w, string list) io"
  er_exec :: "string \<Rightarrow> exec_options \<Rightarrow> ('w, GymExecResult) io"

subsection \<open>A directory of the host\<close>

text \<open>\<^verbatim>\<open>resolve\<close> and \<^verbatim>\<open>relative\<close> of Node's POSIX path module, on the components of absolute paths.\<close>

fun resolve_step :: "string list \<Rightarrow> string \<Rightarrow> string list" where
  "resolve_step acc s = (if s = [] \<or> s = ''.'' then acc else if s = ''..'' then butlast acc else acc @ [s])"

definition path_resolve :: "string list \<Rightarrow> string \<Rightarrow> string list" where
  "path_resolve rootDir path = foldl resolve_step rootDir (split_on (CHR ''/'') path)"

definition resolveWithin :: "string list \<Rightarrow> string \<Rightarrow> string + string list" where
  "resolveWithin rootDir path =
     (if prefix ''/'' path then Inl (''path must be relative: '' @ path)
      else (let full = path_resolve rootDir path; rel = relative_path rootDir full
            in if rel = [] \<or> rel = ''.'' then Inr full
               else if prefix ''..'' rel \<or> ''..'' \<in> set (split_on (CHR ''/'') rel) then Inl (''path escapes the workspace: '' @ path)
               else Inr full))"

datatype spawn_end = SpawnError string | SpawnClosed "int option"

record 'w host_fs =
  hf_readFile :: "string list \<Rightarrow> ('w, string) io"
  hf_mkdir :: "string list \<Rightarrow> ('w, unit) io"
  hf_writeFile :: "string list \<Rightarrow> string \<Rightarrow> ('w, unit) io"
  hf_readdir :: "string list \<Rightarrow> ('w, (string \<times> bool) list) io"
  hf_spawn :: "string \<Rightarrow> string \<Rightarrow> int \<Rightarrow> 'w \<Rightarrow> (spawn_end \<times> string \<times> string \<times> bool) \<times> 'w"

text \<open>The shell's end, its two outputs and whether the timer killed it.\<close>

definition runShell :: "'w host_fs \<Rightarrow> string \<Rightarrow> string \<Rightarrow> int option \<Rightarrow> ('w, GymExecResult) io" where
  "runShell fs command cwd timeoutMs w =
     (case hf_spawn fs command cwd (opt_or timeoutMs 120000) w of
        ((end, out, err, timedOut), w') \<Rightarrow>
          (Inr (case end of
                  SpawnError e \<Rightarrow> \<lparr>xe_code = 127, xe_stdout = out, xe_stderr = err @ e, xe_timedOut = Some timedOut\<rparr>
                | SpawnClosed code \<Rightarrow> \<lparr>xe_code = opt_or code (if timedOut then 124 else 1), xe_stdout = out, xe_stderr = err, xe_timedOut = Some timedOut\<rparr>), w'))"

definition localEffectRunner :: "'w host_fs \<Rightarrow> string \<Rightarrow> 'w EffectRunner" where
  "localEffectRunner fs rootDir =
     (let base = path_resolve [] rootDir
      in \<lparr>er_read = (\<lambda>path. and_then (lift_result (resolveWithin base path)) (hf_readFile fs)),
          er_write = (\<lambda>path content. and_then (lift_result (resolveWithin base path)) (\<lambda>full.
            and_then (hf_mkdir fs (butlast full)) (\<lambda>_. hf_writeFile fs full content))),
          er_list = (\<lambda>path. and_then (lift_result (resolveWithin base (if path = [] then ''.'' else path))) (\<lambda>full.
            and_then (hf_readdir fs full) (\<lambda>entries. ret (sort (map (\<lambda>(name, isDir). if isDir then name @ ''/'' else name) entries))))),
          er_exec = (\<lambda>command opts. runShell fs command (opt_or (xo_cwd opts) rootDir) (xo_timeoutMs opts))\<rparr>)"

subsection \<open>The broker\<close>

text \<open>A world of the broker and the counter of the ids.\<close>

definition exec_effect :: "(Effect \<Rightarrow> EffectContext \<Rightarrow> ('w, EffectResult) io) \<Rightarrow> EffectContext \<Rightarrow> string \<Rightarrow> string \<Rightarrow> effect_body \<Rightarrow> ('w \<times> nat, EffectResult) io" where
  "exec_effect broker ctx i kind body w =
     (let (r, b) = broker \<lparr>eff_id = i @ '':'' @ kind @ '':'' @ show_nat (Suc (snd w)), eff_body = body\<rparr> ctx (fst w)
      in (r, (b, Suc (snd w))))"

definition output_text :: "effect_output option \<Rightarrow> string" where
  "output_text out =
     (case out of
        None \<Rightarrow> ''undefined''
      | Some (OutBytes s) \<Rightarrow> s
      | Some (OutNames ns) \<Rightarrow> join_with (CHR '','') ns
      | Some (OutDigest _ _) \<Rightarrow> ''[object Object]''
      | Some (OutJson j) \<Rightarrow> js_String j)"

definition output_names :: "effect_output option \<Rightarrow> string + string list" where
  "output_names out =
     (case out of None \<Rightarrow> Inr [] | Some (OutNames ns) \<Rightarrow> Inr (sort ns) | Some _ \<Rightarrow> Inl ''output is not a list of names'')"

definition exec_fields :: "effect_output option \<Rightarrow> GymExecResult option" where
  "exec_fields out =
     (case out of
        Some (OutJson j) \<Rightarrow>
          (case jfield (Some j) ''exitCode'' of
             Some (JNum code) \<Rightarrow>
               Some \<lparr>xe_code = code, xe_stdout = shown (nullish (jfield (Some j) ''stdout'') None) [],
                     xe_stderr = shown (nullish (jfield (Some j) ''stderr'') None) [],
                     xe_timedOut = (case jfield (Some j) ''timedOut'' of Some (JBool b) \<Rightarrow> Some b | _ \<Rightarrow> None)\<rparr>
           | _ \<Rightarrow> None)
      | _ \<Rightarrow> None)"

definition brokerEffectRunner :: "(Effect \<Rightarrow> EffectContext \<Rightarrow> ('w, EffectResult) io) \<Rightarrow> EffectContext \<Rightarrow> string \<Rightarrow> ('w \<times> nat) EffectRunner" where
  "brokerEffectRunner broker ctx i =
     \<lparr>er_read = (\<lambda>path. and_then (exec_effect broker ctx i ''read'' (WorkspaceRead path)) (\<lambda>r.
        if r_ok r then ret (output_text (r_output r)) else fail_with (opt_or (r_error r) (''read failed: '' @ path)))),
      er_write = (\<lambda>path content. and_then (exec_effect broker ctx i ''write'' (WorkspaceWrite path content)) (\<lambda>r.
        if r_ok r then ret () else fail_with (opt_or (r_error r) (''write failed: '' @ path)))),
      er_list = (\<lambda>path. and_then (exec_effect broker ctx i ''list'' (WorkspaceList (if path = [] then None else Some path))) (\<lambda>r.
        if r_ok r then lift_result (output_names (r_output r)) else fail_with (opt_or (r_error r) (''list failed: '' @ path)))),
      er_exec = (\<lambda>command opts. and_then (exec_effect broker ctx i ''exec'' (ProcessExecEffect
          \<lparr>px_command = command, px_cwd = truthy_text (xo_cwd opts), px_env = None,
           px_timeoutMs = (if xo_timeoutMs opts = Some 0 then None else xo_timeoutMs opts), px_resourceClass = None\<rparr>)) (\<lambda>r.
        case exec_fields (r_output r) of
          Some x \<Rightarrow> ret x
        | None \<Rightarrow> if r_ok r then ret \<lparr>xe_code = 0, xe_stdout = (if r_output r \<in> {None, Some (OutJson JNull)} then [] else output_text (r_output r)), xe_stderr = [], xe_timedOut = None\<rparr>
                  else fail_with (opt_or (r_error r) ''exec failed'')))\<rparr>"

subsection \<open>The tools\<close>

record GymToolCall =
  gt_name :: string
  gt_arguments :: "json option"

record GymToolResult =
  gr_name :: string
  gr_ok :: bool
  gr_observation :: string
  gr_blocked :: bool
  gr_exitCode :: "int option"

record GymToolOptions =
  gp_visibleTestPath :: string
  gp_protectedPatterns :: "(string \<Rightarrow> bool) list option"
  gp_node :: string
  gp_execTimeoutMs :: "int option"

record GymToolDefinition =
  gd_name :: string
  gd_description :: string
  gd_parameters :: "(string \<times> string \<times> bool) list"

definition GYM_TOOL_DEFINITIONS :: "GymToolDefinition list" where
  "GYM_TOOL_DEFINITIONS =
     [\<lparr>gd_name = ''list_files'', gd_description = ''List files in the repository, optionally under a subdirectory.'',
       gd_parameters = [(''path'', ''string'', False)]\<rparr>,
      \<lparr>gd_name = ''read_file'', gd_description = ''Read a text file from the repository.'',
       gd_parameters = [(''path'', ''string'', True)]\<rparr>,
      \<lparr>gd_name = ''write_file'', gd_description = ''Write a text file in the repository. The test files are read-only.'',
       gd_parameters = [(''path'', ''string'', True), (''content'', ''string'', True)]\<rparr>,
      \<lparr>gd_name = ''replace_in_file'',
       gd_description = ''Replace one substring in a source file. The old text must occur exactly once; if exact matching fails, leading indentation is ignored and the replacement is re-indented to the file.'',
       gd_parameters = [(''path'', ''string'', True), (''old_text'', ''string'', True), (''new_text'', ''string'', True)]\<rparr>,
      \<lparr>gd_name = ''run_visible_test'', gd_description = ''Run the visible test. A zero exit code means it passed. Do not edit the test.'',
       gd_parameters = []\<rparr>,
      \<lparr>gd_name = ''finish'', gd_description = ''Stop working and submit the current repository state for scoring.'', gd_parameters = []\<rparr>]"

function strip_dot_slash :: "string \<Rightarrow> string" where
  "strip_dot_slash p = (if take 2 p = ''./'' then strip_dot_slash (drop 2 p) else p)"
  by auto
termination by (relation "measure length") (auto, metis diff_less length_greater_0_conv take_eq_Nil zero_less_numeral list.distinct(1))

declare strip_dot_slash.simps [simp del]

definition normalizePath :: "string \<Rightarrow> string" where
  "normalizePath path = (let p = strip_dot_slash (js_trim path) in if prefix ''/'' p then drop 1 p else p)"

definition isProtected :: "string \<Rightarrow> GymToolOptions \<Rightarrow> bool" where
  "isProtected path options =
     (let p = normalizePath path
      in if p = normalizePath (gp_visibleTestPath options) then True
         else (\<exists>pattern \<in> set (opt_or (gp_protectedPatterns options) PROTECTED_PATTERNS). pattern p))"

definition arg_string :: "GymToolCall \<Rightarrow> string \<Rightarrow> string" where
  "arg_string call name = (case jfield (gt_arguments call) name of Some (JStr s) \<Rightarrow> s | _ \<Rightarrow> [])"

definition tool_result :: "GymToolCall \<Rightarrow> bool \<Rightarrow> string \<Rightarrow> GymToolResult" where
  "tool_result call ok observation = \<lparr>gr_name = gt_name call, gr_ok = ok, gr_observation = observation, gr_blocked = False, gr_exitCode = None\<rparr>"

definition refusal :: "GymToolCall \<Rightarrow> string \<Rightarrow> GymToolResult" where
  "refusal call observation = (tool_result call False observation)\<lparr>gr_blocked := True\<rparr>"

definition tool_list :: "'w EffectRunner \<Rightarrow> GymToolOptions \<Rightarrow> GymToolCall \<Rightarrow> ('w, GymToolResult) io" where
  "tool_list runner options call =
     (let path = arg_string call ''path''
      in if isProtected path options \<and> normalizePath path \<noteq> []
         then ret (refusal call (''refused: '' @ path @ '' is a protected path''))
         else and_then (er_list runner path) (\<lambda>entries. ret (tool_result call True (join_with (CHR 0x0A) entries))))"

definition tool_read :: "'w EffectRunner \<Rightarrow> GymToolCall \<Rightarrow> ('w, GymToolResult) io" where
  "tool_read runner call =
     (let path = arg_string call ''path''
      in if path = [] then ret (tool_result call False ''read_file requires a path'')
         else and_then (er_read runner path) (\<lambda>content. ret (tool_result call True content)))"

definition tool_write :: "'w EffectRunner \<Rightarrow> GymToolOptions \<Rightarrow> GymToolCall \<Rightarrow> ('w, GymToolResult) io" where
  "tool_write runner options call =
     (let path = arg_string call ''path''; content = arg_string call ''content''
      in if path = [] then ret (tool_result call False ''write_file requires a path'')
         else if isProtected path options then ret (refusal call (''refused: '' @ path @ '' is read-only (test/runner config)''))
         else and_then (er_write runner path content) (\<lambda>_. ret (tool_result call True (''wrote '' @ path))))"

definition tool_replace :: "'w EffectRunner \<Rightarrow> GymToolOptions \<Rightarrow> GymToolCall \<Rightarrow> ('w, GymToolResult) io" where
  "tool_replace runner options call =
     (let path = arg_string call ''path''; oldText = arg_string call ''old_text''; newText = arg_string call ''new_text''
      in if path = [] then ret (tool_result call False ''replace_in_file requires a path'')
         else if oldText = [] then ret (tool_result call False ''replace_in_file requires non-empty old_text'')
         else if isProtected path options then ret (refusal call (''refused: '' @ path @ '' is read-only (test/runner config)''))
         else and_then (er_read runner path) (\<lambda>content.
           (let result = replaceInText content oldText newText
            in if \<not> tr_ok result
               then ret (tool_result call False (''old_text occurs '' @ show_nat (tr_occurrences result) @ '' times in '' @ path @ ''; it must occur exactly once''))
               else and_then (er_write runner path (opt_or (tr_content result) [])) (\<lambda>_. ret (tool_result call True (''replaced text in '' @ path))))))"

definition tool_test :: "'w EffectRunner \<Rightarrow> GymToolOptions \<Rightarrow> GymToolCall \<Rightarrow> ('w, GymToolResult) io" where
  "tool_test runner options call =
     and_then (er_exec runner (gp_node options @ '' --test '' @ json_quote (gp_visibleTestPath options))
                 \<lparr>xo_cwd = None, xo_timeoutMs = Some (opt_or (gp_execTimeoutMs options) 120000)\<rparr>) (\<lambda>result.
       ret ((tool_result call True (js_trim ((if xe_code result = 0 then ''PASS'' else ''FAIL'') @ '' (exit '' @ show_int (xe_code result) @ '')'' @
              [CHR 0x0A] @ xe_stdout result @ [CHR 0x0A] @ xe_stderr result)))\<lparr>gr_exitCode := Some (xe_code result)\<rparr>))"

definition run_tool :: "'w EffectRunner \<Rightarrow> GymToolOptions \<Rightarrow> GymToolCall \<Rightarrow> ('w, GymToolResult) io" where
  "run_tool runner options call =
     (if gt_name call = ''list_files'' then tool_list runner options call
      else if gt_name call = ''read_file'' then tool_read runner call
      else if gt_name call = ''write_file'' then tool_write runner options call
      else if gt_name call = ''replace_in_file'' then tool_replace runner options call
      else if gt_name call = ''run_visible_test'' then tool_test runner options call
      else if gt_name call = ''finish'' then ret (tool_result call True ''finished'')
      else ret (tool_result call False
        (''unknown tool '' @ [CHR 0x22] @ gt_name call @ [CHR 0x22] @ ''. Available tools: '' @ join_strings '', '' (map gd_name GYM_TOOL_DEFINITIONS) @ ''.'')))"

text \<open>\<^verbatim>\<open>execute\<close>: whatever is thrown becomes an observation.\<close>

definition tool_execute :: "'w EffectRunner \<Rightarrow> GymToolOptions \<Rightarrow> GymToolCall \<Rightarrow> 'w \<Rightarrow> GymToolResult \<times> 'w" where
  "tool_execute runner options call w =
     (case run_tool runner options call w of
        (Inl e, w') \<Rightarrow> (tool_result call False e, w')
      | (Inr r, w') \<Rightarrow> (r, w'))"

subsection \<open>Prompts\<close>

definition tool_line :: "GymToolDefinition \<Rightarrow> string" where
  "tool_line tool =
     ''- '' @ gd_name tool @ ''('' @ join_strings '', '' (map (\<lambda>(name, type, required). name @ (if required then [] else ''?'') @ '': '' @ type) (gd_parameters tool)) @
     '') '' @ [CHR 0xE2, CHR 0x80, CHR 0x94] @ '' '' @ gd_description tool"

definition buildGymSystemPrompt :: "string \<Rightarrow> GymToolDefinition list \<Rightarrow> string" where
  "buildGymSystemPrompt visibleTestPath tools =
     join_with (CHR 0x0A)
       ([''You are fixing a bug in a repository so that a failing test passes.'',
         ''The test is at '' @ visibleTestPath @ '' and is READ-ONLY: do not edit, delete or rename it, and do not edit package.json or any test runner config.'',
         ''The ONLY tools are:''] @ map tool_line tools @
        [''Use these tools to inspect and change the source. When you believe the test passes, call `finish`.'',
         ''Reply with ONLY a JSON object of the form:'',
         ''{'' @ json_quote ''tool_calls'' @ '':[{'' @ json_quote ''name'' @ '':'' @ json_quote ''<tool>'' @ '','' @ json_quote ''arguments'' @ '':{...}}]}'',
         ''You may request one or more tool calls per reply, in order. No prose, no markdown, no code fences.''])"

definition buildGymUserPrompt :: "string \<Rightarrow> string \<Rightarrow> string" where
  "buildGymUserPrompt visibleTestPath visibleTestContent =
     join_with (CHR 0x0A)
       [''Fix the bug so that the test at '' @ visibleTestPath @ '' passes.'', [], ''The test currently reads:'', fence,
        rev (dropWhile is_space (rev visibleTestContent)), fence]"

subsection \<open>The harvest and the choice of the runner\<close>

definition NODE_MODULES_EXCLUDES :: "string list" where
  "NODE_MODULES_EXCLUDES = ['':(exclude)node_modules'', '':(exclude)*/node_modules'']"

definition harvest_command :: "string \<Rightarrow> string" where
  "harvest_command baseRef =
     ''git add -A -- . '' @ join_with (CHR '' '') (map (\<lambda>p. [CHR 0x27] @ p @ [CHR 0x27]) NODE_MODULES_EXCLUDES) @ '' && git diff --cached '' @ baseRef"

definition harvestPatch :: "'w EffectRunner \<Rightarrow> string \<Rightarrow> string option \<Rightarrow> ('w, string) io" where
  "harvestPatch runner repoDir baseRef =
     and_then (er_exec runner (harvest_command (opt_or baseRef ''HEAD'')) \<lparr>xo_cwd = Some repoDir, xo_timeoutMs = None\<rparr>) (\<lambda>result.
       if xe_code result \<noteq> 0
       then fail_with (''git harvest failed (exit '' @ show_int (xe_code result) @ ''): '' @ (if xe_stderr result \<noteq> [] then xe_stderr result else xe_stdout result))
       else ret (xe_stdout result))"

datatype GymRunnerKind = LocalRunner | SandboxRunner
datatype GymIsolation = Unisolated | Gvisor

record GymRunnerBinding =
  rb_kind :: GymRunnerKind
  rb_isolation :: GymIsolation
  rb_isolated :: bool

definition DEFAULT_GYM_RUNNER :: GymRunnerKind where "DEFAULT_GYM_RUNNER = SandboxRunner"

definition describeGymRunner :: "GymRunnerKind \<Rightarrow> GymRunnerBinding" where
  "describeGymRunner kind =
     (if kind = SandboxRunner then \<lparr>rb_kind = kind, rb_isolation = Gvisor, rb_isolated = True\<rparr>
      else \<lparr>rb_kind = kind, rb_isolation = Unisolated, rb_isolated = False\<rparr>)"

definition parseGymRunner :: "string option \<Rightarrow> string + GymRunnerKind" where
  "parseGymRunner value =
     (case value of
        None \<Rightarrow> Inr DEFAULT_GYM_RUNNER
      | Some v \<Rightarrow>
          if v = [] then Inr DEFAULT_GYM_RUNNER
          else if v = ''local'' then Inr LocalRunner
          else if v = ''sandbox'' then Inr SandboxRunner
          else Inl (''unknown runner '' @ [CHR 0x22] @ v @ [CHR 0x22] @ '': expected '' @ json_quote ''sandbox'' @ '' (default, gVisor) or '' @
                    json_quote ''local'' @ '' (unisolated comparison arm)''))"

definition assertScoredRunnerAllowed :: "GymRunnerKind \<Rightarrow> bool" where
  "assertScoredRunnerAllowed kind = scoredRungAllowed (Some (rb_isolated (describeGymRunner kind))) True"

end
