(* ===== verification/Gym_Scoring_Laws.thy ===== *)
theory Gym_Scoring_Laws
  imports Gym_Scoring
begin

text \<open>
  What a pass is worth: it is decided by the verifier's own comparison of the worker's answers, for every case, and
  for given requests at most one list of expected values can be met. A patch that names a protected path is
  never run, and a checkout whose links leave it is refused.
\<close>

subsection \<open>One case\<close>

definition answers_case :: "GymCase \<Rightarrow> json \<Rightarrow> bool" where
  "answers_case c response \<longleftrightarrow>
     jfield (Some response) ''error'' = None \<and> jfield (Some response) ''present'' = Some (JBool True) \<and>
     jfield (Some response) ''valueJson'' = expectedJson c"

named_theorems scoring \<open>what a comparison and a verdict mean\<close>

lemma case_result_ok [scoring, simp]: "cr_ok (case_result c ok e) = ok"
  by (simp add: case_result_def)

lemma compare_ok [scoring]: "cr_ok (fst (compare_response c m)) \<longleftrightarrow> answers_case c m"
  by (simp add: compare_response_def answers_case_def Let_def split: option.split)

lemma compare_not_both [scoring]: "snd (compare_response c m) \<Longrightarrow> \<not> cr_ok (fst (compare_response c m))"
  by (auto simp: compare_response_def Let_def split: option.splits)

lemma verdict_passed [scoring]: "verdict rs = OutPassed \<longleftrightarrow> (\<forall>r \<in> set rs. cr_ok (fst r))"
  by (simp add: verdict_def)

lemma verdict_not_timed_out [scoring, simp]: "verdict rs \<noteq> OutTimedOut" "verdict rs \<noteq> OutTampered" "verdict rs \<noteq> OutSkipped"
  by (simp_all add: verdict_def)

lemma no_answer_fails [simp]:
  "\<not> answers_case c (answer_message AnswerTimeout)" "\<not> answers_case c (answer_message AnswerExit)"
  by (simp_all add: answers_case_def jfield_def)

subsection \<open>The loop over the cases\<close>

lemma run_cases_length [simp]: "length (run_cases worker sent dead i cs) = length cs"
  by (induction worker sent dead i cs rule: run_cases.induct) (auto simp: Let_def split: prod.split)

text \<open>When every case passes, the worker never exited and each case has its own answer.\<close>

lemma run_cases_all_ok:
  "\<forall>r \<in> set (run_cases worker sent dead i cs). cr_ok (fst r) \<Longrightarrow>
   \<exists>ms. list_all2 answers_case cs ms \<and> (\<forall>k < length cs. \<exists>a g. worker (sent @ map (\<lambda>(i, c). request_of i c) (List.enumerate i (take (Suc k) cs))) = (a, g) \<and> ms ! k = answer_message a)"
proof (induction worker sent dead i cs rule: run_cases.induct)
  case (2 worker sent dead i c cs)
  from 2(3) have alive: "\<not> dead"
    by auto
  obtain a g where w: "worker (sent @ [request_of i c]) = (a, g)"
    by fastforce
  from 2(3) alive w have first: "answers_case c (answer_message a)"
    and rest: "\<forall>r \<in> set (run_cases worker (sent @ [request_of i c]) (g \<or> a = AnswerExit) (Suc i) cs). cr_ok (fst r)"
    by (simp_all add: Let_def compare_ok)
  from 2(2)[OF alive refl w[symmetric] refl rest] obtain ms where ms: "list_all2 answers_case cs ms"
    and each: "\<forall>k < length cs. \<exists>a g. worker ((sent @ [request_of i c]) @ map (\<lambda>(i, c). request_of i c) (List.enumerate (Suc i) (take (Suc k) cs))) = (a, g) \<and> ms ! k = answer_message a"
    by blast
  have "\<forall>k < length (c # cs). \<exists>a' g'. worker (sent @ map (\<lambda>(i, c). request_of i c) (List.enumerate i (take (Suc k) (c # cs)))) = (a', g') \<and>
      (answer_message a # ms) ! k = answer_message a'"
  proof (intro allI impI)
    fix k
    assume "k < length (c # cs)"
    then show "\<exists>a' g'. worker (sent @ map (\<lambda>(i, c). request_of i c) (List.enumerate i (take (Suc k) (c # cs)))) = (a', g') \<and>
        (answer_message a # ms) ! k = answer_message a'"
      using w each by (cases k) (simp_all add: less_Suc_eq_0_disj)
  qed
  with first ms show ?case
    by (intro exI [of _ "answer_message a # ms"]) simp
qed simp

text \<open>The requests do not depend on what is expected.\<close>

lemma request_of_eq:
  "request_of i c = request_of i c' \<longleftrightarrow> gc_module c = gc_module c' \<and> gc_call c = gc_call c' \<and> gc_args c = gc_args c'"
  by (auto simp: request_of_def)

lemma length_requests_of [simp]: "length (requests_of cs) = length cs"
  by (simp add: requests_of_def)

lemma requests_of_take: "requests_of (take k cs) = take k (requests_of cs)"
proof -
  have "List.enumerate n (take k cs) = take k (List.enumerate n cs)" for n
    by (induction cs arbitrary: n k) (auto simp: take_Cons split: nat.split)
  then show ?thesis
    by (simp add: requests_of_def take_map)
qed

lemma answers_expected: "list_all2 answers_case cs ms \<Longrightarrow> map expectedJson cs = map (\<lambda>m. jfield (Some m) ''valueJson'') ms"
  by (induction rule: list_all2_induct) (simp_all add: answers_case_def)

lemma host_answers:
  assumes "\<forall>r \<in> set (run_cases worker [] False 0 cs). cr_ok (fst r)"
  shows "list_all2 answers_case cs (map (\<lambda>k. answer_message (fst (worker (take (Suc k) (requests_of cs))))) [0..<length cs])"
proof -
  from run_cases_all_ok [OF assms] obtain ms where ms: "list_all2 answers_case cs ms"
    and each: "\<forall>k < length cs. \<exists>a g. worker (requests_of (take (Suc k) cs)) = (a, g) \<and> ms ! k = answer_message a"
    unfolding requests_of_def by (metis append_Nil)
  have "ms = map (\<lambda>k. answer_message (fst (worker (take (Suc k) (requests_of cs))))) [0..<length cs]"
    using each list_all2_lengthD [OF ms] by (intro nth_equalityI) (fastforce simp: requests_of_take)+
  with ms show ?thesis by simp
qed

subsection \<open>The pod\<close>

definition pod_entry :: "json list \<Rightarrow> nat \<Rightarrow> json" where
  "pod_entry parsed index = (case find_entry (int index + 1) parsed of Inr (Some e) \<Rightarrow> e | _ \<Rightarrow> JNull)"

lemma pod_answers:
  assumes "pod_cases parsed index cs = Inr rs" "\<forall>r \<in> set rs. cr_ok (fst r)"
  shows "list_all2 answers_case cs (map (pod_entry parsed) [index..<index + length cs])"
  using assms
proof (induction parsed index cs arbitrary: rs rule: pod_cases.induct)
  case (2 parsed index c cs)
  then obtain found rs' where f: "find_entry (int index + 1) parsed = Inr found" and rs': "pod_cases parsed (Suc index) cs = Inr rs'"
    and rs: "rs = (case found of None \<Rightarrow> (case_result c False (Some (JStr ''worker returned no result'')), True)
                            | Some response \<Rightarrow> compare_response c response) # rs'"
    by (auto split: sum.splits simp: map_sum_def)
  from rs 2(3) obtain response where r: "found = Some response" "answers_case c response"
    by (cases found) (simp_all add: compare_ok)
  have "list_all2 answers_case cs (map (pod_entry parsed) [Suc index..<Suc index + length cs])"
    using 2(1)[OF f rs'] rs 2(3) by simp
  moreover have "pod_entry parsed index = response"
    using r f by (simp add: pod_entry_def)
  ultimately show ?case
    using r(2) by (simp add: upt_rec [of index] del: upt_Suc)
qed simp

lemma score_of_simps [simp]: "sc_outcome (score_of out rs d) = out" "sc_cases (score_of out rs d) = map fst rs"
  by (simp_all add: score_of_def)

lemma pod_verdict_passed:
  assumes "sc_outcome (pod_verdict parse cs run results) = OutPassed"
  obtains parsed where "Option.bind results parse = Some (JArr parsed)" "list_all2 answers_case cs (map (pod_entry parsed) [0..<length cs])"
    "\<forall>r \<in> set (sc_cases (pod_verdict parse cs run results)). cr_ok r"
proof -
  from assms obtain parsed rs where p: "Option.bind results parse = Some (JArr parsed)" "pod_cases parsed 0 cs = Inr rs"
    "\<forall>r \<in> set rs. cr_ok (fst r)"
    by (auto simp: pod_verdict_def verdict_passed split: option.splits json.splits sum.splits if_splits)
  with that pod_answers [OF p(2,3)] show thesis
    by (simp add: pod_verdict_def)
qed

lemma sandbox_passed:
  assumes "sc_outcome (fst (scoreInSandbox backend parse source clone t config cs w)) = OutPassed"
  obtains parsed where "list_all2 answers_case cs (map (pod_entry parsed) [0..<length cs])"
    "\<forall>r \<in> set (sc_cases (fst (scoreInSandbox backend parse source clone t config cs w))). cr_ok r"
proof -
  from assms obtain cl sandbox w1 run results w2 where
    "resourceClassFor config = Inr cl" "sb_create backend cl [] w = (Inr sandbox, w1)"
    "pod_run backend source clone t (requests_of cs) sandbox w1 = (Inr (run, results), w2)"
    "sc_outcome (pod_verdict parse cs run results) = OutPassed"
    by (auto simp: scoreInSandbox_def Let_def split: sum.splits prod.splits)
  with that pod_verdict_passed show thesis
    by (auto simp: scoreInSandbox_def elim: pod_verdict_passed)
qed

text \<open>The answers of the sandbox: what its results file says, from the requests alone.\<close>

lemma sandbox_same_answers:
  assumes "sc_outcome (fst (scoreInSandbox backend parse source clone t config cs w)) = OutPassed"
    and "sc_outcome (fst (scoreInSandbox backend parse source clone t config cs' w)) = OutPassed"
    and "requests_of cs = requests_of cs'"
  shows "map expectedJson cs = map expectedJson cs'"
proof -
  have len: "length cs' = length cs"
    using arg_cong [OF assms(3), of length] by simp
  from assms(1) obtain cl sandbox w1 run results w2 where run:
    "resourceClassFor config = Inr cl" "sb_create backend cl [] w = (Inr sandbox, w1)"
    "pod_run backend source clone t (requests_of cs) sandbox w1 = (Inr (run, results), w2)"
    "sc_outcome (pod_verdict parse cs run results) = OutPassed"
    by (auto simp: scoreInSandbox_def Let_def split: sum.splits prod.splits)
  with assms(2,3) have "sc_outcome (pod_verdict parse cs' run results) = OutPassed"
    by (simp add: scoreInSandbox_def)
  with run(4) obtain parsed where "list_all2 answers_case cs (map (pod_entry parsed) [0..<length cs])"
    "list_all2 answers_case cs' (map (pod_entry parsed) [0..<length cs'])"
    by (metis pod_verdict_passed option.inject json.inject(4))
  then show ?thesis
    unfolding len by (simp add: answers_expected del: upt_Suc)
qed

lemma host_same_answers:
  assumes "sc_outcome (score_on_host env clone t cs) = OutPassed" "sc_outcome (score_on_host env clone t cs') = OutPassed"
    and "requests_of cs = requests_of cs'"
  shows "map expectedJson cs = map expectedJson cs'"
proof -
  have len: "length cs' = length cs"
    using arg_cong [OF assms(3), of length] by simp
  from assms(1) obtain args where args: "workerArgs (se_sqlite env) (se_supports env) (se_work env) = Inr args"
    by (auto simp: score_on_host_def split: sum.splits)
  let ?worker = "se_worker env args (workerEnvironment (se_getenv env)) t clone"
  have "\<forall>r \<in> set (run_cases ?worker [] False 0 cs). cr_ok (fst r)" "\<forall>r \<in> set (run_cases ?worker [] False 0 cs'). cr_ok (fst r)"
    using assms(1,2) args by (simp_all add: score_on_host_def verdict_passed Let_def)
  from this [THEN host_answers] show ?thesis
    unfolding len assms(3) by (simp add: answers_expected del: upt_Suc)
qed

subsection \<open>The score\<close>

text \<open>A score that passes went through every gate.\<close>

lemma passed_score:
  assumes "sc_outcome (fst (isolatedScoreGymPatch env options w)) = OutPassed"
  obtains cs clone where "io_cases options = Some cs" "cs \<noteq> []" "\<not> isTampering (patchTargetPaths (se_numstat env) (io_patchText options))"
    "pod_choice env (io_sandbox options) = None \<Longrightarrow> se_getenv env ''SYNTH_REQUIRE_ISOLATION'' \<noteq> Some ''1''"
    "patched_checkout env (io_baseRepoDir options) (io_patchText options) = Inr clone"
    "findEscapingSymlink (se_base env) [] clone = None"
    "sc_outcome (fst (score_checkout env (pod_choice env (io_sandbox options)) (opt_or (io_timeoutMs options) 30000) cs clone w)) = OutPassed"
    "sc_cases (fst (isolatedScoreGymPatch env options w)) =
     sc_cases (fst (score_checkout env (pod_choice env (io_sandbox options)) (opt_or (io_timeoutMs options) 30000) cs clone w))"
proof -
  let ?r = "isolatedScoreGymPatch env options w"
  have tamper: "\<not> isTampering (patchTargetPaths (se_numstat env) (io_patchText options))"
    using assms by (auto simp: isolatedScoreGymPatch_def Let_def)
  moreover from this obtain cs where cs: "io_cases options = Some cs"
    using assms by (auto simp: isolatedScoreGymPatch_def Let_def split: option.splits)
  moreover from tamper cs have ne: "cs \<noteq> []"
    using assms by (auto simp: isolatedScoreGymPatch_def Let_def)
  moreover from tamper cs ne have iso: "\<not> (pod_choice env (io_sandbox options) = None \<and> se_getenv env ''SYNTH_REQUIRE_ISOLATION'' = Some ''1'')"
    using assms by (auto simp: isolatedScoreGymPatch_def Let_def)
  moreover from tamper cs ne iso obtain clone where clone: "patched_checkout env (io_baseRepoDir options) (io_patchText options) = Inr clone"
    using assms by (cases "patched_checkout env (io_baseRepoDir options) (io_patchText options)")
      (auto simp: isolatedScoreGymPatch_def Let_def patched_checkout_def split: sum.splits option.splits if_splits)
  moreover let ?s = "score_checkout env (pod_choice env (io_sandbox options)) (opt_or (io_timeoutMs options) 30000) cs clone w"
  have "sc_outcome (fst ?r) = sc_outcome (fst ?s) \<and> sc_cases (fst ?r) = sc_cases (fst ?s)"
    using tamper cs ne iso clone by (auto simp: isolatedScoreGymPatch_def Let_def split: prod.split)
  moreover from this assms have "findEscapingSymlink (se_base env) [] clone = None"
    by (auto simp: score_checkout_def split: option.splits)
  ultimately show thesis
    using assms by (intro that [of cs clone]) auto
qed

lemma checkout_passed_answers:
  assumes "sc_outcome (fst (score_checkout env pod t cs clone w)) = OutPassed"
  shows "(\<exists>ms. list_all2 answers_case cs ms) \<and> (\<forall>r \<in> set (sc_cases (fst (score_checkout env pod t cs clone w))). cr_ok r)"
proof (cases pod)
  case None
  with assms obtain args where "workerArgs (se_sqlite env) (se_supports env) (se_work env) = Inr args"
    by (auto simp: score_checkout_def score_on_host_def split: sum.splits option.splits)
  with assms None show ?thesis
    by (auto simp: score_checkout_def score_on_host_def verdict_passed Let_def dest!: host_answers split: option.splits)
next
  case (Some config)
  with assms show ?thesis
    by (auto simp: score_checkout_def split: option.splits elim: sandbox_passed)
qed

lemma checkout_same_answers:
  assumes "sc_outcome (fst (score_checkout env pod t cs clone w)) = OutPassed"
    and "sc_outcome (fst (score_checkout env pod t cs' clone w)) = OutPassed"
    and "requests_of cs = requests_of cs'"
  shows "map expectedJson cs = map expectedJson cs'"
proof (cases pod)
  case None
  with assms show ?thesis
    by (auto simp: score_checkout_def split: option.splits intro: host_same_answers)
next
  case (Some config)
  with assms show ?thesis
    by (auto simp: score_checkout_def split: option.splits intro: sandbox_same_answers)
qed

subsection \<open>Links\<close>

text \<open>The real paths of all links of a tree that are not inside \<^verbatim>\<open>.git\<close>.\<close>

fun tree_links :: "fs_entry list \<Rightarrow> string list option list" where
  "tree_links [] = []"
| "tree_links (FsLink name text target # es) = (if name = ''.git'' then [] else [target]) @ tree_links es"
| "tree_links (FsDir name children # es) = (if name = ''.git'' then [] else tree_links children) @ tree_links es"
| "tree_links (_ # es) = tree_links es"

definition path_name :: "string \<Rightarrow> bool" where
  "path_name s \<longleftrightarrow> s \<noteq> [] \<and> s \<noteq> ''..'' \<and> CHR ''/'' \<notin> set s"

lemma common_prefix_split: "take (common_prefix xs ys) xs = take (common_prefix xs ys) ys"
  by (induction xs ys rule: common_prefix.induct) auto

lemma common_prefix_le: "common_prefix xs ys \<le> length xs"
  by (induction xs ys rule: common_prefix.induct) auto

lemma common_prefix_append [simp]: "common_prefix xs (xs @ ys) = length xs"
  by (induction xs) (auto split: list.split)

lemma common_prefix_same [simp]: "common_prefix xs xs = length xs"
  by (induction xs) simp_all

lemma outside_relative:
  assumes "\<not> prefix base target"
  obtains ps where "relative_path base target = join_with (CHR ''/'') (''..'' # ps)"
proof -
  let ?n = "common_prefix base target"
  have "?n < length base"
  proof (rule ccontr)
    assume "\<not> ?thesis"
    then have "take (length base) target = base"
      using common_prefix_le [of base target] common_prefix_split [of base target] by (simp add: antisym)
    with assms show False
      by (metis append_take_drop_id prefixI)
  qed
  then obtain m where "length base - ?n = Suc m"
    by (metis Suc_diff_Suc)
  then obtain ps where "replicate (length base - ?n) ''..'' @ drop ?n target = ''..'' # ps"
    by simp
  with that show thesis
    by (simp add: relative_path_def)
qed

lemma link_escapes_iff:
  assumes "list_all path_name target"
  shows "link_escapes base target \<longleftrightarrow> \<not> prefix base target"
proof (cases "prefix base target")
  case True
  then obtain rest where t: "target = base @ rest"
    by (auto simp: prefix_def)
  have "\<not> link_escapes base target"
  proof (cases rest)
    case Nil
    with t show ?thesis by (simp add: link_escapes_def relative_path_def)
  next
    case (Cons r rest')
    with assms t have r: "r \<noteq> []" "r \<noteq> ''..''" "CHR ''/'' \<notin> set r"
      by (simp_all add: path_name_def)
    have "\<exists>tl. join_with (CHR ''/'') rest = r @ tl \<and> (tl = [] \<or> hd tl = CHR ''/'')"
      using Cons by (cases rest') auto
    with r t show ?thesis
      by (auto simp: link_escapes_def relative_path_def Cons_eq_append_conv append_eq_Cons_conv prefix_def)
  qed
  with True show ?thesis by simp
next
  case False
  then obtain ps where "relative_path base target = join_with (CHR ''/'') (''..'' # ps)"
    by (rule outside_relative)
  then have "link_escapes base target"
    by (cases ps) (simp_all add: link_escapes_def)
  with False show ?thesis by simp
qed

lemma escaping_none_iff:
  assumes "\<forall>t. Some t \<in> set (tree_links es) \<longrightarrow> list_all path_name t"
  shows "findEscapingSymlink base dir es = None \<longleftrightarrow> (\<forall>t \<in> set (tree_links es). \<exists>rest. t = Some (base @ rest))"
  using assms
proof (induction base dir es rule: findEscapingSymlink.induct)
  case (2 base dir name content target es)
  then show ?case
    by (cases target) (auto simp: link_escapes_iff prefix_def)
next
  case (3 base dir name children es)
  then show ?case
    by (auto split: option.split) blast
qed simp_all

lemma passed_earned:
  assumes "sc_outcome (fst (isolatedScoreGymPatch env options w)) = OutPassed"
  shows "\<exists>cs clone. io_cases options = Some cs \<and> cs \<noteq> [] \<and>
    (\<forall>path \<in> set (patchTargetPaths (se_numstat env) (io_patchText options)). \<forall>pattern \<in> set PROTECTED_PATTERNS. \<not> pattern path) \<and>
    (pod_choice env (io_sandbox options) = None \<longrightarrow> se_getenv env ''SYNTH_REQUIRE_ISOLATION'' \<noteq> Some ''1'') \<and>
    patched_checkout env (io_baseRepoDir options) (io_patchText options) = Inr clone \<and>
    ((\<forall>t. Some t \<in> set (tree_links clone) \<longrightarrow> list_all path_name t) \<longrightarrow>
     (\<forall>t \<in> set (tree_links clone). \<exists>rest. t = Some (se_base env @ rest))) \<and>
    (\<exists>answers. list_all2 answers_case cs answers) \<and>
    (\<forall>r \<in> set (sc_cases (fst (isolatedScoreGymPatch env options w))). cr_ok r)"
  using assms
proof (rule passed_score)
  fix cs clone
  assume "io_cases options = Some cs" "cs \<noteq> []"
    and tamper: "\<not> isTampering (patchTargetPaths (se_numstat env) (io_patchText options))"
    and "pod_choice env (io_sandbox options) = None \<Longrightarrow> se_getenv env ''SYNTH_REQUIRE_ISOLATION'' \<noteq> Some ''1''"
    "patched_checkout env (io_baseRepoDir options) (io_patchText options) = Inr clone"
    and links: "findEscapingSymlink (se_base env) [] clone = None"
    and score: "sc_outcome (fst (score_checkout env (pod_choice env (io_sandbox options)) (opt_or (io_timeoutMs options) 30000) cs clone w)) = OutPassed"
    "sc_cases (fst (isolatedScoreGymPatch env options w)) =
     sc_cases (fst (score_checkout env (pod_choice env (io_sandbox options)) (opt_or (io_timeoutMs options) 30000) cs clone w))"
  moreover have "(\<forall>t. Some t \<in> set (tree_links clone) \<longrightarrow> list_all path_name t) \<longrightarrow>
      (\<forall>t \<in> set (tree_links clone). \<exists>rest. t = Some (se_base env @ rest))"
    using links escaping_none_iff [of clone "se_base env" "[]"] by blast
  moreover note checkout_passed_answers [OF score(1)]
  ultimately show ?thesis
    unfolding isTampering_def by (intro exI [of _ cs] exI [of _ clone]) auto
qed

subsection \<open>Properties\<close>


definition gym_backend :: "nat SandboxBackend" where
  "gym_backend =
     \<lparr>sb_create = (\<lambda>_ _ w. (Inl ''no cluster'', w)), sb_destroy = (\<lambda>_ w. (Inr (), w)), sb_exec = (\<lambda>_ _ w. (Inl '''', w)),
      sb_writeFile = (\<lambda>_ _ _ w. (Inr (), w)), sb_readFile = (\<lambda>_ _ w. (Inl '''', w)), sb_writeSymlink = (\<lambda>_ _ _ w. (Inr (), w)),
      sb_readSymlink = (\<lambda>_ _ w. (Inl '''', w)), sb_removePath = (\<lambda>_ _ w. (Inr (), w)), sb_listGitChanges = (\<lambda>_ w. (Inr [], w))\<rparr>"

definition sample_score_env :: "nat score_env" where
  "sample_score_env =
     \<lparr>se_numstat = (\<lambda>_. None), se_clone = (\<lambda>_. Inr [FsFile ''he.js'' ''bugged'', FsLink ''l'' ''he.js'' (Some [''w'', ''he.js''])]),
      se_applyCheck = (\<lambda>_ _. None), se_apply = (\<lambda>_ _. Inr [FsFile ''he.js'' ''fixed'', FsLink ''l'' ''he.js'' (Some [''w'', ''he.js''])]),
      se_base = [''w''], se_work = ''/w'', se_getenv = (\<lambda>_. None), se_sqlite = False, se_supports = (\<lambda>f. f = ''--permission''),
      se_worker = (\<lambda>_ _ _ clone _. (AnswerMessage (JObj [(''present'', JBool True),
        (''valueJson'', JStr (if FsFile ''he.js'' ''fixed'' \<in> set clone then ''7'' else ''8''))]), False)),
      se_backend = (\<lambda>_. gym_backend), se_parse = (\<lambda>_. None), se_source = ''''\<rparr>"

definition gym_options :: "json \<Rightarrow> IsolatedScoreOptions" where
  "gym_options expected =
     \<lparr>io_patchText = ''+++ b/he.js'', io_baseRepoDir = ''/base'',
      io_cases = Some [\<lparr>gc_module = ''./he.js'', gc_call = ''f'', gc_args = [JNum 3], gc_expect = Some expected, gc_label = None\<rparr>],
      io_timeoutMs = None, io_sandbox = SandboxDefault\<rparr>"

lemma gym_sample_passes: "sc_outcome (fst (isolatedScoreGymPatch sample_score_env (gym_options (JNum 7)) 0)) = OutPassed"
  by code_simp




text \<open>A patch that names a protected path, on either side of a rename or a copy and in any header, is scored as
  tampered whatever its cases are, and nothing of it is run.\<close>

theorem protected_patch_tampered:
  assumes "path \<in> set (parsePatchPaths (io_patchText options))" "pattern \<in> set PROTECTED_PATTERNS" "pattern path"
  shows "sc_outcome (fst (isolatedScoreGymPatch env options w)) = OutTampered \<and>
    path \<in> set (sc_touchedPaths (fst (isolatedScoreGymPatch env options w))) \<and> snd (isolatedScoreGymPatch env options w) = w"
proof -
  let ?paths = "patchTargetPaths (se_numstat env) (io_patchText options)"
  have add: "set (foldl (\<lambda>ps p. set_add p ps) ps qs) = set ps \<union> set qs" for ps qs :: "string list"
    by (induction qs arbitrary: ps) auto
  have "path \<in> set ?paths"
    using assms(1) by (simp add: patchTargetPaths_def add split: option.split)
  moreover from this assms(2,3) have "isTampering ?paths"
    by (auto simp: isTampering_def)
  ultimately show ?thesis
    by (simp add: isolatedScoreGymPatch_def Let_def)
qed

theorem protected_patch_tampered_witness:
  "sc_outcome (fst (isolatedScoreGymPatch sample_score_env ((gym_options JNull)\<lparr>io_patchText := ''rename from test/a.js'' @ [CHR 0x0A] @ ''rename to b.js''\<rparr>) 0)) = OutTampered"
proof -
  let ?o = "(gym_options JNull)\<lparr>io_patchText := ''rename from test/a.js'' @ [CHR 0x0A] @ ''rename to b.js''\<rparr>"
  have "''test/a.js'' \<in> set (parsePatchPaths (io_patchText ?o))"
    by code_simp
  moreover have "PROTECTED_PATTERNS ! 0 \<in> set PROTECTED_PATTERNS" "(PROTECTED_PATTERNS ! 0) ''test/a.js''"
    by (rule nth_mem, simp add: PROTECTED_PATTERNS_def) code_simp
  ultimately show ?thesis
    by (rule protected_patch_tampered [THEN conjunct1])
qed

subsection \<open>Where the contract and the code differ\<close>

text \<open>On the host a case that takes too long makes the score errored: timed-out comes from the sandbox only.\<close>

lemma host_never_timed_out: "sc_outcome (score_on_host env clone t cs) \<noteq> OutTimedOut"
  by (simp add: score_on_host_def Let_def split: sum.split)

text \<open>
  A quoted name in git's octal escapes is compared as it is written, so the original name of a rename can be
  hidden: the raw parse is the only place that looks at it.
\<close>

definition octal_rename :: string where
  "octal_rename = (let q = [CHR 0x22]; n = [CHR 0x0A]; old = ''te'' @ [CHR 0x5C] @ ''163t/visible.mjs'' in
     ''diff --git '' @ q @ ''a/'' @ old @ q @ '' b/away.mjs'' @ n @ ''similarity index 100%'' @ n @
     ''rename from '' @ q @ old @ q @ n @ ''rename to away.mjs'' @ n)"

lemma octal_rename_not_tampering:
  "\<not> isTampering (patchTargetPaths (\<lambda>_. Some (''0'' @ [CHR 0x09] @ ''0'' @ [CHR 0x09] @ ''away.mjs'' @ [CHR 0x00])) octal_rename)"
  by code_simp

text \<open>A record of a single field is dropped, although the code names that case.\<close>

lemma single_field_dropped: "patchTargetPaths (\<lambda>_. Some ''test/a.js'') '''' = []"
  by code_simp

text \<open>A case with no expected value is met by a function: it is a value, and it has no JSON text.\<close>

lemma missing_expectation_met:
  "answers_case (c\<lparr>gc_expect := None\<rparr>) (JObj [(''present'', JBool True)])"
  by (simp add: answers_case_def jfield_def expectedJson_def)

end
