(* ===== verification/Gym_Tools_Laws.thy ===== *)
theory Gym_Tools_Laws
  imports Gym_Tools Gym_Scoring_Laws
begin

text \<open>
  What the tools of an attempt cannot do: they never write a protected path, and the local runner never leaves its
  directory; a scored attempt is only allowed in the sandbox.
\<close>

subsection \<open>Containment of the local runner\<close>

lemma resolveWithin_contained:
  assumes "resolveWithin base path = Inr full"
  shows "prefix base full"
proof (rule ccontr)
  assume "\<not> ?thesis"
  moreover have full: "full = path_resolve base path"
    using assms by (auto simp: resolveWithin_def Let_def split: if_splits)
  ultimately obtain ps where rel: "relative_path base (path_resolve base path) = join_with (CHR ''/'') (''..'' # ps)"
    by (metis outside_relative)
  have "prefix ''..'' (join_with (CHR ''/'') (''..'' # ps))" "join_with (CHR ''/'') (''..'' # ps) \<noteq> ''.''" "join_with (CHR ''/'') (''..'' # ps) \<noteq> []"
    by (cases ps; simp)+
  with assms rel show False
    by (auto simp: resolveWithin_def Let_def split: if_splits)
qed

lemma resolved_cong:
  assumes "\<And>full. prefix base full \<Longrightarrow> f full w = g full w"
  shows "and_then (lift_result (resolveWithin base path)) f w = and_then (lift_result (resolveWithin base path)) g w"
  using assms resolveWithin_contained [of base path] by (auto simp: and_then_def lift_result_def split: sum.split)

text \<open>Reading, writing and listing through the local runner depend on and act through the host's file operations at paths
  inside its directory only: operations that differ elsewhere make no difference.\<close>

theorem local_runner_contained:
  assumes "\<forall>full. prefix (path_resolve [] rootDir) full \<longrightarrow>
      hf_readFile fs full = hf_readFile fs' full \<and> hf_writeFile fs full = hf_writeFile fs' full \<and> hf_readdir fs full = hf_readdir fs' full"
    and "hf_mkdir fs = hf_mkdir fs'"
  shows "er_read (localEffectRunner fs rootDir) path w = er_read (localEffectRunner fs' rootDir) path w \<and>
    er_write (localEffectRunner fs rootDir) path content w = er_write (localEffectRunner fs' rootDir) path content w \<and>
    er_list (localEffectRunner fs rootDir) path w = er_list (localEffectRunner fs' rootDir) path w"
  unfolding localEffectRunner_def Let_def EffectRunner.simps using assms
  by (intro conjI resolved_cong) (auto simp: and_then_def split: sum.split prod.split)

definition sample_fs :: "nat \<Rightarrow> nat host_fs" where
  "sample_fs n =
     \<lparr>hf_readFile = (\<lambda>full w. if prefix [''repo''] full then (Inr ''inside'', w) else (Inr (replicate n CHR ''x''), w)),
      hf_mkdir = (\<lambda>_ w. (Inr (), w)), hf_writeFile = (\<lambda>_ _ w. (Inr (), Suc w)), hf_readdir = (\<lambda>_ w. (Inr [], w)),
      hf_spawn = (\<lambda>_ _ _ w. ((SpawnClosed (Some 0), [], [], False), w))\<rparr>"

theorem local_runner_contained_witness:
  "er_read (localEffectRunner (sample_fs 0) ''/repo'') ''a/../b'' 0 = er_read (localEffectRunner (sample_fs 1) ''/repo'') ''a/../b'' 0 \<and>
   er_read (localEffectRunner (sample_fs 0) ''/repo'') ''a/../b'' 0 = (Inr ''inside'', 0) \<and>
   er_read (localEffectRunner (sample_fs 0) ''/repo'') ''../b'' 0 = (Inl ''path escapes the workspace: ../b'', 0)"
proof -
  have base: "path_resolve [] ''/repo'' = [''repo'']"
    by code_simp
  have "er_read (localEffectRunner (sample_fs 0) ''/repo'') ''a/../b'' 0 = (Inr ''inside'', 0)"
    "er_read (localEffectRunner (sample_fs 0) ''/repo'') ''../b'' 0 = (Inl ''path escapes the workspace: ../b'', 0)"
    by code_simp+
  with local_runner_contained [of "''/repo''" "sample_fs 0" "sample_fs 1" "''a/../b''" 0 "[]"] base show ?thesis
    by (simp add: sample_fs_def)
qed

subsection \<open>Protected paths\<close>

lemma and_then_cong: "\<lbrakk>m w = m' w; \<And>x w'. f x w' = f' x w'\<rbrakk> \<Longrightarrow> and_then m f w = and_then m' f' w"
  by (simp add: and_then_def split: prod.split sum.split)

text \<open>C35: no tool writes a path that the guard recognizes as protected: whatever writing such a path would do, every call
  has the same result and leaves the same world.\<close>

theorem tools_never_write_protected:
  "tool_execute (runner\<lparr>er_write := \<lambda>path content. if isProtected path options then other path content else er_write runner path content\<rparr>) options call w =
   tool_execute runner options call w"
proof -
  let ?runner = "runner\<lparr>er_write := \<lambda>path content. if isProtected path options then other path content else er_write runner path content\<rparr>"
  have "tool_replace ?runner options call w = tool_replace runner options call w"
    unfolding tool_replace_def Let_def by (auto intro!: and_then_cong)
  moreover have "tool_write ?runner options call w = tool_write runner options call w"
    by (simp add: tool_write_def Let_def)
  ultimately have "run_tool ?runner options call w = run_tool runner options call w"
    by (simp add: run_tool_def tool_list_def tool_read_def tool_test_def Let_def)
  then show ?thesis
    by (simp add: tool_execute_def)
qed

lemma protected_write_refused:
  assumes "isProtected path options" "path \<noteq> []" "gt_name call \<in> {''write_file'', ''replace_in_file''}"
    and "arg_string call ''path'' = path" "arg_string call ''old_text'' \<noteq> []"
  shows "gr_blocked (fst (tool_execute runner options call w)) \<and> \<not> gr_ok (fst (tool_execute runner options call w)) \<and>
    snd (tool_execute runner options call w) = w"
  using assms by (auto simp: tool_execute_def run_tool_def tool_write_def tool_replace_def refusal_def tool_result_def ret_def Let_def)

subsection \<open>The runner\<close>

lemma scored_runner_is_sandbox: "assertScoredRunnerAllowed kind \<longleftrightarrow> kind = SandboxRunner"
  by (cases kind) (simp_all add: assertScoredRunnerAllowed_def describeGymRunner_def scoredRungAllowed_def)

lemma parsed_runner: "parseGymRunner value = Inr kind \<Longrightarrow> kind = LocalRunner \<longleftrightarrow> value = Some ''local''"
  by (auto simp: parseGymRunner_def DEFAULT_GYM_RUNNER_def split: option.splits if_splits)

subsection \<open>Where the contract and the code differ\<close>

definition plain_options :: GymToolOptions where
  "plain_options = \<lparr>gp_visibleTestPath = ''test/visible.mjs'', gp_protectedPatterns = None, gp_node = ''node'', gp_execTimeoutMs = None\<rparr>"

text \<open>
  The guard compares the text of a path, the runners resolve it: a trailing slash, or a backslash for the workspace,
  names a protected file that the guard does not recognize.
\<close>

lemma guard_passed_by_slash:
  "isProtected ''package.json'' plain_options" "\<not> isProtected ''package.json/'' plain_options"
  "resolveWithin [''repo''] ''package.json/'' = Inr [''repo'', ''package.json'']"
  "normalizeRelative ''package.json/'' = ''package.json''"
  by code_simp+

lemma guard_passed_by_backslash:
  "\<not> isProtected (''test'' @ [CHR 0x5C] @ ''visible.mjs'') plain_options"
  "normalizeRelative (''test'' @ [CHR 0x5C] @ ''visible.mjs'') = ''test/visible.mjs''"
  by code_simp+

end
