(* ===== verification/Gym_Turn.thy ===== *)
theory Gym_Turn
  imports Gym_Tools Blobs
begin

text \<open>
  The model's side of an attempt (\<^verbatim>\<open>src/src/gym/turn.ts\<close>): the reading of its tool calls, the scripted turn and the
  gateway turn with its bounded retry; and the store of work-product checkpoints (\<^verbatim>\<open>checkpoint.ts\<close>). \<^verbatim>\<open>JSON.parse\<close> gives a
  value or the message of what it throws.
\<close>

subsection \<open>Turns\<close>

record GymTranscriptEntry =
  ge_assistant :: bool
  ge_name :: "string option"
  ge_content :: string

record GymTurnInput =
  gi_turnIndex :: nat
  gi_systemPrompt :: string
  gi_userPrompt :: string
  gi_transcript :: "GymTranscriptEntry list"

text \<open>The served model may be absent (nothing), \<^verbatim>\<open>null\<close>, or a name.\<close>

record GymTurnResult =
  gu_toolCalls :: "GymToolCall list"
  gu_content :: "string option"
  gu_requestedModel :: "string option"
  gu_servedModel :: "string option option"
  gu_modelSubstituted :: "bool option"
  gu_attempts :: "nat option"

record turn_error =
  te_name :: string
  te_message :: string
  te_status :: "int option"
  te_retryAfterMs :: "rat option"
  te_attempts :: "nat option"

type_synonym 'w GymTurn = "GymTurnInput \<Rightarrow> 'w \<Rightarrow> (turn_error + GymTurnResult) \<times> 'w"

subsection \<open>Tool calls\<close>

definition parse_value :: "(string \<Rightarrow> string + json) \<Rightarrow> string \<Rightarrow> json option" where
  "parse_value parse s = (case parse s of Inl _ \<Rightarrow> None | Inr v \<Rightarrow> Some v)"

definition coerceGymToolCalls :: "(string \<Rightarrow> string + json) \<Rightarrow> json option \<Rightarrow> string + GymToolCall list" where
  "coerceGymToolCalls parse value =
     (case value of
        Some (JArr entries) \<Rightarrow>
          map_sum id (map (\<lambda>c. \<lparr>gt_name = tc_name c, gt_arguments = Some (tc_arguments c)\<rparr>)) (coerce_from (parse_value parse) 0 entries)
      | _ \<Rightarrow> Inl ''model reply has no tool_calls array'')"

definition gym_calls_of :: "(string \<Rightarrow> string + json) \<Rightarrow> json \<Rightarrow> string + GymToolCall list" where
  "gym_calls_of parse parsed =
     (case parsed of
        JNull \<Rightarrow> Inl (''Cannot read properties of null (reading '' @ [CHR 0x27] @ ''tool_calls'' @ [CHR 0x27] @ '')'')
      | JArr xs \<Rightarrow> coerceGymToolCalls parse (Some (JArr xs))
      | _ \<Rightarrow> coerceGymToolCalls parse
               (case jfield (Some parsed) ''tool_calls'' of Some (JArr xs) \<Rightarrow> Some (JArr xs) | _ \<Rightarrow> jfield (Some parsed) ''toolCalls''))"

definition parseGymToolCalls :: "(string \<Rightarrow> string + json) \<Rightarrow> string \<Rightarrow> string + GymToolCall list" where
  "parseGymToolCalls parse content =
     (let stripped = strip_fences content
      in case parse stripped of
           Inr parsed \<Rightarrow> gym_calls_of parse parsed
         | Inl _ \<Rightarrow>
             (case brace_slice stripped of
                None \<Rightarrow> Inl (''model reply is not JSON: '' @ take 200 stripped)
              | Some object \<Rightarrow> (case parse object of Inl e \<Rightarrow> Inl e | Inr parsed \<Rightarrow> gym_calls_of parse parsed)))"

subsection \<open>The scripted turn\<close>

record ScriptedTurnDefaults =
  sd_requestedModel :: "string option"
  sd_servedModel :: "string option option"
  sd_modelSubstituted :: "bool option"

definition createScriptedGymTurn :: "(GymTurnInput \<Rightarrow> GymTurnResult option) list \<Rightarrow> ScriptedTurnDefaults \<Rightarrow> 'w GymTurn" where
  "createScriptedGymTurn steps defaults input w =
     (let requestedModel = opt_or (sd_requestedModel defaults) ''scripted'';
          servedModel = opt_or (sd_servedModel defaults) (Some ''scripted'')
      in (Inr (case (if gi_turnIndex input < length steps then (steps ! gi_turnIndex input) input else None) of
            None \<Rightarrow> \<lparr>gu_toolCalls = [\<lparr>gt_name = ''finish'', gt_arguments = None\<rparr>], gu_content = None, gu_requestedModel = Some requestedModel,
                     gu_servedModel = Some servedModel, gu_modelSubstituted = Some (opt_or (sd_modelSubstituted defaults) False), gu_attempts = None\<rparr>
          | Some result \<Rightarrow>
              (let finalRequested = opt_or (gu_requestedModel result) requestedModel;
                   finalServed = opt_or (gu_servedModel result) servedModel
               in \<lparr>gu_toolCalls = gu_toolCalls result, gu_content = gu_content result, gu_requestedModel = Some finalRequested,
                   gu_servedModel = Some finalServed,
                   gu_modelSubstituted = Some (case gu_modelSubstituted result of
                      Some b \<Rightarrow> b
                    | None \<Rightarrow> opt_or (sd_modelSubstituted defaults) (finalServed \<noteq> None \<and> finalServed \<noteq> Some finalRequested)),
                   gu_attempts = None\<rparr>)), w))"

subsection \<open>The gateway turn\<close>

record GatewayRetryOptions =
  ro_maxAttempts :: "nat option"
  ro_baseDelayMs :: "rat option"
  ro_maxDelayMs :: "rat option"

definition DEFAULT_GATEWAY_RETRY :: GatewayRetryOptions where
  "DEFAULT_GATEWAY_RETRY = \<lparr>ro_maxAttempts = Some 3, ro_baseDelayMs = Some 250, ro_maxDelayMs = Some 5000\<rparr>"

definition RETRYABLE_STATUS :: "int list" where
  "RETRYABLE_STATUS = [408, 425, 429, 500, 502, 503, 504]"

text \<open>A search without regard to case for one of some texts.\<close>

definition mentions :: "string list \<Rightarrow> string \<Rightarrow> bool" where
  "mentions texts message \<longleftrightarrow> (\<exists>t \<in> set texts. sublist (map to_lower t) (map to_lower message))"

definition TIMED_OUT :: "string list" where
  "TIMED_OUT = [''timeout'', ''timedout'', ''time out'', ''timed out'']"

definition isRetryableNetworkError :: "turn_error \<Rightarrow> bool" where
  "isRetryableNetworkError e \<longleftrightarrow>
     te_name e = ''AbortError'' \<or> te_name e = ''TimeoutError'' \<or>
     mentions ([''fetch failed'', ''ECONN'', ''socket hang up'', ''network''] @ TIMED_OUT) (te_message e)"

definition isRetryableTurnError :: "turn_error \<Rightarrow> bool" where
  "isRetryableTurnError e = (case te_status e of Some s \<Rightarrow> s \<in> set RETRYABLE_STATUS | None \<Rightarrow> isRetryableNetworkError e)"

definition render_entry :: "GymTranscriptEntry \<Rightarrow> string" where
  "render_entry e = (if ge_assistant e then ge_content e else ''Observation from '' @ opt_or (ge_name e) ''tool'' @ '':'' @ [CHR 0x0A] @ ge_content e)"

definition user_text :: "GymTurnInput \<Rightarrow> string" where
  "user_text input = join_strings [CHR 0x0A, CHR 0x0A] (gi_userPrompt input # map render_entry (gi_transcript input))"

text \<open>\<open>engine\<close> is the shared turn body with this system prompt and user text, and the parser of the gym's tool calls.\<close>

definition callOnce :: "(string \<Rightarrow> string \<Rightarrow> 'w \<Rightarrow> (turn_error + GatewayTurnOutcome) \<times> 'w) \<Rightarrow> GymTurnInput \<Rightarrow> nat \<Rightarrow> 'w \<Rightarrow> (turn_error + GymTurnResult) \<times> 'w" where
  "callOnce engine input attempts w =
     apfst (map_sum id (\<lambda>out. \<lparr>gu_toolCalls = map (\<lambda>c. \<lparr>gt_name = tc_name c, gt_arguments = Some (tc_arguments c)\<rparr>) (to_toolCalls out),
        gu_content = Some (to_content out), gu_requestedModel = Some (to_requestedModel out), gu_servedModel = Some (to_servedModel out),
        gu_modelSubstituted = Some (to_modelSubstituted out), gu_attempts = Some attempts\<rparr>))
       (engine (gi_systemPrompt input) (user_text input) w)"

definition retry_delay :: "GatewayRetryOptions \<Rightarrow> turn_error \<Rightarrow> nat \<Rightarrow> rat" where
  "retry_delay retry e attempt =
     (let maxDelayMs = opt_or (ro_maxDelayMs retry) 5000; baseDelayMs = opt_or (ro_baseDelayMs retry) 250
      in min (opt_or (te_retryAfterMs e) (min maxDelayMs (baseDelayMs * 2 ^ (attempt - 1)))) maxDelayMs)"

definition max_attempts :: "GatewayRetryOptions \<Rightarrow> nat" where
  "max_attempts retry = max 1 (opt_or (ro_maxAttempts retry) 1)"

function gatewayGymTurn ::
  "(string \<Rightarrow> string \<Rightarrow> 'w \<Rightarrow> (turn_error + GatewayTurnOutcome) \<times> 'w) \<Rightarrow> (rat \<Rightarrow> 'w \<Rightarrow> 'w) \<Rightarrow> GatewayRetryOptions \<Rightarrow> nat \<Rightarrow> 'w GymTurn" where
  "gatewayGymTurn engine sleepImpl retry attempt input w =
     (case callOnce engine input attempt w of
        (Inr result, w') \<Rightarrow> (Inr result, w')
      | (Inl e, w') \<Rightarrow>
          if attempt \<ge> max_attempts retry \<or> \<not> isRetryableTurnError e then (Inl (e\<lparr>te_attempts := Some attempt\<rparr>), w')
          else gatewayGymTurn engine sleepImpl retry (Suc attempt) input (sleepImpl (retry_delay retry e attempt) w'))"
  by pat_completeness auto
termination by (relation "measure (\<lambda>(_, _, retry, attempt, _, _). max_attempts retry - attempt)") auto

declare gatewayGymTurn.simps [simp del]

definition createGatewayGymTurn ::
  "(string \<Rightarrow> string \<Rightarrow> 'w \<Rightarrow> (turn_error + GatewayTurnOutcome) \<times> 'w) \<Rightarrow> (rat \<Rightarrow> 'w \<Rightarrow> 'w) \<Rightarrow> GatewayRetryOptions \<Rightarrow> 'w GymTurn" where
  "createGatewayGymTurn engine sleepImpl retry = gatewayGymTurn engine sleepImpl retry 1"

definition parseRetryAfterMs :: "router_config \<Rightarrow> (string, string) jsmap \<Rightarrow> rat \<Rightarrow> rat option" where
  "parseRetryAfterMs cfg h now =
     (case header_of h ''retry-after'' of
        None \<Rightarrow> None
      | Some raw \<Rightarrow>
          (case rc_number cfg raw of
             Some seconds \<Rightarrow> if seconds \<ge> 0 then Some (seconds * 1000) else map_option (\<lambda>d. max 0 (d - now)) (rc_date cfg raw)
           | None \<Rightarrow> map_option (\<lambda>d. max 0 (d - now)) (rc_date cfg raw)))"

subsection \<open>Checkpoints\<close>

record GymCheckpoint =
  kp_turnIndex :: nat
  kp_patchText :: string
  kp_transcript :: "GymTranscriptEntry list"
  kp_requestedModel :: "string option option"
  kp_servedModel :: "string option option"
  kp_workspaceDigest :: "string option"
  kp_parentDigest :: "string option"

definition CHECKPOINT_MEDIA_TYPE :: string where
  "CHECKPOINT_MEDIA_TYPE = ''application/vnd.synth.gym-checkpoint+json''"

definition opt_member :: "string \<Rightarrow> 'a option \<Rightarrow> ('a \<Rightarrow> json) \<Rightarrow> (string \<times> json) list" where
  "opt_member k v f = (case v of None \<Rightarrow> [] | Some x \<Rightarrow> [(k, f x)])"

definition nullable :: "string option \<Rightarrow> json" where
  "nullable v = (case v of None \<Rightarrow> JNull | Some s \<Rightarrow> JStr s)"

definition entry_json :: "GymTranscriptEntry \<Rightarrow> json" where
  "entry_json e = JObj ([(''role'', JStr (if ge_assistant e then ''assistant'' else ''tool''))] @ opt_member ''name'' (ge_name e) JStr @ [(''content'', JStr (ge_content e))])"

definition checkpoint_json :: "GymCheckpoint \<Rightarrow> json" where
  "checkpoint_json c =
     JObj ([(''turnIndex'', JNum (int (kp_turnIndex c))), (''patchText'', JStr (kp_patchText c)), (''transcript'', JArr (map entry_json (kp_transcript c)))] @
           opt_member ''requestedModel'' (kp_requestedModel c) nullable @ opt_member ''servedModel'' (kp_servedModel c) nullable @
           opt_member ''workspaceDigest'' (kp_workspaceDigest c) JStr @ opt_member ''parentDigest'' (kp_parentDigest c) JStr)"

text \<open>The value read back is used as a checkpoint without a check; a value of another shape is outside the model.\<close>

definition str_field :: "json \<Rightarrow> string \<Rightarrow> string option" where
  "str_field j k = (case jfield (Some j) k of Some (JStr s) \<Rightarrow> Some s | _ \<Rightarrow> None)"

definition nullable_field :: "json \<Rightarrow> string \<Rightarrow> string option option" where
  "nullable_field j k = (case jfield (Some j) k of Some (JStr s) \<Rightarrow> Some (Some s) | Some JNull \<Rightarrow> Some None | _ \<Rightarrow> None)"

definition entry_of :: "json \<Rightarrow> GymTranscriptEntry" where
  "entry_of j = \<lparr>ge_assistant = (str_field j ''role'' = Some ''assistant''), ge_name = str_field j ''name'', ge_content = opt_or (str_field j ''content'') []\<rparr>"

definition checkpoint_of :: "json \<Rightarrow> GymCheckpoint" where
  "checkpoint_of j =
     \<lparr>kp_turnIndex = (case jfield (Some j) ''turnIndex'' of Some (JNum n) \<Rightarrow> nat n | _ \<Rightarrow> 0),
      kp_patchText = opt_or (str_field j ''patchText'') [],
      kp_transcript = (case jfield (Some j) ''transcript'' of Some (JArr es) \<Rightarrow> map entry_of es | _ \<Rightarrow> []),
      kp_requestedModel = nullable_field j ''requestedModel'', kp_servedModel = nullable_field j ''servedModel'',
      kp_workspaceDigest = str_field j ''workspaceDigest'', kp_parentDigest = str_field j ''parentDigest''\<rparr>"

text \<open>The blob store and the pointer files, each of which holds a digest and the time it was written.\<close>

record checkpoint_fs =
  cf_blobs :: blob_fs
  cf_pointers :: "(string, string) jsmap"

definition pointer_char :: "char \<Rightarrow> bool" where
  "pointer_char c \<longleftrightarrow> (CHR ''a'' \<le> c \<and> c \<le> CHR ''z'') \<or> (CHR ''A'' \<le> c \<and> c \<le> CHR ''Z'') \<or> (CHR ''0'' \<le> c \<and> c \<le> CHR ''9'') \<or> c \<in> set ''._-''"

definition pointer :: "string \<Rightarrow> string" where
  "pointer key = map (\<lambda>c. if pointer_char c then c else CHR ''_'') key @ ''.json''"

definition checkpoint_save :: "(string \<Rightarrow> string) \<Rightarrow> string \<Rightarrow> GymCheckpoint \<Rightarrow> int \<Rightarrow> bool \<Rightarrow> checkpoint_fs \<Rightarrow> (blob_error + string) \<times> checkpoint_fs" where
  "checkpoint_save sha key c now sidecar fs =
     (case fs_put sha (cf_blobs fs) (stringify (checkpoint_json c))
             \<lparr>po_mediaType = Some CHECKPOINT_MEDIA_TYPE, po_producedBy = Some (''gym:'' @ key),
              po_producedFrom = map_option (\<lambda>d. [d]) (truthy_text (kp_parentDigest c)), po_tenantId = None\<rparr> now sidecar of
        Inl e \<Rightarrow> (Inl e, fs)
      | Inr (ref, blobs) \<Rightarrow>
          (Inr (br_digest ref), \<lparr>cf_blobs = blobs,
             cf_pointers = js_set (pointer key) (stringify (JObj [(''digest'', JStr (br_digest ref)), (''at'', JNum now)])) (cf_pointers fs)\<rparr>))"

definition checkpoint_load :: "(string \<Rightarrow> string) \<Rightarrow> (string \<Rightarrow> json option) \<Rightarrow> string \<Rightarrow> checkpoint_fs \<Rightarrow> (GymCheckpoint \<times> string) option" where
  "checkpoint_load sha parse key fs =
     (case Option.bind (js_get (cf_pointers fs) (pointer key)) parse of
        None \<Rightarrow> None
      | Some p \<Rightarrow>
          (case truthy_text (str_field p ''digest'') of
             None \<Rightarrow> None
           | Some digest \<Rightarrow>
               (case fs_get sha (cf_blobs fs) digest of
                  Inl _ \<Rightarrow> None
                | Inr bytes \<Rightarrow> map_option (\<lambda>j. (checkpoint_of j, digest)) (parse bytes))))"

end
