(* ===== verification/Gym_Attempt.thy ===== *)
theory Gym_Attempt
  imports Gym_Turn
begin

text \<open>
  The loop of one attempt (\<^verbatim>\<open>src/src/gym/attempt.ts\<close>), shared by the two arms of the benchmark: turns against the model,
  their tool calls, a checkpoint after each, then the harvest of the patch and its score. The runner, the turn, the
  scorer, the checkpoint store and the clock are parameters over a world \<open>'w\<close>.
\<close>

subsection \<open>Failures\<close>

datatype failure_kind = FailTransient | FailMalformed | FailFatal

record GymFailure =
  gf_message :: string
  gf_transient :: bool
  gf_kind :: failure_kind
  gf_retryAfterMs :: "rat option"

definition is_digit :: "char \<Rightarrow> bool" where
  "is_digit c \<longleftrightarrow> CHR ''0'' \<le> c \<and> c \<le> CHR ''9''"

text \<open>\<^verbatim>\<open>HTTP 5\d\d\<close>.\<close>

fun http_5xx :: "string \<Rightarrow> bool" where
  "http_5xx [] = False"
| "http_5xx (c # s) =
     (map to_lower (take 6 (c # s)) = ''http 5'' \<and> length (take 2 (drop 6 (c # s))) = 2 \<and> list_all is_digit (take 2 (drop 6 (c # s))) \<or> http_5xx s)"

definition transient_text :: "string \<Rightarrow> bool" where
  "transient_text message \<longleftrightarrow>
     http_5xx message \<or> mentions ([''HTTP 429'', ''abort''] @ TIMED_OUT @ [''ECONN'', ''socket hang up'', ''fetch failed'', ''network'']) message"

definition malformed_text :: "string \<Rightarrow> bool" where
  "malformed_text message \<longleftrightarrow>
     mentions [''not JSON'', ''in JSON'', ''no tool_calls'', ''tool_calls array'', ''arguments are not JSON'', ''has no name'', ''model reply has no'',
               ''Unexpected token'', ''Unexpected end of JSON''] message"

definition classifyFailure :: "turn_error \<Rightarrow> GymFailure" where
  "classifyFailure e =
     (if te_retryAfterMs e \<noteq> None \<or> transient_text (te_message e)
      then \<lparr>gf_message = te_message e, gf_transient = True, gf_kind = FailTransient, gf_retryAfterMs = te_retryAfterMs e\<rparr>
      else if malformed_text (te_message e)
      then \<lparr>gf_message = te_message e, gf_transient = False, gf_kind = FailMalformed, gf_retryAfterMs = None\<rparr>
      else \<lparr>gf_message = te_message e, gf_transient = False, gf_kind = FailFatal, gf_retryAfterMs = None\<rparr>)"

subsection \<open>Options and record\<close>

record GymTask =
  tk_visibleTestPath :: string
  tk_hiddenCases :: "GymCase list option"

record MaterializedGymTask =
  mt_task :: GymTask
  mt_repoDir :: string
  mt_baseRepoDir :: string

record 'w GymCheckpointStore =
  ck_load :: "string \<Rightarrow> 'w \<Rightarrow> (GymCheckpoint \<times> string) option"
  ck_save :: "string \<Rightarrow> GymCheckpoint \<Rightarrow> ('w, string) io"

record 'w RunGymAttemptOptions =
  ao_task :: MaterializedGymTask
  ao_runner :: "'w EffectRunner"
  ao_turn :: "'w GymTurn"
  ao_score :: "(string \<Rightarrow> string \<Rightarrow> ('w, IsolatedScore) io) option"
  ao_maxTurns :: "nat option"
  ao_checkpoint :: "'w GymCheckpointStore option"
  ao_checkpointKey :: "string option"
  ao_maxReasks :: "nat option"
  ao_deadlineMs :: "rat option"
  ao_node :: string
  ao_execTimeoutMs :: "int option"
  ao_protectedPatterns :: "(string \<Rightarrow> bool) list option"
  ao_now :: "'w \<Rightarrow> rat"
  ao_onTool :: "nat \<Rightarrow> GymToolCall \<Rightarrow> GymToolResult \<Rightarrow> 'w \<Rightarrow> 'w"
  ao_env :: "'w score_env"

record GymAttemptRecord =
  ar_outcome :: GymOutcome
  ar_requestedModel :: "string option"
  ar_servedModel :: "string option"
  ar_modelSubstituted :: bool
  ar_wallTimeMs :: rat
  ar_callCount :: nat
  ar_httpAttempts :: nat
  ar_turns :: nat
  ar_reasks :: nat
  ar_resumedFromTurn :: "nat option"
  ar_protectedPathsTouched :: "string list"
  ar_patch :: string
  ar_score :: IsolatedScore
  ar_error :: "string option"
  ar_failure :: "GymFailure option"

text \<open>The variables of the loop.\<close>

record attempt_state =
  as_transcript :: "GymTranscriptEntry list"
  as_callCount :: nat
  as_httpAttempts :: nat
  as_turns :: nat
  as_finished :: bool
  as_timedOut :: bool
  as_errored :: "string option"
  as_failure :: "GymFailure option"
  as_reasks :: nat
  as_requestedModel :: "string option"
  as_servedModel :: "string option"
  as_modelSubstituted :: bool
  as_lastDigest :: "string option"

definition attempt_start :: attempt_state where
  "attempt_start =
     \<lparr>as_transcript = [], as_callCount = 0, as_httpAttempts = 0, as_turns = 0, as_finished = False, as_timedOut = False, as_errored = None,
      as_failure = None, as_reasks = 0, as_requestedModel = None, as_servedModel = None, as_modelSubstituted = False, as_lastDigest = None\<rparr>"

definition tool_note :: "string \<Rightarrow> string \<Rightarrow> GymTranscriptEntry" where
  "tool_note name content = \<lparr>ge_assistant = False, ge_name = Some name, ge_content = content\<rparr>"

definition push :: "GymTranscriptEntry \<Rightarrow> attempt_state \<Rightarrow> attempt_state" where
  "push e st = st\<lparr>as_transcript := as_transcript st @ [e]\<rparr>"

subsection \<open>One turn\<close>

definition reask_note :: GymTranscriptEntry where
  "reask_note = tool_note ''harness'' (''Your previous reply was not valid JSON. Reply with ONLY {'' @ json_quote ''tool_calls'' @ '':[...]}.'')"

text \<open>Asking the model: \<open>left\<close> re-asks remain for this turn. The result, if there is one, comes with the new state.\<close>

fun ask_turn :: "'w GymTurn \<Rightarrow> nat \<Rightarrow> string \<Rightarrow> string \<Rightarrow> nat \<Rightarrow> attempt_state \<Rightarrow> 'w \<Rightarrow> GymTurnResult option \<times> attempt_state \<times> 'w" where
  "ask_turn turn turnIndex sysPrompt userPrompt left st w =
     (let st1 = st\<lparr>as_callCount := as_callCount st + 1\<rparr>
      in case turn \<lparr>gi_turnIndex = turnIndex, gi_systemPrompt = sysPrompt, gi_userPrompt = userPrompt, gi_transcript = as_transcript st1\<rparr> w of
           (Inr result, w') \<Rightarrow> (Some result, st1, w')
         | (Inl e, w') \<Rightarrow>
             (let st2 = st1\<lparr>as_httpAttempts := as_httpAttempts st1 + opt_or (te_attempts e) 1\<rparr>;
                  stop = (None, st2\<lparr>as_errored := Some (te_message e), as_failure := Some (classifyFailure e)\<rparr>, w')
              in case left of
                   0 \<Rightarrow> stop
                 | Suc n \<Rightarrow>
                     if gf_kind (classifyFailure e) = FailMalformed
                     then ask_turn turn turnIndex sysPrompt userPrompt n (push reask_note (st2\<lparr>as_reasks := as_reasks st2 + 1\<rparr>)) w'
                     else stop))"

declare ask_turn.simps [simp del]

fun calls_json :: "GymToolCall list \<Rightarrow> json" where
  "calls_json calls = JObj [(''tool_calls'', JArr (map (\<lambda>c. JObj ([(''name'', JStr (gt_name c))] @ opt_member ''arguments'' (gt_arguments c) id)) calls))]"

definition record_turn :: "GymTurnResult \<Rightarrow> attempt_state \<Rightarrow> attempt_state" where
  "record_turn result st =
     push \<lparr>ge_assistant = True, ge_name = None, ge_content = opt_or (gu_content result) (stringify (calls_json (gu_toolCalls result)))\<rparr>
       (st\<lparr>as_turns := as_turns st + 1, as_httpAttempts := as_httpAttempts st + opt_or (gu_attempts result) 1,
           as_requestedModel := (case truthy_text (gu_requestedModel result) of Some m \<Rightarrow> Some m | None \<Rightarrow> as_requestedModel st),
           as_servedModel := opt_or (gu_servedModel result) (as_servedModel st),
           as_modelSubstituted := (gu_modelSubstituted result = Some True \<or> as_modelSubstituted st)\<rparr>)"

fun gym_calls :: "'w RunGymAttemptOptions \<Rightarrow> GymToolOptions \<Rightarrow> nat \<Rightarrow> GymToolCall list \<Rightarrow> attempt_state \<Rightarrow> 'w \<Rightarrow> attempt_state \<times> 'w" where
  "gym_calls options tools turnIndex [] st w = (st, w)"
| "gym_calls options tools turnIndex (call # calls) st w =
     (if gt_name call = ''finish'' then (st\<lparr>as_finished := True\<rparr>, w)
      else (let (r, w') = tool_execute (ao_runner options) tools call w
            in gym_calls options tools turnIndex calls (push (tool_note (gt_name call) (gr_observation r)) st) (ao_onTool options turnIndex call r w')))"

definition checkpoint_key :: "'w RunGymAttemptOptions \<Rightarrow> ('w GymCheckpointStore \<times> string) option" where
  "checkpoint_key options =
     (case (ao_checkpoint options, truthy_text (ao_checkpointKey options)) of (Some store, Some key) \<Rightarrow> Some (store, key) | _ \<Rightarrow> None)"

definition checkpoint_at :: "nat \<Rightarrow> string \<Rightarrow> attempt_state \<Rightarrow> GymCheckpoint" where
  "checkpoint_at turnIndex patch st =
     \<lparr>kp_turnIndex = turnIndex + 1, kp_patchText = patch, kp_transcript = as_transcript st, kp_requestedModel = Some (as_requestedModel st),
      kp_servedModel = Some (as_servedModel st), kp_workspaceDigest = None, kp_parentDigest = truthy_text (as_lastDigest st)\<rparr>"

text \<open>A failing checkpoint is ignored.\<close>

definition save_checkpoint :: "'w RunGymAttemptOptions \<Rightarrow> nat \<Rightarrow> attempt_state \<Rightarrow> 'w \<Rightarrow> attempt_state \<times> 'w" where
  "save_checkpoint options turnIndex st w =
     (case checkpoint_key options of
        None \<Rightarrow> (st, w)
      | Some (store, key) \<Rightarrow>
          (case harvestPatch (ao_runner options) (mt_repoDir (ao_task options)) (Some ''HEAD'') w of
             (Inl _, w1) \<Rightarrow> (st, w1)
           | (Inr patch, w1) \<Rightarrow>
               (case ck_save store key (checkpoint_at turnIndex patch st) w1 of
                  (Inl _, w2) \<Rightarrow> (st, w2)
                | (Inr digest, w2) \<Rightarrow> (st\<lparr>as_lastDigest := Some digest\<rparr>, w2))))"

definition past_deadline :: "'w RunGymAttemptOptions \<Rightarrow> rat \<Rightarrow> 'w \<Rightarrow> bool" where
  "past_deadline options startedAt w \<longleftrightarrow> ao_now options w - startedAt > opt_or (ao_deadlineMs options) 600000"

definition tool_options :: "'w RunGymAttemptOptions \<Rightarrow> GymToolOptions" where
  "tool_options options =
     \<lparr>gp_visibleTestPath = tk_visibleTestPath (mt_task (ao_task options)), gp_protectedPatterns = ao_protectedPatterns options, gp_node = ao_node options,
      gp_execTimeoutMs = (if ao_execTimeoutMs options = Some 0 then None else ao_execTimeoutMs options)\<rparr>"

text \<open>The body of the loop: the state after it and whether the loop is left.\<close>

definition attempt_turn :: "'w RunGymAttemptOptions \<Rightarrow> rat \<Rightarrow> string \<Rightarrow> string \<Rightarrow> nat \<Rightarrow> attempt_state \<Rightarrow> 'w \<Rightarrow> bool \<times> attempt_state \<times> 'w" where
  "attempt_turn options startedAt sysPrompt userPrompt turnIndex st w =
     (if past_deadline options startedAt w then (True, st\<lparr>as_timedOut := True\<rparr>, w)
      else (case ask_turn (ao_turn options) turnIndex sysPrompt userPrompt (opt_or (ao_maxReasks options) 1) st w of
              (None, st1, w1) \<Rightarrow> (True, st1, w1)
            | (Some result, st1, w1) \<Rightarrow>
                (let (st2, w2) = gym_calls options (tool_options options) turnIndex (gu_toolCalls result) (record_turn result st1) w1
                 in if as_finished st2 then (True, st2, w2)
                    else (let (st3, w3) = save_checkpoint options turnIndex st2 w2
                          in if past_deadline options startedAt w3 then (True, st3\<lparr>as_timedOut := True\<rparr>, w3)
                             else (False, st3, w3)))))"

fun attempt_loop :: "'w RunGymAttemptOptions \<Rightarrow> rat \<Rightarrow> string \<Rightarrow> string \<Rightarrow> nat \<Rightarrow> nat \<Rightarrow> attempt_state \<Rightarrow> 'w \<Rightarrow> attempt_state \<times> 'w" where
  "attempt_loop options startedAt sysPrompt userPrompt 0 turnIndex st w = (st, w)"
| "attempt_loop options startedAt sysPrompt userPrompt (Suc n) turnIndex st w =
     (case attempt_turn options startedAt sysPrompt userPrompt turnIndex st w of
        (True, st', w') \<Rightarrow> (st', w')
      | (False, st', w') \<Rightarrow> attempt_loop options startedAt sysPrompt userPrompt n (Suc turnIndex) st' w')"

subsection \<open>Resuming and scoring\<close>

text \<open>The saved patch is written, applied and removed; the removal may fail by throwing only.\<close>

definition restore_patch :: "'w RunGymAttemptOptions \<Rightarrow> string \<Rightarrow> ('w, unit) io" where
  "restore_patch options patchText =
     (let runner = ao_runner options; at_repo = \<lparr>xo_cwd = Some (mt_repoDir (ao_task options)), xo_timeoutMs = None\<rparr>
      in and_then (er_write runner ''.gym-checkpoint.patch'' patchText) (\<lambda>_.
         and_then (er_exec runner ''git apply .gym-checkpoint.patch'' at_repo) (\<lambda>applied.
         and_then (er_exec runner ''rm -f .gym-checkpoint.patch'' at_repo) (\<lambda>_.
           if xe_code applied \<noteq> 0
           then fail_with (''failed to restore checkpoint patch: '' @ (if xe_stderr applied \<noteq> [] then xe_stderr applied else xe_stdout applied))
           else ret ()))))"

definition resume_state :: "GymCheckpoint \<times> string \<Rightarrow> attempt_state" where
  "resume_state saved =
     attempt_start\<lparr>as_transcript := kp_transcript (fst saved), as_lastDigest := Some (snd saved),
       as_requestedModel := truthy_text (opt_or (kp_requestedModel (fst saved)) None),
       as_servedModel := opt_or (kp_servedModel (fst saved)) None\<rparr>"

text \<open>Where the loop starts: its state, its first turn and the turn it is resumed from.\<close>

definition begin_attempt :: "'w RunGymAttemptOptions \<Rightarrow> ('w, attempt_state \<times> nat \<times> nat option) io" where
  "begin_attempt options w =
     (case Option.bind (checkpoint_key options) (\<lambda>(store, key). ck_load store key w) of
        None \<Rightarrow> (Inr (attempt_start, 0, None), w)
      | Some saved \<Rightarrow>
          and_then (if js_trim (kp_patchText (fst saved)) = [] then ret () else restore_patch options (kp_patchText (fst saved)))
            (\<lambda>_. ret (resume_state saved, kp_turnIndex (fst saved), Some (kp_turnIndex (fst saved)))) w)"

definition plain_score :: "GymOutcome \<Rightarrow> string \<Rightarrow> IsolatedScore" where
  "plain_score outcome detail = \<lparr>sc_outcome = outcome, sc_touchedPaths = [], sc_cases = [], sc_detail = Some detail\<rparr>"

definition attempt_scorer :: "'w RunGymAttemptOptions \<Rightarrow> string \<Rightarrow> ('w, IsolatedScore) io" where
  "attempt_scorer options patch =
     (case ao_score options of
        Some scorer \<Rightarrow> scorer patch (mt_baseRepoDir (ao_task options))
      | None \<Rightarrow> (\<lambda>w. apfst Inr (isolatedScorerFor (ao_env options) (opt_or (tk_hiddenCases (mt_task (ao_task options))) []) patch (mt_baseRepoDir (ao_task options)) w)))"

definition protected_touched :: "'w RunGymAttemptOptions \<Rightarrow> string \<Rightarrow> string list" where
  "protected_touched options patch =
     filter (\<lambda>path. path = tk_visibleTestPath (mt_task (ao_task options)) \<or> isTampering [path] \<or> (\<exists>pattern \<in> set PROTECTED_PATTERNS. pattern path))
       (patchTargetPaths (se_numstat (ao_env options)) patch)"

text \<open>The harvest and the score: the patch, the protected paths, and the score with what was thrown, if anything.\<close>

definition score_attempt :: "'w RunGymAttemptOptions \<Rightarrow> string option \<Rightarrow> 'w \<Rightarrow> (string \<times> string list \<times> IsolatedScore \<times> string option) \<times> 'w" where
  "score_attempt options errored w =
     (case errored of
        Some e \<Rightarrow> (([], [], plain_score OutErrored e, errored), w)
      | None \<Rightarrow>
          (case harvestPatch (ao_runner options) (mt_repoDir (ao_task options)) (Some ''HEAD'') w of
             (Inl e, w1) \<Rightarrow> (([], [], plain_score OutErrored e, Some e), w1)
           | (Inr patch, w1) \<Rightarrow>
               (let touched = protected_touched options patch
                in if js_trim patch = [] then ((patch, touched, plain_score OutFailed ''no changes; the planted bug is still present'', None), w1)
                   else (case attempt_scorer options patch w1 of
                           (Inl e, w2) \<Rightarrow> ((patch, touched, plain_score OutErrored e, Some e), w2)
                         | (Inr score, w2) \<Rightarrow> ((patch, touched, score, None), w2)))))"

definition attempt_record :: "attempt_state \<Rightarrow> nat option \<Rightarrow> rat \<Rightarrow> string \<times> string list \<times> IsolatedScore \<times> string option \<Rightarrow> GymAttemptRecord" where
  "attempt_record st resumed wallTimeMs scored =
     (case scored of (patch, touched, score, errored) \<Rightarrow>
        \<lparr>ar_outcome = (if errored \<noteq> None then OutErrored else if as_timedOut st then OutTimedOut else sc_outcome score),
         ar_requestedModel = as_requestedModel st, ar_servedModel = as_servedModel st, ar_modelSubstituted = as_modelSubstituted st,
         ar_wallTimeMs = wallTimeMs, ar_callCount = as_callCount st, ar_httpAttempts = as_httpAttempts st, ar_turns = as_turns st,
         ar_reasks = as_reasks st, ar_resumedFromTurn = resumed, ar_protectedPathsTouched = touched, ar_patch = patch, ar_score = score,
         ar_error = errored,
         ar_failure = (if as_timedOut st \<and> as_failure st = None
                       then Some \<lparr>gf_message = ''attempt exceeded its deadline'', gf_transient = True, gf_kind = FailTransient, gf_retryAfterMs = None\<rparr>
                       else as_failure st)\<rparr>)"

definition runGymAttempt :: "'w RunGymAttemptOptions \<Rightarrow> ('w, GymAttemptRecord) io" where
  "runGymAttempt options w0 =
     (let startedAt = ao_now options w0;
          visibleTestPath = tk_visibleTestPath (mt_task (ao_task options));
          (seen, w) = er_read (ao_runner options) visibleTestPath w0;
          sysPrompt = buildGymSystemPrompt visibleTestPath GYM_TOOL_DEFINITIONS;
          userPrompt = buildGymUserPrompt visibleTestPath (case seen of Inl _ \<Rightarrow> [] | Inr content \<Rightarrow> content)
      in case begin_attempt options w of
           (Inl e, w1) \<Rightarrow> (Inl e, w1)
         | (Inr (st, start, resumed), w1) \<Rightarrow>
             (let (st', w2) = attempt_loop options startedAt sysPrompt userPrompt (opt_or (ao_maxTurns options) 8 - start) start st w1;
                  (scored, w3) = score_attempt options (as_errored st') w2
              in (Inr (attempt_record st' resumed (ao_now options w3 - startedAt) scored), w3)))"

end
