(* ===== verification/Gym_Durable.thy ===== *)
theory Gym_Durable
  imports Gym_Attempt Agent_Workflow
begin

text \<open>
  The durable arm of the benchmark (\<^verbatim>\<open>src/integrations/temporal/src/gym-activities.ts\<close>, \<^verbatim>\<open>gym-workflows.ts\<close>): the workflow owns the loop and
  the transcript, one activity per turn runs the shared engine on the sandbox rung and checkpoints the work. Temporal, the
  task fixtures, the persistent sandbox runners and the stores are parameters over a world \<open>'w\<close>.
\<close>

subsection \<open>Contracts\<close>

record GymAttemptActivityInput =
  ga_agentId :: string
  ga_taskDir :: string
  ga_gatewayBaseUrl :: string
  ga_model :: string
  ga_apiKey :: "string option"
  ga_maxTurns :: nat
  ga_deadlineMs :: rat
  ga_runner :: "GymRunnerKind option"
  ga_scored :: "bool option"
  ga_gatewayTimeoutMs :: "int option"
  ga_checkpointKey :: "string option"

record GymPreparedAttempt =
  gv_attempt :: GymAttemptActivityInput
  gv_repoDir :: string
  gv_baseRepoDir :: string
  gv_visibleTestPath :: string
  gv_systemPrompt :: string
  gv_userPrompt :: string
  gv_tools :: "DurableToolSpec list"
  gv_checkpointKey :: string

record GymTurnActivityInput =
  gn_prepared :: GymPreparedAttempt
  gn_turn :: nat
  gn_transcript :: "GymTranscriptEntry list"

record GymTurnActivityResult =
  gw_content :: string
  gw_toolCalls :: "GatewayToolCall list"
  gw_observations :: "(string \<times> bool \<times> string) list"
  gw_finished :: bool
  gw_patch :: string
  gw_requestedModel :: string
  gw_servedModel :: "string option"
  gw_modelSubstituted :: bool
  gw_httpAttempts :: nat

record GymScoreActivityInput =
  gs_prepared :: GymPreparedAttempt
  gs_patch :: string
  gs_turns :: nat
  gs_callCount :: nat
  gs_httpAttempts :: nat
  gs_requestedModel :: string
  gs_servedModel :: "string option"
  gs_modelSubstituted :: bool
  gs_wallTimeMs :: rat
  gs_error :: "string option"

record GymAttemptActivityOutput =
  gz_isolation :: GymIsolation
  gz_outcome :: GymOutcome
  gz_requestedModel :: string
  gz_servedModel :: "string option"
  gz_modelSubstituted :: bool
  gz_wallTimeMs :: rat
  gz_callCount :: nat
  gz_turns :: nat
  gz_httpAttempts :: nat
  gz_protectedPathsTouched :: "string list"
  gz_patchBytes :: nat
  gz_detail :: "string option"

subsection \<open>The tool surface\<close>

definition turnScopedEffectId :: "nat \<Rightarrow> nat \<Rightarrow> string \<Rightarrow> string" where
  "turnScopedEffectId turn attempt i = ''t'' @ show_nat turn @ '':a'' @ show_nat attempt @ '':'' @ i"

definition tool_spec :: "string \<Rightarrow> tool_effect \<Rightarrow> DurableToolSpec" where
  "tool_spec name effect =
     \<lparr>dt_name = name, dt_effect = effect, dt_pathArg = None, dt_contentArg = None, dt_oldTextArg = None, dt_newTextArg = None, dt_commandArg = None,
      dt_command = None, dt_cwdArg = None, dt_timeoutArg = None, dt_resourceClass = None\<rparr>"

definition gymToolSpecs :: "string \<Rightarrow> DurableToolSpec list" where
  "gymToolSpecs visibleTestPath =
     [(tool_spec ''list_files'' ToolList)\<lparr>dt_pathArg := Some ''path''\<rparr>,
      (tool_spec ''read_file'' ToolRead)\<lparr>dt_pathArg := Some ''path''\<rparr>,
      (tool_spec ''write_file'' ToolWrite)\<lparr>dt_pathArg := Some ''path'', dt_contentArg := Some ''content''\<rparr>,
      (tool_spec ''replace_in_file'' ToolReplace)\<lparr>dt_pathArg := Some ''path'', dt_oldTextArg := Some ''old_text'', dt_newTextArg := Some ''new_text''\<rparr>,
      (tool_spec ''run_visible_test'' ToolExec)\<lparr>dt_command := Some (''node --test '' @ visibleTestPath)\<rparr>]"

text \<open>An output as the JSON value \<^verbatim>\<open>JSON.stringify\<close> sees, where it is neither bytes nor text.\<close>

definition output_json :: "effect_output option \<Rightarrow> json" where
  "output_json out =
     (case out of
        Some (OutJson j) \<Rightarrow> j
      | Some (OutNames ns) \<Rightarrow> JArr (map JStr ns)
      | Some (OutDigest d n) \<Rightarrow> JObj [(''digest'', JStr d), (''size'', JNum n)]
      | _ \<Rightarrow> JNull)"

definition byte_of :: "json \<Rightarrow> char" where
  "byte_of j = (case j of JNum n \<Rightarrow> char_of (nat (n mod 256)) | _ \<Rightarrow> CHR 0x00)"

definition bytesToText :: "effect_output option \<Rightarrow> string" where
  "bytesToText out =
     (case out of
        Some (OutBytes s) \<Rightarrow> s
      | Some (OutJson (JStr s)) \<Rightarrow> s
      | Some (OutJson (JObj fs)) \<Rightarrow> (case js_get fs ''data'' of Some (JArr bs) \<Rightarrow> map byte_of bs | _ \<Rightarrow> stringify (JObj fs))
      | _ \<Rightarrow> stringify (output_json out))"

definition element_text :: "json \<Rightarrow> string" where
  "element_text j = (if j = JNull then [] else js_String j)"

definition render_test :: "bool \<Rightarrow> json option \<Rightarrow> string" where
  "render_test ok result =
     (let code = (case nullish (jfield result ''exitCode'') None of Some j \<Rightarrow> j | None \<Rightarrow> JNum (if ok then 0 else 1))
      in js_trim ((if code = JNum 0 then ''PASS'' else ''FAIL'') @ '' (exit '' @ js_String code @ '')'' @ [CHR 0x0A] @
           shown (nullish (jfield result ''stdout'') None) [] @ [CHR 0x0A] @ shown (nullish (jfield result ''stderr'') None) []))"

definition renderGymObservation :: "string \<Rightarrow> bool \<Rightarrow> effect_output option \<Rightarrow> string option \<Rightarrow> string" where
  "renderGymObservation name ok out err =
     (if name = ''read_file'' then bytesToText out
      else if name = ''list_files''
      then (case out of
              Some (OutNames ns) \<Rightarrow> join_with (CHR 0x0A) ns
            | Some (OutJson (JArr xs)) \<Rightarrow> join_with (CHR 0x0A) (map element_text xs)
            | _ \<Rightarrow> bytesToText out)
      else if name = ''run_visible_test'' then render_test ok (case out of Some (OutJson j) \<Rightarrow> Some j | _ \<Rightarrow> None)
      else if ok then ''ok'' else opt_or err ''error'')"

subsection \<open>The activities\<close>

record 'w SandboxRunner =
  sr_runner :: "'w EffectRunner"
  sr_executeEffect :: "Effect \<Rightarrow> ('w, EffectResult) io"
  sr_checkpointWorkspace :: "('w, string option) io"

record 'w gym_env =
  gx_load :: "string \<Rightarrow> ('w, GymTask) io"
  gx_materialize :: "string \<Rightarrow> GymTask \<Rightarrow> ('w, MaterializedGymTask \<times> string) io"
  gx_readTest :: "MaterializedGymTask \<Rightarrow> ('w, string) io"
  gx_hasRunner :: "string \<Rightarrow> 'w \<Rightarrow> bool"
  gx_getRunner :: "GymPreparedAttempt \<Rightarrow> string option \<Rightarrow> ('w, 'w SandboxRunner) io"
  gx_release :: "string \<Rightarrow> 'w \<Rightarrow> 'w"
  gx_checkpoint :: "'w GymCheckpointStore"
  gx_fetch :: "ModelRequest \<Rightarrow> 'w \<Rightarrow> (string + HttpResponse) \<times> 'w"
  gx_parse :: "string \<Rightarrow> string + json"
  gx_hints :: router_config
  gx_score :: "'w score_env"

definition gym_refusal :: "GymAttemptActivityInput \<Rightarrow> activity_error option" where
  "gym_refusal attempt =
     (if scoredRungAllowed (Some (rb_isolated (describeGymRunner (opt_or (ga_runner attempt) SandboxRunner)))) (opt_or (ga_scored attempt) True) then None
      else Some (NonRetryable ''UNISOLATED_RUNG_REFUSED: a scored run requires an isolated (sandbox) rung'' ''GymUnisolatedScoredRun''))"

definition thrown :: "string + 'a \<Rightarrow> activity_error + 'a" where
  "thrown r = map_sum (\<lambda>e. TurnError (PlainError e)) id r"

definition gymPrepareActivity :: "'w gym_env \<Rightarrow> GymAttemptActivityInput \<Rightarrow> 'w \<Rightarrow> (activity_error + GymPreparedAttempt) \<times> 'w" where
  "gymPrepareActivity env input w =
     (case gym_refusal input of
        Some e \<Rightarrow> (Inl e, w)
      | None \<Rightarrow>
          apfst thrown (and_then (gx_load env (ga_taskDir input)) (\<lambda>task.
            and_then (gx_materialize env (ga_taskDir input) task) (\<lambda>(m, bugCommit) w1.
              (let (content, w2) = gx_readTest env m w1
               in (Inr \<lparr>gv_attempt = input, gv_repoDir = mt_repoDir m, gv_baseRepoDir = mt_baseRepoDir m, gv_visibleTestPath = tk_visibleTestPath task,
                     gv_systemPrompt = buildGymSystemPrompt (tk_visibleTestPath task) GYM_TOOL_DEFINITIONS,
                     gv_userPrompt = buildGymUserPrompt (tk_visibleTestPath task) (case content of Inl _ \<Rightarrow> [] | Inr c \<Rightarrow> c),
                     gv_tools = gymToolSpecs (tk_visibleTestPath task),
                     gv_checkpointKey = opt_or (ga_checkpointKey input) (ga_agentId input @ ''-'' @ bugCommit)\<rparr>, w2)))) w))"

text \<open>The fallback for a checkpoint without a workspace digest.\<close>

definition replay_patch :: "'w SandboxRunner \<Rightarrow> string \<Rightarrow> string \<Rightarrow> ('w, unit) io" where
  "replay_patch sandbox repoDir patchText =
     (let runner = sr_runner sandbox; at_repo = \<lparr>xo_cwd = Some repoDir, xo_timeoutMs = None\<rparr>
      in and_then (er_write runner ''.gym-restore.patch'' patchText) (\<lambda>_.
         and_then (er_exec runner ''git apply .gym-restore.patch'' at_repo) (\<lambda>applied.
         and_then (er_exec runner ''rm -f .gym-restore.patch'' at_repo) (\<lambda>_.
           if xe_code applied \<noteq> 0
           then fail_with (''failed to restore checkpoint: '' @ (if xe_stderr applied \<noteq> [] then xe_stderr applied else xe_stdout applied))
           else ret ()))))"

definition open_runner :: "'w gym_env \<Rightarrow> GymPreparedAttempt \<Rightarrow> (GymCheckpoint \<times> string) option \<Rightarrow> ('w, 'w SandboxRunner) io" where
  "open_runner env prepared previous w =
     (let cold = (\<not> gx_hasRunner env (gv_checkpointKey prepared) w);
          digest = Option.bind previous (\<lambda>p. truthy_text (kp_workspaceDigest (fst p)))
      in and_then (gx_getRunner env prepared (if cold then digest else None)) (\<lambda>sandbox.
           case previous of
             Some (p, _) \<Rightarrow>
               if cold \<and> digest = None \<and> js_trim (kp_patchText p) \<noteq> []
               then and_then (replay_patch sandbox (gv_repoDir prepared) (kp_patchText p)) (\<lambda>_. ret sandbox) else ret sandbox
           | None \<Rightarrow> ret sandbox) w)"

definition gym_engine :: "'w gym_env \<Rightarrow> GymTurnActivityInput \<Rightarrow> nat \<Rightarrow> 'w GatewayAgentEngineOptions" where
  "gym_engine env input attemptNo =
     (let prepared = gn_prepared input; attempt = gv_attempt prepared
      in \<lparr>go_baseUrl = ga_gatewayBaseUrl attempt, go_model = ga_model attempt, go_apiKey = truthy_text (ga_apiKey attempt),
          go_timeoutMs = ga_gatewayTimeoutMs attempt, go_fetch = gx_fetch env, go_parse = parse_value (gx_parse env), go_hints = gx_hints env,
          go_heartbeat = None, go_systemPrompt = gv_systemPrompt prepared,
          go_buildUserMessage = (\<lambda>_. join_strings [CHR 0x0A, CHR 0x0A] (gv_userPrompt prepared # map render_entry (gn_transcript input))),
          go_parseToolCalls = Some (\<lambda>content. map_sum id (map (\<lambda>c. \<lparr>tc_name = gt_name c, tc_arguments = opt_or (gt_arguments c) JNull\<rparr>)) (parseGymToolCalls (gx_parse env) content)),
          go_toEffect = Some (\<lambda>call agentId index.
            map_sum id (map_option (\<lambda>e. e\<lparr>eff_id := turnScopedEffectId (gn_turn input) attemptNo (eff_id e)\<rparr>)) (buildToEffect (gv_tools prepared) call agentId index)),
          go_onTurn = None\<rparr>)"

definition gym_context :: "GymPreparedAttempt \<Rightarrow> 'w SandboxRunner \<Rightarrow> 'w AgentEngineContext" where
  "gym_context prepared sandbox =
     \<lparr>ec_agentId = ga_agentId (gv_attempt prepared), ec_emitTool = (\<lambda>_ _ _ w. w), ec_executeEffect = Some (sr_executeEffect sandbox)\<rparr>"

definition render_observations :: "GatewayTurnOutcome \<Rightarrow> (string \<times> bool \<times> string) list" where
  "render_observations out =
     map (\<lambda>ob. (ob_name ob, ob_ok ob, renderGymObservation (ob_name ob) (ob_ok ob) (ob_output ob) (ob_error ob))) (to_observations out)"

definition tool_entries :: "(string \<times> bool \<times> string) list \<Rightarrow> GymTranscriptEntry list" where
  "tool_entries obs = map (\<lambda>(name, _, content). tool_note name content) obs"

definition turn_checkpoint :: "GymTurnActivityInput \<Rightarrow> (GymCheckpoint \<times> string) option \<Rightarrow> GatewayTurnOutcome \<Rightarrow> string \<Rightarrow> string option \<Rightarrow> GymCheckpoint" where
  "turn_checkpoint input previous out patch taken =
     \<lparr>kp_turnIndex = gn_turn input + 1, kp_patchText = patch,
      kp_transcript = gn_transcript input @ [\<lparr>ge_assistant = True, ge_name = None, ge_content = to_content out\<rparr>] @ tool_entries (render_observations out),
      kp_requestedModel = Some (Some (to_requestedModel out)), kp_servedModel = Some (to_servedModel out),
      kp_workspaceDigest = truthy_text (case taken of Some d \<Rightarrow> Some d | None \<Rightarrow> Option.bind previous (\<lambda>p. kp_workspaceDigest (fst p))),
      kp_parentDigest = truthy_text (map_option snd previous)\<rparr>"

definition turn_activity_result :: "GatewayTurnOutcome \<Rightarrow> string \<Rightarrow> GymTurnActivityResult" where
  "turn_activity_result out patch =
     \<lparr>gw_content = to_content out, gw_toolCalls = to_toolCalls out, gw_observations = render_observations out,
      gw_finished = (\<exists>c \<in> set (to_toolCalls out). tc_name c = ''finish''), gw_patch = patch, gw_requestedModel = to_requestedModel out,
      gw_servedModel = to_servedModel out, gw_modelSubstituted = to_modelSubstituted out, gw_httpAttempts = 1\<rparr>"

text \<open>After the engine has run: the harvest, the checkpoint of the workspace, the checkpoint record. Each of them may throw.\<close>

definition finish_turn :: "'w gym_env \<Rightarrow> GymTurnActivityInput \<Rightarrow> (GymCheckpoint \<times> string) option \<Rightarrow> 'w SandboxRunner \<Rightarrow> GatewayTurnOutcome \<Rightarrow> ('w, GymTurnActivityResult) io" where
  "finish_turn env input previous sandbox out =
     and_then (harvestPatch (sr_runner sandbox) (gv_repoDir (gn_prepared input)) None) (\<lambda>patch.
     and_then (sr_checkpointWorkspace sandbox) (\<lambda>taken.
     and_then (ck_save (gx_checkpoint env) (gv_checkpointKey (gn_prepared input)) (turn_checkpoint input previous out patch taken)) (\<lambda>_.
       ret (turn_activity_result out patch))))"

definition gymRunTurn :: "'w gym_env \<Rightarrow> nat \<Rightarrow> rat \<Rightarrow> rat \<Rightarrow> GymTurnActivityInput \<Rightarrow> 'w \<Rightarrow> (activity_error + GymTurnActivityResult) \<times> 'w" where
  "gymRunTurn env attemptNo startedAt now input w =
     (case gym_refusal (gv_attempt (gn_prepared input)) of
        Some e \<Rightarrow> (Inl e, w)
      | None \<Rightarrow>
          (let previous = ck_load (gx_checkpoint env) (gv_checkpointKey (gn_prepared input)) w
           in case open_runner env (gn_prepared input) previous w of
                (Inl e, w1) \<Rightarrow> (Inl (TurnError (PlainError e)), w1)
              | (Inr sandbox, w1) \<Rightarrow>
                  (case engine_run (gym_engine env input attemptNo) [] (gym_context (gn_prepared input) sandbox) startedAt now w1 of
                     (Inl e, w2) \<Rightarrow> (Inl (TurnError e), w2)
                   | (Inr out, w2) \<Rightarrow> apfst thrown (finish_turn env input previous sandbox out w2))))"

definition gymScoreActivity :: "'w gym_env \<Rightarrow> GymScoreActivityInput \<Rightarrow> 'w \<Rightarrow> (activity_error + GymAttemptActivityOutput) \<times> 'w" where
  "gymScoreActivity env input w =
     (let attempt = gv_attempt (gs_prepared input); binding = describeGymRunner (opt_or (ga_runner attempt) SandboxRunner)
      in case gym_refusal attempt of
           Some e \<Rightarrow> (Inl e, w)
         | None \<Rightarrow>
             (case gx_load env (ga_taskDir attempt) w of
                (Inl e, w1) \<Rightarrow> (Inl (TurnError (PlainError e)), w1)
              | (Inr task, w1) \<Rightarrow>
                  (let (score, w2) =
                         (case gs_error input of
                            Some e \<Rightarrow> (plain_score OutErrored e, w1)
                          | None \<Rightarrow>
                              if js_trim (gs_patch input) = [] then (plain_score OutFailed ''no changes; the planted bug is still present'', w1)
                              else isolatedScorerFor (gx_score env) (opt_or (tk_hiddenCases task) []) (gs_patch input) (gv_baseRepoDir (gs_prepared input)) w1)
                   in (Inr \<lparr>gz_isolation = rb_isolation binding, gz_outcome = sc_outcome score, gz_requestedModel = gs_requestedModel input,
                         gz_servedModel = gs_servedModel input, gz_modelSubstituted = gs_modelSubstituted input, gz_wallTimeMs = gs_wallTimeMs input,
                         gz_callCount = gs_callCount input, gz_turns = gs_turns input, gz_httpAttempts = gs_httpAttempts input,
                         gz_protectedPathsTouched = sc_touchedPaths score, gz_patchBytes = length (gs_patch input), gz_detail = truthy_text (sc_detail score)\<rparr>,
                       gx_release env (gv_checkpointKey (gs_prepared input)) w2))))"

subsection \<open>The workflow\<close>

text \<open>
  The activities as the workflow calls them: through Temporal, which retries them and wraps what they throw. The loop of
  parks has no bound in the code; \<open>fuel\<close> is the number of calls of the activity looked at, and no result means that it has not returned by then.
\<close>

record 'w gym_proxies =
  gq_prepare :: "GymAttemptActivityInput \<Rightarrow> 'w \<Rightarrow> (failure + GymPreparedAttempt) \<times> 'w"
  gq_runTurn :: "GymTurnActivityInput \<Rightarrow> 'w \<Rightarrow> (failure + GymTurnActivityResult) \<times> 'w"
  gq_score :: "GymScoreActivityInput \<Rightarrow> 'w \<Rightarrow> (failure + GymAttemptActivityOutput) \<times> 'w"
  gq_sleep :: "rat \<Rightarrow> 'w \<Rightarrow> 'w"
  gq_now :: "'w \<Rightarrow> rat"

fun runTurnWithPark :: "nat \<Rightarrow> 'w gym_proxies \<Rightarrow> GymTurnActivityInput \<Rightarrow> nat \<Rightarrow> 'w \<Rightarrow> ((failure + GymTurnActivityResult) \<times> 'w) option" where
  "runTurnWithPark 0 proxies input parkAttempt w = None"
| "runTurnWithPark (Suc fuel) proxies input parkAttempt w =
     (case gq_runTurn proxies input w of
        (Inr result, w') \<Rightarrow> Some (Inr result, w')
      | (Inl e, w') \<Rightarrow>
          if isNonRetryableFailure e then Some (Inl e, w')
          else (case clampParkHintMs (retryAfterMsFromError e) of
                  Some hint \<Rightarrow> runTurnWithPark fuel proxies input parkAttempt (gq_sleep proxies hint w')
                | None \<Rightarrow> runTurnWithPark fuel proxies input (Suc parkAttempt) (gq_sleep proxies (nextParkBackoffMs (Suc parkAttempt) None) w')))"

record gym_loop =
  gl_transcript :: "GymTranscriptEntry list"
  gl_last :: "GymTurnActivityResult option"
  gl_turns :: nat
  gl_callCount :: nat
  gl_httpAttempts :: nat
  gl_errored :: "string option"

definition gym_loop_start :: gym_loop where
  "gym_loop_start = \<lparr>gl_transcript = [], gl_last = None, gl_turns = 0, gl_callCount = 0, gl_httpAttempts = 0, gl_errored = None\<rparr>"

definition count_turn :: "GymTurnActivityResult \<Rightarrow> gym_loop \<Rightarrow> gym_loop" where
  "count_turn outcome st =
     st\<lparr>gl_last := Some outcome, gl_turns := gl_turns st + 1, gl_callCount := gl_callCount st + 1, gl_httpAttempts := gl_httpAttempts st + gw_httpAttempts outcome\<rparr>"

definition extend_transcript :: "GymTurnActivityResult \<Rightarrow> gym_loop \<Rightarrow> gym_loop" where
  "extend_transcript outcome st =
     st\<lparr>gl_transcript := gl_transcript st @ [\<lparr>ge_assistant = True, ge_name = None, ge_content = gw_content outcome\<rparr>] @ tool_entries (gw_observations outcome)\<rparr>"

fun gym_turns ::
  "nat \<Rightarrow> 'w gym_proxies \<Rightarrow> GymPreparedAttempt \<Rightarrow> rat \<Rightarrow> rat \<Rightarrow> nat \<Rightarrow> nat \<Rightarrow> gym_loop \<Rightarrow> 'w \<Rightarrow> (gym_loop \<times> 'w) option" where
  "gym_turns fuel proxies prepared startedAt deadlineMs 0 turn st w = Some (st, w)"
| "gym_turns fuel proxies prepared startedAt deadlineMs (Suc n) turn st w =
     (if gq_now proxies w - startedAt > deadlineMs then Some (st, w)
      else (case runTurnWithPark fuel proxies \<lparr>gn_prepared = prepared, gn_turn = turn, gn_transcript = gl_transcript st\<rparr> 0 w of
              None \<Rightarrow> None
            | Some (Inl e, w') \<Rightarrow> Some (st\<lparr>gl_errored := Some (rootCauseMessage e)\<rparr>, w')
            | Some (Inr outcome, w') \<Rightarrow>
                if gw_finished outcome then Some (count_turn outcome st, w')
                else gym_turns fuel proxies prepared startedAt deadlineMs n (Suc turn) (extend_transcript outcome (count_turn outcome st)) w'))"

definition score_input :: "GymAttemptActivityInput \<Rightarrow> GymPreparedAttempt \<Rightarrow> gym_loop \<Rightarrow> rat \<Rightarrow> GymScoreActivityInput" where
  "score_input input prepared st wallTimeMs =
     \<lparr>gs_prepared = prepared, gs_patch = (case gl_last st of None \<Rightarrow> [] | Some outcome \<Rightarrow> gw_patch outcome), gs_turns = gl_turns st, gs_callCount = gl_callCount st,
      gs_httpAttempts = gl_httpAttempts st, gs_requestedModel = (case gl_last st of None \<Rightarrow> ga_model input | Some outcome \<Rightarrow> gw_requestedModel outcome),
      gs_servedModel = Option.bind (gl_last st) gw_servedModel, gs_modelSubstituted = (case gl_last st of None \<Rightarrow> False | Some outcome \<Rightarrow> gw_modelSubstituted outcome),
      gs_wallTimeMs = wallTimeMs, gs_error = gl_errored st\<rparr>"

definition gymAttemptWorkflow :: "nat \<Rightarrow> 'w gym_proxies \<Rightarrow> GymAttemptActivityInput \<Rightarrow> 'w \<Rightarrow> ((failure + GymAttemptActivityOutput) \<times> 'w) option" where
  "gymAttemptWorkflow fuel proxies input w =
     (case gq_prepare proxies input w of
        (Inl e, w1) \<Rightarrow> Some (Inl e, w1)
      | (Inr prepared, w1) \<Rightarrow>
          (case gym_turns fuel proxies prepared (gq_now proxies w1) (ga_deadlineMs input) (ga_maxTurns input) 0 gym_loop_start w1 of
             None \<Rightarrow> None
           | Some (st, w2) \<Rightarrow> Some (gq_score proxies (score_input input prepared st (gq_now proxies w2 - gq_now proxies w1)) w2)))"

end
