(* ===== verification/Gym_Attempt_Laws.thy ===== *)
theory Gym_Attempt_Laws
  imports Gym_Attempt Gym_Scoring_Laws
begin

text \<open>
  What an attempt guarantees: its calls are accounted for and bounded, it passes only on a scored patch, a resumed
  attempt continues as the interrupted one would have, and a checkpoint reads back as it was saved.
\<close>

subsection \<open>Counting calls\<close>

lemma push_simps [simp]:
  "as_callCount (push e st) = as_callCount st" "as_turns (push e st) = as_turns st" "as_reasks (push e st) = as_reasks st"
  "as_errored (push e st) = as_errored st" "as_failure (push e st) = as_failure st" "as_finished (push e st) = as_finished st"
  "as_timedOut (push e st) = as_timedOut st" "as_transcript (push e st) = as_transcript st @ [e]"
  "as_httpAttempts (push e st) = as_httpAttempts st" "as_requestedModel (push e st) = as_requestedModel st"
  "as_servedModel (push e st) = as_servedModel st" "as_modelSubstituted (push e st) = as_modelSubstituted st"
  "as_lastDigest (push e st) = as_lastDigest st"
  by (simp_all add: push_def)

lemma ask_turn_counts:
  assumes "ask_turn turn i sp up left st w = (r, st', w')" "as_errored st = None"
  shows "as_turns st' = as_turns st \<and> as_reasks st \<le> as_reasks st' \<and> as_reasks st' \<le> as_reasks st + left \<and>
    as_callCount st' + as_reasks st = as_callCount st + 1 + as_reasks st' \<and> (r = None) = (as_errored st' \<noteq> None) \<and>
    (as_failure st = None \<longrightarrow> (as_failure st' = None) = (as_errored st' = None))"
  using assms
proof (induction left arbitrary: st w)
  case 0
  then show ?case
    by (auto simp: ask_turn.simps [of _ _ _ _ 0] Let_def split: prod.splits sum.splits)
next
  case (Suc left)
  show ?case
  proof (cases "turn \<lparr>gi_turnIndex = i, gi_systemPrompt = sp, gi_userPrompt = up, gi_transcript = as_transcript st\<rparr> w")
    case (Pair x w1)
    show ?thesis
    proof (cases x)
      case (Inr result)
      with Suc.prems Pair show ?thesis
        by (auto simp: ask_turn.simps [of _ _ _ _ "Suc left"] Let_def)
    next
      case (Inl e)
      let ?st = "push reask_note (st\<lparr>as_callCount := as_callCount st + 1, as_httpAttempts := as_httpAttempts st + opt_or (te_attempts e) 1, as_reasks := as_reasks st + 1\<rparr>)"
      show ?thesis
      proof (cases "gf_kind (classifyFailure e) = FailMalformed")
        case True
        with Suc.prems Pair Inl have "ask_turn turn i sp up left ?st w1 = (r, st', w')"
          by (simp add: ask_turn.simps [of _ _ _ _ "Suc left"] Let_def)
        from Suc.IH [OF this] Suc.prems(2) show ?thesis
          by auto
      next
        case False
        with Suc.prems Pair Inl show ?thesis
          by (auto simp: ask_turn.simps [of _ _ _ _ "Suc left"] Let_def)
      qed
    qed
  qed
qed

lemma gym_calls_counts:
  "gym_calls options tools i calls st w = (st', w') \<Longrightarrow>
   as_turns st' = as_turns st \<and> as_reasks st' = as_reasks st \<and> as_callCount st' = as_callCount st \<and> as_errored st' = as_errored st \<and> as_failure st' = as_failure st"
  by (induction options tools i calls st w rule: gym_calls.induct) (auto simp: Let_def split: if_splits prod.splits)

lemma save_checkpoint_counts:
  "save_checkpoint options i st w = (st', w') \<Longrightarrow>
   as_turns st' = as_turns st \<and> as_reasks st' = as_reasks st \<and> as_callCount st' = as_callCount st \<and> as_errored st' = as_errored st \<and> as_failure st' = as_failure st"
  by (auto simp: save_checkpoint_def split: option.splits prod.splits sum.splits)

text \<open>Every call of the model is a completed turn, a re-ask, or the one that ended the attempt.\<close>

definition failed_call :: "attempt_state \<Rightarrow> nat" where
  "failed_call st = (if as_errored st = None then 0 else 1)"

definition accounted :: "nat \<Rightarrow> attempt_state \<Rightarrow> bool" where
  "accounted maxReasks st \<longleftrightarrow>
     (as_failure st = None) = (as_errored st = None) \<and>
     as_callCount st = as_turns st + as_reasks st + failed_call st \<and> as_reasks st \<le> maxReasks * (as_turns st + failed_call st)"

lemma attempt_turn_counts:
  assumes "attempt_turn options startedAt sp up i st w = (stop, st', w')" "as_errored st = None"
    and "accounted (opt_or (ao_maxReasks options) 1) st"
  shows "accounted (opt_or (ao_maxReasks options) 1) st' \<and> as_turns st' + failed_call st' \<le> as_turns st + 1 \<and> (\<not> stop \<longrightarrow> as_errored st' = None)"
proof (cases "past_deadline options startedAt w")
  case True
  with assms show ?thesis
    by (auto simp: attempt_turn_def accounted_def failed_call_def)
next
  case False
  let ?m = "opt_or (ao_maxReasks options) 1"
  obtain r st1 w1 where ask: "ask_turn (ao_turn options) i sp up ?m st w = (r, st1, w1)"
    by (metis prod_cases3)
  note counts = ask_turn_counts [OF ask assms(2)]
  show ?thesis
  proof (cases r)
    case None
    with assms False ask counts show ?thesis
      by (auto simp: attempt_turn_def accounted_def failed_call_def)
  next
    case (Some result)
    obtain st2 w2 where calls: "gym_calls options (tool_options options) i (gu_toolCalls result) (record_turn result st1) w1 = (st2, w2)"
      by fastforce
    obtain st3 w3 where saved: "save_checkpoint options i st2 w2 = (st3, w3)"
      by fastforce
    have st2: "as_turns st2 = as_turns st + 1" "as_reasks st2 = as_reasks st1" "as_callCount st2 = as_callCount st1" "as_errored st2 = None" "as_failure st2 = None"
      using gym_calls_counts [OF calls] counts Some assms(2,3) by (auto simp: record_turn_def accounted_def)
    moreover have "st' = st2 \<or> st' = st3 \<or> st' = st3\<lparr>as_timedOut := True\<rparr>"
      using assms(1) False ask Some calls saved by (auto simp: attempt_turn_def Let_def split: if_splits)
    ultimately have "as_turns st' = as_turns st + 1 \<and> as_reasks st' = as_reasks st1 \<and> as_callCount st' = as_callCount st1 \<and> as_errored st' = None \<and> as_failure st' = None"
      using save_checkpoint_counts [OF saved] by auto
    with counts assms(2,3) show ?thesis
      by (auto simp: accounted_def failed_call_def)
  qed
qed

lemma attempt_loop_counts:
  assumes "attempt_loop options startedAt sp up n i st w = (st', w')" "as_errored st = None"
    and "accounted (opt_or (ao_maxReasks options) 1) st"
  shows "accounted (opt_or (ao_maxReasks options) 1) st' \<and> as_turns st' + failed_call st' \<le> as_turns st + n"
  using assms
proof (induction n arbitrary: i st w)
  case 0
  then show ?case by (simp add: failed_call_def)
next
  case (Suc n)
  obtain stop st1 w1 where turn: "attempt_turn options startedAt sp up i st w = (stop, st1, w1)"
    by (metis prod_cases3)
  note counts = attempt_turn_counts [OF turn Suc.prems(2,3)]
  show ?case
  proof (cases stop)
    case True
    with Suc.prems turn counts show ?thesis by auto
  next
    case False
    with Suc.prems(1) turn have "attempt_loop options startedAt sp up n (Suc i) st1 w1 = (st', w')" by simp
    from Suc.IH [OF this] False counts show ?thesis
      by (auto simp: failed_call_def)
  qed
qed

lemma begin_attempt_clean:
  assumes "begin_attempt options w = (Inr (st, start, resumed), w')"
  shows "as_errored st = None \<and> as_callCount st = 0 \<and> as_turns st = 0 \<and> as_reasks st = 0 \<and> as_failure st = None \<and> \<not> as_timedOut st \<and> \<not> as_finished st"
  using assms by (auto simp: begin_attempt_def resume_state_def attempt_start_def and_then_def ret_def split: option.splits sum.splits prod.splits)

text \<open>The parts of a run.\<close>

lemma runGymAttempt_parts:
  assumes "runGymAttempt options w = (Inr r, w')"
  obtains st start resumed sp up w1 st' w2 scored w3 where
    "begin_attempt options (snd (er_read (ao_runner options) (tk_visibleTestPath (mt_task (ao_task options))) w)) = (Inr (st, start, resumed), w1)"
    "attempt_loop options (ao_now options w) sp up (opt_or (ao_maxTurns options) 8 - start) start st w1 = (st', w2)"
    "score_attempt options (as_errored st') w2 = (scored, w3)" "w' = w3"
    "r = attempt_record st' resumed (ao_now options w3 - ao_now options w) scored"
  using assms
  by (auto simp: runGymAttempt_def Let_def split: prod.splits sum.splits)

text \<open>C36: every call of the model is a completed turn, a re-ask, or the single call that ended the attempt; so an attempt makes at most
  as many calls as its turns times one more than the re-asks a turn may have, and it returns after at most its turns.\<close>

theorem attempt_calls_bounded:
  assumes "runGymAttempt options w = (Inr r, w')"
  shows "ar_turns r + ar_reasks r \<le> ar_callCount r \<and> ar_callCount r \<le> ar_turns r + ar_reasks r + 1 \<and>
    ar_turns r \<le> opt_or (ao_maxTurns options) 8 \<and>
    ar_callCount r \<le> (opt_or (ao_maxReasks options) 1 + 1) * opt_or (ao_maxTurns options) 8"
  using assms
proof (rule runGymAttempt_parts)
  fix st start resumed sp up w1 st' w2 scored w3
  assume start: "begin_attempt options (snd (er_read (ao_runner options) (tk_visibleTestPath (mt_task (ao_task options))) w)) = (Inr (st, start, resumed), w1)"
    and loop: "attempt_loop options (ao_now options w) sp up (opt_or (ao_maxTurns options) 8 - start) start st w1 = (st', w2)"
    and r: "r = attempt_record st' resumed (ao_now options w3 - ao_now options w) scored"
  let ?m = "opt_or (ao_maxReasks options) 1" and ?n = "opt_or (ao_maxTurns options) 8"
  note clean = begin_attempt_clean [OF start]
  from clean have "accounted ?m st"
    by (simp add: accounted_def failed_call_def)
  with attempt_loop_counts [OF loop] clean have "accounted ?m st'" and turns: "as_turns st' + failed_call st' \<le> ?n"
    by auto
  then have calls: "as_callCount st' = as_turns st' + as_reasks st' + failed_call st'" and reasks: "as_reasks st' \<le> ?m * (as_turns st' + failed_call st')"
    by (simp_all add: accounted_def)
  from reasks mult_le_mono2 [OF turns, of ?m] have "as_reasks st' \<le> ?m * ?n"
    by (rule le_trans)
  with calls turns have "as_callCount st' \<le> (?m + 1) * ?n"
    unfolding add_mult_distrib by linarith
  moreover have "failed_call st' \<le> 1"
    by (simp add: failed_call_def)
  ultimately show ?thesis
    using calls turns by (simp add: r attempt_record_def split: prod.split)
qed

text \<open>A small attempt: the model edits a file in its first turn and finishes in its second; the world is the file.\<close>

definition file_runner :: "string EffectRunner" where
  "file_runner =
     \<lparr>er_read = (\<lambda>_ w. (Inr w, w)), er_write = (\<lambda>_ content _. (Inr (), content)), er_list = (\<lambda>_ w. (Inr [''he.js''], w)),
      er_exec = (\<lambda>_ _ w. (Inr \<lparr>xe_code = 0, xe_stdout = (if w = ''bugged'' then [] else ''+++ b/he.js''), xe_stderr = [], xe_timedOut = None\<rparr>, w))\<rparr>"

definition file_turn :: "string GymTurn" where
  "file_turn input w =
     (Inr \<lparr>gu_toolCalls = [if gi_turnIndex input = 0
               then \<lparr>gt_name = ''write_file'', gt_arguments = Some (JObj [(''path'', JStr ''he.js''), (''content'', JStr ''fixed'')])\<rparr>
               else \<lparr>gt_name = ''finish'', gt_arguments = None\<rparr>],
           gu_content = Some ''call'', gu_requestedModel = Some ''m'', gu_servedModel = Some (Some ''m''), gu_modelSubstituted = Some False, gu_attempts = None\<rparr>, w)"

definition file_env :: "'w score_env" where
  "file_env =
     \<lparr>se_numstat = (\<lambda>_. None), se_clone = (\<lambda>_. Inr [FsFile ''he.js'' ''bugged'']),
      se_applyCheck = (\<lambda>_ _. None), se_apply = (\<lambda>_ _. Inr [FsFile ''he.js'' ''fixed'']),
      se_base = [''w''], se_work = ''/w'', se_getenv = (\<lambda>_. None), se_sqlite = False, se_supports = (\<lambda>f. f = ''--permission''),
      se_worker = (\<lambda>_ _ _ clone _. (AnswerMessage (JObj [(''present'', JBool True),
        (''valueJson'', JStr (if FsFile ''he.js'' ''fixed'' \<in> set clone then ''7'' else ''8''))]), False)),
      se_backend = (\<lambda>_. \<lparr>sb_create = (\<lambda>_ _ w. (Inl [], w)), sb_destroy = (\<lambda>_ w. (Inr (), w)), sb_exec = (\<lambda>_ _ w. (Inl [], w)),
        sb_writeFile = (\<lambda>_ _ _ w. (Inr (), w)), sb_readFile = (\<lambda>_ _ w. (Inl [], w)), sb_writeSymlink = (\<lambda>_ _ _ w. (Inr (), w)),
        sb_readSymlink = (\<lambda>_ _ w. (Inl [], w)), sb_removePath = (\<lambda>_ _ w. (Inr (), w)), sb_listGitChanges = (\<lambda>_ w. (Inr [], w))\<rparr>),
      se_parse = (\<lambda>_. None), se_source = []\<rparr>"

definition file_attempt :: "string RunGymAttemptOptions" where
  "file_attempt =
     \<lparr>ao_task = \<lparr>mt_task = \<lparr>tk_visibleTestPath = ''test/visible.mjs'',
          tk_hiddenCases = Some [\<lparr>gc_module = ''./he.js'', gc_call = ''f'', gc_args = [], gc_expect = Some (JNum 7), gc_label = None\<rparr>]\<rparr>,
        mt_repoDir = ''/repo'', mt_baseRepoDir = ''/repo''\<rparr>,
      ao_runner = file_runner, ao_turn = file_turn, ao_score = None, ao_maxTurns = None, ao_checkpoint = None, ao_checkpointKey = None,
      ao_maxReasks = None, ao_deadlineMs = None, ao_node = ''node'', ao_execTimeoutMs = None, ao_protectedPatterns = None, ao_now = (\<lambda>_. 0),
      ao_onTool = (\<lambda>_ _ _ w. w), ao_env = file_env\<rparr>"

definition file_record :: GymAttemptRecord where
  "file_record =
     \<lparr>ar_outcome = OutPassed, ar_requestedModel = Some ''m'', ar_servedModel = Some ''m'', ar_modelSubstituted = False, ar_wallTimeMs = 0,
      ar_callCount = 2, ar_httpAttempts = 2, ar_turns = 2, ar_reasks = 0, ar_resumedFromTurn = None, ar_protectedPathsTouched = [],
      ar_patch = ''+++ b/he.js'', ar_score = \<lparr>sc_outcome = OutPassed, sc_touchedPaths = [''he.js''],
        sc_cases = [\<lparr>cr_label = None, cr_ok = True, cr_error = None\<rparr>], sc_detail = None\<rparr>, ar_error = None, ar_failure = None\<rparr>"

lemma file_attempt_run: "runGymAttempt file_attempt ''bugged'' = (Inr file_record, ''fixed'')"
  by code_simp

theorem attempt_calls_bounded_witness: "ar_turns file_record = 2 \<and> ar_callCount file_record \<le> (1 + 1) * 8"
  using attempt_calls_bounded [OF file_attempt_run] by (simp add: file_attempt_def file_record_def)

subsection \<open>What a pass means\<close>

lemma score_attempt_passed:
  assumes "score_attempt options errored w = ((patch, touched, score, e), w')" "e = None" "sc_outcome score = OutPassed"
  obtains w1 where "errored = None" "js_trim patch \<noteq> []" "attempt_scorer options patch w1 = (Inr score, w')" "touched = protected_touched options patch"
    "harvestPatch (ao_runner options) (mt_repoDir (ao_task options)) (Some ''HEAD'') w = (Inr patch, w1)"
  using assms
  by (auto simp: score_attempt_def plain_score_def Let_def split: option.splits prod.splits sum.splits if_splits)



subsection \<open>Resuming\<close>

text \<open>Two states of the loop that differ in their counters only: the counters do not steer the loop.\<close>

definition same_work :: "attempt_state \<Rightarrow> attempt_state \<Rightarrow> bool" where
  "same_work s t \<longleftrightarrow>
     as_transcript s = as_transcript t \<and> as_requestedModel s = as_requestedModel t \<and> as_servedModel s = as_servedModel t \<and>
     as_lastDigest s = as_lastDigest t \<and> as_finished s = as_finished t \<and> as_timedOut s = as_timedOut t \<and>
     as_errored s = as_errored t \<and> as_failure s = as_failure t"

lemma same_work_push [intro]: "same_work s t \<Longrightarrow> same_work (push e s) (push e t)"
  by (simp add: same_work_def)

lemma ask_turn_same:
  assumes "same_work s t" "ask_turn turn i sp up left s w = (r, s', w')"
  shows "\<exists>t'. ask_turn turn i sp up left t w = (r, t', w') \<and> same_work s' t'"
  using assms
proof (induction left arbitrary: s t w)
  case 0
  then show ?case
    by (auto simp: ask_turn.simps [of _ _ _ _ 0] same_work_def Let_def split: prod.splits sum.splits)
next
  case (Suc left)
  have eq: "as_transcript s = as_transcript t"
    using Suc.prems(1) by (simp add: same_work_def)
  obtain x w1 where x: "turn \<lparr>gi_turnIndex = i, gi_systemPrompt = sp, gi_userPrompt = up, gi_transcript = as_transcript t\<rparr> w = (x, w1)"
    by fastforce
  show ?case
  proof (cases "\<exists>e. x = Inl e \<and> gf_kind (classifyFailure e) = FailMalformed")
    case True
    then obtain e where e: "x = Inl e" "gf_kind (classifyFailure e) = FailMalformed" by blast
    let ?next = "\<lambda>st. push reask_note (st\<lparr>as_callCount := as_callCount st + 1, as_httpAttempts := as_httpAttempts st + opt_or (te_attempts e) 1, as_reasks := as_reasks st + 1\<rparr>)"
    have step: "ask_turn turn i sp up (Suc left) st w = ask_turn turn i sp up left (?next st) w1" if "as_transcript st = as_transcript t" for st
      using e x that by (simp add: ask_turn.simps [of _ _ _ _ "Suc left"] Let_def)
    have "same_work (?next s) (?next t)"
      using Suc.prems(1) by (simp add: same_work_def)
    from Suc.IH [OF this] Suc.prems(2) show ?thesis
      by (simp add: step eq)
  next
    case False
    with Suc.prems x show ?thesis
      by (auto simp: ask_turn.simps [of _ _ _ _ "Suc left"] same_work_def Let_def split: sum.splits)
  qed
qed

lemma gym_calls_same:
  "same_work s t \<Longrightarrow> gym_calls options tools i calls s w = (s', w') \<Longrightarrow>
   \<exists>t'. gym_calls options tools i calls t w = (t', w') \<and> same_work s' t'"
proof (induction calls arbitrary: s t w)
  case (Cons call calls)
  show ?case
  proof (cases "gt_name call = ''finish''")
    case True
    with Cons.prems show ?thesis by (auto simp: same_work_def)
  next
    case False
    obtain r w1 where "tool_execute (ao_runner options) tools call w = (r, w1)"
      by fastforce
    with False Cons.prems Cons.IH [OF same_work_push [OF Cons.prems(1)]] show ?thesis
      by simp
  qed
qed simp

lemma save_checkpoint_same:
  assumes "same_work s t" "save_checkpoint options i s w = (s', w')"
  shows "\<exists>t'. save_checkpoint options i t w = (t', w') \<and> same_work s' t'"
  using assms by (auto simp: save_checkpoint_def checkpoint_at_def same_work_def split: option.splits prod.splits sum.splits)

lemma attempt_turn_same:
  assumes "same_work s t" "attempt_turn options startedAt sp up i s w = (stop, s', w')"
  shows "\<exists>t'. attempt_turn options startedAt sp up i t w = (stop, t', w') \<and> same_work s' t'"
proof (cases "past_deadline options startedAt w")
  case True
  with assms show ?thesis by (auto simp: attempt_turn_def same_work_def)
next
  case False
  obtain r s1 w1 where ask: "ask_turn (ao_turn options) i sp up (opt_or (ao_maxReasks options) 1) s w = (r, s1, w1)"
    by (metis prod_cases3)
  from ask_turn_same [OF assms(1) this] obtain t1 where
    askt: "ask_turn (ao_turn options) i sp up (opt_or (ao_maxReasks options) 1) t w = (r, t1, w1)" and t1: "same_work s1 t1"
    by blast
  show ?thesis
  proof (cases r)
    case None
    with assms(2) False ask askt t1 show ?thesis by (auto simp: attempt_turn_def)
  next
    case (Some result)
    have rec: "same_work (record_turn result s1) (record_turn result t1)"
      using t1 by (simp add: record_turn_def same_work_def split: option.split)
    obtain s2 w2 where calls: "gym_calls options (tool_options options) i (gu_toolCalls result) (record_turn result s1) w1 = (s2, w2)"
      by fastforce
    from gym_calls_same [OF rec this] obtain t2 where callst: "gym_calls options (tool_options options) i (gu_toolCalls result) (record_turn result t1) w1 = (t2, w2)"
      and t2: "same_work s2 t2"
      by blast
    obtain s3 w3 where save: "save_checkpoint options i s2 w2 = (s3, w3)"
      by fastforce
    from save_checkpoint_same [OF t2 this] obtain t3 where "save_checkpoint options i t2 w2 = (t3, w3)" "same_work s3 t3"
      by blast
    with assms(2) False ask askt Some calls callst save t2 show ?thesis
      by (auto simp: attempt_turn_def same_work_def split: if_splits)
  qed
qed

lemma attempt_loop_same:
  "same_work s t \<Longrightarrow> attempt_loop options startedAt sp up n i s w = (s', w') \<Longrightarrow>
   \<exists>t'. attempt_loop options startedAt sp up n i t w = (t', w') \<and> same_work s' t'"
proof (induction n arbitrary: i s t w)
  case (Suc n)
  obtain stop s1 w1 where turn: "attempt_turn options startedAt sp up i s w = (stop, s1, w1)"
    by (metis prod_cases3)
  from attempt_turn_same [OF Suc.prems(1) this] obtain t1 where
    "attempt_turn options startedAt sp up i t w = (stop, t1, w1)" "same_work s1 t1"
    by blast
  with Suc turn show ?case by (cases stop) auto
qed simp

lemma resume_state_same:
  assumes "as_errored st = None" "as_failure st = None" "\<not> as_finished st" "\<not> as_timedOut st" "as_requestedModel st \<noteq> Some []"
  shows "same_work (st\<lparr>as_lastDigest := Some d\<rparr>) (resume_state (checkpoint_at i patch st, d))"
  using assms by (simp add: same_work_def resume_state_def checkpoint_at_def attempt_start_def truthy_text_def)


definition kept_attempt :: "GymCheckpoint option RunGymAttemptOptions" where
  "kept_attempt =
     \<lparr>ao_task = \<lparr>mt_task = \<lparr>tk_visibleTestPath = ''t'', tk_hiddenCases = None\<rparr>, mt_repoDir = ''/repo'', mt_baseRepoDir = ''/repo''\<rparr>,
      ao_runner = \<lparr>er_read = (\<lambda>_ w. (Inr [], w)), er_write = (\<lambda>_ _ w. (Inr (), w)), er_list = (\<lambda>_ w. (Inr [], w)),
        er_exec = (\<lambda>_ _ w. (Inr \<lparr>xe_code = 0, xe_stdout = [], xe_stderr = [], xe_timedOut = None\<rparr>, w))\<rparr>,
      ao_turn = createScriptedGymTurn [] \<lparr>sd_requestedModel = None, sd_servedModel = None, sd_modelSubstituted = None\<rparr>,
      ao_score = Some (\<lambda>_ _ w. (Inl ''none'', w)), ao_maxTurns = None,
      ao_checkpoint = Some \<lparr>ck_load = (\<lambda>_ w. map_option (\<lambda>c. (c, ''d'')) w), ck_save = (\<lambda>_ c _. (Inr ''d'', Some c))\<rparr>,
      ao_checkpointKey = Some ''k'', ao_maxReasks = None, ao_deadlineMs = None, ao_node = ''node'', ao_execTimeoutMs = None,
      ao_protectedPatterns = None, ao_now = (\<lambda>_. 0), ao_onTool = (\<lambda>_ _ _ w. w), ao_env = file_env\<rparr>"


subsection \<open>Checkpoints\<close>

lemma str_field_simps [simp]:
  "str_field (JObj ((k, v) # fs)) k' = (if k' = k then (case v of JStr s \<Rightarrow> Some s | _ \<Rightarrow> None) else str_field (JObj fs) k')"
  "str_field (JObj []) k' = None"
  by (simp_all add: str_field_def jfield_def split: json.split)

lemma entry_roundtrip [simp]: "entry_of (entry_json e) = e"
  by (cases e) (simp add: entry_of_def entry_json_def opt_member_def split: option.split)

lemma checkpoint_json_roundtrip: "checkpoint_of (checkpoint_json c) = c"
proof -
  have entries: "map (entry_of \<circ> entry_json) es = es" for es
    by (induction es) simp_all
  show ?thesis
    by (cases c) (simp add: checkpoint_of_def checkpoint_json_def opt_member_def str_field_def nullable_field_def nullable_def jfield_def entries split: option.split)
qed

definition pointer_json :: "string \<Rightarrow> int \<Rightarrow> json" where
  "pointer_json digest now = JObj [(''digest'', JStr digest), (''at'', JNum now)]"

text \<open>C39: a checkpoint that is saved is loaded back as it was, with its digest, whatever was saved under the key before; given that
  \<^verbatim>\<open>JSON.parse\<close> reads the two texts that were written, and that the hash is 64 hexadecimal digits and does not collide with other
  content of the store.\<close>

theorem checkpoint_roundtrip:
  fixes c :: GymCheckpoint and sha :: "string \<Rightarrow> string" and now :: int
  defines "bytes \<equiv> stringify (checkpoint_json c)"
  assumes "parse bytes = Some (checkpoint_json c)"
    and "parse (stringify (pointer_json (digestOf sha bytes) now)) = Some (pointer_json (digestOf sha bytes) now)"
    and "blob_inv sha (cf_blobs fs)" "is_hex64 (sha bytes)"
    and "\<forall>other. fs_get sha (cf_blobs fs) (digestOf sha bytes) = Inr other \<longrightarrow> other = bytes"
  shows "\<exists>fs'. checkpoint_save sha key c now sidecar fs = (Inr (digestOf sha bytes), fs') \<and>
    checkpoint_load sha parse key fs' = Some (c, digestOf sha bytes)"
proof -
  let ?opts = "\<lparr>po_mediaType = Some CHECKPOINT_MEDIA_TYPE, po_producedBy = Some (''gym:'' @ key),
              po_producedFrom = map_option (\<lambda>d. [d]) (truthy_text (kp_parentDigest c)), po_tenantId = None\<rparr>"
  have ne: "truthy_text (Some (digestOf sha bytes)) = Some (digestOf sha bytes)"
    by (simp add: truthy_text_def digestOf_def SHA256_PREFIX_def)
  obtain ref blobs where put: "fs_put sha (cf_blobs fs) bytes ?opts now sidecar = Inr (ref, blobs)"
    using assms(5) by (auto simp: fs_put_def normalizeDigest_def digestOf_def strip_prefix_def Let_def)
  then have "fs_put_state sha now sidecar (cf_blobs fs) bytes ?opts = (Inr ref, blobs)"
    by (simp add: fs_put_state_def)
  from fs_blobs.put_get [OF assms(4,6) this] have "br_digest ref = digestOf sha bytes" "fs_get sha blobs (digestOf sha bytes) = Inr bytes"
    by simp_all
  with put assms(2,3) ne show ?thesis
    by (simp add: checkpoint_save_def checkpoint_load_def bytes_def pointer_json_def checkpoint_json_roundtrip)
qed

theorem checkpoint_roundtrip_witness:
  "\<exists>sha parse fs'. checkpoint_save sha ''k'' (checkpoint_at 2 [] attempt_start) 5 True \<lparr>cf_blobs = empty_blob_fs, cf_pointers = []\<rparr> =
       (Inr (digestOf sha (stringify (checkpoint_json (checkpoint_at 2 [] attempt_start)))), fs') \<and>
     checkpoint_load sha parse ''k'' fs' = Some (checkpoint_at 2 [] attempt_start, digestOf sha (stringify (checkpoint_json (checkpoint_at 2 [] attempt_start))))"
proof -
  let ?c = "checkpoint_at 2 [] attempt_start" and ?sha = "\<lambda>_ :: string. replicate 64 (CHR ''a'')"
  let ?bytes = "stringify (checkpoint_json ?c)" and ?p = "pointer_json (digestOf ?sha (stringify (checkpoint_json ?c))) 5"
  let ?parse = "\<lambda>s. if s = ?bytes then Some (checkpoint_json ?c) else Some ?p"
  have parse: "?parse ?bytes = Some (checkpoint_json ?c)" "?parse (stringify ?p) = Some ?p"
    by (simp_all add: checkpoint_json_def pointer_json_def json_quote_def json_escape_def)
  have hex: "is_hex64 (?sha ?bytes)"
    by (simp add: is_hex64_def numeral_eq_Suc)
  have inv: "blob_inv ?sha (cf_blobs \<lparr>cf_blobs = empty_blob_fs, cf_pointers = []\<rparr>)"
    by (simp add: blob_inv_def empty_blob_fs_def)
  have none: "\<forall>other. fs_get ?sha (cf_blobs \<lparr>cf_blobs = empty_blob_fs, cf_pointers = []\<rparr>) (digestOf ?sha ?bytes) = Inr other \<longrightarrow> other = ?bytes"
    by (simp add: fs_get_def empty_blob_fs_def split: sum.split)
  from checkpoint_roundtrip [OF parse inv hex none, of "''k''" True] show ?thesis
    by blast
qed

subsection \<open>Where the contract and the code differ\<close>

text \<open>
  The re-asks are counted per turn, not per attempt: a model whose first answer in each of two turns is malformed is re-asked twice
  with a limit of one.
\<close>

definition slipping_turn :: "unit GymTurn" where
  "slipping_turn input w =
     (if gi_transcript input \<noteq> [] \<and> last (gi_transcript input) = reask_note
      then (Inr \<lparr>gu_toolCalls = [], gu_content = Some ''ok'', gu_requestedModel = None, gu_servedModel = None, gu_modelSubstituted = None, gu_attempts = None\<rparr>, w)
      else (Inl \<lparr>te_name = ''Error'', te_message = ''model reply is not JSON: x'', te_status = None, te_retryAfterMs = None, te_attempts = None\<rparr>, w))"

definition slipping_attempt :: "unit RunGymAttemptOptions" where
  "slipping_attempt =
     \<lparr>ao_task = \<lparr>mt_task = \<lparr>tk_visibleTestPath = ''t'', tk_hiddenCases = None\<rparr>, mt_repoDir = ''/repo'', mt_baseRepoDir = ''/repo''\<rparr>,
      ao_runner = \<lparr>er_read = (\<lambda>_ w. (Inr [], w)), er_write = (\<lambda>_ _ w. (Inr (), w)), er_list = (\<lambda>_ w. (Inr [], w)), er_exec = (\<lambda>_ _ w. (Inl ''none'', w))\<rparr>,
      ao_turn = slipping_turn, ao_score = None, ao_maxTurns = Some 2, ao_checkpoint = None, ao_checkpointKey = None, ao_maxReasks = Some 1,
      ao_deadlineMs = None, ao_node = ''node'', ao_execTimeoutMs = None, ao_protectedPatterns = None, ao_now = (\<lambda>_. 0),
      ao_onTool = (\<lambda>_ _ _ w. w), ao_env = file_env\<rparr>"

lemma reasks_exceed_limit: "as_reasks (fst (attempt_loop slipping_attempt 0 [] [] 2 0 attempt_start ())) = 2"
proof -
  let ?e = "\<lparr>te_name = ''Error'', te_message = ''model reply is not JSON: x'', te_status = None, te_retryAfterMs = None, te_attempts = None\<rparr>"
  have bad: "gf_kind (classifyFailure ?e) = FailMalformed"
    by code_simp
  have asked: "\<exists>s'. ask_turn slipping_turn i [] [] (Suc 0) s () =
      (Some \<lparr>gu_toolCalls = [], gu_content = Some ''ok'', gu_requestedModel = None, gu_servedModel = None, gu_modelSubstituted = None, gu_attempts = None\<rparr>, s', ()) \<and>
      as_reasks s' = as_reasks s + 1 \<and> as_finished s' = as_finished s" if "as_transcript s = [] \<or> last (as_transcript s) \<noteq> reask_note" for i s
    using that bad by (auto simp: ask_turn.simps [of _ _ _ _ "Suc 0"] ask_turn.simps [of _ _ _ _ 0] slipping_turn_def Let_def)
  have turn: "\<exists>s'. attempt_turn slipping_attempt 0 [] [] i s () = (False, s', ()) \<and> as_reasks s' = as_reasks s + 1 \<and> \<not> as_finished s' \<and> last (as_transcript s') \<noteq> reask_note"
    if "as_transcript s = [] \<or> last (as_transcript s) \<noteq> reask_note" "\<not> as_finished s" for i s
    using asked [OF that(1), of i] that(2)
    by (auto simp: attempt_turn_def past_deadline_def slipping_attempt_def record_turn_def save_checkpoint_def checkpoint_key_def reask_note_def tool_note_def)
  obtain s1 where "attempt_turn slipping_attempt 0 [] [] 0 attempt_start () = (False, s1, ())" "as_reasks s1 = 1" "\<not> as_finished s1" "last (as_transcript s1) \<noteq> reask_note"
    using turn [of attempt_start 0] by (auto simp: attempt_start_def)
  with turn [of s1 1] show ?thesis
    by (auto simp: numeral_2_eq_2)
qed

text \<open>A reply that is the JSON value null is fatal, not malformed: the text of the error it causes is in neither list.\<close>

lemma null_reply_fatal:
  "parseGymToolCalls (\<lambda>s. if s = ''null'' then Inr JNull else Inl ''Unexpected token'') ''null'' = Inl e \<Longrightarrow>
   gf_kind (classifyFailure \<lparr>te_name = ''TypeError'', te_message = e, te_status = None, te_retryAfterMs = None, te_attempts = None\<rparr>) = FailFatal"
proof -
  let ?m = "''Cannot read properties of null (reading '' @ [CHR 0x27] @ ''tool_calls'' @ [CHR 0x27] @ '')''"
  have "parseGymToolCalls (\<lambda>s. if s = ''null'' then Inr JNull else Inl ''Unexpected token'') ''null'' = Inl ?m"
    by code_simp
  moreover have "gf_kind (classifyFailure \<lparr>te_name = ''TypeError'', te_message = ?m, te_status = None, te_retryAfterMs = None, te_attempts = None\<rparr>) = FailFatal"
    by code_simp
  ultimately show "parseGymToolCalls (\<lambda>s. if s = ''null'' then Inr JNull else Inl ''Unexpected token'') ''null'' = Inl e \<Longrightarrow> ?thesis"
    by simp
qed

text \<open>A substitution of the model is forgotten when an attempt is resumed.\<close>

lemma substitution_forgotten: "as_modelSubstituted st \<Longrightarrow> \<not> as_modelSubstituted (resume_state (checkpoint_at i patch st, d))"
  by (simp add: resume_state_def attempt_start_def)

text \<open>Two keys with one pointer file.\<close>

lemma pointers_collide: "pointer ''task/1'' = pointer ''task_1''"
  by code_simp

end
