(* ===== verification/Gym_Durable_Laws.thy ===== *)
theory Gym_Durable_Laws
  imports Gym_Durable Gym_Attempt_Laws Agent_Workflow_Laws Run_Turn_Laws
begin

text \<open>
  What the durable arm guarantees: effects of different turns have different ids, a scored attempt never runs
  outside the sandbox, only a non-retryable failure ends a turn and every other one is waited out, and the workflow and the
  checkpoint agree on the transcript.
\<close>

subsection \<open>Effect ids\<close>

lemma digits_end:
  assumes "show_nat m @ CHR '':'' # xs = show_nat n @ CHR '':'' # ys"
  shows "m = n \<and> xs = ys"
proof -
  have "takeWhile (\<lambda>c. c \<noteq> CHR '':'') (show_nat k @ CHR '':'' # zs) = show_nat k" for k zs
    using show_nat_no_colon by (subst takeWhile_append2) auto
  with assms have "show_nat m = show_nat n"
    by metis
  with assms show ?thesis by simp
qed

lemma turnScopedEffectId_inj:
  assumes "turnScopedEffectId t a i = turnScopedEffectId t' a' i'"
  shows "t = t' \<and> a = a' \<and> i = i'"
proof -
  have "show_nat t @ CHR '':'' # CHR ''a'' # show_nat a @ CHR '':'' # i = show_nat t' @ CHR '':'' # CHR ''a'' # show_nat a' @ CHR '':'' # i'"
    using assms by (simp add: turnScopedEffectId_def)
  from digits_end [OF this] show ?thesis
    by (auto dest: digits_end)
qed

text \<open>The effects that the calls of two turns of an attempt ask for, or of two runs of one turn, never have the same id, so the broker never
  answers a call of a later turn with the receipt of an earlier one.\<close>

theorem gym_effects_not_replayed:
  assumes "the (go_toEffect (gym_engine env input attemptNo)) call agentId index = Inr (Some e)"
    and "the (go_toEffect (gym_engine env input' attemptNo')) call' agentId' index' = Inr (Some e')"
    and "gn_turn input \<noteq> gn_turn input' \<or> attemptNo \<noteq> attemptNo'"
  shows "eff_id e \<noteq> eff_id e'"
proof -
  obtain i i' where "eff_id e = turnScopedEffectId (gn_turn input) attemptNo i" "eff_id e' = turnScopedEffectId (gn_turn input') attemptNo' i'"
    using assms(1,2) by (auto simp: gym_engine_def Let_def map_sum_def split: sum.splits)
  with assms(3) turnScopedEffectId_inj show ?thesis by metis
qed

subsection \<open>The scored-run rule\<close>

text \<open>A scored attempt on the host runner is refused by every activity before it does anything, with a failure that is not retried.\<close>

theorem scored_gym_refused:
  assumes "ga_runner attempt = Some LocalRunner" "ga_scored attempt \<noteq> Some False"
  shows "(\<exists>m. gymPrepareActivity env attempt w = (Inl (NonRetryable m ''GymUnisolatedScoredRun''), w)) \<and>
    (gv_attempt (gn_prepared input) = attempt \<longrightarrow> (\<exists>m. gymRunTurn env n t0 t1 input w = (Inl (NonRetryable m ''GymUnisolatedScoredRun''), w))) \<and>
    (gv_attempt (gs_prepared sinput) = attempt \<longrightarrow> (\<exists>m. gymScoreActivity env sinput w = (Inl (NonRetryable m ''GymUnisolatedScoredRun''), w)))"
proof -
  have "opt_or (ga_scored attempt) True"
    using assms(2) by (cases "ga_scored attempt") auto
  then obtain m where "gym_refusal attempt = Some (NonRetryable m ''GymUnisolatedScoredRun'')"
    using assms(1) by (simp add: gym_refusal_def describeGymRunner_def scoredRungAllowed_def)
  then show ?thesis
    by (auto simp: gymPrepareActivity_def gymRunTurn_def gymScoreActivity_def Let_def)
qed

subsection \<open>Parking\<close>

lemma park_ends_nonretryable:
  "runTurnWithPark fuel proxies input k w = Some (Inl e, w') \<Longrightarrow> isNonRetryableFailure e"
  by (induction fuel proxies input k w rule: runTurnWithPark.induct) (auto split: prod.splits sum.splits if_splits option.splits)

lemma park_more_fuel:
  "runTurnWithPark fuel proxies input k w = Some r \<Longrightarrow> runTurnWithPark (fuel + n) proxies input k w = Some r"
  by (induction fuel proxies input k w rule: runTurnWithPark.induct) (auto split: prod.splits sum.splits if_splits option.splits)

text \<open>A chain of failures that may be retried, each followed by its wait.\<close>

inductive parked :: "'w gym_proxies \<Rightarrow> GymTurnActivityInput \<Rightarrow> nat \<Rightarrow> 'w \<Rightarrow> nat \<Rightarrow> 'w \<Rightarrow> bool" for proxies input where
  here: "parked proxies input k w k w"
| hinted: "\<lbrakk>gq_runTurn proxies input w = (Inl e, w1); \<not> isNonRetryableFailure e; clampParkHintMs (retryAfterMsFromError e) = Some h;
     parked proxies input k (gq_sleep proxies h w1) k' w'\<rbrakk> \<Longrightarrow> parked proxies input k w k' w'"
| backed_off: "\<lbrakk>gq_runTurn proxies input w = (Inl e, w1); \<not> isNonRetryableFailure e; clampParkHintMs (retryAfterMsFromError e) = None;
     parked proxies input (Suc k) (gq_sleep proxies (nextParkBackoffMs (Suc k) None) w1) k' w'\<rbrakk> \<Longrightarrow> parked proxies input k w k' w'"

lemma parked_returns:
  assumes "parked proxies input k w k' w'" "gq_runTurn proxies input w' = (r, w'')" "\<And>e. r = Inl e \<Longrightarrow> isNonRetryableFailure e"
  shows "\<exists>fuel. \<forall>n. runTurnWithPark (fuel + n) proxies input k w = Some (r, w'')"
  using assms
proof (induction rule: parked.induct)
  case (here k w)
  then have "runTurnWithPark (Suc 0 + n) proxies input k w = Some (r, w'')" for n
    by (auto split: sum.split)
  then show ?case by blast
next
  case (hinted w e w1 h k k' w')
  then obtain fuel where "\<forall>n. runTurnWithPark (fuel + n) proxies input k (gq_sleep proxies h w1) = Some (r, w'')" by blast
  with hinted have "runTurnWithPark (Suc fuel + n) proxies input k w = Some (r, w'')" for n by simp
  then show ?case by blast
next
  case (backed_off w e w1 k k' w')
  then obtain fuel where "\<forall>n. runTurnWithPark (fuel + n) proxies input (Suc k) (gq_sleep proxies (nextParkBackoffMs (Suc k) None) w1) = Some (r, w'')" by blast
  with backed_off have "runTurnWithPark (Suc fuel + n) proxies input k w = Some (r, w'')" for n by simp
  then show ?case by blast
qed


subsection \<open>The transcript\<close>

text \<open>The transcript the workflow gives to the next turn is the one in the checkpoint that the activity saved for the turn before, so a worker
  that restores from the checkpoint and the workflow agree on what the model has seen.\<close>

theorem transcripts_agree:
  assumes "gn_transcript input = gl_transcript st"
  shows "gl_transcript (extend_transcript (turn_activity_result out patch) (count_turn (turn_activity_result out patch) st)) =
    kp_transcript (turn_checkpoint input previous out patch taken)"
  using assms by (simp add: extend_transcript_def count_turn_def turn_activity_result_def turn_checkpoint_def)

text \<open>A turn that returns has saved that checkpoint.\<close>

lemma gymRunTurn_saved:
  assumes "gymRunTurn env n t0 t1 input w = (Inr result, w')"
  obtains previous sandbox out patch taken d v where
    "previous = ck_load (gx_checkpoint env) (gv_checkpointKey (gn_prepared input)) w" "result = turn_activity_result out patch"
    "ck_save (gx_checkpoint env) (gv_checkpointKey (gn_prepared input)) (turn_checkpoint input previous out patch taken) v = (Inr d, w')"
  using assms
  by (auto simp: gymRunTurn_def finish_turn_def thrown_def and_then_def ret_def Let_def apfst_def map_prod_def map_sum_def
      split: option.splits sum.splits prod.splits)

subsection \<open>The workflow\<close>

lemma gym_turns_counts:
  "gym_turns fuel proxies prepared t0 deadline n turn st w = Some (st', w') \<Longrightarrow>
   gl_turns st' \<le> gl_turns st + n \<and> gl_callCount st' + gl_turns st = gl_turns st' + gl_callCount st"
proof (induction n arbitrary: turn st w)
  case (Suc n)
  show ?case
  proof (cases "gq_now proxies w - t0 > deadline")
    case True
    with Suc.prems show ?thesis by simp
  next
    case False
    with Suc.prems Suc.IH show ?thesis
      by (fastforce simp: count_turn_def extend_transcript_def split: option.splits prod.splits sum.splits if_splits)
  qed
qed simp

lemma gym_turns_error:
  "gym_turns fuel proxies prepared t0 deadline n turn st w = Some (st', w') \<Longrightarrow> gl_errored st = None \<Longrightarrow> gl_errored st' = Some m \<Longrightarrow>
   \<exists>e. isNonRetryableFailure e \<and> m = rootCauseMessage e"
proof (induction n arbitrary: turn st w)
  case (Suc n)
  show ?case
  proof (cases "gq_now proxies w - t0 > deadline")
    case True
    with Suc.prems show ?thesis by simp
  next
    case False
    with Suc.prems Suc.IH show ?thesis
      by (fastforce simp: count_turn_def extend_transcript_def split: option.splits prod.splits sum.splits if_splits dest: park_ends_nonretryable)
  qed
qed simp

text \<open>The end of a durable attempt whose activities are those of the model: it is reported as passed only if no turn was given up, the last
  patch is not empty, and the isolated scorer passed that patch on the held-out cases of the task; and it has made at most its turns.\<close>

theorem durable_pass_is_scored:
  assumes "gymAttemptWorkflow fuel proxies input w = Some (Inr out, w')" "gz_outcome out = OutPassed"
    and score: "\<And>sinput v. gq_score proxies sinput v = apfst (map_sum wrap id) (gymScoreActivity env sinput v)"
  shows "gz_turns out \<le> ga_maxTurns input \<and> gz_callCount out = gz_turns out \<and>
    (\<exists>base w1 task v v' patch cs answers. gq_prepare proxies input w = (Inr base, w1) \<and>
       gx_load env (ga_taskDir (gv_attempt base)) v = (Inr task, v') \<and> tk_hiddenCases task = Some cs \<and> cs \<noteq> [] \<and> js_trim patch \<noteq> [] \<and>
       sc_outcome (fst (isolatedScorerFor (gx_score env) cs patch (gv_baseRepoDir base) v')) = OutPassed \<and> list_all2 answers_case cs answers)"
proof -
  obtain base w1 st w2 where prepared: "gq_prepare proxies input w = (Inr base, w1)"
    and turns: "gym_turns fuel proxies base (gq_now proxies w1) (ga_deadlineMs input) (ga_maxTurns input) 0 gym_loop_start w1 = Some (st, w2)"
    and scored: "gq_score proxies (score_input input base st (gq_now proxies w2 - gq_now proxies w1)) w2 = (Inr out, w')"
    using assms(1) by (auto simp: gymAttemptWorkflow_def split: prod.splits sum.splits option.splits)
  let ?s = "score_input input base st (gq_now proxies w2 - gq_now proxies w1)"
  have run: "gymScoreActivity env ?s w2 = (Inr out, w')"
    using scored unfolding score by (cases "gymScoreActivity env ?s w2"; cases "fst (gymScoreActivity env ?s w2)") auto
  have counts: "gz_turns out = gl_turns st" "gz_callCount out = gl_callCount st"
    using run by (auto simp: gymScoreActivity_def score_input_def Let_def split: option.splits prod.splits sum.splits)
  have "gs_prepared ?s = base"
    by (simp add: score_input_def)
  with run assms(2) obtain task v' where load: "gx_load env (ga_taskDir (gv_attempt base)) w2 = (Inr task, v')"
    and patch: "js_trim (gs_patch ?s) \<noteq> []"
    and pass: "sc_outcome (fst (isolatedScorerFor (gx_score env) (opt_or (tk_hiddenCases task) []) (gs_patch ?s) (gv_baseRepoDir base) v')) = OutPassed"
    by (auto simp: gymScoreActivity_def plain_score_def Let_def split: option.splits prod.splits sum.splits if_splits)
  from passed_earned [OF pass [unfolded isolatedScorerFor_def]] obtain answers where
    ne: "opt_or (tk_hiddenCases task) [] \<noteq> []" and ans: "list_all2 answers_case (opt_or (tk_hiddenCases task) []) answers"
    by auto
  then obtain cs where cs: "tk_hiddenCases task = Some cs"
    by (cases "tk_hiddenCases task") auto
  have "gz_turns out \<le> ga_maxTurns input" "gz_callCount out = gz_turns out"
    using counts gym_turns_counts [OF turns] by (simp_all add: gym_loop_start_def)
  moreover note prepared load patch
  moreover have "cs \<noteq> []" "list_all2 answers_case cs answers"
    "sc_outcome (fst (isolatedScorerFor (gx_score env) cs (gs_patch ?s) (gv_baseRepoDir base) v')) = OutPassed"
    using ne ans pass cs by simp_all
  ultimately show ?thesis
    using cs by blast
qed

subsection \<open>Instances\<close>

text \<open>A worker whose gateway answers with a status, and an attempt on it; the world counts the calls.\<close>

definition durable_runner :: "nat SandboxRunner" where
  "durable_runner =
     \<lparr>sr_runner = \<lparr>er_read = (\<lambda>_ w. (Inr [], w)), er_write = (\<lambda>_ _ w. (Inr (), w)), er_list = (\<lambda>_ w. (Inr [], w)),
        er_exec = (\<lambda>_ _ w. (Inr \<lparr>xe_code = 0, xe_stdout = ''+++ b/he.js'', xe_stderr = [], xe_timedOut = None\<rparr>, w))\<rparr>,
      sr_executeEffect = (\<lambda>_ w. (Inr ok_result, w)), sr_checkpointWorkspace = (\<lambda>w. (Inr None, w))\<rparr>"

definition durable_env :: "int \<Rightarrow> nat gym_env" where
  "durable_env status =
     \<lparr>gx_load = (\<lambda>_ w. (Inr \<lparr>tk_visibleTestPath = ''test/v.mjs'',
        tk_hiddenCases = Some [\<lparr>gc_module = ''./he.js'', gc_call = ''f'', gc_args = [], gc_expect = Some (JNum 7), gc_label = None\<rparr>]\<rparr>, w)),
      gx_materialize = (\<lambda>_ task w. (Inr (\<lparr>mt_task = task, mt_repoDir = ''/repo'', mt_baseRepoDir = ''/repo''\<rparr>, ''c''), w)),
      gx_readTest = (\<lambda>_ w. (Inr [], w)), gx_hasRunner = (\<lambda>_ _. True), gx_getRunner = (\<lambda>_ _ w. (Inr durable_runner, w)), gx_release = (\<lambda>_ w. w),
      gx_checkpoint = \<lparr>ck_load = (\<lambda>_ _. None), ck_save = (\<lambda>_ _ w. (Inr ''d'', w))\<rparr>,
      gx_fetch = (\<lambda>_ w. (Inr \<lparr>hs_status = status, hs_headers = [], hs_body = ''no''\<rparr>, Suc w)), gx_parse = (\<lambda>_. Inl ''Unexpected token''),
      gx_hints = \<lparr>rc_backends = [], rc_profiles = [], rc_affinityTtlMs = 0, rc_number = (\<lambda>_. None), rc_date = (\<lambda>_. None)\<rparr>, gx_score = file_env\<rparr>"

definition durable_attempt :: "GymRunnerKind \<Rightarrow> GymAttemptActivityInput" where
  "durable_attempt kind =
     \<lparr>ga_agentId = ''a'', ga_taskDir = ''/task'', ga_gatewayBaseUrl = ''http://g'', ga_model = ''m'', ga_apiKey = None, ga_maxTurns = 3, ga_deadlineMs = 1000,
      ga_runner = Some kind, ga_scored = None, ga_gatewayTimeoutMs = None, ga_checkpointKey = None\<rparr>"

definition durable_prepared :: "GymRunnerKind \<Rightarrow> GymPreparedAttempt" where
  "durable_prepared kind =
     \<lparr>gv_attempt = durable_attempt kind, gv_repoDir = ''/repo'', gv_baseRepoDir = ''/repo'', gv_visibleTestPath = ''test/v.mjs'', gv_systemPrompt = [],
      gv_userPrompt = [], gv_tools = gymToolSpecs ''test/v.mjs'', gv_checkpointKey = ''k''\<rparr>"

definition durable_input :: "GymRunnerKind \<Rightarrow> nat \<Rightarrow> GymTurnActivityInput" where
  "durable_input kind turn = \<lparr>gn_prepared = durable_prepared kind, gn_turn = turn, gn_transcript = []\<rparr>"

definition write_call :: "string \<Rightarrow> GatewayToolCall" where
  "write_call path = \<lparr>tc_name = ''write_file'', tc_arguments = JObj [(''path'', JStr path), (''content'', JStr ''x'')]\<rparr>"

lemma durable_write:
  "the (go_toEffect (gym_engine env (durable_input kind turn) n)) (write_call path) agentId index =
   Inr (Some \<lparr>eff_id = turnScopedEffectId turn n (effect_id agentId ''write_file'' index), eff_body = WorkspaceWrite path ''x''\<rparr>)"
  by (simp add: gym_engine_def durable_input_def durable_prepared_def write_call_def buildToEffect_def gymToolSpecs_def tool_spec_def tool_body_def tool_arg_def jfield_def Let_def)

theorem gym_effects_not_replayed_witness:
  "\<exists>e e'. the (go_toEffect (gym_engine (durable_env 200) (durable_input SandboxRunner 0) 1)) (write_call ''he.js'') ''a'' 0 = Inr (Some e) \<and>
     the (go_toEffect (gym_engine (durable_env 200) (durable_input SandboxRunner 1) 1)) (write_call ''he.js'') ''a'' 0 = Inr (Some e') \<and> eff_id e \<noteq> eff_id e'"
proof -
  have "gn_turn (durable_input SandboxRunner 0) \<noteq> gn_turn (durable_input SandboxRunner 1) \<or> (1 :: nat) \<noteq> 1"
    by (simp add: durable_input_def)
  from gym_effects_not_replayed [OF durable_write durable_write this, of "''a''" 0 "''he.js''" "''a''" 0 "''he.js''"] show ?thesis
    by (simp add: durable_write)
qed

theorem scored_gym_refused_witness:
  "(\<exists>m. gymRunTurn (durable_env 200) 1 0 0 (durable_input LocalRunner 0) 0 = (Inl (NonRetryable m ''GymUnisolatedScoredRun''), 0))"
proof -
  have "ga_runner (durable_attempt LocalRunner) = Some LocalRunner" "ga_scored (durable_attempt LocalRunner) \<noteq> Some False"
    by (simp_all add: durable_attempt_def)
  from scored_gym_refused [OF this, where env = "durable_env 200" and w = 0 and n = 1 and ?t0.0 = 0 and ?t1.0 = 0 and input = "durable_input LocalRunner 0"
      and sinput = "score_input (durable_attempt LocalRunner) (durable_prepared LocalRunner) gym_loop_start 0"]
  show ?thesis
    by (simp add: durable_input_def durable_prepared_def)
qed

definition patched_result :: GymTurnActivityResult where
  "patched_result =
     \<lparr>gw_content = ''call'', gw_toolCalls = [], gw_observations = [], gw_finished = True, gw_patch = ''+++ b/he.js'', gw_requestedModel = ''m'',
      gw_servedModel = None, gw_modelSubstituted = False, gw_httpAttempts = 1\<rparr>"

text \<open>Proxies whose turn fails until the world has reached a count.\<close>

definition flaky_proxies :: "nat \<Rightarrow> nat gym_proxies" where
  "flaky_proxies limit =
     \<lparr>gq_prepare = (\<lambda>input w. (Inr (durable_prepared SandboxRunner), w)),
      gq_runTurn = (\<lambda>_ w. if w < limit then (Inl (wrapped_failure (TurnError (PlainError ''down''))), Suc w) else (Inr patched_result, w)),
      gq_score = (\<lambda>sinput w. apfst (map_sum wrapped_failure id) (gymScoreActivity (durable_env 200) sinput w)),
      gq_sleep = (\<lambda>_ w. w), gq_now = (\<lambda>_. 0)\<rparr>"


theorem transcripts_agree_witness:
  "gl_transcript (extend_transcript (turn_activity_result (outcome_of (gym_engine (durable_env 200) (durable_input SandboxRunner 0) 1) JNull ''hi'' [] [] 0) [])
     (count_turn (turn_activity_result (outcome_of (gym_engine (durable_env 200) (durable_input SandboxRunner 0) 1) JNull ''hi'' [] [] 0) []) gym_loop_start)) =
   kp_transcript (turn_checkpoint (durable_input SandboxRunner 0) None (outcome_of (gym_engine (durable_env 200) (durable_input SandboxRunner 0) 1) JNull ''hi'' [] [] 0) [] None)"
proof -
  have "gn_transcript (durable_input SandboxRunner 0) = gl_transcript gym_loop_start"
    by (simp add: durable_input_def gym_loop_start_def)
  then show ?thesis
    by (rule transcripts_agree)
qed

theorem durable_pass_is_scored_witness:
  "\<exists>out w'. gymAttemptWorkflow 5 (flaky_proxies 2) (durable_attempt SandboxRunner) 0 = Some (Inr out, w') \<and> gz_turns out \<le> 3 \<and> gz_callCount out = gz_turns out"
proof -
  let ?run = "gymAttemptWorkflow 5 (flaky_proxies 2) (durable_attempt SandboxRunner) 0"
  have "case ?run of Some (Inr out, _) \<Rightarrow> gz_outcome out = OutPassed | _ \<Rightarrow> False"
    by code_simp
  then obtain out w' where run: "?run = Some (Inr out, w')" "gz_outcome out = OutPassed"
    by (auto split: option.splits prod.splits sum.splits)
  have "gq_score (flaky_proxies 2) sinput v = apfst (map_sum wrapped_failure id) (gymScoreActivity (durable_env 200) sinput v)" for sinput v
    by (simp add: flaky_proxies_def)
  from durable_pass_is_scored [OF run this] run(1) show ?thesis
    by (auto simp: durable_attempt_def)
qed

subsection \<open>Where the contract and the code differ\<close>

text \<open>
  A status that cannot succeed on retry is not marked as such in this arm, so the attempt is parked again and again; its deadline is
  looked at between turns only, and the attempt never ends.
\<close>

lemma refused_turn:
  "gymRunTurn (durable_env 401) n t0 t1 (durable_input SandboxRunner turn) w = (Inl (TurnError (GatewayHttpError ''gateway returned HTTP 401: no'' 401 None)), Suc w)"
proof -
  have msg: "show_int 401 = ''401''"
    by code_simp
  show ?thesis
    by (simp add: gymRunTurn_def gym_refusal_def durable_input_def durable_prepared_def durable_attempt_def durable_env_def describeGymRunner_def scoredRungAllowed_def
        open_runner_def and_then_def ret_def engine_run_def ask_model_def gym_engine_def parseRetryHintMs_def header_of_def msg Let_def)
qed

lemma refusal_parks_forever:
  assumes "\<And>input w. gq_runTurn proxies input w = apfst (map_sum wrapped_failure id) (gymRunTurn (durable_env 401) n t0 t1 input w)"
  shows "runTurnWithPark fuel proxies (durable_input SandboxRunner turn) k w = None"
  by (induction fuel arbitrary: k w) (simp_all add: assms refused_turn clampParkHintMs_def)

text \<open>The text of a failed read does not say why.\<close>

lemma failed_read_shown_as_null: "renderGymObservation ''read_file'' False None (Some err) = ''null''"
  by (simp add: renderGymObservation_def bytesToText_def output_json_def)

text \<open>The tools of this arm write protected paths, which those of the other arm refuse.\<close>

lemma durable_tools_unguarded:
  "isProtected ''package.json'' \<lparr>gp_visibleTestPath = ''test/v.mjs'', gp_protectedPatterns = None, gp_node = ''node'', gp_execTimeoutMs = None\<rparr>"
  "\<exists>e. the (go_toEffect (gym_engine env (durable_input kind turn) n)) (write_call ''package.json'') agentId index = Inr (Some e) \<and> eff_body e = WorkspaceWrite ''package.json'' ''x''"
  by (code_simp, simp add: durable_write)

text \<open>An attempt past its deadline is scored like any other and never reported as timed out.\<close>

lemma deadline_not_reported:
  assumes "gq_now proxies w - t0 > deadline"
  shows "gym_turns fuel proxies prepared t0 deadline n turn st w = Some (st, w)"
  using assms by (cases n) simp_all

end
