(* ===== verification/Kubectl_Backend.thy ===== *)
theory Kubectl_Backend
  imports Workspace_Sync Codec
begin

text \<open>
  The sandbox backend on \<^verbatim>\<open>kubectl\<close> (\<^verbatim>\<open>src/src/execution/kubernetes/kubectl-backend.ts\<close>): pods and policies are made by applying
  manifests, and every operation inside a pod is a shell command that \<^verbatim>\<open>kubectl exec\<close> runs there. The \<^verbatim>\<open>kubectl\<close> process
  is a parameter: a function from its arguments, its input and its time limit to what it printed and how it
  ended. Everything the code itself does around it is defined here, the text of the shell commands and of the
  manifests included.
\<close>

subsection \<open>Paths and words\<close>

text \<open>
  \<^verbatim>\<open>posix.normalize\<close> of an absolute path resolves dots and keeps one slash at the end; what follows the slashes at
  its beginning is the normal relative path.
\<close>

definition ends_in_slash :: "string \<Rightarrow> bool" where
  "ends_in_slash path = (path \<noteq> [] \<and> last path = CHR ''/'')"

definition normalize_absolute :: "string \<Rightarrow> string" where
  "normalize_absolute path =
     (let normal = normalizeRelative path
      in if normal = [] then [] else if ends_in_slash (to_slashes path) then normal @ ''/'' else normal)"

definition safeWorkspacePath :: "string \<Rightarrow> string + string" where
  "safeWorkspacePath input =
     (let normalized = normalize_absolute input
      in if normalized = [] \<or> normalized = ''.'' \<or> prefix ''../'' normalized \<or> sublist ''/../'' normalized
         then Inl (''Invalid workspace path: '' @ input)
         else Inr (''/workspace/'' @ normalized))"

text \<open>Node's \<^verbatim>\<open>dirname\<close>, read from the end of the path.\<close>

definition posix_dirname :: "string \<Rightarrow> string" where
  "posix_dirname path =
     (let slash = (\<lambda>c. c = CHR ''/'');
          named = dropWhile slash (rev path);
          parent = dropWhile (\<lambda>c. \<not> slash c) named
      in if tl parent = [] then (if path \<noteq> [] \<and> slash (hd path) then ''/'' else ''.'')
         else if tl parent = ''/'' then ''//'' else rev (tl parent))"

definition kubectl_shQuote :: "string \<Rightarrow> string" where
  "kubectl_shQuote input =
     [CHR 0x27] @ concat (map (\<lambda>c. if c = CHR 0x27 then [CHR 0x27, CHR 0x22, CHR 0x27, CHR 0x22, CHR 0x27] else [c]) input) @ [CHR 0x27]"

definition env_key :: "string \<Rightarrow> bool" where
  "env_key key \<longleftrightarrow> key \<noteq> [] \<and> (drive_letter (hd key) \<or> hd key = CHR ''_'') \<and>
     list_all (\<lambda>c. drive_letter c \<or> c = CHR ''_'' \<or> c \<in> set ''0123456789'') key"

fun envArgs :: "labels \<Rightarrow> string + string list" where
  "envArgs [] = Inr []"
| "envArgs ((key, v) # env) =
     (if \<not> env_key key then Inl (''Invalid environment key: '' @ key)
      else map_sum id (Cons (key @ ''='' @ v)) (envArgs env))"

subsection \<open>The commands\<close>

definition GIT_CHANGES_LOOP_ENV :: string where
  "GIT_CHANGES_LOOP_ENV = ''SYNTH_GIT_CHANGES_LOOP''"

abbreviation newline :: char where "newline \<equiv> CHR 0x0A"
abbreviation dquote :: string where "dquote \<equiv> [CHR 0x22]"
abbreviation squote :: string where "squote \<equiv> [CHR 0x27]"

definition GIT_CHANGES_LOOP :: string where
  "GIT_CHANGES_LOOP = join_with newline
     [''while IFS= read -r -d '' @ squote @ squote @ '' entry; do'',
      ''  status=$(printf %s '' @ dquote @ ''$entry'' @ dquote @ '' | cut -c1-2)'',
      ''  path=$(printf %s '' @ dquote @ ''$entry'' @ dquote @ '' | cut -c4-)'',
      ''  if [ -L '' @ dquote @ ''$path'' @ dquote @ '' ]; then kind=L; target=$(readlink '' @ dquote @ ''./$path'' @ dquote @
        ''); else kind=F; target='' @ dquote @ dquote @ ''; fi'',
      ''  printf '' @ squote @ ''%s'' @ [CHR 0x5C] @ ''0%s'' @ [CHR 0x5C] @ ''0%s'' @ [CHR 0x5C] @ ''0%s'' @ [CHR 0x5C] @ ''0'' @ squote @ '' '' @
        dquote @ ''$path'' @ dquote @ '' '' @ dquote @ ''$status'' @ dquote @ '' '' @ dquote @ ''$kind'' @ dquote @ '' '' @ dquote @ ''$target'' @ dquote,
      ''done'']"

definition gitChangesCommand :: "string \<Rightarrow> string" where
  "gitChangesCommand workspace = join_with newline
     [''cd '' @ kubectl_shQuote workspace @ '' || exit 1'',
      ''if command -v bash >/dev/null 2>&1; then SB=bash; else SB=sh; fi'',
      ''git -c safe.directory='' @ kubectl_shQuote workspace @ '' status --porcelain=v1 -z --untracked-files=all --no-renames | $SB -c '' @
        dquote @ ''$'' @ GIT_CHANGES_LOOP_ENV @ dquote]"

definition deletePodAndPolicyArgs :: "string \<Rightarrow> string \<Rightarrow> string list" where
  "deletePodAndPolicyArgs podName namespace =
     [''delete'', ''pod/'' @ podName, ''networkpolicy/'' @ podName @ ''-network'', ''-n'', namespace, ''--ignore-not-found=true'', ''--wait=false'']"

definition reset_command :: ProcessExec where
  "reset_command =
     \<lparr>px_command = ''find /workspace -mindepth 1 -maxdepth 1 -exec rm -rf -- {} +; find /tmp -mindepth 1 -maxdepth 1 -exec rm -rf -- {} +'',
      px_cwd = None, px_env = None, px_timeoutMs = Some 60000, px_resourceClass = None\<rparr>"

definition verify_command :: ProcessExec where
  "verify_command =
     \<lparr>px_command = ''test -z '' @ dquote @ ''$(find /workspace /tmp -mindepth 1 -print -quit 2>/dev/null)'' @ dquote,
      px_cwd = None, px_env = None, px_timeoutMs = Some 15000, px_resourceClass = None\<rparr>"

definition write_script :: "string \<Rightarrow> string" where
  "write_script full = ''mkdir -p '' @ kubectl_shQuote (to_slashes (posix_dirname full)) @ '' && base64 -d > '' @ kubectl_shQuote full"

definition read_script :: "string \<Rightarrow> string" where
  "read_script full = ''base64 '' @ kubectl_shQuote full @ '' | tr -d '' @ squote @ [CHR 0x5C] @ ''n'' @ squote"

definition link_script :: "string \<Rightarrow> string \<Rightarrow> string" where
  "link_script full target =
     ''mkdir -p '' @ kubectl_shQuote (to_slashes (posix_dirname full)) @ '' && ln -sfn '' @ kubectl_shQuote target @ '' '' @ kubectl_shQuote full"

subsection \<open>The process\<close>

record CommandResult =
  cm_code :: int
  cm_stdout :: string
  cm_stderr :: string
  cm_timedOut :: bool

record 'w KubectlSandboxBackend =
  kc_namespace :: string
  kc_kubectl :: string
  kc_context :: "string option"
  kc_createTimeoutMs :: int
  kc_defaultExecTimeoutMs :: int
  kc_spawn :: "string \<Rightarrow> string list \<Rightarrow> string option \<Rightarrow> int \<Rightarrow> ('w, int option \<times> string \<times> string \<times> bool) io"
  kc_uuid :: "'w \<Rightarrow> string \<times> 'w"
  kc_now :: "'w \<Rightarrow> int"

record KubectlSandboxBackendOptions =
  ko_namespace :: "string option"
  ko_kubectlBin :: "string option"
  ko_context :: "string option"
  ko_createTimeoutMs :: "int option"
  ko_defaultExecTimeoutMs :: "int option"

definition new_kubectl_backend ::
  "(string \<Rightarrow> string list \<Rightarrow> string option \<Rightarrow> int \<Rightarrow> ('w, int option \<times> string \<times> string \<times> bool) io) \<Rightarrow>
   ('w \<Rightarrow> string \<times> 'w) \<Rightarrow> ('w \<Rightarrow> int) \<Rightarrow> KubectlSandboxBackendOptions \<Rightarrow> string + 'w KubectlSandboxBackend" where
  "new_kubectl_backend spawn uuid now options =
     map_sum id (\<lambda>namespace.
       \<lparr>kc_namespace = namespace, kc_kubectl = opt_or (ko_kubectlBin options) ''kubectl'', kc_context = ko_context options,
        kc_createTimeoutMs = opt_or (ko_createTimeoutMs options) 120000,
        kc_defaultExecTimeoutMs = opt_or (ko_defaultExecTimeoutMs options) (10 * 60000),
        kc_spawn = spawn, kc_uuid = uuid, kc_now = now\<rparr>)
       (case ko_namespace options of None \<Rightarrow> Inr ''synth-sandboxes'' | Some n \<Rightarrow> assertValidNamespace n)"

definition baseArgs :: "'w KubectlSandboxBackend \<Rightarrow> string list" where
  "baseArgs b = (case truthy_text (kc_context b) of Some c \<Rightarrow> [''--context'', c] | None \<Rightarrow> [])"

text \<open>A process that was ended by a signal has no exit code; it counts as 1.\<close>

definition kubectl_run :: "'w KubectlSandboxBackend \<Rightarrow> string list \<Rightarrow> string option \<Rightarrow> int \<Rightarrow> ('w, CommandResult) io" where
  "kubectl_run b args input timeoutMs =
     and_then (kc_spawn b (kc_kubectl b) (baseArgs b @ args) input timeoutMs) (\<lambda>(code, out, err, timedOut).
       ret \<lparr>cm_code = opt_or code 1, cm_stdout = out, cm_stderr = err, cm_timedOut = timedOut\<rparr>)"

text \<open>Run and fail with a message when the exit code is not 0.\<close>

definition run_ok :: "'w KubectlSandboxBackend \<Rightarrow> string list \<Rightarrow> string option \<Rightarrow> int \<Rightarrow> (CommandResult \<Rightarrow> string) \<Rightarrow> ('w, CommandResult) io" where
  "run_ok b args input timeoutMs message =
     and_then (kubectl_run b args input timeoutMs) (\<lambda>r. if cm_code r \<noteq> 0 then fail_with (message r) else ret r)"

definition kubectl_apply :: "'w KubectlSandboxBackend \<Rightarrow> json \<Rightarrow> ('w, CommandResult) io" where
  "kubectl_apply b object =
     run_ok b [''apply'', ''-f'', ''-''] (Some (stringify object)) 60000 (\<lambda>r. ''kubectl apply failed: '' @ cm_stderr r)"

definition deletePodAndPolicy :: "'w KubectlSandboxBackend \<Rightarrow> string \<Rightarrow> string \<Rightarrow> ('w, CommandResult) io" where
  "deletePodAndPolicy b podName namespace =
     run_ok b (deletePodAndPolicyArgs podName namespace) None 30000 (\<lambda>r. ''kubectl delete failed: '' @ cm_stderr r)"

definition podOwner :: "'w KubectlSandboxBackend \<Rightarrow> string \<Rightarrow> string \<Rightarrow> ('w, SandboxOwnerReference) io" where
  "podOwner b podName namespace =
     and_then (kubectl_run b [''get'', ''pod'', podName, ''-n'', namespace, ''-o'', ''jsonpath={.metadata.uid}''] None 30000) (\<lambda>r.
       let uid = js_trim (cm_stdout r)
       in if cm_code r \<noteq> 0 \<or> uid = []
          then fail_with (''kubectl get pod/'' @ podName @ '' uid failed: '' @ (if cm_stderr r \<noteq> [] then cm_stderr r else ''no uid''))
          else ret \<lparr>or_apiVersion = ''v1'', or_kind = ''Pod'', or_name = podName, or_uid = uid\<rparr>)"

subsection \<open>Life of a sandbox\<close>

text \<open>
  The backend remembers the outcome of applying its own namespace: the promise is kept whether it was fulfilled
  or rejected.
\<close>

record 'w backend_world =
  bw_namespaceReady :: "(string + unit) option"
  bw_world :: 'w

definition on_cluster :: "('w, 'a) io \<Rightarrow> ('w backend_world, 'a) io" where
  "on_cluster m bw = apsnd (\<lambda>w. bw\<lparr>bw_world := w\<rparr>) (m (bw_world bw))"

definition ensureNamespace :: "'w KubectlSandboxBackend \<Rightarrow> ('w backend_world, unit) io" where
  "ensureNamespace b bw =
     (case bw_namespaceReady bw of
        Some outcome \<Rightarrow> (outcome, bw)
      | None \<Rightarrow>
          (let (r, w) = kubectl_apply b (buildRestrictedNamespace (kc_namespace b) []) (bw_world bw);
               outcome = map_sum id (\<lambda>_. ()) r
           in (outcome, \<lparr>bw_namespaceReady = Some outcome, bw_world = w\<rparr>)))"

definition pod_name_of :: "string \<Rightarrow> string \<Rightarrow> string" where
  "pod_name_of classId i =
     map (\<lambda>c. if name_char c then c else CHR ''-'') (map to_lower (''synth-'' @ classId @ ''-'' @ take 8 i))"

definition labelled :: "KubernetesResourceClass \<Rightarrow> labels option \<Rightarrow> KubernetesResourceClass" where
  "labelled resourceClass extra =
     resourceClass\<lparr>rc_labels := Some (spread (spread [] (opt_or (rc_labels resourceClass) [])) (opt_or extra []))\<rparr>"

text \<open>What happens after the pod was applied, up to its readiness.\<close>

definition await_ready :: "'w KubectlSandboxBackend \<Rightarrow> KubernetesResourceClass \<Rightarrow> string \<Rightarrow> string \<Rightarrow> string \<Rightarrow> ('w, unit) io" where
  "await_ready b resourceClass namespace podName i =
     and_then (podOwner b podName namespace) (\<lambda>owner.
     and_then (kubectl_apply b (buildSandboxNetworkPolicy namespace (podName @ ''-network'') i (rc_network resourceClass) (Some owner))) (\<lambda>_.
     and_then (run_ok b
         [''wait'', ''--for=condition=Ready'', ''pod/'' @ podName, ''-n'', namespace,
          ''--timeout='' @ show_int ((kc_createTimeoutMs b + 999) div 1000) @ ''s'']
         None (kc_createTimeoutMs b + 5000)
         (\<lambda>r. if cm_stderr r \<noteq> [] then cm_stderr r else ''Pod '' @ podName @ '' did not become Ready'')) (\<lambda>_. ret ())))"

definition create_in :: "'w KubectlSandboxBackend \<Rightarrow> KubernetesResourceClass \<Rightarrow> labels option \<Rightarrow> string \<Rightarrow> ('w, SandboxIdentity) io" where
  "create_in b resourceClass extra namespace w =
     (let (i, w0) = kc_uuid b w;
          podName = pod_name_of (rc_id resourceClass) i
      in case kubectl_apply b (buildSandboxPod namespace podName i (labelled resourceClass extra)) w0 of
           (Inl e, w1) \<Rightarrow> (Inl e, w1)
         | (Inr _, w1) \<Rightarrow>
             (case await_ready b resourceClass namespace podName i w1 of
                (Inl e, w2) \<Rightarrow> (Inl e, snd (deletePodAndPolicy b podName namespace w2))
              | (Inr _, w2) \<Rightarrow>
                  (Inr \<lparr>si_id = i, si_namespace = namespace, si_podName = podName, si_resourceClassId = rc_id resourceClass,
                        si_createdAt = kc_now b w2\<rparr>, w2)))"

definition kubectl_create ::
  "'w KubectlSandboxBackend \<Rightarrow> KubernetesResourceClass \<Rightarrow> labels option \<Rightarrow> string option \<Rightarrow> ('w backend_world, SandboxIdentity) io" where
  "kubectl_create b resourceClass extra chosen =
     and_then (lift_result (case chosen of None \<Rightarrow> Inr (kc_namespace b) | Some n \<Rightarrow> assertValidNamespace n)) (\<lambda>namespace.
     and_then
       (if namespace = kc_namespace b then ensureNamespace b
        else and_then (on_cluster (kubectl_apply b (buildRestrictedNamespace namespace []))) (\<lambda>_. ret ())) (\<lambda>_.
       on_cluster (create_in b resourceClass extra namespace)))"

definition kubectl_destroy :: "'w KubectlSandboxBackend \<Rightarrow> SandboxIdentity \<Rightarrow> ('w, unit) io" where
  "kubectl_destroy b sandbox = and_then (deletePodAndPolicy b (si_podName sandbox) (si_namespace sandbox)) (\<lambda>_. ret ())"

subsection \<open>Inside a pod\<close>

definition in_pod :: "SandboxIdentity \<Rightarrow> string list \<Rightarrow> string list" where
  "in_pod sandbox command = [''exec'', ''-n'', si_namespace sandbox, si_podName sandbox, ''--''] @ command"

definition kubectl_exec :: "'w KubectlSandboxBackend \<Rightarrow> SandboxIdentity \<Rightarrow> ProcessExec \<Rightarrow> ('w, SandboxExecResult) io" where
  "kubectl_exec b sandbox request =
     and_then (lift_result (case truthy_text (px_cwd request) of Some c \<Rightarrow> safeWorkspacePath c | None \<Rightarrow> Inr ''/workspace'')) (\<lambda>cwd.
     and_then (lift_result (envArgs (spread
         [(''GIT_CONFIG_COUNT'', ''1''), (''GIT_CONFIG_KEY_0'', ''safe.directory''), (''GIT_CONFIG_VALUE_0'', ''/workspace'')]
         (opt_or (px_env request) [])))) (\<lambda>env.
     and_then (kubectl_run b
         (in_pod sandbox ([''env''] @ env @ [''sh'', ''-lc'', ''cd '' @ kubectl_shQuote cwd @ '' && '' @ px_command request]))
         None (opt_or (px_timeoutMs request) (kc_defaultExecTimeoutMs b))) (\<lambda>r.
       ret \<lparr>xr_exitCode = (if cm_timedOut r then 124 else cm_code r), xr_stdout = cm_stdout r, xr_stderr = cm_stderr r,
            xr_timedOut = cm_timedOut r\<rparr>)))"

definition kubectl_reset :: "'w KubectlSandboxBackend \<Rightarrow> SandboxIdentity \<Rightarrow> ('w, unit) io" where
  "kubectl_reset b sandbox =
     and_then (kubectl_exec b sandbox reset_command) (\<lambda>r.
       if xr_exitCode r \<noteq> 0 then fail_with (''Sandbox reset failed: '' @ (if xr_stderr r \<noteq> [] then xr_stderr r else xr_stdout r)) else ret ())"

definition verifyReset :: "'w KubectlSandboxBackend \<Rightarrow> SandboxIdentity \<Rightarrow> ('w, bool) io" where
  "verifyReset b sandbox = and_then (kubectl_exec b sandbox verify_command) (\<lambda>r. ret (xr_exitCode r = 0))"

text \<open>An operation on one path: the path is made safe, one command runs, its failure carries the operation's name.\<close>

definition at_path ::
  "'w KubectlSandboxBackend \<Rightarrow> string \<Rightarrow> string \<Rightarrow> (string \<Rightarrow> string list \<times> string option) \<Rightarrow> (string \<Rightarrow> 'a) \<Rightarrow> ('w, 'a) io" where
  "at_path b operation path command result =
     and_then (lift_result (safeWorkspacePath path)) (\<lambda>full.
     and_then (run_ok b (fst (command full)) (snd (command full)) (kc_defaultExecTimeoutMs b)
         (\<lambda>r. operation @ ''('' @ path @ '') failed: '' @ cm_stderr r)) (\<lambda>r.
       ret (result (cm_stdout r))))"

definition kubectl_writeFile :: "'w KubectlSandboxBackend \<Rightarrow> SandboxIdentity \<Rightarrow> string \<Rightarrow> string \<Rightarrow> ('w, unit) io" where
  "kubectl_writeFile b sandbox path content =
     at_path b ''writeFile'' path
       (\<lambda>full. ([''exec'', ''-i'', ''-n'', si_namespace sandbox, si_podName sandbox, ''--'', ''sh'', ''-lc'', write_script full],
               Some (base64_encode content))) (\<lambda>_. ())"

definition kubectl_readFile :: "'w KubectlSandboxBackend \<Rightarrow> SandboxIdentity \<Rightarrow> string \<Rightarrow> ('w, string) io" where
  "kubectl_readFile b sandbox path =
     at_path b ''readFile'' path (\<lambda>full. (in_pod sandbox [''sh'', ''-lc'', read_script full], None)) (\<lambda>out. base64_decode (js_trim out))"

definition kubectl_removePath :: "'w KubectlSandboxBackend \<Rightarrow> SandboxIdentity \<Rightarrow> string \<Rightarrow> ('w, unit) io" where
  "kubectl_removePath b sandbox path =
     at_path b ''removePath'' path (\<lambda>full. (in_pod sandbox [''rm'', ''-rf'', ''--'', full], None)) (\<lambda>_. ())"

definition kubectl_writeSymlink :: "'w KubectlSandboxBackend \<Rightarrow> SandboxIdentity \<Rightarrow> string \<Rightarrow> string \<Rightarrow> ('w, unit) io" where
  "kubectl_writeSymlink b sandbox path target =
     at_path b ''writeSymlink'' path (\<lambda>full. (in_pod sandbox [''sh'', ''-lc'', link_script full target], None)) (\<lambda>_. ())"

definition kubectl_readSymlink :: "'w KubectlSandboxBackend \<Rightarrow> SandboxIdentity \<Rightarrow> string \<Rightarrow> ('w, string) io" where
  "kubectl_readSymlink b sandbox path =
     at_path b ''readSymlink'' path (\<lambda>full. (in_pod sandbox [''readlink'', full], None)) js_trim"

subsection \<open>Changes of the working tree\<close>

text \<open>The records the loop in the pod printed: four fields each; a record without path or of the repository itself is dropped.\<close>

fun parse_changes :: "string list \<Rightarrow> sandbox_change list" where
  "parse_changes (path # status # kind # target # tokens) =
     (if path = [] \<or> prefix ''.git/'' path then parse_changes tokens
      else \<lparr>sc_path = path, sc_deleted = (CHR ''D'' \<in> set status), sc_symlink = (kind = ''L'')\<rparr> # parse_changes tokens)"
| "parse_changes _ = []"

definition kubectl_listGitChanges :: "'w KubectlSandboxBackend \<Rightarrow> SandboxIdentity \<Rightarrow> ('w, sandbox_change list) io" where
  "kubectl_listGitChanges b sandbox =
     and_then (run_ok b
         (in_pod sandbox [''env'', GIT_CHANGES_LOOP_ENV @ ''='' @ GIT_CHANGES_LOOP, ''sh'', ''-lc'', gitChangesCommand ''/workspace''])
         None (kc_defaultExecTimeoutMs b)
         (\<lambda>r. ''git status failed in sandbox '' @ si_id sandbox @ '': '' @ (if cm_stderr r \<noteq> [] then cm_stderr r else cm_stdout r))) (\<lambda>r.
       ret (parse_changes (split_on (CHR 0x00) (cm_stdout r))))"

text \<open>
  What the loop prints for one entry of \<^verbatim>\<open>git status -z\<close>, whose first two characters are the status and whose path starts at
  the fourth: \<^verbatim>\<open>cut\<close> works line by line, and a command substitution drops newlines at its end. Whether the path is a
  link, and its target, is the pod's.
\<close>

definition cut_lines :: "(string \<Rightarrow> string) \<Rightarrow> string \<Rightarrow> string" where
  "cut_lines piece text = rev (dropWhile (\<lambda>c. c = newline) (rev (join_with newline (map piece (split_on newline text)))))"

definition loop_record :: "(string \<Rightarrow> string option) \<Rightarrow> string \<Rightarrow> string" where
  "loop_record link entry =
     (let status = cut_lines (take 2) entry; path = cut_lines (drop 3) entry
      in concat (map (\<lambda>field. field @ [CHR 0x00])
           (case link path of
              Some target \<Rightarrow> [path, status, ''L'', target]
            | None \<Rightarrow> [path, status, ''F'', []])))"

subsection \<open>The backend\<close>

definition kubectl_backend :: "'w KubectlSandboxBackend \<Rightarrow> 'w backend_world SandboxBackend" where
  "kubectl_backend b =
     \<lparr>sb_create = (\<lambda>resourceClass extra. kubectl_create b resourceClass (Some extra) None),
      sb_destroy = (\<lambda>sandbox. on_cluster (kubectl_destroy b sandbox)),
      sb_exec = (\<lambda>sandbox request. on_cluster (kubectl_exec b sandbox request)),
      sb_writeFile = (\<lambda>sandbox path content. on_cluster (kubectl_writeFile b sandbox path content)),
      sb_readFile = (\<lambda>sandbox path. on_cluster (kubectl_readFile b sandbox path)),
      sb_writeSymlink = (\<lambda>sandbox path target. on_cluster (kubectl_writeSymlink b sandbox path target)),
      sb_readSymlink = (\<lambda>sandbox path. on_cluster (kubectl_readSymlink b sandbox path)),
      sb_removePath = (\<lambda>sandbox path. on_cluster (kubectl_removePath b sandbox path)),
      sb_listGitChanges = (\<lambda>sandbox. on_cluster (kubectl_listGitChanges b sandbox))\<rparr>"

end
