(* ===== verification/Kubectl_Laws.thy ===== *)
theory Kubectl_Laws
  imports Kubectl_Backend Sandbox_Executor_Laws
begin

text \<open>
  The \<^verbatim>\<open>kubectl\<close> backend keeps its promises to the synchronizer and the executors: a path never leaves the workspace
  of the pod and is one literal word of the command it is put into; what is written is read back; a sandbox is
  handed out only with its network policy in force, and one that could not be completed is deleted again; the
  changes of the working tree are listed as they are.
\<close>

subsection \<open>Words of the shell\<close>

text \<open>
  How a POSIX shell reads one word, with double quotes: inside them a character is literal unless it starts an
  expansion, which is not a literal word.
\<close>

datatype sh_mode = Bare | Single | Double

fun sh_token :: "sh_mode \<Rightarrow> string \<Rightarrow> (string \<times> string) option" where
  "sh_token Bare [] = Some ([], [])"
| "sh_token Bare (c # s) =
     (if c = CHR 0x27 then sh_token Single s
      else if c = CHR 0x22 then sh_token Double s
      else if c = CHR 0x5C then (case s of [] \<Rightarrow> Some ([], []) | d # s' \<Rightarrow> map_option (apfst (Cons d)) (sh_token Bare s'))
      else if sh_special c then Some ([], c # s)
      else map_option (apfst (Cons c)) (sh_token Bare s))"
| "sh_token Single [] = None"
| "sh_token Single (c # s) = (if c = CHR 0x27 then sh_token Bare s else map_option (apfst (Cons c)) (sh_token Single s))"
| "sh_token Double [] = None"
| "sh_token Double (c # s) =
     (if c = CHR 0x22 then sh_token Bare s
      else if c \<in> {CHR ''$'', CHR ''`'', CHR 0x5C} then None
      else map_option (apfst (Cons c)) (sh_token Double s))"

definition word_end :: "string \<Rightarrow> bool" where
  "word_end rest \<longleftrightarrow> rest = [] \<or> hd rest = CHR '' ''"

lemma kubectl_quoted_body:
  "sh_token Single (concat (map (\<lambda>c. if c = CHR 0x27 then [CHR 0x27, CHR 0x22, CHR 0x27, CHR 0x22, CHR 0x27] else [c]) v) @ [CHR 0x27] @ rest) =
     map_option (apfst ((@) v)) (sh_token Bare rest)"
proof (induction v)
  case Nil
  then show ?case by (cases "sh_token Bare rest") auto
next
  case (Cons c v)
  then show ?case by (cases "sh_token Bare rest") (auto simp: apfst_def)
qed

lemma token_ends: "word_end rest \<Longrightarrow> sh_token Bare rest = Some ([], rest)"
  by (cases rest) (auto simp: word_end_def sh_special_def)

lemma kubectl_quoted [simp]: "word_end rest \<Longrightarrow> sh_token Bare (kubectl_shQuote v @ rest) = Some (v, rest)"
  using kubectl_quoted_body [of v rest] token_ends [of rest] by (simp add: kubectl_shQuote_def)

lemma kubectl_quoted_end [simp]: "sh_token Bare (kubectl_shQuote v) = Some (v, [])"
  using kubectl_quoted [of "[]" v] by (simp add: word_end_def)

lemma word_end_blank [simp]: "word_end (CHR '' '' # s)"
  by (simp add: word_end_def)

subsection \<open>Paths\<close>

lemma between_slashes: "CHR ''/'' \<notin> set x \<Longrightarrow> sublist (''/'' @ x @ ''/'') s \<Longrightarrow> x \<in> set (split_on (CHR ''/'') s)"
  by (auto simp: sublist_def split_on_append_sep split_on_no_sep)

lemma before_slash: "CHR ''/'' \<notin> set x \<Longrightarrow> prefix (x @ ''/'') s \<Longrightarrow> x \<in> set (split_on (CHR ''/'') s)"
  by (auto simp: prefix_def split_on_append_sep split_on_no_sep)

lemma normalize_absolute_parts:
  "normalize_absolute p \<noteq> [] \<Longrightarrow> set (split_on (CHR ''/'') (normalize_absolute p)) \<subseteq> {x. plain x} \<union> {[]}"
proof -
  assume some: "normalize_absolute p \<noteq> []"
  let ?ps = "foldl normalize_step [] (raw_components p)"
  have plain: "\<forall>x \<in> set ?ps. plain x" by (rule normalizeRelative_segments)
  with some have parts: "split_on (CHR ''/'') (join_path ?ps) = ?ps"
    by (auto simp: normalize_absolute_def normalizeRelative_def join_path_def plain_def intro!: split_join split: if_splits)
  have "normalize_absolute p = join_path ?ps \<or> normalize_absolute p = join_path ?ps @ [CHR ''/'']"
    using some by (auto simp: normalize_absolute_def normalizeRelative_def Let_def)
  with parts plain show ?thesis by (auto simp: split_on_append_sep)
qed

lemma safe_path_iff:
  "safeWorkspacePath p =
     (if normalizeRelative p = [] then Inl (''Invalid workspace path: '' @ p) else Inr (''/workspace/'' @ normalize_absolute p))"
proof (cases "normalizeRelative p = []")
  case False
  then have some: "normalize_absolute p \<noteq> []" by (simp add: normalize_absolute_def Let_def)
  have no: "''..'' \<notin> set (split_on (CHR ''/'') (normalize_absolute p))" "''.'' \<notin> set (split_on (CHR ''/'') (normalize_absolute p))"
    using normalize_absolute_parts [OF some] by (auto simp: plain_def skipped_def)
  have "normalize_absolute p \<noteq> ''.''" using no(2) by (auto simp: split_on_no_sep)
  moreover have "\<not> prefix ''../'' (normalize_absolute p)" using before_slash [of "''..''" "normalize_absolute p"] no(1) by auto
  moreover have "\<not> sublist ''/../'' (normalize_absolute p)" using between_slashes [of "''..''" "normalize_absolute p"] no(1) by auto
  ultimately show ?thesis using some False by (simp add: safeWorkspacePath_def)
qed (simp add: safeWorkspacePath_def normalize_absolute_def)

lemma plain_no_slash_end: "\<forall>x \<in> set ps. plain x \<Longrightarrow> \<not> ends_in_slash (join_path ps)"
proof (cases ps rule: rev_cases)
  case (snoc qs q)
  assume "\<forall>x \<in> set ps. plain x"
  with snoc have q: "q \<noteq> []" "CHR ''/'' \<notin> set q" by (auto simp: plain_def skipped_def)
  then have "last (join_path ps) = last q"
    using join_with_snoc [of qs "CHR ''/''" q] by (cases "qs = []") (simp_all add: snoc join_path_def)
  with q show ?thesis by (auto simp: ends_in_slash_def dest: last_in_set)
qed (simp add: join_path_def ends_in_slash_def)

lemma safe_normal_path: "normal_path p \<Longrightarrow> safeWorkspacePath p = Inr (''/workspace/'' @ p)"
proof -
  assume p: "normal_path p"
  then have join: "p = join_path (segments p)" "\<forall>x \<in> set (segments p). plain x"
    using normalized_join by (auto simp: normal_path_def)
  have "CHR 0x5C \<notin> set p" using join set_join_path [of "segments p"] by (fastforce simp: plain_def)
  then have "\<not> ends_in_slash (to_slashes p)"
    using plain_no_slash_end [OF join(2)] join(1) by (simp add: to_slashes_id)
  with p show ?thesis by (simp add: safe_path_iff normal_path_def normalize_absolute_def)
qed

text \<open>
  Containment in the pod: a path is refused exactly when it normalizes to the root; every other path, with dots, backslashes
  or slashes at its ends, becomes a path strictly below the workspace of the pod in which no component is a
  dot or two dots, and a path in normal form stays as it is.
\<close>

theorem backend_paths_contained:
  "(case safeWorkspacePath p of
      Inl e \<Rightarrow> normalizeRelative p = []
    | Inr full \<Rightarrow> \<exists>ps tail. ps \<noteq> [] \<and> (\<forall>x \<in> set ps. plain x) \<and> full = ''/workspace/'' @ join_path ps @ tail \<and> tail \<in> {[], ''/''} \<and>
        join_path ps = normalizeRelative p) \<and>
   (normal_path p \<longrightarrow> safeWorkspacePath p = Inr (''/workspace/'' @ p))"
proof -
  let ?ps = "foldl normalize_step [] (raw_components p)"
  have "\<forall>x \<in> set ?ps. plain x" by (rule normalizeRelative_segments)
  moreover have "normalizeRelative p = join_path ?ps" by (simp add: normalizeRelative_def)
  moreover have "?ps \<noteq> []" if "normalizeRelative p \<noteq> []" using that by (auto simp: normalizeRelative_def join_path_def)
  moreover have "normalize_absolute p = normalizeRelative p @ (if ends_in_slash (to_slashes p) then ''/'' else [])" if "normalizeRelative p \<noteq> []"
    using that by (simp add: normalize_absolute_def)
  ultimately have "normalizeRelative p \<noteq> [] \<Longrightarrow> \<exists>ps tail. ps \<noteq> [] \<and> (\<forall>x \<in> set ps. plain x) \<and>
      ''/workspace/'' @ normalize_absolute p = ''/workspace/'' @ join_path ps @ tail \<and> tail \<in> {[], ''/''} \<and> join_path ps = normalizeRelative p"
    by (intro exI [of _ ?ps] exI [of _ "if ends_in_slash (to_slashes p) then ''/'' else []"]) auto
  then have "case safeWorkspacePath p of Inl e \<Rightarrow> normalizeRelative p = []
    | Inr full \<Rightarrow> \<exists>ps tail. ps \<noteq> [] \<and> (\<forall>x \<in> set ps. plain x) \<and> full = ''/workspace/'' @ join_path ps @ tail \<and> tail \<in> {[], ''/''} \<and>
        join_path ps = normalizeRelative p"
    unfolding safe_path_iff by simp
  with safe_normal_path [of p] show ?thesis by blast
qed

subsection \<open>Files of a pod\<close>

text \<open>
  What the backend relies on: \<^verbatim>\<open>look\<close> is the working tree of the pod, without links. A shell in the pod that is given a
  text reads its words as above. A \<^verbatim>\<open>base64 -d\<close> into a file that succeeds leaves the decoded input there, \<^verbatim>\<open>base64\<close> of a
  file prints its encoding, \<^verbatim>\<open>rm -rf\<close> removes a path with all below it, and neither reading nor the making of the
  repository changes the tree.
\<close>

definition pod_spawn :: "'w KubectlSandboxBackend \<Rightarrow> string list \<Rightarrow> string option \<Rightarrow> int \<Rightarrow> ('w, int option \<times> string \<times> string \<times> bool) io" where
  "pod_spawn b args input t = kc_spawn b (kc_kubectl b) (baseArgs b @ args) input t"

definition in_shell :: "string \<Rightarrow> string list" where
  "in_shell script = [''sh'', ''-lc'', script]"

definition pod_writes :: "'w KubectlSandboxBackend \<Rightarrow> SandboxIdentity \<Rightarrow> ('w \<Rightarrow> string \<Rightarrow> sandbox_entry option) \<Rightarrow> bool" where
  "pod_writes b sandbox look \<longleftrightarrow>
     (\<forall>dir_word file_word dir p input t w out err late w'.
        sh_token Bare dir_word = Some (dir, '' && base64 -d > '' @ file_word) \<longrightarrow> sh_token Bare file_word = Some (''/workspace/'' @ p, []) \<longrightarrow>
        normal_path p \<longrightarrow> link_free (look w) \<longrightarrow>
        pod_spawn b ([''exec'', ''-i'', ''-n'', si_namespace sandbox, si_podName sandbox, ''--''] @ in_shell (''mkdir -p '' @ dir_word)) (Some input) t w =
          (Inr (Some 0, out, err, late), w') \<longrightarrow>
        look w' = (look w)(p \<mapsto> SFile (base64_decode input)))"

definition pod_reads :: "'w KubectlSandboxBackend \<Rightarrow> SandboxIdentity \<Rightarrow> ('w \<Rightarrow> string \<Rightarrow> sandbox_entry option) \<Rightarrow> bool" where
  "pod_reads b sandbox look \<longleftrightarrow>
     (\<forall>file_word p c t w out err late w'.
        sh_token Bare file_word = Some (''/workspace/'' @ p, '' | tr -d '' @ squote @ [CHR 0x5C] @ ''n'' @ squote) \<longrightarrow>
        look w p = Some (SFile c) \<longrightarrow>
        pod_spawn b (in_pod sandbox (in_shell (''base64 '' @ file_word))) None t w = (Inr (Some 0, out, err, late), w') \<longrightarrow>
        out = base64_encode c)"

definition pod_removes :: "'w KubectlSandboxBackend \<Rightarrow> SandboxIdentity \<Rightarrow> ('w \<Rightarrow> string \<Rightarrow> sandbox_entry option) \<Rightarrow> bool" where
  "pod_removes b sandbox look \<longleftrightarrow>
     (\<forall>p t w out err late w'.
        normal_path p \<longrightarrow> link_free (look w) \<longrightarrow>
        pod_spawn b (in_pod sandbox [''rm'', ''-rf'', ''--'', ''/workspace/'' @ p]) None t w = (Inr (Some 0, out, err, late), w') \<longrightarrow>
        look w' = (\<lambda>q. if q = p \<or> under p q then None else look w q))"

definition pod_commits :: "'w KubectlSandboxBackend \<Rightarrow> SandboxIdentity \<Rightarrow> ('w \<Rightarrow> string \<Rightarrow> sandbox_entry option) \<Rightarrow> bool" where
  "pod_commits b sandbox look \<longleftrightarrow>
     (\<forall>env dir_word t w r w'.
        sh_token Bare dir_word = Some (''/workspace'', '' && '' @ px_command baseline_command) \<longrightarrow>
        pod_spawn b (in_pod sandbox ([''env''] @ env @ in_shell (''cd '' @ dir_word))) None t w = (r, w') \<longrightarrow>
        look w' = look w)"

lemmas pod_defs = pod_writes_def pod_reads_def pod_removes_def pod_commits_def

lemma on_cluster_Inr [simp]: "on_cluster m bw = (Inr x, bw') \<longleftrightarrow> (\<exists>w'. m (bw_world bw) = (Inr x, w') \<and> bw' = bw\<lparr>bw_world := w'\<rparr>)"
  by (cases "m (bw_world bw)") (auto simp: on_cluster_def)

lemma run_ok_Inr:
  "run_ok b args input t message w = (Inr r, w') \<longleftrightarrow>
     (\<exists>out err late. pod_spawn b args input t w = (Inr (Some 0, out, err, late), w') \<and>
        r = \<lparr>cm_code = 0, cm_stdout = out, cm_stderr = err, cm_timedOut = late\<rparr>)"
  by (auto simp: run_ok_def kubectl_run_def and_then_def ret_def fail_with_def pod_spawn_def opt_or_def
      split: prod.splits sum.splits if_splits option.splits)

lemma at_path_Inr:
  "at_path b operation path command result w = (Inr x, w') \<longleftrightarrow>
     (\<exists>full out err late. safeWorkspacePath path = Inr full \<and> x = result out \<and>
        pod_spawn b (fst (command full)) (snd (command full)) (kc_defaultExecTimeoutMs b) w = (Inr (Some 0, out, err, late), w'))"
  by (auto simp: at_path_def and_then_Inr run_ok_Inr)

lemma kubectl_write_look:
  assumes "pod_writes b sandbox look" "normal_path p" "link_free (look w)" "kubectl_writeFile b sandbox p c w = (Inr (), w')"
  shows "look w' = (look w)(p \<mapsto> SFile c)"
proof -
  let ?dir = "to_slashes (posix_dirname (''/workspace/'' @ p))"
  from assms(4) obtain out err late where run: "pod_spawn b ([''exec'', ''-i'', ''-n'', si_namespace sandbox, si_podName sandbox, ''--''] @
      in_shell (''mkdir -p '' @ kubectl_shQuote ?dir @ '' && base64 -d > '' @ kubectl_shQuote (''/workspace/'' @ p)))
      (Some (base64_encode c)) (kc_defaultExecTimeoutMs b) w = (Inr (Some 0, out, err, late), w')"
    by (auto simp: kubectl_writeFile_def at_path_Inr safe_normal_path [OF assms(2)] in_shell_def write_script_def)
  have "sh_token Bare (kubectl_shQuote ?dir @ '' && base64 -d > '' @ kubectl_shQuote (''/workspace/'' @ p)) =
      Some (?dir, '' && base64 -d > '' @ kubectl_shQuote (''/workspace/'' @ p))" by simp
  from assms(1) [unfolded pod_writes_def, rule_format, OF this kubectl_quoted_end assms(2,3) run] show ?thesis by simp
qed

lemma kubectl_remove_look:
  assumes "pod_removes b sandbox look" "normal_path p" "link_free (look w)" "kubectl_removePath b sandbox p w = (Inr (), w')"
  shows "look w' = (\<lambda>q. if q = p \<or> under p q then None else look w q)"
  using assms by (auto simp: kubectl_removePath_def at_path_Inr safe_normal_path pod_removes_def)

lemma baseline_env: "\<exists>env. envArgs (spread
     [(''GIT_CONFIG_COUNT'', ''1''), (''GIT_CONFIG_KEY_0'', ''safe.directory''), (''GIT_CONFIG_VALUE_0'', ''/workspace'')]
     (opt_or (px_env baseline_command) [])) = Inr env"
  by (simp add: baseline_command_def spread_def env_key_def drive_letter_def opt_or_def)

lemma kubectl_baseline_look:
  assumes "pod_commits b sandbox look" "kubectl_exec b sandbox baseline_command w = (r, w')"
  shows "look w' = look w"
proof -
  obtain env where env: "envArgs (spread
      [(''GIT_CONFIG_COUNT'', ''1''), (''GIT_CONFIG_KEY_0'', ''safe.directory''), (''GIT_CONFIG_VALUE_0'', ''/workspace'')]
      (opt_or (px_env baseline_command) [])) = Inr env" using baseline_env by blast
  obtain r1 w1 where run: "pod_spawn b (in_pod sandbox ([''env''] @ env @ in_shell (''cd '' @ kubectl_shQuote ''/workspace'' @ '' && '' @ px_command baseline_command)))
      None (opt_or (px_timeoutMs baseline_command) (kc_defaultExecTimeoutMs b)) w = (r1, w1)"
    by fastforce
  have cwd: "px_cwd baseline_command = None" by (simp add: baseline_command_def)
  from assms(2) run [unfolded pod_spawn_def in_shell_def] have "w' = w1"
    by (cases r1) (auto simp: kubectl_exec_def env cwd and_then_def lift_result_def kubectl_run_def truthy_text_def ret_def split: prod.splits)
  have "sh_token Bare (kubectl_shQuote ''/workspace'' @ '' && '' @ px_command baseline_command) = Some (''/workspace'', '' && '' @ px_command baseline_command)"
    by simp
  from assms(1) [unfolded pod_commits_def, rule_format, OF this run] \<open>w' = w1\<close> show ?thesis by simp
qed

lemma base64_digits: "c \<in> set (base64_encode bs) \<Longrightarrow> \<not> is_space c"
proof -
  have "list_all (\<lambda>n. \<not> is_space (b64_digit n)) [0..<64]" by code_simp
  then have digit: "n < 64 \<Longrightarrow> \<not> is_space (b64_digit n)" for n by (auto simp: list_all_iff)
  have pad: "\<not> is_space (CHR ''='')" by (simp add: is_space_def)
  have small: "x < 256 \<Longrightarrow> x div 4 < 64" "x mod 4 * 16 < 64" "y < 256 \<Longrightarrow> x mod 4 * 16 + y div 16 < 64"
      "x mod 16 * 4 < 64" "y < 256 \<Longrightarrow> x mod 16 * 4 + y div 64 < 64" "x mod 64 < 64" for x y :: nat
    by linarith+
  show "c \<in> set (base64_encode bs) \<Longrightarrow> ?thesis"
    by (induction bs rule: base64_encode.induct) (auto simp: digit small pad)
qed

lemma trim_id: "(\<And>c. c \<in> set s \<Longrightarrow> \<not> is_space c) \<Longrightarrow> js_trim s = s"
proof -
  assume "\<And>c. c \<in> set s \<Longrightarrow> \<not> is_space c"
  then have "dropWhile is_space s = s" "dropWhile is_space (rev s) = rev s"
    by (auto simp: dropWhile_eq_self_iff hd_rev)
  then show ?thesis by (simp add: js_trim_def)
qed

lemma kubectl_read_look:
  assumes "pod_reads b sandbox look" "normal_path p" "look w p = Some (SFile c)" "kubectl_readFile b sandbox p w = (Inr d, w')"
  shows "d = c"
proof -
  from assms(4) obtain out err late where d: "d = base64_decode (js_trim out)"
    and run: "pod_spawn b (in_pod sandbox (in_shell (''base64 '' @ kubectl_shQuote (''/workspace/'' @ p) @ '' | tr -d '' @ squote @ [CHR 0x5C] @ ''n'' @ squote)))
      None (kc_defaultExecTimeoutMs b) w = (Inr (Some 0, out, err, late), w')"
    by (auto simp: kubectl_readFile_def at_path_Inr safe_normal_path [OF assms(2)] in_shell_def read_script_def)
  have "sh_token Bare (kubectl_shQuote (''/workspace/'' @ p) @ '' | tr -d '' @ squote @ [CHR 0x5C] @ ''n'' @ squote) =
      Some (''/workspace/'' @ p, '' | tr -d '' @ squote @ [CHR 0x5C] @ ''n'' @ squote)" by simp
  from assms(1) [unfolded pod_reads_def, rule_format, OF this assms(3) run] show ?thesis
    by (simp add: d trim_id base64_digits)
qed


text \<open>A pod in memory: the process reads the words of the script and acts on a tree.\<close>

definition memory_pod :: "string \<Rightarrow> string list \<Rightarrow> string option \<Rightarrow> int \<Rightarrow> (tree, int option \<times> string \<times> string \<times> bool) io" where
  "memory_pod bin args input t w =
     (let answer = (\<lambda>code out w'. (Inr (Some code, out, [], False), w')); script = last args
      in case input of
           Some text \<Rightarrow>
             (case Option.bind (sh_token Bare (drop 9 script)) (\<lambda>(_, rest). sh_token Bare (drop 16 rest)) of
                Some (full, _) \<Rightarrow> answer 0 [] ((drop 11 full, SFile (base64_decode text)) # w)
              | None \<Rightarrow> answer 2 [] w)
         | None \<Rightarrow>
             if prefix ''base64 '' script then
               (case Option.bind (sh_token Bare (drop 7 script)) (\<lambda>(full, _). map_of w (drop 11 full)) of
                  Some (SFile c) \<Rightarrow> answer 0 (base64_encode c) w
                | _ \<Rightarrow> answer 1 [] w)
             else if prefix ''/workspace/'' script
             then answer 0 [] (filter (\<lambda>(q, _). \<not> (q = drop 11 script \<or> under (drop 11 script) q)) w)
             else answer 0 [] w)"

definition memory_kubectl :: "tree KubectlSandboxBackend" where
  "memory_kubectl =
     \<lparr>kc_namespace = ''ns'', kc_kubectl = ''kubectl'', kc_context = None, kc_createTimeoutMs = 120000, kc_defaultExecTimeoutMs = 600000,
      kc_spawn = memory_pod, kc_uuid = (\<lambda>w. (''0123456789ab'', w)), kc_now = (\<lambda>_. 0)\<rparr>"

lemma memory_pod_laws:
  "pod_writes memory_kubectl sandbox map_of" "pod_reads memory_kubectl sandbox map_of"
  "pod_removes memory_kubectl sandbox map_of" "pod_commits memory_kubectl sandbox map_of"
proof -
  have spawn: "pod_spawn memory_kubectl args input t = memory_pod ''kubectl'' args input t" for args input t
    by (simp add: pod_spawn_def memory_kubectl_def baseArgs_def truthy_text_def)
  have removed: "map_of (filter (\<lambda>(q, _). q \<noteq> p \<and> \<not> under p q) w) = (\<lambda>q. if q = p \<or> under p q then None else map_of w q)" for p and w :: tree
    by (induction w) (auto simp: fun_eq_iff)
  show "pod_writes memory_kubectl sandbox map_of"
    unfolding pod_writes_def spawn by (auto simp: memory_pod_def in_shell_def)
  show "pod_reads memory_kubectl sandbox map_of"
    unfolding pod_reads_def spawn by (auto simp: memory_pod_def in_shell_def in_pod_def)
  show "pod_removes memory_kubectl sandbox map_of"
    unfolding pod_removes_def spawn by (auto simp: memory_pod_def in_pod_def removed)
  show "pod_commits memory_kubectl sandbox map_of"
    unfolding pod_commits_def spawn by (auto simp: memory_pod_def in_shell_def in_pod_def)
qed

lemma memory_pod_run:
  "kubectl_writeFile memory_kubectl sample_box ''it's'' ''x'' [] = (Inr (), [(''it's'', SFile ''x'')])"
  by code_simp


subsection \<open>The life of a sandbox\<close>

text \<open>The same backend over a process that keeps a record of what it was asked and how it ended.\<close>

type_synonym kubectl_call = "(string list \<times> string option) \<times> (string + int option \<times> string \<times> string \<times> bool)"

definition logged :: "'w KubectlSandboxBackend \<Rightarrow> ('w \<times> kubectl_call list) KubectlSandboxBackend" where
  "logged b =
     \<lparr>kc_namespace = kc_namespace b, kc_kubectl = kc_kubectl b, kc_context = kc_context b, kc_createTimeoutMs = kc_createTimeoutMs b,
      kc_defaultExecTimeoutMs = kc_defaultExecTimeoutMs b,
      kc_spawn = (\<lambda>bin args input t (w, log). let (r, w') = kc_spawn b bin args input t w in (r, w', log @ [((args, input), r)])),
      kc_uuid = (\<lambda>(w, log). let (i, w') = kc_uuid b w in (i, w', log)), kc_now = (\<lambda>(w, _). kc_now b w)\<rparr>"

definition succeeded :: "kubectl_call \<Rightarrow> bool" where
  "succeeded c = (case snd c of Inr (code, _) \<Rightarrow> code = Some 0 | Inl _ \<Rightarrow> False)"

definition asks :: "'w KubectlSandboxBackend \<Rightarrow> string list \<Rightarrow> string option \<Rightarrow> kubectl_call \<Rightarrow> bool" where
  "asks b args input c = (fst c = (baseArgs b @ args, input))"

definition applies :: "'w KubectlSandboxBackend \<Rightarrow> json \<Rightarrow> kubectl_call \<Rightarrow> bool" where
  "applies b object = asks b [''apply'', ''-f'', ''-''] (Some (stringify object))"

lemma run_ok_logged:
  assumes "run_ok (logged b) args input t message wl = (r, wl')"
  obtains c where "snd wl' = snd wl @ [c]" "asks b args input c" "(\<exists>x. r = Inr x) \<longleftrightarrow> succeeded c"
proof -
  obtain w log where wl: "wl = (w, log)" by fastforce
  obtain res w1 where spawn: "kc_spawn b (kc_kubectl b) (baseArgs b @ args) input t w = (res, w1)" by fastforce
  have base: "baseArgs (logged b) = baseArgs b" by (simp add: baseArgs_def logged_def)
  have "snd wl' = log @ [((baseArgs b @ args, input), res)] \<and> ((\<exists>x. r = Inr x) \<longleftrightarrow> succeeded ((baseArgs b @ args, input), res))"
    using assms spawn unfolding wl run_ok_def kubectl_run_def base
    by (cases res) (auto simp: logged_def and_then_def ret_def fail_with_def succeeded_def opt_or_def split: if_splits option.splits)
  with that wl show thesis by (simp add: asks_def)
qed

lemma pod_owner_logged:
  assumes "podOwner (logged b) pod ns wl = (r, wl')"
  obtains c where "snd wl' = snd wl @ [c]"
    "\<forall>owner. r = Inr owner \<longrightarrow> succeeded c \<and> or_apiVersion owner = ''v1'' \<and> or_kind owner = ''Pod'' \<and> or_name owner = pod \<and> or_uid owner \<noteq> []"
proof -
  obtain w log where wl: "wl = (w, log)" by fastforce
  let ?args = "[''get'', ''pod'', pod, ''-n'', ns, ''-o'', ''jsonpath={.metadata.uid}'']"
  obtain res w1 where spawn: "kc_spawn b (kc_kubectl b) (baseArgs b @ ?args) None 30000 w = (res, w1)" by fastforce
  have base: "baseArgs (logged b) = baseArgs b" by (simp add: baseArgs_def logged_def)
  have "snd wl' = log @ [((baseArgs b @ ?args, None), res)] \<and>
      (\<forall>owner. r = Inr owner \<longrightarrow> succeeded ((baseArgs b @ ?args, None), res) \<and> or_apiVersion owner = ''v1'' \<and> or_kind owner = ''Pod'' \<and> or_name owner = pod \<and> or_uid owner \<noteq> [])"
    using assms spawn unfolding wl podOwner_def kubectl_run_def base
    by (cases res) (auto simp: logged_def and_then_def ret_def fail_with_def succeeded_def opt_or_def Let_def split: if_splits option.splits)
  then show thesis using wl by (intro that) auto
qed

definition own_policy :: "KubernetesResourceClass \<Rightarrow> string \<Rightarrow> string \<Rightarrow> string \<Rightarrow> string \<Rightarrow> json" where
  "own_policy rc ns pod i uid =
     buildSandboxNetworkPolicy ns (pod @ ''-network'') i (rc_network rc)
       (Some \<lparr>or_apiVersion = ''v1'', or_kind = ''Pod'', or_name = pod, or_uid = uid\<rparr>)"

lemma await_ready_logged:
  assumes "await_ready (logged b) rc ns pod i wl = (r, wl')"
  shows "\<exists>cs. snd wl' = snd wl @ cs \<and>
    (r = Inr () \<longrightarrow> (\<exists>get policy ready uid. cs = [get, policy, ready] \<and> list_all succeeded cs \<and> uid \<noteq> [] \<and> applies b (own_policy rc ns pod i uid) policy))"
proof -
  obtain r1 w1 where owner: "podOwner (logged b) pod ns wl = (r1, w1)" by (metis surj_pair)
  then obtain get where get: "snd w1 = snd wl @ [get]"
      "\<forall>owner. r1 = Inr owner \<longrightarrow> succeeded get \<and> or_apiVersion owner = ''v1'' \<and> or_kind owner = ''Pod'' \<and> or_name owner = pod \<and> or_uid owner \<noteq> []"
    by (rule pod_owner_logged)
  show ?thesis
  proof (cases r1)
    case (Inl e)
    with assms owner get(1) show ?thesis by (auto simp: await_ready_def and_then_def)
  next
    case (Inr o1)
    let ?policy = "buildSandboxNetworkPolicy ns (pod @ ''-network'') i (rc_network rc) (Some o1)"
    obtain r2 w2 where applied: "kubectl_apply (logged b) ?policy w1 = (r2, w2)" by (metis surj_pair)
    then obtain policy where policy: "snd w2 = snd w1 @ [policy]" "applies b ?policy policy" "(\<exists>x. r2 = Inr x) \<longleftrightarrow> succeeded policy"
      unfolding kubectl_apply_def applies_def by (rule run_ok_logged)
    from get(2) [rule_format, OF Inr] have o1: "?policy = own_policy rc ns pod i (or_uid o1)" by (cases o1) (simp add: own_policy_def)
    show ?thesis
    proof (cases r2)
      case (Inl e)
      with assms owner Inr applied get(1) policy(1) show ?thesis by (auto simp: await_ready_def and_then_def)
    next
      case r2: (Inr x)
      let ?args = "[''wait'', ''--for=condition=Ready'', ''pod/'' @ pod, ''-n'', ns,
          ''--timeout='' @ show_int ((kc_createTimeoutMs (logged b) + 999) div 1000) @ ''s'']"
      let ?message = "\<lambda>r. if cm_stderr r \<noteq> [] then cm_stderr r else ''Pod '' @ pod @ '' did not become Ready''"
      obtain r3 w3 where wait: "run_ok (logged b) ?args None (kc_createTimeoutMs (logged b) + 5000) ?message w2 = (r3, w3)" by (rule prod.exhaust)
      have "await_ready (logged b) rc ns pod i wl = (case r3 of Inl e \<Rightarrow> (Inl e, w3) | Inr _ \<Rightarrow> (Inr (), w3))"
        by (simp only: await_ready_def and_then_def owner [unfolded Inr] applied [unfolded r2] wait prod.case sum.case ret_def)
      then have "(r, wl') = (case r3 of Inl e \<Rightarrow> (Inl e, w3) | Inr _ \<Rightarrow> (Inr (), w3))"
        unfolding assms .
      then have r: "wl' = w3" "r = Inr () \<longrightarrow> (\<exists>x. r3 = Inr x)"
        by (auto split: sum.splits)
      from wait obtain ready where "snd w3 = snd w2 @ [ready]" "(\<exists>x. r3 = Inr x) \<longleftrightarrow> succeeded ready" by (rule run_ok_logged)
      with get policy o1 r Inr r2 show ?thesis
        by (intro exI [of _ "[get, policy, ready]"]) auto
    qed
  qed
qed

definition sandbox_pod :: "KubernetesResourceClass \<Rightarrow> labels option \<Rightarrow> string \<Rightarrow> string \<Rightarrow> json" where
  "sandbox_pod rc extra ns i = buildSandboxPod ns (pod_name_of (rc_id rc) i) i (labelled rc extra)"

text \<open>What a run of the process shows of an attempt to create a sandbox.\<close>

definition handed_out :: "'w KubectlSandboxBackend \<Rightarrow> KubernetesResourceClass \<Rightarrow> labels option \<Rightarrow> SandboxIdentity \<Rightarrow> kubectl_call list \<Rightarrow> bool" where
  "handed_out b rc extra sandbox cs \<longleftrightarrow>
     si_podName sandbox = pod_name_of (rc_id rc) (si_id sandbox) \<and>
     (\<exists>pod get policy ready uid. cs = [pod, get, policy, ready] \<and> list_all succeeded cs \<and> uid \<noteq> [] \<and>
        applies b (sandbox_pod rc extra (si_namespace sandbox) (si_id sandbox)) pod \<and>
        applies b (own_policy rc (si_namespace sandbox) (si_podName sandbox) (si_id sandbox) uid) policy)"

definition cleaned_up :: "'w KubectlSandboxBackend \<Rightarrow> KubernetesResourceClass \<Rightarrow> labels option \<Rightarrow> string \<Rightarrow> kubectl_call list \<Rightarrow> bool" where
  "cleaned_up b rc extra ns cs \<longleftrightarrow>
     (\<exists>i pod more. cs = pod # more \<and> applies b (sandbox_pod rc extra ns i) pod \<and>
        (if succeeded pod then more \<noteq> [] \<and> asks b (deletePodAndPolicyArgs (pod_name_of (rc_id rc) i) ns) None (last more) else more = []))"

lemma create_in_logged:
  assumes "create_in (logged b) rc extra ns wl = (out, wl')"
  shows "\<exists>cs. snd wl' = snd wl @ cs \<and>
    (case out of Inr sandbox \<Rightarrow> si_namespace sandbox = ns \<and> handed_out b rc extra sandbox cs | Inl e \<Rightarrow> cleaned_up b rc extra ns cs)"
proof -
  obtain i w0 where uuid: "kc_uuid (logged b) wl = (i, w0)" and same: "snd w0 = snd wl"
    by (cases wl; cases "kc_uuid b (fst wl)") (auto simp: logged_def)
  let ?name = "pod_name_of (rc_id rc) i"
  obtain r1 w1 where applied: "kubectl_apply (logged b) (sandbox_pod rc extra ns i) w0 = (r1, w1)" by (rule prod.exhaust)
  then obtain pod where pod: "snd w1 = snd w0 @ [pod]" "applies b (sandbox_pod rc extra ns i) pod" "(\<exists>x. r1 = Inr x) \<longleftrightarrow> succeeded pod"
    unfolding kubectl_apply_def applies_def by (rule run_ok_logged)
  note create = assms [unfolded create_in_def uuid Let_def prod.case, folded sandbox_pod_def, unfolded applied prod.case]
  show ?thesis
  proof (cases r1)
    case (Inl e)
    with create pod same show ?thesis by (auto simp: cleaned_up_def)
  next
    case r1: (Inr x)
    obtain r2 w2 where await: "await_ready (logged b) rc ns ?name i w1 = (r2, w2)" by (rule prod.exhaust)
    from await_ready_logged [OF this] obtain cs where cs: "snd w2 = snd w1 @ cs"
      "r2 = Inr () \<longrightarrow> (\<exists>get policy ready uid. cs = [get, policy, ready] \<and> list_all succeeded cs \<and> uid \<noteq> [] \<and> applies b (own_policy rc ns ?name i uid) policy)"
      by blast
    show ?thesis
    proof (cases r2)
      case (Inl e)
      obtain r3 w3 where delete: "deletePodAndPolicy (logged b) ?name ns w2 = (r3, w3)" by (rule prod.exhaust)
      then obtain c where "snd w3 = snd w2 @ [c]" "asks b (deletePodAndPolicyArgs ?name ns) None c"
        unfolding deletePodAndPolicy_def by (rule run_ok_logged)
      with create r1 await Inl delete cs(1) pod same show ?thesis
        by (intro exI [of _ "pod # cs @ [c]"]) (auto simp: cleaned_up_def)
    next
      case (Inr u)
      with create r1 await cs pod same show ?thesis
        by (intro exI [of _ "pod # cs"]) (auto simp: handed_out_def)
    qed
  qed
qed

lemma and_then_step: "m w = (r, w') \<Longrightarrow> and_then m f w = (case r of Inl e \<Rightarrow> (Inl e, w') | Inr x \<Rightarrow> f x w')"
  by (simp add: and_then_def split: sum.split)

lemma ensure_namespace_logged:
  assumes "ensureNamespace (logged b) bw = (r, bw')"
  shows "\<exists>pre. snd (bw_world bw') = snd (bw_world bw) @ pre \<and> (pre = [] \<or> (\<exists>c. pre = [c] \<and> applies b (buildRestrictedNamespace (kc_namespace b) []) c))"
proof (cases "bw_namespaceReady bw")
  case None
  have ns: "kc_namespace (logged b) = kc_namespace b" by (simp add: logged_def)
  obtain r1 w1 where applied: "kubectl_apply (logged b) (buildRestrictedNamespace (kc_namespace b) []) (bw_world bw) = (r1, w1)" by (rule prod.exhaust)
  then obtain c where "snd w1 = snd (bw_world bw) @ [c]" "applies b (buildRestrictedNamespace (kc_namespace b) []) c"
    unfolding kubectl_apply_def applies_def by (rule run_ok_logged)
  with assms None applied show ?thesis by (auto simp: ensureNamespace_def Let_def ns simp del: split_paired_Ex)
qed (use assms in \<open>auto simp: ensureNamespace_def\<close>)

lemma namespace_logged:
  assumes "(if ns = kc_namespace (logged b) then ensureNamespace (logged b)
      else and_then (on_cluster (kubectl_apply (logged b) (buildRestrictedNamespace ns []))) (\<lambda>_. ret ())) bw = (r, bw')"
  shows "\<exists>pre. snd (bw_world bw') = snd (bw_world bw) @ pre \<and> (pre = [] \<or> (\<exists>c. pre = [c] \<and> applies b (buildRestrictedNamespace ns []) c))"
proof (cases "ns = kc_namespace b")
  case True
  with assms ensure_namespace_logged [of b bw r bw'] show ?thesis by (simp add: logged_def)
next
  case False
  obtain r1 w1 where applied: "kubectl_apply (logged b) (buildRestrictedNamespace ns []) (bw_world bw) = (r1, w1)" by (rule prod.exhaust)
  then obtain c where "snd w1 = snd (bw_world bw) @ [c]" "applies b (buildRestrictedNamespace ns []) c"
    unfolding kubectl_apply_def applies_def by (rule run_ok_logged)
  moreover have "kc_namespace (logged b) = kc_namespace b" by (simp add: logged_def)
  ultimately show ?thesis using assms False applied
    by (cases r1) (auto simp: and_then_def on_cluster_def ret_def simp del: split_paired_Ex)
qed


text \<open>A cluster in which everything succeeds.\<close>

definition ready_kubectl :: "unit KubectlSandboxBackend" where
  "ready_kubectl =
     \<lparr>kc_namespace = ''ns'', kc_kubectl = ''kubectl'', kc_context = None, kc_createTimeoutMs = 120000, kc_defaultExecTimeoutMs = 600000,
      kc_spawn = (\<lambda>_ _ _ _ w. (Inr (Some 0, ''uid-1'', [], False), w)), kc_uuid = (\<lambda>w. (''0123456789ab'', w)), kc_now = (\<lambda>_. 7)\<rparr>"

lemma ready_creates:
  "\<exists>sandbox bw'. kubectl_create (logged ready_kubectl) rc None None \<lparr>bw_namespaceReady = None, bw_world = ((), [])\<rparr> = (Inr sandbox, bw') \<and>
     si_namespace sandbox = ''ns''"
proof -
  have "js_trim ''uid-1'' = ''uid-1''" by (simp add: js_trim_def is_space_def)
  then show ?thesis
    by (simp add: kubectl_create_def and_then_def lift_result_def ensureNamespace_def kubectl_apply_def run_ok_def kubectl_run_def logged_def
        ready_kubectl_def on_cluster_def create_in_def await_ready_def podOwner_def ret_def Let_def opt_or_def)
qed


subsection \<open>The changes of the working tree\<close>

lemma cut_one_line: "newline \<notin> set text \<Longrightarrow> newline \<notin> set (piece text) \<Longrightarrow> cut_lines piece text = piece text"
proof -
  assume lines: "newline \<notin> set text" "newline \<notin> set (piece text)"
  then have "dropWhile (\<lambda>c. c = newline) (rev (piece text)) = rev (piece text)"
    by (auto simp: dropWhile_eq_self_iff hd_rev dest: last_in_set)
  with lines(1) show ?thesis by (simp add: cut_lines_def split_on_no_sep)
qed

text \<open>
  Every entry that git reports, whose path has no newline, is listed with its path, as deleted exactly when its
  status has a D, and as a link exactly when it is one; entries of the repository's own metadata are left out.
\<close>

theorem git_changes_listed:
  assumes "\<forall>(status, path) \<in> set entries. length status = 2 \<and> newline \<notin> set (status @ path) \<and> CHR 0x00 \<notin> set (status @ path)"
    and "\<forall>path target. link path = Some target \<longrightarrow> CHR 0x00 \<notin> set target"
  shows "parse_changes (split_on (CHR 0x00) (concat (map (\<lambda>(status, path). loop_record link (status @ '' '' @ path)) entries))) =
    [\<lparr>sc_path = path, sc_deleted = (CHR ''D'' \<in> set status), sc_symlink = (link path \<noteq> None)\<rparr>.
       (status, path) \<leftarrow> entries, path \<noteq> [] \<and> \<not> prefix ''.git/'' path]"
  using assms(1)
proof (induction entries)
  case (Cons entry entries)
  obtain status path where entry: "entry = (status, path)" by fastforce
  with Cons.prems have status: "length status = 2" "newline \<notin> set status" "CHR 0x00 \<notin> set status"
    and path: "newline \<notin> set path" "CHR 0x00 \<notin> set path" by auto
  have cut: "cut_lines (take 2) (status @ CHR '' '' # path) = status" "cut_lines (drop 3) (status @ CHR '' '' # path) = path"
    using status path cut_one_line [of "status @ CHR '' '' # path" "take 2"] cut_one_line [of "status @ CHR '' '' # path" "drop 3"] by auto
  define kind where "kind = (if link path = None then ''F'' else ''L'')"
  define target where "target = (case link path of None \<Rightarrow> [] | Some t \<Rightarrow> t)"
  have out: "loop_record link (status @ CHR '' '' # path) = path @ CHR 0x00 # status @ CHR 0x00 # kind @ CHR 0x00 # target @ [CHR 0x00]"
    by (simp add: loop_record_def cut kind_def target_def split: option.split)
  have kind: "kind = (if link path = None then ''F'' else ''L'')" "CHR 0x00 \<notin> set target"
    using assms(2) by (auto simp: kind_def target_def split: option.split)
  have "CHR 0x00 \<notin> set kind" using kind(1) by simp
  with Cons.IH Cons.prems status path kind show ?case
    by (auto simp: entry out split_on_append_sep split_on_no_sep)
qed simp

theorem git_changes_listed_witness:
  "parse_changes (split_on (CHR 0x00) (concat (map (\<lambda>(status, path). loop_record (\<lambda>_. None) (status @ '' '' @ path)) [('' D'', ''a b'')]))) =
     [\<lparr>sc_path = ''a b'', sc_deleted = True, sc_symlink = False\<rparr>]"
  using git_changes_listed [of "[('' D'', ''a b'')]" "\<lambda>_. None"] by simp

subsection \<open>Where the backend falls short\<close>

text \<open>A path with a newline in it is listed as another path.\<close>

lemma newline_path_mangled:
  "parse_changes (split_on (CHR 0x00) (loop_record (\<lambda>_. None) (''?? a'' @ [newline] @ ''bcde''))) =
     [\<lparr>sc_path = ''a'' @ [newline] @ ''e'', sc_deleted = False, sc_symlink = False\<rparr>]"
  by code_simp

text \<open>
  When the namespace could not be applied once, every later sandbox in it is refused with the same error, in
  whatever state the cluster is by then.
\<close>

lemma namespace_failure_sticks:
  assumes "ensureNamespace b bw = (Inl e, bw')"
  shows "kubectl_create b rc extra None (bw'\<lparr>bw_world := w\<rparr>) = (Inl e, bw'\<lparr>bw_world := w\<rparr>)"
proof -
  have "bw_namespaceReady bw' = Some (Inl e)"
    using assms by (auto simp: ensureNamespace_def Let_def split: option.splits prod.splits)
  then show ?thesis by (simp add: kubectl_create_def and_then_def lift_result_def ensureNamespace_def)
qed

text \<open>
  The deletion covers what follows the application of the pod only: when that call itself fails, for instance
  because it took longer than its minute, nothing is deleted, whether the cluster has the pod by then or not.
\<close>

lemma failed_apply_leaves_pod:
  assumes "kc_uuid b w = (i, w0)" "kubectl_apply b (buildSandboxPod ns (pod_name_of (rc_id rc) i) i (labelled rc extra)) w0 = (Inl e, w1)"
  shows "create_in b rc extra ns w = (Inl e, w1)"
  using assms by (simp add: create_in_def)

text \<open>The target of a link loses the blanks at its ends.\<close>

lemma link_target_trimmed:
  assumes "pod_spawn b (in_pod sandbox [''readlink'', ''/workspace/'' @ p]) None (kc_defaultExecTimeoutMs b) w = (Inr (Some 0, '' t'' @ [newline], [], False), w')"
    and "normal_path p"
  shows "kubectl_readSymlink b sandbox p w = (Inr ''t'', w')"
proof -
  have "js_trim ('' t'' @ [newline]) = ''t''" by (simp add: js_trim_def is_space_def)
  with assms show ?thesis by (auto simp: kubectl_readSymlink_def at_path_Inr safe_normal_path)
qed

end
