(* ===== verification/Spec2Isabelle.thy ===== *)
theory Spec2Isabelle
  imports Leases Mailbox Runtime_State Broker Workspace_Laws Text_Replace Blobs Artifacts Codec Synthetic
    Postgres_Control Postgres_Laws Lanes_Laws Tenant_Policy Router_Laws Graph_Laws Pool_Laws Project_Cell_Laws Sandbox_Executor_Laws Run_Turn_Laws Agent_Workflow_Laws
    Gym_Tools_Laws Gym_Durable_Laws Kubectl_Laws
begin

text \<open>
  \<^bold>\<open>A verification library for the agent runtime\<close>

  The program (TypeScript, under \<^verbatim>\<open>src/src\<close> and \<^verbatim>\<open>src/integrations\<close>) runs language-model agents durably. A Temporal
  workflow owns an agent and its mailbox; each turn is an activity that asks a model gateway and executes the
  tool calls it gets back as \<^emph>\<open>effects\<close>; an execution broker runs an effect on a rung, which is an in-memory
  workspace or a sandbox pod, and keeps a receipt under the effect's id so that a retry does not run it again.
  Around that are the control plane in PostgreSQL (leases, mailboxes, receipts, events), the artifact store,
  the gateway itself (tenants, lanes, routes), a graph interpreter that composes turns, and the pool of
  sandboxes with the manifests and project cells it needs.

  \<^bold>\<open>Theories and code\<close>

  Every component has a theory with its records, datatypes and operations, under the source's names, and where
  the proofs are long a second theory \<open>..._Laws\<close> with them. \<open>Prelude\<close> has what they share: insertion-ordered maps
  (\<open>jsmap\<close>, for \<^verbatim>\<open>Map\<close> and plain objects), JSON values, runs of operations, decimal numbers, split and join.

  \<^item> Control plane. \<open>Leases\<close> (\<^verbatim>\<open>control-plane/lease.ts\<close>): fencing tokens; \<open>Mailbox\<close> (\<^verbatim>\<open>control-plane/mailbox.ts\<close>): append, read,
    acknowledge; \<open>Runtime_State\<close> (\<^verbatim>\<open>durability/*runtime-state.ts\<close>, \<^verbatim>\<open>temporal/src/receipt-store.ts\<close>): effect receipts,
    commands, turns and checkpoints, in memory and in Temporal's heartbeat details. Each store's interface is a
    locale with the laws its clients rely on (\<open>lease_provider\<close>, \<open>mailbox_provider\<close>, \<open>effect_receipts\<close>), interpreted
    on the in-memory and on the PostgreSQL stores.
  \<^item> PostgreSQL. \<open>Postgres_Control\<close> and \<open>Postgres_Persistence\<close> (\<^verbatim>\<open>postgres/*.ts\<close>): each SQL statement is one atomic step on
    tables; an operation of several statements takes the interference between them as an argument.
  \<^item> Effects. \<open>Effects\<close>, \<open>Broker\<close> (\<^verbatim>\<open>execution/types.ts\<close>, \<^verbatim>\<open>broker.ts\<close>): the broker is cut at its awaits, and workers on one
    store interleave; its client lemmas are in the locale \<open>broker_store\<close> over \<open>effect_receipts\<close>.
  \<^item> Workspaces. \<open>Paths\<close>, \<open>Workspace\<close>, \<open>Codec\<close>, \<open>Text_Replace\<close>, \<open>Synthetic\<close> (\<^verbatim>\<open>workspace/*.ts\<close>, \<^verbatim>\<open>execution/synthetic.ts\<close>):
    path normalization against a reference resolver, the overlay workspace with links, tombstones and
    transactions, exact replacement, snapshot and diff codecs, and the executor on top.
  \<^item> Artifacts. \<open>Blobs\<close>, \<open>Artifacts\<close> (\<^verbatim>\<open>artifacts/*.ts\<close>): content-addressed blobs on a file system, tenants, quotas, the
    index and the retention sweep.
  \<^item> Gateway. \<open>Lanes\<close>, \<open>Tenant_Policy\<close>, \<open>Router\<close> (\<^verbatim>\<open>inference/gateway/*.ts\<close>): the priority scheduler, rate limits, the profile
    router with health, affinity and retry hints.
  \<^item> Graphs. \<open>Graph\<close> (\<^verbatim>\<open>temporal/src/graph.ts\<close>, \<^verbatim>\<open>graph-workflow.ts\<close>): validation and the interpreter with its journal.
  \<^item> Sandboxes. \<open>Resource_Class\<close>, \<open>Pool\<close>, \<open>Manifests\<close>, \<open>Project_Cell\<close>, \<open>Workspace_Sync\<close>, \<open>Sandbox_Executor\<close>
    (\<^verbatim>\<open>execution/kubernetes/*.ts\<close>): the warm pool as a step relation, pods and network policies as JSON with the part of
    their semantics the isolation claims need, cells, the synchronizer between a workspace and a pod, and the two
    executors on pods. \<open>Kubectl_Backend\<close> (\<^verbatim>\<open>kubectl-backend.ts\<close>): the backend they all run on, over the \<^verbatim>\<open>kubectl\<close> process.
  \<^item> Turns. \<open>Gateway_Engine\<close> (\<^verbatim>\<open>runtime/gateway-engine.ts\<close>) and \<open>Run_Turn\<close> (\<^verbatim>\<open>temporal/src/gateway-run-turn.ts\<close>): the turn body, the
    activity around it and the rungs of a worker process.
  \<^item> Agents. \<open>Agent_Workflow\<close> (\<^verbatim>\<open>temporal/src/workflows.ts\<close>, \<^verbatim>\<open>correlation.ts\<close>): the durable agent as a machine whose events are what
    can happen at an await: signals, the end of a turn, of a wait, of a park.
  \<^item> Gym. \<open>Gym_Scoring\<close>, \<open>Gym_Tools\<close>, \<open>Gym_Turn\<close>, \<open>Gym_Attempt\<close> (\<^verbatim>\<open>gym/*.ts\<close>): a patch judged on held-out cases, the tools of an
    attempt over its runners, the turn protocol with its checkpoints, the loop of an attempt; \<open>Gym_Durable\<close>
    (\<^verbatim>\<open>temporal/src/gym-*.ts\<close>): the same as activities and a workflow.

  \<^bold>\<open>What the lemmas show\<close>

  Invariants by induction over runs or over a step relation (leases, mailboxes, lanes, pool, cells); at-most-once
  execution and replay under every interleaving of workers; refinement of the in-memory stores by the PostgreSQL
  ones; exactness of the workspace's reads, deletes and diffs, and of what a sandbox holds after it was
  materialized; isolation of tenants, of failed effects and imports, of scored turns, and of the network of a
  shipped sandbox class; round trips of the codecs and of checkpoints; termination of the graph interpreter;
  error behaviour of every failing path of the executors; that a gym attempt passes only on a patch which the
  isolated scorer passed, that nothing the agent sees or does depends on the expected answers, and that an
  interrupted attempt continues as if it had not been; that a pod's files and changes come through the shell
  commands unchanged, and that no sandbox is handed out without its policy. Lemmas on concrete states at the end of a theory record
  where the code falls short of what it says.

  \<^bold>\<open>Abstractions\<close>

  \<^item> Text is its UTF-8 bytes, so encoders are the identity; white space and case are those of ASCII; indices into
    text count bytes. Floating-point times, rates and scores are exact rationals or integers.
  \<^item> Code that is not in the repository is a parameter: \<^verbatim>\<open>JSON.parse\<close>, hashes, \<^verbatim>\<open>Date.parse\<close>, \<^verbatim>\<open>Number\<close>, \<^verbatim>\<open>fetch\<close>, the cluster
    behind a sandbox backend, the file system of the blob store, the clock. What a theorem needs of them is a
    hypothesis of that theorem, with a witness.
  \<^item> Asynchronous code is cut where another caller can run: the broker, the pool, the lanes and the PostgreSQL
    operations are steps that interleave. In the pool \<^verbatim>\<open>reset\<close> and \<^verbatim>\<open>verifyReset\<close> are one step and the loop of \<^verbatim>\<open>maintain\<close> may
    create at any time. Cells run under their lock. A fan-out of a graph runs its children one after the other,
    which the journal makes equivalent. Executors and turns run without interleaving.
  \<^item> Loops that the source bounds have that bound as fuel: symlink resolution its depth of 16 and the reading of links of a source the
    limit of the code. The turn of the durable gym may park and retry forever: its fuel is the number of activity calls, running
    out is \<open>None\<close>, and enough fuel is shown to exist whenever the failures end. All other recursion is structural or has a termination proof; the graph interpreter is
    total on validated graphs.

  \<^bold>\<open>Not modelled\<close>

  The HTTP servers and process entry points; the \<^verbatim>\<open>git\<close> subprocess wrappers, which stand behind the source of a workspace;
  provider configuration from the environment; metrics, traces and logs; the fixtures of gym tasks and the cache of
  persistent gym sandboxes; the session supervisor; the live and fault drivers under \<^verbatim>\<open>src/integrations\<close>, which are test
  programs; the adapters for other agent stacks; and the archived code under \<^verbatim>\<open>docs/history\<close>.
\<close>

subsection \<open>From the gateway to the agent\<close>

text \<open>
  C32: the end of a refused request. When the gateway answers a turn with an error status, the agent ends as failed if the status cannot
  succeed on retry (or as cancelled if it was), and otherwise waits with its messages untouched: exactly
  as long as the server asked with a 429 or 503, if that is at most an hour, and else for its own backoff.
\<close>

theorem refusal_reaches_agent:
  fixes now :: rat and w :: "'r agent_workflow"
  assumes "marks_kept wrap" and "wf_phase w = InTurn n"
    and turn: "resolve_rung opts input wk = (Inr rung, wk1)" "finish_rung rung wk2 = (Inr (), wk3)"
      "gw_fetch opts (model_request (turn_engine opts input rung) (map toAgentMessage (ti_messages input))) (gw_heartbeat opts rung wk1) = (Inr response, wk2)"
      "\<not> (200 \<le> hs_status response \<and> hs_status response \<le> 299)"
  defines "hint \<equiv> parseRetryHintMs (gw_hints opts) (hs_headers response) now"
  shows "\<exists>e w'. fst (runTurn opts input attempt startedAt now wk) = Inl e \<and> wf_step (TurnFailed (wrap e) t) w = Some w' \<and>
    as_mailbox (wf_state w') = as_mailbox (wf_state w) \<and>
    (if hs_status response \<in> {400, 401, 402, 403, 404, 422}
     then wf_phase w' = Returned \<and> as_status (wf_state w') = (if wf_cancelled w then Cancelled else Failed)
     else as_status (wf_state w') = Waiting \<and>
       wf_phase w' = Parked (if hs_status response \<in> {429, 503} \<and> clampParkHintMs hint \<noteq> None then the hint
         else nextParkBackoffMs (Suc (wf_parkAttempt w)) (as_parkBackoff (wf_state w))))"
proof -
  note turn_fails = http_failure [OF turn, where now = now and attempt = attempt and startedAt = startedAt, folded hint_def]
  have wrapped: "isNonRetryableFailure (wrap (NonRetryable m c))" "\<not> isNonRetryableFailure (wrap (RateLimited m h))"
      "\<not> isNonRetryableFailure (wrap (TurnError x))" "retryAfterMsFromError (wrap (RateLimited m h)) = Some h"
      "retryAfterMsFromError (wrap (TurnError x)) = None" for m c h x
    using assms(1) by (auto simp: marks_kept_def)
  have clamped: "clampParkHintMs None = None" "clampParkHintMs (Some h) = Some v \<Longrightarrow> v = h" for h v
    by (auto simp: clampParkHintMs_def split: if_splits)
  show ?thesis
    using assms(2) unfolding turn_fails
    by (cases hint; cases "clampParkHintMs hint")
      (auto simp: turn_failed_def park_def finish_workflow_def wrapped clamped Let_def dest: clamped(2))
qed

theorem refusal_reaches_agent_witness:
  "\<exists>e w'. fst (runTurn (sample_turn 401) (sample_input False) 1 0 1 empty_worker) = Inl e \<and>
     wf_step (TurnFailed (wrapped_failure e) 2) (wake_up 1 (start_workflow idle_agent 0)) = Some w' \<and> as_status (wf_state w') = Failed"
proof -
  let ?w = "wake_up 1 (start_workflow idle_agent 0)" and ?response = "\<lparr>hs_status = 401, hs_headers = [], hs_body = ''reply''\<rparr>"
  have turn: "wf_phase ?w = InTurn 1" "\<not> wf_cancelled ?w"
    by (simp_all add: start_workflow_def loop_head_def wake_up_def idle_agent_def)
  obtain rung w1 where rung: "resolve_rung (sample_turn 401) (sample_input False) empty_worker = (Inr rung, w1)" "\<And>w. finish_rung rung w = (Inr (), w)"
    using sample_resolves [of 401] by blast
  have fetch: "gw_fetch (sample_turn 401) r (gw_heartbeat (sample_turn 401) rung w1) = (Inr ?response, w1\<lparr>wk_world := [(''asked'', SFile [])]\<rparr>)" for r
    by (simp add: sample_turn_def)
  from refusal_reaches_agent [OF wrapped_marks turn(1) rung fetch, where attempt = 1 and startedAt = 0 and now = 1 and t = 2] turn(2)
  show ?thesis by (auto simp del: wf_step.simps)
qed

end
